(* ===== verification/Prelude.thy ===== *)
theory Prelude
  imports Main "HOL-Library.Word"
begin

text \<open>
  Shared vocabulary of the development.

  \<^item> Rust's \<open>Result<T, E>\<close> is the sum \<open>'e + 'a\<close> (\<open>Inl\<close> is \<open>Err\<close>); \<open>and_then\<close> is the
    \<open>?\<close> operator, \<open>map_err\<close> and \<open>ok_or\<close> are the methods of the same names.
  \<^item> A PostgreSQL transaction is \<open>transact\<close>: the body either fails, and the database is the one
    the transaction started from, or it commits the database it built.
  \<^item> Machine integers are words (\<open>u32\<close>) where the code receives them from a client, and \<open>int\<close>
    with an explicit range test where the code calls \<open>checked_add\<close>, \<open>try_from\<close> and so on.
\<close>

named_theorems result_simps "equations that evaluate Result combinators"
named_theorems row_simps "field updates of table rows"

type_synonym u32 = "32 word"
type_synonym u64 = "64 word"

subsection \<open>Result\<close>

definition and_then :: "'e + 'a \<Rightarrow> ('a \<Rightarrow> 'e + 'b) \<Rightarrow> 'e + 'b" where
  "and_then r f = (case r of Inl e \<Rightarrow> Inl e | Inr x \<Rightarrow> f x)"

definition map_err :: "('e \<Rightarrow> 'f) \<Rightarrow> 'e + 'a \<Rightarrow> 'f + 'a" where
  "map_err g r = (case r of Inl e \<Rightarrow> Inl (g e) | Inr x \<Rightarrow> Inr x)"

definition ok_or :: "'e \<Rightarrow> 'a option \<Rightarrow> 'e + 'a" where
  "ok_or e r = (case r of None \<Rightarrow> Inl e | Some x \<Rightarrow> Inr x)"

definition require :: "bool \<Rightarrow> 'e \<Rightarrow> 'e + unit" where
  "require b e = (if b then Inr () else Inl e)"

definition is_ok :: "'e + 'a \<Rightarrow> bool" where
  "is_ok r = (case r of Inl _ \<Rightarrow> False | Inr _ \<Rightarrow> True)"

lemma and_then_simps [simp, result_simps]:
  "and_then (Inl e) f = Inl e"
  "and_then (Inr x) f = f x"
  by (simp_all add: and_then_def)

lemma and_then_eq_Inr [simp]:
  "and_then r f = Inr y \<longleftrightarrow> (\<exists>x. r = Inr x \<and> f x = Inr y)"
  by (cases r) simp_all

lemma and_thenE:
  assumes "and_then r f = Inr y"
  obtains x where "r = Inr x" "f x = Inr y"
  using assms by auto

lemma and_then_eq_Inl:
  "and_then r f = Inl e \<longleftrightarrow> r = Inl e \<or> (\<exists>x. r = Inr x \<and> f x = Inl e)"
  by (cases r) simp_all

lemma and_then_InlE:
  assumes "and_then r f = Inl e"
  obtains "r = Inl e" | x where "r = Inr x" "f x = Inl e"
  using assms by (auto simp: and_then_eq_Inl)

lemma map_err_simps [simp, result_simps]:
  "map_err g (Inl e) = Inl (g e)"
  "map_err g (Inr x) = Inr x"
  by (simp_all add: map_err_def)

lemma map_err_eq_Inr [simp]: "map_err g r = Inr y \<longleftrightarrow> r = Inr y"
  by (cases r) simp_all

lemma ok_or_simps [simp, result_simps]:
  "ok_or e None = Inl e"
  "ok_or e (Some x) = Inr x"
  by (simp_all add: ok_or_def)

lemma ok_or_eq_Inr [simp]: "ok_or e r = Inr y \<longleftrightarrow> r = Some y"
  by (cases r) simp_all

lemma ok_or_eq_Inl [simp]: "ok_or e r = Inl e' \<longleftrightarrow> r = None \<and> e' = e"
  by (cases r) auto

lemma require_eq_Inr [simp]: "require b e = Inr u \<longleftrightarrow> b"
  by (simp add: require_def)

lemma require_eq_Inl [simp]: "require b e = Inl e' \<longleftrightarrow> \<not> b \<and> e' = e"
  by (auto simp: require_def)

lemma require_simps [simp, result_simps]:
  "require True e = Inr ()"
  "require False e = Inl e"
  by (simp_all add: require_def)

lemma is_ok_simps [simp, result_simps]:
  "is_ok (Inl e) = False"
  "is_ok (Inr x) = True"
  by (simp_all add: is_ok_def)

text \<open>A loop whose body may return early with an error.\<close>

fun try_fold :: "('s \<Rightarrow> 'a \<Rightarrow> 'e + 's) \<Rightarrow> 's \<Rightarrow> 'a list \<Rightarrow> 'e + 's" where
  "try_fold f s [] = Inr s"
| "try_fold f s (x # xs) = and_then (f s x) (\<lambda>s'. try_fold f s' xs)"

lemma try_fold_invariant:
  assumes "try_fold f s xs = Inr s'" "I s"
    and "\<And>s x s'. x \<in> set xs \<Longrightarrow> I s \<Longrightarrow> f s x = Inr s' \<Longrightarrow> I s'"
  shows "I s'"
  using assms
proof (induction xs arbitrary: s)
  case (Cons x xs)
  from Cons.prems(1) obtain t where "f s x = Inr t" "try_fold f t xs = Inr s'" by auto
  with Cons.prems(2,3) have "I t" by auto
  with \<open>try_fold f t xs = Inr s'\<close> show ?case
    by (rule Cons.IH) (use Cons.prems(3) in auto)
qed simp

lemma try_fold_append:
  "try_fold f s (xs @ ys) = and_then (try_fold f s xs) (\<lambda>t. try_fold f t ys)"
proof (induction xs arbitrary: s)
  case (Cons x xs)
  then show ?case by (cases "f s x") simp_all
qed simp

subsection \<open>Transactions\<close>

definition transact :: "('d \<Rightarrow> 'e + ('a \<times> 'd)) \<Rightarrow> 'd \<Rightarrow> ('e + 'a) \<times> 'd" where
  "transact body d = (case body d of Inl e \<Rightarrow> (Inl e, d) | Inr (x, d') \<Rightarrow> (Inr x, d'))"

lemma transact_Inl [simp]: "body d = Inl e \<Longrightarrow> transact body d = (Inl e, d)"
  by (simp add: transact_def)

lemma transact_Inr [simp]: "body d = Inr (x, d') \<Longrightarrow> transact body d = (Inr x, d')"
  by (simp add: transact_def)

lemma transact_eq_InrD:
  "transact body d = (Inr x, d') \<Longrightarrow> body d = Inr (x, d')"
  by (auto simp: transact_def split: sum.splits)

lemma transact_eq_InlD:
  "transact body d = (Inl e, d') \<Longrightarrow> body d = Inl e \<and> d' = d"
  by (auto simp: transact_def split: sum.splits)

lemma transact_rollback:
  "fst (transact body d) = Inl e \<Longrightarrow> snd (transact body d) = d"
  by (auto simp: transact_def split: sum.splits)

lemma transact_preserves:
  assumes "I d" and "\<And>x d'. body d = Inr (x, d') \<Longrightarrow> I d'"
  shows "I (snd (transact body d))"
  using assms by (auto simp: transact_def split: sum.splits)

subsection \<open>Machine integers\<close>

definition i32_max :: int where "i32_max = 2147483647"
definition i64_max :: int where "i64_max = 9223372036854775807"
definition u32_max :: int where "u32_max = 4294967295"

definition in_i32 :: "int \<Rightarrow> bool" where "in_i32 n \<longleftrightarrow> - i32_max - 1 \<le> n \<and> n \<le> i32_max"
definition in_i64 :: "int \<Rightarrow> bool" where "in_i64 n \<longleftrightarrow> - i64_max - 1 \<le> n \<and> n \<le> i64_max"
definition in_u32 :: "int \<Rightarrow> bool" where "in_u32 n \<longleftrightarrow> 0 \<le> n \<and> n \<le> u32_max"

lemmas int_range_defs = i32_max_def i64_max_def u32_max_def in_i32_def in_i64_def in_u32_def

text \<open>\<open>i64::checked_add\<close>, \<open>checked_sub\<close>, \<open>checked_mul\<close>, \<open>u32::checked_add\<close>, \<open>u32::try_from\<close>.\<close>

definition checked_i64 :: "int \<Rightarrow> int option" where
  "checked_i64 n = (if in_i64 n then Some n else None)"

definition checked_u32 :: "int \<Rightarrow> int option" where
  "checked_u32 n = (if in_u32 n then Some n else None)"

definition checked_i32 :: "int \<Rightarrow> int option" where
  "checked_i32 n = (if in_i32 n then Some n else None)"

lemma checked_eq_Some [simp]:
  "checked_i64 n = Some m \<longleftrightarrow> m = n \<and> in_i64 n"
  "checked_u32 n = Some m \<longleftrightarrow> m = n \<and> in_u32 n"
  "checked_i32 n = Some m \<longleftrightarrow> m = n \<and> in_i32 n"
  by (auto simp: checked_i64_def checked_u32_def checked_i32_def)

lemma checked_in_range:
  "in_i64 n \<Longrightarrow> checked_i64 n = Some n" "in_u32 n \<Longrightarrow> checked_u32 n = Some n" "in_i32 n \<Longrightarrow> checked_i32 n = Some n"
  by simp_all

text \<open>\<open>i32::try_from(q).unwrap_or(i32::MAX)\<close> and \<open>q as i32\<close> for a \<open>u32\<close>.\<close>

definition i32_try_from_u32_or_max :: "u32 \<Rightarrow> int" where
  "i32_try_from_u32_or_max q = (if uint q \<le> i32_max then uint q else i32_max)"

definition u32_as_i32 :: "u32 \<Rightarrow> int" where
  "u32_as_i32 q = sint q"

lemma u32_as_i32_small:
  assumes "uint q \<le> i32_max"
  shows "u32_as_i32 q = uint q"
proof -
  have "sint q = signed_take_bit 31 (uint q)"
    by transfer (simp add: signed_take_bit_take_bit)
  moreover have "signed_take_bit 31 (uint q) = uint q"
  proof (rule signed_take_bit_int_eq_self)
    have "0 \<le> uint q" by simp
    then show "- (2 ^ 31) \<le> uint q" by (rule order_trans [rotated]) simp
    show "uint q < 2 ^ 31" using assms by (simp add: i32_max_def)
  qed
  ultimately show ?thesis by (simp add: u32_as_i32_def)
qed

lemma i32_try_from_small:
  "uint q \<le> i32_max \<Longrightarrow> i32_try_from_u32_or_max q = uint q"
  by (simp add: i32_try_from_u32_or_max_def)

end
