(* ===== verification/RustStr.thy ===== *)
theory RustStr
  imports Prelude "HOL-Library.Char_ord" "HOL-Library.List_Lexorder" "HOL-Library.Sublist"
begin

text \<open>
  Rust's \<open>str\<close> as the code uses it. A \<open>&str\<close> is its UTF-8 byte sequence, so it is a \<open>string\<close>
  (a list of 8-bit \<open>char\<close>s) and \<open>len()\<close> is \<open>length\<close>. The operations that look at Unicode
  scalar values are written on the bytes: \<open>trim\<close> removes the encodings of the \<open>White_Space\<close>
  characters, \<open>chars().any(char::is_control)\<close> looks for the encodings of the category \<open>Cc\<close>.
  UTF-8 is self-synchronising, so on a valid string these are the operations on scalar values.
\<close>

definition byte :: "char \<Rightarrow> nat" where "byte c = of_char c"

definition is_ascii_digit :: "char \<Rightarrow> bool" where
  "is_ascii_digit c \<longleftrightarrow> 48 \<le> byte c \<and> byte c \<le> 57"

definition is_ascii_lowercase :: "char \<Rightarrow> bool" where
  "is_ascii_lowercase c \<longleftrightarrow> 97 \<le> byte c \<and> byte c \<le> 122"

definition is_ascii_uppercase :: "char \<Rightarrow> bool" where
  "is_ascii_uppercase c \<longleftrightarrow> 65 \<le> byte c \<and> byte c \<le> 90"

definition is_ascii_alphabetic :: "char \<Rightarrow> bool" where
  "is_ascii_alphabetic c \<longleftrightarrow> is_ascii_lowercase c \<or> is_ascii_uppercase c"

definition is_ascii_alphanumeric :: "char \<Rightarrow> bool" where
  "is_ascii_alphanumeric c \<longleftrightarrow> is_ascii_alphabetic c \<or> is_ascii_digit c"

lemmas ascii_defs = byte_def is_ascii_digit_def is_ascii_lowercase_def is_ascii_uppercase_def
  is_ascii_alphabetic_def is_ascii_alphanumeric_def

definition to_ascii_upper_char :: "char \<Rightarrow> char" where
  "to_ascii_upper_char c = (if is_ascii_lowercase c then char_of (byte c - 32) else c)"

definition to_ascii_lower_char :: "char \<Rightarrow> char" where
  "to_ascii_lower_char c = (if is_ascii_uppercase c then char_of (byte c + 32) else c)"

definition to_ascii_uppercase :: "string \<Rightarrow> string" where
  "to_ascii_uppercase s = map to_ascii_upper_char s"

definition to_ascii_lowercase :: "string \<Rightarrow> string" where
  "to_ascii_lowercase s = map to_ascii_lower_char s"

lemma byte_less_256 [simp]: "byte c < 256"
proof -
  have "of_char c mod 256 = (of_char c :: nat)" by simp
  then show ?thesis unfolding byte_def by (metis mod_less_divisor zero_less_numeral)
qed

lemma byte_char_of [simp]: "n < 256 \<Longrightarrow> byte (char_of n) = n"
  by (simp add: byte_def)

lemma byte_inject [simp]: "byte a = byte b \<longleftrightarrow> a = b"
  by (simp add: byte_def)

lemma to_ascii_upper_fixed_iff:
  "to_ascii_upper_char c = c \<longleftrightarrow> \<not> is_ascii_lowercase c"
proof (cases "is_ascii_lowercase c")
  case True
  have "byte (char_of (byte c - 32)) = byte c - 32"
    using byte_less_256 [of c] by (intro byte_char_of) linarith
  with True have "byte (to_ascii_upper_char c) \<noteq> byte c"
    unfolding to_ascii_upper_char_def is_ascii_lowercase_def by (clarsimp, linarith)
  then show ?thesis using True by auto
qed (simp add: to_ascii_upper_char_def)

text \<open>A three-letter code is an upper-case fixed point exactly when no letter is lower case.\<close>

lemma to_ascii_uppercase_fixed_iff:
  "to_ascii_uppercase s = s \<longleftrightarrow> (\<forall>c \<in> set s. \<not> is_ascii_lowercase c)"
  unfolding to_ascii_uppercase_def
  by (induction s) (auto simp: to_ascii_upper_fixed_iff)

subsection \<open>White space and control characters\<close>

definition is_ws1 :: "char \<Rightarrow> bool" where
  "is_ws1 a \<longleftrightarrow> (9 \<le> byte a \<and> byte a \<le> 13) \<or> byte a = 32"

definition is_ws2 :: "char \<Rightarrow> char \<Rightarrow> bool" where
  "is_ws2 a b \<longleftrightarrow> byte a = 194 \<and> (byte b = 133 \<or> byte b = 160)"

definition is_ws3 :: "char \<Rightarrow> char \<Rightarrow> char \<Rightarrow> bool" where
  "is_ws3 a b c \<longleftrightarrow>
     (byte a = 225 \<and> byte b = 154 \<and> byte c = 128)
   \<or> (byte a = 226 \<and> byte b = 128
        \<and> ((128 \<le> byte c \<and> byte c \<le> 138) \<or> byte c = 168 \<or> byte c = 169 \<or> byte c = 175))
   \<or> (byte a = 226 \<and> byte b = 129 \<and> byte c = 159)
   \<or> (byte a = 227 \<and> byte b = 128 \<and> byte c = 128)"

fun trim_start :: "string \<Rightarrow> string" where
  "trim_start [] = []"
| "trim_start [a] = (if is_ws1 a then [] else [a])"
| "trim_start [a, b] =
     (if is_ws1 a then trim_start [b] else if is_ws2 a b then [] else [a, b])"
| "trim_start (a # b # c # s) =
     (if is_ws1 a then trim_start (b # c # s)
      else if is_ws2 a b then trim_start (c # s)
      else if is_ws3 a b c then trim_start s
      else a # b # c # s)"

text \<open>\<open>trim_end\<close> scans the reversed bytes, so the multi-byte encodings are read backwards.\<close>

fun trim_end_rev :: "string \<Rightarrow> string" where
  "trim_end_rev [] = []"
| "trim_end_rev [a] = (if is_ws1 a then [] else [a])"
| "trim_end_rev [a, b] =
     (if is_ws1 a then trim_end_rev [b] else if is_ws2 b a then [] else [a, b])"
| "trim_end_rev (a # b # c # s) =
     (if is_ws1 a then trim_end_rev (b # c # s)
      else if is_ws2 b a then trim_end_rev (c # s)
      else if is_ws3 c b a then trim_end_rev s
      else a # b # c # s)"

definition trim_end :: "string \<Rightarrow> string" where
  "trim_end s = rev (trim_end_rev (rev s))"

definition trim :: "string \<Rightarrow> string" where
  "trim s = trim_end (trim_start s)"

fun has_control :: "string \<Rightarrow> bool" where
  "has_control [] = False"
| "has_control [a] = (byte a < 32 \<or> byte a = 127)"
| "has_control (a # b # s) =
     (byte a < 32 \<or> byte a = 127 \<or> (byte a = 194 \<and> 128 \<le> byte b \<and> byte b \<le> 159)
      \<or> has_control (b # s))"

definition blank :: "string \<Rightarrow> bool" where
  "blank s \<longleftrightarrow> trim s = []"

lemma trim_start_idem [simp]: "trim_start (trim_start s) = trim_start s"
  by (induction s rule: trim_start.induct) auto

lemma trim_end_rev_idem [simp]: "trim_end_rev (trim_end_rev s) = trim_end_rev s"
  by (induction s rule: trim_end_rev.induct) auto

lemma trim_end_idem [simp]: "trim_end (trim_end s) = trim_end s"
  by (simp add: trim_end_def)

lemma trim_end_rev_suffix: "suffix (trim_end_rev s) s"
  by (induction s rule: trim_end_rev.induct) (auto intro: suffix_ConsI)

lemma trim_end_prefix: "\<exists>w. s = trim_end s @ w"
proof -
  obtain w where "rev s = w @ trim_end_rev (rev s)" using trim_end_rev_suffix unfolding suffix_def by blast
  then have "s = rev (w @ trim_end_rev (rev s))" by (metis rev_rev_ident)
  then show ?thesis by (auto simp: trim_end_def)
qed

text \<open>A prefix of a string that does not start with white space does not either.\<close>

lemma trim_start_fixed_prefix:
  "trim_start (p @ w) = p @ w \<Longrightarrow> trim_start p = p"
proof (induction p rule: trim_start.induct)
  case (4 a b c s)
  have len: "length (trim_start t) \<le> length t" for t
    by (induction t rule: trim_start.induct) auto
  show ?case
  proof (rule ccontr)
    assume "trim_start (a # b # c # s) \<noteq> a # b # c # s"
    then have "is_ws1 a \<or> is_ws2 a b \<or> is_ws3 a b c" by (auto split: if_splits)
    then have "length (trim_start ((a # b # c # s) @ w)) < length ((a # b # c # s) @ w)"
      using len [of "b # c # s @ w"] len [of "c # s @ w"] len [of "s @ w"] by auto
    with "4.prems" show False by simp
  qed
next
  case (3 a b)
  have len: "length (trim_start t) \<le> length t" for t
    by (induction t rule: trim_start.induct) auto
  show ?case
  proof (cases w)
    case Nil with 3 show ?thesis by simp
  next
    case (Cons x xs)
    then show ?thesis
      using "3.prems" len [of "b # x # xs"] len [of "x # xs"]
      by (auto split: if_splits)
  qed
next
  case (2 a)
  have len: "length (trim_start t) \<le> length t" for t
    by (induction t rule: trim_start.induct) auto
  show ?case
  proof (rule ccontr)
    assume "trim_start [a] \<noteq> [a]"
    then have ws: "is_ws1 a" by (auto split: if_splits)
    have "length (trim_start (a # w)) \<le> length w"
    proof (cases w)
      case Nil with ws show ?thesis by simp
    next
      case (Cons x xs)
      then show ?thesis using ws len [of w] by (cases xs) auto
    qed
    with "2.prems" show False by simp
  qed
qed simp

lemma trim_idem [simp]: "trim (trim s) = trim s"
proof -
  obtain w where w: "trim_start s = trim s @ w"
    using trim_end_prefix [of "trim_start s"] by (auto simp: trim_def)
  have "trim_start (trim s @ w) = trim s @ w" by (metis w trim_start_idem)
  then have "trim_start (trim s) = trim s" by (rule trim_start_fixed_prefix)
  then show ?thesis by (simp add: trim_def)
qed

lemma length_trim_start: "length (trim_start s) \<le> length s"
  by (induction s rule: trim_start.induct) auto

lemma length_trim: "length (trim s) \<le> length s"
proof -
  obtain w where "trim_start s = trim s @ w"
    using trim_end_prefix [of "trim_start s"] by (auto simp: trim_def)
  then show ?thesis using length_trim_start [of s] by simp
qed

lemma blank_Nil [simp]: "blank []"
  by (simp add: blank_def trim_def trim_end_def)

lemma blank_trim [simp]: "blank (trim s) = blank s"
  by (simp add: blank_def)

lemma not_blank_nonempty: "\<not> blank s \<Longrightarrow> s \<noteq> []"
  by auto

text \<open>Trimming keeps the ASCII characters that are not white space.\<close>

definition ascii_text :: "char \<Rightarrow> bool" where
  "ascii_text c \<longleftrightarrow> \<not> is_ws1 c \<and> byte c < 128"

lemma ascii_text_ws:
  "ascii_text c \<Longrightarrow> \<not> is_ws1 c" "is_ws2 a b \<Longrightarrow> \<not> ascii_text a" "is_ws2 a b \<Longrightarrow> \<not> ascii_text b"
  "is_ws3 a b c \<Longrightarrow> \<not> ascii_text a" "is_ws3 a b c \<Longrightarrow> \<not> ascii_text b" "is_ws3 a b c \<Longrightarrow> \<not> ascii_text c"
  by (auto simp: ascii_text_def is_ws2_def is_ws3_def)

lemma ascii_kept_start: "c \<in> set s \<Longrightarrow> ascii_text c \<Longrightarrow> c \<in> set (trim_start s)"
  by (induction s rule: trim_start.induct) (auto dest: ascii_text_ws)

lemma ascii_kept_end: "c \<in> set s \<Longrightarrow> ascii_text c \<Longrightarrow> c \<in> set (trim_end_rev s)"
  by (induction s rule: trim_end_rev.induct) (auto dest: ascii_text_ws)

lemma ascii_kept: "c \<in> set s \<Longrightarrow> ascii_text c \<Longrightarrow> c \<in> set (trim s)"
  by (simp add: trim_def trim_end_def ascii_kept_start ascii_kept_end)

subsection \<open>Splitting and searching\<close>

text \<open>\<open>s.split(c)\<close>: at least one piece, the separators removed.\<close>

fun split_on :: "char \<Rightarrow> string \<Rightarrow> string list" where
  "split_on c [] = [[]]"
| "split_on c (x # xs) =
     (if x = c then [] # split_on c xs
      else (case split_on c xs of [] \<Rightarrow> [[x]] | p # ps \<Rightarrow> (x # p) # ps))"

fun split_once :: "char \<Rightarrow> string \<Rightarrow> (string \<times> string) option" where
  "split_once c [] = None"
| "split_once c (x # xs) =
     (if x = c then Some ([], xs)
      else (case split_once c xs of None \<Rightarrow> None | Some (a, b) \<Rightarrow> Some (x # a, b)))"

fun starts_with :: "string \<Rightarrow> string \<Rightarrow> bool" where
  "starts_with [] s = True"
| "starts_with (p # ps) [] = False"
| "starts_with (p # ps) (x # xs) = (p = x \<and> starts_with ps xs)"

fun str_contains :: "string \<Rightarrow> string \<Rightarrow> bool" where
  "str_contains pat [] = (pat = [])"
| "str_contains pat (x # xs) = (starts_with pat (x # xs) \<or> str_contains pat xs)"

fun join_with :: "char \<Rightarrow> string list \<Rightarrow> string" where
  "join_with c [] = []"
| "join_with c [p] = p"
| "join_with c (p # q # ps) = p @ c # join_with c (q # ps)"

lemma split_on_nonempty [simp]: "split_on c s \<noteq> []"
  by (induction s) (auto split: list.splits)

lemma join_split_on: "join_with c (split_on c s) = s"
proof (induction s)
  case (Cons x xs)
  obtain p ps where s: "split_on c xs = p # ps" by (cases "split_on c xs") auto
  with Cons.IH show ?case by (cases ps) auto
qed simp

lemma split_on_pieces: "p \<in> set (split_on c s) \<Longrightarrow> c \<notin> set p"
proof (induction s arbitrary: p)
  case (Cons x xs)
  obtain q qs where s: "split_on c xs = q # qs" by (cases "split_on c xs") auto
  with Cons show ?case by (auto split: if_splits)
qed simp

lemma split_on_no_sep [simp]: "c \<notin> set p \<Longrightarrow> split_on c p = [p]"
  by (induction p) auto

lemma split_on_append_sep:
  "c \<notin> set p \<Longrightarrow> split_on c (p @ c # s) = p # split_on c s"
  by (induction p) auto

text \<open>Splitting undoes joining pieces that do not hold the separator.\<close>

lemma split_join_with:
  assumes "ps \<noteq> []" "\<forall>p \<in> set ps. c \<notin> set p"
  shows "split_on c (join_with c ps) = ps"
  using assms
  by (induction c ps rule: join_with.induct) (auto simp: split_on_append_sep)

lemma split_once_append [simp]: "c \<notin> set a \<Longrightarrow> split_once c (a @ c # b) = Some (a, b)"
  by (induction a) auto

lemma split_once_SomeD: "split_once c s = Some (a, b) \<Longrightarrow> s = a @ c # b \<and> c \<notin> set a"
  by (induction s arbitrary: a b) (auto split: option.splits if_splits)

lemma split_once_Some:
  "split_once c s = Some (a, b) \<longleftrightarrow> s = a @ c # b \<and> c \<notin> set a"
  by (auto dest: split_once_SomeD)

lemma split_once_None: "split_once c s = None \<longleftrightarrow> c \<notin> set s"
  by (induction s) (auto split: option.splits)

subsection \<open>UTF-8 validity, decimal printing\<close>

text \<open>\<open>String::from_utf8\<close> succeeds on exactly the well-formed sequences of the Unicode standard.\<close>

definition cont_byte :: "char \<Rightarrow> bool" where
  "cont_byte c \<longleftrightarrow> 128 \<le> byte c \<and> byte c \<le> 191"

definition utf8_second :: "char \<Rightarrow> char \<Rightarrow> bool" where
  "utf8_second a b \<longleftrightarrow>
     (if byte a = 224 then 160 \<le> byte b \<and> byte b \<le> 191
      else if byte a = 237 then 128 \<le> byte b \<and> byte b \<le> 159
      else if byte a = 240 then 144 \<le> byte b \<and> byte b \<le> 191
      else if byte a = 244 then 128 \<le> byte b \<and> byte b \<le> 143
      else cont_byte b)"

fun valid_utf8 :: "string \<Rightarrow> bool" where
  "valid_utf8 [] = True"
| "valid_utf8 (a # s) =
     (if byte a < 128 then valid_utf8 s
      else if 194 \<le> byte a \<and> byte a \<le> 223 then
        (case s of b # t \<Rightarrow> cont_byte b \<and> valid_utf8 t | _ \<Rightarrow> False)
      else if 224 \<le> byte a \<and> byte a \<le> 239 then
        (case s of b # c # t \<Rightarrow> utf8_second a b \<and> cont_byte c \<and> valid_utf8 t | _ \<Rightarrow> False)
      else if 240 \<le> byte a \<and> byte a \<le> 244 then
        (case s of b # c # d # t \<Rightarrow>
           utf8_second a b \<and> cont_byte c \<and> cont_byte d \<and> valid_utf8 t | _ \<Rightarrow> False)
      else False)"

lemma valid_utf8_ascii: "\<forall>c \<in> set s. byte c < 128 \<Longrightarrow> valid_utf8 s"
  by (induction s) auto

fun digits :: "nat \<Rightarrow> string" where
  "digits n = (if n < 10 then [char_of (48 + n)] else digits (n div 10) @ [char_of (48 + n mod 10)])"

declare digits.simps [simp del]

definition int_to_string :: "int \<Rightarrow> string" where
  "int_to_string n = (if n < 0 then CHR ''-'' # digits (nat (- n)) else digits (nat n))"

text \<open>The value of a string of decimal digits.\<close>

definition undigits :: "string \<Rightarrow> nat" where
  "undigits s = foldl (\<lambda>n c. 10 * n + (byte c - 48)) 0 s"

lemma byte_digit [simp]: "k < 10 \<Longrightarrow> byte (char_of (48 + k)) = 48 + k"
  by (simp add: byte_def)

lemma undigits_digits [simp]: "undigits (digits n) = n"
proof (induction n rule: digits.induct)
  case (1 n)
  show ?case
  proof (cases "n < 10")
    case True
    then show ?thesis by (subst digits.simps) (simp add: undigits_def)
  next
    case False
    with 1 show ?thesis
      by (subst digits.simps) (simp add: undigits_def)
  qed
qed

lemma digits_inj [simp]: "digits m = digits n \<longleftrightarrow> m = n"
  by (metis undigits_digits)

lemma digits_are_digits: "c \<in> set (digits n) \<Longrightarrow> is_ascii_digit c"
proof (induction n arbitrary: c rule: digits.induct)
  case (1 n)
  show ?case
  proof (cases "n < 10")
    case True
    with "1.prems" show ?thesis by (subst (asm) digits.simps) (simp add: is_ascii_digit_def)
  next
    case False
    with 1 show ?thesis by (subst (asm) (2) digits.simps) (auto simp: is_ascii_digit_def)
  qed
qed

lemma digits_nonempty [simp]: "digits n \<noteq> []"
  by (subst digits.simps) simp

subsection \<open>Taking a number of characters\<close>

text \<open>\<open>s.chars().take(n)\<close> on UTF-8 bytes: continuation bytes belong to the character before.\<close>

fun take_chars :: "nat \<Rightarrow> string \<Rightarrow> string" where
  "take_chars n [] = []"
| "take_chars n (c # s) =
     (if cont_byte c then c # take_chars n s
      else case n of 0 \<Rightarrow> [] | Suc m \<Rightarrow> c # take_chars m s)"

definition char_count :: "string \<Rightarrow> nat" where
  "char_count s = length (filter (\<lambda>c. \<not> cont_byte c) s)"

lemma char_count_take_chars: "char_count (take_chars n s) = min n (char_count s)"
  by (induction n s rule: take_chars.induct) (auto simp: char_count_def split: nat.splits)

lemma take_chars_prefix: "prefix (take_chars n s) s"
  by (induction n s rule: take_chars.induct) (auto split: nat.splits)

lemma take_chars_all: "char_count s \<le> n \<Longrightarrow> take_chars n s = s"
  by (induction n s rule: take_chars.induct) (auto simp: char_count_def split: nat.splits if_splits)

end
