(* ===== verification/Tables.thy ===== *)
theory Tables
  imports Prelude "HOL-Library.Multiset"
begin

text \<open>
  The part of SQL the services use. A table is the list of its rows. \<open>UPDATE ... WHERE\<close> rewrites
  the rows that satisfy the predicate and fails as a whole when a rewritten row violates a
  \<open>CHECK\<close> or an integer range; \<open>INSERT\<close> fails when the primary key is taken; \<open>query_opt\<close> is
  tokio-postgres' \<open>Client::query_opt\<close>, which fails on more than one row.
\<close>

datatype sql_error = Check_violation | Unique_violation | Foreign_key_violation | Too_many_rows | No_row

definition update_where :: "('r \<Rightarrow> bool) \<Rightarrow> ('r \<Rightarrow> 'r) \<Rightarrow> 'r list \<Rightarrow> 'r list" where
  "update_where p f rows = map (\<lambda>r. if p r then f r else r) rows"

definition count_where :: "('r \<Rightarrow> bool) \<Rightarrow> 'r list \<Rightarrow> nat" where
  "count_where p rows = length (filter p rows)"

definition sql_update ::
  "('r \<Rightarrow> bool) \<Rightarrow> ('r \<Rightarrow> bool) \<Rightarrow> ('r \<Rightarrow> 'r) \<Rightarrow> 'r list \<Rightarrow> sql_error + (nat \<times> 'r list)" where
  "sql_update chk p f rows =
     (if list_all (\<lambda>r. p r \<longrightarrow> chk (f r)) rows
      then Inr (count_where p rows, update_where p f rows) else Inl Check_violation)"

definition sql_insert ::
  "('r \<Rightarrow> 'k) \<Rightarrow> ('r \<Rightarrow> bool) \<Rightarrow> 'r \<Rightarrow> 'r list \<Rightarrow> sql_error + 'r list" where
  "sql_insert key chk r rows =
     (if \<not> chk r then Inl Check_violation
      else if key r \<in> set (map key rows) then Inl Unique_violation
      else Inr (rows @ [r]))"

definition query_opt :: "'r list \<Rightarrow> sql_error + 'r option" where
  "query_opt rows = (case rows of [] \<Rightarrow> Inr None | [r] \<Rightarrow> Inr (Some r) | _ \<Rightarrow> Inl Too_many_rows)"

definition query_one :: "'r list \<Rightarrow> sql_error + 'r" where
  "query_one rows = (case rows of [] \<Rightarrow> Inl No_row | [r] \<Rightarrow> Inr r | _ \<Rightarrow> Inl Too_many_rows)"

text \<open>\<open>ORDER BY\<close> under a comparison the caller supplies (the database's collation is one).\<close>

fun insert_by :: "('r \<Rightarrow> 'r \<Rightarrow> bool) \<Rightarrow> 'r \<Rightarrow> 'r list \<Rightarrow> 'r list" where
  "insert_by le x [] = [x]"
| "insert_by le x (y # ys) = (if le x y then x # y # ys else y # insert_by le x ys)"

fun order_by :: "('r \<Rightarrow> 'r \<Rightarrow> bool) \<Rightarrow> 'r list \<Rightarrow> 'r list" where
  "order_by le [] = []"
| "order_by le (x # xs) = insert_by le x (order_by le xs)"

definition limit1 :: "'r list \<Rightarrow> 'r option" where
  "limit1 rows = (case rows of [] \<Rightarrow> None | r # _ \<Rightarrow> Some r)"

subsection \<open>Ordering\<close>

lemma mset_insert_by [simp]: "mset (insert_by le x ys) = add_mset x (mset ys)"
  by (induction ys) auto

lemma mset_order_by [simp]: "mset (order_by le xs) = mset xs"
  by (induction xs) auto

lemma set_order_by [simp]: "set (order_by le xs) = set xs"
  by (metis mset_order_by set_mset_mset)

lemma distinct_order_by [simp]: "distinct (order_by le xs) = distinct xs"
  by (metis mset_order_by mset_eq_imp_distinct_iff)

lemma distinct_map_order_by [simp]: "distinct (map g (order_by le xs)) = distinct (map g xs)"
  by (metis mset_map mset_order_by mset_eq_imp_distinct_iff)

lemma length_order_by [simp]: "length (order_by le xs) = length xs"
  by (rule mset_eq_length) simp

lemma limit1_Some: "limit1 rows = Some r \<Longrightarrow> r \<in> set rows"
  by (auto simp: limit1_def split: list.splits)

lemma limit1_None: "limit1 rows = None \<longleftrightarrow> rows = []"
  by (auto simp: limit1_def split: list.splits)

lemma order_by_eq_Nil [simp]: "order_by le xs = [] \<longleftrightarrow> xs = []"
  by (metis mset_order_by mset_zero_iff)

lemma insert_by_head:
  assumes "\<And>x y. le x y \<or> le y x" "\<And>x y z. le x y \<Longrightarrow> le y z \<Longrightarrow> le x z" "\<forall>y \<in> set ys. le (hd ys) y"
  shows "\<forall>y \<in> set (insert_by le x ys). le (hd (insert_by le x ys)) y"
proof (cases ys)
  case Nil
  then show ?thesis using assms(1) [of x x] by simp
next
  case (Cons z zs)
  have refl: "le u u" for u using assms(1) [of u u] by simp
  have "set (insert_by le x zs) = insert x (set zs)"
    by (metis mset_insert_by set_mset_add_mset_insert set_mset_mset)
  moreover have "\<forall>y \<in> set zs. le z y" using Cons assms(3) by simp
  moreover have "le x z \<or> le z x" by (rule assms(1))
  ultimately show ?thesis using refl assms(2) [of x z] by (cases "le x z") (auto simp: Cons)
qed

lemma order_by_head:
  assumes "\<And>x y. le x y \<or> le y x" "\<And>x y z. le x y \<Longrightarrow> le y z \<Longrightarrow> le x z"
  shows "\<forall>y \<in> set xs. le (hd (order_by le xs)) y"
proof (induction xs)
  case (Cons x xs)
  then show ?case using insert_by_head [of le "order_by le xs" x] assms
    by (metis order_by.simps(2) set_order_by)
qed simp

lemma limit1_order_by_least:
  assumes "limit1 (order_by le xs) = Some e" "\<And>x y. le x y \<or> le y x" "\<And>x y z. le x y \<Longrightarrow> le y z \<Longrightarrow> le x z"
  shows "e \<in> set xs \<and> (\<forall>y \<in> set xs. le e y)"
proof -
  have "hd (order_by le xs) = e" "e \<in> set xs"
    using assms(1) limit1_Some [OF assms(1)] by (auto simp: limit1_def split: list.splits)
  then show ?thesis using order_by_head [of le xs] assms(2,3) by auto
qed

subsection \<open>Updates\<close>

lemma update_where_Nil [simp]: "update_where p f [] = []"
  by (simp add: update_where_def)

lemma update_where_Cons [simp]:
  "update_where p f (r # rs) = (if p r then f r else r) # update_where p f rs"
  by (simp add: update_where_def)

lemma length_update_where [simp]: "length (update_where p f rows) = length rows"
  by (simp add: update_where_def)

lemma set_update_where:
  "set (update_where p f rows) = (\<lambda>r. if p r then f r else r) ` set rows"
  by (simp add: update_where_def)

lemma in_set_update_whereE:
  assumes "x \<in> set (update_where p f rows)"
  obtains "x \<in> set rows" "\<not> p x" | y where "y \<in> set rows" "p y" "x = f y"
  using assms by (auto simp: set_update_where split: if_splits)

lemma update_where_id [simp]: "\<forall>r \<in> set rows. \<not> p r \<Longrightarrow> update_where p f rows = rows"
  by (induction rows) auto

lemma map_key_update_where [simp]:
  "(\<And>r. key (f r) = key r) \<Longrightarrow> map key (update_where p f rows) = map key rows"
  by (simp add: update_where_def)

lemma filter_update_where_frame:
  assumes "\<And>r. p r \<Longrightarrow> \<not> q r" and "\<And>r. p r \<Longrightarrow> \<not> q (f r)"
  shows "filter q (update_where p f rows) = filter q rows"
  using assms by (induction rows) auto

lemma filter_update_where_self:
  "(\<And>r. p r \<Longrightarrow> p (f r)) \<Longrightarrow> filter p (update_where p f rows) = map f (filter p rows)"
  by (induction rows) auto

lemma count_where_eq_0: "count_where p rows = 0 \<longleftrightarrow> (\<forall>r \<in> set rows. \<not> p r)"
  by (auto simp: count_where_def filter_empty_conv)

lemma count_where_le_key:
  assumes "distinct (map key rows)" and "\<And>r. p r \<Longrightarrow> key r = k"
  shows "count_where p rows \<le> 1"
  using assms
proof (induction rows)
  case (Cons r rs)
  show ?case
  proof (cases "p r")
    case True
    then have "\<forall>x \<in> set rs. \<not> p x" using Cons.prems by (force simp: image_iff)
    then show ?thesis using True by (simp add: count_where_def filter_empty_conv)
  next
    case False
    with Cons show ?thesis by (simp add: count_where_def)
  qed
qed (simp add: count_where_def)

lemma count_where_eq_1:
  assumes "distinct (map key rows)" "r \<in> set rows" "p r" "\<And>x. p x \<Longrightarrow> key x = key r"
  shows "count_where p rows = 1"
proof -
  have "count_where p rows \<le> 1" using assms(1,4) by (rule count_where_le_key)
  moreover have "count_where p rows \<noteq> 0" using assms(2,3) by (auto simp: count_where_eq_0)
  ultimately show ?thesis by simp
qed

lemma distinct_map_inj_on:
  "distinct (map key rows) \<Longrightarrow> x \<in> set rows \<Longrightarrow> y \<in> set rows \<Longrightarrow> key x = key y \<Longrightarrow> x = y"
  by (auto simp: distinct_map dest: inj_onD)

lemma key_predE:
  assumes "distinct (map key rows)" "r \<in> set rows" "p r"
    and "\<And>x. x \<in> set rows \<Longrightarrow> p x \<Longrightarrow> key x = key r"
  shows "distinct rows" and "\<forall>x \<in> set rows. p x \<longleftrightarrow> x = r"
  using assms by (auto simp: distinct_map dest: inj_onD)

lemma filter_eq_row:
  "distinct rows \<Longrightarrow> r \<in> set rows \<Longrightarrow> \<forall>x \<in> set rows. p x \<longleftrightarrow> x = r \<Longrightarrow> filter p rows = [r]"
proof (induction rows)
  case (Cons x xs)
  then show ?case by (cases "x = r") (auto simp: filter_empty_conv)
qed simp

lemma filter_unique:
  assumes "distinct (map key rows)" "r \<in> set rows" "p r" "\<And>x. x \<in> set rows \<Longrightarrow> p x \<Longrightarrow> key x = key r"
  shows "filter p rows = [r]"
  using assms(2) key_predE [where key = key and p = p and r = r, OF assms] by (intro filter_eq_row)

lemma filter_eq_singleD: "filter p rows = [r] \<Longrightarrow> r \<in> set rows \<and> p r"
proof -
  assume "filter p rows = [r]"
  then have "set (filter p rows) = {r}" by simp
  then show ?thesis by auto
qed

lemma sql_update_Inr:
  "sql_update chk p f rows = Inr (n, rows') \<longleftrightarrow>
     (\<forall>r \<in> set rows. p r \<longrightarrow> chk (f r)) \<and> n = count_where p rows \<and> rows' = update_where p f rows"
  by (auto simp: sql_update_def list_all_iff)

lemma sql_insert_Inr:
  "sql_insert key chk r rows = Inr rows' \<longleftrightarrow>
     chk r \<and> key r \<notin> set (map key rows) \<and> rows' = rows @ [r]"
  by (auto simp: sql_insert_def)

lemma query_opt_simps [simp]:
  "query_opt [] = Inr None"
  "query_opt [r] = Inr (Some r)"
  by (simp_all add: query_opt_def)

lemma query_opt_Some: "query_opt rows = Inr (Some r) \<longleftrightarrow> rows = [r]"
  by (auto simp: query_opt_def split: list.splits)

lemma query_opt_None: "query_opt rows = Inr None \<longleftrightarrow> rows = []"
  by (auto simp: query_opt_def split: list.splits)

lemma query_one_Inr: "query_one rows = Inr r \<longleftrightarrow> rows = [r]"
  by (auto simp: query_one_def split: list.splits)

text \<open>Aggregates over one updated row: the workhorse of the stock-ledger proofs.\<close>

lemma sum_update_row:
  fixes g :: "'r \<Rightarrow> int"
  assumes "distinct rows" "r \<in> set rows" "\<forall>x \<in> set rows. p x \<longleftrightarrow> x = r"
  shows "(\<Sum>x\<leftarrow>update_where p f rows. g x) = (\<Sum>x\<leftarrow>rows. g x) - g r + g (f r)"
  using assms
proof (induction rows)
  case (Cons x xs)
  show ?case
  proof (cases "x = r")
    case True
    with Cons.prems have "update_where p f xs = xs" by (intro update_where_id) auto
    with True Cons.prems show ?thesis by simp
  next
    case False
    with Cons show ?thesis by simp
  qed
qed simp

lemma sum_update_where:
  fixes g :: "'r \<Rightarrow> int"
  assumes "distinct (map key rows)" "r \<in> set rows" "p r"
    and "\<And>x. x \<in> set rows \<Longrightarrow> p x \<Longrightarrow> key x = key r"
  shows "(\<Sum>x\<leftarrow>update_where p f rows. g x) = (\<Sum>x\<leftarrow>rows. g x) - g r + g (f r)"
  using assms(2) key_predE [where key = key and p = p and r = r, OF assms] by (intro sum_update_row)

lemma sum_update_where_frame:
  fixes g :: "'r \<Rightarrow> int"
  assumes "\<And>x. x \<in> set rows \<Longrightarrow> p x \<Longrightarrow> g (f x) = g x"
  shows "(\<Sum>x\<leftarrow>update_where p f rows. g x) = (\<Sum>x\<leftarrow>rows. g x)"
  using assms by (induction rows) auto

subsection \<open>What a statement keeps\<close>

text \<open>Rows that satisfy \<open>q\<close> stay as they are; no key disappears.\<close>

definition kept :: "('r \<Rightarrow> bool) \<Rightarrow> 'r list \<Rightarrow> 'r list \<Rightarrow> bool" where
  "kept q rows rows' \<longleftrightarrow> (\<forall>x \<in> set rows. q x \<longrightarrow> x \<in> set rows')"

definition keys_kept :: "('r \<Rightarrow> 'k) \<Rightarrow> 'r list \<Rightarrow> 'r list \<Rightarrow> bool" where
  "keys_kept key rows rows' \<longleftrightarrow> set (map key rows) \<subseteq> set (map key rows')"

lemma kept_refl [simp]: "kept q rows rows"
  by (simp add: kept_def)

lemma keys_kept_refl [simp]: "keys_kept key rows rows"
  by (simp add: keys_kept_def)

lemma kept_trans: "kept q a b \<Longrightarrow> kept q b c \<Longrightarrow> kept q a c"
  by (simp add: kept_def)

lemma keys_kept_trans: "keys_kept key a b \<Longrightarrow> keys_kept key b c \<Longrightarrow> keys_kept key a c"
  unfolding keys_kept_def by (rule subset_trans)

lemma kept_update_where:
  assumes "\<And>x. x \<in> set rows \<Longrightarrow> p x \<Longrightarrow> \<not> q x"
  shows "kept q rows (update_where p f rows)"
  using assms by (force simp: kept_def set_update_where)

lemma keys_kept_update_where:
  "(\<And>x. key (f x) = key x) \<Longrightarrow> keys_kept key rows (update_where p f rows)"
  by (simp add: keys_kept_def del: set_map)

lemma list_all_update_where:
  assumes "list_all q rows" "\<And>x. x \<in> set rows \<Longrightarrow> p x \<Longrightarrow> q x \<Longrightarrow> q (f x)"
  shows "list_all q (update_where p f rows)"
  using assms by (auto simp: list_all_iff set_update_where)

lemma list_all_snoc [simp]: "list_all q (rows @ [r]) \<longleftrightarrow> list_all q rows \<and> q r"
  by auto

lemma distinct_map_snoc: "distinct (map key (rows @ [r])) \<longleftrightarrow> distinct (map key rows) \<and> key r \<notin> set (map key rows)"
  by auto

lemma kept_snoc [simp]: "kept q rows (rows @ [r])"
  by (simp add: kept_def)

lemma keys_kept_snoc [simp]: "keys_kept key rows (rows @ [r])"
  by (auto simp: keys_kept_def)

subsection \<open>INSERT ... ON CONFLICT (key) DO UPDATE\<close>

definition sql_upsert ::
  "('r \<Rightarrow> 'k) \<Rightarrow> ('r \<Rightarrow> bool) \<Rightarrow> 'r \<Rightarrow> ('r \<Rightarrow> 'r) \<Rightarrow> 'r list \<Rightarrow> sql_error + 'r list" where
  "sql_upsert key chk r f rows =
     (if \<not> chk r then Inl Check_violation
      else if key r \<in> set (map key rows)
        then and_then (sql_update chk (\<lambda>x. key x = key r) f rows) (\<lambda>(_, rows'). Inr rows')
      else Inr (rows @ [r]))"

lemma sql_upsert_ok:
  "chk r \<Longrightarrow> list_all (\<lambda>x. chk (f x)) rows \<Longrightarrow> \<exists>rows'. sql_upsert key chk r f rows = Inr rows'"
  by (simp add: sql_upsert_def sql_update_def list_all_iff)

lemma sql_upsertE:
  assumes "sql_upsert key chk r f rows = Inr rows'"
  obtains (insert) "chk r" "key r \<notin> set (map key rows)" "rows' = rows @ [r]"
  | (update) "\<forall>x \<in> set rows. key x = key r \<longrightarrow> chk (f x)" "key r \<in> set (map key rows)"
      "rows' = update_where (\<lambda>x. key x = key r) f rows"
  using assms by (auto simp: sql_upsert_def sql_update_Inr split: if_splits)

end
