(* ===== verification/Float64.thy ===== *)
theory Float64
  imports Complex_Main "HOL-Library.Log_Nat"
begin

text \<open>
  The binary64 arithmetic of Rust's \<open>f64\<close>, as far as the promotion discount uses it: conversion from
  an integer, multiplication and division with rounding to nearest even, comparison, \<open>round\<close> (half
  away from zero) and the saturating cast to \<open>i64\<close>. A finite value is the rational it denotes;
  only non-negative results are needed, so infinities carry no sign.
\<close>

datatype f64 = Fin rat | Infinite | Nan

definition pow2 :: "int \<Rightarrow> rat" where
  "pow2 e = (if 0 \<le> e then 2 ^ nat e else 1 / 2 ^ nat (- e))"

text \<open>The exponent of the last mantissa bit of a positive rational (53 bits, subnormals below \<open>2^-1022\<close>).\<close>

definition f64_exponent :: "rat \<Rightarrow> int" where
  "f64_exponent x =
     (case quotient_of x of (p, q) \<Rightarrow>
      let e = bitlen p - bitlen q - 53; e' = (if x \<ge> 2 ^ 53 * pow2 e then e + 1 else e)
      in max e' (- 1074))"

definition round_half_even :: "rat \<Rightarrow> int" where
  "round_half_even x =
     (let f = floor x; r = x - of_int f in
      if r < 1 / 2 then f else if r > 1 / 2 then f + 1 else if even f then f else f + 1)"

definition f64_of_rat :: "rat \<Rightarrow> f64" where
  "f64_of_rat x =
     (if x = 0 then Fin 0
      else let e = f64_exponent (abs x); r = of_int (round_half_even (x / pow2 e)) * pow2 e in
           if abs r \<ge> 2 ^ 1024 then Infinite else Fin r)"

definition f64_of_int :: "int \<Rightarrow> f64" where "f64_of_int n = f64_of_rat (of_int n)"

fun f64_mul :: "f64 \<Rightarrow> f64 \<Rightarrow> f64" where
  "f64_mul (Fin a) (Fin b) = f64_of_rat (a * b)"
| "f64_mul Nan _ = Nan"
| "f64_mul _ Nan = Nan"
| "f64_mul Infinite (Fin b) = (if b = 0 then Nan else Infinite)"
| "f64_mul (Fin a) Infinite = (if a = 0 then Nan else Infinite)"
| "f64_mul Infinite Infinite = Infinite"

text \<open>Division by a finite non-zero divisor.\<close>

fun f64_div :: "f64 \<Rightarrow> rat \<Rightarrow> f64" where
  "f64_div (Fin a) b = f64_of_rat (a / b)"
| "f64_div Infinite b = Infinite"
| "f64_div Nan b = Nan"

text \<open>\<open>raw.round() as i64\<close>: half away from zero, then saturating.\<close>

definition f64_round :: "rat \<Rightarrow> int" where
  "f64_round x = (if 0 \<le> x then floor (x + 1 / 2) else - floor (- x + 1 / 2))"

definition saturate_i64 :: "int \<Rightarrow> int" where
  "saturate_i64 n = (if n > 9223372036854775807 then 9223372036854775807
     else if n < - 9223372036854775808 then - 9223372036854775808 else n)"

lemma pow2_pos [simp]: "0 < pow2 e"
  by (simp add: pow2_def)

lemma round_half_even_nonneg: "0 \<le> x \<Longrightarrow> 0 \<le> round_half_even x"
  by (simp add: round_half_even_def Let_def)

lemma f64_of_rat_nonneg:
  assumes "0 \<le> x" "f64_of_rat x = Fin r"
  shows "0 \<le> r"
proof (cases "x = 0")
  case False
  have "0 \<le> x / pow2 (f64_exponent (abs x))" using assms(1) by (simp add: order_less_imp_le)
  then have "0 \<le> round_half_even (x / pow2 (f64_exponent (abs x)))" by (rule round_half_even_nonneg)
  then show ?thesis using assms(2) False
    by (auto simp: f64_of_rat_def Let_def order_less_imp_le split: if_splits)
qed (use assms in \<open>simp add: f64_of_rat_def\<close>)

lemma f64_round_nonneg: "0 \<le> x \<Longrightarrow> 0 \<le> saturate_i64 (f64_round x)"
  by (simp add: f64_round_def saturate_i64_def)

end
