(* ===== verification/CommerceDb.thy ===== *)
theory CommerceDb
  imports RustStr Tables Float64
begin

text \<open>
  The shared PostgreSQL schema, as far as the modelled services read or write it: one record per
  table of \<open>deploy/postgres/migrations\<close> with the columns the services use, the \<open>CHECK\<close>
  constraints as boolean functions and the primary keys as key functions. A timestamp is an
  integer number of microseconds; \<open>CURRENT_TIMESTAMP\<close> is constant during a transaction and is an
  argument \<open>now\<close> of the operations. SQL's \<open>NULL\<close> is \<open>None\<close>, and a comparison with it is not true.
\<close>

type_synonym timestamp = int

definition seconds :: "int \<Rightarrow> timestamp" where "seconds n = n * 1000000"

text \<open>
  A \<open>serde_json::Value\<close>: an integer of the text is \<open>JNum\<close>, any other number (a fraction, an exponent, an
  integer outside \<open>i64\<close> and \<open>u64\<close>) is the \<open>f64\<close> it is read as.
\<close>

datatype json =
    JNull
  | JBool bool
  | JNum int
  | JFloat f64
  | JStr string
  | JArr "json list"
  | JObj "(string \<times> json) list"

text \<open>\<open>serde_json::Value::get\<close> on an object, and \<open>as_str\<close>.\<close>

definition json_get :: "json \<Rightarrow> string \<Rightarrow> json option" where
  "json_get j k = (case j of JObj kvs \<Rightarrow> map_of kvs k | _ \<Rightarrow> None)"

definition json_as_str :: "json \<Rightarrow> string option" where
  "json_as_str j = (case j of JStr s \<Rightarrow> Some s | _ \<Rightarrow> None)"

definition json_opt_str :: "string option \<Rightarrow> json" where
  "json_opt_str v = (case v of None \<Rightarrow> JNull | Some s \<Rightarrow> JStr s)"

text \<open>\<open>column > CURRENT_TIMESTAMP\<close> and \<open>column <= CURRENT_TIMESTAMP\<close> on a nullable column.\<close>

definition after_now :: "timestamp \<Rightarrow> timestamp option \<Rightarrow> bool" where
  "after_now now t = (case t of None \<Rightarrow> False | Some e \<Rightarrow> now < e)"

definition not_after_now :: "timestamp \<Rightarrow> timestamp option \<Rightarrow> bool" where
  "not_after_now now t = (case t of None \<Rightarrow> False | Some e \<Rightarrow> e \<le> now)"

text \<open>
  What \<open>tokio::time::timeout(.., pool.get())\<close> gives: a connection, the timeout, or an error of the
  deadpool pool with its display text.
\<close>

datatype pool_result = Pool_ok | Pool_timeout | Pool_error string

subsection \<open>Catalog and stock\<close>

record variant_row =
  var_id :: string
  var_tenant :: string
  var_product :: string
  var_sku :: string
  var_status :: string

record location_row =
  loc_id :: string
  loc_tenant :: string
  loc_code :: string
  loc_is_active :: bool

record inventory_row =
  inv_id :: string
  inv_tenant :: string
  inv_variant :: string
  inv_location :: string
  on_hand_quantity :: int
  reserved_quantity :: int
  inv_updated_at :: timestamp

record reservation_row =
  res_id :: string
  res_tenant :: string
  res_sku :: string
  res_variant :: string
  res_location :: string
  res_quantity :: int
  res_status :: string
  res_expires_at :: timestamp
  res_released_at :: "timestamp option"
  res_consumed_at :: "timestamp option"
  res_owner_request_id :: "string option"
  res_owner_lease_token :: "string option"
  res_updated_at :: timestamp

subsection \<open>Checkout\<close>

record attempt_row =
  at_tenant :: string
  at_request :: string
  at_fingerprint :: string
  at_status :: string
  at_order_id :: "string option"
  at_response_payload :: "json option"
  at_error_status :: "int option"
  at_error_code :: "string option"
  at_error_message :: "string option"
  at_lease_token :: string
  at_lease_expires_at :: "timestamp option"
  at_updated_at :: timestamp

record recon_row =
  rc_tenant :: string
  rc_request :: string
  rc_order_id :: string
  rc_authorize_request_id :: string
  rc_payment_id :: "string option"
  rc_merchant_reference :: string
  rc_amount_minor :: int
  rc_currency :: string
  rc_method_type :: string
  rc_feature_variant :: string
  rc_status :: string
  rc_attempts :: int
  rc_available_at :: timestamp
  rc_claimed_at :: "timestamp option"
  rc_lease_token :: "string option"
  rc_lease_expires_at :: "timestamp option"
  rc_completed_at :: "timestamp option"
  rc_last_payment_status :: "string option"
  rc_last_operation_status :: "string option"
  rc_last_failure_reason :: "string option"
  rc_last_error :: "string option"
  rc_traceparent :: "string option"
  rc_tracestate :: "string option"
  rc_baggage :: "string option"
  rc_checkout_lease_token :: string
  rc_created_at :: timestamp
  rc_updated_at :: timestamp

record compensation_row =
  ct_id :: string
  ct_tenant :: string
  ct_order_id :: string
  ct_task_key :: string
  ct_kind :: string
  ct_reservation_id :: "string option"
  ct_sku :: "string option"
  ct_quantity :: "int option"
  ct_payment_id :: "string option"
  ct_request_id :: "string option"
  ct_currency :: "string option"
  ct_status :: string
  ct_attempts :: int
  ct_available_at :: timestamp
  ct_claimed_at :: "timestamp option"
  ct_completed_at :: "timestamp option"
  ct_last_error :: "string option"
  ct_traceparent :: "string option"
  ct_tracestate :: "string option"
  ct_baggage :: "string option"
  ct_checkout_request_id :: string
  ct_checkout_lease_token :: string
  ct_claim_token :: "string option"
  ct_claim_expires_at :: "timestamp option"
  ct_remote_operation_id :: "string option"
  ct_remote_operation_started_at :: "timestamp option"
  ct_remote_operation_completed_at :: "timestamp option"
  ct_created_at :: timestamp
  ct_updated_at :: timestamp

record order_row =
  ord_id :: string
  ord_tenant :: string
  ord_customer_id :: "string option"
  ord_cart_id :: "string option"
  ord_number :: string
  ord_status :: string
  ord_currency :: string
  ord_subtotal_minor :: int
  ord_discount_minor :: int
  ord_tax_minor :: int
  ord_total_minor :: int
  ord_checkout_request_id :: "string option"
  ord_promotion_code :: "string option"
  ord_updated_at :: timestamp

record payment_row =
  pay_id :: string
  pay_tenant :: string
  pay_order_id :: string
  pay_status :: string
  pay_created_at :: timestamp

record commerce_db =
  tenants :: "string list"
  inventory :: "inventory_row list"
  reservations :: "reservation_row list"
  variants :: "variant_row list"
  locations :: "location_row list"
  attempts :: "attempt_row list"
  recons :: "recon_row list"
  compensations :: "compensation_row list"
  orders :: "order_row list"
  payments :: "payment_row list"

subsection \<open>Generated column, constraints and keys\<close>

text \<open>\<open>available_quantity\<close> is \<open>GENERATED ALWAYS AS (on_hand_quantity - reserved_quantity)\<close>.\<close>

definition available_quantity :: "inventory_row \<Rightarrow> int" where
  "available_quantity i = on_hand_quantity i - reserved_quantity i"

definition inventory_check :: "inventory_row \<Rightarrow> bool" where
  "inventory_check i \<longleftrightarrow>
     on_hand_quantity i \<le> i32_max \<and> 0 \<le> reserved_quantity i
     \<and> reserved_quantity i \<le> on_hand_quantity i"

definition reservation_check :: "reservation_row \<Rightarrow> bool" where
  "reservation_check r \<longleftrightarrow>
     0 < res_quantity r \<and> res_quantity r \<le> i32_max
     \<and> ((res_status r = ''reserved'' \<and> res_released_at r = None \<and> res_consumed_at r = None)
        \<or> (res_status r = ''released'' \<and> res_released_at r \<noteq> None \<and> res_consumed_at r = None)
        \<or> (res_status r = ''consumed'' \<and> res_released_at r = None \<and> res_consumed_at r \<noteq> None))"

text \<open>\<open>length(btrim(column)) > 0\<close>: \<open>btrim\<close> strips blanks only.\<close>

definition btrim_nonempty :: "string \<Rightarrow> bool" where
  "btrim_nonempty s \<longleftrightarrow> list_ex (\<lambda>c. c \<noteq> CHR '' '') s"

definition attempt_check :: "attempt_row \<Rightarrow> bool" where
  "attempt_check a \<longleftrightarrow>
     at_status a \<in> {''started'', ''pending'', ''paid'', ''degraded'', ''failed''}
     \<and> (at_status a \<in> {''started'', ''failed''} \<longleftrightarrow> at_response_payload a = None)
     \<and> (if at_status a = ''failed'' then at_error_status a \<noteq> None \<and> at_error_code a \<noteq> None
        else at_error_status a = None \<and> at_error_code a = None \<and> at_error_message a = None)
     \<and> btrim_nonempty (at_lease_token a)
     \<and> (at_status a = ''started'' \<longrightarrow> at_lease_expires_at a \<noteq> None)"

definition currency_check :: "string \<Rightarrow> bool" where
  "currency_check c \<longleftrightarrow> length c = 3 \<and> c = to_ascii_uppercase c"

definition recon_check :: "recon_row \<Rightarrow> bool" where
  "recon_check r \<longleftrightarrow>
     0 \<le> rc_amount_minor r \<and> currency_check (rc_currency r)
     \<and> rc_method_type r \<in> {''card'', ''bank_account'', ''wallet'', ''unspecified''}
     \<and> rc_status r \<in> {''queued'', ''processing'', ''awaiting_provider'', ''completed'', ''failed''}
     \<and> 0 \<le> rc_attempts r \<and> rc_attempts r \<le> i32_max
     \<and> (rc_status r = ''completed'' \<longleftrightarrow> rc_completed_at r \<noteq> None)
     \<and> (if rc_status r = ''processing'' then rc_lease_token r \<noteq> None \<and> rc_claimed_at r \<noteq> None
        else rc_lease_token r = None \<and> rc_claimed_at r = None)
     \<and> (rc_status r = ''processing'' \<longleftrightarrow> rc_lease_expires_at r \<noteq> None)
     \<and> btrim_nonempty (rc_checkout_lease_token r)"

definition compensation_check :: "compensation_row \<Rightarrow> bool" where
  "compensation_check t \<longleftrightarrow>
     (ct_kind t = ''inventory_release'' \<and> ct_reservation_id t \<noteq> None \<and> ct_sku t \<noteq> None
        \<and> ct_quantity t \<noteq> None \<and> ct_payment_id t = None \<and> ct_request_id t = None \<and> ct_currency t = None
      \<or> ct_kind t = ''payment'' \<and> ct_reservation_id t = None \<and> ct_sku t = None
        \<and> ct_quantity t = None \<and> ct_payment_id t \<noteq> None \<and> ct_request_id t \<noteq> None \<and> ct_currency t \<noteq> None)
     \<and> (case ct_quantity t of None \<Rightarrow> True | Some q \<Rightarrow> 0 < q \<and> q \<le> i32_max)
     \<and> ct_status t \<in> {''prepared'', ''queued'', ''processing'', ''completed'', ''failed'', ''superseded''}
     \<and> 0 \<le> ct_attempts t \<and> ct_attempts t \<le> i32_max
     \<and> (ct_status t = ''completed'' \<longleftrightarrow> ct_completed_at t \<noteq> None)
     \<and> (if ct_status t = ''processing'' then ct_claim_token t \<noteq> None \<and> ct_claim_expires_at t \<noteq> None
        else ct_claim_token t = None \<and> ct_claim_expires_at t = None)
     \<and> btrim_nonempty (ct_checkout_request_id t) \<and> btrim_nonempty (ct_checkout_lease_token t)
     \<and> (case ct_remote_operation_id t of
          None \<Rightarrow> ct_remote_operation_started_at t = None \<and> ct_remote_operation_completed_at t = None
        | Some i \<Rightarrow> btrim_nonempty i
            \<and> (case ct_remote_operation_started_at t of
                 None \<Rightarrow> False
               | Some s \<Rightarrow> (case ct_remote_operation_completed_at t of None \<Rightarrow> True | Some c \<Rightarrow> s \<le> c)))"

definition order_check :: "order_row \<Rightarrow> bool" where
  "order_check o' \<longleftrightarrow>
     ord_status o' \<in> {''pending'', ''confirmed'', ''paid'', ''processing'', ''shipped'', ''delivered'',
                     ''cancelled'', ''refunded''}
     \<and> currency_check (ord_currency o')
     \<and> 0 \<le> ord_subtotal_minor o' \<and> 0 \<le> ord_discount_minor o'
     \<and> ord_discount_minor o' \<le> ord_subtotal_minor o' \<and> 0 \<le> ord_tax_minor o'
     \<and> 0 \<le> ord_total_minor o' \<and> ord_total_minor o' \<le> i32_max"

type_synonym stock_key = "string \<times> string \<times> string"
type_synonym row_key = "string \<times> string"

definition inv_key :: "inventory_row \<Rightarrow> stock_key" where
  "inv_key i = (inv_tenant i, inv_variant i, inv_location i)"

definition res_key :: "reservation_row \<Rightarrow> row_key" where
  "res_key r = (res_tenant r, res_id r)"

definition res_stock :: "reservation_row \<Rightarrow> stock_key" where
  "res_stock r = (res_tenant r, res_variant r, res_location r)"

definition at_key :: "attempt_row \<Rightarrow> row_key" where
  "at_key a = (at_tenant a, at_request a)"

definition rc_key :: "recon_row \<Rightarrow> row_key" where
  "rc_key r = (rc_tenant r, rc_request r)"

definition ct_key :: "compensation_row \<Rightarrow> row_key" where
  "ct_key c = (ct_tenant c, ct_task_key c)"

definition ord_key :: "order_row \<Rightarrow> row_key" where
  "ord_key o' = (ord_tenant o', ord_id o')"

end
