(* ===== verification/InventoryDomain.thy ===== *)
theory InventoryDomain
  imports CommerceDb
begin

text \<open>
  Request types and validation of the inventory service
  (\<open>services/inventory/src/domain.rs\<close>). The defaults serde fills in for a missing field are part
  of decoding and not modelled; a record here is a decoded request.
\<close>

definition MAX_IDENTIFIER_LENGTH :: nat where "MAX_IDENTIFIER_LENGTH = 128"
definition MAX_RESERVE_QUANTITY :: u32 where "MAX_RESERVE_QUANTITY = 1000000"
definition MAX_RELEASE_QUANTITY :: u32 where "MAX_RELEASE_QUANTITY = 1000000"
definition MAX_CONSUME_RESERVATIONS :: nat where "MAX_CONSUME_RESERVATIONS = 50"

record reserve_query =
  rq_tenant_id :: string
  rq_reservation_id :: string
  rq_sku :: string
  rq_quantity :: u32
  rq_slow :: u64
  rq_db_n1 :: u32
  rq_hold_ms :: u64
  rq_fail :: bool
  rq_checkout_request_id :: "string option"
  rq_checkout_lease_token :: "string option"

record reserve_body =
  rb_tenant_id :: string
  rb_reservation_id :: string
  rb_sku :: string
  rb_quantity :: u32
  rb_checkout_request_id :: "string option"
  rb_checkout_lease_token :: "string option"

record release_body =
  rl_tenant_id :: string
  rl_reservation_id :: string
  rl_sku :: string
  rl_quantity :: u32
  rl_location_id :: "string option"
  rl_checkout_request_id :: "string option"
  rl_checkout_lease_token :: "string option"

record consume_reservation =
  cr_reservation_id :: string
  cr_sku :: string
  cr_quantity :: u32
  cr_location_id :: "string option"

record consume_body =
  cb_tenant_id :: string
  cb_checkout_request_id :: "string option"
  cb_checkout_lease_token :: "string option"
  cb_reservations :: "consume_reservation list"

datatype validation_error = ValidationError (ve_field: string) (ve_reason: string)

record reserve_outcome =
  ro_location_id :: string
  ro_remaining :: int
  ro_status :: string

record release_outcome =
  lo_location_id :: string
  lo_released :: int
  lo_reserved_remaining :: int
  lo_available :: int
  lo_status :: string

record consume_outcome =
  co_consumed :: int
  co_status :: string

text \<open>\<open>de_flag\<close> on the string it deserialises.\<close>

definition de_flag :: "string \<Rightarrow> bool" where
  "de_flag v \<longleftrightarrow> v = ''1'' \<or> v = ''true'' \<or> v = ''yes'' \<or> v = ''on''"

definition identifier_byte :: "char \<Rightarrow> bool" where
  "identifier_byte c \<longleftrightarrow>
     is_ascii_alphanumeric c \<or> c = CHR ''-'' \<or> c = CHR ''_'' \<or> c = CHR ''.'' \<or> c = CHR '':''"

definition validate_identifier :: "string \<Rightarrow> string \<Rightarrow> validation_error + unit" where
  "validate_identifier value field =
     (if value = [] then Inl (ValidationError field ''must not be empty'')
      else if length value > MAX_IDENTIFIER_LENGTH
        then Inl (ValidationError field ''exceeds the maximum length'')
      else if \<not> list_all identifier_byte value
        then Inl (ValidationError field ''contains unsupported characters'')
      else Inr ())"

definition validate_fence_fields ::
  "string option \<Rightarrow> string option \<Rightarrow> validation_error + unit" where
  "validate_fence_fields request_id lease_token =
     (case (request_id, lease_token) of
        (Some r, Some t) \<Rightarrow>
          and_then (validate_identifier r ''checkout_request_id'') (\<lambda>_.
          validate_identifier t ''checkout_lease_token'')
      | (None, None) \<Rightarrow>
          Inl (ValidationError ''checkout_request_id'' ''authoritative checkout fence is required'')
      | (Some _, None) \<Rightarrow>
          Inl (ValidationError ''checkout_lease_token'' ''is required with checkout_request_id'')
      | (None, Some _) \<Rightarrow>
          Inl (ValidationError ''checkout_request_id'' ''is required with checkout_lease_token''))"

definition validate_reserve :: "reserve_query \<Rightarrow> validation_error + unit" where
  "validate_reserve params =
     and_then (validate_identifier (rq_tenant_id params) ''tenant_id'') (\<lambda>_.
     and_then (validate_identifier (rq_reservation_id params) ''reservation_id'') (\<lambda>_.
     and_then (validate_identifier (rq_sku params) ''sku'') (\<lambda>_.
     if rq_quantity params = 0
       then Inl (ValidationError ''quantity'' ''must be greater than zero'')
     else if rq_quantity params > MAX_RESERVE_QUANTITY
       then Inl (ValidationError ''quantity'' ''exceeds the maximum reserve quantity'')
     else validate_fence_fields (rq_checkout_request_id params) (rq_checkout_lease_token params))))"

definition validate_release :: "release_body \<Rightarrow> validation_error + unit" where
  "validate_release body =
     and_then (validate_identifier (rl_tenant_id body) ''tenant_id'') (\<lambda>_.
     and_then (validate_identifier (rl_reservation_id body) ''reservation_id'') (\<lambda>_.
     and_then (validate_identifier (rl_sku body) ''sku'') (\<lambda>_.
     if rl_quantity body = 0
       then Inl (ValidationError ''quantity'' ''must be greater than zero'')
     else if rl_quantity body > MAX_RELEASE_QUANTITY
       then Inl (ValidationError ''quantity'' ''exceeds the maximum release quantity'')
     else
       and_then (case rl_location_id body of None \<Rightarrow> Inr ()
                 | Some l \<Rightarrow> validate_identifier l ''location_id'') (\<lambda>_.
       validate_fence_fields (rl_checkout_request_id body) (rl_checkout_lease_token body)))))"

text \<open>One round of the loop of \<open>validate_consume\<close>; the state is the \<open>HashSet\<close> of seen ids.\<close>

definition validate_consume_item ::
  "string list \<Rightarrow> consume_reservation \<Rightarrow> validation_error + string list" where
  "validate_consume_item seen r =
     and_then (validate_identifier (cr_reservation_id r) ''reservation_id'') (\<lambda>_.
     and_then (validate_identifier (cr_sku r) ''sku'') (\<lambda>_.
     if cr_quantity r = 0 \<or> cr_quantity r > MAX_RELEASE_QUANTITY
       then Inl (ValidationError ''quantity'' ''must be between one and one million'')
     else
       and_then (case cr_location_id r of None \<Rightarrow> Inr ()
                 | Some l \<Rightarrow> validate_identifier l ''location_id'') (\<lambda>_.
       if cr_reservation_id r \<in> set seen
         then Inl (ValidationError ''reservation_id'' ''must be unique within a consume request'')
         else Inr (cr_reservation_id r # seen))))"

definition validate_consume :: "consume_body \<Rightarrow> validation_error + unit" where
  "validate_consume body =
     and_then (validate_identifier (cb_tenant_id body) ''tenant_id'') (\<lambda>_.
     if cb_reservations body = [] \<or> length (cb_reservations body) > MAX_CONSUME_RESERVATIONS
       then Inl (ValidationError ''reservations'' ''must contain between one and fifty reservations'')
     else
       and_then (validate_fence_fields (cb_checkout_request_id body) (cb_checkout_lease_token body))
         (\<lambda>_. and_then (try_fold validate_consume_item [] (cb_reservations body)) (\<lambda>_. Inr ())))"

subsection \<open>What validation accepts\<close>

definition valid_identifier :: "string \<Rightarrow> bool" where
  "valid_identifier s \<longleftrightarrow>
     s \<noteq> [] \<and> length s \<le> MAX_IDENTIFIER_LENGTH \<and> list_all identifier_byte s"

definition valid_fence :: "string option \<Rightarrow> string option \<Rightarrow> bool" where
  "valid_fence r t \<longleftrightarrow>
     (case (r, t) of (Some x, Some y) \<Rightarrow> valid_identifier x \<and> valid_identifier y | _ \<Rightarrow> False)"

definition valid_location :: "string option \<Rightarrow> bool" where
  "valid_location l \<longleftrightarrow> (case l of None \<Rightarrow> True | Some x \<Rightarrow> valid_identifier x)"

definition valid_consume_item :: "consume_reservation \<Rightarrow> bool" where
  "valid_consume_item r \<longleftrightarrow>
     valid_identifier (cr_reservation_id r) \<and> valid_identifier (cr_sku r)
     \<and> 0 < uint (cr_quantity r) \<and> uint (cr_quantity r) \<le> 1000000
     \<and> valid_location (cr_location_id r)"

lemma validate_identifier_ok [simp]:
  "validate_identifier s f = Inr u \<longleftrightarrow> valid_identifier s"
  by (auto simp: validate_identifier_def valid_identifier_def)

lemma validate_fence_fields_ok [simp]:
  "validate_fence_fields r t = Inr u \<longleftrightarrow> valid_fence r t"
  by (cases r; cases t) (auto simp: validate_fence_fields_def valid_fence_def)

lemma validate_location_ok [simp]:
  "(case l of None \<Rightarrow> Inr () | Some x \<Rightarrow> validate_identifier x f) = Inr u \<longleftrightarrow> valid_location l"
  by (cases l) (auto simp: valid_location_def)

text \<open>The unsigned bounds tests, read on the integer value of the word.\<close>

lemma quantity_bounds:
  "(q :: u32) \<noteq> 0 \<and> \<not> 1000000 < q \<longleftrightarrow> 0 < uint q \<and> uint q \<le> 1000000"
proof -
  have "(q \<noteq> 0) = (0 < uint q)"
    by (metis less_le uint_0_iff uint_ge_0)
  moreover have "(1000000 < q) = (1000000 < uint q)"
    by (simp add: word_less_def)
  ultimately show ?thesis by auto
qed

lemma validate_consume_item_ok:
  "validate_consume_item seen r = Inr seen' \<longleftrightarrow>
     valid_consume_item r \<and> cr_reservation_id r \<notin> set seen \<and> seen' = cr_reservation_id r # seen"
  using quantity_bounds [of "cr_quantity r"]
  by (auto simp: validate_consume_item_def valid_consume_item_def MAX_RELEASE_QUANTITY_def)

lemma validate_consume_items_ok:
  "try_fold validate_consume_item seen rs = Inr seen' \<longleftrightarrow>
     list_all valid_consume_item rs \<and> distinct (map cr_reservation_id rs)
     \<and> set (map cr_reservation_id rs) \<inter> set seen = {}
     \<and> seen' = rev (map cr_reservation_id rs) @ seen"
  by (induction rs arbitrary: seen) (auto simp: validate_consume_item_ok)

lemma validate_reserve_ok:
  "validate_reserve p = Inr u \<longleftrightarrow>
     valid_identifier (rq_tenant_id p) \<and> valid_identifier (rq_reservation_id p)
     \<and> valid_identifier (rq_sku p) \<and> 0 < uint (rq_quantity p) \<and> uint (rq_quantity p) \<le> 1000000
     \<and> valid_fence (rq_checkout_request_id p) (rq_checkout_lease_token p)"
  using quantity_bounds [of "rq_quantity p"]
  by (auto simp: validate_reserve_def MAX_RESERVE_QUANTITY_def)

lemma validate_release_ok:
  "validate_release b = Inr u \<longleftrightarrow>
     valid_identifier (rl_tenant_id b) \<and> valid_identifier (rl_reservation_id b)
     \<and> valid_identifier (rl_sku b) \<and> 0 < uint (rl_quantity b) \<and> uint (rl_quantity b) \<le> 1000000
     \<and> valid_location (rl_location_id b)
     \<and> valid_fence (rl_checkout_request_id b) (rl_checkout_lease_token b)"
  using quantity_bounds [of "rl_quantity b"]
  by (auto simp: validate_release_def MAX_RELEASE_QUANTITY_def)

lemma validate_consume_accepts:
  "validate_consume b = Inr u \<longleftrightarrow>
     valid_identifier (cb_tenant_id b)
     \<and> cb_reservations b \<noteq> [] \<and> length (cb_reservations b) \<le> 50
     \<and> valid_fence (cb_checkout_request_id b) (cb_checkout_lease_token b)
     \<and> list_all valid_consume_item (cb_reservations b)
     \<and> distinct (map cr_reservation_id (cb_reservations b))"
  by (auto simp: validate_consume_def validate_consume_items_ok MAX_CONSUME_RESERVATIONS_def)

end
