(* ===== verification/InventoryStore.thy ===== *)
theory InventoryStore
  imports InventoryDomain
begin

text \<open>
  The PostgreSQL operations of the inventory service
  (\<open>services/inventory/src/infrastructure.rs\<close>): \<open>reserve\<close>, \<open>release\<close>, \<open>consume\<close> and the reaper.
  Every SQL statement is a function on the tables; the row and advisory locks make the
  transactions of one reservation run one after another, so an operation is a function from the
  database it finds to the database it commits.

  Parameters stand for what is outside the repository: \<open>acq n\<close> is what the deadpool pool
  answers when the request asks for its \<open>n\<close>-th connection, \<open>coll\<close> is the database collation used by
  \<open>ORDER BY\<close>, \<open>locked\<close> says which rows another transaction holds when the reaper skips them.
  Tracing, metrics and the sleeps of the fault scenarios have no effect on the result.
\<close>

datatype anyhow =
    Reservation_conflict (conflict_code: string) (conflict_message: string)
  | Message string
  | Postgres sql_error

definition MAX_DB_N1 :: u32 where "MAX_DB_N1 = 50"
definition RESERVATION_HOLD :: int where "RESERVATION_HOLD = 15 * 60"
definition REAPER_BATCH_SIZE :: nat where "REAPER_BATCH_SIZE = 100"

subsection \<open>Statements\<close>

definition current_fence :: "commerce_db \<Rightarrow> timestamp \<Rightarrow> attempt_row \<Rightarrow> bool" where
  "current_fence db now a \<longleftrightarrow>
     (at_status a = ''started'' \<and> after_now now (at_lease_expires_at a))
   \<or> at_status a = ''failed''
   \<or> (at_status a = ''pending''
      \<and> list_ex (\<lambda>r. rc_tenant r = at_tenant a \<and> rc_request r = at_request a
            \<and> rc_checkout_lease_token r = at_lease_token a \<and> rc_status r = ''processing''
            \<and> rc_lease_token r \<noteq> None \<and> after_now now (rc_lease_expires_at r)) (recons db))"

definition lock_current_checkout_fence ::
  "commerce_db \<Rightarrow> timestamp \<Rightarrow> string \<Rightarrow> string \<Rightarrow> string \<Rightarrow> anyhow + unit" where
  "lock_current_checkout_fence db now tenant_id request_id lease_token =
     and_then (map_err Postgres (query_opt (filter (\<lambda>a.
        at_tenant a = tenant_id \<and> at_request a = request_id \<and> at_lease_token a = lease_token
        \<and> current_fence db now a) (attempts db)))) (\<lambda>current.
     if current \<noteq> None then Inr ()
     else Inl (Reservation_conflict ''checkout_lease_lost''
                 ''authoritative checkout fence is no longer current''))"

definition reservation_join ::
  "commerce_db \<Rightarrow> string \<Rightarrow> string \<Rightarrow> (reservation_row \<times> inventory_row) list" where
  "reservation_join db tenant_id reservation_id =
     [(r, i). r \<leftarrow> filter (\<lambda>r. res_tenant r = tenant_id \<and> res_id r = reservation_id) (reservations db),
              i \<leftarrow> filter (\<lambda>i. inv_tenant i = res_tenant r \<and> inv_variant i = res_variant r
                               \<and> inv_location i = res_location r) (inventory db)]"

definition at_stock :: "string \<Rightarrow> string \<Rightarrow> string \<Rightarrow> inventory_row \<Rightarrow> bool" where
  "at_stock tenant_id variant_id location_id i \<longleftrightarrow>
     inv_tenant i = tenant_id \<and> inv_variant i = variant_id \<and> inv_location i = location_id"

definition add_reserved :: "timestamp \<Rightarrow> int \<Rightarrow> inventory_row \<Rightarrow> inventory_row" where
  "add_reserved now q i =
     i\<lparr>reserved_quantity := reserved_quantity i + q, inv_updated_at := now\<rparr>"

definition take_stock :: "timestamp \<Rightarrow> int \<Rightarrow> inventory_row \<Rightarrow> inventory_row" where
  "take_stock now q i =
     i\<lparr>on_hand_quantity := on_hand_quantity i - q, reserved_quantity := reserved_quantity i - q,
       inv_updated_at := now\<rparr>"

text \<open>\<open>UPDATE inventory ... RETURNING\<close>: the updated rows and the new database.\<close>

definition update_inventory ::
  "(inventory_row \<Rightarrow> bool) \<Rightarrow> (inventory_row \<Rightarrow> inventory_row) \<Rightarrow> commerce_db
     \<Rightarrow> anyhow + (inventory_row list \<times> commerce_db)" where
  "update_inventory p f db =
     and_then (map_err Postgres (sql_update inventory_check p f (inventory db))) (\<lambda>(n, rows).
     Inr (map f (filter p (inventory db)), db\<lparr>inventory := rows\<rparr>))"

definition update_reservations ::
  "(reservation_row \<Rightarrow> bool) \<Rightarrow> (reservation_row \<Rightarrow> reservation_row) \<Rightarrow> commerce_db
     \<Rightarrow> anyhow + (nat \<times> commerce_db)" where
  "update_reservations p f db =
     and_then (map_err Postgres (sql_update reservation_check p f (reservations db))) (\<lambda>(n, rows).
     Inr (n, db\<lparr>reservations := rows\<rparr>))"

definition res_is :: "string \<Rightarrow> string \<Rightarrow> reservation_row \<Rightarrow> bool" where
  "res_is tenant_id reservation_id r \<longleftrightarrow> res_tenant r = tenant_id \<and> res_id r = reservation_id"

text \<open>The \<open>SET\<close> clauses of the reservation updates.\<close>

definition reuse_row :: "timestamp \<Rightarrow> string \<Rightarrow> string \<Rightarrow> reservation_row \<Rightarrow> reservation_row" where
  "reuse_row now request_id lease_token x =
     x\<lparr>res_status := ''reserved'', res_released_at := None, res_consumed_at := None,
       res_expires_at := now + seconds RESERVATION_HOLD,
       res_owner_request_id := Some request_id, res_owner_lease_token := Some lease_token,
       res_updated_at := now\<rparr>"

definition recover_row :: "timestamp \<Rightarrow> string \<Rightarrow> reservation_row \<Rightarrow> reservation_row" where
  "recover_row now lease_token x =
     x\<lparr>res_status := ''reserved'', res_released_at := None, res_consumed_at := None,
       res_expires_at := now + seconds RESERVATION_HOLD,
       res_owner_lease_token := Some lease_token, res_updated_at := now\<rparr>"

definition renew_row :: "timestamp \<Rightarrow> string \<Rightarrow> reservation_row \<Rightarrow> reservation_row" where
  "renew_row now lease_token x =
     x\<lparr>res_owner_lease_token := Some lease_token,
       res_expires_at := now + seconds RESERVATION_HOLD, res_updated_at := now\<rparr>"

definition rebind_row :: "timestamp \<Rightarrow> string \<Rightarrow> reservation_row \<Rightarrow> reservation_row" where
  "rebind_row now lease_token x =
     x\<lparr>res_owner_lease_token := Some lease_token, res_updated_at := now\<rparr>"

definition released_row :: "timestamp \<Rightarrow> reservation_row \<Rightarrow> reservation_row" where
  "released_row now x =
     x\<lparr>res_status := ''released'', res_released_at := Some now, res_consumed_at := None,
       res_updated_at := now\<rparr>"

definition consumed_row :: "timestamp \<Rightarrow> reservation_row \<Rightarrow> reservation_row" where
  "consumed_row now x =
     x\<lparr>res_status := ''consumed'', res_released_at := None, res_consumed_at := Some now,
       res_updated_at := now\<rparr>"

text \<open>\<open>WHERE tenant_id=.. AND reservation_id=.. AND status=.. AND owner_request_id=..\<close>\<close>

definition owned_row :: "string \<Rightarrow> string \<Rightarrow> string \<Rightarrow> string \<Rightarrow> reservation_row \<Rightarrow> bool" where
  "owned_row tenant_id reservation_id status request_id x \<longleftrightarrow>
     res_is tenant_id reservation_id x \<and> res_status x = status
     \<and> res_owner_request_id x = Some request_id"

definition acquire :: "(nat \<Rightarrow> pool_result) \<Rightarrow> nat \<Rightarrow> anyhow + unit" where
  "acquire acq n =
     (case acq n of
        Pool_ok \<Rightarrow> Inr ()
      | Pool_timeout \<Rightarrow> Inl (Message ''postgres pool wait exceeded 2000 ms'')
      | Pool_error e \<Rightarrow> Inl (Message e))"

subsection \<open>reserve\<close>

definition reserve_reuse ::
  "timestamp \<Rightarrow> reserve_query \<Rightarrow> string \<Rightarrow> string \<Rightarrow> reservation_row \<Rightarrow> commerce_db
     \<Rightarrow> anyhow + (reserve_outcome option \<times> commerce_db)" where
  "reserve_reuse now p request_id lease_token r db =
     and_then (update_inventory
        (\<lambda>i. at_stock (rq_tenant_id p) (res_variant r) (res_location r) i
             \<and> available_quantity i \<ge> res_quantity r)
        (add_reserved now (res_quantity r)) db) (\<lambda>(rows, db1).
     and_then (map_err Postgres (query_opt rows)) (\<lambda>found.
     and_then (ok_or (Message ''inventory is no longer available for reservation reuse'') found) (\<lambda>row.
     and_then (update_reservations
        (\<lambda>x. res_is (rq_tenant_id p) (rq_reservation_id p) x \<and> res_status x = ''released'')
        (reuse_row now request_id lease_token) db1) (\<lambda>(changed, db2).
     if changed \<noteq> 1 then Inl (Message ''reservation state changed during reuse'')
     else Inr (Some \<lparr>ro_location_id = res_location r, ro_remaining = available_quantity row,
                     ro_status = ''reserved''\<rparr>, db2)))))"

definition reserve_renew ::
  "timestamp \<Rightarrow> reserve_query \<Rightarrow> string \<Rightarrow> string \<Rightarrow> reservation_row \<Rightarrow> inventory_row \<Rightarrow> commerce_db
     \<Rightarrow> anyhow + (reserve_outcome option \<times> commerce_db)" where
  "reserve_renew now p request_id lease_token r i db =
     (let outcome = Some \<lparr>ro_location_id = res_location r, ro_remaining = available_quantity i,
                          ro_status = ''already_reserved''\<rparr> in
      if res_expires_at r \<le> now \<or> res_owner_lease_token r \<noteq> Some lease_token then
        and_then (update_reservations
          (owned_row (rq_tenant_id p) (rq_reservation_id p) ''reserved'' request_id)
          (renew_row now lease_token) db)
          (\<lambda>(changed, db').
           if changed \<noteq> 1 then Inl (Message ''reservation state changed during renewal'')
           else Inr (outcome, db'))
      else Inr (outcome, db))"

definition reserve_existing ::
  "timestamp \<Rightarrow> reserve_query \<Rightarrow> string \<Rightarrow> string \<Rightarrow> reservation_row \<Rightarrow> inventory_row \<Rightarrow> commerce_db
     \<Rightarrow> anyhow + (reserve_outcome option \<times> commerce_db)" where
  "reserve_existing now p request_id lease_token r i db =
     (if res_sku r \<noteq> rq_sku p \<or> res_quantity r \<noteq> i32_try_from_u32_or_max (rq_quantity p)
        then Inl (Reservation_conflict ''reservation_conflict''
                    ''reservation identity does not match the reserve request'')
      else
        let owner_matches = (res_owner_request_id r = Some request_id) in
        if \<not> owner_matches
          then Inl (Reservation_conflict ''reservation_owner_conflict''
                      ''reservation belongs to a different checkout request'')
        else if res_status r = ''released'' then reserve_reuse now p request_id lease_token r db
        else if res_status r = ''consumed'' \<and> owner_matches
          then Inr (Some \<lparr>ro_location_id = res_location r, ro_remaining = available_quantity i,
                          ro_status = ''already_consumed''\<rparr>, db)
        else if res_status r = ''consumed''
          then Inl (Reservation_conflict ''reservation_owner_conflict''
                      ''consumed reservation belongs to a different checkout request'')
        else if res_status r = ''reserved'' then reserve_renew now p request_id lease_token r i db
        else Inl (Message (''unknown inventory reservation status: '' @ res_status r)))"

text \<open>The candidate subquery: active variant and location, enough stock, first by code and id.\<close>

definition candidates :: "commerce_db \<Rightarrow> string \<Rightarrow> string \<Rightarrow> int \<Rightarrow> (string \<times> inventory_row) list" where
  "candidates db tenant_id sku q =
     [(loc_code l, i).
        i \<leftarrow> filter (\<lambda>i. inv_tenant i = tenant_id \<and> available_quantity i \<ge> q) (inventory db),
        v \<leftarrow> filter (\<lambda>v. var_tenant v = inv_tenant i \<and> var_id v = inv_variant i
                         \<and> var_sku v = sku \<and> var_status v = ''active'') (variants db),
        l \<leftarrow> filter (\<lambda>l. loc_tenant l = inv_tenant i \<and> loc_id l = inv_location i
                         \<and> loc_is_active l) (locations db)]"

definition candidate_le ::
  "(string \<Rightarrow> string \<Rightarrow> bool) \<Rightarrow> string \<times> inventory_row \<Rightarrow> string \<times> inventory_row \<Rightarrow> bool" where
  "candidate_le coll c d \<longleftrightarrow>
     (if coll (fst c) (fst d) \<and> coll (fst d) (fst c) then coll (inv_id (snd c)) (inv_id (snd d))
      else coll (fst c) (fst d))"

definition reserve_fresh ::
  "(string \<Rightarrow> string \<Rightarrow> bool) \<Rightarrow> timestamp \<Rightarrow> reserve_query \<Rightarrow> commerce_db
     \<Rightarrow> anyhow + (reserve_outcome option \<times> commerce_db)" where
  "reserve_fresh coll now p db =
     (let q = u32_as_i32 (rq_quantity p) in
      case limit1 (order_by (candidate_le coll) (candidates db (rq_tenant_id p) (rq_sku p) q)) of
        None \<Rightarrow> Inr (None, db)
      | Some (_, c) \<Rightarrow>
          and_then (update_inventory (\<lambda>i. inv_id i = inv_id c \<and> available_quantity i \<ge> q)
             (add_reserved now q) db) (\<lambda>(rows, db1).
          and_then (map_err Postgres (query_opt rows)) (\<lambda>found.
          case found of
            None \<Rightarrow> Inr (None, db1)
          | Some row \<Rightarrow>
              and_then (map_err Postgres (sql_insert res_key reservation_check
                \<lparr>res_id = rq_reservation_id p, res_tenant = rq_tenant_id p, res_sku = rq_sku p,
                 res_variant = inv_variant c, res_location = inv_location c, res_quantity = q,
                 res_status = ''reserved'', res_expires_at = now + seconds RESERVATION_HOLD,
                 res_released_at = None, res_consumed_at = None,
                 res_owner_request_id = rq_checkout_request_id p,
                 res_owner_lease_token = rq_checkout_lease_token p, res_updated_at = now\<rparr>
                (reservations db1))) (\<lambda>rows'.
              Inr (Some \<lparr>ro_location_id = inv_location c, ro_remaining = available_quantity row,
                         ro_status = ''reserved''\<rparr>, db1\<lparr>reservations := rows'\<rparr>)))))"

definition fence_required :: anyhow where
  "fence_required =
     Reservation_conflict ''checkout_lease_lost'' ''authoritative checkout fence is required''"

definition reserve_tx ::
  "(string \<Rightarrow> string \<Rightarrow> bool) \<Rightarrow> timestamp \<Rightarrow> reserve_query \<Rightarrow> commerce_db
     \<Rightarrow> anyhow + (reserve_outcome option \<times> commerce_db)" where
  "reserve_tx coll now p db =
     and_then (ok_or fence_required (rq_checkout_request_id p)) (\<lambda>request_id.
     and_then (ok_or fence_required (rq_checkout_lease_token p)) (\<lambda>lease_token.
     and_then (lock_current_checkout_fence db now (rq_tenant_id p) request_id lease_token) (\<lambda>_.
     and_then (map_err Postgres (query_opt
        (reservation_join db (rq_tenant_id p) (rq_reservation_id p)))) (\<lambda>found.
     case found of
       Some (r, i) \<Rightarrow> reserve_existing now p request_id lease_token r i db
     | None \<Rightarrow> reserve_fresh coll now p db))))"

text \<open>
  The fault scenarios \<open>reserve\<close> runs before its transaction: one connection is held for \<open>hold_ms\<close>,
  one sleeps for \<open>slow\<close>, and each of the \<open>min db_n1 50\<close> extra lookups takes one and asks for the
  stock of the SKU with \<open>query_opt\<close>, whose row is dropped but whose error is not.
\<close>

definition scenario_waits :: "reserve_query \<Rightarrow> nat" where
  "scenario_waits p = (if rq_hold_ms p > 0 then 1 else 0) + (if rq_slow p > 0 then 1 else 0)"

definition db_n1_rounds :: "reserve_query \<Rightarrow> nat" where
  "db_n1_rounds p = unat (min (rq_db_n1 p) MAX_DB_N1)"

definition sku_stock :: "commerce_db \<Rightarrow> string \<Rightarrow> string \<Rightarrow> int list" where
  "sku_stock db tenant_id sku =
     [available_quantity i.
        i \<leftarrow> filter (\<lambda>i. inv_tenant i = tenant_id) (inventory db),
        v \<leftarrow> filter (\<lambda>v. var_tenant v = inv_tenant i \<and> var_id v = inv_variant i \<and> var_sku v = sku)
               (variants db)]"

definition db_n1_lookup :: "(nat \<Rightarrow> pool_result) \<Rightarrow> reserve_query \<Rightarrow> commerce_db \<Rightarrow> nat \<Rightarrow> anyhow + unit" where
  "db_n1_lookup acq p db n =
     and_then (acquire acq n) (\<lambda>_.
     and_then (map_err Postgres (query_opt (sku_stock db (rq_tenant_id p) (rq_sku p)))) (\<lambda>_. Inr ()))"

definition reserve ::
  "(nat \<Rightarrow> pool_result) \<Rightarrow> (string \<Rightarrow> string \<Rightarrow> bool) \<Rightarrow> timestamp \<Rightarrow> reserve_query \<Rightarrow> commerce_db
     \<Rightarrow> (anyhow + reserve_outcome option) \<times> commerce_db" where
  "reserve acq coll now p =
     transact (\<lambda>db.
       let waits = scenario_waits p; rounds = db_n1_rounds p in
       and_then (try_fold (\<lambda>_ n. acquire acq n) () [0..<waits]) (\<lambda>_.
       and_then (try_fold (\<lambda>_ n. db_n1_lookup acq p db n) () [waits..<waits + rounds]) (\<lambda>_.
       if rq_fail p then Inl (Message ''fault injection: reservation rejected'')
       else
         and_then (acquire acq (waits + rounds)) (\<lambda>_. reserve_tx coll now p db))))"

subsection \<open>release\<close>

definition release_mismatch :: "release_body \<Rightarrow> reservation_row \<Rightarrow> bool" where
  "release_mismatch body r \<longleftrightarrow>
     res_sku r \<noteq> rl_sku body \<or> res_quantity r \<noteq> i32_try_from_u32_or_max (rl_quantity body)
     \<or> (case rl_location_id body of None \<Rightarrow> False | Some l \<Rightarrow> l \<noteq> res_location r)"

definition release_rebind ::
  "timestamp \<Rightarrow> release_body \<Rightarrow> string \<Rightarrow> string \<Rightarrow> reservation_row \<Rightarrow> commerce_db
     \<Rightarrow> anyhow + commerce_db" where
  "release_rebind now body request_id lease_token r db =
     (if res_status r = ''reserved'' \<and> res_owner_lease_token r \<noteq> Some lease_token then
        and_then (update_reservations
          (owned_row (rl_tenant_id body) (rl_reservation_id body) ''reserved'' request_id)
          (rebind_row now lease_token) db)
          (\<lambda>(rebound, db').
           if rebound \<noteq> 1 then Inl (Message ''reservation owner changed during release'')
           else Inr db')
      else Inr db)"

definition release_held ::
  "timestamp \<Rightarrow> release_body \<Rightarrow> string \<Rightarrow> reservation_row \<Rightarrow> commerce_db
     \<Rightarrow> anyhow + (release_outcome option \<times> commerce_db)" where
  "release_held now body request_id r db =
     and_then (update_inventory
        (\<lambda>i. at_stock (rl_tenant_id body) (res_variant r) (res_location r) i
             \<and> reserved_quantity i \<ge> res_quantity r)
        (add_reserved now (- res_quantity r)) db) (\<lambda>(rows, db1).
     and_then (map_err Postgres (query_opt rows)) (\<lambda>found.
     and_then (ok_or (Message ''inventory reservation ledger is inconsistent'') found) (\<lambda>row.
     and_then (update_reservations
        (owned_row (rl_tenant_id body) (rl_reservation_id body) ''reserved'' request_id)
        (released_row now) db1) (\<lambda>(updated, db2).
     if updated \<noteq> 1 then Inl (Message ''reservation state changed during release'')
     else Inr (Some \<lparr>lo_location_id = res_location r, lo_released = res_quantity r,
                     lo_reserved_remaining = reserved_quantity row,
                     lo_available = available_quantity row, lo_status = ''released''\<rparr>, db2)))))"

definition release_found ::
  "timestamp \<Rightarrow> release_body \<Rightarrow> string \<Rightarrow> string \<Rightarrow> reservation_row \<Rightarrow> inventory_row \<Rightarrow> commerce_db
     \<Rightarrow> anyhow + (release_outcome option \<times> commerce_db)" where
  "release_found now body request_id lease_token r i db =
     (if release_mismatch body r
        then Inl (Reservation_conflict ''reservation_conflict''
                    ''reservation identity does not match the release request'')
      else if res_owner_request_id r \<noteq> Some request_id
        then Inl (Reservation_conflict ''reservation_owner_conflict''
                    ''checkout fence does not own the reservation'')
      else
        and_then (release_rebind now body request_id lease_token r db) (\<lambda>db'.
        if res_status r = ''released''
          then Inr (Some \<lparr>lo_location_id = res_location r, lo_released = 0,
                          lo_reserved_remaining = reserved_quantity i,
                          lo_available = available_quantity i, lo_status = ''already_released''\<rparr>, db')
        else if res_status r = ''consumed''
          then Inl (Reservation_conflict ''reservation_consumed''
                      ''a consumed reservation cannot be released'')
        else release_held now body request_id r db'))"

definition release_tx ::
  "timestamp \<Rightarrow> release_body \<Rightarrow> commerce_db \<Rightarrow> anyhow + (release_outcome option \<times> commerce_db)" where
  "release_tx now body db =
     and_then (ok_or fence_required (rl_checkout_request_id body)) (\<lambda>request_id.
     and_then (ok_or fence_required (rl_checkout_lease_token body)) (\<lambda>lease_token.
     and_then (lock_current_checkout_fence db now (rl_tenant_id body) request_id lease_token) (\<lambda>_.
     and_then (map_err Postgres (query_opt
        (reservation_join db (rl_tenant_id body) (rl_reservation_id body)))) (\<lambda>found.
     case found of
       None \<Rightarrow> Inr (None, db)
     | Some (r, i) \<Rightarrow> release_found now body request_id lease_token r i db))))"

definition release ::
  "(nat \<Rightarrow> pool_result) \<Rightarrow> timestamp \<Rightarrow> release_body \<Rightarrow> commerce_db
     \<Rightarrow> (anyhow + release_outcome option) \<times> commerce_db" where
  "release acq now body =
     transact (\<lambda>db. and_then (acquire acq 0) (\<lambda>_. release_tx now body db))"

subsection \<open>consume\<close>

definition consume_mismatch :: "consume_reservation \<Rightarrow> reservation_row \<Rightarrow> bool" where
  "consume_mismatch c r \<longleftrightarrow>
     res_sku r \<noteq> cr_sku c \<or> res_quantity r \<noteq> i32_try_from_u32_or_max (cr_quantity c)
     \<or> (case cr_location_id c of None \<Rightarrow> False | Some l \<Rightarrow> l \<noteq> res_location r)"

text \<open>
  The \<open>match\<close> on the reservation status: \<open>None\<close> is the \<open>continue\<close> of an already consumed row,
  \<open>Some db\<close> goes on to take the stock.
\<close>

definition consume_prepare ::
  "timestamp \<Rightarrow> string \<Rightarrow> string \<Rightarrow> string \<Rightarrow> consume_reservation \<Rightarrow> reservation_row \<Rightarrow> commerce_db
     \<Rightarrow> anyhow + commerce_db option" where
  "consume_prepare now tenant_id request_id lease_token c r db =
     (if res_status r = ''consumed'' \<and> res_owner_request_id r = Some request_id then Inr None
      else if res_status r = ''consumed''
        then Inl (Reservation_conflict ''reservation_owner_conflict''
                    ''checkout fence does not own the consumed reservation'')
      else if res_status r = ''released'' then
        and_then (update_inventory
          (\<lambda>i. at_stock tenant_id (res_variant r) (res_location r) i
               \<and> available_quantity i \<ge> res_quantity r)
          (add_reserved now (res_quantity r)) db) (\<lambda>(rows, db1).
        and_then (map_err Postgres (query_opt rows)) (\<lambda>reacquired.
        if reacquired = None
          then Inl (Message ''inventory is no longer available for reservation recovery'')
        else
          and_then (update_reservations
            (owned_row tenant_id (cr_reservation_id c) ''released'' request_id)
            (recover_row now lease_token) db1)
            (\<lambda>(changed, db2).
             if changed \<noteq> 1 then Inl (Message ''reservation state changed during recovery'')
             else Inr (Some db2))))
      else if res_status r = ''reserved'' \<and> res_expires_at r \<le> now then
        and_then (update_reservations
          (owned_row tenant_id (cr_reservation_id c) ''reserved'' request_id)
          (renew_row now lease_token) db)
          (\<lambda>(changed, db').
           if changed \<noteq> 1 then Inl (Message ''reservation state changed during renewal'')
           else Inr (Some db'))
      else if res_status r = ''reserved'' then
        (if res_owner_lease_token r \<noteq> Some lease_token then
           and_then (update_reservations
             (owned_row tenant_id (cr_reservation_id c) ''reserved'' request_id)
             (rebind_row now lease_token) db)
             (\<lambda>(changed, db').
              if changed \<noteq> 1 then Inl (Message ''reservation owner changed during consumption'')
              else Inr (Some db'))
         else Inr (Some db))
      else Inl (Message (''unknown inventory reservation status: '' @ res_status r)))"

definition consume_take ::
  "timestamp \<Rightarrow> string \<Rightarrow> string \<Rightarrow> consume_reservation \<Rightarrow> reservation_row \<Rightarrow> commerce_db
     \<Rightarrow> anyhow + commerce_db" where
  "consume_take now tenant_id request_id c r db =
     and_then (update_inventory
        (\<lambda>i. at_stock tenant_id (res_variant r) (res_location r) i
             \<and> on_hand_quantity i \<ge> res_quantity r \<and> reserved_quantity i \<ge> res_quantity r)
        (take_stock now (res_quantity r)) db) (\<lambda>(rows, db1).
     if length rows \<noteq> 1 then Inl (Message ''inventory reservation ledger is inconsistent'')
     else
       and_then (update_reservations
         (owned_row tenant_id (cr_reservation_id c) ''reserved'' request_id)
         (consumed_row now) db1) (\<lambda>(updated, db2).
       if updated \<noteq> 1
         then Inl (Message ''inventory reservation state changed during consumption'')
       else Inr db2))"

definition consume_step ::
  "timestamp \<Rightarrow> string \<Rightarrow> string \<Rightarrow> string \<Rightarrow> int \<times> commerce_db \<Rightarrow> consume_reservation
     \<Rightarrow> anyhow + (int \<times> commerce_db)" where
  "consume_step now tenant_id request_id lease_token s c =
     (case s of (consumed, db) \<Rightarrow>
      and_then (map_err Postgres (query_opt (reservation_join db tenant_id (cr_reservation_id c))))
        (\<lambda>found.
      and_then (ok_or (Reservation_conflict ''reservation_not_found''
                         ''reservation does not exist for the tenant'') found) (\<lambda>(r, i).
      if consume_mismatch c r
        then Inl (Reservation_conflict ''reservation_conflict''
                    ''reservation identity does not match the consume request'')
      else if res_owner_request_id r \<noteq> Some request_id
        then Inl (Reservation_conflict ''reservation_owner_conflict''
                    ''checkout fence does not own the reservation'')
      else
        and_then (consume_prepare now tenant_id request_id lease_token c r db) (\<lambda>prepared.
        case prepared of
          None \<Rightarrow> Inr (consumed, db)
        | Some db1 \<Rightarrow>
            and_then (consume_take now tenant_id request_id c r db1) (\<lambda>db2.
            and_then (ok_or (Message ''quantity overflow'') (checked_u32 (res_quantity r))) (\<lambda>q.
            and_then (ok_or (Message ''consumed quantity overflow'') (checked_u32 (consumed + q)))
              (\<lambda>consumed'. Inr (consumed', db2))))))))"

definition consume_tx ::
  "timestamp \<Rightarrow> consume_body \<Rightarrow> commerce_db \<Rightarrow> anyhow + (consume_outcome \<times> commerce_db)" where
  "consume_tx now body db =
     and_then (ok_or fence_required (cb_checkout_request_id body)) (\<lambda>request_id.
     and_then (ok_or fence_required (cb_checkout_lease_token body)) (\<lambda>lease_token.
     and_then (lock_current_checkout_fence db now (cb_tenant_id body) request_id lease_token) (\<lambda>_.
     and_then (try_fold (consume_step now (cb_tenant_id body) request_id lease_token) (0, db)
        (sort_key cr_reservation_id (cb_reservations body))) (\<lambda>(consumed, db').
     Inr (\<lparr>co_consumed = consumed,
           co_status = (if consumed = 0 then ''already_consumed'' else ''consumed'')\<rparr>, db')))))"

definition consume ::
  "(nat \<Rightarrow> pool_result) \<Rightarrow> timestamp \<Rightarrow> consume_body \<Rightarrow> commerce_db
     \<Rightarrow> (anyhow + consume_outcome) \<times> commerce_db" where
  "consume acq now body =
     transact (\<lambda>db. and_then (acquire acq 0) (\<lambda>_. consume_tx now body db))"

subsection \<open>The reaper of expired holds\<close>

definition reap_le ::
  "(string \<Rightarrow> string \<Rightarrow> bool) \<Rightarrow> reservation_row \<Rightarrow> reservation_row \<Rightarrow> bool" where
  "reap_le coll a b \<longleftrightarrow>
     (if res_expires_at a \<noteq> res_expires_at b then res_expires_at a < res_expires_at b
      else if \<not> (coll (res_tenant a) (res_tenant b) \<and> coll (res_tenant b) (res_tenant a))
        then coll (res_tenant a) (res_tenant b)
      else coll (res_id a) (res_id b))"

definition reap_batch ::
  "(string \<Rightarrow> string \<Rightarrow> bool) \<Rightarrow> (reservation_row \<Rightarrow> bool) \<Rightarrow> timestamp \<Rightarrow> commerce_db
     \<Rightarrow> reservation_row list" where
  "reap_batch coll locked now db =
     take REAPER_BATCH_SIZE (filter (\<lambda>r. \<not> locked r) (order_by (reap_le coll)
       (filter (\<lambda>r. res_status r = ''reserved'' \<and> res_expires_at r \<le> now) (reservations db))))"

definition reap_step ::
  "timestamp \<Rightarrow> int \<times> commerce_db \<Rightarrow> reservation_row \<Rightarrow> anyhow + (int \<times> commerce_db)" where
  "reap_step now s row =
     (case s of (released, db) \<Rightarrow>
      and_then (update_inventory
        (\<lambda>i. at_stock (res_tenant row) (res_variant row) (res_location row) i
             \<and> reserved_quantity i \<ge> res_quantity row)
        (add_reserved now (- res_quantity row)) db) (\<lambda>(rows, db1).
      if length rows \<noteq> 1
        then Inl (Message (''expired reservation '' @ res_tenant row @ ''/'' @ res_id row
                             @ '' has inconsistent inventory''))
      else
        and_then (update_reservations
          (\<lambda>x. res_is (res_tenant row) (res_id row) x \<and> res_status x = ''reserved''
               \<and> res_expires_at x \<le> now)
          (released_row now) db1) (\<lambda>(updated, db2).
        if updated \<noteq> 1
          then Inl (Message (''expired reservation '' @ res_tenant row @ ''/'' @ res_id row
                               @ '' changed during reclamation''))
        else
          and_then (ok_or (Message ''expired reservation count overflow'')
                      (checked_u32 (released + 1))) (\<lambda>released'. Inr (released', db2)))))"

definition reap_expired_reservations ::
  "(nat \<Rightarrow> pool_result) \<Rightarrow> (string \<Rightarrow> string \<Rightarrow> bool) \<Rightarrow> (reservation_row \<Rightarrow> bool) \<Rightarrow> timestamp \<Rightarrow> commerce_db
     \<Rightarrow> (anyhow + int) \<times> commerce_db" where
  "reap_expired_reservations acq coll locked now =
     transact (\<lambda>db. and_then (acquire acq 0) (\<lambda>_.
       try_fold (reap_step now) (0, db) (reap_batch coll locked now db)))"

end
