(* ===== verification/InventoryLedger.thy ===== *)
theory InventoryLedger
  imports InventoryStore
begin

text \<open>
  The stock ledger. For every stock key (tenant, variant, location)
  \<^item> \<open>reserved_at\<close> is the \<open>reserved_quantity\<close> of the inventory row, \<open>held\<close> the sum of the
    quantities of the reservations in state \<open>reserved\<close>;
  \<^item> \<open>on_hand_at\<close> is the \<open>on_hand_quantity\<close>, \<open>shipped\<close> the sum over the state \<open>consumed\<close>.
  Every operation of the service keeps the quantities \<open>slack\<close> and \<open>stock_total\<close> (seeded stock may have
  reserved units without a reservation row, so the slack need not be zero), and the
  well-formedness \<open>wf_stock\<close> that the schema's constraints and the ledger give.
\<close>

definition hold_of :: "reservation_row \<Rightarrow> int" where
  "hold_of r = (if res_status r = ''reserved'' then res_quantity r else 0)"

definition shipped_of :: "reservation_row \<Rightarrow> int" where
  "shipped_of r = (if res_status r = ''consumed'' then res_quantity r else 0)"

definition at_key_of :: "('r \<Rightarrow> stock_key) \<Rightarrow> stock_key \<Rightarrow> ('r \<Rightarrow> int) \<Rightarrow> 'r \<Rightarrow> int" where
  "at_key_of key k g r = (if key r = k then g r else 0)"

definition held :: "commerce_db \<Rightarrow> stock_key \<Rightarrow> int" where
  "held db k = (\<Sum>r\<leftarrow>reservations db. at_key_of res_stock k hold_of r)"

definition shipped :: "commerce_db \<Rightarrow> stock_key \<Rightarrow> int" where
  "shipped db k = (\<Sum>r\<leftarrow>reservations db. at_key_of res_stock k shipped_of r)"

definition reserved_at :: "commerce_db \<Rightarrow> stock_key \<Rightarrow> int" where
  "reserved_at db k = (\<Sum>i\<leftarrow>inventory db. at_key_of inv_key k reserved_quantity i)"

definition on_hand_at :: "commerce_db \<Rightarrow> stock_key \<Rightarrow> int" where
  "on_hand_at db k = (\<Sum>i\<leftarrow>inventory db. at_key_of inv_key k on_hand_quantity i)"

definition slack :: "commerce_db \<Rightarrow> stock_key \<Rightarrow> int" where
  "slack db k = reserved_at db k - held db k"

definition stock_total :: "commerce_db \<Rightarrow> stock_key \<Rightarrow> int" where
  "stock_total db k = on_hand_at db k + shipped db k"

definition wf_stock :: "commerce_db \<Rightarrow> bool" where
  "wf_stock db \<longleftrightarrow>
     distinct (map inv_key (inventory db)) \<and> distinct (map inv_id (inventory db))
     \<and> distinct (map res_key (reservations db))
     \<and> list_all inventory_check (inventory db) \<and> list_all reservation_check (reservations db)
     \<and> list_all (\<lambda>r. res_status r = ''reserved'' \<longrightarrow> res_stock r \<in> set (map inv_key (inventory db)))
          (reservations db)
     \<and> list_all (\<lambda>i. held db (inv_key i) \<le> reserved_quantity i) (inventory db)"

text \<open>What an operation may change: the ledger's two sums stay, and so do all other tables.\<close>

definition ledger_step :: "commerce_db \<Rightarrow> commerce_db \<Rightarrow> bool" where
  "ledger_step db db' \<longleftrightarrow>
     wf_stock db' \<and> slack db' = slack db \<and> stock_total db' = stock_total db
     \<and> map inv_key (inventory db') = map inv_key (inventory db)
     \<and> db'\<lparr>inventory := inventory db, reservations := reservations db\<rparr> = db"

subsection \<open>One updated row\<close>

lemma filter_single_iff:
  assumes "filter p rows = [x]"
  shows "y \<in> set rows \<and> p y \<longleftrightarrow> y = x"
proof -
  have "{y \<in> set rows. p y} = {x}" using assms by (metis set_filter list.set(1,2))
  then show ?thesis by auto
qed

lemma filter_singleD: "filter p rows = [x] \<Longrightarrow> x \<in> set rows \<and> p x"
  by (simp add: filter_single_iff)

lemma sum_update_single:
  fixes g :: "'r \<Rightarrow> int"
  assumes "filter p rows = [x]"
  shows "(\<Sum>y\<leftarrow>update_where p f rows. g y) = (\<Sum>y\<leftarrow>rows. g y) - g x + g (f x)"
  using assms
proof (induction rows)
  case (Cons y ys)
  show ?case
  proof (cases "p y")
    case True
    with Cons.prems have "x = y" "\<forall>z \<in> set ys. \<not> p z" by (auto simp: filter_empty_conv)
    then show ?thesis using True by (simp add: update_where_id)
  next
    case False
    with Cons show ?thesis by simp
  qed
qed simp

lemma list_all_update_single:
  assumes "list_all P rows" "filter p rows = [x]" "P (f x)"
  shows "list_all P (update_where p f rows)"
proof -
  have "p y \<Longrightarrow> y = x" if "y \<in> set rows" for y
    using filter_single_iff [OF assms(2)] that by blast
  with assms(1,3) show ?thesis by (auto simp: list_all_iff set_update_where)
qed

lemma map_key_update_single:
  assumes "filter p rows = [x]" "key (f x) = key x"
  shows "map key (update_where p f rows) = map key rows"
proof -
  have "p y \<Longrightarrow> y = x" if "y \<in> set rows" for y
    using filter_single_iff [OF assms(1)] that by blast
  with assms(2) show ?thesis by (auto simp: update_where_def)
qed

lemma sum_row_le:
  fixes g :: "'r \<Rightarrow> int"
  assumes "x \<in> set rows" "\<And>y. y \<in> set rows \<Longrightarrow> 0 \<le> g y"
  shows "g x \<le> (\<Sum>y\<leftarrow>rows. g y)"
  using assms
proof (induction rows)
  case (Cons y ys)
  have nn: "0 \<le> (\<Sum>z\<leftarrow>ys. g z)" using Cons.prems(2) by (intro sum_list_nonneg) auto
  show ?case
  proof (cases "x = y")
    case True with nn show ?thesis by simp
  next
    case False
    with Cons have "g x \<le> (\<Sum>z\<leftarrow>ys. g z)" by simp
    moreover have "0 \<le> g y" using Cons.prems(2) by simp
    ultimately show ?thesis by simp
  qed
qed simp

lemma sum_at_key:
  assumes "distinct (map key rows)" "x \<in> set rows"
  shows "(\<Sum>y\<leftarrow>rows. at_key_of key (key x) g y) = g x"
  using assms
proof (induction rows)
  case (Cons y ys)
  show ?case
  proof (cases "x = y")
    case True
    with Cons.prems(1) have "\<forall>z \<in> set ys. key z \<noteq> key x" by (auto simp: image_iff)
    then have "(\<Sum>z\<leftarrow>ys. at_key_of key (key x) g z) = (\<Sum>z\<leftarrow>ys. 0)"
      by (intro arg_cong [where f = sum_list] map_cong) (auto simp: at_key_of_def)
    with True show ?thesis by (simp add: at_key_of_def)
  next
    case False
    with Cons.prems have "x \<in> set ys" "key y \<noteq> key x" by (auto simp: image_iff)
    with Cons show ?thesis by (simp add: at_key_of_def)
  qed
qed simp

lemma reserved_at_row:
  "wf_stock db \<Longrightarrow> i \<in> set (inventory db) \<Longrightarrow> reserved_at db (inv_key i) = reserved_quantity i"
  by (simp add: reserved_at_def sum_at_key wf_stock_def)

lemma on_hand_at_row:
  "wf_stock db \<Longrightarrow> i \<in> set (inventory db) \<Longrightarrow> on_hand_at db (inv_key i) = on_hand_quantity i"
  by (simp add: on_hand_at_def sum_at_key wf_stock_def)

lemma wf_stock_slack:
  "wf_stock db \<Longrightarrow> i \<in> set (inventory db) \<Longrightarrow> 0 \<le> slack db (inv_key i)"
  by (simp add: slack_def reserved_at_row) (auto simp: wf_stock_def list_all_iff)

subsection \<open>Ledger moves\<close>

text \<open>
  The general move: one inventory row and one reservation row change together, the reserved
  quantity by the change of the hold, the on-hand quantity by the change of the shipped amount.
\<close>

lemma ledger_move:
  assumes wf: "wf_stock db"
    and i: "filter p (inventory db) = [i]" "inv_key (f i) = inv_key i" "inv_id (f i) = inv_id i"
           "inventory_check (f i)"
    and x: "filter pr (reservations db) = [x]" "res_key (g x) = res_key x"
           "res_stock (g x) = res_stock x" "reservation_check (g x)"
    and same: "inv_key i = res_stock x"
    and hold: "reserved_quantity (f i) - reserved_quantity i = hold_of (g x) - hold_of x"
    and ship: "on_hand_quantity (f i) - on_hand_quantity i = shipped_of x - shipped_of (g x)"
  shows "ledger_step db
           (db\<lparr>inventory := update_where p f (inventory db),
              reservations := update_where pr g (reservations db)\<rparr>)" (is "ledger_step db ?db")
proof -
  have inv: "i \<in> set (inventory db)" using i(1) by (auto dest: filter_singleD)
  have keys: "map inv_key (inventory ?db) = map inv_key (inventory db)"
    using i by (simp add: map_key_update_single)
  have keyset: "inv_key ` set (inventory ?db) = inv_key ` set (inventory db)"
    using keys by (metis set_map)
  have sl: "slack ?db k = slack db k" for k
    using same hold x(3) i(2)
    by (simp add: slack_def reserved_at_def held_def sum_update_single [OF i(1)]
          sum_update_single [OF x(1)] at_key_of_def)
  have to: "stock_total ?db k = stock_total db k" for k
    using same ship x(3) i(2)
    by (simp add: stock_total_def on_hand_at_def shipped_def sum_update_single [OF i(1)]
          sum_update_single [OF x(1)] at_key_of_def)
  have dist: "distinct (map inv_key (inventory ?db))" "distinct (map inv_id (inventory ?db))"
    "distinct (map res_key (reservations ?db))"
    using wf keys i x by (simp_all add: wf_stock_def map_key_update_single)
  have checks: "list_all inventory_check (inventory ?db)"
    "list_all reservation_check (reservations ?db)"
    using wf i x by (simp_all add: wf_stock_def list_all_update_single)
  have present: "list_all (\<lambda>r. res_status r = ''reserved''
      \<longrightarrow> res_stock r \<in> inv_key ` set (inventory ?db)) (reservations ?db)"
    unfolding keyset using wf x(1,3) imageI [OF inv, of inv_key] same
    by (simp, intro list_all_update_single) (auto simp: wf_stock_def)
  have cover: "held ?db (inv_key j) \<le> reserved_quantity j" if j: "j \<in> set (inventory ?db)" for j
  proof -
    have "inv_key j \<in> inv_key ` set (inventory db)" using j keyset by blast
    then obtain j0 where "j0 \<in> set (inventory db)" "inv_key j0 = inv_key j" by auto
    then have "0 \<le> slack ?db (inv_key j)" using wf_stock_slack [OF wf] sl by metis
    moreover have "reserved_at ?db (inv_key j) = reserved_quantity j"
      using dist(1) j unfolding reserved_at_def by (rule sum_at_key)
    ultimately show ?thesis by (simp add: slack_def)
  qed
  have "wf_stock ?db"
    using dist checks present cover by (simp add: wf_stock_def list_all_iff del: select_convs)
  then show ?thesis
    using sl to keys by (auto simp: ledger_step_def)
qed

lemma ledger_step_refl: "wf_stock db \<Longrightarrow> ledger_step db db"
  by (simp add: ledger_step_def)

lemma ledger_step_trans:
  assumes "ledger_step a b" "ledger_step b c"
  shows "ledger_step a c"
proof -
  have "c\<lparr>inventory := inventory a, reservations := reservations a\<rparr>
      = (c\<lparr>inventory := inventory b, reservations := reservations b\<rparr>)
          \<lparr>inventory := inventory a, reservations := reservations a\<rparr>" by simp
  then show ?thesis using assms unfolding ledger_step_def by metis
qed

lemma ledger_step_wf: "ledger_step a b \<Longrightarrow> wf_stock b"
  by (simp add: ledger_step_def)

lemma ledger_rebind:
  assumes wf: "wf_stock db" and x: "filter pr (reservations db) = [x]" "res_key (g x) = res_key x"
    "res_stock (g x) = res_stock x" "res_status (g x) = res_status x"
    "res_quantity (g x) = res_quantity x" "reservation_check (g x)"
  shows "ledger_step db (db\<lparr>reservations := update_where pr g (reservations db)\<rparr>)"
    (is "ledger_step db ?db")
proof -
  have held: "held ?db = held db" and shipped: "shipped ?db = shipped db"
    using x by (auto simp: held_def shipped_def fun_eq_iff sum_update_single [OF x(1)]
      at_key_of_def hold_of_def shipped_of_def)
  have "list_all (\<lambda>r. res_status r = ''reserved'' \<longrightarrow> res_stock r \<in> inv_key ` set (inventory db))
      (update_where pr g (reservations db))"
    using wf x filter_singleD [OF x(1)]
    by (intro list_all_update_single) (auto simp: wf_stock_def list_all_iff)
  with wf x held have "wf_stock ?db"
    by (simp add: wf_stock_def map_key_update_single list_all_update_single)
  moreover have "slack ?db = slack db" "stock_total ?db = stock_total db"
    by (simp_all add: fun_eq_iff slack_def stock_total_def held shipped reserved_at_def on_hand_at_def)
  ultimately show ?thesis
    by (simp add: ledger_step_def)
qed

lemma ledger_insert:
  assumes wf: "wf_stock db"
    and i: "filter p (inventory db) = [i]" "inv_key (f i) = inv_key i" "inv_id (f i) = inv_id i"
           "inventory_check (f i)" "on_hand_quantity (f i) = on_hand_quantity i"
           "reserved_quantity (f i) = reserved_quantity i + res_quantity r"
    and r: "reservation_check r" "res_key r \<notin> set (map res_key (reservations db))"
           "res_status r = ''reserved''" "res_stock r = inv_key i"
  shows "ledger_step db
           (db\<lparr>inventory := update_where p f (inventory db), reservations := reservations db @ [r]\<rparr>)"
    (is "ledger_step db ?db")
proof -
  have inv: "i \<in> set (inventory db)" using i(1) by (auto dest: filter_singleD)
  have keys: "map inv_key (inventory ?db) = map inv_key (inventory db)"
    using i by (simp add: map_key_update_single)
  have keyset: "inv_key ` set (inventory ?db) = inv_key ` set (inventory db)"
    using keys by (metis set_map)
  have sl: "slack ?db k = slack db k" for k
    using i r by (simp add: slack_def reserved_at_def held_def sum_update_single [OF i(1)]
      at_key_of_def hold_of_def)
  have to: "stock_total ?db k = stock_total db k" for k
    using i r by (simp add: stock_total_def on_hand_at_def shipped_def sum_update_single [OF i(1)]
      at_key_of_def shipped_of_def)
  have dist: "distinct (map inv_key (inventory ?db))" "distinct (map inv_id (inventory ?db))"
    "distinct (map res_key (reservations ?db))"
    using wf keys i r by (simp_all add: wf_stock_def map_key_update_single)
  have checks: "list_all inventory_check (inventory ?db)"
    "list_all reservation_check (reservations ?db)"
    using wf i r by (simp_all add: wf_stock_def list_all_update_single)
  have present: "list_all (\<lambda>r. res_status r = ''reserved''
      \<longrightarrow> res_stock r \<in> inv_key ` set (inventory ?db)) (reservations ?db)"
    unfolding keyset using wf imageI [OF inv, of inv_key] r(4) by (simp add: wf_stock_def)
  have cover: "held ?db (inv_key j) \<le> reserved_quantity j" if j: "j \<in> set (inventory ?db)" for j
  proof -
    have "inv_key j \<in> inv_key ` set (inventory db)" using j keyset by blast
    then obtain j0 where "j0 \<in> set (inventory db)" "inv_key j0 = inv_key j" by auto
    then have "0 \<le> slack ?db (inv_key j)" using wf_stock_slack [OF wf] sl by metis
    moreover have "reserved_at ?db (inv_key j) = reserved_quantity j"
      using dist(1) j unfolding reserved_at_def by (rule sum_at_key)
    ultimately show ?thesis by (simp add: slack_def)
  qed
  have "wf_stock ?db"
    using dist checks present cover by (simp add: wf_stock_def list_all_iff del: select_convs)
  then show ?thesis
    using sl to keys by (auto simp: ledger_step_def)
qed

subsection \<open>Statements, inverted\<close>

lemma update_inventory_InrE:
  assumes "update_inventory p f db = Inr (rows, db')"
  obtains "rows = map f (filter p (inventory db))" "\<forall>i \<in> set (inventory db). p i \<longrightarrow> inventory_check (f i)"
    "db' = db\<lparr>inventory := update_where p f (inventory db)\<rparr>"
  using assms by (auto simp: update_inventory_def sql_update_Inr)

lemma update_inventory_one:
  assumes "update_inventory p f db = Inr (rows, db')" "length rows = 1"
  obtains i where "filter p (inventory db) = [i]" "inventory_check (f i)" "rows = [f i]"
    "db' = db\<lparr>inventory := update_where p f (inventory db)\<rparr>"
proof -
  from assms(1) have rows: "rows = map f (filter p (inventory db))"
    and chk: "\<forall>i \<in> set (inventory db). p i \<longrightarrow> inventory_check (f i)"
    and db': "db' = db\<lparr>inventory := update_where p f (inventory db)\<rparr>"
    by (auto elim: update_inventory_InrE)
  from rows assms(2) obtain i where i: "filter p (inventory db) = [i]"
    by (auto simp: length_Suc_conv map_eq_Cons_conv)
  with chk have "inventory_check (f i)" by (auto dest: filter_singleD)
  with i rows db' show ?thesis using that by simp
qed

lemma update_reservations_one:
  assumes "update_reservations p f db = Inr (n, db')" "n = 1"
  obtains x where "filter p (reservations db) = [x]" "reservation_check (f x)"
    "db' = db\<lparr>reservations := update_where p f (reservations db)\<rparr>"
proof -
  from assms have len: "length (filter p (reservations db)) = 1"
    and chk: "\<forall>r \<in> set (reservations db). p r \<longrightarrow> reservation_check (f r)"
    and db': "db' = db\<lparr>reservations := update_where p f (reservations db)\<rparr>"
    by (auto simp: update_reservations_def sql_update_Inr count_where_def)
  from len obtain x where x: "filter p (reservations db) = [x]"
    by (auto simp: length_Suc_conv)
  with chk have "reservation_check (f x)" by (auto dest: filter_singleD)
  with x db' show ?thesis using that by simp
qed

lemma reservation_join_single:
  assumes "reservation_join db t rid = [(r, i)]"
  shows "r \<in> set (reservations db)" "res_is t rid r" "i \<in> set (inventory db)"
    "inv_key i = res_stock r"
proof -
  have "(r, i) \<in> set (reservation_join db t rid)" using assms by simp
  then show "r \<in> set (reservations db)" "res_is t rid r" "i \<in> set (inventory db)"
    "inv_key i = res_stock r"
    by (auto simp: reservation_join_def res_is_def inv_key_def res_stock_def)
qed

lemma res_is_unique:
  assumes "wf_stock db" "r \<in> set (reservations db)" "x \<in> set (reservations db)"
    "res_is t rid r" "res_is t rid x"
  shows "x = r"
proof -
  have "distinct (map res_key (reservations db))" using assms(1) by (simp add: wf_stock_def)
  then show ?thesis using assms(2-5)
    by (intro distinct_map_inj_on [of res_key "reservations db"]) (auto simp: res_is_def res_key_def)
qed

lemma at_stock_inv_key: "at_stock t v l i \<longleftrightarrow> inv_key i = (t, v, l)"
  by (simp add: at_stock_def inv_key_def)

lemmas stock_row_defs =
  add_reserved_def take_stock_def inv_key_def res_key_def res_stock_def hold_of_def shipped_of_def

end
