(* ===== verification/InventoryOps.thy ===== *)
theory InventoryOps
  imports InventoryLedger
begin

text \<open>
  The inventory operations keep the ledger. Each committed branch of \<open>reserve\<close>, \<open>release\<close>,
  \<open>consume\<close> and of the reaper is a \<open>ledger_step\<close>; an operation that fails leaves the database as
  it was.
\<close>

lemmas reservation_row_defs =
  reuse_row_def recover_row_def renew_row_def rebind_row_def released_row_def consumed_row_def

text \<open>A statement on the stock row of \<open>r\<close> followed by one on \<open>r\<close> itself.\<close>

lemma paired_move:
  assumes wf: "wf_stock db" and r: "r \<in> set (reservations db)" "res_is t rid r"
    and u: "update_inventory pin f db = Inr (rows, db1)" "length rows = 1"
    and v: "update_reservations pr g db1 = Inr (n, db')" "n = 1"
    and pin: "\<And>i. pin i \<Longrightarrow> inv_key i = res_stock r"
    and pr: "\<And>x. pr x \<Longrightarrow> res_is t rid x \<and> res_status x = st"
    and f: "\<And>i. inv_key (f i) = inv_key i" "\<And>i. inv_id (f i) = inv_id i"
    and g: "res_key (g r) = res_key r" "res_stock (g r) = res_stock r"
    and hold: "\<And>i. res_status r = st \<Longrightarrow>
                 reserved_quantity (f i) - reserved_quantity i = hold_of (g r) - hold_of r"
    and ship: "\<And>i. res_status r = st \<Longrightarrow>
                 on_hand_quantity (f i) - on_hand_quantity i = shipped_of r - shipped_of (g r)"
  shows "ledger_step db db'"
proof -
  from u obtain i where i: "filter pin (inventory db) = [i]" "inventory_check (f i)"
      "db1 = db\<lparr>inventory := update_where pin f (inventory db)\<rparr>"
    by (rule update_inventory_one)
  from v obtain x where x: "filter pr (reservations db1) = [x]" "reservation_check (g x)"
      "db' = db1\<lparr>reservations := update_where pr g (reservations db1)\<rparr>"
    by (rule update_reservations_one)
  have "x \<in> set (reservations db)" "pr x" using filter_singleD [OF x(1)] i(3) by auto
  with pr have xr: "x = r" "res_status r = st" using res_is_unique [OF wf r(1) _ r(2)] by blast+
  have key: "inv_key i = res_stock r" using filter_singleD [OF i(1)] pin by simp
  have "ledger_step db (db\<lparr>inventory := update_where pin f (inventory db),
          reservations := update_where pr g (reservations db)\<rparr>)"
    using i x xr f g key hold ship by (intro ledger_move [OF wf i(1)]) auto
  then show ?thesis using x(3) i(3) by simp
qed

lemma single_move:
  assumes wf: "wf_stock db"
    and v: "update_reservations pr g db = Inr (n, db')" "n = 1"
    and g: "\<And>x. res_key (g x) = res_key x" "\<And>x. res_stock (g x) = res_stock x"
      "\<And>x. res_status (g x) = res_status x" "\<And>x. res_quantity (g x) = res_quantity x"
  shows "ledger_step db db'"
proof -
  from v obtain x where "filter pr (reservations db) = [x]" "reservation_check (g x)"
      "db' = db\<lparr>reservations := update_where pr g (reservations db)\<rparr>"
    by (rule update_reservations_one)
  with g show ?thesis by (auto intro: ledger_rebind [OF wf])
qed

lemma res_is_stock: "res_is t rid r \<Longrightarrow> at_stock t (res_variant r) (res_location r) i \<longleftrightarrow> inv_key i = res_stock r"
  by (auto simp: res_is_def at_stock_def inv_key_def res_stock_def)

lemma row_keys [simp, row_simps]:
  "inv_key (add_reserved now q i) = inv_key i" "inv_id (add_reserved now q i) = inv_id i"
  "inv_key (take_stock now q i) = inv_key i" "inv_id (take_stock now q i) = inv_id i"
  "res_key (reuse_row now rid tok x) = res_key x" "res_stock (reuse_row now rid tok x) = res_stock x"
  "res_key (recover_row now tok x) = res_key x" "res_stock (recover_row now tok x) = res_stock x"
  "res_key (renew_row now tok x) = res_key x" "res_stock (renew_row now tok x) = res_stock x"
  "res_key (rebind_row now tok x) = res_key x" "res_stock (rebind_row now tok x) = res_stock x"
  "res_key (released_row now x) = res_key x" "res_stock (released_row now x) = res_stock x"
  "res_key (consumed_row now x) = res_key x" "res_stock (consumed_row now x) = res_stock x"
  by (simp_all add: add_reserved_def take_stock_def inv_key_def res_key_def res_stock_def
        reservation_row_defs)

lemma row_effects [simp, row_simps]:
  "reserved_quantity (add_reserved now q i) = reserved_quantity i + q"
  "on_hand_quantity (add_reserved now q i) = on_hand_quantity i"
  "reserved_quantity (take_stock now q i) = reserved_quantity i - q"
  "on_hand_quantity (take_stock now q i) = on_hand_quantity i - q"
  "res_status (reuse_row now rid tok x) = ''reserved''"
  "res_quantity (reuse_row now rid tok x) = res_quantity x"
  "res_status (recover_row now tok x) = ''reserved''"
  "res_quantity (recover_row now tok x) = res_quantity x"
  "res_status (renew_row now tok x) = res_status x"
  "res_quantity (renew_row now tok x) = res_quantity x"
  "res_status (rebind_row now tok x) = res_status x"
  "res_quantity (rebind_row now tok x) = res_quantity x"
  "res_status (released_row now x) = ''released''"
  "res_quantity (released_row now x) = res_quantity x"
  "res_status (consumed_row now x) = ''consumed''"
  "res_quantity (consumed_row now x) = res_quantity x"
  by (simp_all add: add_reserved_def take_stock_def reservation_row_defs)

text \<open>Updates keep a reservation's identity, so a later statement of the transaction finds it.\<close>

definition same_reservation :: "reservation_row \<Rightarrow> reservation_row \<Rightarrow> bool" where
  "same_reservation r r' \<longleftrightarrow>
     res_key r' = res_key r \<and> res_stock r' = res_stock r \<and> res_quantity r' = res_quantity r"

lemma same_reservation_refl [simp]: "same_reservation r r"
  by (simp add: same_reservation_def)

lemma same_reservation_is: "same_reservation r r' \<Longrightarrow> res_is t rid r' = res_is t rid r"
  by (auto simp: same_reservation_def res_is_def res_key_def)

lemma same_reservation_rows [simp]:
  "same_reservation x (reuse_row now rid tok x)" "same_reservation x (recover_row now tok x)"
  "same_reservation x (renew_row now tok x)" "same_reservation x (rebind_row now tok x)"
  "same_reservation x (released_row now x)" "same_reservation x (consumed_row now x)"
  by (simp_all add: same_reservation_def)

lemma update_reservations_persist:
  assumes "update_reservations pr g db = Inr (n, db')" "r \<in> set (reservations db)"
    "\<And>x. same_reservation x (g x)"
  shows "\<exists>r' \<in> set (reservations db'). same_reservation r r'"
proof -
  have "(if pr r then g r else r) \<in> set (reservations db')"
    using assms(1,2) by (auto simp: update_reservations_def sql_update_Inr set_update_where)
  moreover have "same_reservation r (if pr r then g r else r)" using assms(3) by simp
  ultimately show ?thesis by blast
qed

subsection \<open>reserve\<close>

lemma reserve_reuse_ledger:
  assumes wf: "wf_stock db" and r: "r \<in> set (reservations db)" "res_is (rq_tenant_id p) (rq_reservation_id p) r"
    and ok: "reserve_reuse now p request_id lease_token r db = Inr (out, db')"
  shows "ledger_step db db'"
proof -
  from ok obtain rows db1 n where
    "update_inventory (\<lambda>i. at_stock (rq_tenant_id p) (res_variant r) (res_location r) i
             \<and> available_quantity i \<ge> res_quantity r) (add_reserved now (res_quantity r)) db = Inr (rows, db1)"
    "length rows = 1"
    "update_reservations (\<lambda>x. res_is (rq_tenant_id p) (rq_reservation_id p) x \<and> res_status x = ''released'')
        (reuse_row now request_id lease_token) db1 = Inr (n, db')" "n = 1"
    by (auto simp: reserve_reuse_def query_opt_Some split: if_splits)
  from paired_move [where st = "''released''", OF wf r this] res_is_stock [OF r(2)]
  show ?thesis by (simp add: hold_of_def shipped_of_def)
qed

lemma reserve_renew_ledger:
  assumes "wf_stock db" "reserve_renew now p request_id lease_token r i db = Inr (out, db')"
  shows "ledger_step db db'"
  using assms
  by (auto simp: reserve_renew_def Let_def split: if_splits
      intro: ledger_step_refl single_move)

lemma reserve_existing_ledger:
  assumes "wf_stock db" "r \<in> set (reservations db)" "res_is (rq_tenant_id p) (rq_reservation_id p) r"
    "reserve_existing now p request_id lease_token r i db = Inr (out, db')"
  shows "ledger_step db db'"
  using assms
  by (auto simp: reserve_existing_def Let_def split: if_splits
      intro: ledger_step_refl reserve_reuse_ledger reserve_renew_ledger)

text \<open>The stock row chosen for a new reservation is a row of the requested tenant and SKU.\<close>

lemma candidatesD:
  assumes "limit1 (order_by le (candidates db t sku q)) = Some (code, c)"
  shows "c \<in> set (inventory db)" "inv_tenant c = t" "available_quantity c \<ge> q"
    "\<exists>v \<in> set (variants db). var_tenant v = t \<and> var_id v = inv_variant c \<and> var_sku v = sku
        \<and> var_status v = ''active''"
    "\<exists>l \<in> set (locations db). loc_tenant l = t \<and> loc_id l = inv_location c \<and> loc_is_active l"
proof -
  have "(code, c) \<in> set (candidates db t sku q)" using limit1_Some [OF assms] by simp
  then show "c \<in> set (inventory db)" "inv_tenant c = t" "available_quantity c \<ge> q"
    "\<exists>v \<in> set (variants db). var_tenant v = t \<and> var_id v = inv_variant c \<and> var_sku v = sku
        \<and> var_status v = ''active''"
    "\<exists>l \<in> set (locations db). loc_tenant l = t \<and> loc_id l = inv_location c \<and> loc_is_active l"
    by (auto simp: candidates_def)
qed

lemma candidate_row:
  assumes wf: "wf_stock db" and c: "limit1 (order_by le (candidates db t sku q)) = Some (code, c)"
  shows "filter (\<lambda>i. inv_id i = inv_id c \<and> available_quantity i \<ge> q) (inventory db) = [c]"
  using wf candidatesD [OF c]
  by (intro filter_unique [of inv_id]) (auto simp: wf_stock_def)

lemma reserve_fresh_ledger:
  assumes wf: "wf_stock db" and ok: "reserve_fresh coll now p db = Inr (out, db')"
  shows "ledger_step db db'"
proof (cases "limit1 (order_by (candidate_le coll)
    (candidates db (rq_tenant_id p) (rq_sku p) (u32_as_i32 (rq_quantity p))))")
  case None
  then show ?thesis using ok ledger_step_refl [OF wf] by (simp add: reserve_fresh_def)
next
  case (Some cc)
  obtain code c where cc: "cc = (code, c)" by (cases cc)
  note row = candidate_row [OF wf Some [unfolded cc]]
  note c = candidatesD [OF Some [unfolded cc]]
  have key: "inv_key c = (rq_tenant_id p, inv_variant c, inv_location c)"
    by (simp add: inv_key_def c)
  from ok Some cc show ?thesis
    by (auto simp: reserve_fresh_def Let_def row sql_insert_Inr c key res_stock_def
        elim!: update_inventory_InrE intro!: ledger_insert [OF wf row]
        split: option.splits)
qed

lemma reserve_tx_ledger:
  assumes "wf_stock db" "reserve_tx coll now p db = Inr (out, db')"
  shows "ledger_step db db'"
  using assms
  by (auto simp: reserve_tx_def query_opt_Some query_opt_None split: option.splits
      intro: reserve_existing_ledger reserve_fresh_ledger reservation_join_single)

subsection \<open>release\<close>

lemma release_rebind_ledger:
  assumes "wf_stock db" "release_rebind now body request_id lease_token r db = Inr db'"
  shows "ledger_step db db'"
  using assms
  by (auto simp: release_rebind_def split: if_splits intro: ledger_step_refl single_move)

lemma release_rebind_row:
  assumes "r \<in> set (reservations db)" "release_rebind now body request_id lease_token r db = Inr db'"
  shows "\<exists>r' \<in> set (reservations db'). same_reservation r r'"
  using assms
  by (auto simp: release_rebind_def split: if_splits intro: update_reservations_persist bexI [of _ r])

lemma release_held_ledger:
  assumes wf: "wf_stock db" and r: "r' \<in> set (reservations db)" "res_is (rl_tenant_id body) (rl_reservation_id body) r'"
    "same_reservation r r'"
    and ok: "release_held now body request_id r db = Inr (out, db')"
  shows "ledger_step db db'"
proof -
  from ok obtain rows db1 n where u:
    "update_inventory (\<lambda>i. at_stock (rl_tenant_id body) (res_variant r) (res_location r) i
             \<and> reserved_quantity i \<ge> res_quantity r) (add_reserved now (- res_quantity r)) db = Inr (rows, db1)"
    "length rows = 1"
    "update_reservations (owned_row (rl_tenant_id body) (rl_reservation_id body) ''reserved'' request_id)
        (released_row now) db1 = Inr (n, db')" "n = 1"
    by (auto simp: release_held_def query_opt_Some split: if_splits)
  have "at_stock (rl_tenant_id body) (res_variant r) (res_location r) i \<Longrightarrow> inv_key i = res_stock r'" for i
    using r(2,3) by (auto simp: same_reservation_def res_is_def at_stock_def inv_key_def res_stock_def)
  with paired_move [where st = "''reserved''", OF wf r(1,2) u] r(3)
  show ?thesis by (simp add: hold_of_def shipped_of_def owned_row_def same_reservation_def)
qed

lemma release_found_ledger:
  assumes wf: "wf_stock db" and r: "r \<in> set (reservations db)" "res_is (rl_tenant_id body) (rl_reservation_id body) r"
    and ok: "release_found now body request_id lease_token r i db = Inr (out, db')"
  shows "ledger_step db db'"
proof -
  from ok obtain db1 where rebind: "release_rebind now body request_id lease_token r db = Inr db1"
    by (auto simp: release_found_def split: if_splits)
  have step: "ledger_step db db1" using wf rebind by (rule release_rebind_ledger)
  obtain r' where r': "r' \<in> set (reservations db1)" "res_is (rl_tenant_id body) (rl_reservation_id body) r'"
      "same_reservation r r'"
    using release_rebind_row [OF r(1) rebind] same_reservation_is r(2) by blast
  from ok rebind consider "db' = db1" | "release_held now body request_id r db1 = Inr (out, db')"
    by (auto simp: release_found_def split: if_splits)
  then show ?thesis
  proof cases
    case 1 then show ?thesis using step by simp
  next
    case 2
    with release_held_ledger [OF ledger_step_wf [OF step] r'] step show ?thesis
      by (blast intro: ledger_step_trans)
  qed
qed

lemma release_tx_ledger:
  assumes "wf_stock db" "release_tx now body db = Inr (out, db')"
  shows "ledger_step db db'"
  using assms
  by (auto simp: release_tx_def query_opt_Some query_opt_None split: option.splits
      intro: release_found_ledger ledger_step_refl reservation_join_single)

subsection \<open>consume\<close>

lemma consume_take_ledger:
  assumes wf: "wf_stock db" and r: "r' \<in> set (reservations db)" "res_is t (cr_reservation_id c) r'"
    "same_reservation r r'"
    and ok: "consume_take now t request_id c r db = Inr db'"
  shows "ledger_step db db'"
proof -
  from ok obtain rows db1 n where u:
    "update_inventory (\<lambda>i. at_stock t (res_variant r) (res_location r) i
        \<and> on_hand_quantity i \<ge> res_quantity r \<and> reserved_quantity i \<ge> res_quantity r)
        (take_stock now (res_quantity r)) db = Inr (rows, db1)"
    "length rows = 1"
    "update_reservations (owned_row t (cr_reservation_id c) ''reserved'' request_id)
        (consumed_row now) db1 = Inr (n, db')" "n = 1"
    by (auto simp: consume_take_def split: if_splits)
  have "at_stock t (res_variant r) (res_location r) i \<Longrightarrow> inv_key i = res_stock r'" for i
    using r(2,3) by (auto simp: same_reservation_def res_is_def at_stock_def inv_key_def res_stock_def)
  with paired_move [where st = "''reserved''", OF wf r(1,2) u] r(3)
  show ?thesis by (simp add: hold_of_def shipped_of_def owned_row_def same_reservation_def)
qed

lemma consume_prepare_ledger:
  assumes wf: "wf_stock db" and r: "r \<in> set (reservations db)" "res_is t (cr_reservation_id c) r"
    and ok: "consume_prepare now t request_id lease_token c r db = Inr (Some db')"
  shows "ledger_step db db'" "\<exists>r' \<in> set (reservations db'). same_reservation r r'"
proof -
  consider (recover) rows db1 n where
      "update_inventory (\<lambda>i. at_stock t (res_variant r) (res_location r) i
         \<and> available_quantity i \<ge> res_quantity r) (add_reserved now (res_quantity r)) db = Inr (rows, db1)"
      "length rows = 1"
      "update_reservations (owned_row t (cr_reservation_id c) ''released'' request_id)
         (recover_row now lease_token) db1 = Inr (n, db')" "n = 1" "res_status r = ''released''"
    | (renew) n where "update_reservations (owned_row t (cr_reservation_id c) ''reserved'' request_id)
         (renew_row now lease_token) db = Inr (n, db')" "n = 1"
    | (rebind) n where "update_reservations (owned_row t (cr_reservation_id c) ''reserved'' request_id)
         (rebind_row now lease_token) db = Inr (n, db')" "n = 1"
    | (same) "db' = db"
    using ok by (auto simp: consume_prepare_def query_opt_Some split: if_splits)
  then have "ledger_step db db' \<and> (\<exists>r' \<in> set (reservations db'). same_reservation r r')"
  proof cases
    case recover
    have "reservations db1 = reservations db" using recover(1) by (auto elim: update_inventory_InrE)
    then have "\<exists>r' \<in> set (reservations db'). same_reservation r r'"
      using recover(3) r(1) by (auto intro: update_reservations_persist)
    moreover have "ledger_step db db'"
      using paired_move [where st = "''released''", OF wf r recover(1-4)] res_is_stock [OF r(2)]
      by (simp add: hold_of_def shipped_of_def owned_row_def)
    ultimately show ?thesis by simp
  next
    case renew
    with r(1) wf show ?thesis by (auto intro: single_move update_reservations_persist)
  next
    case rebind
    with r(1) wf show ?thesis by (auto intro: single_move update_reservations_persist)
  next
    case same
    with r(1) wf show ?thesis by (auto intro: ledger_step_refl bexI [of _ r])
  qed
  then show "ledger_step db db'" "\<exists>r' \<in> set (reservations db'). same_reservation r r'" by auto
qed

lemma consume_step_ledger:
  assumes wf: "wf_stock db"
    and ok: "consume_step now t request_id lease_token (n, db) c = Inr (n', db')"
  shows "ledger_step db db'"
proof -
  from ok obtain r i prep where join: "reservation_join db t (cr_reservation_id c) = [(r, i)]"
    and prep: "consume_prepare now t request_id lease_token c r db = Inr prep"
    by (auto simp: consume_step_def query_opt_Some split: if_splits)
  note r = reservation_join_single [OF join]
  show ?thesis
  proof (cases prep)
    case None
    with ok join prep wf show ?thesis
      by (auto simp: consume_step_def intro: ledger_step_refl split: if_splits)
  next
    case (Some db1)
    with ok join prep have take: "consume_take now t request_id c r db1 = Inr db'"
      by (auto simp: consume_step_def split: if_splits)
    note p = consume_prepare_ledger [OF wf r(1,2) prep [unfolded Some]]
    then obtain r' where "r' \<in> set (reservations db1)" "same_reservation r r'" by blast
    with consume_take_ledger [OF ledger_step_wf [OF p(1)] _ _ _ take] same_reservation_is r(2)
    have "ledger_step db1 db'" by blast
    with p(1) show ?thesis by (rule ledger_step_trans)
  qed
qed

lemma consume_loop_ledger:
  assumes "wf_stock db"
    and "try_fold (consume_step now t request_id lease_token) (n, db) cs = Inr (n', db')"
  shows "ledger_step db db'"
proof -
  have "case (n', db') of (_, d) \<Rightarrow> ledger_step db d"
    using assms(2)
  proof (rule try_fold_invariant)
    show "case (n, db) of (_, d) \<Rightarrow> ledger_step db d"
      using assms(1) by (simp add: ledger_step_refl)
  next
    fix s x s'
    assume "case s of (_, d) \<Rightarrow> ledger_step db d"
      "consume_step now t request_id lease_token s x = Inr s'"
    then show "case s' of (_, d) \<Rightarrow> ledger_step db d"
      by (cases s; cases s')
         (auto intro: ledger_step_trans consume_step_ledger ledger_step_wf)
  qed
  then show ?thesis by simp
qed

lemma consume_tx_ledger:
  assumes "wf_stock db" "consume_tx now body db = Inr (out, db')"
  shows "ledger_step db db'"
  using assms by (auto simp: consume_tx_def dest: consume_loop_ledger)

subsection \<open>The reaper\<close>

lemma reap_step_ledger:
  assumes wf: "wf_stock db" and r: "r' \<in> set (reservations db)" "same_reservation r r'"
    and ok: "reap_step now (n, db) r = Inr (n', db')"
  shows "ledger_step db db'"
proof -
  from ok obtain rows db1 m where u:
    "update_inventory (\<lambda>i. at_stock (res_tenant r) (res_variant r) (res_location r) i
        \<and> reserved_quantity i \<ge> res_quantity r) (add_reserved now (- res_quantity r)) db = Inr (rows, db1)"
    "length rows = 1"
    "update_reservations (\<lambda>x. res_is (res_tenant r) (res_id r) x \<and> res_status x = ''reserved''
               \<and> res_expires_at x \<le> now) (released_row now) db1 = Inr (m, db')" "m = 1"
    by (auto simp: reap_step_def split: if_splits)
  have ris: "res_is (res_tenant r) (res_id r) r'"
    using r(2) by (auto simp: same_reservation_def res_is_def res_key_def)
  have "at_stock (res_tenant r) (res_variant r) (res_location r) i \<Longrightarrow> inv_key i = res_stock r'" for i
    using r(2) by (auto simp: same_reservation_def at_stock_def inv_key_def res_stock_def)
  with paired_move [where st = "''reserved''", OF wf r(1) ris u] r(2)
  show ?thesis by (simp add: hold_of_def shipped_of_def same_reservation_def)
qed

subsection \<open>Statements that cannot fail on a well-formed ledger\<close>

lemma held_stock_row:
  assumes wf: "wf_stock db" and r: "r \<in> set (reservations db)" "res_status r = ''reserved''"
  obtains i where "i \<in> set (inventory db)" "inv_key i = res_stock r"
    "0 < res_quantity r" "res_quantity r \<le> reserved_quantity i" "inventory_check i"
proof -
  have qpos: "0 < res_quantity x" if "x \<in> set (reservations db)" for x
    using wf that by (auto simp: wf_stock_def list_all_iff reservation_check_def)
  from wf r obtain i where i: "i \<in> set (inventory db)" "inv_key i = res_stock r"
    by (auto simp: wf_stock_def list_all_iff)
  have "at_key_of res_stock (res_stock r) hold_of r \<le> held db (res_stock r)"
    unfolding held_def using r(1) qpos
    by (intro sum_row_le) (auto simp: at_key_of_def hold_of_def less_imp_le)
  moreover have "held db (inv_key i) \<le> reserved_quantity i" "inventory_check i"
    using wf i by (auto simp: wf_stock_def list_all_iff)
  ultimately show ?thesis using i r qpos that by (auto simp: at_key_of_def hold_of_def)
qed

lemma update_inventory_at:
  assumes wf: "wf_stock db" and i: "i \<in> set (inventory db)" "at_stock t v l i" "P i" "inventory_check (f i)"
  shows "update_inventory (\<lambda>j. at_stock t v l j \<and> P j) f db
    = Inr ([f i], db\<lparr>inventory := update_where (\<lambda>j. at_stock t v l j \<and> P j) f (inventory db)\<rparr>)"
proof -
  have one: "filter (\<lambda>j. at_stock t v l j \<and> P j) (inventory db) = [i]"
    using wf i by (intro filter_unique [of inv_key]) (auto simp: wf_stock_def at_stock_inv_key)
  have "inventory_check (f j)" if "j \<in> set (inventory db)" "at_stock t v l j \<and> P j" for j
    using filter_single_iff [OF one, of j] that i(4) by simp
  with one show ?thesis
    by (simp add: update_inventory_def sql_update_def list_all_iff)
qed

lemma update_reservations_at:
  assumes wf: "distinct (map res_key (reservations db))"
    and r: "r \<in> set (reservations db)" "res_is t rid r" "P r" "reservation_check (g r)"
  shows "update_reservations (\<lambda>x. res_is t rid x \<and> P x) g db
    = Inr (1, db\<lparr>reservations := update_where (\<lambda>x. res_is t rid x \<and> P x) g (reservations db)\<rparr>)"
proof -
  have one: "filter (\<lambda>x. res_is t rid x \<and> P x) (reservations db) = [r]"
    using wf r by (intro filter_unique [of res_key]) (auto simp: res_is_def res_key_def)
  have "reservation_check (g x)" if "x \<in> set (reservations db)" "res_is t rid x \<and> P x" for x
    using filter_single_iff [OF one, of x] that r(4) by simp
  with one show ?thesis
    by (simp add: update_reservations_def sql_update_def list_all_iff count_where_def)
qed

lemma update_where_at:
  assumes "distinct (map res_key rows)" "r \<in> set rows" "res_is t rid r" "P r"
  shows "update_where (\<lambda>x. res_is t rid x \<and> P x) g rows
    = map (\<lambda>x. if res_key x = res_key r then g x else x) rows"
proof -
  have "res_is t rid x \<and> P x \<longleftrightarrow> res_key x = res_key r" if "x \<in> set rows" for x
    using assms that distinct_map_inj_on [of res_key rows x r] by (auto simp: res_is_def res_key_def)
  then show ?thesis by (simp add: update_where_def)
qed

lemma reservation_check_rows:
  "reservation_check r \<Longrightarrow> reservation_check (released_row now r)"
  "reservation_check r \<Longrightarrow> reservation_check (consumed_row now r)"
  "reservation_check r \<Longrightarrow> reservation_check (rebind_row now tok r)"
  "reservation_check r \<Longrightarrow> reservation_check (renew_row now tok r)"
  "reservation_check r \<Longrightarrow> reservation_check (recover_row now tok r)"
  "reservation_check r \<Longrightarrow> reservation_check (reuse_row now rid tok r)"
  by (auto simp: reservation_check_def reservation_row_defs)

subsection \<open>The reaper never gets stuck\<close>

lemma reap_step_ok:
  assumes wf: "wf_stock db" and r: "r \<in> set (reservations db)" "res_status r = ''reserved''"
      "res_expires_at r \<le> now"
    and n: "0 \<le> n" "n < u32_max"
  obtains db' where "reap_step now (n, db) r = Inr (n + 1, db')"
    "reservations db' = map (\<lambda>x. if res_key x = res_key r then released_row now x else x) (reservations db)"
proof -
  obtain i where i: "i \<in> set (inventory db)" "inv_key i = res_stock r" "0 < res_quantity r"
      "res_quantity r \<le> reserved_quantity i" "inventory_check i"
    using held_stock_row [OF wf r(1,2)] .
  have at: "at_stock (res_tenant r) (res_variant r) (res_location r) i"
    using i(2) by (simp add: at_stock_inv_key res_stock_def)
  have chk: "inventory_check (add_reserved now (- res_quantity r) i)"
    using i(3-5) by (auto simp: inventory_check_def)
  have d: "distinct (map res_key (reservations db))" and rc: "reservation_check r"
    using wf r(1) by (auto simp: wf_stock_def list_all_iff)
  have ris: "res_is (res_tenant r) (res_id r) r" by (simp add: res_is_def)
  let ?db1 = "db\<lparr>inventory := update_where (\<lambda>j. at_stock (res_tenant r) (res_variant r) (res_location r) j
        \<and> res_quantity r \<le> reserved_quantity j) (add_reserved now (- res_quantity r)) (inventory db)\<rparr>"
  have "update_reservations (\<lambda>x. res_is (res_tenant r) (res_id r) x \<and> res_status x = ''reserved''
               \<and> res_expires_at x \<le> now) (released_row now) ?db1
      = Inr (1, ?db1\<lparr>reservations := map (\<lambda>x. if res_key x = res_key r then released_row now x else x)
                 (reservations db)\<rparr>)"
    using update_reservations_at [of ?db1 r _ _ "\<lambda>x. res_status x = ''reserved'' \<and> res_expires_at x \<le> now"]
      update_where_at [OF d r(1) ris, of "\<lambda>x. res_status x = ''reserved'' \<and> res_expires_at x \<le> now"]
      d r ris reservation_check_rows(1) [OF rc] by simp
  with update_inventory_at [where P = "\<lambda>j. res_quantity r \<le> reserved_quantity j"
      and f = "add_reserved now (- res_quantity r)", OF wf i(1) at i(4) chk] n that show ?thesis
    by (simp add: reap_step_def checked_u32_def in_u32_def)
qed

lemma reap_loop_ok:
  assumes "wf_stock db" "distinct (map res_key rows)"
    and "\<forall>r \<in> set rows. r \<in> set (reservations db) \<and> res_status r = ''reserved'' \<and> res_expires_at r \<le> now"
    and "0 \<le> n" "n + int (length rows) \<le> u32_max"
  shows "\<exists>db'. try_fold (reap_step now) (n, db) rows = Inr (n + int (length rows), db') \<and> ledger_step db db'
    \<and> reservations db' = map (\<lambda>x. if res_key x \<in> set (map res_key rows) then released_row now x else x)
        (reservations db)"
  using assms
proof (induction rows arbitrary: n db)
  case Nil
  then show ?case by (auto intro: ledger_step_refl simp: map_idI)
next
  case (Cons r rows)
  from Cons.prems obtain db1 where s: "reap_step now (n, db) r = Inr (n + 1, db1)"
    and res: "reservations db1 = map (\<lambda>x. if res_key x = res_key r then released_row now x else x) (reservations db)"
    using reap_step_ok [of db r now n] by auto
  have led: "ledger_step db db1"
    using Cons.prems s by (intro reap_step_ledger [of db r r]) auto
  have pending: "\<forall>x \<in> set rows. x \<in> set (reservations db1) \<and> res_status x = ''reserved'' \<and> res_expires_at x \<le> now"
    using Cons.prems(2,3) unfolding res by (auto simp: image_iff)
  from Cons.IH [OF ledger_step_wf [OF led] _ pending, of "n + 1"] Cons.prems
  obtain db' where "try_fold (reap_step now) (n + 1, db1) rows = Inr (n + 1 + int (length rows), db')"
    "ledger_step db1 db'"
    "reservations db' = map (\<lambda>x. if res_key x \<in> set (map res_key rows) then released_row now x else x) (reservations db1)"
    by auto
  then show ?case
    using s led res Cons.prems(2) by (intro exI [of _ db']) (auto intro: ledger_step_trans)
qed

end
