(* ===== verification/InventoryHistory.thy ===== *)
theory InventoryHistory
  imports InventoryOps
begin

text \<open>
  What the inventory operations leave alone. A reservation row is never deleted, keeps its SKU,
  stock key, quantity and owner, and is frozen once it is consumed; an operation on behalf of one
  tenant touches no row of another tenant.
\<close>

definition evolves :: "reservation_row \<Rightarrow> reservation_row \<Rightarrow> bool" where
  "evolves r r' \<longleftrightarrow>
     same_reservation r r' \<and> res_sku r' = res_sku r
     \<and> res_owner_request_id r' = res_owner_request_id r
     \<and> (res_status r = ''consumed'' \<longrightarrow> r' = r)"

definition persists :: "commerce_db \<Rightarrow> commerce_db \<Rightarrow> bool" where
  "persists db db' \<longleftrightarrow>
     (\<forall>r \<in> set (reservations db). \<exists>r' \<in> set (reservations db'). evolves r r')"

definition tenant_view :: "string \<Rightarrow> commerce_db \<Rightarrow> inventory_row list \<times> reservation_row list" where
  "tenant_view t db =
     (filter (\<lambda>i. inv_tenant i = t) (inventory db), filter (\<lambda>r. res_tenant r = t) (reservations db))"

definition op_frame :: "string \<Rightarrow> commerce_db \<Rightarrow> commerce_db \<Rightarrow> bool" where
  "op_frame t db db' \<longleftrightarrow>
     persists db db' \<and> (\<forall>t'. t' \<noteq> t \<longrightarrow> tenant_view t' db' = tenant_view t' db)"

lemma evolves_refl [simp, intro]: "evolves r r"
  by (simp add: evolves_def)

lemma evolves_trans: "evolves a b \<Longrightarrow> evolves b c \<Longrightarrow> evolves a c"
  by (auto simp: evolves_def same_reservation_def)

lemma evolves_tenant: "evolves x y \<Longrightarrow> res_tenant y = res_tenant x"
  by (simp add: evolves_def same_reservation_def res_key_def)

lemma evolves_rows:
  "res_status x \<noteq> ''consumed'' \<Longrightarrow> evolves x (recover_row now tok x)"
  "res_status x \<noteq> ''consumed'' \<Longrightarrow> evolves x (renew_row now tok x)"
  "res_status x \<noteq> ''consumed'' \<Longrightarrow> evolves x (rebind_row now tok x)"
  "res_status x \<noteq> ''consumed'' \<Longrightarrow> evolves x (released_row now x)"
  "res_status x \<noteq> ''consumed'' \<Longrightarrow> evolves x (consumed_row now x)"
  "res_status x \<noteq> ''consumed'' \<Longrightarrow> res_owner_request_id x = Some rid \<Longrightarrow> evolves x (reuse_row now rid tok x)"
  by (simp_all add: evolves_def same_reservation_def reservation_row_defs res_key_def res_stock_def)

lemma persists_refl [simp, intro]: "persists db db"
  by (auto simp: persists_def)

lemma persists_trans: "persists a b \<Longrightarrow> persists b c \<Longrightarrow> persists a c"
  unfolding persists_def by (meson evolves_trans)

lemma op_frame_refl [simp, intro]: "op_frame t db db"
  by (simp add: op_frame_def)

lemma op_frame_trans: "op_frame t a b \<Longrightarrow> op_frame t b c \<Longrightarrow> op_frame t a c"
  by (auto simp: op_frame_def intro: persists_trans)

lemma frame_inventory:
  assumes "update_inventory p f db = Inr (rows, db')"
    and "\<And>i. i \<in> set (inventory db) \<Longrightarrow> p i \<Longrightarrow> inv_tenant i = t"
    and "\<And>i. inv_key (f i) = inv_key i"
  shows "op_frame t db db'"
proof -
  have db': "db' = db\<lparr>inventory := update_where p f (inventory db)\<rparr>"
    using assms(1) by (auto elim: update_inventory_InrE)
  have "filter (\<lambda>i. inv_tenant i = t') (update_where p f rows) = filter (\<lambda>i. inv_tenant i = t') rows"
    if "t' \<noteq> t" "set rows \<subseteq> set (inventory db)" for t' rows
    using that assms(2,3) by (induction rows) (auto simp: inv_key_def)
  then show ?thesis by (simp add: op_frame_def persists_def db' tenant_view_def) blast
qed

lemma persists_reservations:
  assumes "update_reservations p g db = Inr (n, db')"
    and "\<And>x. x \<in> set (reservations db) \<Longrightarrow> p x \<Longrightarrow> evolves x (g x)"
  shows "persists db db'"
proof -
  have "set (reservations db') = (\<lambda>r. if p r then g r else r) ` set (reservations db)"
    using assms(1) by (auto simp: update_reservations_def sql_update_Inr set_update_where)
  then have "(if p r then g r else r) \<in> set (reservations db')" if "r \<in> set (reservations db)" for r
    using that by blast
  moreover have "evolves r (if p r then g r else r)" if "r \<in> set (reservations db)" for r
    using that assms(2) by simp
  ultimately show ?thesis unfolding persists_def by blast
qed

lemma frame_reservations:
  assumes u: "update_reservations p g db = Inr (n, db')"
    and p: "\<And>x. x \<in> set (reservations db) \<Longrightarrow> p x \<Longrightarrow> res_tenant x = t \<and> evolves x (g x)"
  shows "op_frame t db db'"
proof -
  have db': "db' = db\<lparr>reservations := update_where p g (reservations db)\<rparr>"
    using u by (auto simp: update_reservations_def sql_update_Inr)
  have "filter (\<lambda>i. res_tenant i = t') (update_where p g rows) = filter (\<lambda>i. res_tenant i = t') rows"
    if "t' \<noteq> t" "set rows \<subseteq> set (reservations db)" for t' rows
    using that
  proof (induction rows)
    case (Cons x xs)
    have "p x \<Longrightarrow> res_tenant x = t \<and> res_tenant (g x) = t"
      using p [of x] Cons.prems evolves_tenant [of x "g x"] by auto
    with Cons show ?case by auto
  qed simp
  moreover have "persists db db'" using u p by (auto intro: persists_reservations)
  ultimately show ?thesis by (simp add: op_frame_def tenant_view_def db')
qed

text \<open>The common case: the statement names one reservation of the tenant in a live state.\<close>

lemma frame_owned:
  assumes "update_reservations (owned_row t rid st req) g db = Inr (n, db')" "st \<noteq> ''consumed''"
    and "\<And>x. res_status x \<noteq> ''consumed'' \<Longrightarrow> evolves x (g x)"
  shows "op_frame t db db'"
  using assms(1) by (rule frame_reservations) (use assms(2,3) in \<open>auto simp: owned_row_def res_is_def\<close>)

lemmas frame_rules = frame_inventory frame_owned evolves_rows at_stock_def

subsection \<open>reserve\<close>

lemma reserve_reuse_frame:
  assumes wf: "wf_stock db" and r: "r \<in> set (reservations db)" "res_is (rq_tenant_id p) (rq_reservation_id p) r"
    and own: "res_owner_request_id r = Some request_id"
    and ok: "reserve_reuse now p request_id lease_token r db = Inr (out, db')"
  shows "op_frame (rq_tenant_id p) db db'"
proof -
  from ok obtain rows db1 n where
    u: "update_inventory (\<lambda>i. at_stock (rq_tenant_id p) (res_variant r) (res_location r) i
             \<and> available_quantity i \<ge> res_quantity r) (add_reserved now (res_quantity r)) db = Inr (rows, db1)"
    and v: "update_reservations (\<lambda>x. res_is (rq_tenant_id p) (rq_reservation_id p) x \<and> res_status x = ''released'')
        (reuse_row now request_id lease_token) db1 = Inr (n, db')"
    by (auto simp: reserve_reuse_def query_opt_Some split: if_splits)
  have "reservations db1 = reservations db" using u by (auto elim: update_inventory_InrE)
  then have one: "x = r" if "x \<in> set (reservations db1)" "res_is (rq_tenant_id p) (rq_reservation_id p) x" for x
    using res_is_unique [OF wf r(1) _ r(2)] that by simp
  have "op_frame (rq_tenant_id p) db db1" using u by (rule frame_inventory) (auto simp: at_stock_def)
  moreover have "op_frame (rq_tenant_id p) db1 db'"
    using v by (rule frame_reservations)
      (use one own in \<open>auto simp: res_is_def intro: evolves_rows\<close>)
  ultimately show ?thesis by (rule op_frame_trans)
qed

lemma reserve_existing_frame:
  assumes "wf_stock db" "r \<in> set (reservations db)" "res_is (rq_tenant_id p) (rq_reservation_id p) r"
    and "reserve_existing now p request_id lease_token r i db = Inr (out, db')"
  shows "op_frame (rq_tenant_id p) db db'"
  using assms
  by (auto simp: reserve_existing_def reserve_renew_def Let_def split: if_splits
      intro: reserve_reuse_frame frame_owned evolves_rows)

lemma reserve_fresh_frame:
  assumes wf: "wf_stock db" and ok: "reserve_fresh coll now p db = Inr (out, db')"
  shows "op_frame (rq_tenant_id p) db db'"
proof (cases "limit1 (order_by (candidate_le coll)
    (candidates db (rq_tenant_id p) (rq_sku p) (u32_as_i32 (rq_quantity p))))")
  case None
  then show ?thesis using ok by (simp add: reserve_fresh_def)
next
  case (Some cc)
  obtain code c where cc: "cc = (code, c)" by (cases cc)
  note row = candidate_row [OF wf Some [unfolded cc]]
  note c = candidatesD [OF Some [unfolded cc]]
  have mine: "inv_tenant i = rq_tenant_id p"
    if "i \<in> set (inventory db)" "inv_id i = inv_id c \<and> u32_as_i32 (rq_quantity p) \<le> available_quantity i" for i
    using filter_single_iff [OF row, of i] that c(2) by simp
  from ok Some cc obtain rows db1 where
    u: "update_inventory (\<lambda>i. inv_id i = inv_id c \<and> u32_as_i32 (rq_quantity p) \<le> available_quantity i)
          (add_reserved now (u32_as_i32 (rq_quantity p))) db = Inr (rows, db1)"
    and r: "inventory db' = inventory db1 \<and> (\<exists>rs. reservations db' = reservations db1 @ rs
          \<and> list_all (\<lambda>r. res_tenant r = rq_tenant_id p) rs)"
    by (auto simp: reserve_fresh_def Let_def sql_insert_Inr split: option.splits)
  have "op_frame (rq_tenant_id p) db db1"
    using u by (rule frame_inventory) (use mine in auto)
  moreover have "op_frame (rq_tenant_id p) db1 db'"
    using r by (auto simp: op_frame_def persists_def tenant_view_def filter_empty_conv list_all_iff)
  ultimately show ?thesis by (rule op_frame_trans)
qed

lemma reserve_tx_frame:
  assumes "wf_stock db" "reserve_tx coll now p db = Inr (out, db')"
  shows "op_frame (rq_tenant_id p) db db'"
  using assms
  by (auto simp: reserve_tx_def query_opt_Some query_opt_None split: option.splits
      intro: reserve_existing_frame reserve_fresh_frame reservation_join_single)

subsection \<open>release\<close>

lemma release_rebind_frame:
  "release_rebind now body request_id lease_token r db = Inr db' \<Longrightarrow> op_frame (rl_tenant_id body) db db'"
  by (auto simp: release_rebind_def split: if_splits intro: frame_owned evolves_rows)

lemma release_held_frame:
  assumes "release_held now body request_id r db = Inr (out, db')"
  shows "op_frame (rl_tenant_id body) db db'"
proof -
  from assms obtain rows db1 n where
    u: "update_inventory (\<lambda>i. at_stock (rl_tenant_id body) (res_variant r) (res_location r) i
             \<and> reserved_quantity i \<ge> res_quantity r) (add_reserved now (- res_quantity r)) db = Inr (rows, db1)"
    and v: "update_reservations (owned_row (rl_tenant_id body) (rl_reservation_id body) ''reserved'' request_id)
        (released_row now) db1 = Inr (n, db')"
    by (auto simp: release_held_def query_opt_Some split: if_splits)
  have "op_frame (rl_tenant_id body) db db1" using u by (rule frame_inventory) (auto simp: at_stock_def)
  moreover have "op_frame (rl_tenant_id body) db1 db'"
    using v by (rule frame_owned) (auto intro: evolves_rows)
  ultimately show ?thesis by (rule op_frame_trans)
qed

lemma release_tx_frame:
  assumes "release_tx now body db = Inr (out, db')"
  shows "op_frame (rl_tenant_id body) db db'"
  using assms
  by (auto simp: release_tx_def release_found_def split: option.splits if_splits
      intro: release_rebind_frame op_frame_trans [OF release_rebind_frame release_held_frame])

subsection \<open>consume\<close>

lemma consume_prepare_frame:
  assumes "consume_prepare now t request_id lease_token c r db = Inr (Some db')"
  shows "op_frame t db db'"
proof -
  consider (recover) rows db1 n where
      "update_inventory (\<lambda>i. at_stock t (res_variant r) (res_location r) i
         \<and> available_quantity i \<ge> res_quantity r) (add_reserved now (res_quantity r)) db = Inr (rows, db1)"
      "update_reservations (owned_row t (cr_reservation_id c) ''released'' request_id)
         (recover_row now lease_token) db1 = Inr (n, db')"
    | (other) "op_frame t db db'"
    using assms by (auto simp: consume_prepare_def split: if_splits intro: frame_owned evolves_rows)
  then show ?thesis
  proof cases
    case recover
    have "op_frame t db db1" using recover(1) by (rule frame_inventory) (auto simp: at_stock_def)
    moreover have "op_frame t db1 db'" using recover(2) by (rule frame_owned) (auto intro: evolves_rows)
    ultimately show ?thesis by (rule op_frame_trans)
  qed
qed

lemma consume_take_frame:
  assumes "consume_take now t request_id c r db = Inr db'"
  shows "op_frame t db db'"
proof -
  from assms obtain rows db1 n where
    u: "update_inventory (\<lambda>i. at_stock t (res_variant r) (res_location r) i
        \<and> on_hand_quantity i \<ge> res_quantity r \<and> reserved_quantity i \<ge> res_quantity r)
        (take_stock now (res_quantity r)) db = Inr (rows, db1)"
    and v: "update_reservations (owned_row t (cr_reservation_id c) ''reserved'' request_id)
        (consumed_row now) db1 = Inr (n, db')"
    by (auto simp: consume_take_def split: if_splits)
  have "op_frame t db db1" using u by (rule frame_inventory) (auto simp: at_stock_def)
  moreover have "op_frame t db1 db'" using v by (rule frame_owned) (auto intro: evolves_rows)
  ultimately show ?thesis by (rule op_frame_trans)
qed

lemma consume_step_frame:
  assumes "consume_step now t request_id lease_token (n, db) c = Inr (n', db')"
  shows "op_frame t db db'"
  using assms
  by (auto simp: consume_step_def split: if_splits option.splits
      intro: op_frame_trans [OF consume_prepare_frame consume_take_frame])

lemma consume_loop_frame:
  assumes "try_fold (consume_step now t request_id lease_token) s cs = Inr s'"
  shows "op_frame t (snd s) (snd s')"
  using assms
  by (rule try_fold_invariant [where I = "\<lambda>x. op_frame t (snd s) (snd x)"])
     (auto intro: op_frame_trans [OF _ consume_step_frame])

lemma consume_tx_frame:
  "consume_tx now body db = Inr (out, db') \<Longrightarrow> op_frame (cb_tenant_id body) db db'"
  by (auto simp: consume_tx_def dest: consume_loop_frame)

subsection \<open>The reaper\<close>

lemma reap_step_persists:
  assumes "reap_step now (n, db) row = Inr (n', db')"
  shows "persists db db'"
proof -
  from assms obtain rows db1 m where
    u: "update_inventory (\<lambda>i. at_stock (res_tenant row) (res_variant row) (res_location row) i
        \<and> reserved_quantity i \<ge> res_quantity row) (add_reserved now (- res_quantity row)) db = Inr (rows, db1)"
    and v: "update_reservations (\<lambda>x. res_is (res_tenant row) (res_id row) x \<and> res_status x = ''reserved''
               \<and> res_expires_at x \<le> now) (released_row now) db1 = Inr (m, db')"
    by (auto simp: reap_step_def split: if_splits)
  have "reservations db1 = reservations db" using u by (auto elim: update_inventory_InrE)
  then have "persists db db1" by (auto simp: persists_def)
  moreover have "persists db1 db'" using v by (rule persists_reservations) (auto intro: evolves_rows)
  ultimately show ?thesis by (rule persists_trans)
qed

lemma reap_loop_persists:
  assumes "try_fold (reap_step now) s rows = Inr s'"
  shows "persists (snd s) (snd s')"
  using assms
  by (rule try_fold_invariant [where I = "\<lambda>x. persists (snd s) (snd x)"])
     (auto intro: persists_trans [OF _ reap_step_persists])

end
