(* ===== verification/InventoryEffects.thy ===== *)
theory InventoryEffects
  imports InventoryHistory
begin

text \<open>
  The abstract stock ledger and the refinement of the inventory operations to it. The abstract
  state gives for every stock key the units that can be promised (\<open>free\<close>), the units held by open
  reservations (\<open>holds\<close>) and the units consumed (\<open>gone\<close>); the abstract moves are guarded transfers
  between the three. Every committed operation is a list of enabled moves, and the quantities it
  reports are the quantities moved.
\<close>

record ledger =
  free :: "stock_key \<Rightarrow> int"
  holds :: "stock_key \<Rightarrow> int"
  gone :: "stock_key \<Rightarrow> int"

datatype move = Hold stock_key int | Unhold stock_key int | Ship stock_key int

fun enabled :: "move \<Rightarrow> ledger \<Rightarrow> bool" where
  "enabled (Hold k q) l \<longleftrightarrow> 0 < q \<and> q \<le> free l k"
| "enabled (Unhold k q) l \<longleftrightarrow> 0 < q \<and> q \<le> holds l k"
| "enabled (Ship k q) l \<longleftrightarrow> 0 < q \<and> q \<le> holds l k"

fun apply_move :: "move \<Rightarrow> ledger \<Rightarrow> ledger" where
  "apply_move (Hold k q) l =
     l\<lparr>free := (free l)(k := free l k - q), holds := (holds l)(k := holds l k + q)\<rparr>"
| "apply_move (Unhold k q) l =
     l\<lparr>free := (free l)(k := free l k + q), holds := (holds l)(k := holds l k - q)\<rparr>"
| "apply_move (Ship k q) l =
     l\<lparr>holds := (holds l)(k := holds l k - q), gone := (gone l)(k := gone l k + q)\<rparr>"

fun run_moves :: "move list \<Rightarrow> ledger \<Rightarrow> ledger option" where
  "run_moves [] l = Some l"
| "run_moves (m # ms) l = (if enabled m l then run_moves ms (apply_move m l) else None)"

fun shipped_units :: "move list \<Rightarrow> int" where
  "shipped_units [] = 0"
| "shipped_units (Ship k q # ms) = q + shipped_units ms"
| "shipped_units (_ # ms) = shipped_units ms"

definition abs_ledger :: "commerce_db \<Rightarrow> ledger" where
  "abs_ledger db =
     \<lparr>free = (\<lambda>k. on_hand_at db k - reserved_at db k), holds = held db, gone = shipped db\<rparr>"

lemma run_moves_append:
  "run_moves (xs @ ys) l = (case run_moves xs l of None \<Rightarrow> None | Some m \<Rightarrow> run_moves ys m)"
  by (induction xs arbitrary: l) auto

lemma shipped_units_append [simp]: "shipped_units (xs @ ys) = shipped_units xs + shipped_units ys"
  by (induction xs rule: shipped_units.induct) auto

text \<open>An abstract run never creates or loses a unit, whatever the moves.\<close>

lemma run_moves_conserve:
  "run_moves ms l = Some l' \<Longrightarrow> free l' k + holds l' k + gone l' k = free l k + holds l k + gone l k"
proof (induction ms arbitrary: l)
  case (Cons m ms)
  then show ?case by (cases m) (auto split: if_splits)
qed simp

lemma run_moves_nonneg:
  assumes "run_moves ms l = Some l'" "0 \<le> free l k" "0 \<le> holds l k"
  shows "0 \<le> free l' k \<and> 0 \<le> holds l' k"
  using assms
proof (induction ms arbitrary: l)
  case (Cons m ms)
  then show ?case by (cases m; intro Cons.IH [of "apply_move m l"]) (auto split: if_splits)
qed simp

subsection \<open>One updated reservation row\<close>

lemma held_update:
  assumes "filter pr rows = [x]" "res_stock (g x) = res_stock x"
  shows "(\<Sum>r\<leftarrow>update_where pr g rows. at_key_of res_stock k h r)
    = (\<Sum>r\<leftarrow>rows. at_key_of res_stock k h r) + (if k = res_stock x then h (g x) - h x else 0)"
  using assms by (auto simp: sum_update_single at_key_of_def)

lemma row_effect:
  assumes wf: "wf_stock db" and r: "r \<in> set (reservations db)" "res_is t rid r"
    and same: "reservations db1 = reservations db"
    and v: "update_reservations pr g db1 = Inr (n, db')" "n = 1"
    and pr: "\<And>x. pr x \<Longrightarrow> res_is t rid x"
    and g: "res_stock (g r) = res_stock r"
  shows "held db' = (held db)(res_stock r := held db (res_stock r) + (hold_of (g r) - hold_of r))"
    and "shipped db' = (shipped db)(res_stock r := shipped db (res_stock r) + (shipped_of (g r) - shipped_of r))"
    and "pr r"
proof -
  from v obtain x where x: "filter pr (reservations db1) = [x]"
      "db' = db1\<lparr>reservations := update_where pr g (reservations db1)\<rparr>"
    by (rule update_reservations_one)
  have "x = r" using filter_singleD [OF x(1)] pr same res_is_unique [OF wf r(1) _ r(2)] by auto
  with x same have one: "filter pr (reservations db) = [r]"
    and db': "reservations db' = update_where pr g (reservations db)" by simp_all
  show "pr r" using filter_singleD [OF one] by simp
  show "held db' = (held db)(res_stock r := held db (res_stock r) + (hold_of (g r) - hold_of r))"
    by (auto simp: held_def db' held_update [where g = g, OF one g] fun_eq_iff)
  show "shipped db' = (shipped db)(res_stock r := shipped db (res_stock r) + (shipped_of (g r) - shipped_of r))"
    by (auto simp: shipped_def db' held_update [where g = g, OF one g] fun_eq_iff)
qed

lemma free_of_sums:
  assumes "ledger_step db db'"
  shows "free (abs_ledger db') k = free (abs_ledger db) k
     - (held db' k - held db k) - (shipped db' k - shipped db k)"
proof -
  have "slack db' k = slack db k" "stock_total db' k = stock_total db k"
    using assms by (simp_all add: ledger_step_def)
  then show ?thesis by (simp add: abs_ledger_def slack_def stock_total_def)
qed

lemma abs_ledger_move:
  assumes "ledger_step db db'"
    and "held db' = (held db)(k := held db k + dh)" "shipped db' = (shipped db)(k := shipped db k + ds)"
  shows "abs_ledger db' = \<lparr>free = (free (abs_ledger db))(k := free (abs_ledger db) k - dh - ds),
     holds = (holds (abs_ledger db))(k := holds (abs_ledger db) k + dh),
     gone = (gone (abs_ledger db))(k := gone (abs_ledger db) k + ds)\<rparr>"
proof -
  have "free (abs_ledger db') = (free (abs_ledger db))(k := free (abs_ledger db) k - dh - ds)"
    by (rule ext, subst free_of_sums [OF assms(1)]) (simp add: assms(2,3))
  then show ?thesis using assms(2,3) by (simp add: abs_ledger_def)
qed

lemma abs_ledger_same:
  assumes "ledger_step db db'" "held db' = held db" "shipped db' = shipped db"
  shows "abs_ledger db' = abs_ledger db"
  using abs_ledger_move [OF assms(1), of undefined 0 0] assms(2,3) by simp

lemma free_at_row:
  "wf_stock db \<Longrightarrow> i \<in> set (inventory db) \<Longrightarrow> free (abs_ledger db) (inv_key i) = available_quantity i"
  by (simp add: abs_ledger_def on_hand_at_row reserved_at_row available_quantity_def)

lemma hold_le_held:
  assumes "wf_stock db" "r \<in> set (reservations db)" "res_status r = ''reserved''"
  shows "0 < res_quantity r" "res_quantity r \<le> held db (res_stock r)"
proof -
  have q: "0 < res_quantity x" if "x \<in> set (reservations db)" for x
    using assms(1) that by (auto simp: wf_stock_def list_all_iff reservation_check_def)
  then show "0 < res_quantity r" using assms(2) by simp
  have "at_key_of res_stock (res_stock r) hold_of r \<le> held db (res_stock r)"
    unfolding held_def using assms(2) q
    by (intro sum_row_le) (auto simp: at_key_of_def hold_of_def less_imp_le)
  then show "res_quantity r \<le> held db (res_stock r)" using assms(3) by (simp add: at_key_of_def hold_of_def)
qed

subsection \<open>The three moves\<close>

lemma hold_move:
  assumes wf: "wf_stock db" and r: "r \<in> set (reservations db)" "res_is t rid r"
    and u: "update_inventory (\<lambda>i. at_stock t (res_variant r) (res_location r) i
              \<and> available_quantity i \<ge> res_quantity r) (add_reserved now (res_quantity r)) db = Inr (rows, db1)"
      "length rows = 1"
    and v: "update_reservations pr g db1 = Inr (n, db')" "n = 1"
    and pr: "\<And>x. pr x \<Longrightarrow> res_is t rid x" "\<And>x. pr x \<Longrightarrow> res_status x = ''released''"
    and g: "res_stock (g r) = res_stock r" "res_status (g r) = ''reserved''" "res_quantity (g r) = res_quantity r"
    and step: "ledger_step db db'"
  shows "run_moves [Hold (res_stock r) (res_quantity r)] (abs_ledger db) = Some (abs_ledger db')"
proof -
  have same: "reservations db1 = reservations db" using u(1) by (auto elim: update_inventory_InrE)
  note e = row_effect [OF wf r same v pr(1) g(1)]
  have st: "res_status r = ''released''" using e(3) pr(2) by simp
  from u obtain i where i: "filter (\<lambda>i. at_stock t (res_variant r) (res_location r) i
      \<and> available_quantity i \<ge> res_quantity r) (inventory db) = [i]" by (rule update_inventory_one)
  have "res_quantity r \<le> free (abs_ledger db) (res_stock r)"
    using filter_singleD [OF i] free_at_row [OF wf, of i] res_is_stock [OF r(2)] by auto
  moreover have "0 < res_quantity r"
    using wf r(1) by (auto simp: wf_stock_def list_all_iff reservation_check_def)
  moreover have "abs_ledger db' = apply_move (Hold (res_stock r) (res_quantity r)) (abs_ledger db)"
    using abs_ledger_move [OF step e(1,2)] st g by (simp add: hold_of_def shipped_of_def)
  ultimately show ?thesis by simp
qed

lemma live_move:
  assumes wf: "wf_stock db" and r: "r \<in> set (reservations db)" "res_is t rid r"
    and same: "reservations db1 = reservations db"
    and v: "update_reservations pr g db1 = Inr (n, db')" "n = 1"
    and pr: "\<And>x. pr x \<Longrightarrow> res_is t rid x" "\<And>x. pr x \<Longrightarrow> res_status x = ''reserved''"
    and g: "res_stock (g r) = res_stock r" "res_quantity (g r) = res_quantity r"
    and step: "ledger_step db db'"
  shows "res_status (g r) = ''released'' \<Longrightarrow>
      run_moves [Unhold (res_stock r) (res_quantity r)] (abs_ledger db) = Some (abs_ledger db')"
    and "res_status (g r) = ''consumed'' \<Longrightarrow>
      run_moves [Ship (res_stock r) (res_quantity r)] (abs_ledger db) = Some (abs_ledger db')"
    and "res_status (g r) = ''reserved'' \<Longrightarrow> abs_ledger db' = abs_ledger db"
proof -
  note e = row_effect [OF wf r same v pr(1) g(1)]
  have st: "res_status r = ''reserved''" using e(3) pr(2) by simp
  note q = hold_le_held [OF wf r(1) st]
  note m = abs_ledger_move [OF step e(1,2)]
  show "run_moves [Unhold (res_stock r) (res_quantity r)] (abs_ledger db) = Some (abs_ledger db')"
    if "res_status (g r) = ''released''"
    using m st g q that by (simp add: hold_of_def shipped_of_def) (simp add: abs_ledger_def)
  show "run_moves [Ship (res_stock r) (res_quantity r)] (abs_ledger db) = Some (abs_ledger db')"
    if "res_status (g r) = ''consumed''"
    using m st g q that by (simp add: hold_of_def shipped_of_def) (simp add: abs_ledger_def)
  show "abs_ledger db' = abs_ledger db" if "res_status (g r) = ''reserved''"
    using m st g that by (simp add: hold_of_def shipped_of_def)
qed

lemma status_kept_abs:
  assumes wf: "wf_stock db"
    and v: "update_reservations pr g db = Inr (n, db')" "n = 1"
    and g: "\<And>x. res_key (g x) = res_key x" "\<And>x. res_stock (g x) = res_stock x"
      "\<And>x. res_status (g x) = res_status x" "\<And>x. res_quantity (g x) = res_quantity x"
  shows "abs_ledger db' = abs_ledger db"
proof -
  have "reservations db' = update_where pr g (reservations db)" "inventory db' = inventory db"
    using v by (auto simp: update_reservations_def sql_update_Inr)
  then show ?thesis
    using g by (simp add: abs_ledger_def held_def shipped_def on_hand_at_def reserved_at_def fun_eq_iff
        sum_update_where_frame at_key_of_def hold_of_def shipped_of_def)
qed

end
