(* ===== verification/InventoryRefine.thy ===== *)
theory InventoryRefine
  imports InventoryEffects
begin

text \<open>
  Refinement of \<open>reserve\<close>, \<open>release\<close>, \<open>consume\<close> and the reaper to the abstract ledger of
  \<open>InventoryEffects\<close>, branch by branch and then for the whole transaction.
\<close>

subsection \<open>reserve\<close>

definition reserve_spec :: "string \<Rightarrow> int \<Rightarrow> reserve_outcome option \<Rightarrow> ledger \<Rightarrow> ledger \<Rightarrow> bool" where
  "reserve_spec t q out l l' \<longleftrightarrow>
     (case out of
        None \<Rightarrow> l' = l
      | Some o' \<Rightarrow>
          (\<exists>v. ro_remaining o' = free l' (t, v, ro_location_id o')
             \<and> (if ro_status o' = ''reserved''
                then run_moves [Hold (t, v, ro_location_id o') q] l = Some l'
                else l' = l)))"

lemma reserve_spec_kept:
  "ro_status o' \<noteq> ''reserved'' \<Longrightarrow> ro_remaining o' = free l (t, v, ro_location_id o') \<Longrightarrow>
    reserve_spec t q (Some o') l l"
  by (auto simp: reserve_spec_def)

lemma reserve_spec_hold:
  "ro_status o' = ''reserved'' \<Longrightarrow> run_moves [Hold (t, v, ro_location_id o') q] l = Some l' \<Longrightarrow>
    ro_remaining o' = free l (t, v, ro_location_id o') - q \<Longrightarrow> reserve_spec t q (Some o') l l'"
  by (auto simp: reserve_spec_def intro!: exI [of _ v] split: if_splits)

lemma available_add_reserved [simp]:
  "available_quantity (add_reserved now q i) = available_quantity i - q"
  by (simp add: available_quantity_def)

lemma res_is_key: "res_is t rid r \<Longrightarrow> res_stock r = (t, res_variant r, res_location r)"
  by (simp add: res_is_def res_stock_def)

lemma reserve_reuse_move:
  assumes wf: "wf_stock db" and r: "r \<in> set (reservations db)" "res_is (rq_tenant_id p) (rq_reservation_id p) r"
    and ok: "reserve_reuse now p request_id lease_token r db = Inr (out, db')"
  shows "run_moves [Hold (res_stock r) (res_quantity r)] (abs_ledger db) = Some (abs_ledger db')"
proof -
  from ok obtain row db1 n where
    u: "update_inventory (\<lambda>i. at_stock (rq_tenant_id p) (res_variant r) (res_location r) i
             \<and> available_quantity i \<ge> res_quantity r) (add_reserved now (res_quantity r)) db = Inr ([row], db1)"
    and v: "update_reservations (\<lambda>x. res_is (rq_tenant_id p) (rq_reservation_id p) x \<and> res_status x = ''released'')
        (reuse_row now request_id lease_token) db1 = Inr (n, db')" "n = 1"
    by (auto simp: reserve_reuse_def query_opt_Some split: if_splits)
  show ?thesis using reserve_reuse_ledger [OF wf r ok] by (intro hold_move [OF wf r u _ v]) auto
qed

lemma reserve_reuse_refines:
  assumes wf: "wf_stock db" and r: "r \<in> set (reservations db)" "res_is (rq_tenant_id p) (rq_reservation_id p) r"
    and ok: "reserve_reuse now p request_id lease_token r db = Inr (out, db')"
  shows "reserve_spec (rq_tenant_id p) (res_quantity r) out (abs_ledger db) (abs_ledger db')"
proof -
  let ?p = "\<lambda>i. at_stock (rq_tenant_id p) (res_variant r) (res_location r) i
             \<and> available_quantity i \<ge> res_quantity r"
  from ok obtain row db1 where
    u: "update_inventory ?p (add_reserved now (res_quantity r)) db = Inr ([row], db1)"
    and out: "out = Some \<lparr>ro_location_id = res_location r, ro_remaining = available_quantity row,
                          ro_status = ''reserved''\<rparr>"
    by (auto simp: reserve_reuse_def query_opt_Some split: if_splits)
  note m = reserve_reuse_move [OF wf r ok]
  from u obtain i where i: "filter ?p (inventory db) = [i]" "row = add_reserved now (res_quantity r) i"
    by (rule update_inventory_one) auto
  have "inv_key i = res_stock r" "i \<in> set (inventory db)"
    using filter_singleD [OF i(1)] res_is_stock [OF r(2)] by auto
  then have "free (abs_ledger db) (res_stock r) = available_quantity i"
    using free_at_row [OF wf] by metis
  with m i(2) out res_is_key [OF r(2)] show ?thesis
    by (simp del: run_moves.simps add: reserve_spec_hold [where v = "res_variant r"])
qed

lemma reserve_renew_refines:
  assumes wf: "wf_stock db" and i: "i \<in> set (inventory db)" "inv_key i = res_stock r"
    and r: "res_is (rq_tenant_id p) (rq_reservation_id p) r"
    and ok: "reserve_renew now p request_id lease_token r i db = Inr (out, db')"
  shows "reserve_spec (rq_tenant_id p) q out (abs_ledger db) (abs_ledger db')"
proof -
  have "abs_ledger db' = abs_ledger db"
    using ok wf by (auto simp: reserve_renew_def Let_def split: if_splits intro: status_kept_abs)
  moreover have "free (abs_ledger db) (rq_tenant_id p, res_variant r, res_location r) = available_quantity i"
    using free_at_row [OF wf i(1)] i(2) res_is_key [OF r] by simp
  moreover have "out = Some \<lparr>ro_location_id = res_location r, ro_remaining = available_quantity i,
                          ro_status = ''already_reserved''\<rparr>"
    using ok by (auto simp: reserve_renew_def Let_def split: if_splits)
  ultimately show ?thesis by (simp add: reserve_spec_kept [where v = "res_variant r"])
qed

lemma reserve_existing_cases:
  assumes "reserve_existing now p request_id lease_token r i db = Inr (out, db')"
  shows "reserve_reuse now p request_id lease_token r db = Inr (out, db')
    \<or> (db' = db \<and> out = Some \<lparr>ro_location_id = res_location r, ro_remaining = available_quantity i,
                          ro_status = ''already_consumed''\<rparr>)
    \<or> reserve_renew now p request_id lease_token r i db = Inr (out, db')"
  using assms unfolding reserve_existing_def Let_def by (simp split: if_split_asm)

lemma reserve_existing_refines:
  assumes wf: "wf_stock db" and r: "r \<in> set (reservations db)" "res_is (rq_tenant_id p) (rq_reservation_id p) r"
    and i: "i \<in> set (inventory db)" "inv_key i = res_stock r"
    and ok: "reserve_existing now p request_id lease_token r i db = Inr (out, db')"
  shows "reserve_spec (rq_tenant_id p) (i32_try_from_u32_or_max (rq_quantity p)) out (abs_ledger db) (abs_ledger db')"
proof -
  have q: "res_quantity r = i32_try_from_u32_or_max (rq_quantity p)"
    using ok by (auto simp: reserve_existing_def split: if_splits)
  have fr: "free (abs_ledger db) (rq_tenant_id p, res_variant r, res_location r) = available_quantity i"
    using free_at_row [OF wf i(1)] i(2) res_is_key [OF r(2)] by simp
  from ok consider "reserve_reuse now p request_id lease_token r db = Inr (out, db')"
    | "db' = db" "out = Some \<lparr>ro_location_id = res_location r, ro_remaining = available_quantity i,
                          ro_status = ''already_consumed''\<rparr>"
    | "reserve_renew now p request_id lease_token r i db = Inr (out, db')"
    using reserve_existing_cases [OF ok] by blast
  then show ?thesis
  proof cases
    case 1 with reserve_reuse_refines [OF wf r] q show ?thesis by simp
  next
    case 2 with fr show ?thesis by (simp add: reserve_spec_kept [where v = "res_variant r"])
  next
    case 3 with reserve_renew_refines [OF wf i r(2)] show ?thesis by simp
  qed
qed

lemma reserve_fresh_None:
  assumes wf: "wf_stock db" and ok: "reserve_fresh coll now p db = Inr (None, db')"
  shows "db' = db"
proof (cases "limit1 (order_by (candidate_le coll)
    (candidates db (rq_tenant_id p) (rq_sku p) (u32_as_i32 (rq_quantity p))))")
  case None
  then show ?thesis using ok by (simp add: reserve_fresh_def)
next
  case (Some cc)
  obtain code c where cc: "cc = (code, c)" by (cases cc)
  show ?thesis
    using ok Some cc candidate_row [OF wf Some [unfolded cc]]
    by (auto simp: reserve_fresh_def Let_def elim!: update_inventory_InrE split: option.splits)
qed

text \<open>A new reservation: the row inserted, the stock row it took its units from.\<close>

lemma reserve_fresh_insert:
  assumes wf: "wf_stock db" and ok: "reserve_fresh coll now p db = Inr (Some o', db')"
  obtains c where "c \<in> set (inventory db)" "inv_tenant c = rq_tenant_id p"
    "add_reserved now (u32_as_i32 (rq_quantity p)) c \<in> set (inventory db')"
    "reservations db' = reservations db @
       [\<lparr>res_id = rq_reservation_id p, res_tenant = rq_tenant_id p, res_sku = rq_sku p,
         res_variant = inv_variant c, res_location = inv_location c, res_quantity = u32_as_i32 (rq_quantity p),
         res_status = ''reserved'', res_expires_at = now + seconds RESERVATION_HOLD,
         res_released_at = None, res_consumed_at = None, res_owner_request_id = rq_checkout_request_id p,
         res_owner_lease_token = rq_checkout_lease_token p, res_updated_at = now\<rparr>]"
    "o' = \<lparr>ro_location_id = inv_location c,
       ro_remaining = available_quantity (add_reserved now (u32_as_i32 (rq_quantity p)) c), ro_status = ''reserved''\<rparr>"
    "run_moves [Hold (inv_key c) (u32_as_i32 (rq_quantity p))] (abs_ledger db) = Some (abs_ledger db')"
proof (cases "limit1 (order_by (candidate_le coll)
    (candidates db (rq_tenant_id p) (rq_sku p) (u32_as_i32 (rq_quantity p))))")
  case None
  then show ?thesis using ok by (simp add: reserve_fresh_def)
next
  case (Some cc)
  obtain code c where cc: "cc = (code, c)" by (cases cc)
  let ?q = "u32_as_i32 (rq_quantity p)"
  let ?row = "\<lparr>res_id = rq_reservation_id p, res_tenant = rq_tenant_id p, res_sku = rq_sku p,
     res_variant = inv_variant c, res_location = inv_location c, res_quantity = ?q,
     res_status = ''reserved'', res_expires_at = now + seconds RESERVATION_HOLD,
     res_released_at = None, res_consumed_at = None, res_owner_request_id = rq_checkout_request_id p,
     res_owner_lease_token = rq_checkout_lease_token p, res_updated_at = now\<rparr>"
  note row = candidate_row [OF wf Some [unfolded cc]]
  note c = candidatesD [OF Some [unfolded cc]]
  let ?p = "\<lambda>i. inv_id i = inv_id c \<and> ?q \<le> available_quantity i"
  from ok Some cc have db': "reservations db' = reservations db @ [?row]"
      "inventory db' = update_where ?p (add_reserved now ?q) (inventory db)"
    and qpos: "0 < ?q"
    and out: "o' = \<lparr>ro_location_id = inv_location c,
           ro_remaining = available_quantity (add_reserved now ?q c), ro_status = ''reserved''\<rparr>"
    by (auto simp: reserve_fresh_def Let_def row sql_insert_Inr reservation_check_def
        elim!: update_inventory_InrE split: option.splits)
  have key: "res_stock ?row = inv_key c" by (simp add: inv_key_def res_stock_def c)
  have h: "held db' = (held db)(inv_key c := held db (inv_key c) + ?q)"
    and s: "shipped db' = (shipped db)(inv_key c := shipped db (inv_key c) + 0)"
    using key by (auto simp: held_def shipped_def db' at_key_of_def hold_of_def shipped_of_def fun_eq_iff)
  have "run_moves [Hold (inv_key c) ?q] (abs_ledger db) = Some (abs_ledger db')"
    using abs_ledger_move [OF reserve_fresh_ledger [OF wf ok] h s] free_at_row [OF wf c(1)] c(3) qpos by simp
  moreover have "add_reserved now ?q c \<in> set (inventory db')"
    using db'(2) c(1,3) by (auto simp: set_update_where image_iff intro!: bexI [of _ c])
  ultimately show ?thesis using that [OF c(1,2) _ db'(1) out] by blast
qed

lemma reserve_fresh_refines:
  assumes wf: "wf_stock db" and ok: "reserve_fresh coll now p db = Inr (out, db')"
  shows "reserve_spec (rq_tenant_id p) (u32_as_i32 (rq_quantity p)) out (abs_ledger db) (abs_ledger db')"
proof (cases out)
  case None
  then have "db' = db" using ok wf by (simp add: reserve_fresh_None)
  with None show ?thesis by (simp add: reserve_spec_def)
next
  case (Some o')
  obtain c where c: "c \<in> set (inventory db)" "inv_tenant c = rq_tenant_id p"
    "o' = \<lparr>ro_location_id = inv_location c,
       ro_remaining = available_quantity (add_reserved now (u32_as_i32 (rq_quantity p)) c), ro_status = ''reserved''\<rparr>"
    "run_moves [Hold (inv_key c) (u32_as_i32 (rq_quantity p))] (abs_ledger db) = Some (abs_ledger db')"
    by (rule reserve_fresh_insert [OF wf ok [unfolded Some]]) blast
  have key: "inv_key c = (rq_tenant_id p, inv_variant c, inv_location c)" by (simp add: inv_key_def c)
  show ?thesis
    using Some c(3,4) free_at_row [OF wf c(1)] key
    by (simp del: run_moves.simps add: reserve_spec_hold [where v = "inv_variant c"])
qed

lemma reserve_tx_refines:
  assumes wf: "wf_stock db" and q: "uint (rq_quantity p) \<le> i32_max"
    and ok: "reserve_tx coll now p db = Inr (out, db')"
  shows "reserve_spec (rq_tenant_id p) (uint (rq_quantity p)) out (abs_ledger db) (abs_ledger db')"
proof -
  from ok consider r i request_id lease_token
      where "reservation_join db (rq_tenant_id p) (rq_reservation_id p) = [(r, i)]"
        "reserve_existing now p request_id lease_token r i db = Inr (out, db')"
    | "reserve_fresh coll now p db = Inr (out, db')"
    by (auto simp: reserve_tx_def query_opt_Some query_opt_None split: option.splits)
  then show ?thesis
  proof cases
    case 1
    from reservation_join_single [OF 1(1)] reserve_existing_refines [OF wf _ _ _ _ 1(2)] q
    show ?thesis by (simp add: i32_try_from_small)
  next
    case 2
    from reserve_fresh_refines [OF wf 2] q show ?thesis by (simp add: u32_as_i32_small)
  qed
qed

subsection \<open>release\<close>

definition release_spec :: "string \<Rightarrow> int \<Rightarrow> release_outcome option \<Rightarrow> ledger \<Rightarrow> ledger \<Rightarrow> bool" where
  "release_spec t q out l l' \<longleftrightarrow>
     (case out of
        None \<Rightarrow> l' = l
      | Some o' \<Rightarrow>
          (\<exists>v. lo_available o' = free l' (t, v, lo_location_id o')
             \<and> (if lo_status o' = ''released''
                then lo_released o' = q \<and> run_moves [Unhold (t, v, lo_location_id o') q] l = Some l'
                else lo_released o' = 0 \<and> l' = l)))"

lemma release_spec_kept:
  "lo_status o' \<noteq> ''released'' \<Longrightarrow> lo_released o' = 0 \<Longrightarrow> lo_available o' = free l (t, v, lo_location_id o') \<Longrightarrow>
    release_spec t q (Some o') l l"
  by (auto simp: release_spec_def)

lemma release_spec_unhold:
  "lo_status o' = ''released'' \<Longrightarrow> lo_released o' = q \<Longrightarrow>
    run_moves [Unhold (t, v, lo_location_id o') q] l = Some l' \<Longrightarrow>
    lo_available o' = free l (t, v, lo_location_id o') + q \<Longrightarrow> release_spec t q (Some o') l l'"
  by (auto simp: release_spec_def intro!: exI [of _ v] split: if_splits)

lemma release_rebind_abs:
  assumes "wf_stock db" "release_rebind now body request_id lease_token r db = Inr db'"
  shows "abs_ledger db' = abs_ledger db"
  using assms by (auto simp: release_rebind_def split: if_splits intro: status_kept_abs)

lemma same_reservation_stock:
  assumes "same_reservation r r'"
  shows "res_stock r' = res_stock r" "res_quantity r' = res_quantity r"
    "res_variant r' = res_variant r" "res_location r' = res_location r"
  using assms by (auto simp: same_reservation_def res_stock_def)

lemma release_held_move:
  assumes wf: "wf_stock db" and r: "r' \<in> set (reservations db)" "res_is (rl_tenant_id body) (rl_reservation_id body) r'"
    "same_reservation r r'"
    and ok: "release_held now body request_id r db = Inr (out, db')"
  shows "run_moves [Unhold (res_stock r) (res_quantity r)] (abs_ledger db) = Some (abs_ledger db')"
proof -
  from ok obtain rows db1 n where
    u: "update_inventory (\<lambda>i. at_stock (rl_tenant_id body) (res_variant r) (res_location r) i
        \<and> reserved_quantity i \<ge> res_quantity r) (add_reserved now (- res_quantity r)) db = Inr (rows, db1)"
    and v: "update_reservations (owned_row (rl_tenant_id body) (rl_reservation_id body) ''reserved'' request_id)
        (released_row now) db1 = Inr (n, db')" "n = 1"
    by (auto simp: release_held_def query_opt_Some split: if_splits)
  have same: "reservations db1 = reservations db" using u by (auto elim: update_inventory_InrE)
  have "run_moves [Unhold (res_stock r') (res_quantity r')] (abs_ledger db) = Some (abs_ledger db')"
    using release_held_ledger [OF wf r ok]
    by (intro live_move(1) [OF wf r(1,2) same v]) (auto simp: owned_row_def)
  then show ?thesis using same_reservation_stock [OF r(3)] by simp
qed

lemma release_held_refines:
  assumes wf: "wf_stock db" and r: "r' \<in> set (reservations db)" "res_is (rl_tenant_id body) (rl_reservation_id body) r'"
    "same_reservation r r'"
    and ok: "release_held now body request_id r db = Inr (out, db')"
  shows "release_spec (rl_tenant_id body) (res_quantity r) out (abs_ledger db) (abs_ledger db')"
proof -
  let ?p = "\<lambda>i. at_stock (rl_tenant_id body) (res_variant r) (res_location r) i \<and> reserved_quantity i \<ge> res_quantity r"
  from ok obtain row db1 where
    u: "update_inventory ?p (add_reserved now (- res_quantity r)) db = Inr ([row], db1)"
    and out: "out = Some \<lparr>lo_location_id = res_location r, lo_released = res_quantity r,
                     lo_reserved_remaining = reserved_quantity row,
                     lo_available = available_quantity row, lo_status = ''released''\<rparr>"
    by (auto simp: release_held_def query_opt_Some split: if_splits)
  note m = release_held_move [OF wf r ok]
  from u obtain i where i: "filter ?p (inventory db) = [i]" "row = add_reserved now (- res_quantity r) i"
    by (rule update_inventory_one) auto
  have "inv_key i = res_stock r'" "i \<in> set (inventory db)"
    using filter_singleD [OF i(1)] res_is_stock [OF r(2)] same_reservation_stock [OF r(3)] by auto
  then have "free (abs_ledger db) (res_stock r') = available_quantity i"
    using free_at_row [OF wf] by metis
  with m i(2) out res_is_key [OF r(2)] same_reservation_stock [OF r(3)] show ?thesis
    by (simp del: run_moves.simps add: release_spec_unhold [where v = "res_variant r"])
qed

lemma release_found_refines:
  assumes wf: "wf_stock db" and r: "r \<in> set (reservations db)" "res_is (rl_tenant_id body) (rl_reservation_id body) r"
    and i: "i \<in> set (inventory db)" "inv_key i = res_stock r"
    and ok: "release_found now body request_id lease_token r i db = Inr (out, db')"
  shows "release_spec (rl_tenant_id body) (i32_try_from_u32_or_max (rl_quantity body)) out (abs_ledger db) (abs_ledger db')"
proof -
  from ok obtain db1 where rebind: "release_rebind now body request_id lease_token r db = Inr db1"
    and q: "res_quantity r = i32_try_from_u32_or_max (rl_quantity body)"
    by (auto simp: release_found_def release_mismatch_def split: if_splits)
  note step = release_rebind_ledger [OF wf rebind] and kept = release_rebind_abs [OF wf rebind]
  obtain r' where r': "r' \<in> set (reservations db1)" "res_is (rl_tenant_id body) (rl_reservation_id body) r'"
      "same_reservation r r'"
    using release_rebind_row [OF r(1) rebind] same_reservation_is r(2) by blast
  have fr: "free (abs_ledger db) (rl_tenant_id body, res_variant r, res_location r) = available_quantity i"
    using free_at_row [OF wf i(1)] i(2) res_is_key [OF r(2)] by simp
  have "(db' = db1 \<and> out = Some \<lparr>lo_location_id = res_location r, lo_released = 0,
          lo_reserved_remaining = reserved_quantity i, lo_available = available_quantity i,
          lo_status = ''already_released''\<rparr>) \<or> release_held now body request_id r db1 = Inr (out, db')"
    using ok rebind unfolding release_found_def by (simp split: if_split_asm)
  then show ?thesis
  proof
    assume "release_held now body request_id r db1 = Inr (out, db')"
    from release_held_refines [OF ledger_step_wf [OF step] r' this] q kept show ?thesis by simp
  qed (use fr kept in \<open>simp add: release_spec_kept [where v = "res_variant r"]\<close>)
qed

lemma release_tx_refines:
  assumes wf: "wf_stock db" and q: "uint (rl_quantity body) \<le> i32_max"
    and ok: "release_tx now body db = Inr (out, db')"
  shows "release_spec (rl_tenant_id body) (uint (rl_quantity body)) out (abs_ledger db) (abs_ledger db')"
proof -
  from ok consider r i request_id lease_token
      where "reservation_join db (rl_tenant_id body) (rl_reservation_id body) = [(r, i)]"
        "release_found now body request_id lease_token r i db = Inr (out, db')"
    | "out = None" "db' = db"
    by (auto simp: release_tx_def query_opt_Some query_opt_None split: option.splits)
  then show ?thesis
  proof cases
    case 1
    from reservation_join_single [OF 1(1)] release_found_refines [OF wf _ _ _ _ 1(2)] q
    show ?thesis by (simp add: i32_try_from_small)
  qed (simp add: release_spec_def)
qed

subsection \<open>consume\<close>

text \<open>
  A consume request ships each listed reservation; one that expired meanwhile is first held again.
  The count it reports is the number of units shipped.
\<close>

definition consume_spec :: "string \<Rightarrow> int \<Rightarrow> ledger \<Rightarrow> ledger \<Rightarrow> bool" where
  "consume_spec t n l l' \<longleftrightarrow>
     (\<exists>ms. run_moves ms l = Some l' \<and> shipped_units ms = n
        \<and> list_all (\<lambda>m. case m of Hold k _ \<Rightarrow> fst k = t | Ship k _ \<Rightarrow> fst k = t | Unhold _ _ \<Rightarrow> False) ms)"

lemma consume_spec_refl [simp]: "consume_spec t 0 l l"
  unfolding consume_spec_def by (rule exI [of _ "[]"]) simp

lemma consume_spec_trans:
  assumes "consume_spec t m a b" "consume_spec t n b c"
  shows "consume_spec t (m + n) a c"
proof -
  let ?ok = "\<lambda>m. case m of Hold k _ \<Rightarrow> fst k = t | Ship k _ \<Rightarrow> fst k = t | Unhold _ _ \<Rightarrow> False"
  from assms obtain xs ys where "run_moves xs a = Some b" "shipped_units xs = m" "list_all ?ok xs"
    "run_moves ys b = Some c" "shipped_units ys = n" "list_all ?ok ys"
    unfolding consume_spec_def by blast
  then show ?thesis
    unfolding consume_spec_def by (intro exI [of _ "xs @ ys"]) (simp add: run_moves_append)
qed

lemma consume_spec_hold:
  "run_moves [Hold k q] l = Some l' \<Longrightarrow> fst k = t \<Longrightarrow> consume_spec t 0 l l'"
  unfolding consume_spec_def by (rule exI [of _ "[Hold k q]"]) auto

lemma consume_spec_ship:
  "run_moves [Ship k q] l = Some l' \<Longrightarrow> fst k = t \<Longrightarrow> consume_spec t q l l'"
  unfolding consume_spec_def by (rule exI [of _ "[Ship k q]"]) auto

lemma consume_prepare_refines:
  assumes wf: "wf_stock db" and r: "r \<in> set (reservations db)" "res_is t (cr_reservation_id c) r"
    and ok: "consume_prepare now t request_id lease_token c r db = Inr (Some db')"
  shows "consume_spec t 0 (abs_ledger db) (abs_ledger db')"
proof -
  consider (recover) row db1 n where
      "update_inventory (\<lambda>i. at_stock t (res_variant r) (res_location r) i
         \<and> available_quantity i \<ge> res_quantity r) (add_reserved now (res_quantity r)) db = Inr ([row], db1)"
      "update_reservations (owned_row t (cr_reservation_id c) ''released'' request_id)
         (recover_row now lease_token) db1 = Inr (n, db')" "n = 1"
    | (renew) n where "update_reservations (owned_row t (cr_reservation_id c) ''reserved'' request_id)
         (renew_row now lease_token) db = Inr (n, db')" "n = 1"
    | (rebind) n where "update_reservations (owned_row t (cr_reservation_id c) ''reserved'' request_id)
         (rebind_row now lease_token) db = Inr (n, db')" "n = 1"
    | (same) "db' = db"
    using ok by (auto simp: consume_prepare_def query_opt_Some split: if_splits)
  then show ?thesis
  proof cases
    case recover
    have "run_moves [Hold (res_stock r) (res_quantity r)] (abs_ledger db) = Some (abs_ledger db')"
      using consume_prepare_ledger(1) [OF wf r ok]
      by (intro hold_move [OF wf r recover(1) _ recover(2,3)]) (auto simp: owned_row_def)
    then show ?thesis using res_is_key [OF r(2)] by (intro consume_spec_hold) auto
  next
    case renew
    with status_kept_abs [OF wf renew] show ?thesis by simp
  next
    case rebind
    with status_kept_abs [OF wf rebind] show ?thesis by simp
  qed simp
qed

lemma consume_take_refines:
  assumes wf: "wf_stock db" and r: "r' \<in> set (reservations db)" "res_is t (cr_reservation_id c) r'"
    "same_reservation r r'"
    and ok: "consume_take now t request_id c r db = Inr db'"
  shows "consume_spec t (res_quantity r) (abs_ledger db) (abs_ledger db')"
proof -
  from ok obtain rows db1 n where
    u: "update_inventory (\<lambda>i. at_stock t (res_variant r) (res_location r) i
        \<and> on_hand_quantity i \<ge> res_quantity r \<and> reserved_quantity i \<ge> res_quantity r)
        (take_stock now (res_quantity r)) db = Inr (rows, db1)"
    and v: "update_reservations (owned_row t (cr_reservation_id c) ''reserved'' request_id)
        (consumed_row now) db1 = Inr (n, db')" "n = 1"
    by (auto simp: consume_take_def split: if_splits)
  have same: "reservations db1 = reservations db" using u by (auto elim: update_inventory_InrE)
  have "run_moves [Ship (res_stock r') (res_quantity r')] (abs_ledger db) = Some (abs_ledger db')"
    using consume_take_ledger [OF wf r ok]
    by (intro live_move(2) [OF wf r(1,2) same v]) (auto simp: owned_row_def)
  then show ?thesis using res_is_key [OF r(2)] same_reservation_stock [OF r(3)]
    by (intro consume_spec_ship) auto
qed

lemma consume_step_refines:
  assumes wf: "wf_stock db"
    and ok: "consume_step now t request_id lease_token (n, db) c = Inr (n', db')"
  shows "consume_spec t (n' - n) (abs_ledger db) (abs_ledger db')"
proof -
  from ok obtain r i prep where join: "reservation_join db t (cr_reservation_id c) = [(r, i)]"
    and prep: "consume_prepare now t request_id lease_token c r db = Inr prep"
    by (auto simp: consume_step_def query_opt_Some split: if_splits)
  note r = reservation_join_single [OF join]
  show ?thesis
  proof (cases prep)
    case None
    with ok join prep show ?thesis by (auto simp: consume_step_def split: if_splits)
  next
    case (Some db1)
    with ok join prep have take: "consume_take now t request_id c r db1 = Inr db'" "n' = n + res_quantity r"
      by (auto simp: consume_step_def checked_u32_def split: if_splits)
    note p = consume_prepare_ledger [OF wf r(1,2) prep [unfolded Some]]
    then obtain r' where "r' \<in> set (reservations db1)" "same_reservation r r'" by blast
    with consume_take_refines [OF ledger_step_wf [OF p(1)] _ _ _ take(1)] same_reservation_is r(2)
    have "consume_spec t (res_quantity r) (abs_ledger db1) (abs_ledger db')" by blast
    with consume_spec_trans [OF consume_prepare_refines [OF wf r(1,2) prep [unfolded Some]]] take(2)
    show ?thesis by fastforce
  qed
qed

lemma consume_loop_refines:
  assumes "wf_stock db" "try_fold (consume_step now t request_id lease_token) (n, db) cs = Inr (n', db')"
  shows "consume_spec t (n' - n) (abs_ledger db) (abs_ledger db')"
  using assms
proof (induction cs arbitrary: n db)
  case (Cons c cs)
  then obtain n1 db1 where s: "consume_step now t request_id lease_token (n, db) c = Inr (n1, db1)"
    "try_fold (consume_step now t request_id lease_token) (n1, db1) cs = Inr (n', db')"
    by auto
  have "wf_stock db1" using consume_step_ledger [OF Cons.prems(1) s(1)] by (rule ledger_step_wf)
  from consume_spec_trans [OF consume_step_refines [OF Cons.prems(1) s(1)] Cons.IH [OF this s(2)]]
  show ?case by simp
qed simp

lemma consume_tx_refines:
  assumes "wf_stock db" "consume_tx now body db = Inr (out, db')"
  shows "consume_spec (cb_tenant_id body) (co_consumed out) (abs_ledger db) (abs_ledger db')"
  using assms by (auto simp: consume_tx_def dest: consume_loop_refines)

subsection \<open>The reaper\<close>

lemma reap_step_refines:
  assumes wf: "wf_stock db" and r: "r \<in> set (reservations db)"
    and ok: "reap_step now (n, db) r = Inr (n', db')"
  shows "run_moves [Unhold (res_stock r) (res_quantity r)] (abs_ledger db) = Some (abs_ledger db')"
proof -
  from ok obtain rows db1 m where
    u: "update_inventory (\<lambda>i. at_stock (res_tenant r) (res_variant r) (res_location r) i
        \<and> reserved_quantity i \<ge> res_quantity r) (add_reserved now (- res_quantity r)) db = Inr (rows, db1)"
    and v: "update_reservations (\<lambda>x. res_is (res_tenant r) (res_id r) x \<and> res_status x = ''reserved''
               \<and> res_expires_at x \<le> now) (released_row now) db1 = Inr (m, db')" "m = 1"
    by (auto simp: reap_step_def split: if_splits)
  have same: "reservations db1 = reservations db" using u by (auto elim: update_inventory_InrE)
  have ris: "res_is (res_tenant r) (res_id r) r" by (simp add: res_is_def)
  show ?thesis
    using reap_step_ledger [OF wf r same_reservation_refl ok]
    by (intro live_move(1) [OF wf r ris same v]) auto
qed

lemma reap_loop_refines:
  assumes "wf_stock db" "distinct (map res_key rows)" "set rows \<subseteq> set (reservations db)"
    and "\<forall>r \<in> set rows. res_status r = ''reserved'' \<and> res_expires_at r \<le> now"
    and "0 \<le> n" "n + int (length rows) \<le> u32_max"
    and "try_fold (reap_step now) (n, db) rows = Inr (n', db')"
  shows "run_moves (map (\<lambda>r. Unhold (res_stock r) (res_quantity r)) rows) (abs_ledger db) = Some (abs_ledger db')"
  using assms
proof (induction rows arbitrary: n db)
  case (Cons r rows)
  obtain db1 where s: "reap_step now (n, db) r = Inr (n + 1, db1)"
    and res: "reservations db1 = map (\<lambda>x. if res_key x = res_key r then released_row now x else x) (reservations db)"
    using Cons.prems reap_step_ok [of db r now n] by auto
  have led: "ledger_step db db1" using Cons.prems s by (intro reap_step_ledger [of db r r]) auto
  have m: "run_moves [Unhold (res_stock r) (res_quantity r)] (abs_ledger db) = Some (abs_ledger db1)"
    using Cons.prems s by (intro reap_step_refines) auto
  have "set rows \<subseteq> set (reservations db1)"
    using Cons.prems(2,3) unfolding res by (force simp: image_iff)
  then have "run_moves (map (\<lambda>r. Unhold (res_stock r) (res_quantity r)) rows) (abs_ledger db1) = Some (abs_ledger db')"
    using Cons.prems s by (intro Cons.IH [OF ledger_step_wf [OF led], of "n + 1"]) auto
  with m show ?case by (auto split: if_splits)
qed simp

end
