(* ===== verification/InventoryReplay.thy ===== *)
theory InventoryReplay
  imports InventoryRefine
begin

text \<open>
  Replays. Every request carries a reservation id, and a client that lost the answer sends the
  request again: the second run of a committed reserve, release or consume changes nothing and
  reports the state the first one left. A release of a held reservation never fails on a
  well-formed ledger.
\<close>

lemma reservation_join_of:
  assumes wf: "wf_stock db" and r: "r \<in> set (reservations db)" "res_is t rid r"
    and i: "i \<in> set (inventory db)" "inv_key i = res_stock r"
  shows "reservation_join db t rid = [(r, i)]"
proof -
  have 1: "filter (\<lambda>r. res_tenant r = t \<and> res_id r = rid) (reservations db) = [r]"
    using wf r by (intro filter_unique [of res_key]) (auto simp: wf_stock_def res_is_def res_key_def)
  have 2: "filter (\<lambda>i. inv_tenant i = res_tenant r \<and> inv_variant i = res_variant r
               \<and> inv_location i = res_location r) (inventory db) = [i]"
    using wf i by (intro filter_unique [of inv_key]) (auto simp: wf_stock_def inv_key_def res_stock_def)
  show ?thesis by (simp add: reservation_join_def 1 2)
qed

lemma ledger_step_keys: "ledger_step db db' \<Longrightarrow> inv_key ` set (inventory db') = inv_key ` set (inventory db)"
proof -
  assume "ledger_step db db'"
  then have "set (map inv_key (inventory db')) = set (map inv_key (inventory db))"
    by (simp add: ledger_step_def del: set_map)
  then show ?thesis by simp
qed

lemma stock_row_after:
  assumes "ledger_step db db'" "i \<in> set (inventory db)"
  obtains i' where "i' \<in> set (inventory db')" "inv_key i' = inv_key i"
proof -
  have "inv_key i \<in> inv_key ` set (inventory db')" using ledger_step_keys [OF assms(1)] assms(2) by simp
  then show ?thesis using that by auto
qed

subsection \<open>consume\<close>

definition consumed_for :: "string \<Rightarrow> string \<Rightarrow> commerce_db \<Rightarrow> consume_reservation \<Rightarrow> bool" where
  "consumed_for t req db c \<longleftrightarrow>
     (\<exists>r i. reservation_join db t (cr_reservation_id c) = [(r, i)] \<and> \<not> consume_mismatch c r
        \<and> res_owner_request_id r = Some req \<and> res_status r = ''consumed'')"

lemma consumed_for_keeps:
  assumes wf: "wf_stock db" and d: "consumed_for t req db c" and step: "ledger_step db db'" and p: "persists db db'"
  shows "consumed_for t req db' c"
proof -
  from d obtain r i where j: "reservation_join db t (cr_reservation_id c) = [(r, i)]"
    "\<not> consume_mismatch c r" "res_owner_request_id r = Some req" "res_status r = ''consumed''"
    by (auto simp: consumed_for_def)
  note r = reservation_join_single [OF j(1)]
  have "r \<in> set (reservations db')"
    using p r(1) j(4) by (auto simp: persists_def evolves_def)
  moreover obtain i' where "i' \<in> set (inventory db')" "inv_key i' = res_stock r"
    using stock_row_after [OF step r(3)] r(4) by metis
  ultimately have "reservation_join db' t (cr_reservation_id c) = [(r, i')]"
    using r(2) by (intro reservation_join_of [OF ledger_step_wf [OF step]])
  with j show ?thesis by (auto simp: consumed_for_def)
qed

lemma evolves_row:
  assumes "wf_stock db'" "op_frame t0 db db'" "r \<in> set (reservations db)" "res_is t rid r"
    "x \<in> set (reservations db')" "res_is t rid x"
  shows "evolves r x"
proof -
  from assms(2,3) obtain r' where "r' \<in> set (reservations db')" "evolves r r'"
    by (auto simp: op_frame_def persists_def)
  moreover have "res_is t rid r'" using \<open>evolves r r'\<close> assms(4)
    by (auto simp: evolves_def same_reservation_is)
  ultimately show ?thesis using res_is_unique [OF assms(1) _ assms(5) _ assms(6)] by auto
qed

lemma consume_take_row:
  assumes "consume_take now t req c r db = Inr db'"
  obtains x where "x \<in> set (reservations db)" "res_is t (cr_reservation_id c) x"
    "res_owner_request_id x = Some req" "consumed_row now x \<in> set (reservations db')"
proof -
  from assms obtain rows db1 n where
    u: "update_inventory (\<lambda>i. at_stock t (res_variant r) (res_location r) i
        \<and> on_hand_quantity i \<ge> res_quantity r \<and> reserved_quantity i \<ge> res_quantity r)
        (take_stock now (res_quantity r)) db = Inr (rows, db1)"
    and v: "update_reservations (owned_row t (cr_reservation_id c) ''reserved'' req)
        (consumed_row now) db1 = Inr (n, db')" "n = 1"
    by (auto simp: consume_take_def split: if_splits)
  have same: "reservations db1 = reservations db" using u by (auto elim: update_inventory_InrE)
  from v obtain x where x: "filter (owned_row t (cr_reservation_id c) ''reserved'' req) (reservations db1) = [x]"
    "db' = db1\<lparr>reservations := update_where (owned_row t (cr_reservation_id c) ''reserved'' req) (consumed_row now) (reservations db1)\<rparr>"
    by (rule update_reservations_one)
  note f = filter_singleD [OF x(1)]
  then have "consumed_row now x \<in> set (reservations db')" using x(2) by (auto simp: set_update_where)
  with f same that show ?thesis by (auto simp: owned_row_def)
qed

lemma consume_step_done:
  assumes wf: "wf_stock db"
    and ok: "consume_step now t req tok (n, db) c = Inr (n', db')"
  shows "consumed_for t req db' c"
proof -
  from ok obtain r i prep where join: "reservation_join db t (cr_reservation_id c) = [(r, i)]"
    and r0: "\<not> consume_mismatch c r" "res_owner_request_id r = Some req"
    and prep: "consume_prepare now t req tok c r db = Inr prep"
    by (auto simp: consume_step_def query_opt_Some split: if_splits)
  note r = reservation_join_single [OF join] and step = consume_step_ledger [OF wf ok]
  show ?thesis
  proof (cases prep)
    case None
    with prep have "res_status r = ''consumed''" by (auto simp: consume_prepare_def split: if_splits)
    moreover have "db' = db" using ok join prep None by (auto simp: consume_step_def split: if_splits)
    ultimately show ?thesis using join r0 by (auto simp: consumed_for_def)
  next
    case (Some db1)
    with ok join prep have take: "consume_take now t req c r db1 = Inr db'"
      by (auto simp: consume_step_def split: if_splits)
    obtain x where x: "x \<in> set (reservations db1)" "res_is t (cr_reservation_id c) x"
      "res_owner_request_id x = Some req" "consumed_row now x \<in> set (reservations db')"
      using take by (rule consume_take_row)
    have "evolves r x"
      using consume_prepare_ledger(1) [OF wf r(1,2) prep [unfolded Some]]
        consume_prepare_frame [OF prep [unfolded Some]] r x
      by (blast intro: evolves_row ledger_step_wf)
    then have ident: "res_sku x = res_sku r" "res_stock x = res_stock r" "res_quantity x = res_quantity r"
        "res_location x = res_location r"
      by (simp_all add: evolves_def same_reservation_stock)
    obtain i' where i': "i' \<in> set (inventory db')" "inv_key i' = res_stock (consumed_row now x)"
      using stock_row_after [OF step r(3)] r(4) ident by (metis row_keys(16))
    have "res_is t (cr_reservation_id c) (consumed_row now x)"
      using x(2) same_reservation_is [OF same_reservation_rows(6)] by blast
    from reservation_join_of [OF ledger_step_wf [OF step] x(4) this i']
    have "reservation_join db' t (cr_reservation_id c) = [(consumed_row now x, i')]" .
    moreover have "\<not> consume_mismatch c (consumed_row now x)"
      using r0(1) ident by (auto simp: consume_mismatch_def consumed_row_def split: option.splits)
    ultimately show ?thesis using x(3) by (auto simp: consumed_for_def consumed_row_def)
  qed
qed

lemma consume_loop_done:
  assumes "wf_stock db" "try_fold (consume_step now t req tok) (n, db) cs = Inr (n', db')" "c \<in> set cs"
  shows "consumed_for t req db' c"
  using assms
proof (induction cs arbitrary: n db)
  case (Cons d cs)
  then obtain n1 db1 where s: "consume_step now t req tok (n, db) d = Inr (n1, db1)"
    and l: "try_fold (consume_step now t req tok) (n1, db1) cs = Inr (n', db')"
    by auto
  have wf1: "wf_stock db1" using consume_step_ledger [OF Cons.prems(1) s] by (rule ledger_step_wf)
  show ?case
  proof (cases "c \<in> set cs")
    case True with Cons.IH [OF wf1 l] show ?thesis by simp
  next
    case False
    with Cons.prems(3) have "c = d" by simp
    with consume_step_done [OF Cons.prems(1) s] consume_loop_ledger [OF wf1 l] consume_loop_frame [OF l] wf1
    show ?thesis by (auto simp: op_frame_def intro: consumed_for_keeps)
  qed
qed simp

lemma consume_step_again:
  assumes "consumed_for t req db c"
  shows "consume_step now t req tok (n, db) c = Inr (n, db)"
proof -
  from assms obtain r i where j: "reservation_join db t (cr_reservation_id c) = [(r, i)]"
    "\<not> consume_mismatch c r" "res_owner_request_id r = Some req" "res_status r = ''consumed''"
    by (auto simp: consumed_for_def)
  then have "consume_prepare now t req tok c r db = Inr None" by (simp add: consume_prepare_def)
  with j show ?thesis by (simp add: consume_step_def del: and_then_eq_Inr)
qed

lemma consume_loop_again:
  "\<forall>c \<in> set cs. consumed_for t req db c \<Longrightarrow> try_fold (consume_step now t req tok) (n, db) cs = Inr (n, db)"
  by (induction cs) (auto simp: consume_step_again)

lemma consume_tx_again:
  assumes wf: "wf_stock db" and ok: "consume_tx now body db = Inr (out, db')"
    and req: "cb_checkout_request_id body = Some req"
    and fence: "lock_current_checkout_fence db' now' (cb_tenant_id body) req tok' = Inr ()"
  shows "consume_tx now' (body\<lparr>cb_checkout_lease_token := Some tok'\<rparr>) db'
    = Inr (\<lparr>co_consumed = 0, co_status = ''already_consumed''\<rparr>, db')"
proof -
  from ok req obtain tok n where
    "try_fold (consume_step now (cb_tenant_id body) req tok) (0, db)
        (sort_key cr_reservation_id (cb_reservations body)) = Inr (n, db')"
    by (auto simp: consume_tx_def)
  then have "\<forall>c \<in> set (sort_key cr_reservation_id (cb_reservations body)).
      consumed_for (cb_tenant_id body) req db' c"
    using consume_loop_done [OF wf] by blast
  then show ?thesis using req fence by (simp add: consume_tx_def consume_loop_again)
qed

subsection \<open>release\<close>

lemma update_owned_at:
  assumes wf: "distinct (map res_key (reservations db))"
    and r: "r \<in> set (reservations db)" "res_is t rid r" "res_status r = st" "res_owner_request_id r = Some req"
      "reservation_check (g r)"
  obtains db' where "update_reservations (owned_row t rid st req) g db = Inr (1, db')"
    "inventory db' = inventory db" "g r \<in> set (reservations db')"
    "distinct (map res_key (reservations db)) \<Longrightarrow> (\<And>x. res_key (g x) = res_key x) \<Longrightarrow>
       distinct (map res_key (reservations db'))"
proof -
  have own: "owned_row t rid st req = (\<lambda>x. res_is t rid x \<and> (res_status x = st \<and> res_owner_request_id x = Some req))"
    by (simp add: fun_eq_iff owned_row_def)
  let ?p = "\<lambda>x. res_status x = st \<and> res_owner_request_id x = Some req"
  have "update_reservations (owned_row t rid st req) g db
      = Inr (1, db\<lparr>reservations := update_where (\<lambda>x. res_is t rid x \<and> ?p x) g (reservations db)\<rparr>)"
    unfolding own using r(3-5) by (intro update_reservations_at [OF wf r(1,2)]) auto
  moreover have "g r \<in> set (update_where (\<lambda>x. res_is t rid x \<and> ?p x) g (reservations db))"
    using r by (auto simp: set_update_where image_iff intro!: bexI [of _ r])
  ultimately show ?thesis using that by (auto simp: map_key_update_where)
qed

lemma release_rebind_ok:
  assumes wf: "wf_stock db"
    and r: "r \<in> set (reservations db)" "res_is (rl_tenant_id body) (rl_reservation_id body) r"
      "res_status r = ''reserved''" "res_owner_request_id r = Some req"
  obtains db1 r' where "release_rebind now body req tok r db = Inr db1" "wf_stock db1"
    "r' \<in> set (reservations db1)" "res_is (rl_tenant_id body) (rl_reservation_id body) r'"
    "res_status r' = ''reserved''" "res_owner_request_id r' = Some req" "same_reservation r r'"
proof (cases "res_owner_lease_token r = Some tok")
  case True
  then have "release_rebind now body req tok r db = Inr db" by (simp add: release_rebind_def)
  then show ?thesis using that wf r by auto
next
  case False
  have d: "distinct (map res_key (reservations db))" and c: "reservation_check r"
    using wf r(1) by (auto simp: wf_stock_def list_all_iff)
  obtain db1 where u: "update_reservations (owned_row (rl_tenant_id body) (rl_reservation_id body) ''reserved'' req)
      (rebind_row now tok) db = Inr (1, db1)" "rebind_row now tok r \<in> set (reservations db1)"
    using update_owned_at [where g = "rebind_row now tok", OF d r reservation_check_rows(3) [OF c]] by metis
  then have rb: "release_rebind now body req tok r db = Inr db1"
    using False r(3) by (simp add: release_rebind_def)
  have "res_is (rl_tenant_id body) (rl_reservation_id body) (rebind_row now tok r)"
    using r(2) same_reservation_is [OF same_reservation_rows(4)] by blast
  then show ?thesis
    using that [OF rb ledger_step_wf [OF release_rebind_ledger [OF wf rb]] u(2)] r(3,4)
    by (simp add: rebind_row_def same_reservation_def res_key_def res_stock_def)
qed

lemma release_held_ok:
  assumes wf: "wf_stock db"
    and r: "r' \<in> set (reservations db)" "res_is (rl_tenant_id body) (rl_reservation_id body) r'"
      "res_status r' = ''reserved''" "res_owner_request_id r' = Some req" "same_reservation r r'"
  obtains row db' where "release_held now body req r db
      = Inr (Some \<lparr>lo_location_id = res_location r, lo_released = res_quantity r,
           lo_reserved_remaining = reserved_quantity row, lo_available = available_quantity row,
           lo_status = ''released''\<rparr>, db')"
    "row \<in> set (inventory db')" "inv_key row = res_stock r" "released_row now r' \<in> set (reservations db')"
proof -
  obtain i where i: "i \<in> set (inventory db)" "inv_key i = res_stock r'" "0 < res_quantity r'"
      "res_quantity r' \<le> reserved_quantity i" "inventory_check i"
    using held_stock_row [OF wf r(1,3)] .
  note s = same_reservation_stock [OF r(5)]
  have at: "at_stock (rl_tenant_id body) (res_variant r) (res_location r) i"
    using i(2) s res_is_stock [OF r(2)] by simp
  have chk: "inventory_check (add_reserved now (- res_quantity r) i)"
    using i(3-5) s by (auto simp: inventory_check_def)
  have q: "res_quantity r \<le> reserved_quantity i" using i(4) s by simp
  note u = update_inventory_at [where P = "\<lambda>j. res_quantity r \<le> reserved_quantity j"
      and f = "add_reserved now (- res_quantity r)", OF wf i(1) at q chk]
  let ?db1 = "db\<lparr>inventory := update_where (\<lambda>j. at_stock (rl_tenant_id body) (res_variant r) (res_location r) j
        \<and> res_quantity r \<le> reserved_quantity j) (add_reserved now (- res_quantity r)) (inventory db)\<rparr>"
  have d: "distinct (map res_key (reservations ?db1))" and c: "reservation_check r'"
    and m: "r' \<in> set (reservations ?db1)"
    using wf r(1) by (auto simp: wf_stock_def list_all_iff)
  obtain db' where v: "update_reservations (owned_row (rl_tenant_id body) (rl_reservation_id body) ''reserved'' req)
      (released_row now) ?db1 = Inr (1, db')" "inventory db' = inventory ?db1"
      "released_row now r' \<in> set (reservations db')"
    by (rule update_owned_at [where g = "released_row now", OF d m r(2-4) reservation_check_rows(1) [OF c]]) blast
  have "add_reserved now (- res_quantity r) i \<in> set (inventory db')"
    using v(2) i(1) at q by (auto simp: set_update_where image_iff intro!: bexI [of _ i])
  then show ?thesis using that [of "add_reserved now (- res_quantity r) i" db'] u v i(2) s
    by (simp add: release_held_def)
qed

lemma release_live:
  assumes wf: "wf_stock db"
    and r: "r \<in> set (reservations db)" "res_is (rl_tenant_id body) (rl_reservation_id body) r"
      "res_status r = ''reserved''" "res_owner_request_id r = Some req" "\<not> release_mismatch body r"
    and b: "rl_checkout_request_id body = Some req" "rl_checkout_lease_token body = Some tok"
    and fence: "lock_current_checkout_fence db now (rl_tenant_id body) req tok = Inr ()"
  obtains row db' x where "release_tx now body db
      = Inr (Some \<lparr>lo_location_id = res_location r, lo_released = res_quantity r,
           lo_reserved_remaining = reserved_quantity row, lo_available = available_quantity row,
           lo_status = ''released''\<rparr>, db')"
    "row \<in> set (inventory db')" "inv_key row = res_stock r"
    "x \<in> set (reservations db')" "res_is (rl_tenant_id body) (rl_reservation_id body) x"
    "res_status x = ''released''" "res_owner_request_id x = Some req" "same_reservation r x"
    "run_moves [Unhold (res_stock r) (res_quantity r)] (abs_ledger db) = Some (abs_ledger db')"
proof -
  obtain i where i: "i \<in> set (inventory db)" "inv_key i = res_stock r"
    using held_stock_row [OF wf r(1,3)] by metis
  note join = reservation_join_of [OF wf r(1,2) i]
  obtain db1 r' where rb: "release_rebind now body req tok r db = Inr db1" "wf_stock db1"
    "r' \<in> set (reservations db1)" "res_is (rl_tenant_id body) (rl_reservation_id body) r'"
    "res_status r' = ''reserved''" "res_owner_request_id r' = Some req" "same_reservation r r'"
    using release_rebind_ok [OF wf r(1-4)] .
  obtain row db' where h: "release_held now body req r db1
      = Inr (Some \<lparr>lo_location_id = res_location r, lo_released = res_quantity r,
           lo_reserved_remaining = reserved_quantity row, lo_available = available_quantity row,
           lo_status = ''released''\<rparr>, db')"
    "row \<in> set (inventory db')" "inv_key row = res_stock r" "released_row now r' \<in> set (reservations db')"
    using release_held_ok [OF rb(2-7)] .
  have "release_tx now body db = release_held now body req r db1"
    using b fence join r(3-5) rb(1) by (simp add: release_tx_def release_found_def)
  moreover have "res_is (rl_tenant_id body) (rl_reservation_id body) (released_row now r')"
    using rb(4) same_reservation_is [OF same_reservation_rows(5)] by blast
  moreover have "res_owner_request_id (released_row now r') = Some req" "same_reservation r (released_row now r')"
    using rb(6,7) by (simp_all add: released_row_def same_reservation_def res_key_def res_stock_def)
  moreover have "run_moves [Unhold (res_stock r) (res_quantity r)] (abs_ledger db) = Some (abs_ledger db')"
    using release_held_move [OF rb(2,3,4,7) h(1)] release_rebind_abs [OF wf rb(1)] by metis
  ultimately show ?thesis using that [OF _ h(2,3,4)] h(1) by (simp del: run_moves.simps)
qed

lemma release_tx_found:
  assumes "release_tx now body db = Inr (Some o', db')"
  obtains r i req tok where "rl_checkout_request_id body = Some req" "rl_checkout_lease_token body = Some tok"
    "lock_current_checkout_fence db now (rl_tenant_id body) req tok = Inr ()"
    "reservation_join db (rl_tenant_id body) (rl_reservation_id body) = [(r, i)]"
    "\<not> release_mismatch body r" "res_owner_request_id r = Some req"
    "release_found now body req tok r i db = Inr (Some o', db')"
proof -
  from assms obtain r i req tok where
    "rl_checkout_request_id body = Some req" "rl_checkout_lease_token body = Some tok"
    "lock_current_checkout_fence db now (rl_tenant_id body) req tok = Inr ()"
    "reservation_join db (rl_tenant_id body) (rl_reservation_id body) = [(r, i)]"
    and f: "release_found now body req tok r i db = Inr (Some o', db')"
    by (auto simp: release_tx_def query_opt_Some query_opt_None split: option.splits)
  moreover from f have "\<not> release_mismatch body r \<and> res_owner_request_id r = Some req"
    unfolding release_found_def by (simp split: if_split_asm)
  ultimately show ?thesis using that by blast
qed

lemma release_found_released:
  assumes "\<not> release_mismatch body r" "res_owner_request_id r = Some req" "res_status r = ''released''"
  shows "release_found now body req tok r i db = Inr (Some \<lparr>lo_location_id = res_location r, lo_released = 0,
      lo_reserved_remaining = reserved_quantity i, lo_available = available_quantity i,
      lo_status = ''already_released''\<rparr>, db)"
  using assms by (simp add: release_found_def release_rebind_def del: and_then_eq_Inr)

lemma release_tx_at:
  assumes "rl_checkout_request_id body = Some req" "rl_checkout_lease_token body = Some tok"
    "lock_current_checkout_fence db now (rl_tenant_id body) req tok = Inr ()"
    "reservation_join db (rl_tenant_id body) (rl_reservation_id body) = [(r, i)]"
  shows "release_tx now body db = release_found now body req tok r i db"
  using assms by (simp add: release_tx_def)

lemma release_tx_again:
  assumes wf: "wf_stock db" and ok: "release_tx now body db = Inr (Some o', db')"
    and req: "rl_checkout_request_id body = Some req"
    and fence: "lock_current_checkout_fence db' now' (rl_tenant_id body) req tok' = Inr ()"
  shows "release_tx now' (body\<lparr>rl_checkout_lease_token := Some tok'\<rparr>) db'
    = Inr (Some (o'\<lparr>lo_released := 0, lo_status := ''already_released''\<rparr>), db')"
proof -
  let ?b = "body\<lparr>rl_checkout_lease_token := Some tok'\<rparr>"
  obtain r i tok where b: "rl_checkout_lease_token body = Some tok"
    and f: "lock_current_checkout_fence db now (rl_tenant_id body) req tok = Inr ()"
    and j: "reservation_join db (rl_tenant_id body) (rl_reservation_id body) = [(r, i)]"
    and r0: "\<not> release_mismatch body r" "res_owner_request_id r = Some req"
    and rf: "release_found now body req tok r i db = Inr (Some o', db')"
    using ok req by (auto elim!: release_tx_found)
  note r = reservation_join_single [OF j]
  have "reservation_check r" using wf r(1) by (auto simp: wf_stock_def list_all_iff)
  moreover have "res_status r \<noteq> ''consumed''"
    using rf unfolding release_found_def by (auto split: if_split_asm)
  ultimately have st: "res_status r = ''released'' \<or> res_status r = ''reserved''"
    by (auto simp: reservation_check_def)
  show ?thesis
  proof (cases "res_status r = ''released''")
    case True
    from release_found_released [OF r0 True] rf have
      "db' = db" "o' = \<lparr>lo_location_id = res_location r, lo_released = 0, lo_reserved_remaining = reserved_quantity i,
         lo_available = available_quantity i, lo_status = ''already_released''\<rparr>"
      by (simp_all del: and_then_eq_Inr)
    moreover have "\<not> release_mismatch ?b r" using r0(1) by (simp add: release_mismatch_def)
    ultimately show ?thesis
      using release_found_released [OF _ r0(2) True, of ?b now' tok' i db] j fence req
      by (simp add: release_tx_at [of ?b req tok' db now' r i])
  next
    case False
    then have held: "res_status r = ''reserved''" using st by simp
    obtain row db2 x where live: "release_tx now body db
      = Inr (Some \<lparr>lo_location_id = res_location r, lo_released = res_quantity r,
           lo_reserved_remaining = reserved_quantity row, lo_available = available_quantity row,
           lo_status = ''released''\<rparr>, db2)"
      "row \<in> set (inventory db2)" "inv_key row = res_stock r"
      "x \<in> set (reservations db2)" "res_is (rl_tenant_id body) (rl_reservation_id body) x"
      "res_status x = ''released''" "res_owner_request_id x = Some req" "same_reservation r x"
      using release_live [OF wf r(1,2) held r0(2,1) req b f] .
    have eq: "db2 = db'" "o' = \<lparr>lo_location_id = res_location r, lo_released = res_quantity r,
           lo_reserved_remaining = reserved_quantity row, lo_available = available_quantity row,
           lo_status = ''released''\<rparr>" using live(1) ok by simp_all
    have wf': "wf_stock db'" using release_tx_ledger [OF wf ok] by (rule ledger_step_wf)
    have "evolves r x" using live(4,5) eq(1) r(1,2) wf' release_tx_frame [OF ok] by (blast intro: evolves_row)
    then have mm: "\<not> release_mismatch ?b x" and loc: "res_location x = res_location r"
      using r0(1) live(8) by (auto simp: release_mismatch_def evolves_def same_reservation_stock split: option.splits)
    have "inv_key row = res_stock x" using live(3) same_reservation_stock [OF live(8)] by simp
    then have "reservation_join db' (rl_tenant_id body) (rl_reservation_id body) = [(x, row)]"
      using live(2,4,5) eq(1) by (intro reservation_join_of [OF wf']) auto
    then show ?thesis
      using release_found_released [OF mm live(7,6), of now' tok' row db'] fence req eq(2) loc
      by (simp add: release_tx_at [of ?b req tok' db' now' x row])
  qed
qed

subsection \<open>reserve\<close>

text \<open>The row a successful reservation leaves behind.\<close>

definition reserved_for ::
  "reserve_query \<Rightarrow> timestamp \<Rightarrow> reserve_outcome \<Rightarrow> commerce_db \<Rightarrow> reservation_row \<Rightarrow> inventory_row \<Rightarrow> bool" where
  "reserved_for p expires o' db r i \<longleftrightarrow>
     r \<in> set (reservations db) \<and> i \<in> set (inventory db) \<and> inv_key i = res_stock r
     \<and> res_is (rq_tenant_id p) (rq_reservation_id p) r \<and> res_status r = ''reserved''
     \<and> res_sku r = rq_sku p \<and> res_quantity r = uint (rq_quantity p)
     \<and> res_owner_request_id r = rq_checkout_request_id p
     \<and> res_owner_lease_token r = rq_checkout_lease_token p
     \<and> res_expires_at r = expires \<and> res_location r = ro_location_id o' \<and> available_quantity i = ro_remaining o'"

lemma reserve_reuse_row:
  assumes wf: "wf_stock db" and r: "r \<in> set (reservations db)" "res_is (rq_tenant_id p) (rq_reservation_id p) r"
    and s: "res_sku r = rq_sku p" "res_quantity r = uint (rq_quantity p)"
    and b: "rq_checkout_request_id p = Some req" "rq_checkout_lease_token p = Some tok"
    and ok: "reserve_reuse now p req tok r db = Inr (Some o', db')"
  shows "\<exists>x i. reserved_for p (now + seconds RESERVATION_HOLD) o' db' x i
    \<and> run_moves [Hold (res_stock x) (uint (rq_quantity p))] (abs_ledger db) = Some (abs_ledger db')"
proof -
  let ?p = "\<lambda>i. at_stock (rq_tenant_id p) (res_variant r) (res_location r) i
             \<and> available_quantity i \<ge> res_quantity r"
  let ?q = "\<lambda>x. res_is (rq_tenant_id p) (rq_reservation_id p) x \<and> res_status x = ''released''"
  from ok obtain row db1 n where
    u: "update_inventory ?p (add_reserved now (res_quantity r)) db = Inr ([row], db1)"
    and v: "update_reservations ?q (reuse_row now req tok) db1 = Inr (n, db')" "n = 1"
    and out: "o' = \<lparr>ro_location_id = res_location r, ro_remaining = available_quantity row,
                          ro_status = ''reserved''\<rparr>"
    by (auto simp: reserve_reuse_def query_opt_Some split: if_splits)
  from u obtain i where i: "filter ?p (inventory db) = [i]" "row = add_reserved now (res_quantity r) i"
      "db1 = db\<lparr>inventory := update_where ?p (add_reserved now (res_quantity r)) (inventory db)\<rparr>"
    by (rule update_inventory_one) auto
  from v obtain x where x: "filter ?q (reservations db1) = [x]"
      "db' = db1\<lparr>reservations := update_where ?q (reuse_row now req tok) (reservations db1)\<rparr>"
    by (rule update_reservations_one)
  have "x = r" using filter_singleD [OF x(1)] i(3) res_is_unique [OF wf r(1) _ r(2)] by auto
  then have "reuse_row now req tok r \<in> set (reservations db')"
    using filter_singleD [OF x(1)] x(2) by (auto simp: set_update_where)
  moreover have "row \<in> set (inventory db')" "inv_key row = res_stock (reuse_row now req tok r)"
    using filter_singleD [OF i(1)] i(2,3) x(2) res_is_stock [OF r(2)] by (auto simp: set_update_where)
  moreover have "res_is (rq_tenant_id p) (rq_reservation_id p) (reuse_row now req tok r)"
    using r(2) same_reservation_is [OF same_reservation_rows(1)] by blast
  ultimately show ?thesis
    using out s b reserve_reuse_move [OF wf r ok] unfolding reserved_for_def
    by (intro exI [of _ "reuse_row now req tok r"] exI [of _ row])
       (simp add: reuse_row_def res_stock_def del: run_moves.simps)
qed

lemma reserve_fresh_row:
  assumes wf: "wf_stock db" and ok: "reserve_fresh coll now p db = Inr (Some o', db')"
    and q: "uint (rq_quantity p) \<le> i32_max"
  shows "\<exists>x i. reserved_for p (now + seconds RESERVATION_HOLD) o' db' x i
    \<and> run_moves [Hold (res_stock x) (uint (rq_quantity p))] (abs_ledger db) = Some (abs_ledger db')"
proof -
  let ?q = "u32_as_i32 (rq_quantity p)"
  let ?row = "\<lambda>c. \<lparr>res_id = rq_reservation_id p, res_tenant = rq_tenant_id p, res_sku = rq_sku p,
     res_variant = inv_variant c, res_location = inv_location c, res_quantity = ?q,
     res_status = ''reserved'', res_expires_at = now + seconds RESERVATION_HOLD,
     res_released_at = None, res_consumed_at = None, res_owner_request_id = rq_checkout_request_id p,
     res_owner_lease_token = rq_checkout_lease_token p, res_updated_at = now\<rparr>"
  obtain c where c: "inv_tenant c = rq_tenant_id p" "add_reserved now ?q c \<in> set (inventory db')"
    "reservations db' = reservations db @ [?row c]"
    "o' = \<lparr>ro_location_id = inv_location c, ro_remaining = available_quantity (add_reserved now ?q c),
       ro_status = ''reserved''\<rparr>"
    "run_moves [Hold (inv_key c) ?q] (abs_ledger db) = Some (abs_ledger db')"
    by (rule reserve_fresh_insert [OF wf ok]) blast
  have "res_stock (?row c) = inv_key c" by (simp add: inv_key_def res_stock_def c(1))
  then show ?thesis
    using c u32_as_i32_small [OF q] unfolding reserved_for_def
    by (intro exI [of _ "?row c"] exI [of _ "add_reserved now ?q c"]) (simp add: res_is_def del: run_moves.simps)
qed

lemma reserve_tx_row:
  assumes wf: "wf_stock db" and ok: "reserve_tx coll now p db = Inr (Some o', db')"
    and q: "uint (rq_quantity p) \<le> i32_max" and st: "ro_status o' = ''reserved''"
  shows "\<exists>x i. reserved_for p (now + seconds RESERVATION_HOLD) o' db' x i
    \<and> run_moves [Hold (res_stock x) (uint (rq_quantity p))] (abs_ledger db) = Some (abs_ledger db')"
proof -
  from ok consider r i req tok where "rq_checkout_request_id p = Some req" "rq_checkout_lease_token p = Some tok"
        "reservation_join db (rq_tenant_id p) (rq_reservation_id p) = [(r, i)]"
        "reserve_existing now p req tok r i db = Inr (Some o', db')"
    | "reserve_fresh coll now p db = Inr (Some o', db')"
    by (auto simp: reserve_tx_def query_opt_Some query_opt_None split: option.splits)
  then show ?thesis
  proof cases
    case 1
    have s: "res_sku r = rq_sku p" "res_quantity r = uint (rq_quantity p)"
      using 1(4) q by (auto simp: reserve_existing_def i32_try_from_small split: if_splits)
    have "reserve_reuse now p req tok r db = Inr (Some o', db')"
      using reserve_existing_cases [OF 1(4)] st by (auto simp: reserve_renew_def Let_def split: if_splits)
    then show ?thesis using reserve_reuse_row [OF wf _ _ s 1(1,2)] reservation_join_single [OF 1(3)] by blast
  next
    case 2
    then show ?thesis using q by (rule reserve_fresh_row [OF wf])
  qed
qed

lemma reserve_tx_again:
  assumes wf: "wf_stock db" and ok: "reserve_tx coll now p db = Inr (Some o', db')"
    and q: "uint (rq_quantity p) \<le> i32_max" and st: "ro_status o' = ''reserved''"
    and fence: "lock_current_checkout_fence db' now' (rq_tenant_id p) req tok = Inr ()"
    and p: "rq_checkout_request_id p = Some req" "rq_checkout_lease_token p = Some tok"
    and now': "now' < now + seconds RESERVATION_HOLD"
  shows "reserve_tx coll' now' p db' = Inr (Some (o'\<lparr>ro_status := ''already_reserved''\<rparr>), db')"
proof -
  obtain x i where x: "reserved_for p (now + seconds RESERVATION_HOLD) o' db' x i"
    using reserve_tx_row [OF wf ok q st] by blast
  have wf': "wf_stock db'" using reserve_tx_ledger [OF wf ok] by (rule ledger_step_wf)
  have "reservation_join db' (rq_tenant_id p) (rq_reservation_id p) = [(x, i)]"
    using x by (intro reservation_join_of [OF wf']) (auto simp: reserved_for_def)
  then have "reserve_tx coll' now' p db' = reserve_existing now' p req tok x i db'"
    using p fence by (simp add: reserve_tx_def)
  also have "\<dots> = reserve_renew now' p req tok x i db'"
    using x q p by (simp add: reserve_existing_def reserved_for_def i32_try_from_small)
  also have "\<dots> = Inr (Some (o'\<lparr>ro_status := ''already_reserved''\<rparr>), db')"
    using x p now' by (cases o') (simp add: reserve_renew_def reserved_for_def)
  finally show ?thesis .
qed

end
