(* ===== verification/InventoryMachine.thy ===== *)
theory InventoryMachine
  imports InventoryReplay
begin

text \<open>
  The contract of an inventory operation as a locale (a failed operation leaves the database, a
  committed one is a step of the ledger and loses no reservation), its interpretation on the four
  operations of the service, and the service as a state machine whose steps interleave them with
  writes of other services to their own tables.
\<close>

locale ledger_op =
  fixes op :: "commerce_db \<Rightarrow> (anyhow + 'a) \<times> commerce_db"
  assumes rollback: "fst (op db) = Inl e \<Longrightarrow> snd (op db) = db"
    and commit: "wf_stock db \<Longrightarrow> fst (op db) = Inr x \<Longrightarrow> ledger_step db (snd (op db))"
    and keeps: "wf_stock db \<Longrightarrow> fst (op db) = Inr x \<Longrightarrow> persists db (snd (op db))"
begin

lemma ledger: "wf_stock db \<Longrightarrow> ledger_step db (snd (op db))"
  using rollback commit ledger_step_refl by (cases "fst (op db)") auto

lemma history: "wf_stock db \<Longrightarrow> persists db (snd (op db))"
  using rollback keeps by (cases "fst (op db)") auto

lemma preserves_wf: "wf_stock db \<Longrightarrow> wf_stock (snd (op db))"
  using ledger by (rule ledger_step_wf)

lemma available_after:
  assumes "wf_stock db" "i \<in> set (inventory (snd (op db)))"
  shows "0 \<le> reserved_quantity i \<and> reserved_quantity i \<le> on_hand_quantity i"
  using preserves_wf [OF assms(1)] assms(2)
  by (auto simp: wf_stock_def list_all_iff inventory_check_def)

end

locale tenant_op = ledger_op op for op :: "commerce_db \<Rightarrow> (anyhow + 'a) \<times> commerce_db" +
  fixes tenant :: string
  assumes frame: "wf_stock db \<Longrightarrow> fst (op db) = Inr x \<Longrightarrow> op_frame tenant db (snd (op db))"
begin

lemma isolation: "wf_stock db \<Longrightarrow> t \<noteq> tenant \<Longrightarrow> tenant_view t (snd (op db)) = tenant_view t db"
  using rollback frame by (cases "fst (op db)") (auto simp: op_frame_def)

end

subsection \<open>The operations meet the contract\<close>

lemma reserve_commit:
  "fst (reserve acq coll now p db) = Inr out \<Longrightarrow>
    reserve_tx coll now p db = Inr (out, snd (reserve acq coll now p db))"
  by (auto simp: reserve_def transact_def Let_def split: sum.splits if_splits)

lemma release_commit:
  "fst (release acq now body db) = Inr out \<Longrightarrow>
    release_tx now body db = Inr (out, snd (release acq now body db))"
  by (auto simp: release_def transact_def split: sum.splits if_splits)

lemma consume_commit:
  "fst (consume acq now body db) = Inr out \<Longrightarrow>
    consume_tx now body db = Inr (out, snd (consume acq now body db))"
  by (auto simp: consume_def transact_def split: sum.splits if_splits)

lemma reap_commit:
  "fst (reap_expired_reservations acq coll locked now db) = Inr n \<Longrightarrow>
    try_fold (reap_step now) (0, db) (reap_batch coll locked now db)
      = Inr (n, snd (reap_expired_reservations acq coll locked now db))"
  by (auto simp: reap_expired_reservations_def transact_def split: sum.splits if_splits)

lemma reap_batch_rows:
  assumes "wf_stock db"
  shows "distinct (map res_key (reap_batch coll locked now db))"
    "set (reap_batch coll locked now db) \<subseteq> set (reservations db)"
    "\<forall>r \<in> set (reap_batch coll locked now db). res_status r = ''reserved'' \<and> res_expires_at r \<le> now"
    "length (reap_batch coll locked now db) \<le> REAPER_BATCH_SIZE"
proof -
  let ?expired = "filter (\<lambda>r. res_status r = ''reserved'' \<and> res_expires_at r \<le> now) (reservations db)"
  have "distinct (map res_key (order_by (reap_le coll) ?expired))"
    using assms by (simp add: wf_stock_def distinct_map_filter)
  then show "distinct (map res_key (reap_batch coll locked now db))"
    unfolding reap_batch_def take_map [symmetric] by (intro distinct_take distinct_map_filter)
  show "set (reap_batch coll locked now db) \<subseteq> set (reservations db)"
    "\<forall>r \<in> set (reap_batch coll locked now db). res_status r = ''reserved'' \<and> res_expires_at r \<le> now"
    "length (reap_batch coll locked now db) \<le> REAPER_BATCH_SIZE"
    by (auto simp: reap_batch_def dest!: in_set_takeD)
qed

lemma reap_ok:
  assumes wf: "wf_stock db"
  obtains db' where
    "try_fold (reap_step now) (0, db) (reap_batch coll locked now db)
       = Inr (int (length (reap_batch coll locked now db)), db')"
    "ledger_step db db'"
    "reservations db' = map (\<lambda>x. if res_key x \<in> set (map res_key (reap_batch coll locked now db))
        then released_row now x else x) (reservations db)"
    "run_moves (map (\<lambda>r. Unhold (res_stock r) (res_quantity r)) (reap_batch coll locked now db)) (abs_ledger db)
       = Some (abs_ledger db')"
proof -
  let ?b = "reap_batch coll locked now db"
  note b = reap_batch_rows [OF wf, of coll locked now]
  have len: "0 + int (length ?b) \<le> u32_max" using b(4) by (simp add: REAPER_BATCH_SIZE_def u32_max_def)
  have rows: "\<forall>r \<in> set ?b. r \<in> set (reservations db) \<and> res_status r = ''reserved'' \<and> res_expires_at r \<le> now"
    using b(2,3) by auto
  from reap_loop_ok [OF wf b(1) rows _ len] obtain db' where
    l: "try_fold (reap_step now) (0, db) ?b = Inr (int (length ?b), db')" "ledger_step db db'"
    "reservations db' = map (\<lambda>x. if res_key x \<in> set (map res_key ?b) then released_row now x else x) (reservations db)"
    by auto
  from reap_loop_refines [OF wf b(1,2,3) _ len l(1)] l that show ?thesis by simp
qed

interpretation reserve_op: tenant_op "reserve acq coll now p" "rq_tenant_id p" for acq coll now p
proof
  fix db :: commerce_db and e x
  show "fst (reserve acq coll now p db) = Inl e \<Longrightarrow> snd (reserve acq coll now p db) = db"
    unfolding reserve_def by (rule transact_rollback)
  assume wf: "wf_stock db" and "fst (reserve acq coll now p db) = Inr x"
  then have ok: "reserve_tx coll now p db = Inr (x, snd (reserve acq coll now p db))" by (simp add: reserve_commit)
  show "ledger_step db (snd (reserve acq coll now p db))" using wf ok by (rule reserve_tx_ledger)
  show "op_frame (rq_tenant_id p) db (snd (reserve acq coll now p db))" using wf ok by (rule reserve_tx_frame)
  then show "persists db (snd (reserve acq coll now p db))" by (simp add: op_frame_def)
qed

interpretation release_op: tenant_op "release acq now body" "rl_tenant_id body" for acq now body
proof
  fix db :: commerce_db and e x
  show "fst (release acq now body db) = Inl e \<Longrightarrow> snd (release acq now body db) = db"
    unfolding release_def by (rule transact_rollback)
  assume wf: "wf_stock db" and "fst (release acq now body db) = Inr x"
  then have ok: "release_tx now body db = Inr (x, snd (release acq now body db))" by (simp add: release_commit)
  show "ledger_step db (snd (release acq now body db))" using wf ok by (rule release_tx_ledger)
  show "op_frame (rl_tenant_id body) db (snd (release acq now body db))" using ok by (rule release_tx_frame)
  then show "persists db (snd (release acq now body db))" by (simp add: op_frame_def)
qed

interpretation consume_op: tenant_op "consume acq now body" "cb_tenant_id body" for acq now body
proof
  fix db :: commerce_db and e x
  show "fst (consume acq now body db) = Inl e \<Longrightarrow> snd (consume acq now body db) = db"
    unfolding consume_def by (rule transact_rollback)
  assume wf: "wf_stock db" and "fst (consume acq now body db) = Inr x"
  then have ok: "consume_tx now body db = Inr (x, snd (consume acq now body db))" by (simp add: consume_commit)
  show "ledger_step db (snd (consume acq now body db))" using wf ok by (rule consume_tx_ledger)
  show "op_frame (cb_tenant_id body) db (snd (consume acq now body db))" using ok by (rule consume_tx_frame)
  then show "persists db (snd (consume acq now body db))" by (simp add: op_frame_def)
qed

interpretation reap_op: ledger_op "reap_expired_reservations acq coll locked now" for acq coll locked now
proof
  fix db :: commerce_db and e x
  show "fst (reap_expired_reservations acq coll locked now db) = Inl e \<Longrightarrow>
      snd (reap_expired_reservations acq coll locked now db) = db"
    unfolding reap_expired_reservations_def by (rule transact_rollback)
  assume wf: "wf_stock db" and "fst (reap_expired_reservations acq coll locked now db) = Inr x"
  note ok = reap_commit [OF this(2)]
  show "ledger_step db (snd (reap_expired_reservations acq coll locked now db))"
    using reap_ok [OF wf, of now coll locked] ok by auto
  show "persists db (snd (reap_expired_reservations acq coll locked now db))"
    using reap_loop_persists [OF ok] by simp
qed

subsection \<open>The service as a state machine\<close>

inductive inv_step :: "commerce_db \<Rightarrow> commerce_db \<Rightarrow> bool" where
  step_reserve: "inv_step db (snd (reserve acq coll now p db))"
| step_release: "inv_step db (snd (release acq now body db))"
| step_consume: "inv_step db (snd (consume acq now body' db))"
| step_reap: "inv_step db (snd (reap_expired_reservations acq coll locked now db))"
| step_other: "inventory db' = inventory db \<Longrightarrow> reservations db' = reservations db \<Longrightarrow> inv_step db db'"

inductive inv_reach :: "commerce_db \<Rightarrow> commerce_db \<Rightarrow> bool" for db0 where
  reach_init: "inv_reach db0 db0"
| reach_step: "inv_reach db0 db \<Longrightarrow> inv_step db db' \<Longrightarrow> inv_reach db0 db'"

inductive_cases inv_stepE: "inv_step db db'"

text \<open>What every step keeps, whichever rule made it.\<close>

definition stock_safe :: "commerce_db \<Rightarrow> commerce_db \<Rightarrow> bool" where
  "stock_safe db db' \<longleftrightarrow>
     wf_stock db' \<and> slack db' = slack db \<and> stock_total db' = stock_total db \<and> persists db db'"

lemma stock_safe_refl: "wf_stock db \<Longrightarrow> stock_safe db db"
  by (simp add: stock_safe_def)

lemma stock_safe_trans: "stock_safe a b \<Longrightarrow> stock_safe b c \<Longrightarrow> stock_safe a c"
  by (auto simp: stock_safe_def intro: persists_trans)

lemma stock_safe_step: "ledger_step db db' \<Longrightarrow> persists db db' \<Longrightarrow> stock_safe db db'"
  by (simp add: stock_safe_def ledger_step_def)

lemma stock_tables_only:
  assumes "inventory db' = inventory db" "reservations db' = reservations db"
  shows "wf_stock db' = wf_stock db" "slack db' = slack db" "stock_total db' = stock_total db" "persists db db'"
  using assms by (auto simp: wf_stock_def slack_def stock_total_def held_def shipped_def reserved_at_def
    on_hand_at_def fun_eq_iff persists_def)

lemma inv_step_safe:
  assumes "inv_step db db'" "wf_stock db"
  shows "stock_safe db db'"
  using assms
proof (cases rule: inv_step.cases)
  case (step_other)
  with assms(2) show ?thesis by (simp add: stock_safe_def stock_tables_only [of db' db])
qed (auto intro!: stock_safe_step
      intro: reserve_op.ledger reserve_op.history release_op.ledger release_op.history
        consume_op.ledger consume_op.history reap_op.ledger reap_op.history)

lemma inv_reach_safe:
  assumes "inv_reach db0 db" "wf_stock db0"
  shows "stock_safe db0 db"
  using assms
proof (induction rule: inv_reach.induct)
  case reach_init
  then show ?case by (rule stock_safe_refl)
next
  case (reach_step db db')
  then have "stock_safe db0 db" "wf_stock db" by (simp_all add: stock_safe_def)
  with inv_step_safe [OF reach_step(2)] show ?case by (blast intro: stock_safe_trans)
qed

end
