(* ===== verification/Propagation.thy ===== *)
theory Propagation
  imports RustStr
begin

text \<open>
  Tenant identity and W3C trace carriers (\<open>libs/playground-telemetry/src/propagation.rs\<close>).

  A \<open>HeaderMap\<close> (or a gRPC \<open>MetadataMap\<close>) is the function that gives the list of values of a header
  name, a header value is its bytes; \<open>to_str\<close>, the conversion of the \<open>http\<close> crate that fails on
  bytes it does not accept, is a parameter. The propagators of OpenTelemetry are not modelled.
\<close>

definition MAX_BUSINESS_BAGGAGE_VALUE_LENGTH :: nat where "MAX_BUSINESS_BAGGAGE_VALUE_LENGTH = 128"
definition DEFAULT_TRACESTATE :: string where "DEFAULT_TRACESTATE = ''playground=commerce''"
definition MAX_TRACEPARENT_HEADER_BYTES :: nat where "MAX_TRACEPARENT_HEADER_BYTES = 55"
definition MAX_TRACESTATE_HEADER_BYTES :: nat where "MAX_TRACESTATE_HEADER_BYTES = 512"
definition MAX_TRACESTATE_MEMBERS :: nat where "MAX_TRACESTATE_MEMBERS = 32"
definition MAX_TRACESTATE_MEMBER_BYTES :: nat where "MAX_TRACESTATE_MEMBER_BYTES = 256"
definition MAX_BAGGAGE_HEADER_BYTES :: nat where "MAX_BAGGAGE_HEADER_BYTES = 8192"
definition MAX_BAGGAGE_MEMBERS :: nat where "MAX_BAGGAGE_MEMBERS = 64"

definition TENANT_ID :: string where "TENANT_ID = ''tenant.id''"
definition USER_TIER :: string where "USER_TIER = ''user.tier''"
definition CLI_INVOCATION_ID :: string where "CLI_INVOCATION_ID = ''cli.invocation.id''"

definition SAFE_BUSINESS_BAGGAGE_KEYS :: "string list" where
  "SAFE_BUSINESS_BAGGAGE_KEYS =
     [TENANT_ID, USER_TIER, ''customer.segment'', ''region'', ''request.priority'',
      ''feature.variant'', ''session.id'', CLI_INVOCATION_ID]"

datatype tenant_identity_error = Missing | Invalid | Conflicting

type_synonym header_map = "string \<Rightarrow> string list"
type_synonym to_str = "string \<Rightarrow> string option"

subsection \<open>Tenant identity\<close>

definition hex_digit :: "char \<Rightarrow> nat option" where
  "hex_digit c =
     (if 48 \<le> byte c \<and> byte c \<le> 57 then Some (byte c - 48)
      else if 97 \<le> byte c \<and> byte c \<le> 102 then Some (byte c - 97 + 10)
      else if 65 \<le> byte c \<and> byte c \<le> 70 then Some (byte c - 65 + 10)
      else None)"

text \<open>The byte loop of \<open>decode_baggage_value\<close>, on the bytes from \<open>index\<close> on.\<close>

fun decode_loop :: "string \<Rightarrow> tenant_identity_error + string" where
  "decode_loop [] = Inr []"
| "decode_loop (c # s) =
     (if c \<noteq> CHR ''%'' then and_then (decode_loop s) (\<lambda>d. Inr (c # d))
      else (case s of
              h # l # t \<Rightarrow>
                and_then (ok_or Invalid (hex_digit h)) (\<lambda>high.
                and_then (ok_or Invalid (hex_digit l)) (\<lambda>low.
                and_then (decode_loop t) (\<lambda>d. Inr (char_of (high * 16 + low) # d))))
            | _ \<Rightarrow> Inl Invalid))"

definition decode_baggage_value :: "string \<Rightarrow> tenant_identity_error + string" where
  "decode_baggage_value value =
     and_then (decode_loop value) (\<lambda>d. if valid_utf8 d then Inr d else Inl Invalid)"

definition normalize_tenant_candidate :: "string \<Rightarrow> tenant_identity_error + string" where
  "normalize_tenant_candidate value =
     (let v = trim value in
      if v = [] \<or> length v > MAX_BUSINESS_BAGGAGE_VALUE_LENGTH \<or> has_control v
      then Inl Invalid else Inr v)"

text \<open>One member of a baggage header: \<open>None\<close> when the loop skips it.\<close>

definition baggage_tenant :: "string \<Rightarrow> (tenant_identity_error + string) option" where
  "baggage_tenant member =
     (case split_once (CHR ''='') member of
        None \<Rightarrow> None
      | Some (key, raw_value) \<Rightarrow>
          if trim key \<noteq> TENANT_ID then None
          else Some (and_then (decode_baggage_value (trim (hd (split_on (CHR '';'') raw_value))))
                 normalize_tenant_candidate))"

definition push_candidate ::
  "string list \<Rightarrow> tenant_identity_error + string \<Rightarrow> tenant_identity_error + string list" where
  "push_candidate candidates c = and_then c (\<lambda>v. Inr (candidates @ [v]))"

definition tenant_sources ::
  "string option \<Rightarrow> string list \<Rightarrow> string list \<Rightarrow> (tenant_identity_error + string) list" where
  "tenant_sources request_tenant explicit baggage =
     (case request_tenant of None \<Rightarrow> [] | Some v \<Rightarrow> [normalize_tenant_candidate v])
     @ map normalize_tenant_candidate explicit
     @ List.map_filter baggage_tenant (concat (map (split_on (CHR '','')) baggage))"

definition resolve_tenant_candidates ::
  "string option \<Rightarrow> string list \<Rightarrow> string list \<Rightarrow> tenant_identity_error + string" where
  "resolve_tenant_candidates request_tenant explicit baggage =
     and_then (try_fold push_candidate [] (tenant_sources request_tenant explicit baggage)) (\<lambda>candidates.
     case candidates of
       [] \<Rightarrow> Inl Missing
     | first # _ \<Rightarrow> if list_ex (\<lambda>c. c \<noteq> first) candidates then Inl Conflicting else Inr first)"

fun read_headers :: "to_str \<Rightarrow> 'e \<Rightarrow> string list \<Rightarrow> 'e + string list" where
  "read_headers to_str e [] = Inr []"
| "read_headers to_str e (v # vs) =
     and_then (ok_or e (to_str v)) (\<lambda>s. and_then (read_headers to_str e vs) (\<lambda>ss. Inr (s # ss)))"

definition resolve_http_tenant_identity ::
  "to_str \<Rightarrow> header_map \<Rightarrow> string option \<Rightarrow> tenant_identity_error + string" where
  "resolve_http_tenant_identity to_str headers request_tenant =
     and_then (read_headers to_str Invalid (headers ''x-tenant-id'' @ headers ''tenant-id'')) (\<lambda>explicit.
     and_then (read_headers to_str Invalid (headers ''baggage'')) (\<lambda>baggage.
     resolve_tenant_candidates request_tenant explicit baggage))"

definition resolve_grpc_tenant_identity ::
  "to_str \<Rightarrow> header_map \<Rightarrow> string option \<Rightarrow> tenant_identity_error + string" where
  "resolve_grpc_tenant_identity to_str metadata request_tenant =
     and_then (read_headers to_str Invalid (metadata ''x-tenant-id'' @ metadata ''tenant-id'')) (\<lambda>explicit.
     and_then (read_headers to_str Invalid (metadata ''baggage'')) (\<lambda>baggage.
     resolve_tenant_candidates request_tenant explicit baggage))"

subsection \<open>Durable carriers\<close>

definition single_header :: "to_str \<Rightarrow> header_map \<Rightarrow> string \<Rightarrow> string + string option" where
  "single_header to_str headers name =
     and_then (read_headers to_str (''durable W3C '' @ name @ '' header is not valid ASCII'') (headers name))
       (\<lambda>values. case values of
          [] \<Rightarrow> Inr None
        | [v] \<Rightarrow> if v \<noteq> [] then Inr (Some v) else Inl (''durable W3C '' @ name @ '' header is empty'')
        | _ \<Rightarrow> Inl (''durable W3C '' @ name @ '' header is duplicated''))"

definition joined_header :: "to_str \<Rightarrow> header_map \<Rightarrow> string \<Rightarrow> string + string option" where
  "joined_header to_str headers name =
     and_then (read_headers to_str (''durable W3C '' @ name @ '' header is not valid ASCII'') (headers name))
       (\<lambda>values. case values of
          [] \<Rightarrow> Inr None
        | _ \<Rightarrow> if list_ex (\<lambda>v. v = []) values then Inl (''durable W3C '' @ name @ '' header is empty'')
               else Inr (Some (join_with (CHR '','') values)))"

definition is_lower_hex :: "string \<Rightarrow> nat \<Rightarrow> bool" where
  "is_lower_hex value n \<longleftrightarrow>
     length value = n \<and> list_all (\<lambda>c. is_ascii_digit c \<or> (97 \<le> byte c \<and> byte c \<le> 102)) value"

definition all_zero_hex :: "string \<Rightarrow> bool" where
  "all_zero_hex value \<longleftrightarrow> list_all (\<lambda>c. c = CHR ''0'') value"

definition validate_traceparent_header :: "string \<Rightarrow> string + unit" where
  "validate_traceparent_header value =
     (let parts = split_on (CHR ''-'') value in
      if length value \<noteq> MAX_TRACEPARENT_HEADER_BYTES \<or> length parts \<noteq> 4
         \<or> parts ! 0 \<noteq> ''00''
         \<or> \<not> is_lower_hex (parts ! 1) 32 \<or> all_zero_hex (parts ! 1)
         \<or> \<not> is_lower_hex (parts ! 2) 16 \<or> all_zero_hex (parts ! 2)
         \<or> \<not> is_lower_hex (parts ! 3) 2
      then Inl ''durable W3C traceparent is invalid'' else Inr ())"

definition is_ows :: "char \<Rightarrow> bool" where
  "is_ows c \<longleftrightarrow> byte c = 32 \<or> byte c = 9"

definition trim_ows :: "string \<Rightarrow> string" where
  "trim_ows s = rev (dropWhile is_ows (rev (dropWhile is_ows s)))"

definition valid_tracestate_key_part :: "string \<Rightarrow> nat \<Rightarrow> bool" where
  "valid_tracestate_key_part value max_length \<longleftrightarrow>
     value \<noteq> [] \<and> length value \<le> max_length
     \<and> list_all (\<lambda>(index, c).
          (is_ascii_lowercase c \<or> is_ascii_digit c \<or> c = CHR ''_'' \<or> c = CHR ''-'' \<or> c = CHR ''*'' \<or> c = CHR ''/'')
          \<and> (index > 0 \<or> is_ascii_lowercase c \<or> is_ascii_digit c)) (enumerate 0 value)"

definition valid_tracestate_key :: "string \<Rightarrow> bool" where
  "valid_tracestate_key value \<longleftrightarrow>
     (case split_on (CHR ''@'') value of
        [first] \<Rightarrow> valid_tracestate_key_part first 256
      | [first, second] \<Rightarrow> valid_tracestate_key_part first 241 \<and> valid_tracestate_key_part second 14
      | _ \<Rightarrow> False)"

definition valid_tracestate_value :: "string \<Rightarrow> bool" where
  "valid_tracestate_value value \<longleftrightarrow>
     \<not> (value \<noteq> [] \<and> is_ows (last value))
     \<and> list_all (\<lambda>c. 32 \<le> byte c \<and> byte c \<le> 126 \<and> c \<noteq> CHR '','' \<and> c \<noteq> CHR ''='') value"

text \<open>One round of the member loop; the state is \<open>member_count\<close> and the set of keys seen.\<close>

definition tracestate_member ::
  "nat \<times> string list \<Rightarrow> string \<Rightarrow> string + (nat \<times> string list)" where
  "tracestate_member s raw_member =
     (case s of (member_count, keys) \<Rightarrow>
      let member = trim_ows raw_member in
      if member = [] then Inl ''durable W3C tracestate member is invalid''
      else if member_count + 1 > MAX_TRACESTATE_MEMBERS then Inl ''durable W3C tracestate has invalid members''
      else (case split_once (CHR ''='') member of
              None \<Rightarrow> Inl ''durable W3C tracestate member is invalid''
            | Some (key, member_value) \<Rightarrow>
                if member = [] \<or> length member > MAX_TRACESTATE_MEMBER_BYTES
                   \<or> \<not> valid_tracestate_key key \<or> member_value = []
                   \<or> length member_value > MAX_TRACESTATE_MEMBER_BYTES
                   \<or> \<not> valid_tracestate_value member_value \<or> key \<in> set keys
                then Inl ''durable W3C tracestate member is invalid''
                else Inr (member_count + 1, key # keys)))"

definition validate_tracestate_header :: "string \<Rightarrow> string + unit" where
  "validate_tracestate_header value =
     (if length value > MAX_TRACESTATE_HEADER_BYTES then Inl ''durable W3C tracestate exceeds 512 bytes''
      else and_then (try_fold tracestate_member (0, []) (split_on (CHR '','') value)) (\<lambda>(member_count, _).
           if member_count = 0 then Inl ''durable W3C tracestate has no members'' else Inr ()))"

definition valid_baggage_key :: "string \<Rightarrow> bool" where
  "valid_baggage_key value \<longleftrightarrow>
     value \<noteq> [] \<and> list_all (\<lambda>c. is_ascii_alphanumeric c
       \<or> byte c \<in> {33, 35, 36, 37, 38, 39, 42, 43, 45, 46, 94, 95, 96, 124, 126}) value"

definition is_baggage_octet :: "char \<Rightarrow> bool" where
  "is_baggage_octet c \<longleftrightarrow>
     (byte c = 33 \<or> (35 \<le> byte c \<and> byte c \<le> 43) \<or> (45 \<le> byte c \<and> byte c \<le> 58)
      \<or> (60 \<le> byte c \<and> byte c \<le> 91) \<or> (93 \<le> byte c \<and> byte c \<le> 126)) \<and> c \<noteq> CHR ''%''"

fun valid_baggage_value :: "string \<Rightarrow> bool" where
  "valid_baggage_value [] = True"
| "valid_baggage_value (c # s) =
     (if c = CHR ''%'' then
        (case s of h # l # t \<Rightarrow> hex_digit h \<noteq> None \<and> hex_digit l \<noteq> None \<and> valid_baggage_value t | _ \<Rightarrow> False)
      else is_baggage_octet c \<and> valid_baggage_value s)"

definition baggage_property :: "string list \<Rightarrow> string \<Rightarrow> string + string list" where
  "baggage_property property_keys raw_property =
     (let property = trim_ows raw_property in
      if property = [] then Inl ''durable W3C baggage property is invalid''
      else let (k, property_value) = (case split_once (CHR ''='') property of
                   None \<Rightarrow> (property, None) | Some (key, value) \<Rightarrow> (key, Some value));
               property_key = trim_ows k in
           if \<not> valid_baggage_key property_key \<or> property_key \<in> set property_keys
             then Inl ''durable W3C baggage property is invalid''
           else (case property_value of
                   Some v \<Rightarrow> if \<not> valid_baggage_value (trim_ows v)
                              then Inl ''durable W3C baggage property value is invalid''
                              else Inr (property_key # property_keys)
                 | None \<Rightarrow> Inr (property_key # property_keys)))"

definition baggage_member :: "string list \<Rightarrow> string \<Rightarrow> string + string list" where
  "baggage_member keys raw_member =
     (let member = trim_ows raw_member in
      if member = [] then Inl ''durable W3C baggage member is invalid''
      else (case split_once (CHR ''='') member of
              None \<Rightarrow> Inl ''durable W3C baggage member is invalid''
            | Some (k, rest) \<Rightarrow>
                let key = trim_ows k in
                if \<not> valid_baggage_key key \<or> key \<in> set keys
                  then Inl ''durable W3C baggage member is invalid''
                else
                  let (raw_value, raw_properties) = (case split_once (CHR '';'') rest of
                        None \<Rightarrow> (rest, None) | Some (v, ps) \<Rightarrow> (v, Some ps)) in
                  if \<not> valid_baggage_value (trim_ows raw_value)
                    then Inl ''durable W3C baggage value is invalid''
                  else (case raw_properties of
                          None \<Rightarrow> Inr (key # keys)
                        | Some ps \<Rightarrow>
                            and_then (try_fold baggage_property [] (split_on (CHR '';'') ps))
                              (\<lambda>_. Inr (key # keys)))))"

definition validate_baggage_header :: "string \<Rightarrow> string + unit" where
  "validate_baggage_header value =
     (if value = [] then Inl ''durable W3C baggage is empty''
      else if length value > MAX_BAGGAGE_HEADER_BYTES then Inl ''durable W3C baggage exceeds 8192 bytes''
      else let members = split_on (CHR '','') value in
           if length members > MAX_BAGGAGE_MEMBERS then Inl ''durable W3C baggage exceeds 64 members''
           else and_then (try_fold baggage_member [] members) (\<lambda>_. Inr ()))"

definition validate_durable_context :: "to_str \<Rightarrow> header_map \<Rightarrow> string + unit" where
  "validate_durable_context to_str headers =
     and_then (single_header to_str headers ''traceparent'') (\<lambda>tp.
     and_then (ok_or ''durable W3C carrier is missing traceparent'' tp) (\<lambda>traceparent.
     and_then (single_header to_str headers ''tracestate'') (\<lambda>ts.
     and_then (ok_or ''durable W3C carrier is missing tracestate'' ts) (\<lambda>tracestate.
     and_then (joined_header to_str headers ''baggage'') (\<lambda>bg.
     and_then (ok_or ''durable W3C carrier is missing baggage'' bg) (\<lambda>baggage.
     and_then (validate_traceparent_header traceparent) (\<lambda>_.
     and_then (validate_tracestate_header tracestate) (\<lambda>_.
     validate_baggage_header baggage))))))))"

subsection \<open>Business baggage and environment carriers\<close>

definition is_safe_baggage_entry :: "string \<Rightarrow> string \<Rightarrow> bool" where
  "is_safe_baggage_entry key value \<longleftrightarrow>
     key \<in> set SAFE_BUSINESS_BAGGAGE_KEYS \<and> length value \<le> MAX_BUSINESS_BAGGAGE_VALUE_LENGTH
     \<and> \<not> has_control value"

definition env_key :: "string \<Rightarrow> string option" where
  "env_key key =
     (let k = to_ascii_lowercase key in
      if k = ''traceparent'' then Some ''TRACEPARENT''
      else if k = ''tracestate'' then Some ''TRACESTATE''
      else if k = ''baggage'' then Some ''BAGGAGE''
      else None)"

definition env_injector_set :: "string \<Rightarrow> string \<Rightarrow> (string \<rightharpoonup> string) \<Rightarrow> (string \<rightharpoonup> string)" where
  "env_injector_set key value m = (case env_key key of None \<Rightarrow> m | Some k \<Rightarrow> m(k \<mapsto> value))"

definition env_extractor_from_env :: "(string \<rightharpoonup> string) \<Rightarrow> (string \<rightharpoonup> string)" where
  "env_extractor_from_env env key =
     (if key \<in> {''TRACEPARENT'', ''TRACESTATE'', ''BAGGAGE''} then
        (case env key of None \<Rightarrow> None | Some value \<Rightarrow> if trim value \<noteq> [] then Some value else None)
      else None)"

definition env_extractor_get :: "(string \<rightharpoonup> string) \<Rightarrow> string \<Rightarrow> string option" where
  "env_extractor_get values key = (case env_key key of None \<Rightarrow> None | Some k \<Rightarrow> values k)"

definition header_get :: "header_map \<Rightarrow> string \<Rightarrow> string option" where
  "header_get headers name = (case headers name of [] \<Rightarrow> None | v # _ \<Rightarrow> Some v)"

definition add_default_tracestate_header :: "header_map \<Rightarrow> header_map" where
  "add_default_tracestate_header headers =
     (if (case header_get headers ''traceparent'' of None \<Rightarrow> False | Some v \<Rightarrow> v \<noteq> [])
         \<and> (case header_get headers ''tracestate'' of None \<Rightarrow> True | Some v \<Rightarrow> v = [])
      then headers(''tracestate'' := [DEFAULT_TRACESTATE]) else headers)"

definition has_nonempty_value :: "(string \<times> string) list \<Rightarrow> string \<Rightarrow> bool" where
  "has_nonempty_value values key \<longleftrightarrow> list_ex (\<lambda>(name, value). name = key \<and> value \<noteq> []) values"

text \<open>\<open>context_env\<close> after the propagator has filled the carrier with \<open>values\<close>.\<close>

definition context_env_finish :: "(string \<times> string) list \<Rightarrow> (string \<times> string) list" where
  "context_env_finish values =
     (if has_nonempty_value values ''TRACEPARENT'' \<and> \<not> has_nonempty_value values ''TRACESTATE''
      then values @ [(''TRACESTATE'', DEFAULT_TRACESTATE)] else values)"

text \<open>
  OpenTelemetry's \<open>Baggage\<close> is a parameter: its iterator, lookup, the collection from an iterator and
  the two insertions. A \<open>Context\<close> is its baggage beside the part the code passes through.
\<close>

record ('b, 'm) baggage_api =
  bg_iter :: "'b \<Rightarrow> (string \<times> string \<times> 'm) list"
  bg_get :: "'b \<Rightarrow> string \<Rightarrow> string option"
  bg_collect :: "(string \<times> string \<times> 'm) list \<Rightarrow> 'b"
  bg_insert_with_metadata :: "string \<Rightarrow> string \<Rightarrow> 'm \<Rightarrow> 'b \<Rightarrow> 'b"
  bg_insert :: "string \<Rightarrow> string \<Rightarrow> 'b \<Rightarrow> 'b"

type_synonym ('c, 'b) otel_context = "'c \<times> 'b"

definition clone_baggage :: "('b, 'm) baggage_api \<Rightarrow> ('c, 'b) otel_context \<Rightarrow> 'b" where
  "clone_baggage api ctx =
     bg_collect api (filter (\<lambda>(k, v, m). is_safe_baggage_entry k v) (bg_iter api (snd ctx)))"

definition with_safe_baggage :: "('b, 'm) baggage_api \<Rightarrow> ('c, 'b) otel_context \<Rightarrow> ('c, 'b) otel_context" where
  "with_safe_baggage api ctx = (fst ctx, clone_baggage api ctx)"

definition with_safe_parent_baggage ::
  "('b, 'm) baggage_api \<Rightarrow> ('c, 'b) otel_context \<Rightarrow> ('d, 'b) otel_context \<Rightarrow> ('c, 'b) otel_context" where
  "with_safe_parent_baggage api ctx parent =
     (fst ctx,
      fold (\<lambda>(k, v, m) b. if is_safe_baggage_entry k v then bg_insert_with_metadata api k v m b else b)
        (bg_iter api (snd parent)) (clone_baggage api ctx))"

definition extend_baggage ::
  "('b, 'm) baggage_api \<Rightarrow> ('c, 'b) otel_context \<Rightarrow> (string \<times> string) list \<Rightarrow> ('c, 'b) otel_context" where
  "extend_baggage api ctx entries =
     (fst ctx,
      fold (\<lambda>(k, v) b. if is_safe_baggage_entry k v then bg_insert api k v b else b)
        entries (clone_baggage api ctx))"

definition with_business_context ::
  "('b, 'm) baggage_api \<Rightarrow> ('c, 'b) otel_context \<Rightarrow> string \<Rightarrow> string \<Rightarrow> string \<Rightarrow> string \<Rightarrow> string \<Rightarrow> ('c, 'b) otel_context" where
  "with_business_context api ctx tenant tier segment region priority =
     extend_baggage api ctx
       [(TENANT_ID, tenant), (USER_TIER, tier), (''customer.segment'', segment),
        (''region'', region), (''request.priority'', priority)]"

definition with_business_context_from_parent ::
  "('b, 'm) baggage_api \<Rightarrow> ('c, 'b) otel_context \<Rightarrow> ('d, 'b) otel_context
     \<Rightarrow> string \<Rightarrow> string \<Rightarrow> string \<Rightarrow> string \<Rightarrow> string \<Rightarrow> ('c, 'b) otel_context" where
  "with_business_context_from_parent api ctx parent tenant tier segment region priority =
     fold (\<lambda>(k, v) c. if bg_get api (snd c) k = None then extend_baggage api c [(k, v)] else c)
       [(USER_TIER, tier), (''customer.segment'', segment), (''region'', region), (''request.priority'', priority)]
       (extend_baggage api (with_safe_parent_baggage api ctx parent) [(TENANT_ID, tenant)])"

subsection \<open>Percent encoding\<close>

text \<open>The encoding a W3C baggage writer uses, the inverse the decoder is measured against.\<close>

definition hex_char :: "nat \<Rightarrow> char" where
  "hex_char n = char_of (if n < 10 then 48 + n else 55 + n)"

definition percent_encode :: "string \<Rightarrow> string" where
  "percent_encode s = concat (map (\<lambda>c. if is_baggage_octet c then [c]
     else [CHR ''%'', hex_char (byte c div 16), hex_char (byte c mod 16)]) s)"

lemma percent_encode_simps [simp]:
  "percent_encode [] = []"
  "percent_encode (c # s) = (if is_baggage_octet c then [c]
     else [CHR ''%'', hex_char (byte c div 16), hex_char (byte c mod 16)]) @ percent_encode s"
  by (simp_all add: percent_encode_def)

lemma byte_hex_char: "n < 16 \<Longrightarrow> byte (hex_char n) = (if n < 10 then 48 + n else 55 + n)"
  by (simp add: hex_char_def)

lemma hex_digit_hex_char [simp]: "n < 16 \<Longrightarrow> hex_digit (hex_char n) = Some n"
  by (simp add: hex_digit_def byte_hex_char)

lemma hex_digit_less: "hex_digit c = Some n \<Longrightarrow> n < 16"
  by (auto simp: hex_digit_def split: if_splits)

lemma char_of_byte [simp]: "char_of (byte c) = c"
  by (simp add: byte_def)

lemma octet_not_percent: "is_baggage_octet c \<Longrightarrow> c \<noteq> CHR ''%''"
  by (simp add: is_baggage_octet_def)

lemma byte_div_16 [simp]: "byte c div 16 < 16"
  using byte_less_256 [of c] by linarith

lemma decode_loop_encode [simp]: "decode_loop (percent_encode s) = Inr s"
  by (induction s) (auto simp: octet_not_percent)

lemma decode_percent_encode: "valid_utf8 s \<Longrightarrow> decode_baggage_value (percent_encode s) = Inr s"
  by (simp add: decode_baggage_value_def)

lemma valid_baggage_value_encode [simp]: "valid_baggage_value (percent_encode s)"
  by (induction s) (auto simp: octet_not_percent)

lemma valid_baggage_value_decodes: "valid_baggage_value v \<Longrightarrow> \<exists>d. decode_loop v = Inr d"
proof (induction v rule: valid_baggage_value.induct)
  case (2 c s)
  show ?case
  proof (cases "c = CHR ''%''")
    case True
    with "2.prems" obtain h l t where s: "s = h # l # t" "hex_digit h \<noteq> None" "hex_digit l \<noteq> None"
      "valid_baggage_value t" by (auto split: list.splits)
    then obtain d where "decode_loop t = Inr d" using "2.IH"(1) [OF True s(1) refl] by auto
    with s True show ?thesis by auto
  next
    case False
    with "2.prems" "2.IH"(2) show ?thesis by auto
  qed
qed simp

text \<open>What an encoder writes is visible ASCII without the separators of the header grammar.\<close>

definition header_safe :: "char \<Rightarrow> bool" where
  "header_safe c \<longleftrightarrow> 33 \<le> byte c \<and> byte c \<le> 126 \<and> byte c \<noteq> 44 \<and> byte c \<noteq> 59"

lemma percent_encode_safe: "c \<in> set (percent_encode s) \<Longrightarrow> header_safe c"
proof (induction s)
  case (Cons x xs)
  have "header_safe (hex_char n)" if "n < 16" for n
    using that by (simp add: header_safe_def byte_hex_char)
  moreover have "is_baggage_octet x \<Longrightarrow> header_safe x" by (auto simp: is_baggage_octet_def header_safe_def)
  moreover have "header_safe (CHR ''%'')" by (simp add: header_safe_def byte_def)
  ultimately show ?case using Cons by (auto split: if_splits)
qed simp

lemma trim_start_visible: "\<forall>c \<in> set s. 33 \<le> byte c \<and> byte c \<le> 126 \<Longrightarrow> trim_start s = s"
  by (cases s rule: trim_start.cases) (auto simp: is_ws1_def is_ws2_def is_ws3_def)

lemma trim_end_rev_visible: "\<forall>c \<in> set s. 33 \<le> byte c \<and> byte c \<le> 126 \<Longrightarrow> trim_end_rev s = s"
  by (cases s rule: trim_end_rev.cases) (auto simp: is_ws1_def is_ws2_def is_ws3_def)

lemma trim_visible: "\<forall>c \<in> set s. 33 \<le> byte c \<and> byte c \<le> 126 \<Longrightarrow> trim s = s"
  by (simp add: trim_def trim_end_def trim_start_visible trim_end_rev_visible)

subsection \<open>Tenant resolution\<close>

lemma normalize_ok:
  "normalize_tenant_candidate v = Inr t \<longleftrightarrow>
     t = trim v \<and> t \<noteq> [] \<and> length t \<le> MAX_BUSINESS_BAGGAGE_VALUE_LENGTH \<and> \<not> has_control t"
  by (auto simp: normalize_tenant_candidate_def Let_def)

lemma decode_loop_error: "decode_loop s = Inl e \<Longrightarrow> e = Invalid"
proof (induction s rule: decode_loop.induct)
  case (2 c s)
  show ?case
  proof (cases "c = CHR ''%''")
    case False
    with 2 show ?thesis by (simp add: and_then_eq_Inl)
  next
    case True
    consider "\<exists>h l t. s = h # l # t" | "s = []" | "\<exists>h. s = [h]" by (metis list.exhaust)
    then show ?thesis
    proof cases
      case 1
      then obtain h l t where s: "s = h # l # t" by blast
      with True "2.prems" "2.IH"(2) show ?thesis
        by (cases "hex_digit h"; cases "hex_digit l") (auto simp: and_then_eq_Inl)
    qed (use True "2.prems" in auto)
  qed
qed simp

lemma normalize_error: "normalize_tenant_candidate v = Inl e \<Longrightarrow> e = Invalid"
  by (auto simp: normalize_tenant_candidate_def Let_def split: if_splits)

lemma decode_error: "decode_baggage_value v = Inl e \<Longrightarrow> e = Invalid"
  by (auto simp: decode_baggage_value_def and_then_eq_Inl dest: decode_loop_error split: if_splits)

lemma baggage_tenant_error: "baggage_tenant m = Some (Inl e) \<Longrightarrow> e = Invalid"
  by (auto simp: baggage_tenant_def and_then_eq_Inl dest: decode_error normalize_error
      split: option.splits if_splits)

lemma tenant_sources_error: "Inl e \<in> set (tenant_sources r x b) \<Longrightarrow> e = Invalid"
  by (auto simp: tenant_sources_def map_filter_def dest!: sym [of "Inl e"]
      dest: normalize_error baggage_tenant_error split: option.splits)

lemma push_all_ok:
  "try_fold push_candidate acc rs = Inr out \<longleftrightarrow> (\<exists>vs. rs = map Inr vs \<and> out = acc @ vs)"
proof (induction rs arbitrary: acc)
  case (Cons r rs)
  then show ?case by (cases r) (auto simp: push_candidate_def Cons_eq_map_conv)
qed auto

lemma push_all_error:
  "try_fold push_candidate acc rs = Inl e \<Longrightarrow> Inl e \<in> set rs"
proof (induction rs arbitrary: acc)
  case (Cons r rs)
  then show ?case by (cases r) (auto simp: push_candidate_def)
qed simp

end
