(* ===== verification/PropagationFacts.thy ===== *)
theory PropagationFacts
  imports Propagation
begin

text \<open>
  What the boundary of every service accepts: the tenant that all present sources agree on, and
  the complete, well-formed W3C carriers that durable work may be stored with.
\<close>

subsection \<open>Tenant resolution as a decision table\<close>

lemma resolve_table:
  "resolve_tenant_candidates r x b =
     (let s = tenant_sources r x b in
      if s = [] then Inl Missing
      else if \<exists>e. Inl e \<in> set s then Inl Invalid
      else if \<forall>c \<in> set s. c = hd s then hd s
      else Inl Conflicting)"
proof (cases "\<exists>e. Inl e \<in> set (tenant_sources r x b)")
  case True
  then have "\<not> (\<exists>vs. tenant_sources r x b = map Inr vs)" by auto
  then obtain e where e: "try_fold push_candidate [] (tenant_sources r x b) = Inl e"
    using push_all_ok [of "[]" "tenant_sources r x b"] by (cases "try_fold push_candidate [] (tenant_sources r x b)") blast+
  moreover have "e = Invalid" using push_all_error [OF e] by (rule tenant_sources_error)
  moreover have "tenant_sources r x b \<noteq> []" using True by auto
  ultimately show ?thesis using True by (auto simp: resolve_tenant_candidates_def Let_def)
next
  case False
  then have "\<forall>s \<in> set (tenant_sources r x b). s = Inr (projr s)"
    by (metis sum.collapse(2) sum.collapse(1))
  then have "tenant_sources r x b = map Inr (map projr (tenant_sources r x b))"
    by (simp add: map_idI)
  then obtain vs where vs: "tenant_sources r x b = map Inr vs" by blast
  then have "try_fold push_candidate [] (tenant_sources r x b) = Inr vs" by (simp add: push_all_ok)
  with vs show ?thesis
    by (cases vs) (auto simp: resolve_tenant_candidates_def Let_def list_ex_iff)
qed

lemma resolve_ok:
  "resolve_tenant_candidates r x b = Inr t \<longleftrightarrow>
     tenant_sources r x b \<noteq> [] \<and> (\<forall>s \<in> set (tenant_sources r x b). s = Inr t)"
proof (cases "tenant_sources r x b = []")
  case False
  then have "hd (tenant_sources r x b) \<in> set (tenant_sources r x b)" by simp
  then have "\<exists>s \<in> set (tenant_sources r x b). s \<noteq> Inr t"
    if "c \<in> set (tenant_sources r x b)" "c \<noteq> hd (tenant_sources r x b)" for c
    using that by metis
  with False show ?thesis unfolding resolve_table Let_def by (auto split: if_split_asm)
qed (simp add: resolve_table)

lemma read_headers_ok:
  "read_headers to_str e vs = Inr ss \<longleftrightarrow> map to_str vs = map Some ss"
  by (induction vs arbitrary: ss) (auto simp: Cons_eq_map_conv)

lemma baggage_tenant_normal:
  "baggage_tenant m = Some (Inr t) \<Longrightarrow> \<exists>v. normalize_tenant_candidate v = Inr t"
  by (auto simp: baggage_tenant_def split: option.splits if_splits)

lemma tenant_sources_normal:
  "Inr t \<in> set (tenant_sources r x b) \<Longrightarrow> \<exists>v. normalize_tenant_candidate v = Inr t"
  by (auto simp: tenant_sources_def map_filter_def dest!: sym [of "Inr t"]
      dest: baggage_tenant_normal split: option.splits)

lemma resolved_is_normal:
  assumes "resolve_tenant_candidates r x b = Inr t"
  shows "t \<noteq> [] \<and> length t \<le> 128 \<and> \<not> has_control t \<and> trim t = t"
proof -
  have "Inr t \<in> set (tenant_sources r x b)"
    using assms unfolding resolve_ok by (metis list.set_sel(1))
  then obtain v where "normalize_tenant_candidate v = Inr t" using tenant_sources_normal by blast
  then show ?thesis by (auto simp: normalize_ok MAX_BUSINESS_BAGGAGE_VALUE_LENGTH_def)
qed

lemma baggage_tenant_encode:
  assumes "valid_utf8 t" "normalize_tenant_candidate t = Inr t"
  shows "baggage_tenant (''tenant.id='' @ percent_encode t) = Some (Inr t)"
proof -
  have vis: "\<forall>c \<in> set (percent_encode t). 33 \<le> byte c \<and> byte c \<le> 126"
    and semi: "CHR '';'' \<notin> set (percent_encode t)"
    using percent_encode_safe [of _ t] percent_encode_safe [of "CHR '';''" t]
    by (auto simp: header_safe_def byte_def)
  have "split_once (CHR ''='') (''tenant.id='' @ percent_encode t) = Some (''tenant.id'', percent_encode t)"
    by simp
  moreover have "trim ''tenant.id'' = ''tenant.id''" by (rule trim_visible) (auto simp: byte_def)
  ultimately show ?thesis
    using assms vis semi by (simp add: baggage_tenant_def TENANT_ID_def trim_visible decode_percent_encode)
qed

subsection \<open>traceparent\<close>

lemma validate_traceparent_ok:
  "validate_traceparent_header v = Inr u \<longleftrightarrow>
     (\<exists>tid sid fl. v = ''00-'' @ tid @ ''-'' @ sid @ ''-'' @ fl
        \<and> is_lower_hex tid 32 \<and> \<not> all_zero_hex tid \<and> is_lower_hex sid 16 \<and> \<not> all_zero_hex sid
        \<and> is_lower_hex fl 2)" (is "?L \<longleftrightarrow> ?R")
proof
  assume ok: ?L
  obtain a b c d where p: "split_on (CHR ''-'') v = [a, b, c, d]"
    using ok by (auto simp: validate_traceparent_header_def Let_def length_Suc_conv eval_nat_numeral split: if_splits)
  have "v = join_with (CHR ''-'') [a, b, c, d]" using join_split_on [of "CHR ''-''" v] p by simp
  with ok p show ?R
    by (intro exI [of _ b] exI [of _ c] exI [of _ d])
       (auto simp: validate_traceparent_header_def Let_def split: if_splits)
next
  assume ?R
  then obtain tid sid fl where v: "v = join_with (CHR ''-'') [''00'', tid, sid, fl]"
    and h: "is_lower_hex tid 32" "\<not> all_zero_hex tid" "is_lower_hex sid 16" "\<not> all_zero_hex sid" "is_lower_hex fl 2"
    by auto
  have "CHR ''-'' \<notin> set s" if "is_lower_hex s n" for s n
    using that by (auto simp: is_lower_hex_def list_all_iff is_ascii_digit_def byte_def)
  with h have "split_on (CHR ''-'') v = [''00'', tid, sid, fl]"
    unfolding v by (intro split_join_with) auto
  moreover have "length v = 55" using h v by (simp add: is_lower_hex_def)
  ultimately show ?L using h by (simp add: validate_traceparent_header_def MAX_TRACEPARENT_HEADER_BYTES_def)
qed

subsection \<open>tracestate\<close>

definition member_key :: "string \<Rightarrow> string" where
  "member_key m = (case split_once (CHR ''='') (trim_ows m) of Some (k, _) \<Rightarrow> k | None \<Rightarrow> [])"

definition tracestate_member_ok :: "string \<Rightarrow> bool" where
  "tracestate_member_ok m \<longleftrightarrow>
     length (trim_ows m) \<le> 256
     \<and> (case split_once (CHR ''='') (trim_ows m) of
          Some (k, v) \<Rightarrow> valid_tracestate_key k \<and> v \<noteq> [] \<and> valid_tracestate_value v
        | None \<Rightarrow> False)"

lemma tracestate_member_step:
  "tracestate_member (n, keys) m = Inr s \<longleftrightarrow>
     tracestate_member_ok m \<and> n < 32 \<and> member_key m \<notin> set keys \<and> s = (n + 1, member_key m # keys)"
proof (cases "split_once (CHR ''='') (trim_ows m)")
  case None
  then show ?thesis
    by (auto simp: tracestate_member_def tracestate_member_ok_def Let_def split: if_splits)
next
  case (Some kv)
  obtain k v where kv: "kv = (k, v)" by (cases kv)
  with Some have m: "trim_ows m = k @ CHR ''='' # v" by (simp add: split_once_Some)
  then have "length v \<le> length (trim_ows m)" "trim_ows m \<noteq> []" by simp_all
  with Some kv show ?thesis
    by (auto simp: tracestate_member_def tracestate_member_ok_def member_key_def Let_def
        MAX_TRACESTATE_MEMBERS_def MAX_TRACESTATE_MEMBER_BYTES_def split: if_splits)
qed

lemma tracestate_loop:
  "try_fold tracestate_member (n, keys) ms = Inr s \<longleftrightarrow>
     list_all tracestate_member_ok ms \<and> (ms \<noteq> [] \<longrightarrow> n + length ms \<le> 32)
     \<and> distinct (map member_key ms) \<and> set (map member_key ms) \<inter> set keys = {}
     \<and> s = (n + length ms, rev (map member_key ms) @ keys)"
proof (induction ms arbitrary: n keys)
  case (Cons m ms)
  have "try_fold tracestate_member (n, keys) (m # ms) = Inr s \<longleftrightarrow>
      tracestate_member_ok m \<and> n < 32 \<and> member_key m \<notin> set keys
      \<and> try_fold tracestate_member (n + 1, member_key m # keys) ms = Inr s"
    using tracestate_member_step by auto
  also have "\<dots> \<longleftrightarrow> list_all tracestate_member_ok (m # ms) \<and> n + length (m # ms) \<le> 32
     \<and> distinct (map member_key (m # ms)) \<and> set (map member_key (m # ms)) \<inter> set keys = {}
     \<and> s = (n + length (m # ms), rev (map member_key (m # ms)) @ keys)"
    unfolding Cons.IH by (cases ms) auto
  finally show ?case by simp
qed auto

lemma validate_tracestate_ok:
  "validate_tracestate_header v = Inr u \<longleftrightarrow>
     length v \<le> 512 \<and> length (split_on (CHR '','') v) \<le> 32
     \<and> list_all tracestate_member_ok (split_on (CHR '','') v)
     \<and> distinct (map member_key (split_on (CHR '','') v))"
  by (auto simp: validate_tracestate_header_def tracestate_loop MAX_TRACESTATE_HEADER_BYTES_def split: if_splits)

subsection \<open>baggage\<close>

definition property_parts :: "string \<Rightarrow> string \<times> string option" where
  "property_parts p = (case split_once (CHR ''='') (trim_ows p) of
     None \<Rightarrow> (trim_ows (trim_ows p), None) | Some (k, v) \<Rightarrow> (trim_ows k, Some v))"

definition baggage_property_ok :: "string \<Rightarrow> bool" where
  "baggage_property_ok p \<longleftrightarrow>
     trim_ows p \<noteq> [] \<and> valid_baggage_key (fst (property_parts p))
     \<and> (case snd (property_parts p) of None \<Rightarrow> True | Some v \<Rightarrow> valid_baggage_value (trim_ows v))"

definition baggage_key :: "string \<Rightarrow> string" where
  "baggage_key m = trim_ows (member_key m)"

definition baggage_value :: "string \<Rightarrow> string" where
  "baggage_value m = (case split_once (CHR ''='') (trim_ows m) of
     None \<Rightarrow> [] | Some (_, rest) \<Rightarrow> trim_ows (hd (split_on (CHR '';'') rest)))"

definition baggage_properties :: "string \<Rightarrow> string list" where
  "baggage_properties m = (case split_once (CHR ''='') (trim_ows m) of
     None \<Rightarrow> [] | Some (_, rest) \<Rightarrow> tl (split_on (CHR '';'') rest))"

definition baggage_member_ok :: "string \<Rightarrow> bool" where
  "baggage_member_ok m \<longleftrightarrow>
     CHR ''='' \<in> set (trim_ows m) \<and> valid_baggage_key (baggage_key m) \<and> valid_baggage_value (baggage_value m)
     \<and> list_all baggage_property_ok (baggage_properties m)
     \<and> distinct (map (fst \<circ> property_parts) (baggage_properties m))"

lemma baggage_property_step:
  "baggage_property keys p = Inr keys' \<longleftrightarrow>
     baggage_property_ok p \<and> fst (property_parts p) \<notin> set keys \<and> keys' = fst (property_parts p) # keys"
  by (cases "split_once (CHR ''='') (trim_ows p)")
     (auto simp: baggage_property_def baggage_property_ok_def property_parts_def Let_def split: if_splits)

lemma baggage_property_loop:
  "try_fold baggage_property keys ps = Inr keys' \<longleftrightarrow>
     list_all baggage_property_ok ps \<and> distinct (map (fst \<circ> property_parts) ps)
     \<and> set (map (fst \<circ> property_parts) ps) \<inter> set keys = {}
     \<and> keys' = rev (map (fst \<circ> property_parts) ps) @ keys"
  by (induction ps arbitrary: keys) (auto simp: baggage_property_step)

lemma split_once_split_on:
  "split_on c s = (case split_once c s of None \<Rightarrow> [s] | Some (a, b) \<Rightarrow> a # split_on c b)"
proof (cases "split_once c s")
  case None
  then show ?thesis using split_once_None [of c s] by simp
next
  case (Some ab)
  then show ?thesis by (cases ab) (auto simp: split_once_Some split_on_append_sep)
qed

lemma baggage_member_step:
  "baggage_member keys m = Inr keys' \<longleftrightarrow>
     baggage_member_ok m \<and> baggage_key m \<notin> set keys \<and> keys' = baggage_key m # keys"
proof (cases "split_once (CHR ''='') (trim_ows m)")
  case None
  then have "CHR ''='' \<notin> set (trim_ows m)" by (simp add: split_once_None)
  with None show ?thesis by (simp add: baggage_member_def baggage_member_ok_def Let_def)
next
  case (Some kv)
  obtain k rest where kv: "kv = (k, rest)" by (cases kv)
  with Some have m: "trim_ows m = k @ CHR ''='' # rest" by (simp add: split_once_Some)
  note d = baggage_member_def baggage_member_ok_def baggage_key_def member_key_def baggage_value_def
    baggage_properties_def Let_def
  show ?thesis
  proof (cases "split_once (CHR '';'') rest")
    case None
    then have "split_on (CHR '';'') rest = [rest]" by (simp add: split_once_None)
    with None Some kv m show ?thesis by (auto simp: d split: if_splits)
  next
    case (Some vp)
    obtain v ps where vp: "vp = (v, ps)" by (cases vp)
    have "split_on (CHR '';'') rest = v # split_on (CHR '';'') ps"
      using Some vp by (subst split_once_split_on) simp
    with Some vp \<open>split_once (CHR ''='') (trim_ows m) = Some kv\<close> kv m show ?thesis
      by (auto simp: d baggage_property_loop split: if_splits)
  qed
qed

lemma baggage_loop:
  "try_fold baggage_member keys ms = Inr keys' \<longleftrightarrow>
     list_all baggage_member_ok ms \<and> distinct (map baggage_key ms)
     \<and> set (map baggage_key ms) \<inter> set keys = {} \<and> keys' = rev (map baggage_key ms) @ keys"
  by (induction ms arbitrary: keys) (auto simp: baggage_member_step)

lemma validate_baggage_ok:
  "validate_baggage_header v = Inr u \<longleftrightarrow>
     v \<noteq> [] \<and> length v \<le> 8192 \<and> length (split_on (CHR '','') v) \<le> 64
     \<and> list_all baggage_member_ok (split_on (CHR '','') v)
     \<and> distinct (map baggage_key (split_on (CHR '','') v))"
  by (auto simp: validate_baggage_header_def baggage_loop MAX_BAGGAGE_HEADER_BYTES_def MAX_BAGGAGE_MEMBERS_def
      Let_def split: if_splits)

lemma single_header_ok:
  "single_header to_str headers name = Inr (Some v) \<longleftrightarrow> map to_str (headers name) = [Some v] \<and> v \<noteq> []"
  by (cases "headers name"; cases "tl (headers name)") (auto simp: single_header_def split: if_splits)

lemma joined_header_ok:
  "joined_header to_str headers name = Inr (Some v) \<longleftrightarrow>
     (\<exists>vs. map to_str (headers name) = map Some vs \<and> vs \<noteq> [] \<and> [] \<notin> set vs \<and> v = join_with (CHR '','') vs)"
  unfolding joined_header_def and_then_eq_Inr read_headers_ok
  by (intro arg_cong [where f = Ex] ext conj_cong [OF refl]) (auto simp: list_ex_iff split: list.splits)

lemma validate_durable_ok:
  "validate_durable_context to_str headers = Inr u \<longleftrightarrow>
     (\<exists>tp ts bg. single_header to_str headers ''traceparent'' = Inr (Some tp)
        \<and> single_header to_str headers ''tracestate'' = Inr (Some ts)
        \<and> joined_header to_str headers ''baggage'' = Inr (Some bg)
        \<and> validate_traceparent_header tp = Inr () \<and> validate_tracestate_header ts = Inr ()
        \<and> validate_baggage_header bg = Inr ())"
  by (auto simp: validate_durable_context_def)

subsection \<open>Business baggage\<close>

definition safe_entries :: "(string \<times> string \<times> 'm) list \<Rightarrow> bool" where
  "safe_entries es \<longleftrightarrow> list_all (\<lambda>(k, v, m). is_safe_baggage_entry k v) es"

text \<open>
  The documented behaviour of the \<open>Baggage\<close> type the code relies on: an insertion or a collection
  adds at most the entries it is given (it may drop one that exceeds the size limits).
\<close>

definition baggage_laws :: "('b, 'm) baggage_api \<Rightarrow> bool" where
  "baggage_laws api \<longleftrightarrow>
     (\<forall>es. set (bg_iter api (bg_collect api es)) \<subseteq> set es)
     \<and> (\<forall>k v m b. set (bg_iter api (bg_insert_with_metadata api k v m b)) \<subseteq> insert (k, v, m) (set (bg_iter api b)))
     \<and> (\<forall>k v b. \<forall>(k', v', m') \<in> set (bg_iter api (bg_insert api k v b)).
          (k', v') = (k, v) \<or> (k', v', m') \<in> set (bg_iter api b))"

lemma clone_baggage_safe:
  "baggage_laws api \<Longrightarrow> safe_entries (bg_iter api (clone_baggage api ctx))"
  unfolding baggage_laws_def clone_baggage_def safe_entries_def list_all_iff by fastforce

lemma fold_keeps:
  assumes "P b" "\<And>x b. x \<in> set xs \<Longrightarrow> P b \<Longrightarrow> P (f x b)"
  shows "P (fold f xs b)"
  using assms by (induction xs arbitrary: b) auto

lemma insert_safe:
  assumes "baggage_laws api" "safe_entries (bg_iter api b)" "is_safe_baggage_entry k v"
  shows "safe_entries (bg_iter api (bg_insert api k v b))"
    "safe_entries (bg_iter api (bg_insert_with_metadata api k v m b))"
  using assms unfolding baggage_laws_def safe_entries_def list_all_iff by (fastforce, fastforce)

lemma extend_baggage_safe:
  assumes "baggage_laws api"
  shows "safe_entries (bg_iter api (snd (extend_baggage api ctx es)))"
  unfolding extend_baggage_def snd_conv
  by (rule fold_keeps) (auto simp: clone_baggage_safe insert_safe assms)

lemma with_safe_parent_baggage_safe:
  assumes "baggage_laws api"
  shows "safe_entries (bg_iter api (snd (with_safe_parent_baggage api ctx parent)))"
  unfolding with_safe_parent_baggage_def snd_conv
  by (rule fold_keeps) (auto simp: clone_baggage_safe insert_safe assms)

lemma with_business_context_from_parent_safe:
  assumes "baggage_laws api"
  shows "safe_entries (bg_iter api (snd (with_business_context_from_parent api ctx parent t a b c d)))"
  unfolding with_business_context_from_parent_def
  by (rule fold_keeps) (auto simp: extend_baggage_safe assms)

subsection \<open>Environment carriers\<close>

lemma env_set_get:
  "env_key key \<noteq> None \<Longrightarrow> env_extractor_get (env_injector_set key v m) key = Some v"
  by (auto simp: env_extractor_get_def env_injector_set_def)

end
