(* ===== verification/InventoryService.thy ===== *)
theory InventoryService
  imports InventoryMachine PropagationFacts
begin

text \<open>
  The application layer (\<open>services/inventory/src/application.rs\<close>) and the HTTP handlers
  (\<open>services/inventory/src/api.rs\<close>) of the inventory service. A response is the status code and the
  JSON body; a handler maps the database it finds to the response and the database it leaves.
  \<open>pg_display\<close>, the text of a PostgreSQL driver error, is a parameter.
\<close>

type_synonym response = "int \<times> json"

datatype application_error = App_invalid validation_error | App_operation anyhow

definition application_reserve ::
  "(nat \<Rightarrow> pool_result) \<Rightarrow> (string \<Rightarrow> string \<Rightarrow> bool) \<Rightarrow> timestamp \<Rightarrow> reserve_query \<Rightarrow> commerce_db
     \<Rightarrow> (application_error + reserve_outcome option) \<times> commerce_db" where
  "application_reserve acq coll now params db =
     (case validate_reserve params of
        Inl error \<Rightarrow> (Inl (App_invalid error), db)
      | Inr _ \<Rightarrow> (case reserve acq coll now params db of (r, db') \<Rightarrow> (map_err App_operation r, db')))"

definition application_release ::
  "(nat \<Rightarrow> pool_result) \<Rightarrow> timestamp \<Rightarrow> release_body \<Rightarrow> commerce_db
     \<Rightarrow> (application_error + release_outcome option) \<times> commerce_db" where
  "application_release acq now body db =
     (case validate_release body of
        Inl error \<Rightarrow> (Inl (App_invalid error), db)
      | Inr _ \<Rightarrow> (case release acq now body db of (r, db') \<Rightarrow> (map_err App_operation r, db')))"

definition application_consume ::
  "(nat \<Rightarrow> pool_result) \<Rightarrow> timestamp \<Rightarrow> consume_body \<Rightarrow> commerce_db
     \<Rightarrow> (application_error + consume_outcome) \<times> commerce_db" where
  "application_consume acq now body db =
     (case validate_consume body of
        Inl error \<Rightarrow> (Inl (App_invalid error), db)
      | Inr _ \<Rightarrow> (case consume acq now body db of (r, db') \<Rightarrow> (map_err App_operation r, db')))"

subsection \<open>Responses\<close>

definition invalid_response :: "string \<Rightarrow> validation_error \<Rightarrow> response" where
  "invalid_response code error =
     (400, JObj [(''error'', JStr code), (''field'', JStr (ve_field error)), (''message'', JStr (ve_reason error))])"

definition anyhow_display :: "(sql_error \<Rightarrow> string) \<Rightarrow> anyhow \<Rightarrow> string" where
  "anyhow_display pg_display e =
     (case e of Reservation_conflict code message \<Rightarrow> message | Message m \<Rightarrow> m | Postgres x \<Rightarrow> pg_display x)"

definition reserve_response ::
  "(sql_error \<Rightarrow> string) \<Rightarrow> reserve_query \<Rightarrow> application_error + reserve_outcome option \<Rightarrow> response" where
  "reserve_response pg_display params result =
     (let ids = [(''tenant_id'', JStr (rq_tenant_id params)),
                 (''reservation_id'', JStr (rq_reservation_id params)), (''sku'', JStr (rq_sku params))] in
      case result of
        Inl (App_invalid error) \<Rightarrow> invalid_response ''invalid_reserve_request'' error
      | Inr (Some outcome) \<Rightarrow>
          (200, JObj (ids @ [(''reserved'', JNum (uint (rq_quantity params))),
             (''location_id'', JStr (ro_location_id outcome)), (''remaining'', JNum (ro_remaining outcome)),
             (''status'', JStr (ro_status outcome))]))
      | Inr None \<Rightarrow> (409, JObj ((''error'', JStr ''out_of_stock'') # ids))
      | Inl (App_operation (Reservation_conflict code message)) \<Rightarrow>
          (409, JObj ((''error'', JStr code) # ids @ [(''message'', JStr message)]))
      | Inl (App_operation error) \<Rightarrow>
          if str_contains ''fault injection'' (anyhow_display pg_display error)
          then (503, JObj ((''error'', JStr ''reservation_rejected'') # ids))
          else (503, JObj ((''error'', JStr ''inventory_unavailable'') # ids)))"

definition release_response ::
  "release_body \<Rightarrow> application_error + release_outcome option \<Rightarrow> response" where
  "release_response body result =
     (let ids = [(''tenant_id'', JStr (rl_tenant_id body)),
                 (''reservation_id'', JStr (rl_reservation_id body)), (''sku'', JStr (rl_sku body))] in
      case result of
        Inl (App_invalid error) \<Rightarrow> invalid_response ''invalid_release_request'' error
      | Inr (Some outcome) \<Rightarrow>
          (200, JObj (ids @ [(''location_id'', JStr (lo_location_id outcome)),
             (''requested'', JNum (uint (rl_quantity body))), (''released'', JNum (lo_released outcome)),
             (''reserved_remaining'', JNum (lo_reserved_remaining outcome)),
             (''available'', JNum (lo_available outcome)), (''status'', JStr (lo_status outcome))]))
      | Inr None \<Rightarrow>
          (404, JObj ((''error'', JStr ''reservation_not_found'') # ids
             @ [(''message'', JStr ''reservation does not exist for the tenant'')]))
      | Inl (App_operation (Reservation_conflict code message)) \<Rightarrow>
          (409, JObj ((''error'', JStr code) # ids @ [(''message'', JStr message)]))
      | Inl (App_operation error) \<Rightarrow> (503, JObj ((''error'', JStr ''inventory_unavailable'') # ids)))"

definition consume_response :: "consume_body \<Rightarrow> application_error + consume_outcome \<Rightarrow> response" where
  "consume_response body result =
     (case result of
        Inl (App_invalid error) \<Rightarrow> invalid_response ''invalid_consume_request'' error
      | Inr outcome \<Rightarrow>
          (200, JObj [(''tenant_id'', JStr (cb_tenant_id body)), (''consumed'', JNum (co_consumed outcome)),
             (''reservation_count'', JNum (int (length (cb_reservations body)))),
             (''status'', JStr (co_status outcome))])
      | Inl (App_operation (Reservation_conflict code message)) \<Rightarrow>
          ((if code = ''reservation_not_found'' then 404 else 409),
           JObj [(''error'', JStr code), (''tenant_id'', JStr (cb_tenant_id body)), (''message'', JStr message)])
      | Inl (App_operation error) \<Rightarrow>
          (503, JObj [(''error'', JStr ''inventory_unavailable''), (''tenant_id'', JStr (cb_tenant_id body))]))"

definition inventory_tenant_identity_error :: "tenant_identity_error \<Rightarrow> response" where
  "inventory_tenant_identity_error error =
     (case (case error of
              Missing \<Rightarrow> (400, ''tenant_required'', ''tenant_id is required in the request or tenant.id baggage'')
            | Invalid \<Rightarrow> (400, ''invalid_identity'', ''tenant identity is invalid'')
            | Conflicting \<Rightarrow> (409, ''identity_conflict'', ''tenant identity sources conflict''))
      of (status, code, message) \<Rightarrow>
        (status, JObj [(''error'', JStr code), (''field'', JStr ''tenant_id''), (''message'', JStr message)]))"

subsection \<open>Handlers\<close>

definition body_tenant :: "string \<Rightarrow> string option" where
  "body_tenant t = (if trim t \<noteq> [] then Some t else None)"

definition reserve_get ::
  "to_str \<Rightarrow> (sql_error \<Rightarrow> string) \<Rightarrow> (nat \<Rightarrow> pool_result) \<Rightarrow> (string \<Rightarrow> string \<Rightarrow> bool) \<Rightarrow> timestamp \<Rightarrow> header_map
     \<Rightarrow> reserve_query \<Rightarrow> commerce_db \<Rightarrow> response \<times> commerce_db" where
  "reserve_get to_str pg_display acq coll now headers params db =
     (case resolve_http_tenant_identity to_str headers (body_tenant (rq_tenant_id params)) of
        Inl error \<Rightarrow> (inventory_tenant_identity_error error, db)
      | Inr tenant_id \<Rightarrow>
          let params' = params\<lparr>rq_tenant_id := tenant_id\<rparr> in
          case application_reserve acq coll now params' db of
            (result, db') \<Rightarrow> (reserve_response pg_display params' result, db'))"

definition reserve_post ::
  "to_str \<Rightarrow> (sql_error \<Rightarrow> string) \<Rightarrow> (nat \<Rightarrow> pool_result) \<Rightarrow> (string \<Rightarrow> string \<Rightarrow> bool) \<Rightarrow> timestamp \<Rightarrow> header_map
     \<Rightarrow> reserve_body \<Rightarrow> commerce_db \<Rightarrow> response \<times> commerce_db" where
  "reserve_post to_str pg_display acq coll now headers body =
     reserve_get to_str pg_display acq coll now headers
       \<lparr>rq_tenant_id = rb_tenant_id body, rq_reservation_id = rb_reservation_id body, rq_sku = rb_sku body,
        rq_quantity = rb_quantity body, rq_slow = 0, rq_db_n1 = 0, rq_hold_ms = 0, rq_fail = False,
        rq_checkout_request_id = rb_checkout_request_id body,
        rq_checkout_lease_token = rb_checkout_lease_token body\<rparr>"

definition release_post ::
  "to_str \<Rightarrow> (nat \<Rightarrow> pool_result) \<Rightarrow> timestamp \<Rightarrow> header_map \<Rightarrow> release_body \<Rightarrow> commerce_db \<Rightarrow> response \<times> commerce_db" where
  "release_post to_str acq now headers body db =
     (case resolve_http_tenant_identity to_str headers (body_tenant (rl_tenant_id body)) of
        Inl error \<Rightarrow> (inventory_tenant_identity_error error, db)
      | Inr tenant_id \<Rightarrow>
          let body' = body\<lparr>rl_tenant_id := tenant_id\<rparr> in
          case application_release acq now body' db of
            (result, db') \<Rightarrow> (release_response body' result, db'))"

definition consume_post ::
  "to_str \<Rightarrow> (nat \<Rightarrow> pool_result) \<Rightarrow> timestamp \<Rightarrow> header_map \<Rightarrow> consume_body \<Rightarrow> commerce_db \<Rightarrow> response \<times> commerce_db" where
  "consume_post to_str acq now headers body db =
     (case resolve_http_tenant_identity to_str headers (body_tenant (cb_tenant_id body)) of
        Inl error \<Rightarrow> (inventory_tenant_identity_error error, db)
      | Inr tenant_id \<Rightarrow>
          let body' = body\<lparr>cb_tenant_id := tenant_id\<rparr> in
          case application_consume acq now body' db of
            (result, db') \<Rightarrow> (consume_response body' result, db'))"

subsection \<open>The handlers meet the contract of the store\<close>

lemma application_reserve_snd:
  "snd (application_reserve acq coll now p db) =
     (if is_ok (validate_reserve p) then snd (reserve acq coll now p db) else db)"
  by (auto simp: application_reserve_def split: sum.splits prod.splits)

lemma application_release_snd:
  "snd (application_release acq now b db) =
     (if is_ok (validate_release b) then snd (release acq now b db) else db)"
  by (auto simp: application_release_def split: sum.splits prod.splits)

lemma application_consume_snd:
  "snd (application_consume acq now b db) =
     (if is_ok (validate_consume b) then snd (consume acq now b db) else db)"
  by (auto simp: application_consume_def split: sum.splits prod.splits)

lemma application_reserve_ok:
  "application_reserve acq coll now p db = (Inr out, db') \<longleftrightarrow>
     validate_reserve p = Inr () \<and> reserve acq coll now p db = (Inr out, db')"
  by (auto simp: application_reserve_def split: sum.splits prod.splits)

lemma application_release_ok:
  "application_release acq now b db = (Inr out, db') \<longleftrightarrow>
     validate_release b = Inr () \<and> release acq now b db = (Inr out, db')"
  by (auto simp: application_release_def split: sum.splits prod.splits)

lemma application_consume_ok:
  "application_consume acq now b db = (Inr out, db') \<longleftrightarrow>
     validate_consume b = Inr () \<and> consume acq now b db = (Inr out, db')"
  by (auto simp: application_consume_def split: sum.splits prod.splits)

end
