(* ===== verification/InventorySamples.thy ===== *)
theory InventorySamples
  imports InventoryService
begin

text \<open>
  A small warehouse for the concrete runs that accompany the properties: one tenant, one variant
  at one location with five units, and one checkout attempt that holds a current lease.
\<close>

definition demo_coll :: "string \<Rightarrow> string \<Rightarrow> bool" where "demo_coll a b \<longleftrightarrow> True"

definition demo_acq :: "nat \<Rightarrow> pool_result" where "demo_acq n = Pool_ok"

definition demo_attempt :: attempt_row where
  "demo_attempt = \<lparr>at_tenant = ''t'', at_request = ''q'', at_fingerprint = ''f'', at_status = ''started'',
     at_order_id = None, at_response_payload = None, at_error_status = None, at_error_code = None,
     at_error_message = None, at_lease_token = ''k'', at_lease_expires_at = Some 1000000000000, at_updated_at = 0\<rparr>"

definition demo_db :: commerce_db where
  "demo_db = \<lparr>tenants = [''t''], inventory = [\<lparr>inv_id = ''i'', inv_tenant = ''t'', inv_variant = ''v'', inv_location = ''l'',
       on_hand_quantity = 5, reserved_quantity = 0, inv_updated_at = 0\<rparr>],
     reservations = [],
     variants = [\<lparr>var_id = ''v'', var_tenant = ''t'', var_product = ''p'', var_sku = ''s'', var_status = ''active''\<rparr>],
     locations = [\<lparr>loc_id = ''l'', loc_tenant = ''t'', loc_code = ''c'', loc_is_active = True\<rparr>],
     attempts = [demo_attempt], recons = [], compensations = [], orders = [], payments = []\<rparr>"

definition demo_reserve :: reserve_query where
  "demo_reserve = \<lparr>rq_tenant_id = ''t'', rq_reservation_id = ''r'', rq_sku = ''s'', rq_quantity = 2,
     rq_slow = 0, rq_db_n1 = 0, rq_hold_ms = 0, rq_fail = False,
     rq_checkout_request_id = Some ''q'', rq_checkout_lease_token = Some ''k''\<rparr>"

definition demo_release :: release_body where
  "demo_release = \<lparr>rl_tenant_id = ''t'', rl_reservation_id = ''r'', rl_sku = ''s'', rl_quantity = 2,
     rl_location_id = None, rl_checkout_request_id = Some ''q'', rl_checkout_lease_token = Some ''k''\<rparr>"

definition demo_consume :: consume_body where
  "demo_consume = \<lparr>cb_tenant_id = ''t'', cb_checkout_request_id = Some ''q'', cb_checkout_lease_token = Some ''k'',
     cb_reservations = [\<lparr>cr_reservation_id = ''r'', cr_sku = ''s'', cr_quantity = 2, cr_location_id = None\<rparr>]\<rparr>"

text \<open>The warehouse with the two units of reservation \<open>r\<close> held, consumed, and given back.\<close>

definition demo_held :: commerce_db where
  "demo_held = demo_db\<lparr>
     inventory := [\<lparr>inv_id = ''i'', inv_tenant = ''t'', inv_variant = ''v'', inv_location = ''l'',
       on_hand_quantity = 5, reserved_quantity = 2, inv_updated_at = 10\<rparr>],
     reservations := [\<lparr>res_id = ''r'', res_tenant = ''t'', res_sku = ''s'', res_variant = ''v'', res_location = ''l'',
       res_quantity = 2, res_status = ''reserved'', res_expires_at = 900000010, res_released_at = None,
       res_consumed_at = None, res_owner_request_id = Some ''q'', res_owner_lease_token = Some ''k'',
       res_updated_at = 10\<rparr>]\<rparr>"

definition demo_released :: commerce_db where
  "demo_released = demo_db\<lparr>
     inventory := [\<lparr>inv_id = ''i'', inv_tenant = ''t'', inv_variant = ''v'', inv_location = ''l'',
       on_hand_quantity = 5, reserved_quantity = 0, inv_updated_at = 20\<rparr>],
     reservations := [\<lparr>res_id = ''r'', res_tenant = ''t'', res_sku = ''s'', res_variant = ''v'', res_location = ''l'',
       res_quantity = 2, res_status = ''released'', res_expires_at = 900000010, res_released_at = Some 20,
       res_consumed_at = None, res_owner_request_id = Some ''q'', res_owner_lease_token = Some ''k'',
       res_updated_at = 20\<rparr>]\<rparr>"

definition demo_consumed :: commerce_db where
  "demo_consumed = demo_db\<lparr>
     inventory := [\<lparr>inv_id = ''i'', inv_tenant = ''t'', inv_variant = ''v'', inv_location = ''l'',
       on_hand_quantity = 3, reserved_quantity = 0, inv_updated_at = 20\<rparr>],
     reservations := [\<lparr>res_id = ''r'', res_tenant = ''t'', res_sku = ''s'', res_variant = ''v'', res_location = ''l'',
       res_quantity = 2, res_status = ''consumed'', res_expires_at = 900000010, res_released_at = None,
       res_consumed_at = Some 20, res_owner_request_id = Some ''q'', res_owner_lease_token = Some ''k'',
       res_updated_at = 20\<rparr>]\<rparr>"

lemma demo_wf: "wf_stock demo_db" by code_simp

lemma demo_held_wf: "wf_stock demo_held" by code_simp

lemma demo_reserve_run:
  "application_reserve demo_acq demo_coll 10 demo_reserve demo_db
     = (Inr (Some \<lparr>ro_location_id = ''l'', ro_remaining = 3, ro_status = ''reserved''\<rparr>), demo_held)"
  by code_simp

lemma demo_release_run:
  "application_release demo_acq 20 demo_release demo_held
     = (Inr (Some \<lparr>lo_location_id = ''l'', lo_released = 2, lo_reserved_remaining = 0, lo_available = 5,
                  lo_status = ''released''\<rparr>), demo_released)"
  by code_simp

lemma demo_consume_run:
  "application_consume demo_acq 20 demo_consume demo_held
     = (Inr \<lparr>co_consumed = 2, co_status = ''consumed''\<rparr>, demo_consumed)"
  by code_simp

lemma demo_fence:
  "lock_current_checkout_fence demo_held 30 ''t'' ''q'' ''k'' = Inr ()"
  "lock_current_checkout_fence demo_consumed 30 ''t'' ''q'' ''k'' = Inr ()"
  "lock_current_checkout_fence demo_released 30 ''t'' ''q'' ''k'' = Inr ()"
  by code_simp+

end
