(* ===== verification/InventoryProperties.thy ===== *)
theory InventoryProperties
  imports InventorySamples
begin

text \<open>
  The properties of the inventory service, each followed by a concrete run.
\<close>

subsection \<open>Safety of the stock ledger\<close>






text \<open>
  A consumed reservation is final and no reservation is ever lost: along every run each reservation
  row of the start is still there with the same SKU, stock key, quantity and owning checkout request,
  and a row that was consumed is unchanged in every column.
\<close>

theorem reservations_persist:
  assumes "wf_stock db0" and "inv_reach db0 db" and "r \<in> set (reservations db0)"
  shows "\<exists>r' \<in> set (reservations db).
      res_key r' = res_key r \<and> res_sku r' = res_sku r \<and> res_stock r' = res_stock r
      \<and> res_quantity r' = res_quantity r \<and> res_owner_request_id r' = res_owner_request_id r
      \<and> (res_status r = ''consumed'' \<longrightarrow> r' = r)"
  using inv_reach_safe [OF assms(2,1)] assms(3)
  by (auto simp: stock_safe_def persists_def evolves_def same_reservation_def)

theorem reservations_persist_witness:
  "\<exists>r' \<in> set (reservations (snd (consume demo_acq 20 demo_consume demo_held))). res_key r' = (''t'', ''r'')"
proof -
  have "inv_reach demo_held (snd (consume demo_acq 20 demo_consume demo_held))"
    by (rule reach_step [OF reach_init step_consume])
  from reservations_persist [OF demo_held_wf this, of "hd (reservations demo_held)"]
  show ?thesis by (auto simp: demo_held_def res_key_def)
qed

subsection \<open>Refinement of the operations\<close>

text \<open>
  C5. Reserve refines the abstract ledger. A reserve request the application accepts either finds no
  stock (and changes nothing), or reports status reserved and has moved exactly the requested quantity
  from free to held at one location of the tenant that had that much free, or reports an earlier
  reservation and has moved nothing; the remaining count it returns is the free stock afterwards.
\<close>

theorem reserve_refines_ledger:
  assumes "wf_stock db" and "application_reserve acq coll now p db = (Inr out, db')"
  shows "reserve_spec (rq_tenant_id p) (uint (rq_quantity p)) out (abs_ledger db) (abs_ledger db')"
proof -
  have v: "validate_reserve p = Inr ()" and r: "reserve acq coll now p db = (Inr out, db')"
    using assms(2) by (simp_all add: application_reserve_ok)
  have "uint (rq_quantity p) \<le> i32_max" using v by (simp add: validate_reserve_ok i32_max_def)
  moreover have "reserve_tx coll now p db = Inr (out, db')"
    using reserve_commit [of acq coll now p db out] r by simp
  ultimately show ?thesis using reserve_tx_refines [OF assms(1)] by simp
qed

theorem reserve_refines_ledger_witness:
  "reserve_spec ''t'' 2 (Some \<lparr>ro_location_id = ''l'', ro_remaining = 3, ro_status = ''reserved''\<rparr>)
     (abs_ledger demo_db) (abs_ledger demo_held)"
  using reserve_refines_ledger [OF demo_wf demo_reserve_run] by (simp add: demo_reserve_def)

text \<open>
  C6. Release refines the abstract ledger. An accepted release either finds no reservation, or reports
  it was released before and moves nothing, or moves exactly the reserved quantity back from held to
  free at the reservation's location; the quantity and the availability it returns are the moved
  quantity and the free stock afterwards.
\<close>

theorem release_refines_ledger:
  assumes "wf_stock db" and "application_release acq now b db = (Inr out, db')"
  shows "release_spec (rl_tenant_id b) (uint (rl_quantity b)) out (abs_ledger db) (abs_ledger db')"
proof -
  have v: "validate_release b = Inr ()" and r: "release acq now b db = (Inr out, db')"
    using assms(2) by (simp_all add: application_release_ok)
  have "uint (rl_quantity b) \<le> i32_max" using v by (simp add: validate_release_ok i32_max_def)
  moreover have "release_tx now b db = Inr (out, db')"
    using release_commit [of acq now b db out] r by simp
  ultimately show ?thesis using release_tx_refines [OF assms(1)] by simp
qed

theorem release_refines_ledger_witness:
  "release_spec ''t'' 2 (Some \<lparr>lo_location_id = ''l'', lo_released = 2, lo_reserved_remaining = 0,
       lo_available = 5, lo_status = ''released''\<rparr>) (abs_ledger demo_held) (abs_ledger demo_released)"
  using release_refines_ledger [OF demo_held_wf demo_release_run] by (simp add: demo_release_def)

text \<open>
  C7. Consume refines the abstract ledger. An accepted consume request is a list of enabled moves of the
  requesting tenant that ship reservations (after holding again the ones that had expired), it never
  frees a unit, and the number it reports is exactly the number of units shipped.
\<close>

theorem consume_refines_ledger:
  assumes "wf_stock db" and "application_consume acq now b db = (Inr out, db')"
  shows "consume_spec (cb_tenant_id b) (co_consumed out) (abs_ledger db) (abs_ledger db')"
proof -
  have "consume acq now b db = (Inr out, db')"
    using assms(2) by (simp add: application_consume_ok)
  then have "consume_tx now b db = Inr (out, db')" using consume_commit [of acq now b db out] by simp
  then show ?thesis by (rule consume_tx_refines [OF assms(1)])
qed

theorem consume_refines_ledger_witness:
  "consume_spec ''t'' 2 (abs_ledger demo_held) (abs_ledger demo_consumed)"
  using consume_refines_ledger [OF demo_held_wf demo_consume_run] by (simp add: demo_consume_def)

text \<open>
  The reaper always succeeds and frees exactly its batch. On a well-formed stock, once it has a
  connection, a reaper pass returns the number of expired open reservations it selected (at most one
  hundred, skipping locked rows), marks exactly those released, and gives exactly their quantities back.
\<close>

theorem reaper_frees_batch:
  assumes "wf_stock db" and "acq 0 = Pool_ok"
  shows "let batch = reap_batch coll locked now db in \<exists>db'. reap_expired_reservations acq coll locked now db = (Inr (int (length batch)), db')
    \<and> length batch \<le> 100
    \<and> reservations db' = map (\<lambda>x. if res_key x \<in> set (map res_key batch) then released_row now x else x) (reservations db)
    \<and> run_moves (map (\<lambda>r. Unhold (res_stock r) (res_quantity r)) batch) (abs_ledger db) = Some (abs_ledger db')"
proof -
  define batch where "batch = reap_batch coll locked now db"
  obtain db' where r: "try_fold (reap_step now) (0, db) batch = Inr (int (length batch), db')"
    "reservations db' = map (\<lambda>x. if res_key x \<in> set (map res_key batch) then released_row now x else x) (reservations db)"
    "run_moves (map (\<lambda>r. Unhold (res_stock r) (res_quantity r)) batch) (abs_ledger db) = Some (abs_ledger db')"
    unfolding batch_def by (rule reap_ok [OF assms(1), of now coll locked]) blast
  have "reap_expired_reservations acq coll locked now db = (Inr (int (length batch)), db')"
    using r(1) assms(2) by (simp add: reap_expired_reservations_def transact_def acquire_def batch_def)
  moreover have "length batch \<le> 100"
    using reap_batch_rows(4) [OF assms(1)] by (simp add: batch_def REAPER_BATCH_SIZE_def)
  ultimately show ?thesis using r(2,3) unfolding Let_def batch_def by blast
qed

theorem reaper_frees_batch_witness:
  "\<exists>db'. reap_expired_reservations demo_acq demo_coll (\<lambda>_. False) 900000010 demo_held = (Inr 1, db')"
proof -
  have "length (reap_batch demo_coll (\<lambda>_. False) 900000010 demo_held) = 1" by code_simp
  with reaper_frees_batch [OF demo_held_wf, of demo_acq demo_coll "\<lambda>_. False" 900000010]
  show ?thesis by (auto simp: demo_acq_def Let_def)
qed

text \<open>
  Every expired hold is eventually released: when no row is locked and at most one hundred holds have
  expired, one reaper pass leaves no open reservation whose deadline has passed.
\<close>

theorem reaper_leaves_no_expired_hold:
  assumes "wf_stock db" and "acq 0 = Pool_ok"
    and "length (filter (\<lambda>r. res_status r = ''reserved'' \<and> res_expires_at r \<le> now) (reservations db)) \<le> 100"
  shows "\<forall>r \<in> set (reservations (snd (reap_expired_reservations acq coll (\<lambda>_. False) now db))).
     \<not> (res_status r = ''reserved'' \<and> res_expires_at r \<le> now)"
proof -
  let ?e = "filter (\<lambda>r. res_status r = ''reserved'' \<and> res_expires_at r \<le> now) (reservations db)"
  let ?b = "reap_batch coll (\<lambda>_. False) now db"
  have "?b = order_by (reap_le coll) ?e"
    using assms(3) by (simp add: reap_batch_def REAPER_BATCH_SIZE_def)
  then have b: "set ?b = set ?e" by simp
  obtain db' where r: "try_fold (reap_step now) (0, db) ?b = Inr (int (length ?b), db')"
    "reservations db' = map (\<lambda>x. if res_key x \<in> set (map res_key ?b) then released_row now x else x) (reservations db)"
    by (rule reap_ok [OF assms(1), of now coll "\<lambda>_. False"]) blast
  have "snd (reap_expired_reservations acq coll (\<lambda>_. False) now db) = db'"
    using r(1) assms(2) by (simp add: reap_expired_reservations_def transact_def acquire_def)
  then show ?thesis using r(2) b by auto
qed

theorem reaper_leaves_no_expired_hold_witness:
  "list_all (\<lambda>r. \<not> (res_status r = ''reserved'' \<and> res_expires_at r \<le> 900000010))
     (reservations (snd (reap_expired_reservations demo_acq demo_coll (\<lambda>_. False) 900000010 demo_held)))"
proof -
  have "length (filter (\<lambda>r. res_status r = ''reserved'' \<and> res_expires_at r \<le> 900000010) (reservations demo_held)) \<le> 100"
    by code_simp
  then show ?thesis unfolding list_all_iff
    by (intro reaper_leaves_no_expired_hold [OF demo_held_wf]) (simp_all add: demo_acq_def)
qed

subsection \<open>Replays and progress\<close>

lemma try_fold_unit: "(\<And>n. n \<in> set ns \<Longrightarrow> f () n = Inr ()) \<Longrightarrow> try_fold f () ns = Inr ()"
  by (induction ns) simp_all

text \<open>The extra lookups of the N+1 scenario succeed when the SKU has at most one stock row.\<close>

definition n1_fits :: "reserve_query \<Rightarrow> commerce_db \<Rightarrow> bool" where
  "n1_fits p db \<longleftrightarrow> rq_db_n1 p = 0 \<or> length (sku_stock db (rq_tenant_id p) (rq_sku p)) \<le> 1"

lemma reserve_runs_tx:
  assumes "\<forall>n. acq n = Pool_ok" "\<not> rq_fail p" "n1_fits p db"
  shows "reserve acq coll now p db = transact (reserve_tx coll now p) db"
proof -
  have "try_fold (\<lambda>_ n. db_n1_lookup acq p db n) () [a..<a + db_n1_rounds p] = Inr ()" for a
  proof (cases "rq_db_n1 p = 0")
    case False
    with assms(3) have "\<exists>r. query_opt (sku_stock db (rq_tenant_id p) (rq_sku p)) = Inr r"
      by (auto simp: n1_fits_def query_opt_def split: list.splits)
    then show ?thesis using assms(1) by (intro try_fold_unit) (auto simp: db_n1_lookup_def acquire_def)
  qed (simp add: db_n1_rounds_def)
  moreover have "try_fold (\<lambda>_ n. acquire acq n) () [0..<a] = Inr ()" for a
    using assms(1) by (intro try_fold_unit) (simp add: acquire_def)
  ultimately show ?thesis
    using assms(1,2) by (simp add: reserve_def transact_def Let_def acquire_def)
qed

text \<open>
  Consuming is idempotent: after a consume request committed, sending it again under a fence that is
  current then (the same lease or a renewed one) reports already_consumed with zero units and leaves the
  database as it is.
\<close>

theorem consume_replay:
  assumes "wf_stock db" and "consume acq now b db = (Inr out, db')"
    and "cb_checkout_request_id b = Some req"
    and "lock_current_checkout_fence db' now' (cb_tenant_id b) req tok' = Inr ()" and "acq' 0 = Pool_ok"
  shows "consume acq' now' (b\<lparr>cb_checkout_lease_token := Some tok'\<rparr>) db'
    = (Inr \<lparr>co_consumed = 0, co_status = ''already_consumed''\<rparr>, db')"
proof -
  have "consume_tx now b db = Inr (out, db')" using consume_commit [of acq now b db out] assms(2) by simp
  from consume_tx_again [OF assms(1) this assms(3,4)] show ?thesis
    using assms(5) by (simp add: consume_def acquire_def)
qed

theorem consume_replay_witness:
  "consume demo_acq 30 (demo_consume\<lparr>cb_checkout_lease_token := Some ''k''\<rparr>) demo_consumed
    = (Inr \<lparr>co_consumed = 0, co_status = ''already_consumed''\<rparr>, demo_consumed)"
proof -
  have "consume demo_acq 20 demo_consume demo_held = (Inr \<lparr>co_consumed = 2, co_status = ''consumed''\<rparr>, demo_consumed)"
    using demo_consume_run by (simp add: application_consume_ok)
  from consume_replay [OF demo_held_wf this, of "''q''" 30 "''k''" demo_acq] demo_fence(2)
  show ?thesis by (simp add: demo_consume_def demo_acq_def)
qed

text \<open>
  Releasing is idempotent: after a release committed, sending it again under a current fence reports
  already_released, zero units and the same location and counts, and leaves the database as it is.
\<close>

theorem release_replay:
  assumes "wf_stock db" and "release acq now b db = (Inr (Some o'), db')"
    and "rl_checkout_request_id b = Some req"
    and "lock_current_checkout_fence db' now' (rl_tenant_id b) req tok' = Inr ()" and "acq' 0 = Pool_ok"
  shows "release acq' now' (b\<lparr>rl_checkout_lease_token := Some tok'\<rparr>) db'
    = (Inr (Some (o'\<lparr>lo_released := 0, lo_status := ''already_released''\<rparr>)), db')"
proof -
  have "release_tx now b db = Inr (Some o', db')" using release_commit [of acq now b db "Some o'"] assms(2) by simp
  from release_tx_again [OF assms(1) this assms(3,4)] show ?thesis
    using assms(5) by (simp add: release_def acquire_def)
qed

theorem release_replay_witness:
  "release demo_acq 30 (demo_release\<lparr>rl_checkout_lease_token := Some ''k''\<rparr>) demo_released
    = (Inr (Some \<lparr>lo_location_id = ''l'', lo_released = 0, lo_reserved_remaining = 0, lo_available = 5,
                  lo_status = ''already_released''\<rparr>), demo_released)"
proof -
  have "release demo_acq 20 demo_release demo_held
     = (Inr (Some \<lparr>lo_location_id = ''l'', lo_released = 2, lo_reserved_remaining = 0, lo_available = 5,
                  lo_status = ''released''\<rparr>), demo_released)"
    using demo_release_run by (simp add: application_release_ok)
  from release_replay [OF demo_held_wf this, of "''q''" 30 "''k''" demo_acq] demo_fence(3)
  show ?thesis by (simp add: demo_release_def demo_acq_def)
qed

text \<open>
  Reserving is idempotent while the hold lasts: after a reservation was made, sending the request again
  under the current fence before the fifteen minutes are over (with no injected failure, and with the extra
  lookups of the N+1 scenario finding at most one stock row) reports already_reserved with the same
  location and remaining stock, and leaves the database as it is.
\<close>

theorem reserve_replay:
  assumes "wf_stock db" and "application_reserve acq coll now p db = (Inr (Some o'), db')"
    and "ro_status o' = ''reserved''"
    and "rq_checkout_request_id p = Some req" and "rq_checkout_lease_token p = Some tok"
    and "lock_current_checkout_fence db' now' (rq_tenant_id p) req tok = Inr ()"
    and "now' < now + seconds RESERVATION_HOLD" and "\<forall>n. acq' n = Pool_ok" and "\<not> rq_fail p"
    and "n1_fits p db'"
  shows "application_reserve acq' coll' now' p db' = (Inr (Some (o'\<lparr>ro_status := ''already_reserved''\<rparr>)), db')"
proof -
  have v: "validate_reserve p = Inr ()" and r: "reserve acq coll now p db = (Inr (Some o'), db')"
    using assms(2) by (simp_all add: application_reserve_ok)
  have q: "uint (rq_quantity p) \<le> i32_max" using v by (simp add: validate_reserve_ok i32_max_def)
  have tx: "reserve_tx coll now p db = Inr (Some o', db')"
    using reserve_commit [of acq coll now p db "Some o'"] r by simp
  have "reserve acq' coll' now' p db' = (Inr (Some (o'\<lparr>ro_status := ''already_reserved''\<rparr>)), db')"
    using reserve_tx_again [OF assms(1) tx q assms(3,6,4,5,7), of coll'] reserve_runs_tx [OF assms(8,9,10), of coll' now']
    by (simp add: transact_def)
  with v show ?thesis by (simp add: application_reserve_ok)
qed

theorem reserve_replay_witness:
  "application_reserve demo_acq demo_coll 30 demo_reserve demo_held
     = (Inr (Some \<lparr>ro_location_id = ''l'', ro_remaining = 3, ro_status = ''already_reserved''\<rparr>), demo_held)"
  using reserve_replay [OF demo_wf demo_reserve_run, of "''q''" "''k''" 30 demo_acq demo_coll] demo_fence(1)
  by (simp add: demo_reserve_def demo_acq_def seconds_def RESERVATION_HOLD_def n1_fits_def)

text \<open>
  A held reservation can always be given back: when the reservation is open, matches the request and
  belongs to the checkout request, and the fence is current, release succeeds (the ledger cannot be
  found inconsistent), returns exactly the held quantity and leaves the reservation released.
\<close>

theorem release_always_succeeds:
  assumes "wf_stock db" and "acq 0 = Pool_ok"
    and "r \<in> set (reservations db)" and "res_is (rl_tenant_id b) (rl_reservation_id b) r"
    and "res_status r = ''reserved''" and "res_owner_request_id r = Some req" and "\<not> release_mismatch b r"
    and "rl_checkout_request_id b = Some req" and "rl_checkout_lease_token b = Some tok"
    and "lock_current_checkout_fence db now (rl_tenant_id b) req tok = Inr ()"
  shows "\<exists>o' db'. release acq now b db = (Inr (Some o'), db') \<and> lo_status o' = ''released''
    \<and> lo_released o' = res_quantity r \<and> lo_location_id o' = res_location r
    \<and> (\<exists>x \<in> set (reservations db'). res_key x = res_key r \<and> res_status x = ''released'')"
proof -
  obtain row db' x where tx: "release_tx now b db
      = Inr (Some \<lparr>lo_location_id = res_location r, lo_released = res_quantity r,
           lo_reserved_remaining = reserved_quantity row, lo_available = available_quantity row,
           lo_status = ''released''\<rparr>, db')"
    "x \<in> set (reservations db')" "res_status x = ''released''" "same_reservation r x"
    using release_live [OF assms(1,3-10)] by metis
  have "release acq now b db = (Inr (Some \<lparr>lo_location_id = res_location r, lo_released = res_quantity r,
           lo_reserved_remaining = reserved_quantity row, lo_available = available_quantity row,
           lo_status = ''released''\<rparr>), db')"
    using tx(1) assms(2) by (simp add: release_def acquire_def)
  then show ?thesis using tx(2-4) by (auto simp: same_reservation_def)
qed

theorem release_always_succeeds_witness:
  "\<exists>o' db'. release demo_acq 30 demo_release demo_held = (Inr (Some o'), db') \<and> lo_released o' = 2"
proof -
  have "\<not> release_mismatch demo_release (hd (reservations demo_held))" by code_simp
  then show ?thesis
    using release_always_succeeds [OF demo_held_wf, of demo_acq "hd (reservations demo_held)" demo_release "''q''" "''k''" 30]
      demo_fence(1)
    by (simp add: demo_acq_def demo_held_def demo_release_def res_is_def) blast
qed

lemma hold_unhold:
  assumes "run_moves [Hold k q] l = Some l1" "run_moves [Unhold k q] l1 = Some l2"
  shows "l2 = l"
  using assms by (cases l) (auto simp: fun_upd_idem split: if_splits)

text \<open>
  C31. Reserving and releasing cancel out: releasing a reservation that was just made (under the same
  fence, by the same identity) succeeds and brings the abstract ledger back to exactly where it was.
\<close>

theorem reserve_then_release:
  assumes "wf_stock db" and "application_reserve acq coll now p db = (Inr (Some o'), db1)"
    and "ro_status o' = ''reserved''"
    and "rl_tenant_id b = rq_tenant_id p" "rl_reservation_id b = rq_reservation_id p" "rl_sku b = rq_sku p"
      "rl_quantity b = rq_quantity p" "rl_location_id b = None"
    and "rl_checkout_request_id b = rq_checkout_request_id p" "rl_checkout_lease_token b = rq_checkout_lease_token p"
    and "rq_checkout_request_id p = Some req" "rq_checkout_lease_token p = Some tok"
    and "lock_current_checkout_fence db1 now' (rq_tenant_id p) req tok = Inr ()" and "acq' 0 = Pool_ok"
  shows "\<exists>o2 db2. release acq' now' b db1 = (Inr (Some o2), db2) \<and> lo_released o2 = uint (rq_quantity p)
    \<and> abs_ledger db2 = abs_ledger db"
proof -
  have v: "validate_reserve p = Inr ()" and r: "reserve acq coll now p db = (Inr (Some o'), db1)"
    using assms(2) by (simp_all add: application_reserve_ok)
  have q: "uint (rq_quantity p) \<le> i32_max" using v by (simp add: validate_reserve_ok i32_max_def)
  have tx: "reserve_tx coll now p db = Inr (Some o', db1)"
    using reserve_commit [of acq coll now p db "Some o'"] r by simp
  have wf1: "wf_stock db1" using reserve_tx_ledger [OF assms(1) tx] by (rule ledger_step_wf)
  obtain x i where x: "reserved_for p (now + seconds RESERVATION_HOLD) o' db1 x i"
    and up: "run_moves [Hold (res_stock x) (uint (rq_quantity p))] (abs_ledger db) = Some (abs_ledger db1)"
    using reserve_tx_row [OF assms(1) tx q assms(3)] by blast
  have mm: "\<not> release_mismatch b x"
    using x assms(6-8) q by (simp add: release_mismatch_def reserved_for_def i32_try_from_small)
  have x': "x \<in> set (reservations db1)" "res_is (rl_tenant_id b) (rl_reservation_id b) x"
    "res_status x = ''reserved''" "res_owner_request_id x = Some req" "res_quantity x = uint (rq_quantity p)"
    using x assms(4,5,11) by (simp_all add: reserved_for_def)
  have f: "rl_checkout_request_id b = Some req" "rl_checkout_lease_token b = Some tok"
    "lock_current_checkout_fence db1 now' (rl_tenant_id b) req tok = Inr ()"
    using assms(4,9-13) by simp_all
  obtain row db2 where rel: "release_tx now' b db1
      = Inr (Some \<lparr>lo_location_id = res_location x, lo_released = res_quantity x,
           lo_reserved_remaining = reserved_quantity row, lo_available = available_quantity row,
           lo_status = ''released''\<rparr>, db2)"
    and down: "run_moves [Unhold (res_stock x) (res_quantity x)] (abs_ledger db1) = Some (abs_ledger db2)"
    by (rule release_live [OF wf1 x'(1-4) mm f]) blast
  have "abs_ledger db2 = abs_ledger db" using hold_unhold [OF up down [unfolded x'(5)]] .
  moreover have "fst (release acq' now' b db1) = Inr (Some \<lparr>lo_location_id = res_location x, lo_released = res_quantity x,
           lo_reserved_remaining = reserved_quantity row, lo_available = available_quantity row,
           lo_status = ''released''\<rparr>) \<and> snd (release acq' now' b db1) = db2"
    using rel assms(14) by (simp add: release_def acquire_def)
  ultimately show ?thesis using x'(5) by (metis prod.collapse release_outcome.select_convs(2))
qed

theorem reserve_then_release_witness:
  "\<exists>o2 db2. release demo_acq 20 demo_release demo_held = (Inr (Some o2), db2) \<and> abs_ledger db2 = abs_ledger demo_db"
proof -
  have "lock_current_checkout_fence demo_held 20 ''t'' ''q'' ''k'' = Inr ()" by code_simp
  with reserve_then_release [OF demo_wf demo_reserve_run, of demo_release "''q''" "''k''" 20 demo_acq]
  show ?thesis by (auto simp: demo_reserve_def demo_release_def demo_acq_def)
qed

subsection \<open>Fences, errors and tenants\<close>

lemma stale_fence_error:
  assumes "\<not> list_ex (\<lambda>a. at_tenant a = t \<and> at_request a = req \<and> at_lease_token a = tok
      \<and> current_fence db now a) (attempts db)"
  shows "lock_current_checkout_fence db now t req tok
    = Inl (Reservation_conflict ''checkout_lease_lost'' ''authoritative checkout fence is no longer current'')"
proof -
  have "filter (\<lambda>a. at_tenant a = t \<and> at_request a = req \<and> at_lease_token a = tok \<and> current_fence db now a)
      (attempts db) = []"
    using assms by (auto simp: filter_empty_conv list_ex_iff)
  then show ?thesis by (simp add: lock_current_checkout_fence_def)
qed

text \<open>
  C26. A checkout that lost its lease cannot touch stock: when no attempt row of the tenant carries the
  request id and lease token in a current state, reserve, release and consume all answer with the
  conflict checkout_lease_lost and leave the database as it is.
\<close>

theorem stale_fence_rejected:
  assumes "\<not> list_ex (\<lambda>a. at_tenant a = t \<and> at_request a = req \<and> at_lease_token a = tok
      \<and> current_fence db now a) (attempts db)" and "\<forall>n. acq n = Pool_ok"
    and "rq_tenant_id p = t" "rq_checkout_request_id p = Some req" "rq_checkout_lease_token p = Some tok" "\<not> rq_fail p"
      "n1_fits p db"
    and "rl_tenant_id b = t" "rl_checkout_request_id b = Some req" "rl_checkout_lease_token b = Some tok"
    and "cb_tenant_id c = t" "cb_checkout_request_id c = Some req" "cb_checkout_lease_token c = Some tok"
  shows "reserve acq coll now p db
      = (Inl (Reservation_conflict ''checkout_lease_lost'' ''authoritative checkout fence is no longer current''), db)
    \<and> release acq now b db
      = (Inl (Reservation_conflict ''checkout_lease_lost'' ''authoritative checkout fence is no longer current''), db)
    \<and> consume acq now c db
      = (Inl (Reservation_conflict ''checkout_lease_lost'' ''authoritative checkout fence is no longer current''), db)"
  unfolding reserve_runs_tx [OF assms(2,6,7)]
  using assms(2-) stale_fence_error [OF assms(1)]
  by (simp add: transact_def release_def consume_def acquire_def reserve_tx_def release_tx_def consume_tx_def)

theorem stale_fence_rejected_witness:
  "release demo_acq 1000000000000 demo_release demo_held
     = (Inl (Reservation_conflict ''checkout_lease_lost'' ''authoritative checkout fence is no longer current''), demo_held)"
proof -
  have "\<not> list_ex (\<lambda>a. at_tenant a = ''t'' \<and> at_request a = ''q'' \<and> at_lease_token a = ''k''
      \<and> current_fence demo_held 1000000000000 a) (attempts demo_held)" by code_simp
  then show ?thesis
    using stale_fence_rejected [of "''t''" "''q''" "''k''" demo_held 1000000000000 demo_acq demo_reserve demo_release demo_consume]
    by (simp add: demo_acq_def demo_reserve_def demo_release_def demo_consume_def n1_fits_def)
qed

text \<open>
  The N+1 scenario only works for a SKU with at most one stock row: for a SKU stocked at two locations
  or more every reservation that asks for extra lookups fails with the driver's too-many-rows error, before
  the reservation transaction starts.
\<close>

theorem n1_scenario_fails:
  assumes "\<forall>n. acq n = Pool_ok" and "rq_db_n1 p > 0"
    and "length (sku_stock db (rq_tenant_id p) (rq_sku p)) \<ge> 2"
  shows "reserve acq coll now p db = (Inl (Postgres Too_many_rows), db)"
proof -
  have "query_opt (sku_stock db (rq_tenant_id p) (rq_sku p)) = Inl Too_many_rows"
    using assms(3) by (auto simp: query_opt_def split: list.splits)
  then have fails: "db_n1_lookup acq p db n = Inl (Postgres Too_many_rows)" for n
    using assms(1) by (simp add: db_n1_lookup_def acquire_def map_err_def)
  have "db_n1_rounds p > 0"
    using assms(2) by (auto simp: db_n1_rounds_def MAX_DB_N1_def min_def unat_gt_0)
  then have "[a..<a + db_n1_rounds p] = a # [Suc a..<a + db_n1_rounds p]" for a
    by (simp add: upt_conv_Cons)
  moreover have "try_fold (\<lambda>_ n. acquire acq n) () [0..<a] = Inr ()" for a
    using assms(1) by (intro try_fold_unit) (simp add: acquire_def)
  ultimately show ?thesis by (simp add: reserve_def transact_def Let_def fails)
qed

theorem n1_scenario_fails_witness:
  "reserve demo_acq demo_coll 10 (demo_reserve\<lparr>rq_db_n1 := 1\<rparr>)
     (demo_db\<lparr>inventory := inventory demo_db @ [(hd (inventory demo_db))\<lparr>inv_id := ''j'', inv_location := ''m''\<rparr>]\<rparr>)
   = (Inl (Postgres Too_many_rows),
      demo_db\<lparr>inventory := inventory demo_db @ [(hd (inventory demo_db))\<lparr>inv_id := ''j'', inv_location := ''m''\<rparr>]\<rparr>)"
  by (rule n1_scenario_fails) (simp_all add: demo_acq_def demo_reserve_def sku_stock_def demo_db_def)

lemma reserve_existing_Some: "reserve_existing now p req tok r i db \<noteq> Inr (None, db')"
  by (auto simp: reserve_existing_def reserve_reuse_def reserve_renew_def Let_def split: if_splits)

lemma reserve_None_keeps:
  assumes "wf_stock db" "reserve acq coll now p db = (Inr None, db')"
  shows "db' = db"
proof -
  have "reserve_tx coll now p db = Inr (None, db')" using reserve_commit [of acq coll now p db None] assms(2) by simp
  then show ?thesis using assms(1) reserve_existing_Some
    by (auto simp: reserve_tx_def query_opt_None dest: reserve_fresh_None split: option.splits)
qed

lemma release_None_keeps:
  assumes "release acq now b db = (Inr None, db')"
  shows "db' = db"
proof -
  have "release_tx now b db = Inr (None, db')" using release_commit [of acq now b db None] assms by simp
  then show ?thesis
    by (auto simp: release_tx_def release_found_def release_held_def split: option.splits if_splits)
qed

lemma reserve_response_200: "fst (reserve_response pg p result) \<noteq> 200 \<Longrightarrow> \<nexists>o'. result = Inr (Some o')"
  by (auto simp: reserve_response_def)

lemma release_response_200: "fst (release_response b result) \<noteq> 200 \<Longrightarrow> \<nexists>o'. result = Inr (Some o')"
  by (auto simp: release_response_def)

lemma consume_response_200: "fst (consume_response b result) \<noteq> 200 \<Longrightarrow> \<nexists>o'. result = Inr o'"
  by (auto simp: consume_response_def)

lemma application_reserve_keeps:
  assumes "wf_stock db" "application_reserve acq coll now p db = (result, db')" "\<nexists>o'. result = Inr (Some o')"
  shows "db' = db"
proof (cases result)
  case (Inl e)
  then show ?thesis using assms(2) reserve_op.rollback [of acq coll now p db]
    by (auto simp: application_reserve_def map_err_def split: sum.splits prod.splits)
next
  case (Inr out)
  with assms show ?thesis
    using reserve_None_keeps [OF assms(1)] by (cases out) (auto simp: application_reserve_ok)
qed

lemma application_release_keeps:
  assumes "application_release acq now b db = (result, db')" "\<nexists>o'. result = Inr (Some o')"
  shows "db' = db"
proof (cases result)
  case (Inl e)
  then show ?thesis using assms(1) release_op.rollback [of acq now b db]
    by (auto simp: application_release_def map_err_def split: sum.splits prod.splits)
next
  case (Inr out)
  with assms show ?thesis using release_None_keeps by (cases out) (auto simp: application_release_ok)
qed

lemma application_consume_keeps:
  assumes "application_consume acq now b db = (result, db')" "\<nexists>o'. result = Inr o'"
  shows "db' = db"
  using assms consume_op.rollback [of acq now b db]
  by (auto simp: application_consume_def map_err_def split: sum.splits prod.splits)

text \<open>
  An HTTP answer other than 200 means nothing happened: whatever the headers and the request, when
  the reserve, release or consume endpoint answers with another status (unresolved tenant, invalid
  request, conflict, out of stock, not found, fault, database error), the database is unchanged.
\<close>

theorem error_response_means_no_effect:
  assumes "wf_stock db"
  shows "(fst (fst (reserve_post to_str pg acq coll now headers rb db)) \<noteq> 200
      \<longrightarrow> snd (reserve_post to_str pg acq coll now headers rb db) = db)
    \<and> (fst (fst (release_post to_str acq now headers lb db)) \<noteq> 200
      \<longrightarrow> snd (release_post to_str acq now headers lb db) = db)
    \<and> (fst (fst (consume_post to_str acq now headers cb db)) \<noteq> 200
      \<longrightarrow> snd (consume_post to_str acq now headers cb db) = db)"
  using assms
  by (auto simp: reserve_post_def reserve_get_def release_post_def consume_post_def Let_def
      split: sum.splits prod.splits
      dest: reserve_response_200 release_response_200 consume_response_200
        application_reserve_keeps application_release_keeps application_consume_keeps)

theorem error_response_means_no_effect_witness:
  "snd (release_post (\<lambda>v. Some v) demo_acq 20 (\<lambda>_. []) (demo_release\<lparr>rl_sku := ''other''\<rparr>) demo_held) = demo_held"
proof -
  have "fst (fst (release_post (\<lambda>v. Some v) demo_acq 20 (\<lambda>_. []) (demo_release\<lparr>rl_sku := ''other''\<rparr>) demo_held)) \<noteq> 200"
    by code_simp
  with error_response_means_no_effect [OF demo_held_wf] show ?thesis by blast
qed

text \<open>
  C32. Tenants are isolated: a reserve, release or consume request acts on the tenant its boundary resolved
  and leaves every stock row and every reservation of every other tenant as it is.
\<close>

theorem tenant_isolation:
  assumes "wf_stock db" and "t' \<noteq> t"
    and "resolve_http_tenant_identity to_str headers (body_tenant (rb_tenant_id rb)) = Inr t"
    and "resolve_http_tenant_identity to_str headers (body_tenant (rl_tenant_id lb)) = Inr t"
    and "resolve_http_tenant_identity to_str headers (body_tenant (cb_tenant_id cb)) = Inr t"
  shows "tenant_view t' (snd (reserve_post to_str pg acq coll now headers rb db)) = tenant_view t' db
    \<and> tenant_view t' (snd (release_post to_str acq now headers lb db)) = tenant_view t' db
    \<and> tenant_view t' (snd (consume_post to_str acq now headers cb db)) = tenant_view t' db"
proof -
  have r: "tenant_view t' (snd (application_reserve acq coll now p db)) = tenant_view t' db"
    if "rq_tenant_id p = t" for p
    using reserve_op.isolation [OF assms(1), of t' p] that assms(2) by (simp add: application_reserve_snd)
  have l: "tenant_view t' (snd (application_release acq now (lb\<lparr>rl_tenant_id := t\<rparr>) db)) = tenant_view t' db"
    using release_op.isolation [OF assms(1), of t' "lb\<lparr>rl_tenant_id := t\<rparr>"] assms(2)
    by (simp add: application_release_snd)
  have c: "tenant_view t' (snd (application_consume acq now (cb\<lparr>cb_tenant_id := t\<rparr>) db)) = tenant_view t' db"
    using consume_op.isolation [OF assms(1), of t' "cb\<lparr>cb_tenant_id := t\<rparr>"] assms(2)
    by (simp add: application_consume_snd)
  show ?thesis using r l c assms(3-5)
    by (simp add: reserve_post_def reserve_get_def release_post_def consume_post_def Let_def case_prod_beta)
qed

lemma demo_tenant:
  "resolve_http_tenant_identity (\<lambda>v. Some v) (\<lambda>_. []) (body_tenant ''t'') = Inr ''t''"
  by code_simp

theorem tenant_isolation_witness:
  "tenant_view ''u'' (snd (release_post (\<lambda>v. Some v) demo_acq 20 (\<lambda>_. []) demo_release demo_held))
     = tenant_view ''u'' demo_held"
proof -
  let ?rb = "\<lparr>rb_tenant_id = ''t'', rb_reservation_id = ''r'', rb_sku = ''s'', rb_quantity = 2,
     rb_checkout_request_id = Some ''q'', rb_checkout_lease_token = Some ''k''\<rparr>"
  show ?thesis
    using tenant_isolation [OF demo_held_wf, of "''u''" "''t''" "\<lambda>v. Some v" "\<lambda>_. []" ?rb demo_release demo_consume]
      demo_tenant by (simp add: demo_release_def demo_consume_def)
qed

text \<open>
  The request validator of consume accepts exactly the well-formed requests: a valid tenant and fence,
  one to fifty reservations with distinct ids, each with valid identifiers and a quantity between one and
  one million.
\<close>

theorem validate_consume_iff:
  "validate_consume b = Inr () \<longleftrightarrow>
     valid_identifier (cb_tenant_id b)
     \<and> 1 \<le> length (cb_reservations b) \<and> length (cb_reservations b) \<le> 50
     \<and> valid_fence (cb_checkout_request_id b) (cb_checkout_lease_token b)
     \<and> list_all valid_consume_item (cb_reservations b)
     \<and> distinct (map cr_reservation_id (cb_reservations b))"
  by (cases "cb_reservations b") (auto simp: validate_consume_accepts)

end
