(* ===== verification/PropagationInject.thy ===== *)
theory PropagationInject
  imports PropagationFacts
begin

text \<open>
  Where contexts enter and leave a process (\<open>libs/playground-telemetry/src/propagation.rs\<close>): the context of the
  current task, extraction from and injection into HTTP headers, gRPC metadata and the environment of a child process.

  The global text-map propagator is a parameter: \<open>propagate\<close> gives the fields it sets for a context, in order, and
  \<open>extract\<close> the context it reads from a carrier. \<open>set_header\<close> is \<open>HeaderInjector::set\<close> of \<open>opentelemetry_http\<close>;
  \<open>meta_ok\<close> says which keys and values tonic's metadata types accept.
\<close>

type_synonym ('c, 'b) propagator = "('c, 'b) otel_context \<Rightarrow> (string \<times> string) list"

definition sanitize_context :: "('b, 'm) baggage_api \<Rightarrow> ('c, 'b) otel_context \<Rightarrow> ('c, 'b) otel_context" where
  "sanitize_context api ctx = with_safe_baggage api ctx"

text \<open>\<open>span\<close> is the context of the current tracing span, \<open>task\<close> the one attached to the task.\<close>

definition current_context ::
  "('b, 'm) baggage_api \<Rightarrow> ('c, 'b) otel_context \<Rightarrow> ('d, 'b) otel_context \<Rightarrow> ('c, 'b) otel_context" where
  "current_context api span task = (fst span, clone_baggage api task)"

definition with_business_baggage ::
  "('b, 'm) baggage_api \<Rightarrow> ('c, 'b) otel_context \<Rightarrow> string \<Rightarrow> string \<Rightarrow> ('c, 'b) otel_context" where
  "with_business_baggage api ctx tenant tier =
     with_business_context api ctx tenant tier ''standard'' ''us-east-1'' ''normal''"

subsection \<open>HTTP\<close>

definition extract_http_context ::
  "('b, 'm) baggage_api \<Rightarrow> (header_map \<Rightarrow> ('c, 'b) otel_context) \<Rightarrow> header_map \<Rightarrow> ('c, 'b) otel_context" where
  "extract_http_context api extract headers = sanitize_context api (extract headers)"

definition extract_durable_context ::
  "('b, 'm) baggage_api \<Rightarrow> to_str \<Rightarrow> (header_map \<Rightarrow> ('c, 'b) otel_context) \<Rightarrow> header_map
     \<Rightarrow> string + ('c, 'b) otel_context" where
  "extract_durable_context api to_str extract headers =
     and_then (validate_durable_context to_str headers) (\<lambda>_. Inr (extract_http_context api extract headers))"

definition inject_context_headers ::
  "('b, 'm) baggage_api \<Rightarrow> (string \<Rightarrow> string \<Rightarrow> header_map \<Rightarrow> header_map) \<Rightarrow> ('c, 'b) propagator
     \<Rightarrow> ('c, 'b) otel_context \<Rightarrow> header_map \<Rightarrow> header_map" where
  "inject_context_headers api set_header propagate ctx headers =
     add_default_tracestate_header
       (fold (\<lambda>(k, v). set_header k v) (propagate (with_safe_baggage api ctx)) headers)"

definition inject_durable_context_headers ::
  "('b, 'm) baggage_api \<Rightarrow> to_str \<Rightarrow> (string \<Rightarrow> string \<Rightarrow> header_map \<Rightarrow> header_map) \<Rightarrow> ('c, 'b) propagator
     \<Rightarrow> ('c, 'b) otel_context \<Rightarrow> string + header_map" where
  "inject_durable_context_headers api to_str set_header propagate ctx =
     (let headers = inject_context_headers api set_header propagate ctx (\<lambda>_. []) in
      and_then (validate_durable_context to_str headers) (\<lambda>_. Inr headers))"

definition inject_headers ::
  "('b, 'm) baggage_api \<Rightarrow> (string \<Rightarrow> string \<Rightarrow> header_map \<Rightarrow> header_map) \<Rightarrow> ('c, 'b) propagator
     \<Rightarrow> ('c, 'b) otel_context \<Rightarrow> ('d, 'b) otel_context \<Rightarrow> header_map \<Rightarrow> header_map" where
  "inject_headers api set_header propagate span task headers =
     inject_context_headers api set_header propagate (current_context api span task) headers"

subsection \<open>The environment of a child process\<close>

text \<open>\<open>EnvInjector::into_env\<close>: the keys of a \<open>BTreeMap\<close> come in order.\<close>

definition into_env :: "(string \<rightharpoonup> string) \<Rightarrow> (string \<times> string) list" where
  "into_env m =
     List.map_filter (\<lambda>k. map_option (Pair k) (m k)) [''BAGGAGE'', ''TRACEPARENT'', ''TRACESTATE'']"

definition extract_env_context ::
  "('b, 'm) baggage_api \<Rightarrow> ((string \<rightharpoonup> string) \<Rightarrow> ('c, 'b) otel_context) \<Rightarrow> (string \<rightharpoonup> string) \<Rightarrow> ('c, 'b) otel_context" where
  "extract_env_context api extract carrier = with_safe_baggage api (extract carrier)"

definition extract_context_from_env ::
  "('b, 'm) baggage_api \<Rightarrow> ((string \<rightharpoonup> string) \<Rightarrow> ('c, 'b) otel_context) \<Rightarrow> (string \<rightharpoonup> string) \<Rightarrow> ('c, 'b) otel_context" where
  "extract_context_from_env api extract env = extract_env_context api extract (env_extractor_from_env env)"

definition context_env ::
  "('b, 'm) baggage_api \<Rightarrow> ('c, 'b) propagator \<Rightarrow> ('c, 'b) otel_context \<Rightarrow> (string \<times> string) list" where
  "context_env api propagate ctx =
     context_env_finish
       (into_env (fold (\<lambda>(k, v). env_injector_set k v) (propagate (with_safe_baggage api ctx)) Map.empty))"

definition current_context_env ::
  "('b, 'm) baggage_api \<Rightarrow> ('c, 'b) propagator \<Rightarrow> ('c, 'b) otel_context \<Rightarrow> ('d, 'b) otel_context \<Rightarrow> (string \<times> string) list" where
  "current_context_env api propagate span task = context_env api propagate (current_context api span task)"

subsection \<open>gRPC metadata\<close>

definition metadata_injector_set ::
  "(string \<Rightarrow> bool) \<times> (string \<Rightarrow> bool) \<Rightarrow> string \<Rightarrow> string \<Rightarrow> header_map \<Rightarrow> header_map" where
  "metadata_injector_set meta_ok key value metadata =
     (if fst meta_ok key \<and> snd meta_ok value then metadata(key := [value]) else metadata)"

definition extract_grpc_context ::
  "('b, 'm) baggage_api \<Rightarrow> (header_map \<Rightarrow> ('c, 'b) otel_context) \<Rightarrow> header_map \<Rightarrow> ('c, 'b) otel_context" where
  "extract_grpc_context api extract metadata = with_safe_baggage api (extract metadata)"

definition inject_grpc_metadata_with_context ::
  "('b, 'm) baggage_api \<Rightarrow> (string \<Rightarrow> bool) \<times> (string \<Rightarrow> bool) \<Rightarrow> ('c, 'b) propagator
     \<Rightarrow> ('c, 'b) otel_context \<Rightarrow> header_map \<Rightarrow> header_map" where
  "inject_grpc_metadata_with_context api meta_ok propagate ctx metadata =
     (let metadata = fold (\<lambda>(k, v). metadata_injector_set meta_ok k v) (propagate (with_safe_baggage api ctx)) metadata in
      if (case header_get metadata ''traceparent'' of None \<Rightarrow> False | Some v \<Rightarrow> v \<noteq> [])
         \<and> (case header_get metadata ''tracestate'' of None \<Rightarrow> True | Some v \<Rightarrow> v = [])
      then metadata(''tracestate'' := [''playground=commerce'']) else metadata)"

definition inject_grpc_metadata ::
  "('b, 'm) baggage_api \<Rightarrow> (string \<Rightarrow> bool) \<times> (string \<Rightarrow> bool) \<Rightarrow> ('c, 'b) propagator
     \<Rightarrow> ('c, 'b) otel_context \<Rightarrow> ('d, 'b) otel_context \<Rightarrow> header_map \<Rightarrow> header_map" where
  "inject_grpc_metadata api meta_ok propagate span task metadata =
     inject_grpc_metadata_with_context api meta_ok propagate (current_context api span task) metadata"

subsection \<open>What leaves is what the filter lets through\<close>

text \<open>The allow-listed part of the entries of a context.\<close>

definition safe_part :: "('b, 'm) baggage_api \<Rightarrow> ('c, 'b) otel_context \<Rightarrow> (string \<times> string \<times> 'm) list" where
  "safe_part api ctx = filter (\<lambda>(k, v, m). is_safe_baggage_entry k v) (bg_iter api (snd ctx))"

lemma with_safe_baggage_cong:
  "fst c = fst d \<Longrightarrow> safe_part api c = safe_part api d \<Longrightarrow> with_safe_baggage api c = with_safe_baggage api d"
  by (simp add: with_safe_baggage_def clone_baggage_def safe_part_def)

lemma clone_baggage_part:
  "baggage_laws api \<Longrightarrow> set (bg_iter api (clone_baggage api ctx)) \<subseteq> set (safe_part api ctx)"
  unfolding baggage_laws_def clone_baggage_def safe_part_def by blast

lemma with_business_context_safe:
  "baggage_laws api \<Longrightarrow> safe_entries (bg_iter api (snd (with_business_context api ctx t a b c d)))"
  unfolding with_business_context_def by (rule extend_baggage_safe)

end
