(* ===== verification/PropagationTenant.thy ===== *)
theory PropagationTenant
  imports PropagationFacts
begin

text \<open>
  The tenant a request claims, stated over the request itself, and the equivalence with the candidates that
  \<open>resolve_tenant_candidates\<close> collects.
\<close>

text \<open>
  What a request says about its tenant, read off the request itself: the field of the body or query, each value of the
  two tenant headers, and, in each baggage header, each comma-separated member whose key is \<open>tenant.id\<close>, up to the
  first semicolon of its value and percent-decoded. \<open>None\<close> stands for a header or a value that cannot be read.
\<close>

inductive_set tenant_claims :: "to_str \<Rightarrow> header_map \<Rightarrow> string option \<Rightarrow> string option set"
  for to_str :: to_str and headers :: header_map and req :: "string option" where
  request: "req = Some v \<Longrightarrow> Some v \<in> tenant_claims to_str headers req"
| header: "name \<in> {''x-tenant-id'', ''tenant-id''} \<Longrightarrow> raw \<in> set (headers name) \<Longrightarrow> to_str raw \<in> tenant_claims to_str headers req"
| unreadable: "raw \<in> set (headers ''baggage'') \<Longrightarrow> to_str raw = None \<Longrightarrow> None \<in> tenant_claims to_str headers req"
| member: "raw \<in> set (headers ''baggage'') \<Longrightarrow> to_str raw = Some content
    \<Longrightarrow> key @ ''='' @ rest \<in> set (split_on (CHR '','') content) \<Longrightarrow> CHR ''='' \<notin> set key \<Longrightarrow> trim key = ''tenant.id''
    \<Longrightarrow> (case decode_baggage_value (trim (takeWhile (\<lambda>c. c \<noteq> CHR '';'') rest)) of Inl _ \<Rightarrow> None | Inr v \<Rightarrow> Some v)
          \<in> tenant_claims to_str headers req"

text \<open>A claim for tenant \<open>t\<close>: the content is \<open>t\<close> between white space, and \<open>t\<close> is a tenant name.\<close>

definition claims_for :: "string \<Rightarrow> string option \<Rightarrow> bool" where
  "claims_for t c \<longleftrightarrow> (\<exists>v. c = Some v \<and> trim v = t) \<and> t \<noteq> [] \<and> length t \<le> 128 \<and> \<not> has_control t"

lemma normalize_claims_for: "normalize_tenant_candidate v = Inr t \<longleftrightarrow> claims_for t (Some v)"
  by (auto simp: normalize_ok claims_for_def MAX_BUSINESS_BAGGAGE_VALUE_LENGTH_def)

definition claim_result :: "string option \<Rightarrow> tenant_identity_error + string" where
  "claim_result c = (case c of None \<Rightarrow> Inl Invalid | Some v \<Rightarrow> normalize_tenant_candidate v)"

lemma claim_result_Inr: "claim_result c = Inr t \<longleftrightarrow> claims_for t c"
  by (cases c) (simp_all add: claim_result_def normalize_claims_for, simp add: claims_for_def)

lemma hd_split_on: "hd (split_on c s) = takeWhile (\<lambda>x. x \<noteq> c) s"
  by (induction s) (auto split: list.splits)

lemma decode_Inl: "decode_baggage_value v = Inl e \<Longrightarrow> e = Invalid"
proof -
  have "decode_loop v = Inl e \<Longrightarrow> e = Invalid"
  proof (induction v rule: decode_loop.induct)
    case (2 c s)
    consider "c \<noteq> CHR ''%''" | "c = CHR ''%''" "length s < 2" | h l t where "c = CHR ''%''" "s = h # l # t"
      by (cases s rule: remdups_adj.cases) auto
    then show ?case
    proof cases
      case 1
      with 2 show ?thesis by (cases "decode_loop s") simp_all
    next
      case short: 2
      then show ?thesis using \<open>decode_loop (c # s) = Inl e\<close> by (cases s rule: remdups_adj.cases) simp_all
    next
      case 3
      then have "\<not> c \<noteq> CHR ''%''" by simp
      from \<open>decode_loop (c # s) = Inl e\<close> 2(2) [OF this 3(2) refl] 3 show ?thesis
        by (cases "hex_digit h"; cases "hex_digit l"; cases "decode_loop t") simp_all
    qed
  qed simp
  then show "decode_baggage_value v = Inl e \<Longrightarrow> e = Invalid"
    by (cases "decode_loop v") (auto simp: decode_baggage_value_def split: if_splits)
qed

lemma baggage_tenant_claim:
  "baggage_tenant m = Some r \<longleftrightarrow>
     (\<exists>key rest. m = key @ ''='' @ rest \<and> CHR ''='' \<notin> set key \<and> trim key = ''tenant.id''
        \<and> r = claim_result (case decode_baggage_value (trim (takeWhile (\<lambda>c. c \<noteq> CHR '';'') rest)) of Inl _ \<Rightarrow> None | Inr v \<Rightarrow> Some v))"
  (is "?L = ?R")
proof
  assume ?L
  then obtain key rest where s: "split_once (CHR ''='') m = Some (key, rest)" "trim key = ''tenant.id''"
    and r: "r = and_then (decode_baggage_value (trim (hd (split_on (CHR '';'') rest)))) normalize_tenant_candidate"
    by (auto simp: baggage_tenant_def TENANT_ID_def split: option.splits if_splits)
  from s(1) have m: "m = key @ ''='' @ rest" "CHR ''='' \<notin> set key" by (simp_all add: split_once_Some)
  have "r = claim_result (case decode_baggage_value (trim (takeWhile (\<lambda>c. c \<noteq> CHR '';'') rest)) of Inl _ \<Rightarrow> None | Inr v \<Rightarrow> Some v)"
    unfolding r hd_split_on
    by (cases "decode_baggage_value (trim (takeWhile (\<lambda>c. c \<noteq> CHR '';'') rest))") (auto simp: claim_result_def dest: decode_Inl)
  with s(2) m show ?R by blast
next
  assume ?R
  then obtain key rest where m: "m = key @ ''='' @ rest" "CHR ''='' \<notin> set key" "trim key = ''tenant.id''"
    and r: "r = claim_result (case decode_baggage_value (trim (takeWhile (\<lambda>c. c \<noteq> CHR '';'') rest)) of Inl _ \<Rightarrow> None | Inr v \<Rightarrow> Some v)"
    by blast
  have "split_once (CHR ''='') m = Some (key, rest)" using m(1,2) by (simp add: split_once_Some)
  then show ?L unfolding r using m(3)
    by (cases "decode_baggage_value (trim (takeWhile (\<lambda>c. c \<noteq> CHR '';'') rest))")
      (auto simp: baggage_tenant_def TENANT_ID_def claim_result_def hd_split_on dest: decode_Inl)
qed

lemma set_map_filter_iff: "y \<in> set (List.map_filter f xs) \<longleftrightarrow> (\<exists>x \<in> set xs. f x = Some y)"
  by (induction xs) (auto simp: map_filter_simps split: option.splits)

lemma image_set_append:
  assumes "y \<in> f ` set (xs @ ys)"
  obtains x where "x \<in> set xs \<or> x \<in> set ys" "f x = y"
  using assms by auto

lemma set_map_image_Some: "map to_str vs = map Some ss \<Longrightarrow> to_str ` set vs = Some ` set ss"
  by (metis list.set_map)

lemma sources_are_claims:
  assumes "map to_str (headers ''x-tenant-id'' @ headers ''tenant-id'') = map Some explicit"
    and "map to_str (headers ''baggage'') = map Some baggage"
  shows "set (tenant_sources req explicit baggage) = claim_result ` tenant_claims to_str headers req"
proof (intro equalityI subsetI)
  note ex = set_map_image_Some [OF assms(1)] and bg = set_map_image_Some [OF assms(2)]
  have exI: "\<exists>name raw. name \<in> {''x-tenant-id'', ''tenant-id''} \<and> raw \<in> set (headers name) \<and> to_str raw = Some v"
    if "v \<in> set explicit" for v
  proof -
    have "Some v \<in> to_str ` set (headers ''x-tenant-id'' @ headers ''tenant-id'')" using that ex by blast
    then obtain raw where "raw \<in> set (headers ''x-tenant-id'') \<or> raw \<in> set (headers ''tenant-id'')" "to_str raw = Some v"
      by (rule image_set_append) blast
    then show ?thesis by blast
  qed
  fix r
  show "r \<in> claim_result ` tenant_claims to_str headers req" if src: "r \<in> set (tenant_sources req explicit baggage)"
  proof -
    from src consider (request) v where "req = Some v" "r = normalize_tenant_candidate v"
      | (explicit) v where "v \<in> set explicit" "r = normalize_tenant_candidate v"
      | (baggage) content m where "content \<in> set baggage" "m \<in> set (split_on (CHR '','') content)" "baggage_tenant m = Some r"
      by (auto simp: tenant_sources_def set_map_filter_iff split: option.splits)
    then show ?thesis
    proof cases
      case (request v)
      then have "Some v \<in> tenant_claims to_str headers req" by (intro tenant_claims.request)
      with request show ?thesis by (intro image_eqI [of _ _ "Some v"]) (simp_all add: claim_result_def)
    next
      case (explicit v)
      then have "Some v \<in> tenant_claims to_str headers req" using exI by (metis tenant_claims.header)
      with explicit show ?thesis by (intro image_eqI [of _ _ "Some v"]) (simp_all add: claim_result_def)
    next
      case member: (baggage content m)
      then have "Some content \<in> to_str ` set (headers ''baggage'')" using bg by blast
      then obtain raw where raw: "raw \<in> set (headers ''baggage'')" "to_str raw = Some content" by auto
      from member(3) obtain key rest where m: "m = key @ ''='' @ rest" "CHR ''='' \<notin> set key" "trim key = ''tenant.id''"
        and r: "r = claim_result (case decode_baggage_value (trim (takeWhile (\<lambda>c. c \<noteq> CHR '';'') rest)) of Inl _ \<Rightarrow> None | Inr v \<Rightarrow> Some v)"
        unfolding baggage_tenant_claim by blast
      show ?thesis unfolding r by (rule imageI) (rule tenant_claims.member [where to_str = to_str and headers = headers and raw = raw, OF raw member(2) [unfolded m(1)] m(2,3)])
    qed
  qed
  show "r \<in> set (tenant_sources req explicit baggage)" if cl: "r \<in> claim_result ` tenant_claims to_str headers req"
  proof -
    from cl obtain c where r: "r = claim_result c" and c: "c \<in> tenant_claims to_str headers req" by blast
    from c show ?thesis
    proof cases
      case (request v)
      then show ?thesis by (simp add: r tenant_sources_def claim_result_def)
    next
      case (header name raw)
      then have "to_str raw \<in> Some ` set explicit" unfolding ex [symmetric] by auto
      with header show ?thesis by (auto simp: r tenant_sources_def claim_result_def)
    next
      case (unreadable raw)
      then have "to_str raw \<in> Some ` set baggage" unfolding bg [symmetric] by blast
      with unreadable show ?thesis by auto
    next
      case (member raw content key rest)
      then have "to_str raw \<in> Some ` set baggage" unfolding bg [symmetric] by blast
      then have "content \<in> set baggage" using member by auto
      moreover have "baggage_tenant (key @ ''='' @ rest) = Some r"
        unfolding baggage_tenant_claim r member(1) using member(5,6) by blast
      ultimately show ?thesis using member(4) by (auto simp: tenant_sources_def set_map_filter_iff)
    qed
  qed
qed

lemma unreadable_header:
  assumes "None \<in> to_str ` set vs"
  shows "read_headers to_str e vs = Inl e"
  using assms by (induction vs) (auto simp: ok_or_def split: option.splits)

lemma readable_headers:
  assumes "None \<notin> to_str ` set vs"
  obtains ss where "map to_str vs = map Some ss"
proof -
  have "map to_str vs = map Some (map (the \<circ> to_str) vs)" using assms by (auto simp: image_iff)
  then show thesis by (rule that)
qed

lemma unreadable_pair:
  assumes "None \<in> to_str ` set xs \<or> None \<in> to_str ` set ys"
  shows "and_then (read_headers to_str e xs) (\<lambda>a. and_then (read_headers to_str e ys) (\<lambda>b. f a b)) = Inl e"
proof (cases "None \<in> to_str ` set xs")
  case False
  then obtain ss where "map to_str xs = map Some ss" by (rule readable_headers)
  then have "read_headers to_str e xs = Inr ss" by (simp only: read_headers_ok)
  with False assms show ?thesis by (simp add: unreadable_header)
qed (simp add: unreadable_header)

lemma claims_table:
  fixes to_str headers req
  defines "R \<equiv> resolve_http_tenant_identity to_str headers req"
    and "S \<equiv> claim_result ` tenant_claims to_str headers req"
  shows "(R = Inr t \<longleftrightarrow> S \<noteq> {} \<and> (\<forall>x \<in> S. x = Inr t)) \<and> (R = Inl Missing \<longleftrightarrow> S = {})
    \<and> (R = Inl Invalid \<longleftrightarrow> (\<exists>e. Inl e \<in> S))
    \<and> (R = Inl Conflicting \<longleftrightarrow> (\<forall>x \<in> S. \<exists>u. x = Inr u) \<and> (\<exists>x \<in> S. \<exists>y \<in> S. x \<noteq> y))"
proof (cases "None \<in> to_str ` set (headers ''x-tenant-id'' @ headers ''tenant-id'') \<or> None \<in> to_str ` set (headers ''baggage'')")
  case True
  have "R = Inl Invalid" unfolding R_def resolve_http_tenant_identity_def by (rule unreadable_pair [OF True])
  moreover have "None \<in> tenant_claims to_str headers req"
    using True
  proof
    assume "None \<in> to_str ` set (headers ''x-tenant-id'' @ headers ''tenant-id'')"
    then obtain raw where raw: "raw \<in> set (headers ''x-tenant-id'') \<or> raw \<in> set (headers ''tenant-id'')" "to_str raw = None"
      by (rule image_set_append)
    from raw(1) have "to_str raw \<in> tenant_claims to_str headers req"
      by (elim disjE) (rule tenant_claims.header; simp)+
    with raw(2) show ?thesis by simp
  next
    assume "None \<in> to_str ` set (headers ''baggage'')"
    then obtain raw where "raw \<in> set (headers ''baggage'')" "to_str raw = None" by (elim imageE) simp
    then show ?thesis by (rule tenant_claims.unreadable)
  qed
  then have "Inl Invalid \<in> S" unfolding S_def by (intro image_eqI [of _ _ None]) (simp_all add: claim_result_def)
  ultimately show ?thesis by auto
next
  case False
  then obtain explicit baggage where r: "map to_str (headers ''x-tenant-id'' @ headers ''tenant-id'') = map Some explicit"
    "map to_str (headers ''baggage'') = map Some baggage"
    by (meson readable_headers)
  then have "read_headers to_str Invalid (headers ''x-tenant-id'' @ headers ''tenant-id'') = Inr explicit"
    "read_headers to_str Invalid (headers ''baggage'') = Inr baggage"
    by (simp_all only: read_headers_ok)
  then have "R = resolve_tenant_candidates req explicit baggage"
    by (simp add: R_def resolve_http_tenant_identity_def)
  moreover obtain s where s: "s = tenant_sources req explicit baggage" by simp
  ultimately have R: "R = (if s = [] then Inl Missing else if \<exists>e. Inl e \<in> set s then Inl Invalid
      else if \<forall>c \<in> set s. c = hd s then hd s else Inl Conflicting)"
    using resolve_table [of req explicit baggage] by (simp add: Let_def)
  have S: "S = set s" unfolding S_def s by (rule sources_are_claims [OF r, symmetric])
  show ?thesis
  proof (cases s)
    case (Cons x xs)
    show ?thesis unfolding R S Cons by (cases x) (auto, metis sum.exhaust)
  qed (simp add: R S)
qed

text \<open>The table over the claims themselves.\<close>

lemma image_table:
  fixes g :: "'a \<Rightarrow> 'e + 'b"
  shows "(g ` C \<noteq> {} \<and> (\<forall>x \<in> g ` C. x = Inr t)) \<longleftrightarrow> C \<noteq> {} \<and> (\<forall>c \<in> C. g c = Inr t)"
    and "(\<exists>e. Inl e \<in> g ` C) \<longleftrightarrow> (\<exists>c \<in> C. \<forall>u. g c \<noteq> Inr u)"
    and "((\<forall>x \<in> g ` C. \<exists>u. x = Inr u) \<and> (\<exists>x \<in> g ` C. \<exists>y \<in> g ` C. x \<noteq> y)) \<longleftrightarrow>
      (\<forall>c \<in> C. \<exists>u. g c = Inr u) \<and> (\<exists>c \<in> C. \<exists>d \<in> C. \<exists>u w. g c = Inr u \<and> g d = Inr w \<and> u \<noteq> w)"
proof -
  show "(g ` C \<noteq> {} \<and> (\<forall>x \<in> g ` C. x = Inr t)) \<longleftrightarrow> C \<noteq> {} \<and> (\<forall>c \<in> C. g c = Inr t)" by auto
  have "(\<exists>e. g c = Inl e) \<longleftrightarrow> (\<forall>u. g c \<noteq> Inr u)" for c by (cases "g c") auto
  then show "(\<exists>e. Inl e \<in> g ` C) \<longleftrightarrow> (\<exists>c \<in> C. \<forall>u. g c \<noteq> Inr u)" unfolding image_iff by metis
  show "((\<forall>x \<in> g ` C. \<exists>u. x = Inr u) \<and> (\<exists>x \<in> g ` C. \<exists>y \<in> g ` C. x \<noteq> y)) \<longleftrightarrow>
      (\<forall>c \<in> C. \<exists>u. g c = Inr u) \<and> (\<exists>c \<in> C. \<exists>d \<in> C. \<exists>u w. g c = Inr u \<and> g d = Inr w \<and> u \<noteq> w)"
    unfolding ball_simps bex_simps by (metis sum.inject(2))
qed

end
