(* ===== verification/PropagationProperties.thy ===== *)
theory PropagationProperties
  imports PropagationInject PropagationTenant
begin

text \<open>
  The properties of the tenant boundary and of the durable trace carriers.
\<close>

text \<open>
  C28. The tenant of a request is the one all its sources agree on. The sources are the field of the request, every value
  of the \<open>x-tenant-id\<close> and \<open>tenant-id\<close> headers and every \<open>tenant.id\<close> member of every baggage header. Resolution
  succeeds with tenant t exactly when there is a source and every source, trimmed and, in baggage, percent-decoded, is t, where t
  is non-empty, at most 128 bytes long and free of control characters. It answers Missing exactly when there is no source, Invalid
  exactly when some source cannot be read or is no tenant name, and Conflicting exactly when all are tenant names and two differ.
\<close>

theorem tenant_resolution:
  "(resolve_http_tenant_identity to_str headers req = Inr t
      \<longleftrightarrow> tenant_claims to_str headers req \<noteq> {} \<and> (\<forall>c \<in> tenant_claims to_str headers req. claims_for t c))
    \<and> (resolve_http_tenant_identity to_str headers req = Inl Missing \<longleftrightarrow> tenant_claims to_str headers req = {})
    \<and> (resolve_http_tenant_identity to_str headers req = Inl Invalid
      \<longleftrightarrow> (\<exists>c \<in> tenant_claims to_str headers req. \<forall>u. \<not> claims_for u c))
    \<and> (resolve_http_tenant_identity to_str headers req = Inl Conflicting
      \<longleftrightarrow> (\<forall>c \<in> tenant_claims to_str headers req. \<exists>u. claims_for u c)
        \<and> (\<exists>c \<in> tenant_claims to_str headers req. \<exists>d \<in> tenant_claims to_str headers req.
             \<exists>u w. claims_for u c \<and> claims_for w d \<and> u \<noteq> w))"
  using claims_table [of to_str headers req t] unfolding image_table
  unfolding claim_result_Inr image_is_empty .

theorem tenant_resolution_witness:
  "resolve_http_tenant_identity Some (\<lambda>h. if h = ''baggage'' then [''x=1, tenant.id=other;p''] else []) (Some '' acme'')
     = Inl Conflicting"
proof -
  let ?h = "\<lambda>h. if h = ''baggage'' then [''x=1, tenant.id=other;p''] else []"
  have "resolve_http_tenant_identity Some ?h (Some '' acme'') \<noteq> Inl Invalid
      \<and> trim '' tenant.id'' = ''tenant.id'' \<and> trim (takeWhile (\<lambda>c. c \<noteq> CHR '';'') ''other;p'') = ''other''
      \<and> decode_baggage_value ''other'' = Inr ''other'' \<and> '' tenant.id='' @ ''other;p'' \<in> set (split_on (CHR '','') ''x=1, tenant.id=other;p'')
      \<and> normalize_tenant_candidate '' acme'' = Inr ''acme'' \<and> normalize_tenant_candidate ''other'' = Inr ''other''" by code_simp
  then have e: "resolve_http_tenant_identity Some ?h (Some '' acme'') \<noteq> Inl Invalid" "trim '' tenant.id'' = ''tenant.id''"
    "trim (takeWhile (\<lambda>c. c \<noteq> CHR '';'') ''other;p'') = ''other''" "decode_baggage_value ''other'' = Inr ''other''"
    "'' tenant.id'' @ ''='' @ ''other;p'' \<in> set (split_on (CHR '','') ''x=1, tenant.id=other;p'')"
    "claims_for ''acme'' (Some '' acme'')" "claims_for ''other'' (Some ''other'')"
    unfolding normalize_claims_for [symmetric] by auto
  have "Some '' acme'' \<in> tenant_claims Some ?h (Some '' acme'')" by (rule tenant_claims.request) (rule refl)
  moreover have "Some ''other'' \<in> tenant_claims Some ?h (Some '' acme'')"
    using tenant_claims.member [where to_str = Some and headers = ?h and req = "Some '' acme''" and raw = "''x=1, tenant.id=other;p''", OF _ refl e(5) _ e(2)]
    unfolding e(3,4) by simp
  moreover have "\<forall>c \<in> tenant_claims Some ?h (Some '' acme''). \<exists>u. claims_for u c"
    using tenant_resolution [of Some ?h "Some '' acme''"] e(1) by blast
  moreover have "''acme'' \<noteq> ''other''" by simp
  ultimately show ?thesis using tenant_resolution [of Some ?h "Some '' acme''"] e(6,7) by blast
qed

text \<open>
  A tenant written into baggage comes back unchanged: percent-encoding a normal UTF-8 tenant into the
  tenant.id member of the only tenant-carrying header of a request resolves to that tenant, and the encoded
  value passes the validation of durable baggage values.
\<close>

theorem tenant_baggage_roundtrip:
  assumes "valid_utf8 t" and "normalize_tenant_candidate t = Inr t"
    and "headers ''x-tenant-id'' = []" "headers ''tenant-id'' = []" "headers ''baggage'' = [h]"
    and "to_str h = Some (''tenant.id='' @ percent_encode t)"
  shows "resolve_http_tenant_identity to_str headers None = Inr t \<and> valid_baggage_value (percent_encode t)"
proof -
  have no_comma: "CHR '','' \<notin> set (''tenant.id='' @ percent_encode t)"
    using percent_encode_safe [of "CHR '',''" t] by (auto simp: header_safe_def byte_def)
  have "tenant_sources None [] [''tenant.id='' @ percent_encode t] = [Inr t]"
    using split_on_no_sep [OF no_comma] baggage_tenant_encode [OF assms(1,2)]
    by (simp add: tenant_sources_def map_filter_def del: split_on.simps append.simps)
  then have "resolve_tenant_candidates None [] [''tenant.id='' @ percent_encode t] = Inr t"
    by (simp add: resolve_ok del: append.simps)
  then show ?thesis using assms by (simp add: resolve_http_tenant_identity_def)
qed

theorem tenant_baggage_roundtrip_witness:
  "resolve_http_tenant_identity Some (\<lambda>h. if h = ''baggage'' then [''tenant.id=a%20b''] else []) None = Inr ''a b''"
proof -
  have "valid_utf8 ''a b''" "normalize_tenant_candidate ''a b'' = Inr ''a b''" "percent_encode ''a b'' = ''a%20b''"
    by code_simp+
  with tenant_baggage_roundtrip [of "''a b''" "\<lambda>h. if h = ''baggage'' then [''tenant.id=a%20b''] else []"
      "''tenant.id=a%20b''" Some]
  show ?thesis by simp
qed

text \<open>
  The traceparent validator accepts exactly version 00 of the W3C format: 00, a non-zero trace id of 32
  lower-case hex digits, a non-zero span id of 16, and two hex digits of flags, joined by hyphens.
\<close>

theorem traceparent_iff:
  "validate_traceparent_header v = Inr () \<longleftrightarrow>
     (\<exists>tid sid fl. v = ''00-'' @ tid @ ''-'' @ sid @ ''-'' @ fl
        \<and> is_lower_hex tid 32 \<and> \<not> all_zero_hex tid \<and> is_lower_hex sid 16 \<and> \<not> all_zero_hex sid
        \<and> is_lower_hex fl 2)"
  by (rule validate_traceparent_ok)

text \<open>
  The tracestate validator accepts exactly the headers of at most 512 bytes with one to 32 members, each
  of at most 256 bytes with a valid key and a non-empty valid value, and no key twice.
\<close>

theorem tracestate_iff:
  "validate_tracestate_header v = Inr () \<longleftrightarrow>
     length v \<le> 512 \<and> length (split_on (CHR '','') v) \<le> 32
     \<and> list_all tracestate_member_ok (split_on (CHR '','') v)
     \<and> distinct (map member_key (split_on (CHR '','') v))"
  by (rule validate_tracestate_ok)

text \<open>
  Durable work is only stored with a complete carrier. When validation of a durable context succeeds,
  the request has exactly one non-empty traceparent and one tracestate header, at least one baggage header
  and none empty; the traceparent, the tracestate and the joined baggage are each valid, no baggage key
  occurs twice, and the value of every baggage member decodes.
\<close>

theorem durable_context_complete:
  assumes "validate_durable_context to_str headers = Inr ()"
  shows "\<exists>tp ts bs.
      map to_str (headers ''traceparent'') = [Some tp] \<and> map to_str (headers ''tracestate'') = [Some ts]
      \<and> map to_str (headers ''baggage'') = map Some bs \<and> bs \<noteq> [] \<and> [] \<notin> set bs
      \<and> validate_traceparent_header tp = Inr () \<and> validate_tracestate_header ts = Inr ()
      \<and> (let members = split_on (CHR '','') (join_with (CHR '','') bs) in
         length members \<le> 64 \<and> distinct (map baggage_key members)
         \<and> (\<forall>m \<in> set members. \<exists>d. decode_loop (baggage_value m) = Inr d))"
proof -
  from assms obtain tp ts bg where h: "single_header to_str headers ''traceparent'' = Inr (Some tp)"
      "single_header to_str headers ''tracestate'' = Inr (Some ts)"
      "joined_header to_str headers ''baggage'' = Inr (Some bg)"
      "validate_traceparent_header tp = Inr ()" "validate_tracestate_header ts = Inr ()"
      "validate_baggage_header bg = Inr ()"
    by (auto simp: validate_durable_ok)
  from h(3) obtain bs where bs: "map to_str (headers ''baggage'') = map Some bs" "bs \<noteq> []" "[] \<notin> set bs"
      "bg = join_with (CHR '','') bs" by (auto simp: joined_header_ok)
  have "\<exists>d. decode_loop (baggage_value m) = Inr d" if "m \<in> set (split_on (CHR '','') bg)" for m
    using h(6) that by (auto simp: validate_baggage_ok list_all_iff baggage_member_ok_def
        intro: valid_baggage_value_decodes)
  moreover have "length (split_on (CHR '','') bg) \<le> 64" "distinct (map baggage_key (split_on (CHR '','') bg))"
    using h(6) by (simp_all add: validate_baggage_ok)
  ultimately show ?thesis
    using h(1,2,4,5) bs unfolding Let_def
    by (intro exI [of _ tp] exI [of _ ts] exI [of _ bs]) (simp add: single_header_ok)
qed

definition demo_carrier :: header_map where
  "demo_carrier h =
     (if h = ''traceparent'' then [''00-0af7651916cd43dd8448eb211c80319c-b7ad6b7169203331-01'']
      else if h = ''tracestate'' then [''playground=commerce'']
      else if h = ''baggage'' then [''tenant.id=acme'', ''user.tier=gold;ttl=1''] else [])"

theorem durable_context_complete_witness:
  "\<exists>tp ts bs. map Some (demo_carrier ''traceparent'') = [Some tp] \<and> map Some (demo_carrier ''tracestate'') = [Some ts]
     \<and> map Some (demo_carrier ''baggage'') = map Some bs \<and> validate_traceparent_header tp = Inr ()"
proof -
  have "validate_durable_context Some demo_carrier = Inr ()" by code_simp
  from durable_context_complete [OF this] show ?thesis
    by (elim exE conjE) (intro exI conjI; assumption)
qed

text \<open>
  C29. Only bounded, allow-listed baggage leaves a process. For every Baggage implementation whose insertions and
  collections add at most what they are given: the contexts the library builds (the current context, a context extended with
  entries, with the business context, or with the baggage of a parent) carry only allow-listed keys with control-free values of
  at most 128 bytes; every injection, into HTTP headers, gRPC metadata or the environment of a child, hands the propagator a
  context with the same span whose baggage is such a part of the given one; and entries outside the allow list have no
  effect on anything that is injected.
\<close>

theorem outgoing_baggage_is_safe:
  assumes "baggage_laws api"
  shows "(\<forall>c \<in> {current_context api ctx task, extend_baggage api ctx entries, with_safe_parent_baggage api ctx parent,
        with_business_context api ctx tenant tier segment region priority,
        with_business_context_from_parent api ctx parent tenant tier segment region priority}.
      \<forall>(k, v, m) \<in> set (bg_iter api (snd c)). k \<in> set SAFE_BUSINESS_BAGGAGE_KEYS \<and> length v \<le> 128 \<and> \<not> has_control v)
    \<and> (\<exists>b. (\<forall>(k, v, m) \<in> set (bg_iter api b). k \<in> set SAFE_BUSINESS_BAGGAGE_KEYS \<and> length v \<le> 128 \<and> \<not> has_control v
          \<and> (k, v, m) \<in> set (bg_iter api (snd ctx)))
        \<and> inject_context_headers api set_header propagate ctx headers
            = add_default_tracestate_header (fold (\<lambda>(k, v). set_header k v) (propagate (fst ctx, b)) headers)
        \<and> context_env api propagate ctx
            = context_env_finish (into_env (fold (\<lambda>(k, v). env_injector_set k v) (propagate (fst ctx, b)) Map.empty))
        \<and> (\<forall>key. key \<noteq> ''tracestate'' \<longrightarrow> inject_grpc_metadata_with_context api meta_ok propagate ctx metadata key
            = fold (\<lambda>(k, v). metadata_injector_set meta_ok k v) (propagate (fst ctx, b)) metadata key))
    \<and> (fst ctx = fst ctx' \<longrightarrow> safe_part api ctx = safe_part api ctx' \<longrightarrow>
        inject_context_headers api set_header propagate ctx = inject_context_headers api set_header propagate ctx'
        \<and> context_env api propagate ctx = context_env api propagate ctx'
        \<and> inject_grpc_metadata_with_context api meta_ok propagate ctx = inject_grpc_metadata_with_context api meta_ok propagate ctx')"
proof (intro conjI)
  let ?ok = "\<lambda>(k, v, m). k \<in> set SAFE_BUSINESS_BAGGAGE_KEYS \<and> length v \<le> 128 \<and> \<not> has_control v"
  have ok: "safe_entries es \<longleftrightarrow> (\<forall>e \<in> set es. ?ok e)" for es :: "(string \<times> string \<times> 'b) list"
    by (auto simp: safe_entries_def list_all_iff is_safe_baggage_entry_def MAX_BUSINESS_BAGGAGE_VALUE_LENGTH_def)
  have "safe_entries (bg_iter api (snd (current_context api ctx task)))"
    using clone_baggage_safe [OF assms] by (simp add: current_context_def)
  then have "\<forall>c \<in> {current_context api ctx task, extend_baggage api ctx entries, with_safe_parent_baggage api ctx parent,
        with_business_context api ctx tenant tier segment region priority,
        with_business_context_from_parent api ctx parent tenant tier segment region priority}. safe_entries (bg_iter api (snd c))"
    using extend_baggage_safe [OF assms] with_safe_parent_baggage_safe [OF assms] with_business_context_safe [OF assms]
      with_business_context_from_parent_safe [OF assms] by (intro ballI) (elim insertE emptyE; hypsubst; assumption | blast)
  then show "\<forall>c \<in> {current_context api ctx task, extend_baggage api ctx entries, with_safe_parent_baggage api ctx parent,
        with_business_context api ctx tenant tier segment region priority,
        with_business_context_from_parent api ctx parent tenant tier segment region priority}. \<forall>e \<in> set (bg_iter api (snd c)). ?ok e"
    unfolding ok .
  have part: "\<forall>(k, v, m) \<in> set (bg_iter api (clone_baggage api ctx)).
      k \<in> set SAFE_BUSINESS_BAGGAGE_KEYS \<and> length v \<le> 128 \<and> \<not> has_control v \<and> (k, v, m) \<in> set (bg_iter api (snd ctx))"
    using clone_baggage_part [OF assms, of ctx]
    by (auto simp: safe_part_def is_safe_baggage_entry_def MAX_BUSINESS_BAGGAGE_VALUE_LENGTH_def)
  show "\<exists>b. (\<forall>(k, v, m) \<in> set (bg_iter api b). k \<in> set SAFE_BUSINESS_BAGGAGE_KEYS \<and> length v \<le> 128 \<and> \<not> has_control v
          \<and> (k, v, m) \<in> set (bg_iter api (snd ctx)))
        \<and> inject_context_headers api set_header propagate ctx headers
            = add_default_tracestate_header (fold (\<lambda>(k, v). set_header k v) (propagate (fst ctx, b)) headers)
        \<and> context_env api propagate ctx
            = context_env_finish (into_env (fold (\<lambda>(k, v). env_injector_set k v) (propagate (fst ctx, b)) Map.empty))
        \<and> (\<forall>key. key \<noteq> ''tracestate'' \<longrightarrow> inject_grpc_metadata_with_context api meta_ok propagate ctx metadata key
            = fold (\<lambda>(k, v). metadata_injector_set meta_ok k v) (propagate (fst ctx, b)) metadata key)"
    using part by (intro exI [of _ "clone_baggage api ctx"])
      (simp add: inject_context_headers_def context_env_def inject_grpc_metadata_with_context_def with_safe_baggage_def Let_def)
  show "fst ctx = fst ctx' \<longrightarrow> safe_part api ctx = safe_part api ctx' \<longrightarrow>
        inject_context_headers api set_header propagate ctx = inject_context_headers api set_header propagate ctx'
        \<and> context_env api propagate ctx = context_env api propagate ctx'
        \<and> inject_grpc_metadata_with_context api meta_ok propagate ctx = inject_grpc_metadata_with_context api meta_ok propagate ctx'"
    using with_safe_baggage_cong [of ctx ctx' api]
    by (auto simp: fun_eq_iff inject_context_headers_def context_env_def inject_grpc_metadata_with_context_def)
qed

definition list_baggage :: "((string \<times> string \<times> unit) list, unit) baggage_api" where
  "list_baggage = \<lparr>bg_iter = (\<lambda>b. b), bg_get = (\<lambda>b k. map_option fst (map_of b k)), bg_collect = (\<lambda>es. es),
     bg_insert_with_metadata = (\<lambda>k v m b. (k, v, m) # filter (\<lambda>e. fst e \<noteq> k) b),
     bg_insert = (\<lambda>k v b. (k, v, ()) # filter (\<lambda>e. fst e \<noteq> k) b)\<rparr>"

text \<open>A propagator that writes every entry of the baggage it is given.\<close>

definition list_propagate :: "(unit, (string \<times> string \<times> unit) list) propagator" where
  "list_propagate ctx =
     (''traceparent'', ''00-0af7651916cd43dd8448eb211c80319c-b7ad6b7169203331-01'')
     # (if snd ctx = [] then [] else [(''baggage'', join_with (CHR '','') (map (\<lambda>(k, v, _). k @ ''='' @ v) (snd ctx)))])"

theorem outgoing_baggage_is_safe_witness:
  "list_all (\<lambda>(k, v, m). k \<in> set SAFE_BUSINESS_BAGGAGE_KEYS \<and> length v \<le> 128 \<and> \<not> has_control v)
     (bg_iter list_baggage (snd
      (with_business_context_from_parent list_baggage ((), []) ((), [(''secret'', ''x'', ()), (''region'', ''eu'', ())])
        ''acme'' ''gold'' ''standard'' ''us'' ''normal'')))
   \<and> inject_context_headers list_baggage (\<lambda>k v h. h(k := [v])) list_propagate ((), [(''secret'', ''x'', ()), (''region'', ''eu'', ())]) (\<lambda>_. [])
     = inject_context_headers list_baggage (\<lambda>k v h. h(k := [v])) list_propagate ((), [(''region'', ''eu'', ())]) (\<lambda>_. [])
   \<and> context_env list_baggage list_propagate ((), [(''secret'', ''x'', ()), (''region'', ''eu'', ())])
     = [(''BAGGAGE'', ''region=eu''), (''TRACEPARENT'', ''00-0af7651916cd43dd8448eb211c80319c-b7ad6b7169203331-01''),
        (''TRACESTATE'', ''playground=commerce'')]"
proof (intro conjI)
  have laws: "baggage_laws list_baggage" by (auto simp: baggage_laws_def list_baggage_def)
  note safe = outgoing_baggage_is_safe [OF laws, where ctx = "((), [(''secret'', ''x'', ()), (''region'', ''eu'', ())])"
      and ctx' = "((), [(''region'', ''eu'', ())])" and propagate = list_propagate]
  show "list_all (\<lambda>(k, v, m). k \<in> set SAFE_BUSINESS_BAGGAGE_KEYS \<and> length v \<le> 128 \<and> \<not> has_control v)
     (bg_iter list_baggage (snd
      (with_business_context_from_parent list_baggage ((), []) ((), [(''secret'', ''x'', ()), (''region'', ''eu'', ())])
        ''acme'' ''gold'' ''standard'' ''us'' ''normal'')))"
    unfolding list_all_iff
    by (rule outgoing_baggage_is_safe [OF laws, where ctx = "((), [])" and parent = "((), [(''secret'', ''x'', ()), (''region'', ''eu'', ())])"
          and tenant = "''acme''" and tier = "''gold''" and segment = "''standard''" and region = "''us''" and priority = "''normal''",
        THEN conjunct1, THEN bspec]) simp
  have fst_same: "fst ((), [(''secret'', ''x'', ()), (''region'', ''eu'', ())]) = fst ((), [(''region'', ''eu'', ())])" by simp
  have "safe_part list_baggage ((), [(''secret'', ''x'', ()), (''region'', ''eu'', ())]) = safe_part list_baggage ((), [(''region'', ''eu'', ())])"
    by code_simp
  from fun_cong [OF conjunct1 [OF mp [OF mp [OF conjunct2 [OF conjunct2 [OF safe]] fst_same] this]]]
  show "inject_context_headers list_baggage (\<lambda>k v h. h(k := [v])) list_propagate ((), [(''secret'', ''x'', ()), (''region'', ''eu'', ())]) (\<lambda>_. [])
     = inject_context_headers list_baggage (\<lambda>k v h. h(k := [v])) list_propagate ((), [(''region'', ''eu'', ())]) (\<lambda>_. [])"
    .
  show "context_env list_baggage list_propagate ((), [(''secret'', ''x'', ()), (''region'', ''eu'', ())])
     = [(''BAGGAGE'', ''region=eu''), (''TRACEPARENT'', ''00-0af7651916cd43dd8448eb211c80319c-b7ad6b7169203331-01''),
        (''TRACESTATE'', ''playground=commerce'')]" by code_simp
qed

end
