(* ===== verification/PricingDomain.thy ===== *)
theory PricingDomain
  imports CommerceDb
begin

text \<open>
  Quotes of the pricing service (\<open>services/pricing/src/domain.rs\<close>): the cached quote and its expiry,
  validation of a request, its fingerprint and cache key, and the wire form of a quote. A
  \<open>SystemTime\<close> is the number of nanoseconds since the Unix epoch (negative before it); the \<open>context\<close>
  map of a request is a partial function.
\<close>

definition QUOTE_TTL_SECONDS :: int where "QUOTE_TTL_SECONDS = 45"
definition MAX_ITEMS :: nat where "MAX_ITEMS = 50"
definition MAX_QUANTITY :: u32 where "MAX_QUANTITY = 100"
definition QUOTE_IDENTIFIER_LENGTH :: nat where "QUOTE_IDENTIFIER_LENGTH = 128"
definition MILLIS_PER_SECOND :: int where "MILLIS_PER_SECOND = 1000"

datatype status_code =
    Invalid_argument | Not_found | Internal | Out_of_range | Unavailable | Deadline_exceeded | Failed_precondition

datatype status = Status (st_code: status_code) (st_message: string)

record cached_line =
  cl_product_id :: string
  cl_sku :: string
  cl_quantity :: u32
  cl_unit_minor :: int
  cl_line_minor :: int

record cached_quote =
  cq_quote_id :: string
  cq_lines :: "cached_line list"
  cq_subtotal_minor :: int
  cq_discount_minor :: int
  cq_grand_total_minor :: int
  cq_currency :: string
  cq_pricing_version :: string
  cq_price_source :: string
  cq_expires_at_unix_ms :: int

record quote_item =
  qi_sku :: string
  qi_quantity :: u32

record quote_request =
  qr_request_id :: string
  qr_customer_id :: string
  qr_items :: "quote_item list"
  qr_currency_code :: string
  qr_context :: "string \<rightharpoonup> string"
  qr_tenant_id :: string

record money =
  mo_currency_code :: string
  mo_amount_minor :: int

record quote_line =
  ql_sku :: string
  ql_quantity :: u32
  ql_unit_price :: money
  ql_line_total :: money

record quote_response =
  qp_quote_id :: string
  qp_ready :: bool
  qp_lines :: "quote_line list"
  qp_subtotal :: money
  qp_discount_total :: money
  qp_tax_total :: money
  qp_grand_total :: money
  qp_valid_for_seconds :: int
  qp_pricing_version :: string

type_synonym system_time = int

subsection \<open>Expiry\<close>

definition unix_millis :: "system_time \<Rightarrow> status + int" where
  "unix_millis now =
     (if now < 0 then Inl (Status Internal ''system clock predates the Unix epoch'')
      else ok_or (Status Internal ''system clock exceeds quote timestamp limits'') (checked_i64 (now div 1000000)))"

definition remaining_validity_seconds :: "cached_quote \<Rightarrow> system_time \<Rightarrow> status + int" where
  "remaining_validity_seconds q now =
     and_then (unix_millis now) (\<lambda>now_unix_ms.
     if cq_expires_at_unix_ms q \<le> now_unix_ms then Inr 0
     else
       and_then (ok_or (Status Internal ''quote expiry arithmetic overflowed'')
                   (checked_i64 (cq_expires_at_unix_ms q - now_unix_ms))) (\<lambda>remaining_ms.
       and_then (ok_or (Status Internal ''quote expiry arithmetic overflowed'')
                   (checked_i64 (remaining_ms + (MILLIS_PER_SECOND - 1)))) (\<lambda>rounded.
       ok_or (Status Internal ''quote validity exceeds protocol limits'') (checked_u32 (rounded div MILLIS_PER_SECOND)))))"

definition consume_at :: "cached_quote \<Rightarrow> system_time \<Rightarrow> status + unit" where
  "consume_at q now =
     and_then (remaining_validity_seconds q now) (\<lambda>s.
     if s = 0 then Inl (Status Failed_precondition ''quote has expired'') else Inr ())"

definition quote_expiry_from :: "system_time \<Rightarrow> status + int" where
  "quote_expiry_from now =
     and_then (unix_millis now) (\<lambda>now_unix_ms.
     and_then (ok_or (Status Internal ''quote TTL arithmetic overflowed'')
                 (checked_i64 (QUOTE_TTL_SECONDS * MILLIS_PER_SECOND))) (\<lambda>ttl_ms.
     ok_or (Status Internal ''quote expiry arithmetic overflowed'') (checked_i64 (now_unix_ms + ttl_ms))))"

subsection \<open>Validation\<close>

definition invalid :: "string \<Rightarrow> status + 'a" where
  "invalid m = Inl (Status Invalid_argument m)"

definition valid_currency :: "string \<Rightarrow> bool" where
  "valid_currency c \<longleftrightarrow> length c = 3 \<and> to_ascii_uppercase c = c \<and> list_all is_ascii_alphabetic c"

definition validate_quote_item :: "string list \<Rightarrow> quote_item \<Rightarrow> status + string list" where
  "validate_quote_item skus item =
     (if trim (qi_sku item) = [] \<or> length (qi_sku item) > QUOTE_IDENTIFIER_LENGTH
        then invalid ''each quote item needs a valid SKU''
      else if qi_quantity item = 0 \<or> qi_quantity item > MAX_QUANTITY
        then invalid ''each quote item needs a quantity from one to one hundred''
      else if qi_sku item \<in> set skus then invalid ''quote SKUs must be unique''
      else Inr (qi_sku item # skus))"

definition CONTEXT_KEYS :: "string list" where
  "CONTEXT_KEYS = [''promotion_code'', ''pricing_strategy'', ''customer_segment'', ''customer_tier'',
     ''region'', ''request_priority'']"

definition validate_context_value :: "quote_request \<Rightarrow> unit \<Rightarrow> string \<Rightarrow> status + unit" where
  "validate_context_value request u name =
     (case qr_context request name of
        Some value \<Rightarrow>
          if length value > QUOTE_IDENTIFIER_LENGTH \<or> has_control value
          then invalid (name @ '' exceeds the maximum length'') else Inr ()
      | None \<Rightarrow> Inr ())"

definition validate_request :: "quote_request \<Rightarrow> status + unit" where
  "validate_request request =
     (if trim (qr_tenant_id request) = [] then invalid ''tenant_id is required''
      else if length (qr_tenant_id request) > 128 then invalid ''tenant_id exceeds maximum length''
      else if trim (qr_customer_id request) = [] then invalid ''customer_id is required''
      else if length (qr_customer_id request) > QUOTE_IDENTIFIER_LENGTH
        then invalid ''customer_id exceeds maximum length''
      else if qr_items request = [] then invalid ''at least one quote item is required''
      else if length (qr_items request) > MAX_ITEMS then invalid ''too many quote items''
      else if \<not> valid_currency (qr_currency_code request)
        then invalid ''currency_code must be a three-letter uppercase code''
      else
        and_then (try_fold validate_quote_item [] (qr_items request)) (\<lambda>_.
        and_then (try_fold (validate_context_value request) () CONTEXT_KEYS) (\<lambda>_.
        case qr_context request ''pricing_strategy'' of
          Some strategy \<Rightarrow>
            if strategy \<noteq> ''standard'' \<and> strategy \<noteq> ''promotional''
            then invalid ''pricing_strategy is not supported'' else Inr ()
        | None \<Rightarrow> Inr ())))"

subsection \<open>Fingerprint and cache key\<close>

definition FINGERPRINT_KEYS :: "string list" where
  "FINGERPRINT_KEYS = [''pricing_strategy'', ''promotion_code'', ''customer_segment'', ''customer_tier'',
     ''region'', ''request_priority'']"

definition fingerprint_text :: "quote_request \<Rightarrow> string" where
  "fingerprint_text request =
     qr_tenant_id request @ ''|'' @ qr_customer_id request @ ''|'' @ qr_currency_code request
     @ concat (map (\<lambda>key. ''|'' @ key @ ''='' @ (case qr_context request key of None \<Rightarrow> [] | Some v \<Rightarrow> v))
         FINGERPRINT_KEYS)
     @ concat (map (\<lambda>item. ''|'' @ qi_sku item @ '':'' @ digits (unat (qi_quantity item))) (qr_items request))"

definition hash_step :: "u64 \<Rightarrow> char \<Rightarrow> u64" where
  "hash_step h c = h * 31 + of_nat (byte c)"

definition stable_request_fingerprint :: "quote_request \<Rightarrow> string" where
  "stable_request_fingerprint request = digits (unat (foldl hash_step 0 (fingerprint_text request)))"

definition quote_request_id :: "quote_request \<Rightarrow> string" where
  "quote_request_id request =
     (if trim (qr_request_id request) = [] then ''quote-'' @ stable_request_fingerprint request
      else qr_request_id request)"

definition cache_key :: "quote_request \<Rightarrow> string" where
  "cache_key request =
     ''pricing:quote:'' @ qr_tenant_id request @ '':'' @ qr_customer_id request @ '':''
       @ qr_currency_code request @ '':'' @ stable_request_fingerprint request"

subsection \<open>The wire form\<close>

definition to_proto_at :: "cached_quote \<Rightarrow> system_time \<Rightarrow> status + quote_response" where
  "to_proto_at quote now =
     and_then (consume_at quote now) (\<lambda>_.
     and_then (remaining_validity_seconds quote now) (\<lambda>valid_for_seconds.
     let m = (\<lambda>n. \<lparr>mo_currency_code = cq_currency quote, mo_amount_minor = n\<rparr>) in
     Inr \<lparr>qp_quote_id = cq_quote_id quote, qp_ready = True,
       qp_lines = map (\<lambda>line. \<lparr>ql_sku = cl_sku line, ql_quantity = cl_quantity line,
          ql_unit_price = m (cl_unit_minor line), ql_line_total = m (cl_line_minor line)\<rparr>) (cq_lines quote),
       qp_subtotal = m (cq_subtotal_minor quote), qp_discount_total = m (cq_discount_minor quote),
       qp_tax_total = m 0, qp_grand_total = m (cq_grand_total_minor quote),
       qp_valid_for_seconds = valid_for_seconds, qp_pricing_version = cq_pricing_version quote\<rparr>))"

subsection \<open>Expiry arithmetic\<close>

lemma unix_millis_ok:
  "unix_millis now = Inr ms \<longleftrightarrow> 0 \<le> now \<and> ms = now div 1000000 \<and> ms \<le> i64_max"
  by (auto simp: unix_millis_def checked_i64_def in_i64_def i64_max_def split: if_splits)

text \<open>The remaining validity is the remaining time in whole seconds, rounded up.\<close>

lemma remaining_validity_ok:
  assumes "unix_millis now = Inr ms" "0 \<le> cq_expires_at_unix_ms q" "cq_expires_at_unix_ms q - ms \<le> 1000 * u32_max"
  shows "remaining_validity_seconds q now =
    Inr (if cq_expires_at_unix_ms q \<le> ms then 0 else (cq_expires_at_unix_ms q - ms + 999) div 1000)"
  using assms
  by (auto simp: remaining_validity_seconds_def checked_i64_def checked_u32_def int_range_defs
      MILLIS_PER_SECOND_def unix_millis_ok)

lemma remaining_positive:
  assumes "remaining_validity_seconds q now = Inr s" "unix_millis now = Inr ms"
  shows "0 < s \<longleftrightarrow> ms < cq_expires_at_unix_ms q"
  using assms
  by (auto simp: remaining_validity_seconds_def checked_i64_def checked_u32_def MILLIS_PER_SECOND_def
      pos_imp_zdiv_pos_iff split: if_splits)

lemma consume_at_ok:
  "consume_at q now = Inr () \<longleftrightarrow>
     (\<exists>ms s. unix_millis now = Inr ms \<and> ms < cq_expires_at_unix_ms q \<and> remaining_validity_seconds q now = Inr s)"
proof (cases "remaining_validity_seconds q now")
  case (Inl e)
  then show ?thesis by (simp add: consume_at_def)
next
  case (Inr s)
  then have nn: "0 \<le> s"
    by (auto simp: remaining_validity_seconds_def checked_u32_def in_u32_def split: if_splits)
  from Inr obtain ms where ms: "unix_millis now = Inr ms" by (auto simp: remaining_validity_seconds_def)
  have "consume_at q now = Inr () \<longleftrightarrow> 0 < s" using Inr nn by (simp add: consume_at_def)
  then show ?thesis using remaining_positive [OF Inr ms] Inr ms by simp
qed

lemma quote_expiry_ok:
  "quote_expiry_from now = Inr e \<longleftrightarrow>
     (\<exists>ms. unix_millis now = Inr ms \<and> e = ms + 45000 \<and> e \<le> i64_max)"
  by (auto simp: quote_expiry_from_def checked_i64_def in_i64_def i64_max_def QUOTE_TTL_SECONDS_def
      MILLIS_PER_SECOND_def unix_millis_ok split: if_splits)

subsection \<open>What validation accepts\<close>

definition valid_quote_item :: "quote_item \<Rightarrow> bool" where
  "valid_quote_item i \<longleftrightarrow>
     trim (qi_sku i) \<noteq> [] \<and> length (qi_sku i) \<le> 128 \<and> 1 \<le> uint (qi_quantity i) \<and> uint (qi_quantity i) \<le> 100"

definition valid_context_value :: "string option \<Rightarrow> bool" where
  "valid_context_value v \<longleftrightarrow> (case v of None \<Rightarrow> True | Some s \<Rightarrow> length s \<le> 128 \<and> \<not> has_control s)"

lemma quote_quantity_bounds: "(q :: u32) \<noteq> 0 \<and> \<not> 100 < q \<longleftrightarrow> 1 \<le> uint q \<and> uint q \<le> 100"
proof -
  have "(q \<noteq> 0) = (0 < uint q)" by (metis less_le uint_0_iff uint_ge_0)
  moreover have "(100 < q) = (100 < uint q)" by (simp add: word_less_def)
  ultimately show ?thesis by auto
qed

lemma validate_quote_item_ok:
  "validate_quote_item skus i = Inr skus' \<longleftrightarrow>
     valid_quote_item i \<and> qi_sku i \<notin> set skus \<and> skus' = qi_sku i # skus"
  using quote_quantity_bounds [of "qi_quantity i"]
  by (auto simp: validate_quote_item_def valid_quote_item_def invalid_def QUOTE_IDENTIFIER_LENGTH_def MAX_QUANTITY_def)

lemma validate_quote_items_ok:
  "try_fold validate_quote_item skus items = Inr skus' \<longleftrightarrow>
     list_all valid_quote_item items \<and> distinct (map qi_sku items)
     \<and> set (map qi_sku items) \<inter> set skus = {} \<and> skus' = rev (map qi_sku items) @ skus"
  by (induction items arbitrary: skus) (auto simp: validate_quote_item_ok)

lemma validate_context_ok:
  "try_fold (validate_context_value r) () keys = Inr () \<longleftrightarrow> (\<forall>k \<in> set keys. valid_context_value (qr_context r k))"
  by (induction keys)
     (auto simp: validate_context_value_def valid_context_value_def invalid_def QUOTE_IDENTIFIER_LENGTH_def
       split: option.splits)

lemma validate_request_ok:
  "validate_request r = Inr () \<longleftrightarrow>
     trim (qr_tenant_id r) \<noteq> [] \<and> length (qr_tenant_id r) \<le> 128
     \<and> trim (qr_customer_id r) \<noteq> [] \<and> length (qr_customer_id r) \<le> 128
     \<and> qr_items r \<noteq> [] \<and> length (qr_items r) \<le> 50 \<and> valid_currency (qr_currency_code r)
     \<and> list_all valid_quote_item (qr_items r) \<and> distinct (map qi_sku (qr_items r))
     \<and> (\<forall>k \<in> set CONTEXT_KEYS. valid_context_value (qr_context r k))
     \<and> qr_context r ''pricing_strategy'' \<in> {None, Some ''standard'', Some ''promotional''}"
  by (auto simp: validate_request_def invalid_def validate_quote_items_ok validate_context_ok
      QUOTE_IDENTIFIER_LENGTH_def MAX_ITEMS_def split: option.splits)

end
