(* ===== verification/PricingStore.thy ===== *)
theory PricingStore
  imports PricingDomain Float64
begin

text \<open>
  The data sources of the pricing service (\<open>services/pricing/src/infrastructure.rs\<close>): the quote
  computed from PostgreSQL in one repeatable-read transaction, the promotion discount, and the
  connection state of the Redis cache.

  Faults of the database are parameters: \<open>pool\<close> is the outcome of taking a connection, \<open>io c\<close> the
  driver error of call \<open>c\<close>, if any. \<open>now\<close> is the database's \<open>CURRENT_TIMESTAMP\<close>, \<open>sys\<close> the system clock
  when the expiry is computed, \<open>coll\<close> the collation of \<open>ORDER BY\<close>.
\<close>

record product_row =
  prod_id :: string
  prod_tenant :: string
  prod_status :: string

record customer_row =
  cust_id :: string
  cust_tenant :: string
  cust_status :: string

record price_row =
  price_id :: string
  price_tenant :: string
  price_variant :: string
  price_currency :: string
  price_amount_minor :: int
  price_valid_from :: timestamp
  price_valid_to :: "timestamp option"
  price_is_default :: bool

record price_change_row =
  pc_tenant :: string
  pc_sequence :: int

record promotion_row =
  promo_id :: string
  promo_tenant :: string
  promo_code :: string
  promo_type :: string
  promo_value :: f64
  promo_minimum_subtotal_minor :: int
  promo_currency :: "string option"
  promo_starts_at :: timestamp
  promo_ends_at :: "timestamp option"
  promo_max_redemptions :: "int option"
  promo_redemption_count :: int
  promo_active :: bool

record promotion_product_row =
  pp_tenant :: string
  pp_promotion :: string
  pp_product :: string

record pricing_db =
  pd_variants :: "variant_row list"
  pd_products :: "product_row list"
  pd_customers :: "customer_row list"
  pd_prices :: "price_row list"
  pd_changes :: "price_change_row list"
  pd_promotions :: "promotion_row list"
  pd_promotion_products :: "promotion_product_row list"

datatype db_call = Tx_start | Version_query | Batch_query | Promotion_query | Scope_query | Tx_commit

type_synonym db_faults = "db_call \<Rightarrow> string option"

definition pool_get :: "pool_result \<Rightarrow> status + unit" where
  "pool_get pool =
     (case pool of
        Pool_ok \<Rightarrow> Inr ()
      | Pool_timeout \<Rightarrow> Inl (Status Deadline_exceeded ''pricing database pool timeout'')
      | Pool_error e \<Rightarrow> Inl (Status Unavailable (''pricing database unavailable: '' @ e)))"

definition db_call :: "db_faults \<Rightarrow> db_call \<Rightarrow> string \<Rightarrow> status + unit" where
  "db_call io c context =
     (case io c of None \<Rightarrow> Inr () | Some e \<Rightarrow> Inl (Status Unavailable (context @ '': '' @ e)))"

subsection \<open>Prices\<close>

definition pricing_version_in :: "db_faults \<Rightarrow> pricing_db \<Rightarrow> string \<Rightarrow> status + string" where
  "pricing_version_in io db tenant_id =
     and_then (db_call io Version_query ''pricing version query failed'') (\<lambda>_.
     let sequences = map pc_sequence (filter (\<lambda>c. pc_tenant c = tenant_id) (pd_changes db));
         sequence = (case sequences of [] \<Rightarrow> 0 | s # ss \<Rightarrow> fold max ss s) in
     Inr (''price-change-'' @ int_to_string sequence))"

definition pricing_version :: "pool_result \<Rightarrow> db_faults \<Rightarrow> pricing_db \<Rightarrow> string \<Rightarrow> status + string" where
  "pricing_version pool io db tenant_id =
     and_then (pool_get pool) (\<lambda>_.
     and_then (db_call io Tx_start ''pricing transaction start failed'') (\<lambda>_.
     and_then (pricing_version_in io db tenant_id) (\<lambda>version.
     and_then (db_call io Tx_commit ''pricing version transaction failed'') (\<lambda>_. Inr version))))"

record selected_price =
  sp_product_id :: string
  sp_unit_minor :: int
  sp_currency :: string
  sp_price_source :: string

definition price_current :: "timestamp \<Rightarrow> price_row \<Rightarrow> bool" where
  "price_current now p \<longleftrightarrow>
     price_valid_from p \<le> now \<and> (case price_valid_to p of None \<Rightarrow> True | Some t \<Rightarrow> now < t) \<and> price_is_default p"

definition price_le :: "(string \<Rightarrow> string \<Rightarrow> bool) \<Rightarrow> string \<times> price_row \<Rightarrow> string \<times> price_row \<Rightarrow> bool" where
  "price_le coll a b \<longleftrightarrow>
     (if price_valid_from (snd a) \<noteq> price_valid_from (snd b)
      then price_valid_from (snd b) < price_valid_from (snd a)
      else coll (price_id (snd a)) (price_id (snd b)))"

text \<open>The rows of the batch query for one SKU; \<open>DISTINCT ON (v.sku)\<close> keeps the first.\<close>

definition price_rows ::
  "pricing_db \<Rightarrow> timestamp \<Rightarrow> string \<Rightarrow> string \<Rightarrow> string \<Rightarrow> string \<Rightarrow> (string \<times> price_row) list" where
  "price_rows db now tenant customer currency sku =
     [(prod_id product, p).
        v \<leftarrow> filter (\<lambda>v. var_tenant v = tenant \<and> var_sku v = sku \<and> var_status v = ''active'') (pd_variants db),
        product \<leftarrow> filter (\<lambda>x. prod_tenant x = var_tenant v \<and> prod_id x = var_product v
                               \<and> prod_status x = ''active'') (pd_products db),
        c \<leftarrow> filter (\<lambda>c. cust_tenant c = var_tenant v \<and> cust_id c = customer
                          \<and> cust_status c = ''active'') (pd_customers db),
        p \<leftarrow> filter (\<lambda>p. price_tenant p = var_tenant v \<and> price_variant p = var_id v
                          \<and> price_currency p = currency \<and> price_current now p) (pd_prices db)]"

definition select_price ::
  "(string \<Rightarrow> string \<Rightarrow> bool) \<Rightarrow> pricing_db \<Rightarrow> timestamp \<Rightarrow> quote_request \<Rightarrow> string \<Rightarrow> selected_price option" where
  "select_price coll db now request sku =
     map_option (\<lambda>(product_id, p). \<lparr>sp_product_id = product_id, sp_unit_minor = price_amount_minor p,
        sp_currency = price_currency p, sp_price_source = ''default''\<rparr>)
       (limit1 (order_by (price_le coll)
         (price_rows db now (qr_tenant_id request) (qr_customer_id request) (qr_currency_code request) sku)))"

subsection \<open>Promotions\<close>

definition promotion_applies :: "timestamp \<Rightarrow> quote_request \<Rightarrow> string \<Rightarrow> int \<Rightarrow> promotion_row \<Rightarrow> bool" where
  "promotion_applies now request code subtotal_minor p \<longleftrightarrow>
     promo_tenant p = qr_tenant_id request \<and> promo_code p = code \<and> promo_active p
     \<and> promo_starts_at p \<le> now \<and> (case promo_ends_at p of None \<Rightarrow> True | Some t \<Rightarrow> now < t)
     \<and> (case promo_max_redemptions p of None \<Rightarrow> True | Some m \<Rightarrow> promo_redemption_count p < m)
     \<and> (case promo_currency p of None \<Rightarrow> True | Some c \<Rightarrow> c = qr_currency_code request)
     \<and> promo_minimum_subtotal_minor p \<le> subtotal_minor"

definition sum_minor :: "string \<Rightarrow> cached_line list \<Rightarrow> status + int" where
  "sum_minor overflow lines =
     try_fold (\<lambda>subtotal line. ok_or (Status Out_of_range overflow) (checked_i64 (subtotal + cl_line_minor line))) 0 lines"

text \<open>The arithmetic of \<open>promotion_discount\<close>, after the promotion and its products are known.\<close>

definition raw_discount :: "string \<Rightarrow> f64 \<Rightarrow> int \<Rightarrow> status + f64" where
  "raw_discount kind value eligible_subtotal =
     (case value of
        Fin v \<Rightarrow>
          if v \<le> 0 then Inl (Status Internal ''promotion value is invalid'')
          else if kind = ''percentage'' then
            (if v > 100 then Inl (Status Internal ''promotion percentage is invalid'')
             else Inr (f64_div (f64_mul (f64_of_int eligible_subtotal) (Fin v)) 100))
          else if kind = ''fixed'' then Inr (Fin v)
          else Inl (Status Internal ''promotion type is invalid'')
      | _ \<Rightarrow> Inl (Status Internal ''promotion value is invalid''))"

definition round_discount :: "f64 \<Rightarrow> int \<Rightarrow> status + int" where
  "round_discount raw eligible_subtotal =
     (case raw of
        Fin r \<Rightarrow>
          if r > 9223372036854775808 then Inl (Status Out_of_range ''promotion discount overflowed'')
          else Inr (min (saturate_i64 (f64_round r)) eligible_subtotal)
      | _ \<Rightarrow> Inl (Status Out_of_range ''promotion discount overflowed''))"

definition promotion_discount ::
  "db_faults \<Rightarrow> pricing_db \<Rightarrow> timestamp \<Rightarrow> quote_request \<Rightarrow> string \<Rightarrow> cached_line list \<Rightarrow> int \<Rightarrow> status + int" where
  "promotion_discount io db now request code lines subtotal_minor =
     and_then (db_call io Promotion_query ''promotion query failed'') (\<lambda>_.
     and_then (map_err (\<lambda>_. Status Unavailable ''promotion query failed: query returned an unexpected number of rows'')
        (query_opt (filter (promotion_applies now request code subtotal_minor) (pd_promotions db)))) (\<lambda>row.
     case row of
       None \<Rightarrow> Inr 0
     | Some promotion \<Rightarrow>
         and_then (db_call io Scope_query ''promotion scope query failed'') (\<lambda>_.
         let product_ids = map pp_product (filter (\<lambda>s. pp_tenant s = qr_tenant_id request
               \<and> pp_promotion s = promo_id promotion) (pd_promotion_products db)) in
         if product_ids = [] then Inr 0
         else
           and_then (sum_minor ''promotion subtotal overflowed''
              (filter (\<lambda>line. cl_product_id line \<in> set product_ids) lines)) (\<lambda>eligible_subtotal.
           if eligible_subtotal = 0 then Inr 0
           else
             and_then (raw_discount (promo_type promotion) (promo_value promotion) eligible_subtotal) (\<lambda>raw.
             round_discount raw eligible_subtotal)))))"

subsection \<open>The quote\<close>

text \<open>One round of the line loop; the state is the lines so far and the first price source.\<close>

definition price_line ::
  "(string \<Rightarrow> selected_price option) \<Rightarrow> quote_request \<Rightarrow> cached_line list \<times> string option \<Rightarrow> quote_item
     \<Rightarrow> status + (cached_line list \<times> string option)" where
  "price_line prices request s item =
     (case s of (lines, source) \<Rightarrow>
      case prices (qi_sku item) of
        None \<Rightarrow> Inl (Status Not_found (''unknown priced SKU: '' @ qi_sku item))
      | Some price \<Rightarrow>
          if sp_unit_minor price < 0 then Inl (Status Internal ''pricing source returned a negative price'')
          else if sp_currency price \<noteq> qr_currency_code request
            then Inl (Status Invalid_argument ''currency is not supported for the SKU'')
          else
            and_then (ok_or (Status Out_of_range ''quote line amount overflowed'')
               (checked_i64 (sp_unit_minor price * uint (qi_quantity item)))) (\<lambda>line_minor.
            Inr (lines @ [\<lparr>cl_product_id = sp_product_id price, cl_sku = qi_sku item, cl_quantity = qi_quantity item,
                    cl_unit_minor = sp_unit_minor price, cl_line_minor = line_minor\<rparr>],
                 if source = None then Some (sp_price_source price) else source)))"

definition calculate_quote_pg ::
  "(string \<Rightarrow> string \<Rightarrow> bool) \<Rightarrow> pool_result \<Rightarrow> db_faults \<Rightarrow> pricing_db \<Rightarrow> timestamp \<Rightarrow> system_time \<Rightarrow> quote_request
     \<Rightarrow> status + cached_quote" where
  "calculate_quote_pg coll pool io db now sys request =
     and_then (pool_get pool) (\<lambda>_.
     and_then (db_call io Tx_start ''pricing transaction start failed'') (\<lambda>_.
     and_then (pricing_version_in io db (qr_tenant_id request)) (\<lambda>version.
     let promotion_code = (case qr_context request ''promotion_code'' of None \<Rightarrow> [] | Some c \<Rightarrow> c);
         strategy = (case qr_context request ''pricing_strategy'' of None \<Rightarrow> ''standard'' | Some s \<Rightarrow> s) in
     and_then (db_call io Batch_query ''pricing batch query failed'') (\<lambda>_.
     and_then (try_fold (price_line (select_price coll db now request) request) ([], None) (qr_items request))
       (\<lambda>(lines, source).
     and_then (sum_minor ''quote subtotal overflowed'' lines) (\<lambda>subtotal_minor.
     and_then (if strategy = ''promotional'' \<and> promotion_code \<noteq> []
        then promotion_discount io db now request promotion_code lines subtotal_minor else Inr 0) (\<lambda>discount_minor.
     and_then (ok_or (Status Internal ''quote total arithmetic underflowed'')
        (checked_i64 (subtotal_minor - discount_minor))) (\<lambda>grand_total_minor.
     and_then (quote_expiry_from sys) (\<lambda>expires_at_unix_ms.
     and_then (ok_or (Status Internal ''pricing batch query returned no price source'') source) (\<lambda>price_source.
     and_then (db_call io Tx_commit ''pricing quote transaction failed'') (\<lambda>_.
     Inr \<lparr>cq_quote_id = quote_request_id request, cq_lines = lines, cq_subtotal_minor = subtotal_minor,
          cq_discount_minor = discount_minor, cq_grand_total_minor = grand_total_minor,
          cq_currency = qr_currency_code request, cq_pricing_version = version,
          cq_price_source = price_source, cq_expires_at_unix_ms = expires_at_unix_ms\<rparr>)))))))))))"

subsection \<open>The connection state of the cache\<close>

text \<open>
  \<open>RedisRepository\<close>: whether a client is configured, the shared connection manager with its
  generation, and the availability flag. \<open>'m\<close> is the connection manager of the redis crate.
\<close>

record 'm redis_repository =
  rr_client :: bool
  rr_manager :: "'m option"
  rr_generation :: u64
  rr_available :: bool

definition redis_new :: "bool \<Rightarrow> 'm option \<Rightarrow> 'm redis_repository" where
  "redis_new client manager =
     \<lparr>rr_client = client, rr_manager = manager, rr_generation = (if manager \<noteq> None then 1 else 0),
      rr_available = (manager \<noteq> None)\<rparr>"

text \<open>\<open>lock\<close> says whether the state mutex is taken in time, \<open>reconnect\<close> what a new connection attempt gives.\<close>

definition redis_connection ::
  "bool \<Rightarrow> 'm option \<Rightarrow> 'm redis_repository \<Rightarrow> ('m \<times> u64) option \<times> 'm redis_repository" where
  "redis_connection lock reconnect s =
     (if \<not> rr_client s \<or> \<not> lock then (None, s)
      else (case rr_manager s of
              Some m \<Rightarrow> (Some (m, rr_generation s), s)
            | None \<Rightarrow>
                (case reconnect of
                   None \<Rightarrow> (None, s)
                 | Some m \<Rightarrow>
                     let generation = rr_generation s + 1 in
                     (Some (m, generation),
                      s\<lparr>rr_generation := generation, rr_manager := Some m, rr_available := True\<rparr>))))"

definition redis_clear_failed :: "bool \<Rightarrow> u64 \<Rightarrow> 'm redis_repository \<Rightarrow> 'm redis_repository" where
  "redis_clear_failed lock generation s =
     (if lock \<and> rr_generation s = generation
      then s\<lparr>rr_manager := None, rr_generation := rr_generation s + 1, rr_available := False\<rparr> else s)"

text \<open>\<open>get\<close>: \<open>reply\<close> is what the server answers on the connection (\<open>Inl\<close> an error or a timeout).\<close>

definition redis_get ::
  "bool \<Rightarrow> bool \<Rightarrow> 'm option \<Rightarrow> ('m \<Rightarrow> string \<Rightarrow> string + string option) \<Rightarrow> string \<Rightarrow> 'm redis_repository
     \<Rightarrow> (string + string option) option \<times> 'm redis_repository" where
  "redis_get lock lock' reconnect reply key s =
     (case redis_connection lock reconnect s of
        (None, s1) \<Rightarrow> (None, s1)
      | (Some (m, generation), s1) \<Rightarrow>
          (case reply m key of
             Inl e \<Rightarrow> (Some (Inl e), redis_clear_failed lock' generation s1)
           | Inr v \<Rightarrow> (Some (Inr v), s1)))"

definition redis_set ::
  "bool \<Rightarrow> bool \<Rightarrow> 'm option \<Rightarrow> ('m \<Rightarrow> string \<Rightarrow> string \<Rightarrow> int \<Rightarrow> string + unit) \<Rightarrow> (cached_quote \<Rightarrow> string option)
     \<Rightarrow> string \<Rightarrow> cached_quote \<Rightarrow> 'm redis_repository \<Rightarrow> (string + unit) option \<times> 'm redis_repository" where
  "redis_set lock lock' reconnect reply to_json key quote s =
     (case to_json quote of
        None \<Rightarrow> (None, s)
      | Some v \<Rightarrow>
          (case redis_connection lock reconnect s of
             (None, s1) \<Rightarrow> (None, s1)
           | (Some (m, generation), s1) \<Rightarrow>
               (case reply m key v QUOTE_TTL_SECONDS of
                  Inl e \<Rightarrow> (Some (Inl e), redis_clear_failed lock' generation s1)
                | Inr u \<Rightarrow> (Some (Inr u), s1))))"

end
