(* ===== verification/PricingService.thy ===== *)
theory PricingService
  imports PricingStore Propagation
begin

text \<open>
  The quote use case (\<open>services/pricing/src/application.rs\<close>) and its gRPC methods
  (\<open>services/pricing/src/api.rs\<close>). Feature-flag evaluation gives the pricing mode and is a
  parameter, so are the answers of Redis and the JSON codec of the cached quote.
\<close>

subsection \<open>calculate_quote\<close>

record quote_env =
  qe_mode :: string
  qe_cache :: "string \<Rightarrow> (string + string option) option"
  qe_from_json :: "string \<Rightarrow> cached_quote option"
  qe_check_clock :: system_time
  qe_version :: "string \<Rightarrow> status + string"
  qe_quote :: "quote_request \<Rightarrow> status + cached_quote"

definition use_cache :: "string \<Rightarrow> bool" where
  "use_cache mode \<longleftrightarrow> mode = ''cached''"

text \<open>
  The cache lookup: \<open>Inr (Some quote)\<close> is the early return of a hit, \<open>Inr None\<close> falls through to the
  database, \<open>Inl\<close> is the \<open>?\<close> on the version query.
\<close>

definition cache_lookup :: "quote_env \<Rightarrow> quote_request \<Rightarrow> status + cached_quote option" where
  "cache_lookup env request =
     (case qe_cache env (cache_key request) of
        Some (Inr (Some value)) \<Rightarrow>
          (case qe_from_json env value of
             Some quote \<Rightarrow>
               if is_ok (consume_at quote (qe_check_clock env)) then
                 and_then (qe_version env (qr_tenant_id request)) (\<lambda>version.
                 if cq_pricing_version quote = version then Inr (Some quote) else Inr None)
               else Inr None
           | None \<Rightarrow> Inr None)
      | _ \<Rightarrow> Inr None)"

text \<open>The quote and the entry written to the cache, if any.\<close>

definition calculate_quote ::
  "quote_env \<Rightarrow> quote_request \<Rightarrow> status + (cached_quote \<times> (string \<times> cached_quote) option)" where
  "calculate_quote env request =
     and_then (validate_request request) (\<lambda>_.
     and_then (if use_cache (qe_mode env) then cache_lookup env request else Inr None) (\<lambda>hit.
     case hit of
       Some quote \<Rightarrow> Inr (quote, None)
     | None \<Rightarrow>
         and_then (qe_quote env request) (\<lambda>quote.
         Inr (quote, if use_cache (qe_mode env) then Some (cache_key request, quote) else None))))"

subsection \<open>The RPC methods\<close>

definition apply_scenario_delay :: "(string \<rightharpoonup> string) \<Rightarrow> status + unit" where
  "apply_scenario_delay ctx =
     (if ctx ''fault'' = Some ''unavailable''
      then Inl (Status Unavailable ''pricing provider temporarily unavailable'') else Inr ())"

definition tenant_error_text :: "tenant_identity_error \<Rightarrow> string" where
  "tenant_error_text e =
     (case e of Missing \<Rightarrow> ''tenant identity is required'' | Invalid \<Rightarrow> ''tenant identity is invalid''
      | Conflicting \<Rightarrow> ''tenant identity sources conflict'')"

definition rpc_quote ::
  "to_str \<Rightarrow> quote_env \<Rightarrow> system_time \<Rightarrow> header_map \<Rightarrow> quote_request \<Rightarrow> status + quote_response" where
  "rpc_quote to_str env reply_clock metadata request =
     and_then (map_err (\<lambda>e. Status Invalid_argument (tenant_error_text e))
        (resolve_grpc_tenant_identity to_str metadata (Some (qr_tenant_id request)))) (\<lambda>tenant_id.
     let request' = request\<lparr>qr_tenant_id := tenant_id\<rparr> in
     and_then (apply_scenario_delay (qr_context request')) (\<lambda>_.
     and_then (calculate_quote env request') (\<lambda>(quote, _).
     to_proto_at quote reply_clock)))"

text \<open>
  The stream: snapshot \<open>end\<close> prices the first \<open>end\<close> items. \<open>calc\<close> is \<open>calculate_quote\<close> at the time
  of the snapshot, \<open>clock\<close> the reply clock, \<open>cancelled\<close> the points where the client or the shutdown
  signal stops the task (before, during the calculation or during the send of snapshot \<open>end\<close>).
\<close>

datatype stream_point = Before | Calculating | Sending

definition prefix_request :: "quote_request \<Rightarrow> nat \<Rightarrow> quote_request" where
  "prefix_request request k =
     request\<lparr>qr_items := take k (qr_items request),
             qr_request_id := quote_request_id request @ '':stream:'' @ digits k\<rparr>"

fun stream_from ::
  "(nat \<Rightarrow> quote_request \<Rightarrow> status + cached_quote) \<Rightarrow> (nat \<Rightarrow> system_time) \<Rightarrow> (nat \<Rightarrow> stream_point \<Rightarrow> bool)
     \<Rightarrow> quote_request \<Rightarrow> nat list \<Rightarrow> (status + quote_response) list" where
  "stream_from calc clock cancelled request [] = []"
| "stream_from calc clock cancelled request (k # ks) =
     (if cancelled k Before \<or> cancelled k Calculating then []
      else (case calc k (prefix_request request k) of
              Inr quote \<Rightarrow>
                (case to_proto_at quote (clock k) of
                   Inr response \<Rightarrow>
                     if cancelled k Sending then []
                     else Inr response # stream_from calc clock cancelled request ks
                 | Inl error \<Rightarrow> [Inl error])
            | Inl error \<Rightarrow> if cancelled k Sending then [] else [Inl error]))"

definition rpc_quote_stream ::
  "to_str \<Rightarrow> (nat \<Rightarrow> quote_request \<Rightarrow> status + cached_quote) \<Rightarrow> (nat \<Rightarrow> system_time)
     \<Rightarrow> (nat \<Rightarrow> stream_point \<Rightarrow> bool) \<Rightarrow> bool \<Rightarrow> header_map \<Rightarrow> quote_request
     \<Rightarrow> status + (status + quote_response) list" where
  "rpc_quote_stream to_str calc clock cancelled shutting_down metadata request =
     and_then (map_err (\<lambda>e. Status Invalid_argument (tenant_error_text e))
        (resolve_grpc_tenant_identity to_str metadata (Some (qr_tenant_id request)))) (\<lambda>tenant_id.
     let request' = request\<lparr>qr_tenant_id := tenant_id\<rparr> in
     and_then (validate_request request') (\<lambda>_.
     if shutting_down then Inl (Status Unavailable ''pricing service is shutting down'')
     else Inr (stream_from calc clock cancelled request' [1..<Suc (length (qr_items request'))])))"

subsection \<open>Arithmetic of a quote\<close>

lemma sum_minor_from:
  "try_fold (\<lambda>subtotal line. ok_or e (checked_i64 (subtotal + cl_line_minor line))) n lines = Inr s
    \<Longrightarrow> s = n + sum_list (map cl_line_minor lines)"
proof (induction lines arbitrary: n)
  case (Cons l lines)
  from Cons.prems have "try_fold (\<lambda>subtotal line. ok_or e (checked_i64 (subtotal + cl_line_minor line)))
      (n + cl_line_minor l) lines = Inr s" by auto
  from Cons.IH [OF this] show ?case by simp
qed simp

lemma sum_minor_sum: "sum_minor e lines = Inr s \<Longrightarrow> s = sum_list (map cl_line_minor lines)"
  using sum_minor_from [where n = 0] by (simp add: sum_minor_def)

text \<open>A line that matches its item and the price selected for it.\<close>

definition line_ok :: "(string \<Rightarrow> selected_price option) \<Rightarrow> quote_item \<Rightarrow> cached_line \<Rightarrow> bool" where
  "line_ok prices item line \<longleftrightarrow>
     cl_sku line = qi_sku item \<and> cl_quantity line = qi_quantity item \<and> 0 \<le> cl_unit_minor line
     \<and> cl_line_minor line = cl_unit_minor line * uint (qi_quantity item)
     \<and> (case prices (qi_sku item) of None \<Rightarrow> False
        | Some p \<Rightarrow> sp_product_id p = cl_product_id line \<and> sp_unit_minor p = cl_unit_minor line)"

lemma price_line_step:
  "price_line prices request (lines, src) item = Inr (lines', src') \<Longrightarrow>
     \<exists>l. lines' = lines @ [l] \<and> line_ok prices item l \<and> src' \<noteq> None"
  by (auto simp: price_line_def line_ok_def checked_i64_def split: option.splits if_splits)

lemma price_lines:
  "try_fold (price_line prices request) (lines, src) items = Inr (lines', src') \<Longrightarrow>
     \<exists>ls. lines' = lines @ ls \<and> list_all2 (line_ok prices) items ls"
proof (induction items arbitrary: lines src)
  case (Cons i items)
  then obtain l1 s1 where s: "price_line prices request (lines, src) i = Inr (l1, s1)"
    "try_fold (price_line prices request) (l1, s1) items = Inr (lines', src')" by auto
  from price_line_step [OF s(1)] obtain l where l: "l1 = lines @ [l]" "line_ok prices i l" by blast
  from Cons.IH [OF s(2)] obtain ls where "lines' = l1 @ ls" "list_all2 (line_ok prices) items ls" by blast
  with l show ?case by (intro exI [of _ "l # ls"]) simp
qed simp

lemma sum_filter_le:
  fixes f :: "'a \<Rightarrow> int"
  assumes "\<forall>x \<in> set xs. 0 \<le> f x"
  shows "sum_list (map f (filter P xs)) \<le> sum_list (map f xs)" "0 \<le> sum_list (map f (filter P xs))"
  using assms by (induction xs) auto

lemma raw_discount_nonneg:
  assumes "raw_discount kind value e = Inr (Fin r)" "0 \<le> e"
  shows "0 \<le> r"
proof -
  from assms(1) obtain v where v: "value = Fin v" "0 < v"
    and "r = v \<or> f64_div (f64_mul (f64_of_int e) (Fin v)) 100 = Fin r"
    by (auto simp: raw_discount_def split: f64.splits if_splits)
  moreover have "0 \<le> r" if div: "f64_div (f64_mul (f64_of_int e) (Fin v)) 100 = Fin r"
  proof -
    obtain a where a: "f64_mul (f64_of_int e) (Fin v) = Fin a" "f64_of_rat (a / 100) = Fin r"
      using div by (cases "f64_mul (f64_of_int e) (Fin v)") auto
    then obtain b where b: "f64_of_int e = Fin b" "f64_of_rat (b * v) = Fin a"
      by (cases "f64_of_int e") (auto split: if_splits)
    have "0 \<le> (of_int e :: rat)" using assms(2) by simp
    then have "0 \<le> b" using b(1) unfolding f64_of_int_def by (rule f64_of_rat_nonneg)
    then have "0 \<le> b * v" using v(2) by simp
    then have "0 \<le> a" using b(2) by (rule f64_of_rat_nonneg)
    then have "0 \<le> a / 100" by simp
    then show ?thesis using a(2) by (rule f64_of_rat_nonneg)
  qed
  ultimately show ?thesis by auto
qed

lemma round_discount_bounds:
  "round_discount raw e = Inr d \<Longrightarrow> (\<And>r. raw = Fin r \<Longrightarrow> 0 \<le> r) \<Longrightarrow> 0 \<le> e \<Longrightarrow> 0 \<le> d \<and> d \<le> e"
  by (auto simp: round_discount_def f64_round_nonneg split: f64.splits if_splits)

lemma eligible_discount_bounds:
  assumes ok: "(if none then Inr 0
      else and_then (sum_minor m (filter P lines)) (\<lambda>eligible_subtotal.
           if eligible_subtotal = 0 then Inr 0
           else and_then (raw_discount kind value eligible_subtotal) (\<lambda>raw. round_discount raw eligible_subtotal))) = Inr d"
    and lines: "\<forall>l \<in> set lines. 0 \<le> cl_line_minor l"
  shows "0 \<le> d \<and> d \<le> sum_list (map cl_line_minor lines)"
proof -
  have nn: "0 \<le> sum_list (map cl_line_minor lines)" using sum_filter_le(2) [OF lines, of "\<lambda>_. True"] by simp
  from ok consider "d = 0" | e raw where "sum_minor m (filter P lines) = Inr e"
      "raw_discount kind value e = Inr raw" "round_discount raw e = Inr d"
    by (auto split: if_splits)
  then show ?thesis
  proof cases
    case 1 with nn show ?thesis by simp
  next
    case 2
    have e: "0 \<le> e" "e \<le> sum_list (map cl_line_minor lines)"
      using sum_minor_sum [OF 2(1)] sum_filter_le [OF lines, of P] by simp_all
    have "0 \<le> d \<and> d \<le> e"
      using 2(2) e(1) by (intro round_discount_bounds [OF 2(3)]) (auto intro: raw_discount_nonneg)
    with e show ?thesis by simp
  qed
qed

lemma promotion_discount_bounds:
  assumes ok: "promotion_discount io db now request code lines subtotal = Inr d"
    and lines: "\<forall>l \<in> set lines. 0 \<le> cl_line_minor l" and sub: "subtotal = sum_list (map cl_line_minor lines)"
  shows "0 \<le> d \<and> d \<le> subtotal"
proof -
  obtain row where row: "query_opt (filter (promotion_applies now request code subtotal) (pd_promotions db)) = Inr row"
    using ok unfolding promotion_discount_def and_then_eq_Inr map_err_eq_Inr by blast
  show ?thesis
  proof (cases row)
    case None
    with ok row have "d = 0" by (simp add: promotion_discount_def)
    then show ?thesis using sum_filter_le(2) [OF lines, of "\<lambda>_. True"] sub by simp
  next
    case (Some promotion)
    have "0 \<le> d \<and> d \<le> sum_list (map cl_line_minor lines)"
      using ok unfolding promotion_discount_def row Some map_err_simps and_then_simps option.case Let_def
      by (elim and_thenE) (rule eligible_discount_bounds [OF _ lines])
    then show ?thesis by (simp add: sub)
  qed
qed

text \<open>What a computed quote promises.\<close>

definition quote_ok :: "(string \<Rightarrow> selected_price option) \<Rightarrow> quote_request \<Rightarrow> cached_quote \<Rightarrow> bool" where
  "quote_ok prices request q \<longleftrightarrow>
     list_all2 (line_ok prices) (qr_items request) (cq_lines q)
     \<and> cq_subtotal_minor q = sum_list (map cl_line_minor (cq_lines q))
     \<and> 0 \<le> cq_discount_minor q \<and> cq_discount_minor q \<le> cq_subtotal_minor q
     \<and> cq_grand_total_minor q = cq_subtotal_minor q - cq_discount_minor q
     \<and> cq_currency q = qr_currency_code request \<and> cq_quote_id q = quote_request_id request"

lemma line_ok_nonneg: "line_ok prices i l \<Longrightarrow> 0 \<le> cl_line_minor l"
  by (auto simp: line_ok_def)

lemma lines_nonneg: "list_all2 (line_ok prices) items ls \<Longrightarrow> \<forall>l \<in> set ls. 0 \<le> cl_line_minor l"
  by (induction rule: list_all2_induct) (auto dest: line_ok_nonneg)

lemma calculate_quote_pg_ok:
  assumes "calculate_quote_pg coll pool io db now sys request = Inr q"
  shows "quote_ok (select_price coll db now request) request q"
    and "\<exists>ms. unix_millis sys = Inr ms \<and> cq_expires_at_unix_ms q = ms + 45000"
    and "pricing_version_in io db (qr_tenant_id request) = Inr (cq_pricing_version q)"
proof -
  from assms obtain src d e where
    loop: "try_fold (price_line (select_price coll db now request) request) ([], None) (qr_items request) = Inr (cq_lines q, src)"
    and sub: "sum_minor ''quote subtotal overflowed'' (cq_lines q) = Inr (cq_subtotal_minor q)"
    and disc: "d = 0 \<or> promotion_discount io db now request
        (case qr_context request ''promotion_code'' of None \<Rightarrow> [] | Some c \<Rightarrow> c) (cq_lines q) (cq_subtotal_minor q) = Inr d"
    and q: "cq_discount_minor q = d" "cq_grand_total_minor q = cq_subtotal_minor q - d"
      "cq_currency q = qr_currency_code request" "cq_quote_id q = quote_request_id request"
    and exp: "quote_expiry_from sys = Inr (cq_expires_at_unix_ms q)"
    and ver: "pricing_version_in io db (qr_tenant_id request) = Inr (cq_pricing_version q)"
    by (auto simp: calculate_quote_pg_def Let_def split: if_splits)
  have l: "list_all2 (line_ok (select_price coll db now request)) (qr_items request) (cq_lines q)"
    using price_lines [OF loop] by simp
  have s: "cq_subtotal_minor q = sum_list (map cl_line_minor (cq_lines q))" using sum_minor_sum [OF sub] .
  have nn: "0 \<le> cq_subtotal_minor q"
    using sum_filter_le(2) [OF lines_nonneg [OF l], of "\<lambda>_. True"] s by simp
  have "0 \<le> d \<and> d \<le> cq_subtotal_minor q"
    using disc nn promotion_discount_bounds [OF _ lines_nonneg [OF l] s] by auto
  with l s q show "quote_ok (select_price coll db now request) request q" by (simp add: quote_ok_def)
  show "\<exists>ms. unix_millis sys = Inr ms \<and> cq_expires_at_unix_ms q = ms + 45000"
    using exp by (auto simp: quote_expiry_ok)
  show "pricing_version_in io db (qr_tenant_id request) = Inr (cq_pricing_version q)" by (rule ver)
qed

lemma pricing_version_nonblank: "pricing_version_in io db t = Inr v \<Longrightarrow> trim v \<noteq> []"
proof -
  assume "pricing_version_in io db t = Inr v"
  then have "CHR ''p'' \<in> set v" by (auto simp: pricing_version_in_def Let_def)
  then have "CHR ''p'' \<in> set (trim v)" by (rule ascii_kept) (simp add: ascii_text_def is_ws1_def byte_def)
  then show ?thesis by auto
qed

subsection \<open>No overflow on stored prices\<close>

lemma price_line_no_overflow:
  assumes item: "valid_quote_item item"
    and prices: "\<forall>p. prices (qi_sku item) = Some p \<longrightarrow> sp_unit_minor p \<le> i32_max"
  shows "price_line prices request s item \<noteq> Inl (Status Out_of_range m)"
proof (cases "prices (qi_sku item)")
  case (Some p)
  have "in_i64 (sp_unit_minor p * uint (qi_quantity item))" if "0 \<le> sp_unit_minor p"
  proof -
    have "sp_unit_minor p * uint (qi_quantity item) \<le> i32_max * 100"
      using item prices Some that by (intro mult_mono) (auto simp: valid_quote_item_def)
    moreover have "0 \<le> sp_unit_minor p * uint (qi_quantity item)" using that by simp
    ultimately show ?thesis by (simp add: in_i64_def i64_max_def i32_max_def)
  qed
  then have "checked_i64 (sp_unit_minor p * uint (qi_quantity item)) = Some (sp_unit_minor p * uint (qi_quantity item))"
    if "0 \<le> sp_unit_minor p" using that by simp
  with Some show ?thesis
    by (cases s; cases "sp_unit_minor p < 0") (simp_all add: price_line_def checked_in_range)
qed (cases s, simp add: price_line_def)

end
