(* ===== verification/Float64Bounds.thy ===== *)
theory Float64Bounds
  imports Float64
begin

text \<open>
  Rounding to binary64 at most doubles a value of at least one: enough to see that a percentage of a
  bounded amount stays far below the range of \<open>i64\<close>.
\<close>

lemma pow2_add: "pow2 (a + b) = pow2 a * pow2 b"
proof -
  have p: "pow2 e = 2 powi e" for e :: int
    by (cases "0 \<le> e") (auto simp: pow2_def power_int_def field_simps power_one_over)
  show ?thesis by (simp add: p power_int_add)
qed

lemma pow2_mono: "a \<le> b \<Longrightarrow> pow2 a \<le> pow2 b"
proof -
  assume "a \<le> b"
  then have "pow2 b = pow2 a * 2 ^ nat (b - a)" using pow2_add [of a "b - a"] by (simp add: pow2_def)
  moreover have "(1::rat) \<le> 2 ^ nat (b - a)" by simp
  moreover have "pow2 a * 1 \<le> pow2 a * 2 ^ nat (b - a)"
    by (rule mult_left_mono) (simp_all add: order_less_imp_le)
  ultimately show ?thesis by simp
qed

lemma f64_exponent_le:
  assumes "0 < x"
  shows "pow2 (f64_exponent x) \<le> max x 1"
proof -
  obtain p q where q: "quotient_of x = (p, q)" by (cases "quotient_of x")
  have qp: "0 < q" using quotient_of_denom_pos [OF q] .
  have x: "x = of_int p / of_int q" using quotient_of_div [OF q] .
  have pp: "0 < p" using assms qp x by (simp add: zero_less_divide_iff)
  let ?e = "bitlen p - bitlen q - 53"
  have "pow2 (?e + 1) \<le> x"
  proof -
    have "(2::int) ^ nat (bitlen p - 1) \<le> p" using bitlen_bounds [OF pp] by simp
    then have lp: "pow2 (bitlen p - 1) \<le> of_int p"
      using bitlen_le_iff_power [of p] pp by (simp add: pow2_def bitlen_def)
    have "q < 2 ^ nat (bitlen q)" using bitlen_bounds [OF qp] by simp
    then have "q \<le> 2 ^ nat (bitlen q)" by simp
    then have lq: "of_int q \<le> pow2 (bitlen q)"
      by (simp add: pow2_def bitlen_nonneg)
    have "pow2 (?e + 1) \<le> pow2 (bitlen p - 1 - bitlen q)" by (rule pow2_mono) simp
    also have "\<dots> * pow2 (bitlen q) = pow2 (bitlen p - 1)" by (simp add: pow2_add [symmetric])
    then have "pow2 (bitlen p - 1 - bitlen q) = pow2 (bitlen p - 1) / pow2 (bitlen q)"
      by (simp add: field_simps order_less_imp_not_eq2)
    also have "\<dots> \<le> of_int p / of_int q" using lp lq qp by (intro frac_le) (simp_all add: pp order_less_imp_le)
    finally show ?thesis using x by simp
  qed
  moreover have "pow2 ?e \<le> pow2 (?e + 1)" by (rule pow2_mono) simp
  moreover have "pow2 (- 1074) \<le> 1" by (simp add: pow2_def)
  ultimately show ?thesis
    unfolding f64_exponent_def q Let_def prod.case by (simp add: max_def)
qed

lemma f64_of_rat_le:
  assumes "0 \<le> x" "x \<le> 2 ^ 1000"
  shows "\<exists>r. f64_of_rat x = Fin r \<and> 0 \<le> r \<and> r \<le> 2 * x + 1"
proof (cases "x = 0")
  case False
  let ?e = "f64_exponent x"
  let ?r = "of_int (round_half_even (x / pow2 ?e)) * pow2 ?e"
  have le: "of_int (round_half_even y) \<le> y + 1" for y :: rat
    unfolding round_half_even_def Let_def using of_int_floor_le [of y] by (auto simp: add_increasing2)
  have "?r \<le> (x / pow2 ?e + 1) * pow2 ?e" by (intro mult_right_mono le) (simp add: order_less_imp_le)
  also have "\<dots> = x + pow2 ?e" by (simp add: field_simps order_less_imp_not_eq2)
  also have "\<dots> \<le> 2 * x + 1" using f64_exponent_le [of x] assms(1) False by (auto simp: max_def split: if_splits)
  finally have r: "?r \<le> 2 * x + 1" .
  have nn: "0 \<le> ?r" using assms(1) by (simp add: round_half_even_nonneg order_less_imp_le)
  have "2 * x + 1 \<le> 2 * 2 ^ 1000 + 1" using assms(2) by simp
  also have "\<dots> < (2::rat) ^ 1024" by simp
  finally have "\<not> 2 ^ 1024 \<le> \<bar>?r\<bar>" using r nn by simp
  then have "f64_of_rat x = Fin ?r" using False assms(1) by (simp add: f64_of_rat_def Let_def)
  with r nn show ?thesis by simp
qed (simp add: f64_of_rat_def)

end
