(* ===== verification/PricingProperties.thy ===== *)
theory PricingProperties
  imports PricingService Float64Bounds
begin

text \<open>
  The properties of the pricing service, each followed by a concrete run.
\<close>

definition demo_quote_request :: "string \<Rightarrow> quote_request" where
  "demo_quote_request sku = \<lparr>qr_request_id = ''q'', qr_customer_id = ''c'',
     qr_items = [\<lparr>qi_sku = sku, qi_quantity = 3\<rparr>], qr_currency_code = ''USD'',
     qr_context = [''pricing_strategy'' \<mapsto> ''promotional'', ''promotion_code'' \<mapsto> ''P''],
     qr_tenant_id = ''t''\<rparr>"

definition demo_pricing_db :: pricing_db where
  "demo_pricing_db = \<lparr>
     pd_variants = [\<lparr>var_id = ''v'', var_tenant = ''t'', var_product = ''p'', var_sku = ''Aa'', var_status = ''active''\<rparr>],
     pd_products = [\<lparr>prod_id = ''p'', prod_tenant = ''t'', prod_status = ''active''\<rparr>],
     pd_customers = [\<lparr>cust_id = ''c'', cust_tenant = ''t'', cust_status = ''active''\<rparr>],
     pd_prices = [\<lparr>price_id = ''pr'', price_tenant = ''t'', price_variant = ''v'', price_currency = ''USD'',
        price_amount_minor = 333, price_valid_from = 0, price_valid_to = None, price_is_default = True\<rparr>],
     pd_changes = [\<lparr>pc_tenant = ''t'', pc_sequence = 7\<rparr>],
     pd_promotions = [\<lparr>promo_id = ''x'', promo_tenant = ''t'', promo_code = ''P'', promo_type = ''fixed'',
        promo_value = Fin 100, promo_minimum_subtotal_minor = 0, promo_currency = Some ''USD'', promo_starts_at = 0,
        promo_ends_at = None, promo_max_redemptions = None, promo_redemption_count = 0, promo_active = True\<rparr>],
     pd_promotion_products = [\<lparr>pp_tenant = ''t'', pp_promotion = ''x'', pp_product = ''p''\<rparr>]\<rparr>"

definition demo_quote :: cached_quote where
  "demo_quote = \<lparr>cq_quote_id = ''q'',
     cq_lines = [\<lparr>cl_product_id = ''p'', cl_sku = ''Aa'', cl_quantity = 3, cl_unit_minor = 333, cl_line_minor = 999\<rparr>],
     cq_subtotal_minor = 999, cq_discount_minor = 100, cq_grand_total_minor = 899, cq_currency = ''USD'',
     cq_pricing_version = ''price-change-7'', cq_price_source = ''default'', cq_expires_at_unix_ms = 46000\<rparr>"

lemma demo_quote_run:
  "calculate_quote_pg (\<lambda>_ _. True) Pool_ok (\<lambda>_. None) demo_pricing_db 5 1000000000 (demo_quote_request ''Aa'') = Inr demo_quote"
  by code_simp

subsection \<open>Amounts\<close>

text \<open>
  C27. The amounts of a quote add up. A quote computed from the database has one line per requested item, in
  order, with the SKU, the quantity and the unit price selected for it; each line total is unit price times
  quantity, the subtotal is the sum of the lines, the discount (percentage promotions go through binary64
  arithmetic and rounding) lies between zero and the subtotal, and the grand total is their difference and
  never negative. The quote carries the tenant's current price version.
\<close>

theorem quote_amounts:
  assumes "calculate_quote_pg coll pool io db now sys request = Inr q"
  shows "list_all2 (line_ok (select_price coll db now request)) (qr_items request) (cq_lines q)
    \<and> cq_subtotal_minor q = sum_list (map cl_line_minor (cq_lines q))
    \<and> 0 \<le> cq_discount_minor q \<and> cq_discount_minor q \<le> cq_subtotal_minor q
    \<and> cq_grand_total_minor q = cq_subtotal_minor q - cq_discount_minor q \<and> 0 \<le> cq_grand_total_minor q
    \<and> pricing_version_in io db (qr_tenant_id request) = Inr (cq_pricing_version q)"
  using calculate_quote_pg_ok [OF assms] by (simp add: quote_ok_def)

theorem quote_amounts_witness:
  "cq_subtotal_minor demo_quote = sum_list (map cl_line_minor (cq_lines demo_quote)) \<and> 0 \<le> cq_grand_total_minor demo_quote"
  using quote_amounts [OF demo_quote_run] by blast

















subsection \<open>Validity\<close>

lemma unix_millis_mono: "unix_millis a = Inr ma \<Longrightarrow> unix_millis b = Inr mb \<Longrightarrow> a \<le> b \<Longrightarrow> ma \<le> mb"
  by (auto simp: unix_millis_ok intro: zdiv_mono1)

text \<open>
  A quote is honoured for exactly its 45 seconds. A quote computed when the clock showed sys is turned
  into a reply at a later clock t exactly as long as fewer than 45,000 milliseconds have passed, and the
  reply then promises the remaining time rounded up to whole seconds, between 1 and 45; after that the
  answer is the failed precondition that the quote has expired.
\<close>

theorem quote_validity_window:
  assumes "calculate_quote_pg coll pool io db now sys request = Inr q"
    and "sys \<le> t" and "unix_millis t = Inr ms"
  shows "(if ms < cq_expires_at_unix_ms q
      then \<exists>r. to_proto_at q t = Inr r \<and> 1 \<le> qp_valid_for_seconds r \<and> qp_valid_for_seconds r \<le> 45
        \<and> qp_valid_for_seconds r = (cq_expires_at_unix_ms q - ms + 999) div 1000
        \<and> mo_amount_minor (qp_grand_total r) = cq_grand_total_minor q
      else to_proto_at q t = Inl (Status Failed_precondition ''quote has expired''))
    \<and> cq_expires_at_unix_ms q = sys div 1000000 + 45000"
proof -
  obtain m0 where m0: "unix_millis sys = Inr m0" "cq_expires_at_unix_ms q = m0 + 45000"
    using calculate_quote_pg_ok(2) [OF assms(1)] by blast
  have le: "m0 \<le> ms" using unix_millis_mono [OF m0(1) assms(3,2)] .
  have pos: "0 \<le> m0" using m0(1) by (auto simp: unix_millis_ok)
  have rem: "remaining_validity_seconds q t =
      Inr (if cq_expires_at_unix_ms q \<le> ms then 0 else (cq_expires_at_unix_ms q - ms + 999) div 1000)"
    using m0(2) le pos by (intro remaining_validity_ok [OF assms(3)]) (simp_all add: u32_max_def)
  have e: "cq_expires_at_unix_ms q = sys div 1000000 + 45000" using m0 by (simp add: unix_millis_ok)
  show ?thesis
  proof (cases "ms < cq_expires_at_unix_ms q")
    case False
    then show ?thesis using rem e by (simp add: to_proto_at_def consume_at_def)
  next
    case True
    let ?s = "(cq_expires_at_unix_ms q - ms + 999) div 1000"
    have "1 \<le> ?s" "?s \<le> 45" using True le m0(2) by linarith+
    then show ?thesis using True rem e by (simp add: to_proto_at_def consume_at_def Let_def)
  qed
qed

theorem quote_validity_window_witness:
  "to_proto_at demo_quote 46000000000 = Inl (Status Failed_precondition ''quote has expired'')"
proof -
  have "unix_millis 46000000000 = Inr 46000" by code_simp
  from quote_validity_window [OF demo_quote_run _ this] show ?thesis by (simp add: demo_quote_def)
qed

text \<open>
  A quote is either current in the cache or fresh from the database. When the use case returns a quote,
  the request is valid, and either the cache mode is on and the quote is the decoded cache entry of the
  request's key, unexpired at the clock of the check and of the price version the database reports, with
  nothing written; or the quote is the one just computed from the database, written to the cache under the
  request's key exactly in cache mode. Stale, expired and undecodable entries are never returned.
\<close>

theorem quote_source:
  assumes "calculate_quote env request = Inr (q, written)"
  shows "validate_request request = Inr ()
    \<and> ((use_cache (qe_mode env) \<and> written = None
         \<and> (\<exists>value. qe_cache env (cache_key request) = Some (Inr (Some value)) \<and> qe_from_json env value = Some q)
         \<and> consume_at q (qe_check_clock env) = Inr ()
         \<and> qe_version env (qr_tenant_id request) = Inr (cq_pricing_version q))
       \<or> (qe_quote env request = Inr q
         \<and> written = (if use_cache (qe_mode env) then Some (cache_key request, q) else None)))"
proof -
  from assms obtain hit where v: "validate_request request = Inr ()"
    and h: "(if use_cache (qe_mode env) then cache_lookup env request else Inr None) = Inr hit"
    and r: "(case hit of Some quote \<Rightarrow> Inr (quote, None)
       | None \<Rightarrow> and_then (qe_quote env request) (\<lambda>quote.
           Inr (quote, if use_cache (qe_mode env) then Some (cache_key request, quote) else None))) = Inr (q, written)"
    unfolding calculate_quote_def by (elim and_thenE) simp
  show ?thesis
  proof (cases hit)
    case None
    with v r show ?thesis by auto
  next
    case (Some quote)
    with r have q: "quote = q" "written = None" by simp_all
    from h Some have c: "use_cache (qe_mode env)" "cache_lookup env request = Inr (Some q)"
      using q by (auto split: if_splits)
    from c(2) obtain js where "qe_cache env (cache_key request) = Some (Inr (Some js))"
      "qe_from_json env js = Some q" "is_ok (consume_at q (qe_check_clock env))"
      "qe_version env (qr_tenant_id request) = Inr (cq_pricing_version q)"
      by (auto simp: cache_lookup_def split: option.splits sum.splits if_splits)
    moreover from this(3) have "consume_at q (qe_check_clock env) = Inr ()"
      by (cases "consume_at q (qe_check_clock env)") auto
    ultimately show ?thesis using v q c by auto
  qed
qed

definition demo_env :: quote_env where
  "demo_env = \<lparr>qe_mode = ''cached'', qe_cache = (\<lambda>_. Some (Inr (Some ''json''))), qe_from_json = (\<lambda>_. Some demo_quote),
     qe_check_clock = 2000000000, qe_version = pricing_version Pool_ok (\<lambda>_. None) demo_pricing_db,
     qe_quote = calculate_quote_pg (\<lambda>_ _. True) Pool_ok (\<lambda>_. None) demo_pricing_db 5 1000000000\<rparr>"

theorem quote_source_witness:
  "consume_at demo_quote (qe_check_clock demo_env) = Inr () \<or> qe_quote demo_env (demo_quote_request ''Aa'') = Inr demo_quote"
proof -
  have "validate_request (demo_quote_request ''Aa'') = Inr ()" by code_simp
  moreover have "consume_at demo_quote 2000000000 = Inr ()"
    "pricing_version Pool_ok (\<lambda>_. None) demo_pricing_db ''t'' = Inr (cq_pricing_version demo_quote)" by code_simp+
  ultimately have "calculate_quote demo_env (demo_quote_request ''Aa'') = Inr (demo_quote, None)"
    by (simp add: calculate_quote_def demo_env_def use_cache_def cache_lookup_def demo_quote_request_def)
  from quote_source [OF this] show ?thesis by blast
qed

subsection \<open>The cache key\<close>

lemma hash_collision: "hash_step (hash_step h (CHR ''A'')) (CHR ''a'') = hash_step (hash_step h (CHR ''B'')) (CHR ''B'')"
  by (simp add: hash_step_def byte_def algebra_simps)

text \<open>
  C34. The cache key does not determine the request. For every customer, the two valid requests for the SKUs
  Aa and BB (any two strings that differ in this pair of letters) have the same 64-bit fingerprint and so
  the same cache key: a cached quote for one SKU is a hit for the other, and with a cache that holds the
  quote of the first the use case answers the second with the first one's lines.
\<close>

theorem cache_key_collision:
  assumes "qe_mode env = ''cached''" "qe_cache env (cache_key (demo_quote_request ''Aa'')) = Some (Inr (Some value))"
      "qe_from_json env value = Some q" "consume_at q (qe_check_clock env) = Inr ()"
      "qe_version env ''t'' = Inr (cq_pricing_version q)"
  shows "cache_key (demo_quote_request ''Aa'') = cache_key (demo_quote_request ''BB'')
    \<and> validate_request (demo_quote_request ''Aa'') = Inr () \<and> validate_request (demo_quote_request ''BB'') = Inr ()
    \<and> calculate_quote env (demo_quote_request ''BB'') = Inr (q, None)"
proof -
  have "stable_request_fingerprint (demo_quote_request ''Aa'') = stable_request_fingerprint (demo_quote_request ''BB'')"
    by (simp add: stable_request_fingerprint_def fingerprint_text_def demo_quote_request_def hash_collision)
  then have key: "cache_key (demo_quote_request ''Aa'') = cache_key (demo_quote_request ''BB'')"
    by (simp add: cache_key_def demo_quote_request_def)
  have v: "validate_request (demo_quote_request ''Aa'') = Inr ()" "validate_request (demo_quote_request ''BB'') = Inr ()"
    by code_simp+
  have t: "qr_tenant_id (demo_quote_request ''BB'') = ''t''" by (simp add: demo_quote_request_def)
  have "cache_lookup env (demo_quote_request ''BB'') = Inr (Some q)"
    using assms(2-5) by (simp add: cache_lookup_def t flip: key)
  then show ?thesis using key v assms(1) by (simp add: calculate_quote_def use_cache_def)
qed

theorem cache_key_collision_witness:
  "calculate_quote demo_env (demo_quote_request ''BB'') = Inr (demo_quote, None)
     \<and> map cl_sku (cq_lines demo_quote) = [''Aa'']"
proof -
  have "consume_at demo_quote 2000000000 = Inr ()"
    "pricing_version Pool_ok (\<lambda>_. None) demo_pricing_db ''t'' = Inr (cq_pricing_version demo_quote)" by code_simp+
  then show ?thesis
    using cache_key_collision [of demo_env "''json''" demo_quote] by (simp add: demo_env_def demo_quote_def)
qed

subsection \<open>Streams\<close>

lemma to_proto_lines: "to_proto_at q t = Inr r \<Longrightarrow> map ql_sku (qp_lines r) = map cl_sku (cq_lines q)"
  by (auto simp: to_proto_at_def Let_def)

lemma line_skus: "list_all2 (line_ok prices) items ls \<Longrightarrow> map cl_sku ls = map qi_sku items"
  by (induction rule: list_all2_induct) (auto simp: line_ok_def)

lemma stream_from_shape:
  "length (stream_from calc clock cancelled request ks) \<le> length ks"
  "i < length (stream_from calc clock cancelled request ks) \<Longrightarrow>
     stream_from calc clock cancelled request ks ! i = Inr r \<Longrightarrow>
     \<exists>q. calc (ks ! i) (prefix_request request (ks ! i)) = Inr q \<and> to_proto_at q (clock (ks ! i)) = Inr r"
  "Suc i < length (stream_from calc clock cancelled request ks) \<Longrightarrow>
     \<exists>r. stream_from calc clock cancelled request ks ! i = Inr r"
proof (induction ks arbitrary: i)
  case (Cons k ks)
  { case 1 show ?case using Cons.IH(1) by (auto split: sum.splits) }
  { case 2 then show ?case using Cons.IH(2) by (cases i) (auto split: sum.splits if_splits) }
  { case 3 then show ?case using Cons.IH(3) by (cases i) (auto split: sum.splits if_splits) }
qed simp_all

text \<open>
  A quote stream sends growing prefixes. Whatever the cancellations and faults, a stream served from the
  database sends at most one message per item; every message but the last is a quote, the i-th quote covers
  exactly the SKUs of the first i items in order, and an error ends the stream.
\<close>

theorem stream_sends_prefixes:
  assumes "rpc_quote_stream to_str (\<lambda>k. calculate_quote_pg coll (pool k) (io k) db (now k) (sys k)) clock cancelled
      down metadata request = Inr rs"
  shows "length rs \<le> length (qr_items request)
    \<and> (\<forall>i < length rs. \<forall>r. rs ! i = Inr r \<longrightarrow>
        map ql_sku (qp_lines r) = map qi_sku (take (Suc i) (qr_items request)))
    \<and> (\<forall>i. Suc i < length rs \<longrightarrow> (\<exists>r. rs ! i = Inr r))"
proof -
  let ?calc = "\<lambda>k. calculate_quote_pg coll (pool k) (io k) db (now k) (sys k)"
  let ?ks = "[1..<Suc (length (qr_items request))]"
  from assms obtain t where rs: "rs = stream_from ?calc clock cancelled (request\<lparr>qr_tenant_id := t\<rparr>) ?ks"
    by (auto simp: rpc_quote_stream_def Let_def split: if_splits)
  have len: "length rs \<le> length (qr_items request)"
    unfolding rs using stream_from_shape(1) [of ?calc clock cancelled "request\<lparr>qr_tenant_id := t\<rparr>" ?ks]
    by (simp del: upt_Suc)
  have "map ql_sku (qp_lines r) = map qi_sku (take (Suc i) (qr_items request))" if i: "i < length rs" "rs ! i = Inr r" for i r
  proof -
    have k: "?ks ! i = Suc i" using i(1) len by (simp del: upt_Suc)
    from stream_from_shape(2) [OF i [unfolded rs]] obtain q where
      q: "?calc (Suc i) (prefix_request (request\<lparr>qr_tenant_id := t\<rparr>) (Suc i)) = Inr q" "to_proto_at q (clock (Suc i)) = Inr r"
      unfolding k by blast
    have "map cl_sku (cq_lines q) = map qi_sku (take (Suc i) (qr_items request))"
      using calculate_quote_pg_ok(1) [OF q(1)] by (auto simp: quote_ok_def prefix_request_def dest: line_skus)
    then show ?thesis using to_proto_lines [OF q(2)] by simp
  qed
  moreover have "\<exists>r. rs ! i = Inr r" if "Suc i < length rs" for i
    using stream_from_shape(3) that unfolding rs .
  ultimately show ?thesis using len by blast
qed

theorem stream_sends_prefixes_witness:
  "\<exists>rs. rpc_quote_stream Some (\<lambda>k. calculate_quote_pg (\<lambda>_ _. True) Pool_ok (\<lambda>_. None) demo_pricing_db 5 1000000000)
      (\<lambda>_. 1000000000) (\<lambda>_ _. False) False (\<lambda>_. []) (demo_quote_request ''Aa'') = Inr rs \<and> length rs \<le> 1"
proof -
  have "validate_request (demo_quote_request ''Aa'') = Inr ()" by code_simp
  moreover have "resolve_grpc_tenant_identity Some (\<lambda>_. []) (Some ''t'') = Inr ''t''" by code_simp
  ultimately obtain rs where "rpc_quote_stream Some
      (\<lambda>k. calculate_quote_pg (\<lambda>_ _. True) Pool_ok (\<lambda>_. None) demo_pricing_db 5 1000000000)
      (\<lambda>_. 1000000000) (\<lambda>_ _. False) False (\<lambda>_. []) (demo_quote_request ''Aa'') = Inr rs"
    by (simp add: rpc_quote_stream_def demo_quote_request_def Let_def)
  from stream_sends_prefixes [OF this] this show ?thesis by (auto simp: demo_quote_request_def)
qed

subsection \<open>The cache connection\<close>

inductive redis_step :: "'m redis_repository \<Rightarrow> 'm redis_repository \<Rightarrow> bool" where
  redis_connects: "redis_step s (snd (redis_connection lock reconnect s))"
| redis_fails: "redis_step s (redis_clear_failed lock generation s)"

inductive_cases redis_stepE: "redis_step s s'"

definition redis_wf :: "'m redis_repository \<Rightarrow> bool" where
  "redis_wf s \<longleftrightarrow> rr_available s = (rr_manager s \<noteq> None)"

lemma redis_step_wf: "redis_step s s' \<Longrightarrow> redis_wf s \<Longrightarrow> redis_wf s'"
  by (erule redis_stepE)
     (auto simp: redis_wf_def redis_connection_def redis_clear_failed_def Let_def split: option.splits)

lemma redis_reach_wf: "redis_step\<^sup>*\<^sup>* s s' \<Longrightarrow> redis_wf s \<Longrightarrow> redis_wf s'"
  by (induction rule: rtranclp_induct) (auto intro: redis_step_wf)

lemma word_plus_two: "(g :: u64) + 1 + 1 \<noteq> g"
proof
  assume "g + 1 + 1 = g"
  then have "(2 :: u64) = 0" by (metis add.assoc add_cancel_right_right one_add_one)
  then show False by simp
qed

text \<open>
  A late cache failure does not drop a newer connection. In every reachable state the availability flag
  says whether a connection manager is present; and when a request failed on a connection, the connection
  was dropped and another request has reconnected, the failures of requests still using the old connection
  leave the new one in place.
\<close>

theorem late_redis_failure_is_ignored:
  assumes "redis_step\<^sup>*\<^sup>* (redis_new client None) s"
    and "redis_connection True reconnect s = (Some (m, g), s1)"
    and "redis_connection True (Some m') (redis_clear_failed True g s1) = (Some (m', g'), s2)"
  shows "rr_available s = (rr_manager s \<noteq> None)
    \<and> rr_manager s2 = Some m' \<and> redis_clear_failed lock g s2 = s2"
proof -
  have "redis_wf s" using redis_reach_wf [OF assms(1)] by (simp add: redis_wf_def redis_new_def)
  moreover have g: "rr_generation s1 = g"
    using assms(2) by (auto simp: redis_connection_def Let_def split: if_splits option.splits)
  moreover have "rr_manager s2 = Some m' \<and> rr_generation s2 = g + 1 + 1"
    using assms(3) g by (auto simp: redis_connection_def redis_clear_failed_def Let_def split: if_splits)
  ultimately show ?thesis by (simp add: redis_wf_def redis_clear_failed_def word_plus_two)
qed

theorem late_redis_failure_is_ignored_witness:
  "redis_clear_failed True 1 (snd (redis_connection True (Some True)
      (redis_clear_failed True 1 (snd (redis_connection True (Some False) (redis_new True None))))))
    = snd (redis_connection True (Some True) (redis_clear_failed True 1
         (snd (redis_connection True (Some False) (redis_new True None)))))"
proof -
  let ?s = "redis_new True (None :: bool option)"
  have 1: "redis_connection True (Some False) ?s = (Some (False, 1), snd (redis_connection True (Some False) ?s))"
    by (simp add: redis_connection_def redis_new_def Let_def)
  have 2: "redis_connection True (Some True) (redis_clear_failed True 1 (snd (redis_connection True (Some False) ?s)))
      = (Some (True, 3), snd (redis_connection True (Some True) (redis_clear_failed True 1 (snd (redis_connection True (Some False) ?s)))))"
    by (simp add: redis_connection_def redis_new_def redis_clear_failed_def Let_def)
  from late_redis_failure_is_ignored [OF _ 1 2] show ?thesis by auto
qed

end
