(* ===== verification/CheckoutDomain.thy ===== *)
theory CheckoutDomain
  imports CommerceDb
begin

text \<open>
  The checkout service's domain (\<open>services/checkout/src/domain.rs\<close>) and the pure parts of its
  application layer (\<open>application.rs\<close>): inputs, errors, fences, identity resolution, input validation,
  the canonical request of the idempotency fingerprint and the error codes a replay may report.
  An OpenTelemetry context is represented by the lookup function of its baggage.
\<close>

definition CHECKOUT_MAX_ITEMS :: nat where "CHECKOUT_MAX_ITEMS = 50"
definition CHECKOUT_MAX_QUANTITY :: u32 where "CHECKOUT_MAX_QUANTITY = 100"
definition CHECKOUT_IDENTIFIER_LENGTH :: nat where "CHECKOUT_IDENTIFIER_LENGTH = 128"
definition CHECKOUT_ATTEMPT_STALE_AFTER :: int where "CHECKOUT_ATTEMPT_STALE_AFTER = 10 * 60"
definition PAYMENT_RECONCILIATION_STALE_AFTER :: int where "PAYMENT_RECONCILIATION_STALE_AFTER = 5 * 60"
definition PAYMENT_RECONCILIATION_RETRY_BASE :: int where "PAYMENT_RECONCILIATION_RETRY_BASE = 2"
definition PAYMENT_RECONCILIATION_MAX_ATTEMPTS :: int where "PAYMENT_RECONCILIATION_MAX_ATTEMPTS = 8"
definition COMPENSATION_STALE_AFTER :: int where "COMPENSATION_STALE_AFTER = 5 * 60"
definition COMPENSATION_RETRY_BASE :: int where "COMPENSATION_RETRY_BASE = 2"
definition COMPENSATION_MAX_ATTEMPTS :: int where "COMPENSATION_MAX_ATTEMPTS = 3"
definition COMPENSATION_ERROR_LIMIT :: nat where "COMPENSATION_ERROR_LIMIT = 1000"

subsection \<open>Errors\<close>

datatype api_error = ApiError (ae_status: int) (ae_code: string) (ae_message: string)

definition is_provider_failure :: "api_error \<Rightarrow> bool" where
  "is_provider_failure e \<longleftrightarrow>
     ae_code e \<in> {''payment_provider_unavailable'', ''payment_timeout'', ''payment_internal''}"

definition is_ambiguous_payment_failure :: "api_error \<Rightarrow> bool" where
  "is_ambiguous_payment_failure e \<longleftrightarrow> is_provider_failure e \<or> ae_code e = ''payment_protocol_error''"

definition api_error_response :: "api_error \<Rightarrow> int \<times> json" where
  "api_error_response e =
     (ae_status e, JObj [(''error'', JStr (ae_code e)), (''message'', JStr (ae_message e))])"

subsection \<open>Inputs\<close>

record checkout_item_input =
  ci_sku :: string
  ci_quantity :: u32

record checkout_input =
  in_tenant_id :: string
  in_customer_id :: string
  in_session_id :: "string option"
  in_cart_id :: "string option"
  in_items :: "checkout_item_input list"
  in_currency_code :: string
  in_promotion_code :: "string option"
  in_segment :: string
  in_tier :: string
  in_region :: string
  in_priority :: string
  in_payment_method_token :: "string option"
  in_payment_method_type :: "string option"
  in_request_id :: "string option"
  in_delay_ms :: u64
  in_slow :: u64
  in_retry :: u32
  in_timeout_ms :: u64
  in_degrade :: bool

record quote_stream_query =
  qs_sku :: string
  qs_quantity :: u32
  qs_tenant_id :: string
  qs_customer_id :: string
  qs_session_id :: "string option"
  qs_cart_id :: "string option"
  qs_currency_code :: string
  qs_promotion_code :: "string option"
  qs_segment :: string
  qs_tier :: string
  qs_region :: string
  qs_priority :: string
  qs_request_id :: "string option"
  qs_delay_ms :: u64
  qs_slow :: u64
  qs_retry :: u32
  qs_timeout_ms :: u64
  qs_degrade :: bool

definition checkout_input_from :: "quote_stream_query \<Rightarrow> checkout_input" where
  "checkout_input_from query =
     \<lparr>in_tenant_id = qs_tenant_id query, in_customer_id = qs_customer_id query,
      in_session_id = qs_session_id query, in_cart_id = qs_cart_id query,
      in_items = [\<lparr>ci_sku = qs_sku query, ci_quantity = qs_quantity query\<rparr>],
      in_currency_code = qs_currency_code query, in_promotion_code = qs_promotion_code query,
      in_segment = qs_segment query, in_tier = qs_tier query, in_region = qs_region query,
      in_priority = qs_priority query, in_payment_method_token = None, in_payment_method_type = None,
      in_request_id = qs_request_id query, in_delay_ms = qs_delay_ms query, in_slow = qs_slow query,
      in_retry = qs_retry query, in_timeout_ms = qs_timeout_ms query, in_degrade = qs_degrade query\<rparr>"

record cart_item_scope =
  cs_tenant_id :: string
  cs_customer_id :: string
  cs_cart_id :: string

record replace_cart_item_input =
  rp_scope :: cart_item_scope
  rp_quantity :: int

record order_line =
  ol_product_id :: string
  ol_variant_id :: string
  ol_sku :: string
  ol_product_name :: string
  ol_quantity :: u32
  ol_unit_price_minor :: int

record pending_order =
  po_id :: string
  po_order_number :: string
  po_cart_id :: string
  po_tenant_id :: string
  po_customer_id :: string
  po_session_id :: string
  po_currency :: string
  po_lines :: "order_line list"
  po_subtotal_minor :: int
  po_discount_minor :: int
  po_tax_minor :: int
  po_total_minor :: int
  po_promotion_code :: "string option"

subsection \<open>Fences and claims\<close>

record checkout_lease =
  cl_tenant_id :: string
  cl_request_id :: string
  cl_token :: string

datatype checkout_fence =
    Attempt checkout_lease
  | PaymentReconciliation (pr_tenant_id: string) (pr_request_id: string) (pr_parent_token: string)
      (pr_worker_token: string)
  | Compensation (cf_tenant_id: string) (cf_request_id: string) (cf_token: string) (cf_task_id: string)
      (cf_claim_token: string)

fun fence_request_id :: "checkout_fence \<Rightarrow> string" where
  "fence_request_id (Attempt lease) = cl_request_id lease"
| "fence_request_id (PaymentReconciliation t r p w) = r"
| "fence_request_id (Compensation t r k i c) = r"

fun fence_token :: "checkout_fence \<Rightarrow> string" where
  "fence_token (Attempt lease) = cl_token lease"
| "fence_token (PaymentReconciliation t r p w) = p"
| "fence_token (Compensation t r k i c) = k"

fun fence_kind :: "checkout_fence \<Rightarrow> string" where
  "fence_kind (Attempt lease) = ''attempt''"
| "fence_kind (PaymentReconciliation t r p w) = ''payment_reconciliation''"
| "fence_kind (Compensation t r k i c) = ''compensation''"

record payment_reconciliation_job =
  pj_tenant_id :: string
  pj_request_id :: string
  pj_order_id :: string
  pj_authorize_request_id :: string
  pj_payment_id :: "string option"
  pj_merchant_reference :: string
  pj_amount_minor :: int
  pj_currency :: string
  pj_method_type :: string
  pj_feature_variant :: string
  pj_status :: string
  pj_attempts :: int
  pj_lease_token :: string
  pj_parent_lease_token :: string
  pj_traceparent :: "string option"
  pj_tracestate :: "string option"
  pj_baggage :: "string option"

record compensation_task =
  tk_id :: string
  tk_tenant_id :: string
  tk_order_id :: string
  tk_kind :: string
  tk_reservation_id :: "string option"
  tk_sku :: "string option"
  tk_quantity :: "int option"
  tk_payment_id :: "string option"
  tk_request_id :: "string option"
  tk_currency :: "string option"
  tk_attempts :: int
  tk_traceparent :: "string option"
  tk_tracestate :: "string option"
  tk_baggage :: "string option"
  tk_checkout_request_id :: "string option"
  tk_checkout_lease_token :: "string option"
  tk_claim_token :: string

datatype checkout_attempt_claim =
    New string
  | Pending json
  | Replay json
  | InProgress
  | Failed api_error

end
