(* ===== verification/CheckoutInput.thy ===== *)
theory CheckoutInput
  imports CheckoutDomain Propagation
begin

text \<open>
  Everything checkout decides about a request before it touches the database: identity resolution from
  the body, the headers and the propagated baggage (\<open>domain.rs\<close>, \<open>api.rs\<close>), validation, payment
  credentials, and the canonical request behind the idempotency fingerprint (\<open>application.rs\<close>).
  \<open>baggage\<close> is the lookup of the propagated OpenTelemetry baggage; the SHA-256 digest, the JSON printer
  and the UUID generator are arguments.
\<close>

type_synonym baggage_lookup = "string \<Rightarrow> string option"

subsection \<open>Identity\<close>

definition valid_identity_component :: "string \<Rightarrow> bool" where
  "valid_identity_component s \<longleftrightarrow>
     trim s \<noteq> [] \<and> length s \<le> CHECKOUT_IDENTIFIER_LENGTH \<and> \<not> has_control s"

definition nonempty_opt :: "string option \<Rightarrow> string option" where
  "nonempty_opt v = (case v of None \<Rightarrow> None | Some s \<Rightarrow> if s \<noteq> [] then Some s else None)"

definition identities_conflict :: "string option \<Rightarrow> string option \<Rightarrow> bool" where
  "identities_conflict requested propagated \<longleftrightarrow>
     (case (requested, propagated) of (Some r, Some p) \<Rightarrow> r \<noteq> p | _ \<Rightarrow> False)"

definition or_else :: "'a option \<Rightarrow> 'a option \<Rightarrow> 'a option" where
  "or_else a b = (case a of None \<Rightarrow> b | Some x \<Rightarrow> Some x)"

definition resolve_tenant_id :: "baggage_lookup \<Rightarrow> string \<Rightarrow> api_error + string" where
  "resolve_tenant_id baggage requested_text =
     (let requested = (if trim requested_text \<noteq> [] then Some (trim requested_text) else None);
          propagated = nonempty_opt (baggage ''tenant.id'') in
      if identities_conflict requested propagated
        then Inl (ApiError 409 ''identity_conflict''
                    ''tenant identity conflicts with propagated request identity'')
      else
        and_then (ok_or (ApiError 400 ''tenant_required''
                          ''tenant_id is required in the request or tenant.id baggage'')
                    (or_else requested propagated)) (\<lambda>tenant_id.
        if \<not> valid_identity_component tenant_id
          then Inl (ApiError 400 ''invalid_identity'' ''tenant_id is invalid'')
        else Inr tenant_id))"

definition require_customer_id :: "string option \<Rightarrow> api_error + string" where
  "require_customer_id requested =
     and_then (ok_or (ApiError 400 ''customer_required'' ''customer_id is required'')
                 (nonempty_opt (map_option trim requested))) (\<lambda>customer_id.
     if \<not> valid_identity_component customer_id
       then Inl (ApiError 400 ''invalid_identity'' ''customer_id is invalid'')
     else Inr customer_id)"

definition resolve_session_id :: "baggage_lookup \<Rightarrow> string option \<Rightarrow> api_error + string option" where
  "resolve_session_id baggage requested_text =
     (let requested = nonempty_opt requested_text in
      if (case requested of None \<Rightarrow> False | Some v \<Rightarrow> \<not> valid_identity_component v)
        then Inl (ApiError 400 ''invalid_session'' ''session_id is invalid'')
      else
        let propagated = nonempty_opt (baggage ''session.id'') in
        if identities_conflict requested propagated
          then Inl (ApiError 409 ''identity_conflict''
                      ''session identity conflicts with propagated request identity'')
        else Inr (or_else requested propagated))"

definition resolve_checkout_identity ::
  "baggage_lookup \<Rightarrow> string \<Rightarrow> string option \<Rightarrow> string \<Rightarrow> api_error + (string \<times> string)" where
  "resolve_checkout_identity baggage requested_tenant requested_session fallback_session =
     and_then (resolve_tenant_id baggage requested_tenant) (\<lambda>tenant_id.
     and_then (resolve_session_id baggage requested_session) (\<lambda>resolved.
     let session_id = (case resolved of None \<Rightarrow> fallback_session | Some s \<Rightarrow> s) in
     if \<not> valid_identity_component session_id
       then Inl (ApiError 400 ''invalid_session'' ''session_id is invalid'')
     else Inr (tenant_id, session_id)))"

subsection \<open>Cart input\<close>

definition validate_cart_scope :: "cart_item_scope \<Rightarrow> api_error + unit" where
  "validate_cart_scope scope =
     (if \<not> valid_identity_component (cs_tenant_id scope)
         \<or> \<not> valid_identity_component (cs_customer_id scope)
         \<or> \<not> valid_identity_component (cs_cart_id scope)
      then Inl (ApiError 400 ''invalid_cart_scope'' ''tenant_id, customer_id, and cart_id are required'')
      else Inr ())"

definition validate_cart_sku :: "string \<Rightarrow> api_error + unit" where
  "validate_cart_sku sku =
     (if trim sku = [] then Inl (ApiError 400 ''invalid_cart_sku'' ''sku is required'') else Inr ())"

definition validate_replace_cart_item :: "replace_cart_item_input \<Rightarrow> string \<Rightarrow> api_error + u32" where
  "validate_replace_cart_item input sku =
     and_then (validate_cart_scope (rp_scope input)) (\<lambda>_.
     and_then (validate_cart_sku sku) (\<lambda>_.
     let err = ApiError 400 ''invalid_cart_quantity'' ''quantity must be between 1 and 100'' in
     if rp_quantity input < 1 \<or> rp_quantity input > uint CHECKOUT_MAX_QUANTITY then Inl err
     else and_then (ok_or err (checked_u32 (rp_quantity input))) (\<lambda>q. Inr (word_of_int q))))"

subsection \<open>Checkout input\<close>

definition bounded_identifier :: "string \<Rightarrow> bool" where
  "bounded_identifier s \<longleftrightarrow>
     trim s \<noteq> [] \<and> length s \<le> CHECKOUT_IDENTIFIER_LENGTH \<and> \<not> has_control s"

definition bad_identifier :: "string option \<Rightarrow> bool" where
  "bad_identifier v \<longleftrightarrow> (case v of None \<Rightarrow> False | Some s \<Rightarrow> \<not> bounded_identifier s)"

definition three_letter_code :: "string \<Rightarrow> bool" where
  "three_letter_code s \<longleftrightarrow> length s = 3 \<and> s = to_ascii_uppercase s \<and> list_all is_ascii_alphabetic s"

definition validate_checkout_item :: "string list \<Rightarrow> checkout_item_input \<Rightarrow> api_error + string list" where
  "validate_checkout_item skus item =
     (if \<not> bounded_identifier (ci_sku item)
        then Inl (ApiError 400 ''invalid_sku'' ''each item needs a valid SKU'')
      else if ci_quantity item = 0 \<or> ci_quantity item > CHECKOUT_MAX_QUANTITY
        then Inl (ApiError 400 ''invalid_quantity'' ''each item needs a quantity from one to one hundred'')
      else if ci_sku item \<in> set skus
        then Inl (ApiError 400 ''duplicate_sku'' ''each SKU may appear only once in a checkout'')
      else Inr (ci_sku item # skus))"

definition validate_input :: "checkout_input \<Rightarrow> api_error + unit" where
  "validate_input input =
     (if \<not> bounded_identifier (in_tenant_id input) \<or> \<not> bounded_identifier (in_customer_id input)
        then Inl (ApiError 400 ''invalid_identity'' ''tenant_id and customer_id are required'')
      else if bad_identifier (in_session_id input)
        then Inl (ApiError 400 ''invalid_session'' ''session_id is invalid'')
      else if bad_identifier (in_cart_id input)
        then Inl (ApiError 400 ''invalid_cart'' ''cart_id is invalid'')
      else if bad_identifier (in_request_id input)
        then Inl (ApiError 400 ''invalid_request_id'' ''request_id is invalid'')
      else if bad_identifier (in_promotion_code input)
        then Inl (ApiError 400 ''invalid_promotion'' ''promotion_code is invalid'')
      else if \<not> three_letter_code (in_currency_code input)
        then Inl (ApiError 400 ''invalid_currency'' ''currency_code must be three uppercase letters'')
      else if in_items input = [] \<or> length (in_items input) > CHECKOUT_MAX_ITEMS
        then Inl (ApiError 400 ''invalid_items'' ''checkout needs between one and fifty items'')
      else and_then (try_fold validate_checkout_item [] (in_items input)) (\<lambda>_. Inr ()))"

definition nonblank_opt :: "string option \<Rightarrow> string option" where
  "nonblank_opt v = (case v of None \<Rightarrow> None | Some s \<Rightarrow> if trim s \<noteq> [] then Some s else None)"

definition require_payment_credentials :: "checkout_input \<Rightarrow> api_error + (string \<times> string)" where
  "require_payment_credentials input =
     and_then (ok_or (ApiError 400 ''payment_method_required'' ''payment_method_token is required'')
                 (nonblank_opt (in_payment_method_token input))) (\<lambda>token.
     if \<not> valid_identity_component token
       then Inl (ApiError 400 ''invalid_payment_method_token'' ''payment_method_token is invalid'')
     else
       and_then (ok_or (ApiError 400 ''payment_method_required'' ''payment_method_type is required'')
                   (nonblank_opt (in_payment_method_type input))) (\<lambda>method.
       if to_ascii_lowercase (trim method) \<notin> {''card'', ''bank_account'', ''bank-account'', ''wallet''}
         then Inl (ApiError 400 ''invalid_payment_method_type'' ''payment_method_type is unsupported'')
       else Inr (token, method)))"

definition unbounded_fault_requested :: "checkout_input \<Rightarrow> bool" where
  "unbounded_fault_requested input \<longleftrightarrow> in_retry input > 3 \<or> in_timeout_ms input > 30000"

subsection \<open>HTTP boundary\<close>

definition resolve_http_tenant_id :: "to_str \<Rightarrow> header_map \<Rightarrow> string \<Rightarrow> api_error + string" where
  "resolve_http_tenant_id to_str headers requested =
     map_err (\<lambda>error. case error of
          Missing \<Rightarrow> ApiError 400 ''tenant_required''
                       ''tenant_id is required in the request or tenant.id baggage''
        | Invalid \<Rightarrow> ApiError 400 ''invalid_identity'' ''tenant identity is invalid''
        | Conflicting \<Rightarrow> ApiError 409 ''identity_conflict'' ''tenant identity sources conflict'')
       (resolve_http_tenant_identity to_str headers
          (if trim requested \<noteq> [] then Some requested else None))"

definition normalize_checkout_input ::
  "string \<Rightarrow> to_str \<Rightarrow> header_map \<Rightarrow> baggage_lookup \<Rightarrow> checkout_input \<Rightarrow> string
     \<Rightarrow> api_error + checkout_input" where
  "normalize_checkout_input uuid to_str headers parent input request_prefix =
     (let request_id = (case nonblank_opt (in_request_id input) of
                          None \<Rightarrow> request_prefix @ ''-'' @ uuid | Some r \<Rightarrow> r) in
      and_then (resolve_http_tenant_id to_str headers (in_tenant_id input)) (\<lambda>tenant_id.
      and_then (resolve_session_id parent (in_session_id input)) (\<lambda>resolved.
      let session_id = (case resolved of None \<Rightarrow> ''session-'' @ request_id | Some s \<Rightarrow> s) in
      if trim session_id = [] then Inl (ApiError 400 ''invalid_session'' ''session_id is invalid'')
      else
        let input' = input\<lparr>in_tenant_id := tenant_id, in_session_id := Some session_id,
                           in_request_id := Some request_id\<rparr> in
        and_then (validate_input input') (\<lambda>_. Inr input'))))"

subsection \<open>Idempotency\<close>

definition json_item :: "checkout_item_input \<Rightarrow> json" where
  "json_item i = JObj [(''sku'', JStr (ci_sku i)), (''quantity'', JNum (uint (ci_quantity i)))]"

definition canonical_request :: "checkout_input \<Rightarrow> json" where
  "canonical_request input =
     JObj [(''tenant_id'', JStr (in_tenant_id input)),
           (''customer_id'', JStr (in_customer_id input)),
           (''session_id'', json_opt_str (in_session_id input)),
           (''cart_id'', json_opt_str (in_cart_id input)),
           (''items'', JArr (map json_item (in_items input))),
           (''currency_code'', JStr (in_currency_code input)),
           (''promotion_code'', json_opt_str (in_promotion_code input)),
           (''segment'', JStr (in_segment input)),
           (''tier'', JStr (in_tier input)),
           (''region'', JStr (in_region input)),
           (''priority'', JStr (in_priority input)),
           (''payment_method_token'', json_opt_str (in_payment_method_token input)),
           (''payment_method_type'', json_opt_str (in_payment_method_type input)),
           (''delay_ms'', JNum (uint (in_delay_ms input))),
           (''slow'', JNum (uint (in_slow input))),
           (''retry'', JNum (uint (in_retry input))),
           (''timeout_ms'', JNum (uint (in_timeout_ms input))),
           (''degrade'', JBool (in_degrade input))]"

definition checkout_request_fingerprint ::
  "(string \<Rightarrow> string) \<Rightarrow> (json \<Rightarrow> string) \<Rightarrow> checkout_input \<Rightarrow> string" where
  "checkout_request_fingerprint sha256_hex print input = sha256_hex (print (canonical_request input))"

definition REPLAY_ERROR_CODES :: "string list" where
  "REPLAY_ERROR_CODES =
     [''amount_out_of_range'', ''catalog_protocol_error'', ''catalog_query_failed'', ''catalog_unavailable'',
      ''database_timeout'', ''database_unavailable'', ''event_encode_failed'', ''event_protocol_error'',
      ''invalid_cart_item'', ''invalid_cart'', ''invalid_currency'', ''invalid_identity'', ''invalid_items'',
      ''invalid_quantity'', ''invalid_request_id'', ''invalid_session'', ''inventory_release_failed'',
      ''inventory_release_unavailable'', ''inventory_protocol_error'', ''inventory_reservation_failed'',
      ''inventory_unavailable'', ''inventory_commit_failed'', ''inventory_commit_unavailable'',
      ''inventory_commit_protocol_error'', ''checkout_post_consume_reconciliation'',
      ''checkout_reconciliation_required'', ''messaging_rejected'', ''messaging_unavailable'',
      ''order_not_found'', ''payment_already_processed'', ''payment_declined'', ''payment_failed'',
      ''payment_insufficient_funds'', ''payment_internal'', ''payment_invalid_method'',
      ''payment_invalid_request'', ''payment_invalid_state'', ''payment_not_found'', ''payment_pending'',
      ''payment_protocol_error'', ''payment_provider_unavailable'', ''payment_reconciliation_failed'',
      ''payment_reconciliation_pending'', ''payment_timeout'', ''pricing_failed'',
      ''pricing_invalid_request'', ''pricing_protocol_error'', ''pricing_timeout'', ''pricing_unavailable'',
      ''product_not_found'', ''recommendation_protocol_error'', ''recommendation_unavailable'']"

definition replay_error_code :: "string \<Rightarrow> string" where
  "replay_error_code code = (if code \<in> set REPLAY_ERROR_CODES then code else ''checkout_request_failed'')"

definition stale_reclaim_order_is_safe :: "string option \<Rightarrow> string option \<Rightarrow> bool" where
  "stale_reclaim_order_is_safe order_id order_status \<longleftrightarrow> order_id = None \<or> order_status = Some ''pending''"

subsection \<open>Facts\<close>

lemma bounded_identifier_eq: "bounded_identifier = valid_identity_component"
  by (rule ext) (simp add: bounded_identifier_def valid_identity_component_def)

lemma json_opt_str_inj [simp]: "json_opt_str a = json_opt_str b \<longleftrightarrow> a = b"
  by (cases a; cases b) (simp_all add: json_opt_str_def)

lemma json_item_inj [simp]: "json_item a = json_item b \<longleftrightarrow> a = b"
  by (cases a; cases b) (auto simp: json_item_def word_uint_eq_iff)

lemma map_json_item_inj [simp]: "map json_item xs = map json_item ys \<longleftrightarrow> xs = ys"
  by (rule inj_map_eq_map) (simp add: inj_def)

lemma validate_item_ok:
  "validate_checkout_item skus i = Inr skus' \<longleftrightarrow>
     skus' = ci_sku i # skus \<and> bounded_identifier (ci_sku i) \<and> 0 < ci_quantity i
     \<and> ci_quantity i \<le> CHECKOUT_MAX_QUANTITY \<and> ci_sku i \<notin> set skus"
  by (auto simp: validate_checkout_item_def word_neq_0_conv not_less)

lemma validate_items_ok:
  "try_fold validate_checkout_item skus items = Inr skus' \<longleftrightarrow>
     skus' = rev (map ci_sku items) @ skus
     \<and> (\<forall>i \<in> set items. bounded_identifier (ci_sku i) \<and> 0 < ci_quantity i \<and> ci_quantity i \<le> CHECKOUT_MAX_QUANTITY)
     \<and> distinct (map ci_sku items) \<and> set (map ci_sku items) \<inter> set skus = {}"
  by (induction items arbitrary: skus) (auto simp: validate_item_ok)

lemma resolve_tenant_id_ok:
  "resolve_tenant_id baggage text = Inr t \<longleftrightarrow>
     valid_identity_component t
     \<and> (trim text \<noteq> [] \<longrightarrow> t = trim text)
     \<and> (case nonempty_opt (baggage ''tenant.id'') of None \<Rightarrow> trim text \<noteq> [] | Some p \<Rightarrow> t = p)"
  by (auto simp: resolve_tenant_id_def Let_def identities_conflict_def or_else_def split: option.splits if_splits)

end
