(* ===== verification/CheckoutLease.thy ===== *)
theory CheckoutLease
  imports CheckoutInput
begin

text \<open>
  Leases and fences of checkout (\<open>services/checkout/src/infrastructure.rs\<close> and the idempotency records of
  \<open>application.rs\<close>). A checkout attempt row is the durable parent generation: its \<open>lease_token\<close> is the
  fence every later effect presents. Reconciliation and compensation workers hold claims of their own
  below it.

  \<open>pg\<close> is the display text of a database error, \<open>pool\<close> the answer of the connection pool, \<open>now\<close> the
  statement's \<open>CURRENT_TIMESTAMP\<close>; fresh UUIDs are arguments.
\<close>

subsection \<open>Statements\<close>

definition db_error :: "(sql_error \<Rightarrow> string) \<Rightarrow> sql_error \<Rightarrow> api_error" where
  "db_error pg e = ApiError 503 ''database_unavailable'' (''database: '' @ pg e)"

definition acquire_db :: "pool_result \<Rightarrow> api_error + unit" where
  "acquire_db pool =
     (case pool of
        Pool_ok \<Rightarrow> Inr ()
      | Pool_timeout \<Rightarrow> Inl (ApiError 503 ''database_timeout'' ''database pool wait timed out'')
      | Pool_error e \<Rightarrow> Inl (ApiError 503 ''database_unavailable'' (''database: '' @ e)))"

definition lease_lost :: "string \<Rightarrow> api_error" where
  "lease_lost message = ApiError 409 ''checkout_lease_lost'' message"

definition update_attempts ::
  "(sql_error \<Rightarrow> string) \<Rightarrow> (attempt_row \<Rightarrow> bool) \<Rightarrow> (attempt_row \<Rightarrow> attempt_row) \<Rightarrow> commerce_db
     \<Rightarrow> api_error + (nat \<times> commerce_db)" where
  "update_attempts pg p f db =
     and_then (map_err (db_error pg) (sql_update attempt_check p f (attempts db)))
       (\<lambda>(n, rows). Inr (n, db\<lparr>attempts := rows\<rparr>))"

definition update_recons ::
  "(sql_error \<Rightarrow> string) \<Rightarrow> (recon_row \<Rightarrow> bool) \<Rightarrow> (recon_row \<Rightarrow> recon_row) \<Rightarrow> commerce_db
     \<Rightarrow> api_error + (nat \<times> commerce_db)" where
  "update_recons pg p f db =
     and_then (map_err (db_error pg) (sql_update recon_check p f (recons db)))
       (\<lambda>(n, rows). Inr (n, db\<lparr>recons := rows\<rparr>))"

definition update_compensations ::
  "(sql_error \<Rightarrow> string) \<Rightarrow> (compensation_row \<Rightarrow> bool) \<Rightarrow> (compensation_row \<Rightarrow> compensation_row) \<Rightarrow> commerce_db
     \<Rightarrow> api_error + (nat \<times> commerce_db)" where
  "update_compensations pg p f db =
     and_then (map_err (db_error pg) (sql_update compensation_check p f (compensations db)))
       (\<lambda>(n, rows). Inr (n, db\<lparr>compensations := rows\<rparr>))"

definition update_orders ::
  "(sql_error \<Rightarrow> string) \<Rightarrow> (order_row \<Rightarrow> bool) \<Rightarrow> (order_row \<Rightarrow> order_row) \<Rightarrow> commerce_db
     \<Rightarrow> api_error + (nat \<times> commerce_db)" where
  "update_orders pg p f db =
     and_then (map_err (db_error pg) (sql_update order_check p f (orders db)))
       (\<lambda>(n, rows). Inr (n, db\<lparr>orders := rows\<rparr>))"

subsection \<open>Who holds what\<close>

definition attempt_is :: "string \<Rightarrow> string \<Rightarrow> string \<Rightarrow> attempt_row \<Rightarrow> bool" where
  "attempt_is tenant_id request_id token a \<longleftrightarrow>
     at_tenant a = tenant_id \<and> at_request a = request_id \<and> at_lease_token a = token"

definition lease_live :: "timestamp \<Rightarrow> attempt_row \<Rightarrow> bool" where
  "lease_live now a \<longleftrightarrow> at_status a = ''started'' \<and> after_now now (at_lease_expires_at a)"

definition recon_is :: "string \<Rightarrow> string \<Rightarrow> string \<Rightarrow> recon_row \<Rightarrow> bool" where
  "recon_is tenant_id request_id parent_token r \<longleftrightarrow>
     rc_tenant r = tenant_id \<and> rc_request r = request_id \<and> rc_checkout_lease_token r = parent_token"

definition recon_live :: "timestamp \<Rightarrow> recon_row \<Rightarrow> bool" where
  "recon_live now r \<longleftrightarrow> rc_status r = ''processing'' \<and> after_now now (rc_lease_expires_at r)"

text \<open>\<open>EXISTS (SELECT 1 FROM checkout_payment_reconciliations r WHERE ... AND r.status='processing' ...)\<close>
  for the generation of an attempt row, optionally for one worker token.\<close>

definition attempt_reconciling :: "commerce_db \<Rightarrow> timestamp \<Rightarrow> string option \<Rightarrow> attempt_row \<Rightarrow> bool" where
  "attempt_reconciling db now worker a \<longleftrightarrow>
     list_ex (\<lambda>r. recon_is (at_tenant a) (at_request a) (at_lease_token a) r \<and> recon_live now r
        \<and> (worker \<noteq> None \<longrightarrow> rc_lease_token r = worker)) (recons db)"

definition parent_current :: "commerce_db \<Rightarrow> timestamp \<Rightarrow> string option \<Rightarrow> attempt_row \<Rightarrow> bool" where
  "parent_current db now worker a \<longleftrightarrow>
     at_status a = ''failed'' \<or> lease_live now a
     \<or> (at_status a = ''pending'' \<and> attempt_reconciling db now worker a)"

definition comp_held ::
  "timestamp \<Rightarrow> string \<Rightarrow> string \<Rightarrow> string \<Rightarrow> string \<Rightarrow> string \<Rightarrow> compensation_row \<Rightarrow> bool" where
  "comp_held now tenant_id task_id claim_token request_id token t \<longleftrightarrow>
     ct_tenant t = tenant_id \<and> ct_id t = task_id \<and> ct_claim_token t = Some claim_token
     \<and> ct_status t = ''processing'' \<and> after_now now (ct_claim_expires_at t)
     \<and> ct_checkout_request_id t = request_id \<and> ct_checkout_lease_token t = token"

definition row_found :: "(sql_error \<Rightarrow> string) \<Rightarrow> 'r list \<Rightarrow> api_error + bool" where
  "row_found pg rows = and_then (map_err (db_error pg) (query_opt rows)) (\<lambda>r. Inr (r \<noteq> None))"

definition lock_checkout_parent ::
  "(sql_error \<Rightarrow> string) \<Rightarrow> timestamp \<Rightarrow> string \<Rightarrow> string \<Rightarrow> string \<Rightarrow> commerce_db \<Rightarrow> api_error + bool" where
  "lock_checkout_parent pg now tenant_id request_id parent_token db =
     row_found pg (filter (\<lambda>a. attempt_is tenant_id request_id parent_token a
        \<and> parent_current db now None a) (attempts db))"

fun lock_checkout_fence ::
  "(sql_error \<Rightarrow> string) \<Rightarrow> timestamp \<Rightarrow> checkout_fence \<Rightarrow> commerce_db \<Rightarrow> api_error + unit" where
  "lock_checkout_fence pg now (Attempt lease) db =
     and_then (row_found pg (filter (\<lambda>a.
        attempt_is (cl_tenant_id lease) (cl_request_id lease) (cl_token lease) a \<and> lease_live now a)
        (attempts db))) (\<lambda>current.
     if current then Inr () else Inl (lease_lost ''checkout parent generation is no longer current''))"
| "lock_checkout_fence pg now (PaymentReconciliation tenant_id request_id parent_token worker_token) db =
     and_then (row_found pg (filter (\<lambda>a. attempt_is tenant_id request_id parent_token a
        \<and> parent_current db now (Some worker_token) a) (attempts db))) (\<lambda>parent.
     if \<not> parent then Inl (lease_lost ''checkout parent generation is no longer current'')
     else
       and_then (row_found pg (filter (\<lambda>r. recon_is tenant_id request_id parent_token r
          \<and> rc_lease_token r = Some worker_token \<and> recon_live now r) (recons db))) (\<lambda>worker.
       if worker then Inr ()
       else Inl (lease_lost ''payment reconciliation worker claim is no longer current'')))"
| "lock_checkout_fence pg now (Compensation tenant_id request_id token task_id claim_token) db =
     and_then (lock_checkout_parent pg now tenant_id request_id token db) (\<lambda>parent.
     if \<not> parent then Inl (lease_lost ''checkout parent generation is no longer current'')
     else
       and_then (row_found pg (filter (comp_held now tenant_id task_id claim_token request_id token)
          (compensations db))) (\<lambda>task.
       if task then Inr ()
       else Inl (lease_lost ''compensation worker claim is no longer current'')))"

fun fence_owned ::
  "(sql_error \<Rightarrow> string) \<Rightarrow> timestamp \<Rightarrow> checkout_fence \<Rightarrow> commerce_db \<Rightarrow> api_error + bool" where
  "fence_owned pg now (Attempt lease) db =
     row_found pg (filter (\<lambda>a. attempt_is (cl_tenant_id lease) (cl_request_id lease) (cl_token lease) a
        \<and> lease_live now a) (attempts db))"
| "fence_owned pg now (PaymentReconciliation tenant_id request_id parent_token worker_token) db =
     row_found pg (filter (\<lambda>r. recon_is tenant_id request_id parent_token r
        \<and> rc_lease_token r = Some worker_token \<and> recon_live now r
        \<and> list_ex (\<lambda>a. attempt_is (rc_tenant r) (rc_request r) (rc_checkout_lease_token r) a
             \<and> (at_status a = ''failed'' \<or> lease_live now a \<or> at_status a = ''pending'')) (attempts db))
        (recons db))"
| "fence_owned pg now (Compensation tenant_id request_id token task_id claim_token) db =
     row_found pg (filter (\<lambda>t. comp_held now tenant_id task_id claim_token request_id token t
        \<and> list_ex (\<lambda>a. attempt_is (ct_tenant t) (ct_checkout_request_id t) (ct_checkout_lease_token t) a
             \<and> parent_current db now None a) (attempts db)) (compensations db))"

definition assert_checkout_fence ::
  "(sql_error \<Rightarrow> string) \<Rightarrow> pool_result \<Rightarrow> timestamp \<Rightarrow> checkout_fence \<Rightarrow> commerce_db \<Rightarrow> api_error + unit" where
  "assert_checkout_fence pg pool now fence db =
     and_then (acquire_db pool) (\<lambda>_.
     and_then (fence_owned pg now fence db) (\<lambda>owned.
     if owned then Inr ()
     else Inl (lease_lost (fence_kind fence @ '' lease is no longer current''))))"

text \<open>
  The remote call runs between two fence checks, on the databases it finds before and after; \<open>result\<close> is
  what the operation answers. The heartbeat in between is \<open>refresh_checkout_fence\<close>.
\<close>

definition with_checkout_fence ::
  "(sql_error \<Rightarrow> string) \<Rightarrow> checkout_fence \<Rightarrow> (pool_result \<times> timestamp \<times> commerce_db)
     \<Rightarrow> api_error + 'a \<Rightarrow> (pool_result \<times> timestamp \<times> commerce_db) \<Rightarrow> api_error + 'a" where
  "with_checkout_fence pg fence before result after =
     and_then (case before of (pool, now, db) \<Rightarrow> assert_checkout_fence pg pool now fence db) (\<lambda>_.
     case (case after of (pool, now, db) \<Rightarrow> assert_checkout_fence pg pool now fence db) of
       Inl error \<Rightarrow> Inl error
     | Inr _ \<Rightarrow> result)"

definition extend_attempt :: "timestamp \<Rightarrow> attempt_row \<Rightarrow> attempt_row" where
  "extend_attempt now a = a\<lparr>at_updated_at := now, at_lease_expires_at := Some (now + seconds 600)\<rparr>"

definition extend_recon :: "timestamp \<Rightarrow> recon_row \<Rightarrow> recon_row" where
  "extend_recon now r = r\<lparr>rc_updated_at := now, rc_lease_expires_at := Some (now + seconds 300)\<rparr>"

definition extend_comp :: "timestamp \<Rightarrow> compensation_row \<Rightarrow> compensation_row" where
  "extend_comp now t = t\<lparr>ct_updated_at := now, ct_claim_expires_at := Some (now + seconds 300)\<rparr>"

fun refresh_fence_tx ::
  "(sql_error \<Rightarrow> string) \<Rightarrow> timestamp \<Rightarrow> checkout_fence \<Rightarrow> commerce_db \<Rightarrow> api_error + (unit \<times> commerce_db)" where
  "refresh_fence_tx pg now (Attempt lease) db =
     and_then (update_attempts pg (\<lambda>a.
        attempt_is (cl_tenant_id lease) (cl_request_id lease) (cl_token lease) a \<and> lease_live now a)
        (extend_attempt now) db) (\<lambda>(changed, db1).
     if changed = 1 then Inr ((), db1)
     else Inl (lease_lost ''attempt lease is no longer current''))"
| "refresh_fence_tx pg now (PaymentReconciliation tenant_id request_id parent_token worker_token) db =
     and_then (lock_checkout_fence pg now
        (PaymentReconciliation tenant_id request_id parent_token worker_token) db) (\<lambda>_.
     and_then (update_recons pg (\<lambda>r. recon_is tenant_id request_id parent_token r
        \<and> rc_lease_token r = Some worker_token \<and> recon_live now r) (extend_recon now) db) (\<lambda>(changed, db1).
     if changed = 1 then Inr ((), db1)
     else Inl (lease_lost ''payment_reconciliation lease is no longer current'')))"
| "refresh_fence_tx pg now (Compensation tenant_id request_id token task_id claim_token) db =
     and_then (lock_checkout_fence pg now (Compensation tenant_id request_id token task_id claim_token) db) (\<lambda>_.
     and_then (update_compensations pg (comp_held now tenant_id task_id claim_token request_id token)
        (extend_comp now) db) (\<lambda>(changed, db1).
     if changed \<noteq> 1 then Inl (lease_lost ''compensation worker lease is no longer current'')
     else
       and_then (update_attempts pg (\<lambda>a. attempt_is tenant_id request_id token a \<and> lease_live now a)
          (extend_attempt now) db1) (\<lambda>(_, db2).
       and_then (update_recons pg (\<lambda>r. recon_is tenant_id request_id token r \<and> recon_live now r)
          (extend_recon now) db2) (\<lambda>(_, db3).
       Inr ((), db3)))))"

definition refresh_checkout_fence ::
  "(sql_error \<Rightarrow> string) \<Rightarrow> pool_result \<Rightarrow> timestamp \<Rightarrow> checkout_fence \<Rightarrow> commerce_db
     \<Rightarrow> (api_error + unit) \<times> commerce_db" where
  "refresh_checkout_fence pg pool now fence =
     transact (\<lambda>db. and_then (acquire_db pool) (\<lambda>_. refresh_fence_tx pg now fence db))"

end
