(* ===== verification/CheckoutAttempt.thy ===== *)
theory CheckoutAttempt
  imports CheckoutLease
begin

text \<open>
  The idempotency record of a checkout request (\<open>services/checkout/src/application.rs\<close>):
  \<open>claim_checkout_attempt\<close> starts a generation, joins a running one, replays a stored answer or reclaims a
  stale generation; \<open>record_checkout_response\<close> and \<open>record_checkout_failure\<close> store the answer under the
  lease. The stored \<open>jsonb\<close> answer is read back as the value that was written.

  A \<open>NULL\<close> in a column the code reads as \<open>String\<close> panics; the connection is dropped and the transaction
  rolls back. That is the outcome \<open>Panic\<close>.
\<close>

datatype fault = Refused api_error | Panic

definition attempt_stale :: "timestamp \<Rightarrow> attempt_row \<Rightarrow> bool" where
  "attempt_stale now a \<longleftrightarrow>
     (case at_lease_expires_at a of
        Some e \<Rightarrow> e
      | None \<Rightarrow> at_updated_at a + seconds CHECKOUT_ATTEMPT_STALE_AFTER) \<le> now"

definition attempt_order_status :: "commerce_db \<Rightarrow> attempt_row \<Rightarrow> string option" where
  "attempt_order_status db a =
     map_option ord_status (List.find (\<lambda>o'. ord_tenant o' = at_tenant a \<and> Some (ord_id o') = at_order_id a)
       (orders db))"

subsection \<open>Reclaiming a stale generation\<close>

definition latest_payment :: "commerce_db \<Rightarrow> order_row \<Rightarrow> payment_row option" where
  "latest_payment db o' =
     limit1 (order_by (\<lambda>p q. pay_created_at q \<le> pay_created_at p)
       (filter (\<lambda>p. pay_tenant p = ord_tenant o' \<and> pay_order_id p = ord_id o') (payments db)))"

definition paid_payload :: "string \<Rightarrow> string \<Rightarrow> string \<Rightarrow> order_row \<Rightarrow> payment_row option \<Rightarrow> json" where
  "paid_payload tenant_id order_id customer_id o' p =
     JObj [(''status'', JStr ''paid''), (''order_status'', JStr ''paid''), (''order_id'', JStr order_id),
           (''order_number'', JStr (ord_number o')), (''tenant_id'', JStr tenant_id),
           (''customer_id'', JStr customer_id), (''currency'', JStr (ord_currency o')),
           (''total_minor'', JNum (ord_total_minor o')),
           (''payment_id'', json_opt_str (map_option pay_id p)),
           (''payment_status'', JStr (case p of None \<Rightarrow> ''captured'' | Some p' \<Rightarrow> pay_status p')),
           (''payment_recovered'', JBool True)]"

definition paid_attempt :: "timestamp \<Rightarrow> json \<Rightarrow> attempt_row \<Rightarrow> attempt_row" where
  "paid_attempt now payload a =
     a\<lparr>at_status := ''paid'', at_response_payload := Some payload, at_error_status := None,
       at_error_code := None, at_error_message := None, at_lease_expires_at := None, at_updated_at := now\<rparr>"

definition claim_paid ::
  "(sql_error \<Rightarrow> string) \<Rightarrow> timestamp \<Rightarrow> string \<Rightarrow> string \<Rightarrow> attempt_row \<Rightarrow> commerce_db
     \<Rightarrow> fault + (checkout_attempt_claim \<times> commerce_db)" where
  "claim_paid pg now tenant_id request_id a db =
     and_then (ok_or (Refused (ApiError 500 ''checkout_idempotency_corrupt''
                        ''paid checkout attempt has no order linkage'')) (at_order_id a)) (\<lambda>paid_order_id.
     and_then (map_err (Refused \<circ> db_error pg) (query_one (filter (\<lambda>o'. ord_tenant o' = tenant_id
        \<and> ord_id o' = paid_order_id \<and> ord_status o' = ''paid'') (orders db)))) (\<lambda>paid_order.
     and_then (ok_or Panic (ord_customer_id paid_order)) (\<lambda>customer_id.
     let payload = paid_payload tenant_id paid_order_id customer_id paid_order (latest_payment db paid_order) in
     and_then (map_err Refused (update_attempts pg
        (\<lambda>x. attempt_is tenant_id request_id (at_lease_token a) x \<and> at_status x = ''started''
             \<and> at_order_id x = Some paid_order_id)
        (paid_attempt now payload) db)) (\<lambda>(updated, db1).
     if updated \<noteq> 1 then Inl (Refused (lease_lost ''paid checkout reclaim lost its lease''))
     else Inr (Replay payload, db1)))))"

definition restart_attempt :: "timestamp \<Rightarrow> string \<Rightarrow> attempt_row \<Rightarrow> attempt_row" where
  "restart_attempt now token a =
     a\<lparr>at_status := ''started'', at_lease_token := token,
       at_lease_expires_at := Some (now + seconds CHECKOUT_ATTEMPT_STALE_AFTER),
       at_response_payload := None, at_error_status := None, at_error_code := None,
       at_error_message := None, at_updated_at := now\<rparr>"

definition coalesce :: "string option \<Rightarrow> string \<Rightarrow> string option" where
  "coalesce v d = Some (case v of None \<Rightarrow> d | Some x \<Rightarrow> x)"

definition transfer_recon :: "timestamp \<Rightarrow> string \<Rightarrow> recon_row \<Rightarrow> recon_row" where
  "transfer_recon now token r =
     r\<lparr>rc_checkout_lease_token := token,
       rc_status := (if rc_status r = ''processing''
                     then if rc_attempts r < PAYMENT_RECONCILIATION_MAX_ATTEMPTS then ''queued''
                          else ''awaiting_provider''
                     else rc_status r),
       rc_available_at := (if rc_status r = ''processing'' then now else rc_available_at r),
       rc_claimed_at := None, rc_lease_token := None, rc_lease_expires_at := None,
       rc_last_error := (if rc_status r = ''processing''
                         then coalesce (rc_last_error r)
                                ''parent checkout generation reclaimed; worker claim retired''
                         else rc_last_error r),
       rc_updated_at := now\<rparr>"

definition supersede_comp :: "timestamp \<Rightarrow> compensation_row \<Rightarrow> compensation_row" where
  "supersede_comp now t =
     t\<lparr>ct_status := ''superseded'', ct_claimed_at := None, ct_claim_token := None,
       ct_claim_expires_at := None, ct_completed_at := None,
       ct_last_error := coalesce (ct_last_error t)
          ''parent checkout generation reclaimed; compensation intent quarantined'',
       ct_updated_at := now\<rparr>"

definition retire_children ::
  "(sql_error \<Rightarrow> string) \<Rightarrow> timestamp \<Rightarrow> string \<Rightarrow> string \<Rightarrow> string \<Rightarrow> string \<Rightarrow> commerce_db
     \<Rightarrow> api_error + commerce_db" where
  "retire_children pg now tenant_id request_id previous_token new_token db =
     and_then (update_recons pg (\<lambda>r. recon_is tenant_id request_id previous_token r
        \<and> rc_status r \<noteq> ''completed'') (transfer_recon now new_token) db) (\<lambda>(_, db1).
     and_then (update_compensations pg (\<lambda>t. ct_tenant t = tenant_id \<and> ct_checkout_request_id t = request_id
        \<and> ct_checkout_lease_token t = previous_token \<and> ct_status t \<notin> {''completed'', ''superseded''})
        (supersede_comp now) db1) (\<lambda>(_, db2).
     Inr db2))"

definition claim_started ::
  "(sql_error \<Rightarrow> string) \<Rightarrow> timestamp \<Rightarrow> string \<Rightarrow> string \<Rightarrow> string \<Rightarrow> attempt_row \<Rightarrow> commerce_db
     \<Rightarrow> fault + (checkout_attempt_claim \<times> commerce_db)" where
  "claim_started pg now new_lease_token tenant_id request_id a db =
     (if \<not> attempt_stale now a then Inr (InProgress, db)
      else if attempt_order_status db a = Some ''paid'' then claim_paid pg now tenant_id request_id a db
      else if \<not> stale_reclaim_order_is_safe (at_order_id a) (attempt_order_status db a)
        then Inl (Refused (ApiError 409 ''checkout_reconciliation_required''
                    ''stale checkout attempt is linked to a non-pending order''))
      else
        and_then (map_err Refused (update_attempts pg
           (\<lambda>x. attempt_is tenant_id request_id (at_lease_token a) x \<and> at_status x = ''started''
                \<and> attempt_stale now x) (restart_attempt now new_lease_token) db)) (\<lambda>(reclaimed, db1).
        if reclaimed = 1 then
          and_then (map_err Refused (retire_children pg now tenant_id request_id (at_lease_token a)
             new_lease_token db1)) (\<lambda>db2. Inr (New new_lease_token, db2))
        else Inr (InProgress, db1)))"

subsection \<open>Replaying a stored answer\<close>

text \<open>\<open>u16::try_from\<close> and \<open>StatusCode::from_u16\<close> on the stored \<open>SMALLINT\<close>.\<close>

definition stored_status_code :: "int option \<Rightarrow> int" where
  "stored_status_code s =
     (case s of None \<Rightarrow> 500 | Some n \<Rightarrow> if 100 \<le> n \<and> n < 1000 then n else 500)"

definition claim_failed :: "attempt_row \<Rightarrow> checkout_attempt_claim" where
  "claim_failed a =
     Failed (ApiError (stored_status_code (at_error_status a))
       (replay_error_code (case at_error_code a of None \<Rightarrow> [] | Some c \<Rightarrow> c))
       (case at_error_message a of None \<Rightarrow> ''checkout request previously failed'' | Some m \<Rightarrow> m))"

definition claim_existing ::
  "(sql_error \<Rightarrow> string) \<Rightarrow> timestamp \<Rightarrow> string \<Rightarrow> string \<Rightarrow> string \<Rightarrow> string \<Rightarrow> attempt_row \<Rightarrow> commerce_db
     \<Rightarrow> fault + (checkout_attempt_claim \<times> commerce_db)" where
  "claim_existing pg now new_lease_token tenant_id request_id fingerprint a db =
     (if at_fingerprint a \<noteq> fingerprint
        then Inl (Refused (ApiError 409 ''checkout_request_conflict''
                    ''request_id was already used for different checkout input''))
      else if at_status a = ''started''
        then claim_started pg now new_lease_token tenant_id request_id a db
      else if at_status a \<in> {''pending'', ''paid'', ''degraded''} then
        and_then (ok_or (Refused (ApiError 500 ''checkout_idempotency_corrupt''
                           ''checkout idempotency response is invalid'')) (at_response_payload a)) (\<lambda>payload.
        Inr (if at_status a = ''pending'' then Pending payload else Replay payload, db))
      else if at_status a = ''failed'' then Inr (claim_failed a, db)
      else Inl (Refused (ApiError 500 ''checkout_idempotency_corrupt''
                  ''checkout idempotency state is invalid'')))"

definition new_attempt :: "timestamp \<Rightarrow> string \<Rightarrow> string \<Rightarrow> string \<Rightarrow> string \<Rightarrow> attempt_row" where
  "new_attempt now lease_token tenant_id request_id fingerprint =
     \<lparr>at_tenant = tenant_id, at_request = request_id, at_fingerprint = fingerprint,
      at_status = ''started'', at_order_id = None, at_response_payload = None, at_error_status = None,
      at_error_code = None, at_error_message = None, at_lease_token = lease_token,
      at_lease_expires_at = Some (now + seconds 600), at_updated_at = now\<rparr>"

definition claim_tx ::
  "(sql_error \<Rightarrow> string) \<Rightarrow> timestamp \<Rightarrow> string \<Rightarrow> string \<Rightarrow> string \<Rightarrow> string \<Rightarrow> string \<Rightarrow> commerce_db
     \<Rightarrow> fault + (checkout_attempt_claim \<times> commerce_db)" where
  "claim_tx pg now lease_token new_lease_token tenant_id request_id fingerprint db =
     (let row = new_attempt now lease_token tenant_id request_id fingerprint in
      case sql_insert at_key attempt_check row (attempts db) of
        Inr rows \<Rightarrow>
          if tenant_id \<in> set (tenants db) then Inr (New lease_token, db\<lparr>attempts := rows\<rparr>)
          else Inl (Refused (db_error pg Foreign_key_violation))
      | Inl Unique_violation \<Rightarrow>
          and_then (map_err (Refused \<circ> db_error pg) (query_opt (filter (\<lambda>a. at_tenant a = tenant_id
             \<and> at_request a = request_id) (attempts db)))) (\<lambda>found.
          and_then (ok_or (Refused (ApiError 500 ''checkout_idempotency_corrupt''
                             ''checkout idempotency record disappeared'')) found) (\<lambda>a.
          claim_existing pg now new_lease_token tenant_id request_id fingerprint a db))
      | Inl e \<Rightarrow> Inl (Refused (db_error pg e)))"

definition claim_checkout_attempt ::
  "(sql_error \<Rightarrow> string) \<Rightarrow> pool_result \<Rightarrow> timestamp \<Rightarrow> string \<Rightarrow> string \<Rightarrow> string \<Rightarrow> string \<Rightarrow> string \<Rightarrow> commerce_db
     \<Rightarrow> (fault + checkout_attempt_claim) \<times> commerce_db" where
  "claim_checkout_attempt pg pool now lease_token new_lease_token tenant_id request_id fingerprint =
     transact (\<lambda>db. and_then (map_err Refused (acquire_db pool)) (\<lambda>_.
       claim_tx pg now lease_token new_lease_token tenant_id request_id fingerprint db))"

subsection \<open>Recording the answer\<close>

definition owned_live :: "timestamp \<Rightarrow> string \<Rightarrow> string \<Rightarrow> string \<Rightarrow> attempt_row \<Rightarrow> bool" where
  "owned_live now tenant_id request_id lease_token a \<longleftrightarrow>
     attempt_is tenant_id request_id lease_token a \<and> lease_live now a"

text \<open>\<open>FOREIGN KEY (tenant_id, order_id) REFERENCES orders\<close>.\<close>

definition order_known :: "commerce_db \<Rightarrow> string \<Rightarrow> string option \<Rightarrow> bool" where
  "order_known db tenant_id order_id \<longleftrightarrow>
     (case order_id of None \<Rightarrow> True
      | Some i \<Rightarrow> list_ex (\<lambda>o'. ord_tenant o' = tenant_id \<and> ord_id o' = i) (orders db))"

definition record_checkout_response ::
  "(sql_error \<Rightarrow> string) \<Rightarrow> pool_result \<Rightarrow> timestamp \<Rightarrow> string \<Rightarrow> string \<Rightarrow> string \<Rightarrow> string \<Rightarrow> string option \<Rightarrow> json
     \<Rightarrow> commerce_db \<Rightarrow> (api_error + unit) \<times> commerce_db" where
  "record_checkout_response pg pool now tenant_id request_id lease_token status order_id payload =
     transact (\<lambda>db. and_then (acquire_db pool) (\<lambda>_.
       and_then (update_attempts pg (owned_live now tenant_id request_id lease_token)
          (\<lambda>a. a\<lparr>at_status := status, at_order_id := order_id, at_response_payload := Some payload,
                 at_error_status := None, at_error_code := None, at_error_message := None,
                 at_lease_expires_at := None, at_updated_at := now\<rparr>) db) (\<lambda>(updated, db1).
       if updated \<noteq> 0 \<and> \<not> order_known db tenant_id order_id
         then Inl (db_error pg Foreign_key_violation)
       else if updated \<noteq> 1
         then Inl (lease_lost ''checkout idempotency response no longer owns an active lease'')
       else Inr ((), db1))))"

text \<open>\<open>status.as_u16() as i16\<close>: an HTTP status code is below 1000, so the cast keeps it.\<close>

definition record_checkout_failure ::
  "(sql_error \<Rightarrow> string) \<Rightarrow> pool_result \<Rightarrow> timestamp \<Rightarrow> string \<Rightarrow> string \<Rightarrow> string \<Rightarrow> api_error
     \<Rightarrow> commerce_db \<Rightarrow> (api_error + unit) \<times> commerce_db" where
  "record_checkout_failure pg pool now tenant_id request_id lease_token error =
     transact (\<lambda>db. and_then (acquire_db pool) (\<lambda>_.
       and_then (update_attempts pg (owned_live now tenant_id request_id lease_token)
          (\<lambda>a. a\<lparr>at_status := ''failed'', at_response_payload := None,
                 at_error_status := Some (ae_status error), at_error_code := Some (ae_code error),
                 at_error_message := Some (ae_message error), at_lease_expires_at := None,
                 at_updated_at := now\<rparr>) db) (\<lambda>(updated, db1).
       if updated \<noteq> 1
         then Inl (lease_lost ''checkout idempotency failure no longer owns an active lease'')
       else Inr ((), db1))))"

end
