(* ===== verification/CheckoutWorkers.thy ===== *)
theory CheckoutWorkers
  imports CheckoutAttempt
begin

text \<open>
  The durable workers of checkout (\<open>services/checkout/src/infrastructure.rs\<close>): the payment reconciliation
  job and the compensation task, each with its claim, its retries and its terminal states. \<open>locked\<close> says
  which rows another transaction holds when a claim skips them; the remote work between a claim and its
  completion is outside these statements.
\<close>

definition bounded_error_message :: "string \<Rightarrow> string" where
  "bounded_error_message message = take_chars COMPENSATION_ERROR_LIMIT message"

definition retry_delay :: "int \<Rightarrow> int \<Rightarrow> int" where
  "retry_delay base tries = min (base ^ nat (max 1 (min 8 tries))) 300"

subsection \<open>Payment reconciliation\<close>

definition job_fence :: "payment_reconciliation_job \<Rightarrow> checkout_fence" where
  "job_fence job = PaymentReconciliation (pj_tenant_id job) (pj_request_id job)
     (pj_parent_lease_token job) (pj_lease_token job)"

text \<open>\<open>WHERE tenant_id=.. AND request_id=.. AND status='processing' AND checkout_lease_token=.. AND lease_token=..\<close>\<close>

definition job_row :: "payment_reconciliation_job \<Rightarrow> recon_row \<Rightarrow> bool" where
  "job_row job r \<longleftrightarrow>
     recon_is (pj_tenant_id job) (pj_request_id job) (pj_parent_lease_token job) r
     \<and> rc_status r = ''processing'' \<and> rc_lease_token r = Some (pj_lease_token job)"

definition job_of :: "string \<Rightarrow> recon_row \<Rightarrow> payment_reconciliation_job" where
  "job_of lease_token r =
     \<lparr>pj_tenant_id = rc_tenant r, pj_request_id = rc_request r, pj_order_id = rc_order_id r,
      pj_authorize_request_id = rc_authorize_request_id r, pj_payment_id = rc_payment_id r,
      pj_merchant_reference = rc_merchant_reference r, pj_amount_minor = rc_amount_minor r,
      pj_currency = rc_currency r, pj_method_type = rc_method_type r,
      pj_feature_variant = rc_feature_variant r, pj_status = rc_status r, pj_attempts = rc_attempts r,
      pj_lease_token = lease_token, pj_parent_lease_token = rc_checkout_lease_token r,
      pj_traceparent = rc_traceparent r, pj_tracestate = rc_tracestate r, pj_baggage = rc_baggage r\<rparr>"

definition recon_claimable :: "timestamp \<Rightarrow> recon_row \<Rightarrow> bool" where
  "recon_claimable now r \<longleftrightarrow>
     (rc_status r = ''queued'' \<and> rc_available_at r \<le> now
        \<and> rc_attempts r < PAYMENT_RECONCILIATION_MAX_ATTEMPTS)
     \<or> (rc_status r = ''processing'' \<and> rc_attempts r < PAYMENT_RECONCILIATION_MAX_ATTEMPTS
        \<and> not_after_now now (rc_lease_expires_at r))"

definition next_jobs ::
  "(recon_row \<Rightarrow> attempt_row \<Rightarrow> bool) \<Rightarrow> timestamp \<Rightarrow> commerce_db \<Rightarrow> recon_row list" where
  "next_jobs locked now db =
     [r. r \<leftarrow> filter (recon_claimable now) (recons db),
         a \<leftarrow> filter (\<lambda>a. attempt_is (rc_tenant r) (rc_request r) (rc_checkout_lease_token r) a
                  \<and> (at_status a = ''failed'' \<or> lease_live now a \<or> at_status a = ''pending'')
                  \<and> \<not> locked r a) (attempts db)]"

definition recon_before :: "recon_row \<Rightarrow> recon_row \<Rightarrow> bool" where
  "recon_before x y \<longleftrightarrow>
     rc_available_at x < rc_available_at y
     \<or> (rc_available_at x = rc_available_at y \<and> rc_created_at x \<le> rc_created_at y)"

definition claimed_recon :: "timestamp \<Rightarrow> string \<Rightarrow> recon_row \<Rightarrow> recon_row" where
  "claimed_recon now lease_token r =
     r\<lparr>rc_status := ''processing'', rc_attempts := rc_attempts r + 1, rc_claimed_at := Some now,
       rc_lease_token := Some lease_token,
       rc_lease_expires_at := Some (now + seconds PAYMENT_RECONCILIATION_STALE_AFTER),
       rc_updated_at := now, rc_last_error := None\<rparr>"

definition claim_payment_reconciliation ::
  "(sql_error \<Rightarrow> string) \<Rightarrow> pool_result \<Rightarrow> (recon_row \<Rightarrow> attempt_row \<Rightarrow> bool) \<Rightarrow> timestamp \<Rightarrow> string \<Rightarrow> commerce_db
     \<Rightarrow> (api_error + payment_reconciliation_job option) \<times> commerce_db" where
  "claim_payment_reconciliation pg pool locked now lease_token =
     transact (\<lambda>db. and_then (acquire_db pool) (\<lambda>_.
       case limit1 (order_by recon_before (next_jobs locked now db)) of
         None \<Rightarrow> Inr (None, db)
       | Some n \<Rightarrow>
           let p = recon_is (rc_tenant n) (rc_request n) (rc_checkout_lease_token n) in
           and_then (update_recons pg p (claimed_recon now lease_token) db) (\<lambda>(_, db1).
           and_then (map_err (db_error pg) (query_opt
              (map (claimed_recon now lease_token) (filter p (recons db))))) (\<lambda>row.
           Inr (map_option (job_of lease_token) row, db1)))))"

definition exhausted_recon :: "timestamp \<Rightarrow> recon_row \<Rightarrow> recon_row" where
  "exhausted_recon now r =
     r\<lparr>rc_status := ''awaiting_provider'', rc_claimed_at := None, rc_lease_token := None,
       rc_lease_expires_at := None, rc_available_at := now,
       rc_last_error := coalesce (rc_last_error r)
          ''bounded checkout polling exhausted; waiting for payment provider reconciliation'',
       rc_updated_at := now\<rparr>"

definition reclaim_exhausted_payment_reconciliation ::
  "(sql_error \<Rightarrow> string) \<Rightarrow> pool_result \<Rightarrow> timestamp \<Rightarrow> commerce_db \<Rightarrow> (api_error + bool) \<times> commerce_db" where
  "reclaim_exhausted_payment_reconciliation pg pool now =
     transact (\<lambda>db. and_then (acquire_db pool) (\<lambda>_.
       and_then (update_recons pg (\<lambda>r. rc_status r = ''processing''
          \<and> rc_attempts r \<ge> PAYMENT_RECONCILIATION_MAX_ATTEMPTS
          \<and> not_after_now now (rc_lease_expires_at r)) (exhausted_recon now) db) (\<lambda>(changed, db1).
       Inr (changed > 0, db1))))"

definition woken_recon :: "timestamp \<Rightarrow> recon_row \<Rightarrow> recon_row" where
  "woken_recon now r =
     r\<lparr>rc_status := ''queued'', rc_available_at := now, rc_claimed_at := None, rc_lease_token := None,
       rc_lease_expires_at := None, rc_last_error := None, rc_updated_at := now\<rparr>"

definition wake_payment_reconciliation ::
  "(sql_error \<Rightarrow> string) \<Rightarrow> pool_result \<Rightarrow> timestamp \<Rightarrow> string \<Rightarrow> string \<Rightarrow> commerce_db
     \<Rightarrow> (api_error + unit) \<times> commerce_db" where
  "wake_payment_reconciliation pg pool now tenant_id request_id =
     transact (\<lambda>db. and_then (acquire_db pool) (\<lambda>_.
       and_then (map_err (db_error pg) (query_opt (filter (\<lambda>r. rc_tenant r = tenant_id
          \<and> rc_request r = request_id) (recons db)))) (\<lambda>found.
       and_then (ok_or (ApiError 409 ''payment_reconciliation_missing''
                          ''pending checkout has no durable payment reconciliation job'') found) (\<lambda>r.
       if rc_status r \<in> {''awaiting_provider'', ''queued''} then
         and_then (update_recons pg (\<lambda>x. rc_tenant x = tenant_id \<and> rc_request x = request_id
            \<and> rc_status x \<in> {''awaiting_provider'', ''queued''}) (woken_recon now) db) (\<lambda>(_, db1).
         Inr ((), db1))
       else Inr ((), db)))))"

text \<open>The fenced updates of a claimed job: lock the fence, change the job row, insist on one row.\<close>

definition fenced_job_update ::
  "(sql_error \<Rightarrow> string) \<Rightarrow> pool_result \<Rightarrow> timestamp \<Rightarrow> payment_reconciliation_job
     \<Rightarrow> (recon_row \<Rightarrow> recon_row) \<Rightarrow> api_error \<Rightarrow> commerce_db \<Rightarrow> (api_error + unit) \<times> commerce_db" where
  "fenced_job_update pg pool now job f err =
     transact (\<lambda>db. and_then (acquire_db pool) (\<lambda>_.
       and_then (lock_checkout_fence pg now (job_fence job) db) (\<lambda>_.
       and_then (update_recons pg (job_row job) f db) (\<lambda>(changed, db1).
       if changed \<noteq> 1 then Inl err else Inr ((), db1)))))"

definition record_payment_reconciliation_observation ::
  "(sql_error \<Rightarrow> string) \<Rightarrow> pool_result \<Rightarrow> timestamp \<Rightarrow> payment_reconciliation_job \<Rightarrow> string \<Rightarrow> string \<Rightarrow> string
     \<Rightarrow> commerce_db \<Rightarrow> (api_error + unit) \<times> commerce_db" where
  "record_payment_reconciliation_observation pg pool now job payment_status operation_status failure_reason =
     fenced_job_update pg pool now job
       (\<lambda>r. r\<lparr>rc_last_payment_status := Some payment_status,
              rc_last_operation_status := Some operation_status,
              rc_last_failure_reason := Some failure_reason, rc_updated_at := now\<rparr>)
       (lease_lost ''payment reconciliation observation lease is no longer current'')"

text \<open>\<open>FOREIGN KEY (tenant_id, payment_id) REFERENCES payments\<close>, checked when the column changes.\<close>

definition payment_known :: "commerce_db \<Rightarrow> string \<Rightarrow> string \<Rightarrow> bool" where
  "payment_known db tenant_id payment_id \<longleftrightarrow>
     list_ex (\<lambda>p. pay_tenant p = tenant_id \<and> pay_id p = payment_id) (payments db)"

definition attach_payment_to_reconciliation ::
  "(sql_error \<Rightarrow> string) \<Rightarrow> pool_result \<Rightarrow> timestamp \<Rightarrow> payment_reconciliation_job \<Rightarrow> string
     \<Rightarrow> commerce_db \<Rightarrow> (api_error + unit) \<times> commerce_db" where
  "attach_payment_to_reconciliation pg pool now job payment_id =
     transact (\<lambda>db. and_then (acquire_db pool) (\<lambda>_.
       and_then (lock_checkout_fence pg now (job_fence job) db) (\<lambda>_.
       and_then (update_recons pg (\<lambda>r. job_row job r \<and> (rc_payment_id r = None \<or> rc_payment_id r = Some payment_id))
          (\<lambda>r. r\<lparr>rc_payment_id := coalesce (rc_payment_id r) payment_id, rc_updated_at := now\<rparr>) db) (\<lambda>(changed, db1).
       if list_ex (\<lambda>r. job_row job r \<and> rc_payment_id r = None) (recons db)
          \<and> \<not> payment_known db (pj_tenant_id job) payment_id
         then Inl (db_error pg Foreign_key_violation)
       else if changed \<noteq> 1
         then Inl (ApiError 409 ''payment_reconciliation_conflict''
                ''payment identity does not match the reconciliation job'')
       else Inr ((), db1)))))"

definition rescheduled_recon :: "timestamp \<Rightarrow> int \<Rightarrow> string option \<Rightarrow> recon_row \<Rightarrow> recon_row" where
  "rescheduled_recon now tries message r =
     (let status = (if tries \<ge> PAYMENT_RECONCILIATION_MAX_ATTEMPTS then ''awaiting_provider'' else ''queued'') in
      r\<lparr>rc_status := status,
        rc_available_at := (if status = ''queued''
                            then now + seconds (retry_delay PAYMENT_RECONCILIATION_RETRY_BASE tries) else now),
        rc_claimed_at := None, rc_lease_token := None, rc_lease_expires_at := None,
        rc_last_error := (case message of None \<Rightarrow> rc_last_error r | Some m \<Rightarrow> Some m),
        rc_updated_at := now\<rparr>)"

definition reschedule_payment_reconciliation ::
  "(sql_error \<Rightarrow> string) \<Rightarrow> pool_result \<Rightarrow> timestamp \<Rightarrow> payment_reconciliation_job \<Rightarrow> api_error option
     \<Rightarrow> commerce_db \<Rightarrow> (api_error + unit) \<times> commerce_db" where
  "reschedule_payment_reconciliation pg pool now job error =
     fenced_job_update pg pool now job
       (rescheduled_recon now (pj_attempts job)
          (map_option (\<lambda>e. bounded_error_message (ae_message e)) error))
       (lease_lost ''payment reconciliation retry lease is no longer current'')"

text \<open>\<open>lease_token=.. AND status IN ('pending','failed','started') AND order_id=..\<close>\<close>

definition job_attempt :: "payment_reconciliation_job \<Rightarrow> attempt_row \<Rightarrow> bool" where
  "job_attempt job a \<longleftrightarrow>
     attempt_is (pj_tenant_id job) (pj_request_id job) (pj_parent_lease_token job) a
     \<and> at_status a \<in> {''pending'', ''failed'', ''started''} \<and> at_order_id a = Some (pj_order_id job)"

definition attempt_status_of ::
  "(sql_error \<Rightarrow> string) \<Rightarrow> string \<Rightarrow> string \<Rightarrow> commerce_db \<Rightarrow> api_error + string option" where
  "attempt_status_of pg tenant_id request_id db =
     and_then (map_err (db_error pg) (query_opt (filter (\<lambda>a. at_tenant a = tenant_id
        \<and> at_request a = request_id) (attempts db)))) (\<lambda>found. Inr (map_option at_status found))"

definition completed_recon :: "timestamp \<Rightarrow> recon_row \<Rightarrow> recon_row" where
  "completed_recon now r =
     r\<lparr>rc_status := ''completed'', rc_completed_at := Some now, rc_claimed_at := None,
       rc_lease_token := None, rc_lease_expires_at := None, rc_updated_at := now\<rparr>"

definition complete_payment_reconciliation ::
  "(sql_error \<Rightarrow> string) \<Rightarrow> pool_result \<Rightarrow> timestamp \<Rightarrow> payment_reconciliation_job \<Rightarrow> json
     \<Rightarrow> commerce_db \<Rightarrow> (api_error + unit) \<times> commerce_db" where
  "complete_payment_reconciliation pg pool now job payload =
     transact (\<lambda>db. and_then (acquire_db pool) (\<lambda>_.
       and_then (lock_checkout_fence pg now (job_fence job) db) (\<lambda>_.
       and_then (update_attempts pg (job_attempt job)
          (\<lambda>a. paid_attempt now payload (a\<lparr>at_order_id := Some (pj_order_id job)\<rparr>)) db) (\<lambda>(changed, db1).
       and_then (if changed \<noteq> 1 then
           and_then (attempt_status_of pg (pj_tenant_id job) (pj_request_id job) db1) (\<lambda>status.
           require (status = Some ''paid'') (ApiError 409 ''payment_reconciliation_attempt_conflict''
             ''pending checkout attempt could not be finalized''))
         else Inr ()) (\<lambda>_.
       and_then (update_recons pg (job_row job) (completed_recon now) db1) (\<lambda>(job_changed, db2).
       if job_changed \<noteq> 1
         then Inl (lease_lost ''payment reconciliation completion lease is no longer current'')
       else Inr ((), db2)))))))"

definition failed_attempt :: "timestamp \<Rightarrow> api_error \<Rightarrow> attempt_row \<Rightarrow> attempt_row" where
  "failed_attempt now error a =
     a\<lparr>at_status := ''failed'', at_response_payload := None, at_error_status := Some (ae_status error),
       at_error_code := Some (ae_code error),
       at_error_message := Some (bounded_error_message (ae_message error)),
       at_lease_expires_at := None, at_updated_at := now\<rparr>"

text \<open>\<open>NOT EXISTS (SELECT 1 FROM checkout_compensation_tasks t ... t.status NOT IN ('completed','superseded'))\<close>\<close>

definition compensated :: "commerce_db \<Rightarrow> order_row \<Rightarrow> bool" where
  "compensated db o' \<longleftrightarrow>
     \<not> list_ex (\<lambda>t. ct_tenant t = ord_tenant o' \<and> ct_order_id t = ord_id o'
        \<and> ct_status t \<notin> {''completed'', ''superseded''}) (compensations db)"

definition cancelled_order :: "timestamp \<Rightarrow> order_row \<Rightarrow> order_row" where
  "cancelled_order now o' = o'\<lparr>ord_status := ''cancelled'', ord_updated_at := now\<rparr>"

definition failed_recon :: "timestamp \<Rightarrow> string \<Rightarrow> recon_row \<Rightarrow> recon_row" where
  "failed_recon now message r =
     r\<lparr>rc_status := ''failed'', rc_completed_at := None, rc_claimed_at := None, rc_lease_token := None,
       rc_lease_expires_at := None, rc_last_error := Some message, rc_updated_at := now\<rparr>"

definition fail_payment_reconciliation ::
  "(sql_error \<Rightarrow> string) \<Rightarrow> pool_result \<Rightarrow> timestamp \<Rightarrow> payment_reconciliation_job \<Rightarrow> api_error
     \<Rightarrow> commerce_db \<Rightarrow> (api_error + unit) \<times> commerce_db" where
  "fail_payment_reconciliation pg pool now job error =
     transact (\<lambda>db. and_then (acquire_db pool) (\<lambda>_.
       and_then (lock_checkout_fence pg now (job_fence job) db) (\<lambda>_.
       and_then (update_attempts pg (job_attempt job) (failed_attempt now error) db) (\<lambda>(changed, db1).
       and_then (if changed = 0 then
           and_then (attempt_status_of pg (pj_tenant_id job) (pj_request_id job) db1) (\<lambda>status.
           require (status = Some ''failed'') (ApiError 409 ''payment_reconciliation_attempt_conflict''
             ''pending checkout attempt could not be failed''))
         else Inr ()) (\<lambda>_.
       and_then (update_orders pg (\<lambda>o'. ord_tenant o' = pj_tenant_id job \<and> ord_id o' = pj_order_id job
          \<and> ord_status o' = ''pending'' \<and> compensated db1 o') (cancelled_order now) db1) (\<lambda>(_, db2).
       and_then (update_recons pg (job_row job)
          (failed_recon now (bounded_error_message (ae_message error))) db2) (\<lambda>(job_changed, db3).
       if job_changed \<noteq> 1
         then Inl (lease_lost ''payment reconciliation failure lease is no longer current'')
       else Inr ((), db3))))))))"

subsection \<open>Compensation\<close>

definition task_of :: "string \<Rightarrow> compensation_row \<Rightarrow> api_error + compensation_task" where
  "task_of claim_token t =
     and_then (case ct_quantity t of
         None \<Rightarrow> Inr None
       | Some q \<Rightarrow> and_then (ok_or (ApiError 500 ''compensation_persistence_failed''
              ''stored compensation quantity is out of range'') (checked_u32 q)) (\<lambda>n. Inr (Some n))) (\<lambda>quantity.
     Inr \<lparr>tk_id = ct_id t, tk_tenant_id = ct_tenant t, tk_order_id = ct_order_id t, tk_kind = ct_kind t,
          tk_reservation_id = ct_reservation_id t, tk_sku = ct_sku t, tk_quantity = quantity,
          tk_payment_id = ct_payment_id t, tk_request_id = ct_request_id t, tk_currency = ct_currency t,
          tk_attempts = ct_attempts t, tk_traceparent = ct_traceparent t, tk_tracestate = ct_tracestate t,
          tk_baggage = ct_baggage t, tk_checkout_request_id = Some (ct_checkout_request_id t),
          tk_checkout_lease_token = Some (ct_checkout_lease_token t), tk_claim_token = claim_token\<rparr>)"

definition comp_claimable :: "timestamp \<Rightarrow> compensation_row \<Rightarrow> bool" where
  "comp_claimable now t \<longleftrightarrow>
     ct_attempts t < COMPENSATION_MAX_ATTEMPTS
     \<and> ((ct_status t \<in> {''prepared'', ''queued''} \<and> ct_available_at t \<le> now)
        \<or> (ct_status t = ''processing'' \<and> not_after_now now (ct_claim_expires_at t)))"

definition next_tasks ::
  "(compensation_row \<Rightarrow> attempt_row \<Rightarrow> bool) \<Rightarrow> timestamp \<Rightarrow> commerce_db \<Rightarrow> compensation_row list" where
  "next_tasks locked now db =
     [t. t \<leftarrow> filter (comp_claimable now) (compensations db),
         a \<leftarrow> filter (\<lambda>a. attempt_is (ct_tenant t) (ct_checkout_request_id t) (ct_checkout_lease_token t) a
                  \<and> parent_current db now None a \<and> \<not> locked t a) (attempts db)]"

definition comp_before :: "compensation_row \<Rightarrow> compensation_row \<Rightarrow> bool" where
  "comp_before x y \<longleftrightarrow>
     ct_available_at x < ct_available_at y
     \<or> (ct_available_at x = ct_available_at y \<and> ct_created_at x \<le> ct_created_at y)"

definition claimed_comp :: "timestamp \<Rightarrow> string \<Rightarrow> compensation_row \<Rightarrow> compensation_row" where
  "claimed_comp now claim_token t =
     t\<lparr>ct_status := ''processing'', ct_attempts := ct_attempts t + 1, ct_claim_token := Some claim_token,
       ct_claim_expires_at := Some (now + seconds COMPENSATION_STALE_AFTER), ct_claimed_at := Some now,
       ct_updated_at := now, ct_last_error := None\<rparr>"

definition same_task :: "compensation_row \<Rightarrow> compensation_row \<Rightarrow> bool" where
  "same_task n t \<longleftrightarrow>
     ct_tenant t = ct_tenant n \<and> ct_id t = ct_id n \<and> ct_checkout_request_id t = ct_checkout_request_id n
     \<and> ct_checkout_lease_token t = ct_checkout_lease_token n"

text \<open>The claim is one autocommitted statement; a bad stored quantity is reported after it took effect.\<close>

definition claim_compensation_row ::
  "(sql_error \<Rightarrow> string) \<Rightarrow> pool_result \<Rightarrow> (compensation_row \<Rightarrow> attempt_row \<Rightarrow> bool) \<Rightarrow> timestamp \<Rightarrow> string
     \<Rightarrow> commerce_db \<Rightarrow> (api_error + compensation_row option) \<times> commerce_db" where
  "claim_compensation_row pg pool locked now claim_token =
     transact (\<lambda>db. and_then (acquire_db pool) (\<lambda>_.
       case limit1 (order_by comp_before (next_tasks locked now db)) of
         None \<Rightarrow> Inr (None, db)
       | Some n \<Rightarrow>
           and_then (update_compensations pg (same_task n) (claimed_comp now claim_token) db) (\<lambda>(_, db1).
           and_then (map_err (db_error pg) (query_opt
              (map (claimed_comp now claim_token) (filter (same_task n) (compensations db))))) (\<lambda>row.
           Inr (row, db1)))))"

definition claim_compensation_task ::
  "(sql_error \<Rightarrow> string) \<Rightarrow> pool_result \<Rightarrow> (compensation_row \<Rightarrow> attempt_row \<Rightarrow> bool) \<Rightarrow> timestamp \<Rightarrow> string
     \<Rightarrow> commerce_db \<Rightarrow> (api_error + compensation_task option) \<times> commerce_db" where
  "claim_compensation_task pg pool locked now claim_token db =
     (case claim_compensation_row pg pool locked now claim_token db of
        (row, db1) \<Rightarrow>
          (and_then row (\<lambda>r. case r of
              None \<Rightarrow> Inr None
            | Some t \<Rightarrow> and_then (task_of claim_token t) (\<lambda>task. Inr (Some task))), db1))"

definition task_fence :: "compensation_task \<Rightarrow> api_error + checkout_fence" where
  "task_fence task =
     and_then (ok_or (lease_lost ''compensation task has no checkout fence'') (tk_checkout_request_id task))
       (\<lambda>request_id.
     and_then (ok_or (lease_lost ''compensation task has no checkout lease token'')
         (tk_checkout_lease_token task)) (\<lambda>token.
     Inr (Compensation (tk_tenant_id task) request_id token (tk_id task) (tk_claim_token task))))"

definition compensation_fence ::
  "(sql_error \<Rightarrow> string) \<Rightarrow> pool_result \<Rightarrow> timestamp \<Rightarrow> compensation_task \<Rightarrow> commerce_db
     \<Rightarrow> api_error + checkout_fence" where
  "compensation_fence pg pool now task db =
     and_then (task_fence task) (\<lambda>fence.
     and_then (acquire_db pool) (\<lambda>_.
     and_then (fence_owned pg now fence db) (\<lambda>current.
     if current then Inr fence
     else Inl (lease_lost ''compensation task fence is no longer current''))))"

definition finished_comp :: "timestamp \<Rightarrow> string option \<Rightarrow> compensation_row \<Rightarrow> compensation_row" where
  "finished_comp now terminal_error t =
     t\<lparr>ct_status := (if terminal_error \<noteq> None then ''failed'' else ''completed''),
       ct_completed_at := (if terminal_error \<noteq> None then None else Some now),
       ct_claimed_at := None, ct_claim_token := None, ct_claim_expires_at := None,
       ct_last_error := terminal_error, ct_updated_at := now\<rparr>"

definition task_held :: "timestamp \<Rightarrow> compensation_task \<Rightarrow> compensation_row \<Rightarrow> bool" where
  "task_held now task t \<longleftrightarrow>
     ct_tenant t = tk_tenant_id task \<and> ct_id t = tk_id task \<and> ct_status t = ''processing''
     \<and> ct_claim_token t = Some (tk_claim_token task) \<and> after_now now (ct_claim_expires_at t)"

text \<open>The order the finished task belongs to may be cancelled: its generation is still known.\<close>

definition task_owner_known :: "commerce_db \<Rightarrow> compensation_task \<Rightarrow> order_row \<Rightarrow> bool" where
  "task_owner_known db task o' \<longleftrightarrow>
     list_ex (\<lambda>t. ct_id t = tk_id task \<and> ct_tenant t = ord_tenant o' \<and> ct_order_id t = ord_id o'
       \<and> list_ex (\<lambda>a. attempt_is (ct_tenant t) (ct_checkout_request_id t) (ct_checkout_lease_token t) a
            \<and> (at_status a \<in> {''started'', ''failed''}
               \<or> (at_status a = ''pending''
                  \<and> list_ex (\<lambda>r. recon_is (at_tenant a) (at_request a) (at_lease_token a) r
                       \<and> rc_status r = ''processing'') (recons db)))) (attempts db)) (compensations db)"

definition finish_compensation_task ::
  "(sql_error \<Rightarrow> string) \<Rightarrow> pool_result \<Rightarrow> timestamp \<Rightarrow> compensation_task \<Rightarrow> string option
     \<Rightarrow> commerce_db \<Rightarrow> (api_error + unit) \<times> commerce_db" where
  "finish_compensation_task pg pool now task terminal_error =
     transact (\<lambda>db. and_then (acquire_db pool) (\<lambda>_.
       and_then (task_fence task) (\<lambda>fence.
       and_then (lock_checkout_fence pg now fence db) (\<lambda>_.
       and_then (update_compensations pg (task_held now task) (finished_comp now terminal_error) db) (\<lambda>(completed, db1).
       if completed \<noteq> 1
         then Inl (ApiError 503 ''compensation_persistence_failed''
                ''compensation task ownership was lost before completion'')
       else if terminal_error \<noteq> None then Inr ((), db1)
       else
         and_then (update_orders pg (\<lambda>o'. ord_tenant o' = tk_tenant_id task \<and> ord_id o' = tk_order_id task
            \<and> ord_status o' = ''pending'' \<and> compensated db1 o' \<and> task_owner_known db1 task o')
            (cancelled_order now) db1) (\<lambda>(_, db2).
         Inr ((), db2)))))))"

definition complete_compensation_task ::
  "(sql_error \<Rightarrow> string) \<Rightarrow> pool_result \<Rightarrow> timestamp \<Rightarrow> compensation_task \<Rightarrow> commerce_db
     \<Rightarrow> (api_error + unit) \<times> commerce_db" where
  "complete_compensation_task pg pool now task = finish_compensation_task pg pool now task None"

definition dead_letter_compensation_task ::
  "(sql_error \<Rightarrow> string) \<Rightarrow> pool_result \<Rightarrow> timestamp \<Rightarrow> compensation_task \<Rightarrow> api_error \<Rightarrow> commerce_db
     \<Rightarrow> (api_error + unit) \<times> commerce_db" where
  "dead_letter_compensation_task pg pool now task error =
     finish_compensation_task pg pool now task (Some (''dead-lettered after '' @ int_to_string (tk_attempts task)
       @ '' attempts: '' @ bounded_error_message (ae_message error)))"

definition expired_comp :: "timestamp \<Rightarrow> compensation_row \<Rightarrow> bool" where
  "expired_comp now t \<longleftrightarrow>
     ct_status t = ''processing'' \<and> ct_attempts t \<ge> COMPENSATION_MAX_ATTEMPTS
     \<and> not_after_now now (ct_claim_expires_at t)
     \<and> ct_updated_at t < now - seconds COMPENSATION_STALE_AFTER"

definition dead_lettered_comp :: "timestamp \<Rightarrow> compensation_row \<Rightarrow> compensation_row" where
  "dead_lettered_comp now t =
     t\<lparr>ct_status := ''failed'', ct_completed_at := None, ct_claimed_at := None, ct_claim_token := None,
       ct_claim_expires_at := None,
       ct_last_error := coalesce (ct_last_error t) ''dead-lettered after 3 attempts: worker lease expired'',
       ct_updated_at := now\<rparr>"

definition dead_letter_expired_compensation_task ::
  "(sql_error \<Rightarrow> string) \<Rightarrow> pool_result \<Rightarrow> (compensation_row \<Rightarrow> bool) \<Rightarrow> timestamp \<Rightarrow> commerce_db
     \<Rightarrow> (api_error + bool) \<times> commerce_db" where
  "dead_letter_expired_compensation_task pg pool locked now =
     transact (\<lambda>db. and_then (acquire_db pool) (\<lambda>_.
       case limit1 (order_by (\<lambda>x y. ct_updated_at x \<le> ct_updated_at y)
                (filter (\<lambda>t. expired_comp now t \<and> \<not> locked t) (compensations db))) of
         None \<Rightarrow> Inr (False, db)
       | Some n \<Rightarrow>
           and_then (update_compensations pg (\<lambda>t. ct_tenant t = ct_tenant n \<and> ct_id t = ct_id n)
              (dead_lettered_comp now) db) (\<lambda>(_, db1).
           and_then (map_err (db_error pg) (query_opt (filter (\<lambda>t. ct_tenant t = ct_tenant n \<and> ct_id t = ct_id n)
              (compensations db)))) (\<lambda>row.
           Inr (row \<noteq> None, db1)))))"

definition rescheduled_comp :: "timestamp \<Rightarrow> int \<Rightarrow> string \<Rightarrow> compensation_row \<Rightarrow> compensation_row" where
  "rescheduled_comp now tries message t =
     t\<lparr>ct_status := ''queued'', ct_available_at := now + seconds (retry_delay COMPENSATION_RETRY_BASE tries),
       ct_claimed_at := None, ct_claim_token := None, ct_claim_expires_at := None,
       ct_last_error := Some message, ct_updated_at := now\<rparr>"

definition reschedule_compensation_task ::
  "(sql_error \<Rightarrow> string) \<Rightarrow> pool_result \<Rightarrow> timestamp \<Rightarrow> compensation_task \<Rightarrow> api_error \<Rightarrow> commerce_db
     \<Rightarrow> (api_error + unit) \<times> commerce_db" where
  "reschedule_compensation_task pg pool now task error =
     transact (\<lambda>db. and_then (acquire_db pool) (\<lambda>_.
       and_then (update_compensations pg (task_held now task)
          (rescheduled_comp now (tk_attempts task) (bounded_error_message (ae_message error))) db) (\<lambda>(_, db1).
       Inr ((), db1))))"

definition compensation_attempts_exhausted :: "int \<Rightarrow> bool" where
  "compensation_attempts_exhausted tries \<longleftrightarrow> tries \<ge> COMPENSATION_MAX_ATTEMPTS"

subsection \<open>Remote operation markers\<close>

definition compensation_operation_id :: "string \<Rightarrow> string" where
  "compensation_operation_id task_key = ''checkout-compensation:'' @ task_key"

definition fence_task :: "pending_order \<Rightarrow> string \<Rightarrow> checkout_fence \<Rightarrow> compensation_row \<Rightarrow> bool" where
  "fence_task order task_key fence t \<longleftrightarrow>
     ct_tenant t = po_tenant_id order \<and> ct_order_id t = po_id order \<and> ct_task_key t = task_key
     \<and> ct_checkout_request_id t = fence_request_id fence \<and> ct_checkout_lease_token t = fence_token fence
     \<and> ct_status t \<in> {''prepared'', ''queued'', ''processing''}"

definition begin_compensation_operation ::
  "(sql_error \<Rightarrow> string) \<Rightarrow> pool_result \<Rightarrow> timestamp \<Rightarrow> pending_order \<Rightarrow> string \<Rightarrow> checkout_fence \<Rightarrow> commerce_db
     \<Rightarrow> (api_error + unit) \<times> commerce_db" where
  "begin_compensation_operation pg pool now order task_key fence =
     transact (\<lambda>db. and_then (acquire_db pool) (\<lambda>_.
       and_then (lock_checkout_fence pg now fence db) (\<lambda>_.
       and_then (update_compensations pg (fence_task order task_key fence)
          (\<lambda>t. t\<lparr>ct_remote_operation_id := Some (compensation_operation_id task_key),
                 ct_remote_operation_started_at := Some (case ct_remote_operation_started_at t of
                    None \<Rightarrow> now | Some s \<Rightarrow> s),
                 ct_remote_operation_completed_at := None, ct_last_error := None, ct_updated_at := now\<rparr>) db)
          (\<lambda>(changed, db1).
       if changed \<noteq> 1
         then Inl (lease_lost ''compensation remote operation was not fenced by its durable task'')
       else Inr ((), db1)))))"

definition complete_compensation_operation ::
  "(sql_error \<Rightarrow> string) \<Rightarrow> pool_result \<Rightarrow> timestamp \<Rightarrow> pending_order \<Rightarrow> string \<Rightarrow> checkout_fence \<Rightarrow> commerce_db
     \<Rightarrow> (api_error + unit) \<times> commerce_db" where
  "complete_compensation_operation pg pool now order task_key fence =
     transact (\<lambda>db. and_then (acquire_db pool) (\<lambda>_.
       and_then (lock_checkout_fence pg now fence db) (\<lambda>_.
       and_then (update_compensations pg (\<lambda>t. fence_task order task_key fence t
          \<and> ct_remote_operation_id t = Some (compensation_operation_id task_key)
          \<and> ct_remote_operation_started_at t \<noteq> None)
          (\<lambda>t. t\<lparr>ct_remote_operation_completed_at := Some now, ct_updated_at := now\<rparr>) db) (\<lambda>(changed, db1).
       if changed \<noteq> 1
         then Inl (lease_lost ''compensation remote operation completion lost its durable fence'')
       else Inr ((), db1)))))"

end
