(* ===== verification/CheckoutMachine.thy ===== *)
theory CheckoutMachine
  imports CheckoutWorkers
begin

text \<open>
  What every checkout transaction keeps. \<open>wf_checkout\<close> is the schema (keys and \<open>CHECK\<close>s) with the bounds
  on worker attempts; \<open>progress\<close> says that settled rows stay: answered attempts, completed reconciliations,
  closed compensations, orders that left \<open>pending\<close>. The locale \<open>checkout_op\<close> is the contract of one
  transaction; it is interpreted for every operation, and the step relation interleaves them.
\<close>

definition comp_key :: "compensation_row \<Rightarrow> row_key" where
  "comp_key t = (ct_tenant t, ct_id t)"

definition wf_checkout :: "commerce_db \<Rightarrow> bool" where
  "wf_checkout db \<longleftrightarrow>
     distinct (map at_key (attempts db)) \<and> distinct (map rc_key (recons db))
     \<and> distinct (map comp_key (compensations db)) \<and> distinct (map ord_key (orders db))
     \<and> list_all attempt_check (attempts db) \<and> list_all recon_check (recons db)
     \<and> list_all compensation_check (compensations db)
     \<and> list_all (\<lambda>r. rc_attempts r \<le> PAYMENT_RECONCILIATION_MAX_ATTEMPTS) (recons db)
     \<and> list_all (\<lambda>t. ct_attempts t \<le> COMPENSATION_MAX_ATTEMPTS) (compensations db)"

definition answered :: "attempt_row \<Rightarrow> bool" where
  "answered a \<longleftrightarrow> at_status a \<in> {''paid'', ''degraded''}"

definition closed_comp :: "compensation_row \<Rightarrow> bool" where
  "closed_comp t \<longleftrightarrow> ct_status t \<in> {''completed'', ''superseded''}"

definition attempt_ident :: "attempt_row \<Rightarrow> row_key \<times> string" where
  "attempt_ident a = (at_key a, at_fingerprint a)"

definition progress :: "commerce_db \<Rightarrow> commerce_db \<Rightarrow> bool" where
  "progress db db' \<longleftrightarrow>
     kept answered (attempts db) (attempts db')
     \<and> kept (\<lambda>r. rc_status r = ''completed'') (recons db) (recons db')
     \<and> kept closed_comp (compensations db) (compensations db')
     \<and> kept (\<lambda>o'. ord_status o' \<noteq> ''pending'') (orders db) (orders db')
     \<and> keys_kept attempt_ident (attempts db) (attempts db')
     \<and> keys_kept rc_key (recons db) (recons db')
     \<and> keys_kept comp_key (compensations db) (compensations db')"

lemma progress_refl [simp]: "progress db db"
  by (simp add: progress_def)

lemma progress_trans: "progress a b \<Longrightarrow> progress b c \<Longrightarrow> progress a c"
  unfolding progress_def by (elim conjE, intro conjI) (erule (1) kept_trans keys_kept_trans)+

definition sound_step :: "commerce_db \<Rightarrow> commerce_db \<Rightarrow> bool" where
  "sound_step db db' \<longleftrightarrow> (wf_checkout db \<longrightarrow> wf_checkout db' \<and> progress db db')"

lemma sound_step_refl [simp]: "sound_step db db"
  by (simp add: sound_step_def)

lemma sound_step_trans [trans]: "sound_step a b \<Longrightarrow> sound_step b c \<Longrightarrow> sound_step a c"
  by (auto simp: sound_step_def intro: progress_trans)

subsection \<open>Statements\<close>

lemma update_attempts_sound:
  assumes "update_attempts pg p f db = Inr (n, db')"
    and "\<And>a. at_key (f a) = at_key a \<and> at_fingerprint (f a) = at_fingerprint a"
    and "\<And>a. p a \<Longrightarrow> \<not> answered a"
  shows "sound_step db db'"
proof -
  from assms(1) have chk: "\<forall>a \<in> set (attempts db). p a \<longrightarrow> attempt_check (f a)"
    and db': "db' = db\<lparr>attempts := update_where p f (attempts db)\<rparr>"
    by (auto simp: update_attempts_def sql_update_Inr)
  have key: "map at_key (update_where p f (attempts db)) = map at_key (attempts db)"
    using assms(2) by (intro map_key_update_where) blast
  have ident: "keys_kept attempt_ident (attempts db) (update_where p f (attempts db))"
    using assms(2) by (intro keys_kept_update_where) (simp add: attempt_ident_def)
  have "list_all attempt_check (update_where p f (attempts db))" if "list_all attempt_check (attempts db)"
    using that chk by (intro list_all_update_where) auto
  moreover have "kept answered (attempts db) (update_where p f (attempts db))"
    using assms(3) by (intro kept_update_where) blast
  ultimately show ?thesis
    unfolding sound_step_def wf_checkout_def progress_def db' by (simp add: key ident)
qed

lemma update_recons_sound:
  assumes "update_recons pg p f db = Inr (n, db')"
    and "\<And>r. rc_key (f r) = rc_key r"
    and "\<And>r. p r \<Longrightarrow> r \<in> set (recons db) \<Longrightarrow> wf_checkout db \<Longrightarrow> rc_status r \<noteq> ''completed''"
    and "\<And>r. p r \<Longrightarrow> r \<in> set (recons db) \<Longrightarrow> wf_checkout db
      \<Longrightarrow> rc_attempts (f r) \<le> PAYMENT_RECONCILIATION_MAX_ATTEMPTS"
  shows "sound_step db db'"
proof -
  from assms(1) have chk: "\<forall>r \<in> set (recons db). p r \<longrightarrow> recon_check (f r)"
    and db': "db' = db\<lparr>recons := update_where p f (recons db)\<rparr>"
    by (auto simp: update_recons_def sql_update_Inr)
  have key: "map rc_key (update_where p f (recons db)) = map rc_key (recons db)"
    using assms(2) by (intro map_key_update_where) blast
  have ident: "keys_kept rc_key (recons db) (update_where p f (recons db))"
    using assms(2) by (intro keys_kept_update_where)
  have "list_all recon_check (update_where p f (recons db))" if "list_all recon_check (recons db)"
    using that chk by (intro list_all_update_where) auto
  moreover have "list_all (\<lambda>r. rc_attempts r \<le> PAYMENT_RECONCILIATION_MAX_ATTEMPTS) (update_where p f (recons db))"
    if "wf_checkout db"
    using that assms(4) by (intro list_all_update_where) (auto simp: wf_checkout_def)
  moreover have "kept (\<lambda>r. rc_status r = ''completed'') (recons db) (update_where p f (recons db))"
    if "wf_checkout db"
    using that assms(3) by (intro kept_update_where) blast
  ultimately show ?thesis
    unfolding sound_step_def progress_def db' by (simp add: key ident wf_checkout_def)
qed

lemma update_compensations_sound:
  assumes "update_compensations pg p f db = Inr (n, db')"
    and "\<And>t. comp_key (f t) = comp_key t"
    and "\<And>t. p t \<Longrightarrow> t \<in> set (compensations db) \<Longrightarrow> wf_checkout db \<Longrightarrow> \<not> closed_comp t"
    and "\<And>t. p t \<Longrightarrow> t \<in> set (compensations db) \<Longrightarrow> wf_checkout db
      \<Longrightarrow> ct_attempts (f t) \<le> COMPENSATION_MAX_ATTEMPTS"
  shows "sound_step db db'"
proof -
  from assms(1) have chk: "\<forall>t \<in> set (compensations db). p t \<longrightarrow> compensation_check (f t)"
    and db': "db' = db\<lparr>compensations := update_where p f (compensations db)\<rparr>"
    by (auto simp: update_compensations_def sql_update_Inr)
  have key: "map comp_key (update_where p f (compensations db)) = map comp_key (compensations db)"
    using assms(2) by (intro map_key_update_where) blast
  have ident: "keys_kept comp_key (compensations db) (update_where p f (compensations db))"
    using assms(2) by (intro keys_kept_update_where)
  have "list_all compensation_check (update_where p f (compensations db))"
    if "list_all compensation_check (compensations db)"
    using that chk by (intro list_all_update_where) auto
  moreover have "list_all (\<lambda>t. ct_attempts t \<le> COMPENSATION_MAX_ATTEMPTS) (update_where p f (compensations db))"
    if "wf_checkout db"
    using that assms(4) by (intro list_all_update_where) (auto simp: wf_checkout_def)
  moreover have "kept closed_comp (compensations db) (update_where p f (compensations db))"
    if "wf_checkout db"
    using that assms(3) by (intro kept_update_where) blast
  ultimately show ?thesis
    unfolding sound_step_def progress_def db' by (simp add: key ident wf_checkout_def)
qed

lemma update_orders_sound:
  assumes "update_orders pg p f db = Inr (n, db')"
    and "\<And>o'. ord_key (f o') = ord_key o'" and "\<And>o'. p o' \<Longrightarrow> ord_status o' = ''pending''"
  shows "sound_step db db'"
proof -
  from assms(1) have db': "db' = db\<lparr>orders := update_where p f (orders db)\<rparr>"
    by (auto simp: update_orders_def sql_update_Inr)
  have key: "map ord_key (update_where p f (orders db)) = map ord_key (orders db)"
    using assms(2) by (intro map_key_update_where) blast
  have "kept (\<lambda>o'. ord_status o' \<noteq> ''pending'') (orders db) (update_where p f (orders db))"
    using assms(3) by (intro kept_update_where) blast
  then show ?thesis
    unfolding sound_step_def wf_checkout_def progress_def db' by (simp add: key)
qed


lemma transact_sound:
  "(\<And>x db'. body db = Inr (x, db') \<Longrightarrow> sound_step db db') \<Longrightarrow> sound_step db (snd (transact body db))"
  by (auto simp: transact_def split: sum.splits)

lemmas row_defs = at_key_def rc_key_def comp_key_def ord_key_def
  extend_attempt_def extend_recon_def extend_comp_def paid_attempt_def restart_attempt_def transfer_recon_def
  supersede_comp_def claimed_recon_def exhausted_recon_def woken_recon_def rescheduled_recon_def
  completed_recon_def failed_attempt_def cancelled_order_def failed_recon_def claimed_comp_def
  finished_comp_def dead_lettered_comp_def rescheduled_comp_def

lemma recon_attempts_bound: "wf_checkout db \<Longrightarrow> r \<in> set (recons db) \<Longrightarrow> rc_attempts r \<le> PAYMENT_RECONCILIATION_MAX_ATTEMPTS"
  by (simp add: wf_checkout_def list_all_iff)

lemma comp_attempts_bound: "wf_checkout db \<Longrightarrow> t \<in> set (compensations db) \<Longrightarrow> ct_attempts t \<le> COMPENSATION_MAX_ATTEMPTS"
  by (simp add: wf_checkout_def list_all_iff)

subsection \<open>Transactions\<close>

text \<open>Updates that leave the attempt counters alone.\<close>

lemma update_recons_sound_frame:
  assumes "update_recons pg p f db = Inr (n, db')" "\<And>r. rc_key (f r) = rc_key r"
    and "\<And>r. p r \<Longrightarrow> rc_status r \<noteq> ''completed''" "\<And>r. rc_attempts (f r) = rc_attempts r"
  shows "sound_step db db'"
  by (rule update_recons_sound [OF assms(1,2)]) (simp_all add: assms(3,4) recon_attempts_bound)

lemma update_compensations_sound_frame:
  assumes "update_compensations pg p f db = Inr (n, db')" "\<And>t. comp_key (f t) = comp_key t"
    and "\<And>t. p t \<Longrightarrow> \<not> closed_comp t" "\<And>t. ct_attempts (f t) = ct_attempts t"
  shows "sound_step db db'"
  by (rule update_compensations_sound [OF assms(1,2)]) (simp_all add: assms(3,4) comp_attempts_bound)

lemma refresh_fence_sound: "refresh_fence_tx pg now fence db = Inr (x, db') \<Longrightarrow> sound_step db db'"
proof (cases fence)
  case (Attempt lease)
  then show "refresh_fence_tx pg now fence db = Inr (x, db') \<Longrightarrow> sound_step db db'"
    by (auto elim!: update_attempts_sound simp: row_defs answered_def lease_live_def split: if_splits)
next
  case (PaymentReconciliation t r p w)
  then show "refresh_fence_tx pg now fence db = Inr (x, db') \<Longrightarrow> sound_step db db'"
    by (auto elim!: update_recons_sound_frame simp: row_defs recon_live_def split: if_splits)
next
  case (Compensation t r k i c)
  assume "refresh_fence_tx pg now fence db = Inr (x, db')"
  with Compensation obtain n1 db1 n2 db2 n3 where
    u: "update_compensations pg (comp_held now t i c r k) (extend_comp now) db = Inr (n1, db1)"
       "update_attempts pg (\<lambda>a. attempt_is t r k a \<and> lease_live now a) (extend_attempt now) db1 = Inr (n2, db2)"
       "update_recons pg (\<lambda>x. recon_is t r k x \<and> recon_live now x) (extend_recon now) db2 = Inr (n3, db')"
    by (auto split: if_splits)
  have "sound_step db db1"
    by (rule update_compensations_sound_frame [OF u(1)]) (auto simp: row_defs comp_held_def closed_comp_def)
  also have "sound_step db1 db2"
    by (rule update_attempts_sound [OF u(2)]) (auto simp: row_defs answered_def lease_live_def)
  also have "sound_step db2 db'"
    by (rule update_recons_sound_frame [OF u(3)]) (auto simp: row_defs recon_live_def)
  finally show ?thesis .
qed

lemma retire_children_sound:
  assumes "retire_children pg now t r old new db = Inr db'"
  shows "sound_step db db'"
proof -
  from assms obtain n1 db1 n2 where
    u: "update_recons pg (\<lambda>x. recon_is t r old x \<and> rc_status x \<noteq> ''completed'') (transfer_recon now new) db = Inr (n1, db1)"
       "update_compensations pg (\<lambda>x. ct_tenant x = t \<and> ct_checkout_request_id x = r
          \<and> ct_checkout_lease_token x = old \<and> ct_status x \<notin> {''completed'', ''superseded''}) (supersede_comp now) db1 = Inr (n2, db')"
    by (auto simp: retire_children_def)
  have "sound_step db db1"
    by (rule update_recons_sound_frame [OF u(1)]) (auto simp: row_defs)
  also have "sound_step db1 db'"
    by (rule update_compensations_sound_frame [OF u(2)]) (auto simp: row_defs closed_comp_def)
  finally show ?thesis .
qed

lemma claim_paid_sound: "claim_paid pg now t r a db = Inr (c, db') \<Longrightarrow> sound_step db db'"
  by (auto simp: claim_paid_def Let_def row_defs answered_def elim!: update_attempts_sound split: if_splits)

lemma claim_started_sound:
  assumes "claim_started pg now tok t r a db = Inr (c, db')"
  shows "sound_step db db'"
proof -
  have restart: "sound_step db db1"
    if "update_attempts pg (\<lambda>x. attempt_is t r (at_lease_token a) x \<and> at_status x = ''started''
        \<and> attempt_stale now x) (restart_attempt now tok) db = Inr (n, db1)" for n db1
    by (rule update_attempts_sound [OF that]) (auto simp: row_defs answered_def)
  show ?thesis using assms
    by (auto simp: claim_started_def dest: claim_paid_sound restart retire_children_sound
        intro: sound_step_trans [OF restart retire_children_sound] split: if_splits)
qed

lemma insert_attempt_sound:
  assumes "sql_insert at_key attempt_check row (attempts db) = Inr rows"
  shows "sound_step db (db\<lparr>attempts := rows\<rparr>)"
  using assms
  by (auto simp: sound_step_def sql_insert_Inr wf_checkout_def progress_def kept_def keys_kept_def)

lemma claim_tx_sound: "claim_tx pg now tok tok' t r fp db = Inr (c, db') \<Longrightarrow> sound_step db db'"
  by (auto simp: claim_tx_def claim_existing_def Let_def dest: claim_started_sound insert_attempt_sound
      split: sum.splits sql_error.splits if_splits)

end
