(* ===== verification/CheckoutSteps.thy ===== *)
theory CheckoutSteps
  imports CheckoutMachine
begin

text \<open>
  The contracts of checkout transactions as locales, their interpretations on the operations of the
  model, and the step relation that interleaves them. \<open>checkout_op\<close> is any transaction; \<open>fenced_op\<close> one
  that works under a fence: it commits only when the fence is current, and otherwise changes nothing.
\<close>

locale checkout_op =
  fixes op :: "commerce_db \<Rightarrow> ('e + 'a) \<times> commerce_db"
  assumes sound: "sound_step db (snd (op db))"
begin

lemma keeps_wf: "wf_checkout db \<Longrightarrow> wf_checkout (snd (op db))"
  using sound [of db] by (simp add: sound_step_def)

lemma keeps_progress: "wf_checkout db \<Longrightarrow> progress db (snd (op db))"
  using sound [of db] by (simp add: sound_step_def)

lemma keeps_answer:
  "wf_checkout db \<Longrightarrow> a \<in> set (attempts db) \<Longrightarrow> answered a \<Longrightarrow> a \<in> set (attempts (snd (op db)))"
  using keeps_progress by (simp add: progress_def kept_def)

end

locale fenced_op = checkout_op op
  for op :: "commerce_db \<Rightarrow> (api_error + unit) \<times> commerce_db" +
  fixes pg :: "sql_error \<Rightarrow> string" and now :: timestamp and fence :: checkout_fence
  assumes rollback: "fst (op db) = Inl e \<Longrightarrow> snd (op db) = db"
    and fenced: "fst (op db) = Inr () \<Longrightarrow> lock_checkout_fence pg now fence db = Inr ()"
begin

lemma refused: "lock_checkout_fence pg now fence db \<noteq> Inr () \<Longrightarrow> is_ok (fst (op db)) = False \<and> snd (op db) = db"
  using fenced [of db] rollback [of db] by (cases "fst (op db)") auto

end

subsection \<open>Interpretations\<close>

interpretation claim_attempt: checkout_op "claim_checkout_attempt pg pool now tok tok' t r fp"
  for pg pool now tok tok' t r fp
  unfolding claim_checkout_attempt_def
  by unfold_locales (auto intro!: transact_sound dest: claim_tx_sound)

interpretation record_response: checkout_op "record_checkout_response pg pool now t r tok status order_id payload"
  for pg pool now t r tok status order_id payload
  unfolding record_checkout_response_def
  by unfold_locales (auto intro!: transact_sound elim!: update_attempts_sound
      simp: row_defs answered_def owned_live_def lease_live_def split: if_splits)

interpretation record_failure: checkout_op "record_checkout_failure pg pool now t r tok error"
  for pg pool now t r tok error
  unfolding record_checkout_failure_def
  by unfold_locales (auto intro!: transact_sound elim!: update_attempts_sound
      simp: row_defs answered_def owned_live_def lease_live_def split: if_splits)

interpretation refresh: checkout_op "refresh_checkout_fence pg pool now fence"
  for pg pool now fence
  unfolding refresh_checkout_fence_def
  by unfold_locales (auto intro!: transact_sound dest: refresh_fence_sound)

text \<open>A claim touches exactly the row it selected, because the key is unique.\<close>

lemma next_job_row:
  assumes "limit1 (order_by recon_before (next_jobs locked now db)) = Some n"
  shows "n \<in> set (recons db) \<and> recon_claimable now n"
  using limit1_Some [OF assms] by (auto simp: next_jobs_def)

lemma claimed_recon_unique:
  assumes "wf_checkout db" "n \<in> set (recons db)" "r \<in> set (recons db)"
    and "recon_is (rc_tenant n) (rc_request n) (rc_checkout_lease_token n) r"
  shows "r = n"
  using assms distinct_map_inj_on [of rc_key "recons db" r n]
  by (simp add: wf_checkout_def recon_is_def rc_key_def)

interpretation claim_recon: checkout_op "claim_payment_reconciliation pg pool locked now tok"
  for pg pool locked now tok
proof unfold_locales
  fix db :: commerce_db
  have "sound_step db db1"
    if n: "limit1 (order_by recon_before (next_jobs locked now db)) = Some n"
      and u: "update_recons pg (recon_is (rc_tenant n) (rc_request n) (rc_checkout_lease_token n))
        (claimed_recon now tok) db = Inr (k, db1)" for n k db1
  proof (rule update_recons_sound [OF u])
    fix r
    assume r: "recon_is (rc_tenant n) (rc_request n) (rc_checkout_lease_token n) r" "r \<in> set (recons db)" "wf_checkout db"
    then have "r = n" using claimed_recon_unique next_job_row [OF n] by blast
    then show "rc_status r \<noteq> ''completed''"
      and "rc_attempts (claimed_recon now tok r) \<le> PAYMENT_RECONCILIATION_MAX_ATTEMPTS"
      using next_job_row [OF n] by (auto simp: recon_claimable_def row_defs)
  qed (simp add: row_defs)
  then show "sound_step db (snd (claim_payment_reconciliation pg pool locked now tok db))"
    unfolding claim_payment_reconciliation_def
    by (auto intro!: transact_sound simp: Let_def split: option.splits)
qed

interpretation exhaust_recon: checkout_op "reclaim_exhausted_payment_reconciliation pg pool now"
  for pg pool now
  unfolding reclaim_exhausted_payment_reconciliation_def
  by unfold_locales (auto intro!: transact_sound elim!: update_recons_sound_frame simp: row_defs)

interpretation wake_recon: checkout_op "wake_payment_reconciliation pg pool now t r"
  for pg pool now t r
  unfolding wake_payment_reconciliation_def
  by unfold_locales (auto intro!: transact_sound elim!: update_recons_sound_frame simp: row_defs split: if_splits)

lemma fenced_job_update_fenced:
  assumes "\<And>r. rc_key (f r) = rc_key r" "\<And>r. rc_attempts (f r) = rc_attempts r"
  shows "fenced_op (fenced_job_update pg pool now job f err) pg now (job_fence job)"
proof unfold_locales
  fix db :: commerce_db and e
  show "sound_step db (snd (fenced_job_update pg pool now job f err db))"
    unfolding fenced_job_update_def
    by (auto intro!: transact_sound elim!: update_recons_sound_frame simp: assms job_row_def split: if_splits)
  show "fst (fenced_job_update pg pool now job f err db) = Inl e \<Longrightarrow> snd (fenced_job_update pg pool now job f err db) = db"
    unfolding fenced_job_update_def by (rule transact_rollback)
  show "fst (fenced_job_update pg pool now job f err db) = Inr () \<Longrightarrow> lock_checkout_fence pg now (job_fence job) db = Inr ()"
    unfolding fenced_job_update_def by (auto simp: transact_def split: sum.splits)
qed

interpretation observe_recon: fenced_op "record_payment_reconciliation_observation pg pool now job ps os fr" pg now "job_fence job"
  for pg pool now job ps os fr
  unfolding record_payment_reconciliation_observation_def by (rule fenced_job_update_fenced) (simp_all add: row_defs)

interpretation reschedule_recon: fenced_op "reschedule_payment_reconciliation pg pool now job error" pg now "job_fence job"
  for pg pool now job error
  unfolding reschedule_payment_reconciliation_def
  by (rule fenced_job_update_fenced) (simp_all add: row_defs Let_def)

interpretation attach_recon: fenced_op "attach_payment_to_reconciliation pg pool now job payment_id" pg now "job_fence job"
  for pg pool now job payment_id
proof unfold_locales
  fix db :: commerce_db and e
  show "sound_step db (snd (attach_payment_to_reconciliation pg pool now job payment_id db))"
    unfolding attach_payment_to_reconciliation_def
    by (auto intro!: transact_sound elim!: update_recons_sound_frame simp: job_row_def row_defs split: if_splits)
  show "fst (attach_payment_to_reconciliation pg pool now job payment_id db) = Inl e
      \<Longrightarrow> snd (attach_payment_to_reconciliation pg pool now job payment_id db) = db"
    unfolding attach_payment_to_reconciliation_def by (rule transact_rollback)
  show "fst (attach_payment_to_reconciliation pg pool now job payment_id db) = Inr ()
      \<Longrightarrow> lock_checkout_fence pg now (job_fence job) db = Inr ()"
    unfolding attach_payment_to_reconciliation_def by (auto simp: transact_def split: sum.splits)
qed

lemma finish_attempt_sound:
  assumes "update_attempts pg (job_attempt job) f db = Inr (n, db')"
    and "\<And>a. at_key (f a) = at_key a \<and> at_fingerprint (f a) = at_fingerprint a"
  shows "sound_step db db'"
  by (rule update_attempts_sound [OF assms]) (auto simp: job_attempt_def answered_def)

lemma close_recon_sound:
  assumes "update_recons pg (job_row job) f db = Inr (n, db')" "\<And>r. rc_key (f r) = rc_key r"
    and "\<And>r. rc_attempts (f r) = rc_attempts r"
  shows "sound_step db db'"
  by (rule update_recons_sound_frame [OF assms(1,2)]) (simp_all add: job_row_def assms(3))

lemma cancel_order_sound:
  assumes "update_orders pg p (cancelled_order now) db = Inr (n, db')" "\<And>o'. p o' \<Longrightarrow> ord_status o' = ''pending''"
  shows "sound_step db db'"
  by (rule update_orders_sound [OF assms(1)]) (simp_all add: row_defs assms(2))

lemma complete_tx:
  assumes "fst (complete_payment_reconciliation pg pool now job payload db) = Inr ()"
  obtains n db1 where "lock_checkout_fence pg now (job_fence job) db = Inr ()"
    and "update_attempts pg (job_attempt job)
          (\<lambda>a. paid_attempt now payload (a\<lparr>at_order_id := Some (pj_order_id job)\<rparr>)) db = Inr (n, db1)"
    and "n \<noteq> 1 \<Longrightarrow> attempt_status_of pg (pj_tenant_id job) (pj_request_id job) db1 = Inr (Some ''paid'')"
    and "update_recons pg (job_row job) (completed_recon now) db1
          = Inr (1, snd (complete_payment_reconciliation pg pool now job payload db))"
  using assms unfolding complete_payment_reconciliation_def
  by (auto simp: transact_def split: sum.splits if_splits)

interpretation complete_recon: fenced_op "complete_payment_reconciliation pg pool now job payload" pg now "job_fence job"
  for pg pool now job payload
proof unfold_locales
  fix db :: commerce_db and e
  let ?op = "complete_payment_reconciliation pg pool now job payload"
  show roll: "fst (?op db) = Inl e \<Longrightarrow> snd (?op db) = db" for e
    unfolding complete_payment_reconciliation_def by (rule transact_rollback)
  show "fst (?op db) = Inr () \<Longrightarrow> lock_checkout_fence pg now (job_fence job) db = Inr ()"
    by (erule complete_tx)
  show "sound_step db (snd (?op db))"
  proof (cases "fst (?op db)")
    case (Inr u)
    then have "fst (?op db) = Inr ()" by simp
    then obtain n db1 where
      u: "update_attempts pg (job_attempt job)
          (\<lambda>a. paid_attempt now payload (a\<lparr>at_order_id := Some (pj_order_id job)\<rparr>)) db = Inr (n, db1)"
         "update_recons pg (job_row job) (completed_recon now) db1 = Inr (1, snd (?op db))"
      by (rule complete_tx) blast
    show ?thesis
      using finish_attempt_sound [OF u(1)] close_recon_sound [OF u(2)] sound_step_trans by (simp add: row_defs)
  qed (simp add: roll)
qed

lemma fail_tx:
  assumes "fst (fail_payment_reconciliation pg pool now job error db) = Inr ()"
  obtains n db1 m db2 where "lock_checkout_fence pg now (job_fence job) db = Inr ()"
    and "update_attempts pg (job_attempt job) (failed_attempt now error) db = Inr (n, db1)"
    and "update_orders pg (\<lambda>o'. ord_tenant o' = pj_tenant_id job \<and> ord_id o' = pj_order_id job
          \<and> ord_status o' = ''pending'' \<and> compensated db1 o') (cancelled_order now) db1 = Inr (m, db2)"
    and "update_recons pg (job_row job) (failed_recon now (bounded_error_message (ae_message error))) db2
          = Inr (1, snd (fail_payment_reconciliation pg pool now job error db))"
  using assms unfolding fail_payment_reconciliation_def
  by (auto simp: transact_def split: sum.splits if_splits)

interpretation fail_recon: fenced_op "fail_payment_reconciliation pg pool now job error" pg now "job_fence job"
  for pg pool now job error
proof unfold_locales
  fix db :: commerce_db and e
  let ?op = "fail_payment_reconciliation pg pool now job error"
  show roll: "fst (?op db) = Inl e \<Longrightarrow> snd (?op db) = db" for e
    unfolding fail_payment_reconciliation_def by (rule transact_rollback)
  show "fst (?op db) = Inr () \<Longrightarrow> lock_checkout_fence pg now (job_fence job) db = Inr ()"
    by (erule fail_tx)
  show "sound_step db (snd (?op db))"
  proof (cases "fst (?op db)")
    case (Inr u)
    then have "fst (?op db) = Inr ()" by simp
    then obtain n db1 m db2 where
      u: "update_attempts pg (job_attempt job) (failed_attempt now error) db = Inr (n, db1)"
         "update_orders pg (\<lambda>o'. ord_tenant o' = pj_tenant_id job \<and> ord_id o' = pj_order_id job
          \<and> ord_status o' = ''pending'' \<and> compensated db1 o') (cancelled_order now) db1 = Inr (m, db2)"
         "update_recons pg (job_row job) (failed_recon now (bounded_error_message (ae_message error))) db2 = Inr (1, snd (?op db))"
      by (rule fail_tx) blast
    have "sound_step db db1" using finish_attempt_sound [OF u(1)] by (simp add: row_defs)
    also have "sound_step db1 db2" using cancel_order_sound [OF u(2)] by simp
    also have "sound_step db2 (snd (?op db))" using close_recon_sound [OF u(3)] by (simp add: row_defs)
    finally show ?thesis .
  qed (simp add: roll)
qed

subsection \<open>Compensation\<close>

lemma same_task_unique:
  assumes "wf_checkout db" "n \<in> set (compensations db)" "t \<in> set (compensations db)" "same_task n t"
  shows "t = n"
  using assms distinct_map_inj_on [of comp_key "compensations db" t n]
  by (simp add: wf_checkout_def same_task_def comp_key_def)

lemma next_task_row:
  assumes "limit1 (order_by comp_before (next_tasks locked now db)) = Some n"
  shows "n \<in> set (compensations db) \<and> comp_claimable now n"
  using limit1_Some [OF assms] by (auto simp: next_tasks_def)

lemma claim_row_sound: "sound_step db (snd (claim_compensation_row pg pool locked now tok db))"
proof -
  have "sound_step db db1"
    if n: "limit1 (order_by comp_before (next_tasks locked now db)) = Some n"
      and u: "update_compensations pg (same_task n) (claimed_comp now tok) db = Inr (k, db1)" for n k db1
  proof (rule update_compensations_sound [OF u])
    fix t assume t: "same_task n t" "t \<in> set (compensations db)" "wf_checkout db"
    then have "t = n" using same_task_unique next_task_row [OF n] by blast
    then show "\<not> closed_comp t" and "ct_attempts (claimed_comp now tok t) \<le> COMPENSATION_MAX_ATTEMPTS"
      using next_task_row [OF n] by (auto simp: comp_claimable_def closed_comp_def row_defs)
  qed (simp add: row_defs)
  then show ?thesis
    unfolding claim_compensation_row_def by (auto intro!: transact_sound split: option.splits)
qed

interpretation claim_comp: checkout_op "claim_compensation_task pg pool locked now tok"
  for pg pool locked now tok
proof unfold_locales
  fix db
  show "sound_step db (snd (claim_compensation_task pg pool locked now tok db))"
    using claim_row_sound [of db pg pool locked now tok]
    by (auto simp: claim_compensation_task_def split: prod.splits)
qed

lemma finish_tx:
  assumes "finish_compensation_task pg pool now task err db = (Inr (), db')"
  obtains fence db1 where "task_fence task = Inr fence" "lock_checkout_fence pg now fence db = Inr ()"
    and "update_compensations pg (task_held now task) (finished_comp now err) db = Inr (1, db1)"
    and "if err \<noteq> None then db' = db1
      else \<exists>m. update_orders pg (\<lambda>o'. ord_tenant o' = tk_tenant_id task \<and> ord_id o' = tk_order_id task
            \<and> ord_status o' = ''pending'' \<and> compensated db1 o' \<and> task_owner_known db1 task o')
            (cancelled_order now) db1 = Inr (m, db')"
  using transact_eq_InrD [OF assms [unfolded finish_compensation_task_def]]
  by (auto split: if_splits)

interpretation finish_comp: checkout_op "finish_compensation_task pg pool now task err"
  for pg pool now task err
proof unfold_locales
  fix db
  show "sound_step db (snd (finish_compensation_task pg pool now task err db))"
  proof (cases "fst (finish_compensation_task pg pool now task err db)")
    case (Inl e)
    then have "snd (finish_compensation_task pg pool now task err db) = db"
      unfolding finish_compensation_task_def by (rule transact_rollback)
    then show ?thesis by simp
  next
    case (Inr u)
    let ?db' = "snd (finish_compensation_task pg pool now task err db)"
    have "finish_compensation_task pg pool now task err db = (Inr (), ?db')" using Inr by (simp add: prod_eq_iff)
    then obtain db1 where
      u: "update_compensations pg (task_held now task) (finished_comp now err) db = Inr (1, db1)"
      and o: "if err \<noteq> None then ?db' = db1
        else \<exists>m. update_orders pg (\<lambda>o'. ord_tenant o' = tk_tenant_id task \<and> ord_id o' = tk_order_id task
            \<and> ord_status o' = ''pending'' \<and> compensated db1 o' \<and> task_owner_known db1 task o')
            (cancelled_order now) db1 = Inr (m, ?db')"
      by (rule finish_tx) blast
    have "sound_step db db1"
      by (rule update_compensations_sound_frame [OF u]) (auto simp: row_defs task_held_def closed_comp_def)
    also have "sound_step db1 ?db'" using o by (auto split: if_splits dest!: cancel_order_sound)
    finally show ?thesis .
  qed
qed

interpretation dead_letter: checkout_op "dead_letter_expired_compensation_task pg pool locked now"
  for pg pool locked now
proof unfold_locales
  fix db
  have "sound_step db db1"
    if n: "limit1 (order_by (\<lambda>x y. ct_updated_at x \<le> ct_updated_at y)
        (filter (\<lambda>t. expired_comp now t \<and> \<not> locked t) (compensations db))) = Some n"
      and u: "update_compensations pg (\<lambda>t. ct_tenant t = ct_tenant n \<and> ct_id t = ct_id n) (dead_lettered_comp now) db
        = Inr (k, db1)" for n k db1
  proof (rule update_compensations_sound [OF u])
    fix t assume t: "ct_tenant t = ct_tenant n \<and> ct_id t = ct_id n" "t \<in> set (compensations db)" "wf_checkout db"
    have m: "n \<in> set (compensations db)" "expired_comp now n" using limit1_Some [OF n] by auto
    then have "t = n" using t distinct_map_inj_on [of comp_key "compensations db" t n] by (simp add: wf_checkout_def comp_key_def)
    with m t show "\<not> closed_comp t" and "ct_attempts (dead_lettered_comp now t) \<le> COMPENSATION_MAX_ATTEMPTS"
      using comp_attempts_bound by (auto simp: expired_comp_def closed_comp_def row_defs)
  qed (simp add: row_defs)
  then show "sound_step db (snd (dead_letter_expired_compensation_task pg pool locked now db))"
    unfolding dead_letter_expired_compensation_task_def
    by (auto intro!: transact_sound split: option.splits)
qed

interpretation reschedule_comp: checkout_op "reschedule_compensation_task pg pool now task error"
  for pg pool now task error
  unfolding reschedule_compensation_task_def
  by unfold_locales (auto intro!: transact_sound elim!: update_compensations_sound_frame
      simp: row_defs task_held_def closed_comp_def)

interpretation begin_operation: fenced_op "begin_compensation_operation pg pool now order key fence" pg now fence
  for pg pool now order key fence
proof unfold_locales
  fix db :: commerce_db and e
  let ?op = "begin_compensation_operation pg pool now order key fence"
  show "sound_step db (snd (?op db))"
    unfolding begin_compensation_operation_def
    by (auto intro!: transact_sound elim!: update_compensations_sound_frame
        simp: row_defs fence_task_def closed_comp_def split: if_splits)
  show "fst (?op db) = Inl e \<Longrightarrow> snd (?op db) = db"
    unfolding begin_compensation_operation_def by (rule transact_rollback)
  show "fst (?op db) = Inr () \<Longrightarrow> lock_checkout_fence pg now fence db = Inr ()"
    unfolding begin_compensation_operation_def by (auto simp: transact_def split: sum.splits)
qed

interpretation complete_operation: fenced_op "complete_compensation_operation pg pool now order key fence" pg now fence
  for pg pool now order key fence
proof unfold_locales
  fix db :: commerce_db and e
  let ?op = "complete_compensation_operation pg pool now order key fence"
  show "sound_step db (snd (?op db))"
    unfolding complete_compensation_operation_def
    by (auto intro!: transact_sound elim!: update_compensations_sound_frame
        simp: row_defs fence_task_def closed_comp_def split: if_splits)
  show "fst (?op db) = Inl e \<Longrightarrow> snd (?op db) = db"
    unfolding complete_compensation_operation_def by (rule transact_rollback)
  show "fst (?op db) = Inr () \<Longrightarrow> lock_checkout_fence pg now fence db = Inr ()"
    unfolding complete_compensation_operation_def by (auto simp: transact_def split: sum.splits)
qed

subsection \<open>Interleavings\<close>

text \<open>One committed or refused transaction of any checkout process, at any time and with any fresh tokens.\<close>

inductive checkout_step :: "commerce_db \<Rightarrow> commerce_db \<Rightarrow> bool" where
  claim: "checkout_step db (snd (claim_checkout_attempt pg pool now tok tok' t r fp db))"
| respond: "checkout_step db (snd (record_checkout_response pg pool now t r tok status order_id payload db))"
| give_up: "checkout_step db (snd (record_checkout_failure pg pool now t r tok error db))"
| heartbeat: "checkout_step db (snd (refresh_checkout_fence pg pool now fence db))"
| claim_job: "checkout_step db (snd (claim_payment_reconciliation pg pool locked now tok db))"
| exhaust_job: "checkout_step db (snd (reclaim_exhausted_payment_reconciliation pg pool now db))"
| wake_job: "checkout_step db (snd (wake_payment_reconciliation pg pool now t r db))"
| observe_job: "checkout_step db (snd (record_payment_reconciliation_observation pg pool now job ps os' fr db))"
| attach_job: "checkout_step db (snd (attach_payment_to_reconciliation pg pool now job payment_id db))"
| retry_job: "checkout_step db (snd (reschedule_payment_reconciliation pg pool now job err db))"
| complete_job: "checkout_step db (snd (complete_payment_reconciliation pg pool now job payload db))"
| fail_job: "checkout_step db (snd (fail_payment_reconciliation pg pool now job error db))"
| claim_task: "checkout_step db (snd (claim_compensation_task pg pool locked' now tok db))"
| finish_task: "checkout_step db (snd (finish_compensation_task pg pool now task terminal db))"
| expire_task: "checkout_step db (snd (dead_letter_expired_compensation_task pg pool locked'' now db))"
| retry_task: "checkout_step db (snd (reschedule_compensation_task pg pool now task error db))"
| begin_op: "checkout_step db (snd (begin_compensation_operation pg pool now order key fence db))"
| end_op: "checkout_step db (snd (complete_compensation_operation pg pool now order key fence db))"

inductive checkout_reach :: "commerce_db \<Rightarrow> commerce_db \<Rightarrow> bool" for db0 where
  start: "checkout_reach db0 db0"
| more: "checkout_reach db0 db \<Longrightarrow> checkout_step db db' \<Longrightarrow> checkout_reach db0 db'"

lemmas checkout_sound_intros =
  claim_attempt.sound record_response.sound record_failure.sound refresh.sound claim_recon.sound
  exhaust_recon.sound wake_recon.sound observe_recon.sound attach_recon.sound reschedule_recon.sound
  complete_recon.sound fail_recon.sound claim_comp.sound finish_comp.sound dead_letter.sound
  reschedule_comp.sound begin_operation.sound complete_operation.sound

lemma checkout_step_sound: "checkout_step db db' \<Longrightarrow> sound_step db db'"
  by (induction rule: checkout_step.induct) (rule checkout_sound_intros)+

lemma checkout_reach_sound: "checkout_reach db0 db \<Longrightarrow> sound_step db0 db"
  by (induction rule: checkout_reach.induct) (simp, erule sound_step_trans, erule checkout_step_sound)

lemma checkout_reach_one: "checkout_step db db' \<Longrightarrow> checkout_reach db db'"
  by (rule checkout_reach.more [OF checkout_reach.start])

end
