(* ===== verification/CheckoutFacts.thy ===== *)
theory CheckoutFacts
  imports CheckoutSteps InventoryStore
begin

text \<open>
  Facts about single checkout transactions that the properties of checkout rest on: what a claim finds and
  leaves, which rows a reclaim retires, and what the fences answer afterwards.
\<close>

subsection \<open>Rows by key\<close>

lemma attempt_by_key:
  assumes "wf_checkout db" "a \<in> set (attempts db)"
  shows "filter (\<lambda>x. at_tenant x = at_tenant a \<and> at_request x = at_request a) (attempts db) = [a]"
  using assms by (intro filter_unique [where key = at_key]) (auto simp: wf_checkout_def at_key_def)

lemma attempt_key_eq:
  "wf_checkout db \<Longrightarrow> a \<in> set (attempts db) \<Longrightarrow> x \<in> set (attempts db)
    \<Longrightarrow> at_tenant x = at_tenant a \<Longrightarrow> at_request x = at_request a \<Longrightarrow> x = a"
  using distinct_map_inj_on [of at_key "attempts db" x a] by (simp add: wf_checkout_def at_key_def)

lemma attempt_checked: "wf_checkout db \<Longrightarrow> a \<in> set (attempts db) \<Longrightarrow> attempt_check a"
  by (simp add: wf_checkout_def list_all_iff)

lemma recon_checked: "wf_checkout db \<Longrightarrow> r \<in> set (recons db) \<Longrightarrow> recon_check r"
  by (simp add: wf_checkout_def list_all_iff)

lemma row_found_iff: "row_found pg rows = Inr b \<longleftrightarrow> (rows = [] \<and> \<not> b) \<or> (\<exists>x. rows = [x] \<and> b)"
  by (auto simp: row_found_def query_opt_def split: list.splits)

lemma row_found_Nil [simp]: "row_found pg [] = Inr False"
  by (simp add: row_found_def)

lemma row_found_one [simp]: "row_found pg [x] = Inr True"
  by (simp add: row_found_def)

subsection \<open>Claims\<close>

lemma new_attempt_check: "attempt_check (new_attempt now tok t r fp) \<longleftrightarrow> btrim_nonempty tok"
  by (simp add: attempt_check_def new_attempt_def)

lemma claim_tx_existing:
  assumes "wf_checkout db" "a \<in> set (attempts db)" "btrim_nonempty tok"
  shows "claim_tx pg now tok tok' (at_tenant a) (at_request a) fp db
    = claim_existing pg now tok' (at_tenant a) (at_request a) fp a db"
proof -
  have "at_key (new_attempt now tok (at_tenant a) (at_request a) fp) \<in> set (map at_key (attempts db))"
    using assms(2) by (force simp: at_key_def new_attempt_def)
  then have "sql_insert at_key attempt_check (new_attempt now tok (at_tenant a) (at_request a) fp) (attempts db)
      = Inl Unique_violation"
    using assms(3) by (simp add: sql_insert_def new_attempt_check)
  then show ?thesis using attempt_by_key [OF assms(1,2)] by (simp add: claim_tx_def Let_def)
qed

lemma restart_stale:
  assumes "claim_started pg now tok t r a db = Inr (New k, db')"
  obtains db1 where "attempt_stale now a" "k = tok"
    and "update_attempts pg (\<lambda>x. attempt_is t r (at_lease_token a) x \<and> at_status x = ''started''
        \<and> attempt_stale now x) (restart_attempt now tok) db = Inr (1, db1)"
    and "retire_children pg now t r (at_lease_token a) tok db1 = Inr db'"
  using assms by (auto simp: claim_started_def claim_paid_def Let_def split: if_splits)

text \<open>The two ways to get a generation: the first insert, and the reclaim of a stale row.\<close>

lemma claim_tx_New:
  assumes "claim_tx pg now tok tok' t r fp db = Inr (New k, db')"
  obtains (fresh) "k = tok" "db' = db\<lparr>attempts := attempts db @ [new_attempt now tok t r fp]\<rparr>"
      "(t, r) \<notin> at_key ` set (attempts db)" "btrim_nonempty tok"
    | (reclaimed) a where "a \<in> set (attempts db)" "at_key a = (t, r)" "at_fingerprint a = fp"
      "at_status a = ''started''" "claim_started pg now tok' t r a db = Inr (New k, db')"
proof -
  have key: "at_key (new_attempt now tok t r fp) = (t, r)" by (simp add: at_key_def new_attempt_def)
  show thesis
  proof (cases "sql_insert at_key attempt_check (new_attempt now tok t r fp) (attempts db)")
    case (Inr rows)
    with assms show thesis
      by (intro fresh) (auto simp: claim_tx_def Let_def sql_insert_Inr key new_attempt_check split: if_splits)
  next
    case (Inl e)
    with assms have "e = Unique_violation" by (auto simp: claim_tx_def Let_def split: sql_error.splits)
    with Inl assms obtain a where
      "query_opt (filter (\<lambda>a. at_tenant a = t \<and> at_request a = r) (attempts db)) = Inr (Some a)"
      "claim_existing pg now tok' t r fp a db = Inr (New k, db')"
      by (auto simp: claim_tx_def Let_def)
    moreover from this(1) have "a \<in> set (filter (\<lambda>a. at_tenant a = t \<and> at_request a = r) (attempts db))"
      by (simp add: query_opt_Some)
    ultimately show thesis
      by (intro reclaimed [of a]) (auto simp: claim_existing_def claim_failed_def at_key_def split: if_splits)
  qed
qed

lemma retire_children_attempts: "retire_children pg now t r old new db = Inr db' \<Longrightarrow> attempts db' = attempts db"
  by (auto simp: retire_children_def update_recons_def update_compensations_def)

lemma update_attempts_rows:
  "update_attempts pg p f db = Inr (n, db') \<Longrightarrow> db' = db\<lparr>attempts := update_where p f (attempts db)\<rparr>"
  by (auto simp: update_attempts_def sql_update_Inr)

lemma update_recons_rows:
  "update_recons pg p f db = Inr (n, db') \<Longrightarrow> db' = db\<lparr>recons := update_where p f (recons db)\<rparr>"
  by (auto simp: update_recons_def sql_update_Inr)

lemma update_compensations_rows:
  "update_compensations pg p f db = Inr (n, db') \<Longrightarrow> db' = db\<lparr>compensations := update_where p f (compensations db)\<rparr>"
  by (auto simp: update_compensations_def sql_update_Inr)

lemma update_orders_frame: "update_orders pg p f db = Inr (n, db') \<Longrightarrow> compensations db' = compensations db"
  by (auto simp: update_orders_def)

lemma claim_started_attempts:
  assumes "wf_checkout db" "a \<in> set (attempts db)" "at_key a = (t, r)" "at_status a = ''started''"
    and "claim_started pg now tok t r a db = Inr (New k, db')"
  shows "k = tok" and "restart_attempt now tok a \<in> set (attempts db')"
    and "\<forall>x \<in> set (attempts db'). at_key x = (t, r) \<longrightarrow> x = restart_attempt now tok a"
proof -
  obtain db1 where s: "attempt_stale now a" "k = tok"
    and u: "update_attempts pg (\<lambda>x. attempt_is t r (at_lease_token a) x \<and> at_status x = ''started''
        \<and> attempt_stale now x) (restart_attempt now tok) db = Inr (1, db1)"
    and c: "retire_children pg now t r (at_lease_token a) tok db1 = Inr db'"
    using restart_stale [OF assms(5)] by blast
  let ?p = "\<lambda>x. attempt_is t r (at_lease_token a) x \<and> at_status x = ''started'' \<and> attempt_stale now x"
  have rows: "attempts db' = update_where ?p (restart_attempt now tok) (attempts db)"
    using retire_children_attempts [OF c] update_attempts_rows [OF u] by simp
  have pa: "?p a" using assms(3,4) s(1) by (simp add: attempt_is_def at_key_def)
  show "k = tok" by (fact s(2))
  show "restart_attempt now tok a \<in> set (attempts db')"
    using assms(2) pa by (auto simp: rows set_update_where intro!: image_eqI [of _ _ a])
  show "\<forall>x \<in> set (attempts db'). at_key x = (t, r) \<longrightarrow> x = restart_attempt now tok a"
  proof (intro ballI impI)
    fix x assume key: "at_key x = (t, r)" and "x \<in> set (attempts db')"
    from this(2) consider "x \<in> set (attempts db)" "\<not> ?p x"
      | y where "y \<in> set (attempts db)" "?p y" "x = restart_attempt now tok y"
      unfolding rows by (rule in_set_update_whereE) blast+
    then show "x = restart_attempt now tok a"
    proof cases
      case 1
      then have "x = a" using attempt_key_eq [OF assms(1,2)] key assms(3) by (simp add: at_key_def)
      with 1 pa show ?thesis by blast
    next
      case 2
      then have "y = a" using attempt_key_eq [OF assms(1,2)] assms(3) by (simp add: at_key_def attempt_is_def)
      with 2 show ?thesis by simp
    qed
  qed
qed

lemma claim_New_row:
  assumes "wf_checkout db" "claim_tx pg now tok tok' t r fp db = Inr (New k, db')"
  shows "\<exists>x \<in> set (attempts db'). at_key x = (t, r) \<and> at_fingerprint x = fp \<and> at_status x = ''started''
    \<and> at_lease_token x = k \<and> at_lease_expires_at x = Some (now + seconds 600)"
  using assms(2)
proof (cases rule: claim_tx_New)
  case fresh
  then show ?thesis by (auto simp: new_attempt_def at_key_def)
next
  case (reclaimed a)
  note c = claim_started_attempts [OF assms(1) reclaimed(1,2,4,5)]
  show ?thesis
    by (rule bexI [OF _ c(2)])
      (use reclaimed(2,3) c(1) in \<open>simp add: restart_attempt_def at_key_def CHECKOUT_ATTEMPT_STALE_AFTER_def\<close>)
qed

subsection \<open>Retired generations\<close>

lemma retire_children_recons:
  assumes "retire_children pg now t r old new db = Inr db'" "old \<noteq> new" "x \<in> set (recons db')" "recon_is t r old x"
  shows "rc_status x = ''completed''"
proof -
  have "recons db' = update_where (\<lambda>x. recon_is t r old x \<and> rc_status x \<noteq> ''completed'') (transfer_recon now new) (recons db)"
    using assms(1) by (auto simp: retire_children_def dest!: update_recons_rows update_compensations_rows)
  with assms(3) have "x \<in> set (update_where (\<lambda>x. recon_is t r old x \<and> rc_status x \<noteq> ''completed'') (transfer_recon now new) (recons db))"
    by simp
  then show ?thesis
    by (rule in_set_update_whereE) (use assms(2,4) in \<open>simp_all add: recon_is_def transfer_recon_def\<close>)
qed

lemma retire_children_compensations:
  assumes "retire_children pg now t r old new db = Inr db'" "x \<in> set (compensations db')"
    and "ct_tenant x = t" "ct_checkout_request_id x = r" "ct_checkout_lease_token x = old"
  shows "closed_comp x"
proof -
  have "compensations db' = update_where (\<lambda>x. ct_tenant x = t \<and> ct_checkout_request_id x = r
      \<and> ct_checkout_lease_token x = old \<and> ct_status x \<notin> {''completed'', ''superseded''}) (supersede_comp now) (compensations db)"
    using assms(1) by (auto simp: retire_children_def dest!: update_recons_rows update_compensations_rows)
  with assms(2) have "x \<in> set (update_where (\<lambda>x. ct_tenant x = t \<and> ct_checkout_request_id x = r
      \<and> ct_checkout_lease_token x = old \<and> ct_status x \<notin> {''completed'', ''superseded''}) (supersede_comp now) (compensations db))"
    by simp
  then show ?thesis
    by (rule in_set_update_whereE) (use assms(3-5) in \<open>auto simp: supersede_comp_def closed_comp_def\<close>)
qed

fun fence_tenant :: "checkout_fence \<Rightarrow> string" where
  "fence_tenant (Attempt lease) = cl_tenant_id lease"
| "fence_tenant (PaymentReconciliation t r p w) = t"
| "fence_tenant (Compensation t r k i c) = t"

lemma lock_stale_generation:
  assumes "\<not> (\<exists>a \<in> set (attempts db). attempt_is (fence_tenant fence) (fence_request_id fence) (fence_token fence) a)"
  shows "lock_checkout_fence pg now fence db = Inl (lease_lost ''checkout parent generation is no longer current'')"
proof -
  have "filter (\<lambda>a. attempt_is (fence_tenant fence) (fence_request_id fence) (fence_token fence) a \<and> q a) (attempts db) = []"
    for q using assms by (auto simp: filter_empty_conv)
  then show ?thesis by (cases fence) (simp_all add: lock_checkout_parent_def)
qed

lemma inventory_stale_generation:
  assumes "\<not> (\<exists>a \<in> set (attempts db). attempt_is t r tok a)"
  shows "lock_current_checkout_fence db now t r tok
    = Inl (Reservation_conflict ''checkout_lease_lost'' ''authoritative checkout fence is no longer current'')"
proof -
  have "filter (\<lambda>a. at_tenant a = t \<and> at_request a = r \<and> at_lease_token a = tok \<and> current_fence db now a) (attempts db) = []"
    using assms by (auto simp: filter_empty_conv attempt_is_def)
  then show ?thesis by (simp add: lock_current_checkout_fence_def)
qed

lemma record_response_stale:
  assumes "\<not> (\<exists>a \<in> set (attempts db). attempt_is t r tok a)"
  shows "record_checkout_response pg Pool_ok now t r tok status order_id payload db
    = (Inl (lease_lost ''checkout idempotency response no longer owns an active lease''), db)"
proof -
  have "\<forall>a \<in> set (attempts db). \<not> owned_live now t r tok a" using assms by (auto simp: owned_live_def)
  then show ?thesis
    by (simp add: record_checkout_response_def transact_def acquire_db_def update_attempts_def sql_update_def
        list_all_iff count_where_def filter_empty_conv)
qed

subsection \<open>Completing a job\<close>

lemma complete_job_row:
  assumes "complete_payment_reconciliation pg pool now job payload db = (Inr (), db')"
  shows "list_ex (\<lambda>r. recon_is (pj_tenant_id job) (pj_request_id job) (pj_parent_lease_token job) r
            \<and> rc_status r = ''completed'' \<and> rc_completed_at r = Some now) (recons db')"
proof -
  have "fst (complete_payment_reconciliation pg pool now job payload db) = Inr ()" using assms by simp
  then obtain db1 where u: "update_recons pg (job_row job) (completed_recon now) db1 = Inr (1, db')"
    using assms by (metis complete_tx snd_conv)
  then have "count_where (job_row job) (recons db1) = 1" by (auto simp: update_recons_def sql_update_Inr)
  then obtain r where r: "r \<in> set (recons db1)" "job_row job r"
    using count_where_eq_0 [of "job_row job" "recons db1"] by auto
  then have "completed_recon now r \<in> set (recons db')"
    using update_recons_rows [OF u] by (auto simp: set_update_where)
  with r(2) show ?thesis
    unfolding list_ex_iff by (intro bexI) (auto simp: job_row_def recon_is_def completed_recon_def)
qed

lemma complete_attempt_row:
  assumes "complete_payment_reconciliation pg pool now job payload db = (Inr (), db')"
  shows "list_ex (\<lambda>a. at_key a = (pj_tenant_id job, pj_request_id job) \<and> at_status a = ''paid''
            \<and> (at_response_payload a = Some payload \<or> a \<in> set (attempts db))) (attempts db')"
proof -
  let ?f = "\<lambda>a. paid_attempt now payload (a\<lparr>at_order_id := Some (pj_order_id job)\<rparr>)"
  have "fst (complete_payment_reconciliation pg pool now job payload db) = Inr ()" using assms by simp
  then obtain n db1 where u1: "update_attempts pg (job_attempt job) ?f db = Inr (n, db1)"
    and st: "n \<noteq> 1 \<Longrightarrow> attempt_status_of pg (pj_tenant_id job) (pj_request_id job) db1 = Inr (Some ''paid'')"
    and u2: "update_recons pg (job_row job) (completed_recon now) db1 = Inr (1, db')"
    using assms by (metis complete_tx snd_conv)
  have same: "attempts db' = attempts db1" and rows: "attempts db1 = update_where (job_attempt job) ?f (attempts db)"
    using update_attempts_rows [OF u1] update_recons_rows [OF u2] by simp_all
  show ?thesis
  proof (cases "n = 1")
    case True
    then have "count_where (job_attempt job) (attempts db) \<noteq> 0"
      using u1 by (auto simp: update_attempts_def sql_update_Inr)
    then obtain a where a: "a \<in> set (attempts db)" "job_attempt job a" by (auto simp: count_where_eq_0)
    then show ?thesis unfolding list_ex_iff same rows set_update_where
      by (intro bexI [OF _ imageI [OF a(1)]]) (auto simp: job_attempt_def attempt_is_def at_key_def paid_attempt_def)
  next
    case False
    then obtain a where "filter (\<lambda>a. at_tenant a = pj_tenant_id job \<and> at_request a = pj_request_id job) (attempts db1) = [a]"
      and paid: "at_status a = ''paid''" using st by (auto simp: attempt_status_of_def query_opt_Some)
    then have a: "a \<in> set (attempts db1)" "at_key a = (pj_tenant_id job, pj_request_id job)"
      by (auto simp: at_key_def dest: filter_eq_singleD)
    from a(1) have "a \<in> set (attempts db) \<or> at_response_payload a = Some payload"
      unfolding rows by (rule in_set_update_whereE) (auto simp: paid_attempt_def)
    with a paid show ?thesis by (auto simp: list_ex_iff same)
  qed
qed

subsection \<open>Cancelling an order\<close>

definition cancels_compensated :: "timestamp \<Rightarrow> commerce_db \<Rightarrow> commerce_db \<Rightarrow> bool" where
  "cancels_compensated now db db' \<longleftrightarrow>
     (\<forall>x \<in> set (orders db'). x \<in> set (orders db)
        \<or> (\<exists>y \<in> set (orders db). ord_status y = ''pending'' \<and> compensated db' y \<and> x = cancelled_order now y))"

lemma cancels_refl: "orders db' = orders db \<Longrightarrow> cancels_compensated now db db'"
  by (simp add: cancels_compensated_def)

lemma update_orders_cancels:
  assumes "update_orders pg p (cancelled_order now) db1 = Inr (n, db2)"
    and "\<And>y. p y \<Longrightarrow> ord_status y = ''pending'' \<and> compensated db1 y"
    and "orders db1 = orders db" "orders db' = orders db2" "compensations db' = compensations db1"
  shows "cancels_compensated now db db'"
proof -
  have rows: "orders db' = update_where p (cancelled_order now) (orders db)"
    using assms(1,3,4) by (auto simp: update_orders_def sql_update_Inr)
  have "compensated db' y = compensated db1 y" for y using assms(5) by (simp add: compensated_def)
  then show ?thesis using assms(2) unfolding cancels_compensated_def rows
    by (auto elim!: in_set_update_whereE)
qed

lemma fail_cancels_compensated: "cancels_compensated now db (snd (fail_payment_reconciliation pg pool now job error db))"
proof (cases "fst (fail_payment_reconciliation pg pool now job error db)")
  case (Inl e)
  then show ?thesis using fail_recon.rollback [OF Inl] by (simp add: cancels_refl)
next
  case (Inr v)
  let ?db' = "snd (fail_payment_reconciliation pg pool now job error db)"
  have "fst (fail_payment_reconciliation pg pool now job error db) = Inr ()" using Inr by simp
  then show ?thesis
  proof (rule fail_tx)
    fix n db1 m db2
    assume u: "update_attempts pg (job_attempt job) (failed_attempt now error) db = Inr (n, db1)"
      "update_orders pg (\<lambda>o'. ord_tenant o' = pj_tenant_id job \<and> ord_id o' = pj_order_id job
          \<and> ord_status o' = ''pending'' \<and> compensated db1 o') (cancelled_order now) db1 = Inr (m, db2)"
      "update_recons pg (job_row job) (failed_recon now (bounded_error_message (ae_message error))) db2 = Inr (1, ?db')"
    have "compensations db2 = compensations db1" using u(2) by (rule update_orders_frame)
    then show ?thesis
      using update_attempts_rows [OF u(1)] update_recons_rows [OF u(3)]
      by (intro update_orders_cancels [OF u(2)]) auto
  qed
qed

lemma finish_cancels_compensated: "cancels_compensated now db (snd (finish_compensation_task pg pool now task err db))"
proof (cases "fst (finish_compensation_task pg pool now task err db)")
  case (Inl e)
  then have "snd (finish_compensation_task pg pool now task err db) = db"
    unfolding finish_compensation_task_def by (rule transact_rollback)
  then show ?thesis by (simp add: cancels_refl)
next
  case (Inr v)
  let ?db' = "snd (finish_compensation_task pg pool now task err db)"
  have "finish_compensation_task pg pool now task err db = (Inr (), ?db')" using Inr by (simp add: prod_eq_iff)
  then obtain db1 where u: "update_compensations pg (task_held now task) (finished_comp now err) db = Inr (1, db1)"
    and o: "if err \<noteq> None then ?db' = db1
      else \<exists>m. update_orders pg (\<lambda>o'. ord_tenant o' = tk_tenant_id task \<and> ord_id o' = tk_order_id task
            \<and> ord_status o' = ''pending'' \<and> compensated db1 o' \<and> task_owner_known db1 task o')
            (cancelled_order now) db1 = Inr (m, ?db')"
    by (rule finish_tx) blast
  have same: "orders db1 = orders db" using update_compensations_rows [OF u] by simp
  show ?thesis
  proof (cases err)
    case None
    with o obtain m where c: "update_orders pg (\<lambda>o'. ord_tenant o' = tk_tenant_id task \<and> ord_id o' = tk_order_id task
            \<and> ord_status o' = ''pending'' \<and> compensated db1 o' \<and> task_owner_known db1 task o')
            (cancelled_order now) db1 = Inr (m, ?db')" by auto
    then have "compensations ?db' = compensations db1" by (rule update_orders_frame)
    then show ?thesis using same by (intro update_orders_cancels [OF c]) auto
  qed (use o same in \<open>simp add: cancels_refl\<close>)
qed

end
