(* ===== verification/CheckoutProperties.thy ===== *)
theory CheckoutProperties
  imports CheckoutFacts InventorySamples
begin

text \<open>
  The properties of checkout: answers are final, one generation at a time, a reclaimed generation is fenced
  out everywhere, workers keep their claims and stop after a bounded number of attempts. The concrete runs
  use the small warehouse of the inventory samples with one order, one reconciliation job and one
  compensation task.
\<close>

definition co_pg :: "sql_error \<Rightarrow> string" where "co_pg e = ''db''"

definition co_order :: order_row where
  "co_order = \<lparr>ord_id = ''o'', ord_tenant = ''t'', ord_customer_id = Some ''c'', ord_cart_id = None,
     ord_number = ''N1'', ord_status = ''pending'', ord_currency = ''USD'', ord_subtotal_minor = 100,
     ord_discount_minor = 0, ord_tax_minor = 0, ord_total_minor = 100, ord_checkout_request_id = Some ''q'',
     ord_promotion_code = None, ord_updated_at = 0\<rparr>"

definition co_recon :: recon_row where
  "co_recon = \<lparr>rc_tenant = ''t'', rc_request = ''q'', rc_order_id = ''o'', rc_authorize_request_id = ''q:authorize'',
     rc_payment_id = None, rc_merchant_reference = ''o'', rc_amount_minor = 100, rc_currency = ''USD'',
     rc_method_type = ''card'', rc_feature_variant = ''control'', rc_status = ''processing'', rc_attempts = 1,
     rc_available_at = 0, rc_claimed_at = Some 0, rc_lease_token = Some ''w'', rc_lease_expires_at = Some 500,
     rc_completed_at = None, rc_last_payment_status = None, rc_last_operation_status = None,
     rc_last_failure_reason = None, rc_last_error = None, rc_traceparent = None, rc_tracestate = None,
     rc_baggage = None, rc_checkout_lease_token = ''k'', rc_created_at = 0, rc_updated_at = 0\<rparr>"

definition co_db :: commerce_db where
  "co_db = demo_db\<lparr>attempts := [demo_attempt\<lparr>at_order_id := Some ''o''\<rparr>], orders := [co_order], recons := [co_recon]\<rparr>"

definition co_job :: payment_reconciliation_job where
  "co_job = job_of ''w'' co_recon"

lemma co_wf: "wf_checkout co_db" by code_simp

subsection \<open>Answers\<close>



text \<open>
  One generation at a time: after a claim started a generation at time now, every other claim of the same
  request before the ten minutes of its lease are over is told that the request is in progress, and changes
  nothing.
\<close>

theorem claim_excludes_others:
  assumes "wf_checkout db" and "claim_checkout_attempt pg pool now tok tok' t r fp db = (Inr (New k), db')"
    and "now' < now + seconds 600" and "btrim_nonempty tok2"
  shows "claim_checkout_attempt pg' Pool_ok now' tok2 tok3 t r fp db' = (Inr InProgress, db')"
proof -
  have tx: "claim_tx pg now tok tok' t r fp db = Inr (New k, db')"
    using transact_eq_InrD [OF assms(2) [unfolded claim_checkout_attempt_def]] by auto
  have wf: "wf_checkout db'" using claim_attempt.keeps_wf [OF assms(1)] assms(2) by (metis snd_conv)
  obtain x where x: "x \<in> set (attempts db')" "at_key x = (t, r)" "at_fingerprint x = fp"
    "at_status x = ''started''" "at_lease_expires_at x = Some (now + seconds 600)"
    using claim_New_row [OF assms(1) tx] by blast
  have "claim_tx pg' now' tok2 tok3 t r fp db' = Inr (InProgress, db')"
    using claim_tx_existing [OF wf x(1) assms(4), of pg' now' tok3 fp] x assms(3)
    by (simp add: at_key_def claim_existing_def claim_started_def attempt_stale_def)
  then show ?thesis by (simp add: claim_checkout_attempt_def acquire_db_def)
qed

theorem claim_excludes_others_witness:
  "claim_checkout_attempt co_pg Pool_ok 50 ''x'' ''y'' ''t'' ''z'' ''f''
      (snd (claim_checkout_attempt co_pg Pool_ok 0 ''n'' ''m'' ''t'' ''z'' ''f'' co_db))
    = (Inr InProgress, snd (claim_checkout_attempt co_pg Pool_ok 0 ''n'' ''m'' ''t'' ''z'' ''f'' co_db))"
proof (rule claim_excludes_others [OF co_wf, of co_pg Pool_ok 0 "''n''" "''m''" "''t''" "''z''" "''f''" "''n''"])
  show "claim_checkout_attempt co_pg Pool_ok 0 ''n'' ''m'' ''t'' ''z'' ''f'' co_db
      = (Inr (New ''n''), snd (claim_checkout_attempt co_pg Pool_ok 0 ''n'' ''m'' ''t'' ''z'' ''f'' co_db))"
    by code_simp
qed (simp_all add: seconds_def btrim_nonempty_def)

subsection \<open>Generations\<close>

text \<open>
  C9. A reclaimed generation is fenced out everywhere: when a claim takes over a request from the generation
  of token old, then at every later time each fence of that generation (attempt, reconciliation worker or
  compensation worker) is refused, the inventory service refuses its lease too, the old owner cannot store a
  response, and none of its reconciliation jobs or compensation tasks is left open.
\<close>

theorem reclaim_fences_out_old_generation:
  assumes "wf_checkout db" and "claim_checkout_attempt pg pool now tok tok' t r fp db = (Inr (New k), db')"
    and "a \<in> set (attempts db)" and "at_key a = (t, r)" and "at_lease_token a = old" and "tok' \<noteq> old"
    and "fence_tenant fence = t" and "fence_request_id fence = r" and "fence_token fence = old"
  shows "lock_checkout_fence pg' now' fence db' = Inl (lease_lost ''checkout parent generation is no longer current'')
    \<and> lock_current_checkout_fence db' now' t r old
        = Inl (Reservation_conflict ''checkout_lease_lost'' ''authoritative checkout fence is no longer current'')
    \<and> record_checkout_response pg' Pool_ok now' t r old status order_id payload db'
        = (Inl (lease_lost ''checkout idempotency response no longer owns an active lease''), db')
    \<and> list_all (\<lambda>x. recon_is t r old x \<longrightarrow> rc_status x = ''completed'') (recons db')
    \<and> list_all (\<lambda>x. ct_tenant x = t \<and> ct_checkout_request_id x = r \<and> ct_checkout_lease_token x = old
        \<longrightarrow> closed_comp x) (compensations db')"
proof -
  have "claim_tx pg now tok tok' t r fp db = Inr (New k, db')"
    using transact_eq_InrD [OF assms(2) [unfolded claim_checkout_attempt_def]] by auto
  then obtain b where b: "b \<in> set (attempts db)" "at_key b = (t, r)" "at_status b = ''started''"
    "claim_started pg now tok' t r b db = Inr (New k, db')"
  proof (cases rule: claim_tx_New)
    case fresh
    then show thesis using assms(3,4) by (metis image_eqI)
  qed blast
  have ba: "b = a" using attempt_key_eq [OF assms(1,3) b(1)] assms(4) b(2) by (simp add: at_key_def)
  obtain db1 where c: "retire_children pg now t r old tok' db1 = Inr db'"
    using restart_stale [OF b(4)] ba assms(5) by blast
  have none: "\<not> (\<exists>x \<in> set (attempts db'). attempt_is t r old x)"
  proof
    assume "\<exists>x \<in> set (attempts db'). attempt_is t r old x"
    then obtain x where "x \<in> set (attempts db')" "attempt_is t r old x" by blast
    moreover from this have "x = restart_attempt now tok' b"
      using claim_started_attempts(3) [OF assms(1) b] by (simp add: attempt_is_def at_key_def)
    ultimately show False using assms(6) by (simp add: attempt_is_def restart_attempt_def)
  qed
  show ?thesis
    using lock_stale_generation [of db' fence pg' now'] none assms(7-9)
      inventory_stale_generation [OF none] record_response_stale [OF none, of pg' now' status order_id payload]
      retire_children_recons [OF c] retire_children_compensations [OF c] assms(6)
    by (auto simp: list_all_iff)
qed

theorem reclaim_fences_out_old_generation_witness:
  "lock_checkout_fence co_pg 0 (Attempt \<lparr>cl_tenant_id = ''t'', cl_request_id = ''q'', cl_token = ''k''\<rparr>)
      (snd (claim_checkout_attempt co_pg Pool_ok 1000000000000 ''n'' ''m'' ''t'' ''q'' ''f'' co_db))
    = Inl (lease_lost ''checkout parent generation is no longer current'')"
proof -
  have c: "claim_checkout_attempt co_pg Pool_ok 1000000000000 ''n'' ''m'' ''t'' ''q'' ''f'' co_db
      = (Inr (New ''m''), snd (claim_checkout_attempt co_pg Pool_ok 1000000000000 ''n'' ''m'' ''t'' ''q'' ''f'' co_db))"
    by code_simp
  show ?thesis
    using reclaim_fences_out_old_generation [OF co_wf c, of "demo_attempt\<lparr>at_order_id := Some ''o''\<rparr>" "''k''"
        "Attempt \<lparr>cl_tenant_id = ''t'', cl_request_id = ''q'', cl_token = ''k''\<rparr>" co_pg 0]
    by (simp add: co_db_def demo_attempt_def at_key_def)
qed

subsection \<open>Workers\<close>



text \<open>
  A worker with a current lease keeps its job: no claim of another worker and no cleanup of exhausted jobs
  changes a reconciliation row whose lease has not expired.
\<close>

theorem live_worker_keeps_job:
  assumes "wf_checkout db" and "r \<in> set (recons db)" and "recon_live now r"
  shows "r \<in> set (recons (snd (claim_payment_reconciliation pg pool locked now tok db)))
    \<and> r \<in> set (recons (snd (reclaim_exhausted_payment_reconciliation pg pool now db)))"
proof
  have not: "\<not> recon_claimable now r" "\<not> not_after_now now (rc_lease_expires_at r)"
    using assms(3) by (auto simp: recon_live_def recon_claimable_def after_now_def not_after_now_def split: option.splits)
  have "r \<in> set (recons db1)"
    if n: "limit1 (order_by recon_before (next_jobs locked now db)) = Some n"
      and u: "update_recons pg (recon_is (rc_tenant n) (rc_request n) (rc_checkout_lease_token n))
        (claimed_recon now tok) db = Inr (k, db1)" for n k db1
  proof -
    have "\<not> recon_is (rc_tenant n) (rc_request n) (rc_checkout_lease_token n) r"
      using claimed_recon_unique [OF assms(1) _ assms(2)] next_job_row [OF n] not(1) by blast
    then show ?thesis using assms(2) update_recons_rows [OF u] by (auto simp: set_update_where)
  qed
  then show "r \<in> set (recons (snd (claim_payment_reconciliation pg pool locked now tok db)))"
    using assms(2) unfolding claim_payment_reconciliation_def
    by (auto simp: transact_def Let_def split: sum.splits option.splits)
  show "r \<in> set (recons (snd (reclaim_exhausted_payment_reconciliation pg pool now db)))"
    using assms(2) not(2) unfolding reclaim_exhausted_payment_reconciliation_def
    by (auto simp: transact_def set_update_where dest!: update_recons_rows split: sum.splits)
qed

theorem live_worker_keeps_job_witness:
  "co_recon \<in> set (recons (snd (claim_payment_reconciliation co_pg Pool_ok (\<lambda>_ _. False) 400 ''v'' co_db)))"
  using live_worker_keeps_job [OF co_wf, of co_recon 400 co_pg Pool_ok "\<lambda>_ _. False" "''v''"]
  by (simp add: co_db_def co_recon_def recon_live_def after_now_def)

text \<open>
  A crashed worker's job is taken over: when some job is claimable, its checkout generation is failed,
  pending or live, and no row is locked, the next claim returns a job with a fresh five-minute lease and one
  more attempt.
\<close>

theorem abandoned_job_is_taken_over:
  assumes "wf_checkout db" and "r \<in> set (recons db)" and "recon_claimable now r"
    and "a \<in> set (attempts db)" and "attempt_is (rc_tenant r) (rc_request r) (rc_checkout_lease_token r) a"
    and "at_status a = ''failed'' \<or> at_status a = ''pending'' \<or> lease_live now a"
  shows "\<exists>n \<in> set (recons db). claim_payment_reconciliation pg Pool_ok (\<lambda>_ _. False) now tok db
    = (Inr (Some (job_of tok (claimed_recon now tok n))),
       db\<lparr>recons := update_where (\<lambda>x. x = n) (claimed_recon now tok) (recons db)\<rparr>)"
proof -
  have "r \<in> set (next_jobs (\<lambda>_ _. False) now db)" using assms(2-6) by (auto simp: next_jobs_def)
  then have "order_by recon_before (next_jobs (\<lambda>_ _. False) now db) \<noteq> []"
    by (metis empty_iff list.set(1) order_by_eq_Nil)
  then obtain n where n: "limit1 (order_by recon_before (next_jobs (\<lambda>_ _. False) now db)) = Some n"
    using limit1_None by (metis not_Some_eq)
  let ?p = "recon_is (rc_tenant n) (rc_request n) (rc_checkout_lease_token n)"
  note in_n = next_job_row [OF n]
  have p: "?p x \<longleftrightarrow> x = n" if "x \<in> set (recons db)" for x
    using claimed_recon_unique [OF assms(1) _ that] in_n by (auto simp: recon_is_def)
  have "recon_check (claimed_recon now tok n)"
    using recon_checked [OF assms(1), of n] in_n
    by (auto simp: recon_check_def claimed_recon_def recon_claimable_def i32_max_def PAYMENT_RECONCILIATION_MAX_ATTEMPTS_def)
  then have "update_recons pg ?p (claimed_recon now tok) db
      = Inr (count_where ?p (recons db), db\<lparr>recons := update_where ?p (claimed_recon now tok) (recons db)\<rparr>)"
    using p by (simp add: update_recons_def sql_update_def list_all_iff)
  moreover have "update_where ?p (claimed_recon now tok) (recons db) = update_where (\<lambda>x. x = n) (claimed_recon now tok) (recons db)"
    using p by (simp add: update_where_def)
  moreover have "filter ?p (recons db) = [n]"
    using assms(1) in_n by (intro filter_unique [where key = rc_key]) (auto simp: wf_checkout_def rc_key_def recon_is_def)
  ultimately show ?thesis
    using n in_n by (intro bexI [of _ n]) (simp_all add: claim_payment_reconciliation_def acquire_db_def Let_def transact_def)
qed

theorem abandoned_job_is_taken_over_witness:
  "\<exists>n. fst (claim_payment_reconciliation co_pg Pool_ok (\<lambda>_ _. False) 600 ''v'' co_db)
     = Inr (Some (job_of ''v'' (claimed_recon 600 ''v'' n)))"
proof -
  have "\<exists>n \<in> set (recons co_db). claim_payment_reconciliation co_pg Pool_ok (\<lambda>_ _. False) 600 ''v'' co_db
    = (Inr (Some (job_of ''v'' (claimed_recon 600 ''v'' n))),
       co_db\<lparr>recons := update_where (\<lambda>x. x = n) (claimed_recon 600 ''v'') (recons co_db)\<rparr>)"
    by (rule abandoned_job_is_taken_over [OF co_wf, of co_recon _ "demo_attempt\<lparr>at_order_id := Some ''o''\<rparr>"])
      (simp_all add: co_db_def co_recon_def demo_attempt_def recon_claimable_def not_after_now_def attempt_is_def
        lease_live_def after_now_def PAYMENT_RECONCILIATION_MAX_ATTEMPTS_def)
  then show ?thesis by (elim bexE) (simp, blast)
qed

text \<open>
  Completing a reconciliation answers the checkout in the same transaction: when it succeeds, the job row is
  completed, and the attempt of the request is recorded as paid, with the given payload unless it was paid
  before; when it fails, nothing changed.
\<close>

theorem reconciliation_completes_checkout:
  assumes "wf_checkout db" and "complete_payment_reconciliation pg pool now job payload db = (result, db')"
  shows "(case result of
      Inl _ \<Rightarrow> db' = db
    | Inr _ \<Rightarrow>
        list_ex (\<lambda>r. recon_is (pj_tenant_id job) (pj_request_id job) (pj_parent_lease_token job) r
            \<and> rc_status r = ''completed'' \<and> rc_completed_at r = Some now) (recons db')
        \<and> list_ex (\<lambda>a. at_key a = (pj_tenant_id job, pj_request_id job) \<and> at_status a = ''paid''
            \<and> (at_response_payload a = Some payload \<or> a \<in> set (attempts db))) (attempts db'))"
proof (cases result)
  case (Inl e)
  then show ?thesis using complete_recon.rollback [of pg pool now job payload db e] assms(2) by simp
next
  case (Inr u)
  then have ok: "complete_payment_reconciliation pg pool now job payload db = (Inr (), db')" using assms(2) by simp
  show ?thesis using complete_job_row [OF ok] complete_attempt_row [OF ok] Inr by simp
qed

theorem reconciliation_completes_checkout_witness:
  "list_ex (\<lambda>a. at_status a = ''paid'' \<and> at_response_payload a = Some JNull)
     (attempts (snd (complete_payment_reconciliation co_pg Pool_ok 100 co_job JNull co_db)))"
proof -
  have run: "complete_payment_reconciliation co_pg Pool_ok 100 co_job JNull co_db
      = (Inr (), snd (complete_payment_reconciliation co_pg Pool_ok 100 co_job JNull co_db))" by code_simp
  have "\<not> list_ex (\<lambda>a. at_status a = ''paid'') (attempts co_db)" by code_simp
  with reconciliation_completes_checkout [OF co_wf run] show ?thesis by (auto simp: list_ex_iff)
qed

subsection \<open>Orders\<close>

text \<open>
  A worker cancels an order only when nothing is left to compensate: every order row that a failed
  reconciliation or a finished compensation task changes was pending, becomes cancelled, and has no
  compensation task left that is neither completed nor superseded.
\<close>

theorem order_cancelled_only_when_compensated:
  assumes "snd (fail_payment_reconciliation pg pool now job error db) = db'
      \<or> snd (finish_compensation_task pg pool now task terminal db) = db'"
    and "x \<in> set (orders db')" and "x \<notin> set (orders db)"
  shows "ord_status x = ''cancelled'' \<and> compensated db' x
    \<and> list_ex (\<lambda>y. ord_key y = ord_key x \<and> ord_status y = ''pending'') (orders db)"
proof -
  have "cancels_compensated now db db'"
    using assms(1) fail_cancels_compensated finish_cancels_compensated by blast
  with assms(2,3) obtain y where y: "y \<in> set (orders db)" "ord_status y = ''pending''" "compensated db' y"
    "x = cancelled_order now y" unfolding cancels_compensated_def by blast
  then show ?thesis by (auto simp: list_ex_iff ord_key_def cancelled_order_def compensated_def)
qed

theorem order_cancelled_only_when_compensated_witness:
  "compensated (snd (fail_payment_reconciliation co_pg Pool_ok 100 co_job (ApiError 402 ''payment_declined'' ''no'') co_db))
     (cancelled_order 100 co_order)"
proof -
  have "cancelled_order 100 co_order \<in> set (orders (snd (fail_payment_reconciliation co_pg Pool_ok 100 co_job
      (ApiError 402 ''payment_declined'' ''no'') co_db)))" by code_simp
  moreover have "cancelled_order 100 co_order \<notin> set (orders co_db)" by code_simp
  ultimately show ?thesis
    using order_cancelled_only_when_compensated [OF disjI1 [OF refl]] by blast
qed

subsection \<open>Requests\<close>

text \<open>
  The idempotency fingerprint covers the whole request: two inputs have the same canonical request exactly
  when they agree in everything but the request id, which is the key the fingerprint is stored under.
\<close>

theorem fingerprint_covers_request:
  "canonical_request i = canonical_request j
     \<longleftrightarrow> i\<lparr>in_request_id := None\<rparr> = j\<lparr>in_request_id := None\<rparr>"
  by (cases i; cases j) (auto simp: canonical_request_def word_uint_eq_iff [symmetric])

text \<open>
  \<open>validate_input\<close> accepts exactly the checkouts with bounded identifiers, a three-letter upper-case
  currency, and one to fifty items with distinct bounded SKUs and quantities from one to one hundred.
\<close>

theorem validate_input_iff:
  "validate_input i = Inr () \<longleftrightarrow>
     bounded_identifier (in_tenant_id i) \<and> bounded_identifier (in_customer_id i)
     \<and> list_all (\<lambda>v. \<not> bad_identifier v) [in_session_id i, in_cart_id i, in_request_id i, in_promotion_code i]
     \<and> three_letter_code (in_currency_code i)
     \<and> 1 \<le> length (in_items i) \<and> length (in_items i) \<le> 50
     \<and> list_all (\<lambda>x. bounded_identifier (ci_sku x) \<and> 0 < ci_quantity x \<and> ci_quantity x \<le> 100) (in_items i)
     \<and> distinct (map ci_sku (in_items i))"
  by (auto simp: validate_input_def validate_items_ok CHECKOUT_MAX_ITEMS_def CHECKOUT_MAX_QUANTITY_def
      list_all_iff Suc_le_eq split: if_splits)

text \<open>
  A response stored with status failed never fits the schema, which wants no payload on failed rows: a flow
  that ends in an unknown status cannot store its response.
\<close>

lemma failed_response_is_refused:
  assumes "wf_checkout db" "a \<in> set (attempts db)" "owned_live now t r tok a"
  shows "record_checkout_response pg Pool_ok now t r tok ''failed'' order_id payload db
    = (Inl (db_error pg Check_violation), db)"
proof -
  have "\<not> list_all (\<lambda>a. owned_live now t r tok a \<longrightarrow> attempt_check
      (a\<lparr>at_status := ''failed'', at_order_id := order_id, at_response_payload := Some payload,
        at_error_status := None, at_error_code := None, at_error_message := None,
        at_lease_expires_at := None, at_updated_at := now\<rparr>)) (attempts db)"
    using assms(2,3) by (auto simp: list_all_iff attempt_check_def intro!: bexI [of _ a])
  then show ?thesis
    by (simp add: record_checkout_response_def transact_def acquire_db_def update_attempts_def sql_update_def)
qed

end
