(* ===== verification/CheckoutQuote.thy ===== *)
theory CheckoutQuote
  imports CheckoutInput PricingService
begin

text \<open>
  What checkout asks of pricing and what it accepts (\<open>services/checkout/src/application.rs\<close>): the quote
  request of \<open>quote_once\<close>, \<open>validate_quote_response\<close> with \<open>quote_money\<close> and \<open>i32_amount\<close>, the mapping of
  gRPC errors and the JSON of a quote. A message of the wire has every sub-message optional and its
  enumeration fields as integers; \<open>wire_quote\<close> is the message the pricing service sends for a response.
\<close>

datatype grpc_code =
    Code_ok | Code_cancelled | Code_unknown | Code_invalid_argument | Code_deadline_exceeded | Code_not_found
  | Code_already_exists | Code_permission_denied | Code_resource_exhausted | Code_failed_precondition
  | Code_aborted | Code_out_of_range | Code_unimplemented | Code_internal | Code_unavailable | Code_data_loss
  | Code_unauthenticated

record quote_line_msg =
  lm_sku :: string
  lm_quantity :: u32
  lm_unit_price :: "money option"
  lm_line_total :: "money option"

record quote_msg =
  qm_quote_id :: string
  qm_status :: int
  qm_lines :: "quote_line_msg list"
  qm_subtotal :: "money option"
  qm_discount_total :: "money option"
  qm_tax_total :: "money option"
  qm_grand_total :: "money option"
  qm_valid_for_seconds :: u32
  qm_pricing_version :: string

definition QUOTE_STATUS_READY :: int where "QUOTE_STATUS_READY = 1"

definition wire_quote :: "quote_response \<Rightarrow> quote_msg" where
  "wire_quote r =
     \<lparr>qm_quote_id = qp_quote_id r, qm_status = (if qp_ready r then QUOTE_STATUS_READY else 0),
      qm_lines = map (\<lambda>l. \<lparr>lm_sku = ql_sku l, lm_quantity = ql_quantity l,
         lm_unit_price = Some (ql_unit_price l), lm_line_total = Some (ql_line_total l)\<rparr>) (qp_lines r),
      qm_subtotal = Some (qp_subtotal r), qm_discount_total = Some (qp_discount_total r),
      qm_tax_total = Some (qp_tax_total r), qm_grand_total = Some (qp_grand_total r),
      qm_valid_for_seconds = word_of_int (qp_valid_for_seconds r), qm_pricing_version = qp_pricing_version r\<rparr>"

subsection \<open>The request\<close>

definition u64_min :: "u64 \<Rightarrow> u64 \<Rightarrow> u64" where
  "u64_min a b = (if a \<le> b then a else b)"

definition pricing_context :: "checkout_input \<Rightarrow> string \<Rightarrow> (string \<rightharpoonup> string)" where
  "pricing_context input checkout_variant =
     (let base = [''pricing_strategy'' \<mapsto> ''standard'', ''checkout_variant'' \<mapsto> checkout_variant,
                  ''customer_segment'' \<mapsto> in_segment input, ''customer_tier'' \<mapsto> in_tier input,
                  ''region'' \<mapsto> in_region input, ''request_priority'' \<mapsto> in_priority input];
          promoted = (case in_promotion_code input of
             Some code \<Rightarrow> if code \<noteq> []
               then base(''promotion_code'' \<mapsto> code, ''pricing_strategy'' \<mapsto> ''promotional'') else base
           | None \<Rightarrow> base) in
      if in_delay_ms input > 0
      then promoted(''delay_ms'' \<mapsto> int_to_string (uint (u64_min (in_delay_ms input) 30000)))
      else promoted)"

definition checkout_quote_request :: "checkout_input \<Rightarrow> string \<Rightarrow> string \<Rightarrow> quote_request" where
  "checkout_quote_request input request_id checkout_variant =
     \<lparr>qr_request_id = request_id, qr_customer_id = in_customer_id input,
      qr_items = map (\<lambda>item. \<lparr>qi_sku = ci_sku item, qi_quantity = ci_quantity item\<rparr>) (in_items input),
      qr_currency_code = in_currency_code input, qr_context = pricing_context input checkout_variant,
      qr_tenant_id = in_tenant_id input\<rparr>"

subsection \<open>The answer\<close>

definition pricing_protocol_error :: "string \<Rightarrow> api_error" where
  "pricing_protocol_error message = ApiError 502 ''pricing_protocol_error'' message"

definition quote_money :: "money option \<Rightarrow> string \<Rightarrow> string \<Rightarrow> api_error + int" where
  "quote_money money currency field =
     and_then (ok_or (pricing_protocol_error (''quote has no '' @ field)) money) (\<lambda>m.
     if mo_currency_code m \<noteq> currency
       then Inl (pricing_protocol_error (''quote '' @ field @ '' currency mismatch''))
     else if mo_amount_minor m < 0
       then Inl (pricing_protocol_error (''quote '' @ field @ '' is negative''))
     else Inr (mo_amount_minor m))"

definition i32_amount :: "int \<Rightarrow> api_error + int" where
  "i32_amount amount =
     ok_or (ApiError 422 ''amount_out_of_range'' ''amount exceeds PostgreSQL integer range'') (checked_i32 amount)"

text \<open>The hash map of the requested quantities: the last entry of a SKU wins.\<close>

definition expected_quantities :: "checkout_item_input list \<Rightarrow> (string \<rightharpoonup> u32)" where
  "expected_quantities items = map_of (rev (map (\<lambda>i. (ci_sku i, ci_quantity i)) items))"

definition validate_quote_line ::
  "checkout_input \<Rightarrow> string list \<times> int \<Rightarrow> quote_line_msg \<Rightarrow> api_error + (string list \<times> int)" where
  "validate_quote_line input s line =
     (case s of (seen, subtotal_from_lines) \<Rightarrow>
      case expected_quantities (in_items input) (lm_sku line) of
        None \<Rightarrow> Inl (pricing_protocol_error ''pricing returned an unexpected quote line'')
      | Some expected_quantity \<Rightarrow>
          if lm_sku line \<in> set seen \<or> lm_quantity line \<noteq> expected_quantity
            then Inl (pricing_protocol_error ''pricing returned duplicate or mismatched quote quantities'')
          else
            and_then (quote_money (lm_unit_price line) (in_currency_code input) ''line unit price'') (\<lambda>unit.
            and_then (quote_money (lm_line_total line) (in_currency_code input) ''line total'') (\<lambda>line_total.
            and_then (i32_amount unit) (\<lambda>_.
            and_then (i32_amount line_total) (\<lambda>_.
            and_then (ok_or (pricing_protocol_error ''quote line arithmetic overflowed'')
               (checked_i64 (unit * uint (lm_quantity line)))) (\<lambda>expected_total.
            if expected_total \<noteq> line_total
              then Inl (pricing_protocol_error ''quote line amount does not match unit price and quantity'')
            else
              and_then (ok_or (pricing_protocol_error ''quote subtotal arithmetic overflowed'')
                 (checked_i64 (subtotal_from_lines + line_total))) (\<lambda>subtotal.
              Inr (lm_sku line # seen, subtotal))))))))"

definition validate_quote_response :: "checkout_input \<Rightarrow> quote_msg \<Rightarrow> api_error + unit" where
  "validate_quote_response input quote =
     (if qm_status quote \<noteq> QUOTE_STATUS_READY
        then Inl (pricing_protocol_error ''pricing returned a quote that is not ready'')
      else if trim (qm_quote_id quote) = [] \<or> trim (qm_pricing_version quote) = []
        then Inl (pricing_protocol_error ''pricing returned an unidentified quote'')
      else if qm_valid_for_seconds quote = 0
        then Inl (pricing_protocol_error ''pricing returned a quote without an expiration'')
      else if length (qm_lines quote) \<noteq> length (in_items input)
        then Inl (pricing_protocol_error ''pricing returned an incomplete quote'')
      else
        and_then (try_fold (validate_quote_line input) ([], 0) (qm_lines quote)) (\<lambda>(seen, subtotal_from_lines).
        if length seen \<noteq> length (remdups (map ci_sku (in_items input)))
          then Inl (pricing_protocol_error ''pricing omitted a requested quote line'')
        else
          and_then (quote_money (qm_subtotal quote) (in_currency_code input) ''subtotal'') (\<lambda>subtotal.
          and_then (quote_money (qm_discount_total quote) (in_currency_code input) ''discount'') (\<lambda>discount.
          and_then (quote_money (qm_tax_total quote) (in_currency_code input) ''tax'') (\<lambda>tax.
          and_then (quote_money (qm_grand_total quote) (in_currency_code input) ''grand_total'') (\<lambda>total.
          if subtotal \<noteq> subtotal_from_lines \<or> discount > subtotal
            then Inl (pricing_protocol_error ''quote totals do not match its lines'')
          else
            and_then (ok_or (pricing_protocol_error ''quote total arithmetic overflowed'')
               (Option.bind (checked_i64 (subtotal - discount)) (\<lambda>amount. checked_i64 (amount + tax))))
               (\<lambda>expected_total.
            if total \<noteq> expected_total then Inl (pricing_protocol_error ''quote totals do not balance'')
            else
              and_then (i32_amount subtotal) (\<lambda>_.
              and_then (i32_amount discount) (\<lambda>_.
              and_then (i32_amount tax) (\<lambda>_.
              and_then (i32_amount total) (\<lambda>_.
              Inr ())))))))))))"

definition pricing_error :: "grpc_code \<Rightarrow> string \<Rightarrow> api_error" where
  "pricing_error code message =
     (case code of
        Code_invalid_argument \<Rightarrow> ApiError 400 ''pricing_invalid_request'' message
      | Code_not_found \<Rightarrow> ApiError 404 ''product_not_found'' message
      | Code_deadline_exceeded \<Rightarrow> ApiError 504 ''pricing_timeout'' message
      | Code_unavailable \<Rightarrow> ApiError 503 ''pricing_unavailable'' message
      | _ \<Rightarrow> ApiError 502 ''pricing_failed'' message)"

definition money_json :: "money option \<Rightarrow> json" where
  "money_json m =
     (case m of
        None \<Rightarrow> JNull
      | Some m \<Rightarrow> JObj [(''currency_code'', JStr (mo_currency_code m)), (''amount_minor'', JNum (mo_amount_minor m))])"

definition quote_json :: "quote_msg \<Rightarrow> json" where
  "quote_json quote =
     JObj [(''quote_id'', JStr (qm_quote_id quote)), (''status'', JNum (qm_status quote)),
           (''lines'', JArr (map (\<lambda>line. JObj [(''sku'', JStr (lm_sku line)),
               (''quantity'', JNum (uint (lm_quantity line))), (''unit_price'', money_json (lm_unit_price line)),
               (''line_total'', money_json (lm_line_total line))]) (qm_lines quote))),
           (''subtotal'', money_json (qm_subtotal quote)),
           (''discount_total'', money_json (qm_discount_total quote)),
           (''tax_total'', money_json (qm_tax_total quote)),
           (''grand_total'', money_json (qm_grand_total quote)),
           (''pricing_version'', JStr (qm_pricing_version quote))]"

end
