(* ===== verification/CheckoutPayment.thy ===== *)
theory CheckoutPayment
  imports CheckoutQuote
begin

text \<open>
  The payment vocabulary of checkout (\<open>application.rs\<close> with the messages of \<open>proto/payment.proto\<close>): the
  enumerations and their names, the errors of a payment operation, the snapshot a lookup is turned into and
  when a snapshot confirms a compensation. An answer of a gRPC call is an error status with its
  \<open>payment-failure-reason\<close> metadata, or the message.
\<close>

datatype payment_method_type = Method_unspecified | Method_card | Method_bank_account | Method_wallet

datatype payment_status =
    Pay_unspecified | Pay_pending | Pay_authorized | Pay_captured | Pay_voided | Pay_partially_refunded
  | Pay_refunded | Pay_failed

datatype operation_status = Op_unspecified | Op_succeeded | Op_declined | Op_pending | Op_failed

datatype failure_reason =
    Reason_unspecified | Reason_declined | Reason_insufficient_funds | Reason_invalid_payment_method
  | Reason_provider_unavailable | Reason_already_processed | Reason_invalid_state

text \<open>\<open>try_from(value).unwrap_or(Unspecified)\<close>.\<close>

definition payment_operation_status :: "int \<Rightarrow> operation_status" where
  "payment_operation_status value' =
     (if value' = 1 then Op_succeeded else if value' = 2 then Op_declined else if value' = 3 then Op_pending
      else if value' = 4 then Op_failed else Op_unspecified)"

definition payment_status_of :: "int \<Rightarrow> payment_status" where
  "payment_status_of value' =
     (if value' = 1 then Pay_pending else if value' = 2 then Pay_authorized else if value' = 3 then Pay_captured
      else if value' = 4 then Pay_voided else if value' = 5 then Pay_partially_refunded
      else if value' = 6 then Pay_refunded else if value' = 7 then Pay_failed else Pay_unspecified)"

definition payment_failure_reason :: "int \<Rightarrow> failure_reason" where
  "payment_failure_reason value' =
     (if value' = 1 then Reason_declined else if value' = 2 then Reason_insufficient_funds
      else if value' = 3 then Reason_invalid_payment_method else if value' = 4 then Reason_provider_unavailable
      else if value' = 5 then Reason_already_processed else if value' = 6 then Reason_invalid_state
      else Reason_unspecified)"

fun operation_status_name :: "operation_status \<Rightarrow> string" where
  "operation_status_name Op_unspecified = ''PAYMENT_OPERATION_STATUS_UNSPECIFIED''"
| "operation_status_name Op_succeeded = ''PAYMENT_OPERATION_STATUS_SUCCEEDED''"
| "operation_status_name Op_declined = ''PAYMENT_OPERATION_STATUS_DECLINED''"
| "operation_status_name Op_pending = ''PAYMENT_OPERATION_STATUS_PENDING''"
| "operation_status_name Op_failed = ''PAYMENT_OPERATION_STATUS_FAILED''"

fun payment_status_name :: "payment_status \<Rightarrow> string" where
  "payment_status_name Pay_unspecified = ''PAYMENT_STATUS_UNSPECIFIED''"
| "payment_status_name Pay_pending = ''PAYMENT_STATUS_PENDING''"
| "payment_status_name Pay_authorized = ''PAYMENT_STATUS_AUTHORIZED''"
| "payment_status_name Pay_captured = ''PAYMENT_STATUS_CAPTURED''"
| "payment_status_name Pay_voided = ''PAYMENT_STATUS_VOIDED''"
| "payment_status_name Pay_partially_refunded = ''PAYMENT_STATUS_PARTIALLY_REFUNDED''"
| "payment_status_name Pay_refunded = ''PAYMENT_STATUS_REFUNDED''"
| "payment_status_name Pay_failed = ''PAYMENT_STATUS_FAILED''"

fun failure_reason_name :: "failure_reason \<Rightarrow> string" where
  "failure_reason_name Reason_unspecified = ''PAYMENT_FAILURE_REASON_UNSPECIFIED''"
| "failure_reason_name Reason_declined = ''PAYMENT_FAILURE_REASON_DECLINED''"
| "failure_reason_name Reason_insufficient_funds = ''PAYMENT_FAILURE_REASON_INSUFFICIENT_FUNDS''"
| "failure_reason_name Reason_invalid_payment_method = ''PAYMENT_FAILURE_REASON_INVALID_PAYMENT_METHOD''"
| "failure_reason_name Reason_provider_unavailable = ''PAYMENT_FAILURE_REASON_PROVIDER_UNAVAILABLE''"
| "failure_reason_name Reason_already_processed = ''PAYMENT_FAILURE_REASON_ALREADY_PROCESSED''"
| "failure_reason_name Reason_invalid_state = ''PAYMENT_FAILURE_REASON_INVALID_STATE''"

definition FAILURE_REASONS :: "failure_reason list" where
  "FAILURE_REASONS = [Reason_unspecified, Reason_declined, Reason_insufficient_funds, Reason_invalid_payment_method,
     Reason_provider_unavailable, Reason_already_processed, Reason_invalid_state]"

definition failure_reason_from_name :: "string \<Rightarrow> failure_reason option" where
  "failure_reason_from_name name = find (\<lambda>r. failure_reason_name r = name) FAILURE_REASONS"

definition payment_method_type :: "string \<Rightarrow> payment_method_type" where
  "payment_method_type method' =
     (let m = to_ascii_lowercase (trim method') in
      if m = ''bank_account'' \<or> m = ''bank-account'' then Method_bank_account
      else if m = ''wallet'' then Method_wallet else Method_card)"

definition stored_payment_method_type :: "string \<Rightarrow> string" where
  "stored_payment_method_type method' =
     (case payment_method_type method' of
        Method_card \<Rightarrow> ''card'' | Method_bank_account \<Rightarrow> ''bank_account'' | Method_wallet \<Rightarrow> ''wallet''
      | Method_unspecified \<Rightarrow> ''unspecified'')"

subsection \<open>Messages\<close>

record payment_record =
  py_payment_id :: string
  py_merchant_reference :: string
  py_authorized_amount :: "money option"
  py_status :: int
  py_captured_amount :: "money option"
  py_refunded_amount :: "money option"
  py_failure_reason :: int

datatype payment_request =
    AuthorizeRequest (au_request_id: string) (au_merchant_reference: string) (au_amount: money)
      (au_method: payment_method_type) (au_token: string) (au_tenant: string)
  | CaptureRequest (ca_request_id: string) (ca_payment_id: string) (ca_amount: money) (ca_tenant: string)
  | VoidRequest (vo_request_id: string) (vo_payment_id: string) (vo_tenant: string)
  | RefundRequest (re_request_id: string) (re_payment_id: string) (re_amount: money) (re_tenant: string)
  | GetPaymentRequest (ge_payment_id: string) (ge_tenant: string)

text \<open>
  \<open>Op_reply\<close> answers authorize, capture, void and refund, \<open>Get_reply\<close> the lookup. \<open>Channel_error\<close> is the
  failure to connect of \<open>payment_channel\<close>, before any request is sent.
\<close>

datatype payment_reply =
    Channel_error string
  | Grpc_error grpc_code string "string option"
  | Op_reply int "payment_record option" int
  | Get_reply "payment_record option" int

subsection \<open>Errors\<close>

definition payment_reconciliation_error :: "string \<Rightarrow> api_error" where
  "payment_reconciliation_error message = ApiError 502 ''payment_reconciliation_failed'' message"

definition payment_operation_error :: "string \<Rightarrow> operation_status \<Rightarrow> failure_reason \<Rightarrow> api_error" where
  "payment_operation_error operation status reason =
     (let (http_status, code) = (case reason of
          Reason_insufficient_funds \<Rightarrow> (402, ''payment_insufficient_funds'')
        | Reason_invalid_payment_method \<Rightarrow> (400, ''payment_invalid_method'')
        | Reason_provider_unavailable \<Rightarrow> (503, ''payment_provider_unavailable'')
        | Reason_already_processed \<Rightarrow> (409, ''payment_already_processed'')
        | Reason_invalid_state \<Rightarrow> (409, ''payment_invalid_state'')
        | Reason_declined \<Rightarrow> (402, ''payment_declined'')
        | Reason_unspecified \<Rightarrow> (case status of
              Op_declined \<Rightarrow> (402, ''payment_declined'')
            | Op_pending \<Rightarrow> (202, ''payment_pending'')
            | Op_failed \<Rightarrow> (502, ''payment_failed'')
            | Op_succeeded \<Rightarrow> (502, ''payment_protocol_error'')
            | Op_unspecified \<Rightarrow> (502, ''payment_protocol_error''))) in
      ApiError http_status code
        (operation @ '': '' @ operation_status_name status @ '' ('' @ failure_reason_name reason @ '')''))"

definition payment_error :: "grpc_code \<Rightarrow> string \<Rightarrow> string option \<Rightarrow> string \<Rightarrow> api_error" where
  "payment_error code message metadata_reason operation =
     (let reason = (case Option.bind metadata_reason failure_reason_from_name of
            Some r \<Rightarrow> r
          | None \<Rightarrow> if code = Code_unavailable \<or> code = Code_deadline_exceeded
              then Reason_provider_unavailable else Reason_unspecified);
          text_code = (case code of
              Code_deadline_exceeded \<Rightarrow> ''payment_timeout''
            | Code_unavailable \<Rightarrow> ''payment_provider_unavailable''
            | Code_internal \<Rightarrow> ''payment_internal''
            | Code_not_found \<Rightarrow> ''payment_not_found''
            | Code_already_exists \<Rightarrow> ''payment_already_processed''
            | Code_failed_precondition \<Rightarrow> ''payment_invalid_state''
            | Code_invalid_argument \<Rightarrow> ''payment_invalid_request''
            | _ \<Rightarrow> ''payment_failed'');
          http_status = (case code of
              Code_invalid_argument \<Rightarrow> 400
            | Code_already_exists \<Rightarrow> 409
            | Code_failed_precondition \<Rightarrow> 409
            | Code_not_found \<Rightarrow> 404
            | Code_deadline_exceeded \<Rightarrow> 504
            | Code_unavailable \<Rightarrow> 503
            | _ \<Rightarrow> 502) in
      ApiError http_status text_code (operation @ '': '' @ message @ '' ('' @ failure_reason_name reason @ '')''))"

definition channel_error :: "string \<Rightarrow> api_error" where
  "channel_error text' = ApiError 503 ''payment_provider_unavailable'' text'"

definition authorization_failure_status :: "failure_reason \<Rightarrow> operation_status" where
  "authorization_failure_status reason =
     (if reason \<in> {Reason_declined, Reason_insufficient_funds, Reason_invalid_payment_method}
      then Op_declined else Op_failed)"

definition reconciliation_operation_status :: "payment_status \<Rightarrow> operation_status" where
  "reconciliation_operation_status status =
     (case status of
        Pay_pending \<Rightarrow> Op_pending
      | Pay_authorized \<Rightarrow> Op_succeeded
      | Pay_captured \<Rightarrow> Op_succeeded
      | Pay_unspecified \<Rightarrow> Op_unspecified
      | _ \<Rightarrow> Op_failed)"

subsection \<open>Answers\<close>

record payment_authorization =
  pa_payment_id :: string
  pa_operation_status :: operation_status
  pa_failure_reason :: failure_reason

record payment_snapshot =
  sn_authorized_minor :: int
  sn_currency :: string
  sn_status :: payment_status
  sn_failure_reason :: failure_reason
  sn_captured_minor :: int
  sn_refunded_minor :: int

text \<open>
  The answer of an operation as the code reads it. A reply of the wrong message type does not decode; tonic
  reports that as \<open>Internal\<close>.
\<close>

definition decode_error :: "string \<Rightarrow> api_error" where
  "decode_error operation = payment_error Code_internal ''failed to decode Protobuf message'' None operation"

definition op_answer :: "string \<Rightarrow> payment_reply \<Rightarrow> api_error + (operation_status \<times> payment_record option \<times> failure_reason)" where
  "op_answer operation reply =
     (case reply of
        Channel_error text' \<Rightarrow> Inl (channel_error text')
      | Grpc_error code message reason \<Rightarrow> Inl (payment_error code message reason operation)
      | Op_reply status payment reason \<Rightarrow>
          Inr (payment_operation_status status, payment, payment_failure_reason reason)
      | Get_reply payment status \<Rightarrow> Inl (decode_error operation))"

definition authorization_answer :: "payment_reply \<Rightarrow> api_error + payment_authorization" where
  "authorization_answer reply =
     and_then (op_answer ''payment authorization'' reply) (\<lambda>(status, payment, reason).
     case map_option py_payment_id payment of
       None \<Rightarrow> Inl (ApiError 502 ''payment_protocol_error''
         (''payment authorization returned '' @ operation_status_name status @ '' without payment_id''))
     | Some payment_id \<Rightarrow>
         if payment_id = [] then Inl (ApiError 502 ''payment_protocol_error''
           (''payment authorization returned '' @ operation_status_name status @ '' without payment_id''))
         else (case status of
             Op_succeeded \<Rightarrow> Inr \<lparr>pa_payment_id = payment_id, pa_operation_status = status, pa_failure_reason = reason\<rparr>
           | Op_pending \<Rightarrow> Inr \<lparr>pa_payment_id = payment_id, pa_operation_status = status, pa_failure_reason = reason\<rparr>
           | Op_declined \<Rightarrow> Inl (payment_operation_error ''payment authorization'' status reason)
           | Op_failed \<Rightarrow> Inl (payment_operation_error ''payment authorization'' status reason)
           | Op_unspecified \<Rightarrow> Inl (ApiError 502 ''payment_protocol_error''
               ''payment authorization returned an unspecified operation status'')))"

definition settled_answer :: "string \<Rightarrow> payment_reply \<Rightarrow> api_error + unit" where
  "settled_answer operation reply =
     and_then (op_answer operation reply) (\<lambda>(status, payment, reason).
     if status \<noteq> Op_succeeded then Inl (payment_operation_error operation status reason) else Inr ())"

definition get_answer :: "payment_reply \<Rightarrow> api_error + (payment_record option \<times> int)" where
  "get_answer reply =
     (case reply of
        Channel_error text' \<Rightarrow> Inl (channel_error text')
      | Grpc_error code message reason \<Rightarrow> Inl (payment_error code message reason ''payment reconciliation lookup'')
      | Get_reply payment status \<Rightarrow> Inr (payment, status)
      | Op_reply status payment reason \<Rightarrow> Inl (decode_error ''payment reconciliation lookup''))"

definition snapshot_answer :: "pending_order \<Rightarrow> string \<Rightarrow> payment_reply \<Rightarrow> api_error + payment_snapshot" where
  "snapshot_answer order payment_id reply =
     and_then (get_answer reply) (\<lambda>(payment, response_status).
     and_then (ok_or (payment_reconciliation_error ''payment reconciliation returned no payment record'') payment) (\<lambda>p.
     let status = payment_status_of (py_status p) in
     if status = Pay_unspecified \<or> payment_status_of response_status \<noteq> status
       then Inl (payment_reconciliation_error ''payment reconciliation returned inconsistent status'')
     else if py_payment_id p \<noteq> payment_id \<or> py_merchant_reference p \<noteq> po_id order
       then Inl (payment_reconciliation_error ''payment reconciliation returned the wrong payment resource'')
     else
       and_then (ok_or (payment_reconciliation_error ''payment reconciliation returned no authorized amount'')
          (py_authorized_amount p)) (\<lambda>authorized.
       and_then (ok_or (payment_reconciliation_error ''payment reconciliation returned no captured amount'')
          (py_captured_amount p)) (\<lambda>captured.
       and_then (ok_or (payment_reconciliation_error ''payment reconciliation returned no refunded amount'')
          (py_refunded_amount p)) (\<lambda>refunded.
       if mo_currency_code authorized \<noteq> po_currency order
          \<or> mo_amount_minor authorized \<noteq> po_total_minor order
          \<or> mo_currency_code captured \<noteq> mo_currency_code authorized
          \<or> mo_currency_code refunded \<noteq> mo_currency_code authorized
          \<or> mo_amount_minor authorized < 0 \<or> mo_amount_minor captured < 0 \<or> mo_amount_minor refunded < 0
          \<or> mo_amount_minor captured > mo_amount_minor authorized
          \<or> mo_amount_minor refunded > mo_amount_minor captured
         then Inl (payment_reconciliation_error ''payment reconciliation returned invalid amounts'')
       else Inr \<lparr>sn_authorized_minor = mo_amount_minor authorized, sn_currency = mo_currency_code authorized,
              sn_status = status, sn_failure_reason = payment_failure_reason (py_failure_reason p),
              sn_captured_minor = mo_amount_minor captured, sn_refunded_minor = mo_amount_minor refunded\<rparr>)))))"

definition payment_compensation_confirmed :: "payment_snapshot \<Rightarrow> bool" where
  "payment_compensation_confirmed snapshot =
     (case sn_status snapshot of
        Pay_voided \<Rightarrow> sn_captured_minor snapshot = 0 \<and> sn_refunded_minor snapshot = 0
      | Pay_failed \<Rightarrow> sn_captured_minor snapshot = 0 \<and> sn_refunded_minor snapshot = 0
      | Pay_partially_refunded \<Rightarrow> sn_captured_minor snapshot = sn_refunded_minor snapshot
      | Pay_refunded \<Rightarrow> sn_captured_minor snapshot = sn_refunded_minor snapshot
      | _ \<Rightarrow> False)"

subsection \<open>Facts\<close>

lemma failure_reason_name_roundtrip: "failure_reason_from_name (failure_reason_name r) = Some r"
  by (cases r) (simp_all add: failure_reason_from_name_def FAILURE_REASONS_def)

text \<open>A confirmed compensation leaves no captured balance.\<close>

lemma confirmed_no_balance: "payment_compensation_confirmed s \<Longrightarrow> sn_captured_minor s = sn_refunded_minor s"
  by (auto simp: payment_compensation_confirmed_def split: payment_status.splits)

lemma snapshot_answer_ok:
  assumes "snapshot_answer order payment_id reply = Inr s"
  shows "0 \<le> sn_refunded_minor s" "sn_refunded_minor s \<le> sn_captured_minor s" "sn_captured_minor s \<le> po_total_minor order"
    "sn_authorized_minor s = po_total_minor order" "sn_currency s = po_currency order" "sn_status s \<noteq> Pay_unspecified"
  using assms by (auto simp: snapshot_answer_def Let_def split: if_splits prod.splits)

end
