(* ===== verification/CheckoutShop.thy ===== *)
theory CheckoutShop
  imports CheckoutPayment CheckoutWorkers
begin

text \<open>
  The order tables of checkout and its transactions on them (\<open>application.rs\<close>): \<open>create_pending_order\<close>,
  \<open>load_pending_order\<close>, \<open>cancel_order_fenced\<close>, \<open>cancel_order_if_compensated\<close>, \<open>finalize_order\<close> and
  \<open>finalization_committed\<close>. \<open>shop_db\<close> adds to the tables of \<open>CommerceDb\<close> those only checkout writes.
  Foreign keys are checked where the referenced row need not exist; a key to a row the same transaction
  has just read or inserted is not repeated. A \<open>NULL\<close> read as \<open>String\<close> is the fault \<open>Panic\<close>.
\<close>

subsection \<open>Tables\<close>

record shop_product =
  spr_id :: string
  spr_tenant :: string
  spr_name :: string
  spr_status :: string

record cart_row =
  crt_id :: string
  crt_tenant :: string
  crt_customer_id :: "string option"
  crt_session_id :: "string option"
  crt_status :: string
  crt_currency :: string
  crt_expires_at :: "timestamp option"
  crt_updated_at :: timestamp

record cart_item_row =
  cit_id :: string
  cit_tenant :: string
  cit_cart :: string
  cit_variant :: string
  cit_quantity :: int
  cit_unit_price_minor :: int
  cit_discount_minor :: int

record order_item_row =
  oit_id :: string
  oit_tenant :: string
  oit_order :: string
  oit_product :: string
  oit_variant :: string
  oit_sku :: string
  oit_product_name :: string
  oit_quantity :: int
  oit_unit_price_minor :: int
  oit_created_at :: timestamp

record outbox_row =
  ob_id :: string
  ob_tenant :: string
  ob_event_key :: string
  ob_aggregate_type :: string
  ob_aggregate_id :: string
  ob_event_type :: string
  ob_schema_version :: int
  ob_occurred_at :: timestamp
  ob_payload :: json
  ob_traceparent :: string
  ob_tracestate :: string
  ob_baggage :: string
  ob_status :: string
  ob_attempts :: int
  ob_available_at :: timestamp
  ob_published_at :: "timestamp option"
  ob_failure_code :: "string option"
  ob_failure_message :: "string option"
  ob_failed_at :: "timestamp option"
  ob_claim_token :: "string option"
  ob_claim_expires_at :: "timestamp option"
  ob_created_at :: timestamp

record exposure_row =
  ex_id :: string
  ex_tenant :: string
  ex_customer_id :: string
  ex_session_id :: string
  ex_variant :: string
  ex_key :: string
  ex_context :: json
  ex_exposed_at :: timestamp

record analytics_row =
  an_id :: string
  an_tenant :: string
  an_event_key :: string
  an_customer_id :: string
  an_session_id :: string
  an_entity_id :: string
  an_occurred_at :: timestamp
  an_trace_id :: "string option"
  an_span_id :: "string option"
  an_properties :: json
  an_context :: json

record payment_operation_row =
  por_tenant :: string
  por_request_id :: string
  por_operation :: string
  por_payment_id :: "string option"

text \<open>\<open>variant_name\<close> is the \<open>name\<close> column of \<open>product_variants\<close>, by tenant and id.\<close>

record shop_db =
  core :: commerce_db
  products :: "shop_product list"
  variant_name :: "string \<Rightarrow> string \<Rightarrow> string"
  customers :: "customer_row list"
  carts :: "cart_row list"
  cart_items :: "cart_item_row list"
  order_items :: "order_item_row list"
  promotions :: "promotion_row list"
  outbox :: "outbox_row list"
  exposures :: "exposure_row list"
  analytics :: "analytics_row list"
  payment_operations :: "payment_operation_row list"

subsection \<open>Constraints\<close>

definition item_amount_check :: "int \<Rightarrow> int \<Rightarrow> int \<Rightarrow> bool" where
  "item_amount_check quantity unit_price discount \<longleftrightarrow>
     0 < quantity \<and> quantity \<le> i32_max \<and> 0 \<le> unit_price \<and> unit_price \<le> i32_max
     \<and> quantity * unit_price \<le> i32_max \<and> 0 \<le> discount \<and> discount \<le> quantity * unit_price"

definition cart_item_check :: "cart_item_row \<Rightarrow> bool" where
  "cart_item_check c \<longleftrightarrow> item_amount_check (cit_quantity c) (cit_unit_price_minor c) (cit_discount_minor c)"

definition order_item_check :: "order_item_row \<Rightarrow> bool" where
  "order_item_check i \<longleftrightarrow> item_amount_check (oit_quantity i) (oit_unit_price_minor i) 0"

text \<open>\<open>CHECK (total_minor = subtotal_minor - discount_minor + tax_minor + shipping_minor)\<close>, shipping being zero.\<close>

definition new_order_check :: "order_row \<Rightarrow> bool" where
  "new_order_check o' \<longleftrightarrow> order_check o'
     \<and> ord_total_minor o' = ord_subtotal_minor o' - ord_discount_minor o' + ord_tax_minor o'"

definition promotion_check :: "promotion_row \<Rightarrow> bool" where
  "promotion_check p \<longleftrightarrow> 0 \<le> promo_redemption_count p \<and> promo_redemption_count p \<le> i32_max
     \<and> (case promo_max_redemptions p of None \<Rightarrow> True | Some m \<Rightarrow> promo_redemption_count p \<le> m)"

definition cart_check :: "cart_row \<Rightarrow> bool" where
  "cart_check c \<longleftrightarrow> crt_status c \<in> {''active'', ''abandoned'', ''checked_out''} \<and> currency_check (crt_currency c)
     \<and> (crt_customer_id c \<noteq> None \<or> crt_session_id c \<noteq> None)"

definition outbox_check :: "outbox_row \<Rightarrow> bool" where
  "outbox_check e \<longleftrightarrow>
     ob_status e \<in> {''queued'', ''processing'', ''published'', ''failed''} \<and> 0 \<le> ob_attempts e \<and> ob_attempts e \<le> i32_max
     \<and> (ob_status e = ''published'' \<longrightarrow> ob_published_at e \<noteq> None)
     \<and> (ob_status e = ''failed'' \<longrightarrow>
          ob_failed_at e \<noteq> None \<and> ob_failure_code e \<noteq> None \<and> ob_failure_message e \<noteq> None)
     \<and> (if ob_status e = ''processing'' then ob_claim_token e \<noteq> None \<and> ob_claim_expires_at e \<noteq> None
        else ob_claim_token e = None \<and> ob_claim_expires_at e = None)
     \<and> btrim_nonempty (ob_traceparent e) \<and> btrim_nonempty (ob_tracestate e) \<and> btrim_nonempty (ob_baggage e)"

subsection \<open>Statements\<close>

definition refused :: "api_error + 'a \<Rightarrow> fault + 'a" where
  "refused r = map_err Refused r"

definition sql_refused :: "(sql_error \<Rightarrow> string) \<Rightarrow> sql_error + 'a \<Rightarrow> fault + 'a" where
  "sql_refused pg r = refused (map_err (db_error pg) r)"

definition update_core :: "(commerce_db \<Rightarrow> api_error + (nat \<times> commerce_db)) \<Rightarrow> shop_db \<Rightarrow> fault + (nat \<times> shop_db)" where
  "update_core stmt db = and_then (refused (stmt (core db))) (\<lambda>(n, c). Inr (n, db\<lparr>core := c\<rparr>))"

text \<open>The guard every order update carries: the generation that owns the fence is still open.\<close>

definition generation_open :: "checkout_fence \<Rightarrow> string list \<Rightarrow> string \<Rightarrow> commerce_db \<Rightarrow> bool" where
  "generation_open fence statuses tenant_id db \<longleftrightarrow>
     (fence_kind fence = ''attempt''
      \<and> list_ex (\<lambda>a. attempt_is tenant_id (fence_request_id fence) (fence_token fence) a
           \<and> at_status a \<in> set statuses) (attempts db))
     \<or> (fence_kind fence = ''payment_reconciliation''
      \<and> list_ex (\<lambda>r. recon_is tenant_id (fence_request_id fence) (fence_token fence) r
           \<and> rc_status r = ''processing'') (recons db))"

subsection \<open>Creating the order\<close>

definition order_line_of :: "(string \<Rightarrow> api_error) \<Rightarrow> order_item_row \<Rightarrow> api_error + order_line" where
  "order_line_of bad i =
     and_then (ok_or (bad ''quantity'') (checked_u32 (oit_quantity i))) (\<lambda>q.
     Inr \<lparr>ol_product_id = oit_product i, ol_variant_id = oit_variant i, ol_sku = oit_sku i,
          ol_product_name = oit_product_name i, ol_quantity = word_of_int q,
          ol_unit_price_minor = oit_unit_price_minor i\<rparr>)"

fun try_map :: "('a \<Rightarrow> 'e + 'b) \<Rightarrow> 'a list \<Rightarrow> 'e + 'b list" where
  "try_map f [] = Inr []"
| "try_map f (x # xs) = and_then (f x) (\<lambda>y. and_then (try_map f xs) (\<lambda>ys. Inr (y # ys)))"

text \<open>\<open>ORDER BY created_at\<close>; rows of one transaction share it, and \<open>tie\<close> is the order among them.\<close>

definition items_of_order ::
  "(order_item_row \<Rightarrow> order_item_row \<Rightarrow> bool) \<Rightarrow> string \<Rightarrow> string \<Rightarrow> shop_db \<Rightarrow> order_item_row list" where
  "items_of_order tie tenant_id order_id db =
     order_by (\<lambda>x y. oit_created_at x < oit_created_at y \<or> (oit_created_at x = oit_created_at y \<and> tie x y))
       (filter (\<lambda>i. oit_tenant i = tenant_id \<and> oit_order i = order_id) (order_items db))"

text \<open>\<open>LEFT JOIN carts\<close> on the primary key.\<close>

definition cart_session_of :: "shop_db \<Rightarrow> order_row \<Rightarrow> string option" where
  "cart_session_of db o' =
     (case filter (\<lambda>c. crt_tenant c = ord_tenant o' \<and> Some (crt_id c) = ord_cart_id o') (carts db) of
        [] \<Rightarrow> None | c # _ \<Rightarrow> crt_session_id c)"

definition link_attempt ::
  "(sql_error \<Rightarrow> string) \<Rightarrow> timestamp \<Rightarrow> string \<Rightarrow> checkout_lease \<Rightarrow> string \<Rightarrow> string \<Rightarrow> shop_db \<Rightarrow> fault + shop_db" where
  "link_attempt pg now tenant_id lease order_id message db =
     and_then (update_core (update_attempts pg
        (\<lambda>a. attempt_is tenant_id (cl_request_id lease) (cl_token lease) a \<and> at_status a = ''started''
           \<and> (at_order_id a = None \<or> at_order_id a = Some order_id))
        (\<lambda>a. a\<lparr>at_order_id := Some order_id, at_updated_at := now\<rparr>)) db) (\<lambda>(linked, db1).
     if linked \<noteq> 1 then Inl (Refused (ApiError 500 ''checkout_idempotency_corrupt'' message)) else Inr db1)"

text \<open>A replayed request finds the order of an earlier generation.\<close>

definition replay_pending_order ::
  "(sql_error \<Rightarrow> string) \<Rightarrow> (order_item_row \<Rightarrow> order_item_row \<Rightarrow> bool) \<Rightarrow> timestamp \<Rightarrow> checkout_input \<Rightarrow> string
     \<Rightarrow> checkout_lease \<Rightarrow> order_row \<Rightarrow> shop_db \<Rightarrow> fault + ((api_error + pending_order) \<times> shop_db)" where
  "replay_pending_order pg tie now input session_id lease o' db =
     (if ord_customer_id o' \<noteq> Some (in_customer_id input) \<or> ord_currency o' \<noteq> in_currency_code input
         \<or> cart_session_of db o' \<noteq> Some session_id
        then Inl (Refused (ApiError 409 ''checkout_request_conflict''
               ''checkout request is linked to a different order identity''))
      else
        and_then (refused (try_map (order_line_of (\<lambda>_. ApiError 500 ''checkout_idempotency_corrupt''
             ''stored order item quantity is invalid'')) (items_of_order tie (in_tenant_id input) (ord_id o') db))) (\<lambda>lines.
        and_then (link_attempt pg now (in_tenant_id input) lease (ord_id o')
             ''checkout attempt is not linked to its durable order'' db) (\<lambda>db1.
        Inr (and_then (ok_or (ApiError 500 ''checkout_idempotency_corrupt'' ''stored order has no cart identity'')
                 (ord_cart_id o')) (\<lambda>cart_id.
             Inr \<lparr>po_id = ord_id o', po_order_number = ord_number o', po_cart_id = cart_id,
                  po_tenant_id = in_tenant_id input, po_customer_id = in_customer_id input,
                  po_session_id = session_id, po_currency = ord_currency o', po_lines = lines,
                  po_subtotal_minor = ord_subtotal_minor o', po_discount_minor = ord_discount_minor o',
                  po_tax_minor = ord_tax_minor o', po_total_minor = ord_total_minor o',
                  po_promotion_code = ord_promotion_code o'\<rparr>), db1))))"

text \<open>\<open>INSERT INTO carts ... ON CONFLICT DO NOTHING\<close>: the id and the session of a tenant are unique.\<close>

definition insert_cart ::
  "(sql_error \<Rightarrow> string) \<Rightarrow> timestamp \<Rightarrow> checkout_input \<Rightarrow> string \<Rightarrow> string \<Rightarrow> shop_db \<Rightarrow> fault + shop_db" where
  "insert_cart pg now input session_id cart_id db =
     (if list_ex (\<lambda>c. crt_id c = cart_id
            \<or> (crt_tenant c = in_tenant_id input \<and> crt_session_id c = Some session_id)) (carts db)
        then Inr db
      else if \<not> list_ex (\<lambda>c. cust_tenant c = in_tenant_id input \<and> cust_id c = in_customer_id input) (customers db)
           \<or> in_tenant_id input \<notin> set (tenants (core db))
        then sql_refused pg (Inl Foreign_key_violation)
      else if \<not> currency_check (in_currency_code input) then sql_refused pg (Inl Check_violation)
      else Inr (db\<lparr>carts := carts db @ [\<lparr>crt_id = cart_id, crt_tenant = in_tenant_id input,
             crt_customer_id = Some (in_customer_id input), crt_session_id = Some session_id, crt_status = ''active'',
             crt_currency = in_currency_code input, crt_expires_at = Some (now + seconds (7 * 86400)),
             crt_updated_at = now\<rparr>]\<rparr>))"

definition checkout_cart ::
  "(sql_error \<Rightarrow> string) \<Rightarrow> checkout_input \<Rightarrow> string \<Rightarrow> string \<Rightarrow> shop_db \<Rightarrow> fault + unit" where
  "checkout_cart pg input session_id cart_id db =
     and_then (sql_refused pg (query_opt (filter (\<lambda>c. crt_tenant c = in_tenant_id input \<and> crt_id c = cart_id)
        (carts db)))) (\<lambda>row.
     case row of
       None \<Rightarrow> Inl (Refused (ApiError 500 ''cart_persistence_failed'' ''checkout cart was not persisted''))
     | Some cart \<Rightarrow>
         and_then (ok_or Panic (crt_session_id cart)) (\<lambda>cart_session.
         if crt_customer_id cart \<noteq> Some (in_customer_id input) \<or> crt_status cart \<noteq> ''active''
            \<or> crt_currency cart \<noteq> in_currency_code input \<or> cart_session \<noteq> session_id
           then Inl (Refused (ApiError 409 ''cart_scope_conflict''
                  ''cart does not belong to the checkout customer or is not active''))
         else Inr ()))"

definition order_line_for ::
  "(sql_error \<Rightarrow> string) \<Rightarrow> checkout_input \<Rightarrow> quote_msg \<Rightarrow> shop_db \<Rightarrow> checkout_item_input \<Rightarrow> fault + order_line" where
  "order_line_for pg input quote db item =
     and_then (sql_refused pg (query_opt
        [(p, v). v \<leftarrow> filter (\<lambda>v. var_tenant v = in_tenant_id input \<and> var_sku v = ci_sku item
                            \<and> var_status v = ''active'') (variants (core db)),
                 p \<leftarrow> filter (\<lambda>p. spr_tenant p = var_tenant v \<and> spr_id p = var_product v
                            \<and> spr_status p = ''active'') (products db)])) (\<lambda>row.
     and_then (refused (ok_or (ApiError 404 ''product_not_found'' (''unknown SKU: '' @ ci_sku item)) row)) (\<lambda>(p, v).
     and_then (refused (ok_or (pricing_protocol_error (''missing quote line: '' @ ci_sku item))
        (find (\<lambda>line. lm_sku line = ci_sku item) (qm_lines quote)))) (\<lambda>quote_line.
     and_then (refused (ok_or (pricing_protocol_error ''quote line has no unit price'')
        (map_option mo_amount_minor (lm_unit_price quote_line)))) (\<lambda>unit_price_minor.
     and_then (refused (i32_amount unit_price_minor)) (\<lambda>_.
     Inr \<lparr>ol_product_id = spr_id p, ol_variant_id = var_id v, ol_sku = ci_sku item,
          ol_product_name = spr_name p @ '' / '' @ variant_name db (var_tenant v) (var_id v),
          ol_quantity = ci_quantity item, ol_unit_price_minor = unit_price_minor\<rparr>)))))"

definition i32_quantity :: "u32 \<Rightarrow> api_error + int" where
  "i32_quantity q =
     ok_or (ApiError 422 ''quantity_out_of_range'' ''quantity exceeds PostgreSQL integer range'') (checked_i32 (uint q))"

definition cit_key :: "cart_item_row \<Rightarrow> string \<times> string \<times> string" where
  "cit_key c = (cit_tenant c, cit_cart c, cit_variant c)"

text \<open>\<open>ON CONFLICT (tenant_id, cart_id, variant_id) DO UPDATE\<close>; \<open>fresh\<close> is the new row's id.\<close>

definition put_cart_item ::
  "(sql_error \<Rightarrow> string) \<Rightarrow> string \<Rightarrow> string \<Rightarrow> shop_db \<Rightarrow> order_line \<times> string \<Rightarrow> fault + shop_db" where
  "put_cart_item pg tenant_id cart_id db line_fresh =
     (case line_fresh of (line, fresh) \<Rightarrow>
      and_then (refused (i32_quantity (ol_quantity line))) (\<lambda>quantity.
      and_then (refused (i32_amount (ol_unit_price_minor line))) (\<lambda>unit_price.
      let row = \<lparr>cit_id = fresh, cit_tenant = tenant_id, cit_cart = cart_id, cit_variant = ol_variant_id line,
                 cit_quantity = quantity, cit_unit_price_minor = unit_price, cit_discount_minor = 0\<rparr> in
      if cit_key row \<notin> set (map cit_key (cart_items db)) \<and> fresh \<in> set (map cit_id (cart_items db))
        then sql_refused pg (Inl Unique_violation)
      else
        and_then (sql_refused pg (sql_upsert cit_key cart_item_check row
           (\<lambda>c. c\<lparr>cit_quantity := quantity, cit_unit_price_minor := unit_price\<rparr>) (cart_items db))) (\<lambda>rows.
        Inr (db\<lparr>cart_items := rows\<rparr>)))))"

definition insert_order :: "(sql_error \<Rightarrow> string) \<Rightarrow> order_row \<Rightarrow> shop_db \<Rightarrow> fault + shop_db" where
  "insert_order pg o' db =
     (if \<not> new_order_check o' then sql_refused pg (Inl Check_violation)
      else if list_ex (\<lambda>x. ord_id x = ord_id o'
           \<or> (ord_tenant x = ord_tenant o' \<and> ord_number x = ord_number o')
           \<or> (ord_tenant x = ord_tenant o' \<and> ord_checkout_request_id o' \<noteq> None
              \<and> ord_checkout_request_id x = ord_checkout_request_id o')) (orders (core db))
        then sql_refused pg (Inl Unique_violation)
      else Inr (db\<lparr>core := (core db)\<lparr>orders := orders (core db) @ [o']\<rparr>\<rparr>))"

definition insert_order_item ::
  "(sql_error \<Rightarrow> string) \<Rightarrow> timestamp \<Rightarrow> string \<Rightarrow> string \<Rightarrow> shop_db \<Rightarrow> order_line \<times> string \<Rightarrow> fault + shop_db" where
  "insert_order_item pg now tenant_id order_id db line_fresh =
     (case line_fresh of (line, fresh) \<Rightarrow>
      and_then (refused (i32_quantity (ol_quantity line))) (\<lambda>quantity.
      and_then (refused (i32_amount (ol_unit_price_minor line))) (\<lambda>unit_price.
      let row = \<lparr>oit_id = fresh, oit_tenant = tenant_id, oit_order = order_id, oit_product = ol_product_id line,
                 oit_variant = ol_variant_id line, oit_sku = ol_sku line, oit_product_name = ol_product_name line,
                 oit_quantity = quantity, oit_unit_price_minor = unit_price, oit_created_at = now\<rparr> in
      if \<not> order_item_check row then sql_refused pg (Inl Check_violation)
      else if list_ex (\<lambda>x. oit_id x = fresh \<or> (oit_tenant x = tenant_id \<and> oit_order x = order_id
           \<and> oit_variant x = ol_variant_id line)) (order_items db)
        then sql_refused pg (Inl Unique_violation)
      else Inr (db\<lparr>order_items := order_items db @ [row]\<rparr>))))"

text \<open>\<open>str::replace(pattern, "")\<close>: every occurrence, from the left.\<close>

fun remove_all :: "string \<Rightarrow> string \<Rightarrow> string" where
  "remove_all p [] = []"
| "remove_all p (c # s) =
     (if p \<noteq> [] \<and> starts_with p (c # s) then remove_all p (drop (length p - 1) s) else c # remove_all p s)"

text \<open>The fresh UUIDs of the transaction: \<open>u ''cart''\<close>, \<open>u ''order''\<close> and one per line and table.\<close>

record order_ids =
  oi_cart :: string
  oi_order :: string
  oi_cart_items :: "nat \<Rightarrow> string"
  oi_order_items :: "nat \<Rightarrow> string"

definition with_ids :: "(nat \<Rightarrow> string) \<Rightarrow> string \<Rightarrow> order_line list \<Rightarrow> (order_line \<times> string) list" where
  "with_ids ids pfx lines = zip lines (map (\<lambda>k. pfx @ ids k) [0..<length lines])"

definition new_pending_order ::
  "(sql_error \<Rightarrow> string) \<Rightarrow> timestamp \<Rightarrow> order_ids \<Rightarrow> checkout_input \<Rightarrow> quote_msg \<Rightarrow> string \<Rightarrow> checkout_lease \<Rightarrow> shop_db
     \<Rightarrow> fault + (pending_order \<times> shop_db)" where
  "new_pending_order pg now ids input quote session_id lease db =
     and_then (refused (quote_money (qm_subtotal quote) (in_currency_code input) ''subtotal'')) (\<lambda>subtotal.
     and_then (refused (quote_money (qm_discount_total quote) (in_currency_code input) ''discount'')) (\<lambda>discount.
     and_then (refused (quote_money (qm_grand_total quote) (in_currency_code input) ''grand_total'')) (\<lambda>total.
     and_then (refused (quote_money (qm_tax_total quote) (in_currency_code input) ''tax'')) (\<lambda>tax.
     and_then (refused (ok_or (pricing_protocol_error ''quote totals do not balance'')
        (Option.bind (checked_i64 (subtotal - discount)) (\<lambda>amount. checked_i64 (amount + tax))))) (\<lambda>expected_total.
     if total \<noteq> expected_total then Inl (Refused (pricing_protocol_error ''quote totals do not balance''))
     else
       let cart_id = (case in_cart_id input of None \<Rightarrow> ''cart-'' @ oi_cart ids | Some c \<Rightarrow> c);
           tenant_id = in_tenant_id input in
       and_then (insert_cart pg now input session_id cart_id db) (\<lambda>db1.
       and_then (checkout_cart pg input session_id cart_id db1) (\<lambda>_.
       and_then (try_map (order_line_for pg input quote db1) (in_items input)) (\<lambda>lines.
       and_then (try_fold (put_cart_item pg tenant_id cart_id) db1 (with_ids (oi_cart_items ids) ''cart-item-'' lines)) (\<lambda>db2.
       let order_id = ''order-'' @ oi_order ids;
           order_number = remove_all ''tenant-'' tenant_id @ ''-'' @ drop 6 order_id in
       and_then (refused (i32_amount subtotal)) (\<lambda>subtotal_i32.
       and_then (refused (i32_amount discount)) (\<lambda>discount_i32.
       and_then (refused (i32_amount tax)) (\<lambda>tax_i32.
       and_then (refused (i32_amount total)) (\<lambda>total_i32.
       and_then (insert_order pg \<lparr>ord_id = order_id, ord_tenant = tenant_id,
            ord_customer_id = Some (in_customer_id input), ord_cart_id = Some cart_id, ord_number = order_number,
            ord_status = ''pending'', ord_currency = in_currency_code input, ord_subtotal_minor = subtotal_i32,
            ord_discount_minor = discount_i32, ord_tax_minor = tax_i32, ord_total_minor = total_i32,
            ord_checkout_request_id = Some (cl_request_id lease), ord_promotion_code = in_promotion_code input,
            ord_updated_at = now\<rparr> db2) (\<lambda>db3.
       and_then (try_fold (insert_order_item pg now tenant_id order_id) db3
          (with_ids (oi_order_items ids) ''order-item-'' lines)) (\<lambda>db4.
       and_then (link_attempt pg now tenant_id lease order_id
          ''checkout attempt could not be linked to its durable order'' db4) (\<lambda>db5.
       Inr (\<lparr>po_id = order_id, po_order_number = order_number, po_cart_id = cart_id, po_tenant_id = tenant_id,
             po_customer_id = in_customer_id input, po_session_id = session_id, po_currency = in_currency_code input,
             po_lines = lines, po_subtotal_minor = subtotal, po_discount_minor = discount, po_tax_minor = tax,
             po_total_minor = total, po_promotion_code = in_promotion_code input\<rparr>, db5)))))))))))))))))"

definition create_order_tx ::
  "(sql_error \<Rightarrow> string) \<Rightarrow> (order_item_row \<Rightarrow> order_item_row \<Rightarrow> bool) \<Rightarrow> timestamp \<Rightarrow> order_ids \<Rightarrow> checkout_input \<Rightarrow> quote_msg
     \<Rightarrow> string \<Rightarrow> checkout_lease \<Rightarrow> shop_db \<Rightarrow> fault + ((api_error + pending_order) \<times> shop_db)" where
  "create_order_tx pg tie now ids input quote session_id lease db =
     and_then (sql_refused pg (query_opt (filter (\<lambda>o'. ord_tenant o' = in_tenant_id input
        \<and> ord_checkout_request_id o' = Some (cl_request_id lease)) (orders (core db))))) (\<lambda>stored.
     case stored of
       Some o' \<Rightarrow> replay_pending_order pg tie now input session_id lease o' db
     | None \<Rightarrow> and_then (new_pending_order pg now ids input quote session_id lease db) (\<lambda>(order, db1). Inr (Inr order, db1)))"

text \<open>The replay commits before it reads the cart id, so its last error follows a commit.\<close>

definition create_pending_order ::
  "(sql_error \<Rightarrow> string) \<Rightarrow> pool_result \<Rightarrow> (order_item_row \<Rightarrow> order_item_row \<Rightarrow> bool) \<Rightarrow> timestamp \<Rightarrow> order_ids
     \<Rightarrow> checkout_input \<Rightarrow> quote_msg \<Rightarrow> checkout_lease \<Rightarrow> shop_db \<Rightarrow> (fault + pending_order) \<times> shop_db" where
  "create_pending_order pg pool tie now ids input quote lease db =
     (case transact (\<lambda>db.
        and_then (refused (validate_input input)) (\<lambda>_.
        and_then (refused (validate_quote_response input quote)) (\<lambda>_.
        and_then (refused (ok_or (ApiError 400 ''invalid_session'' ''checkout session identity is required'')
           (in_session_id input))) (\<lambda>session_id.
        and_then (refused (acquire_db pool)) (\<lambda>_.
        create_order_tx pg tie now ids input quote session_id lease db))))) db of
       (result, db1) \<Rightarrow> (and_then result refused, db1))"

end
