(* ===== verification/CheckoutSettle.thy ===== *)
theory CheckoutSettle
  imports CheckoutShop
begin

text \<open>
  The remaining transactions of the checkout saga (\<open>application.rs\<close>): loading, cancelling and finalizing the
  order, the durable reconciliation intent and the compensation tasks. Columns no modelled code reads
  (\<open>placed_at\<close>, the addresses, constant descriptors of events) are left out. Two reads in a row see one state.
\<close>

definition lift_core :: "(commerce_db \<Rightarrow> (api_error + 'a) \<times> commerce_db) \<Rightarrow> shop_db \<Rightarrow> (fault + 'a) \<times> shop_db" where
  "lift_core op db = (case op (core db) of (r, c) \<Rightarrow> (refused r, db\<lparr>core := c\<rparr>))"

subsection \<open>Reading\<close>

definition load_pending_order ::
  "(sql_error \<Rightarrow> string) \<Rightarrow> pool_result \<Rightarrow> (order_item_row \<Rightarrow> order_item_row \<Rightarrow> bool) \<Rightarrow> string \<Rightarrow> string \<Rightarrow> shop_db
     \<Rightarrow> api_error + pending_order" where
  "load_pending_order pg pool tie tenant_id order_id db =
     (let failed = (\<lambda>message. ApiError 503 ''compensation_persistence_failed'' message) in
      and_then (acquire_db pool) (\<lambda>_.
      and_then (map_err (db_error pg) (query_opt (filter (\<lambda>o'. ord_tenant o' = tenant_id \<and> ord_id o' = order_id)
         (orders (core db))))) (\<lambda>row.
      and_then (ok_or (ApiError 404 ''order_not_found'' ''compensation order was not found'') row) (\<lambda>o'.
      and_then (ok_or (failed ''compensation order has no cart identity'') (ord_cart_id o')) (\<lambda>cart_id.
      and_then (ok_or (failed ''compensation order has no session identity'') (cart_session_of db o')) (\<lambda>session_id.
      and_then (try_map (order_line_of (\<lambda>_. failed ''compensation order item quantity is invalid''))
         (items_of_order tie tenant_id order_id db)) (\<lambda>lines.
      and_then (ok_or (failed ''compensation order has no customer identity'') (ord_customer_id o')) (\<lambda>customer_id.
      Inr \<lparr>po_id = ord_id o', po_order_number = ord_number o', po_cart_id = cart_id, po_tenant_id = tenant_id,
           po_customer_id = customer_id, po_session_id = session_id, po_currency = ord_currency o', po_lines = lines,
           po_subtotal_minor = ord_subtotal_minor o', po_discount_minor = ord_discount_minor o',
           po_tax_minor = ord_tax_minor o', po_total_minor = ord_total_minor o',
           po_promotion_code = ord_promotion_code o'\<rparr>))))))))"

definition lookup_authorization_payment_id ::
  "(sql_error \<Rightarrow> string) \<Rightarrow> pool_result \<Rightarrow> pending_order \<Rightarrow> string \<Rightarrow> shop_db \<Rightarrow> api_error + string option" where
  "lookup_authorization_payment_id pg pool order request_id db =
     and_then (acquire_db pool) (\<lambda>_.
     case [pay_id p. r \<leftarrow> filter (\<lambda>r. por_tenant r = po_tenant_id order
                       \<and> por_request_id r = request_id @ '':authorize'' \<and> por_operation r = ''authorize'')
                     (payment_operations db),
                     p \<leftarrow> filter (\<lambda>p. pay_tenant p = por_tenant r \<and> Some (pay_id p) = por_payment_id r
                       \<and> pay_order_id p = po_id order) (payments (core db))] of
       payment_id # _ \<Rightarrow> Inr (Some payment_id)
     | [] \<Rightarrow> Inr (map_option pay_id (limit1 (order_by (\<lambda>x y. pay_created_at x \<ge> pay_created_at y)
         (filter (\<lambda>p. pay_tenant p = po_tenant_id order \<and> pay_order_id p = po_id order) (payments (core db)))))))"

definition finalization_committed ::
  "(sql_error \<Rightarrow> string) \<Rightarrow> pool_result \<Rightarrow> pending_order \<Rightarrow> shop_db \<Rightarrow> api_error + bool" where
  "finalization_committed pg pool order db =
     (let not_yet = (\<lambda>message. ApiError 503 ''finalization_reconciliation_pending'' message) in
      and_then (acquire_db pool) (\<lambda>_.
      and_then (map_err (db_error pg) (query_opt (filter (\<lambda>o'. ord_tenant o' = po_tenant_id order
         \<and> ord_id o' = po_id order) (orders (core db))))) (\<lambda>row.
      and_then (ok_or (not_yet ''finalized order is not observable yet'') row) (\<lambda>o'.
      let outbox_present = list_ex (\<lambda>e. ob_tenant e = ord_tenant o' \<and> ob_event_key e = po_id order @ '':paid'') (outbox db) in
      if ord_status o' = ''paid'' \<and> outbox_present then Inr True
      else if ord_status o' = ''paid'' then Inl (not_yet ''paid order is missing its transactional outbox event'')
      else if ord_status o' = ''pending'' then Inr False
      else Inl (not_yet (''order is in unexpected state: '' @ ord_status o'))))))"

subsection \<open>Cancelling\<close>

definition order_is :: "pending_order \<Rightarrow> order_row \<Rightarrow> bool" where
  "order_is order o' \<longleftrightarrow> ord_tenant o' = po_tenant_id order \<and> ord_id o' = po_id order"

definition order_conflict :: "string \<Rightarrow> api_error" where
  "order_conflict message = ApiError 409 ''order_state_conflict'' message"

definition cancel_order_fenced ::
  "(sql_error \<Rightarrow> string) \<Rightarrow> pool_result \<Rightarrow> timestamp \<Rightarrow> pending_order \<Rightarrow> checkout_fence \<Rightarrow> commerce_db
     \<Rightarrow> (api_error + unit) \<times> commerce_db" where
  "cancel_order_fenced pg pool now order fence =
     transact (\<lambda>db. and_then (acquire_db pool) (\<lambda>_.
       and_then (lock_checkout_fence pg now fence db) (\<lambda>_.
       and_then (update_orders pg (\<lambda>o'. order_is order o' \<and> ord_status o' = ''pending''
          \<and> generation_open fence [''started''] (po_tenant_id order) db) (cancelled_order now) db) (\<lambda>(changed, db1).
       if changed \<noteq> 1 then Inl (order_conflict ''pending order could not be cancelled'') else Inr ((), db1)))))"

definition cancel_order_if_compensated ::
  "(sql_error \<Rightarrow> string) \<Rightarrow> pool_result \<Rightarrow> timestamp \<Rightarrow> pending_order \<Rightarrow> checkout_fence \<Rightarrow> commerce_db
     \<Rightarrow> (api_error + unit) \<times> commerce_db" where
  "cancel_order_if_compensated pg pool now order fence =
     transact (\<lambda>db. and_then (acquire_db pool) (\<lambda>_.
       and_then (lock_checkout_fence pg now fence db) (\<lambda>_.
       and_then (update_orders pg (\<lambda>o'. order_is order o' \<and> ord_status o' = ''pending'' \<and> compensated db o'
          \<and> generation_open fence [''started''] (po_tenant_id order) db) (cancelled_order now) db) (\<lambda>(changed, db1).
       if changed \<noteq> 1
         then Inl (order_conflict ''order was not cancelled because compensation is incomplete or state changed'')
       else Inr ((), db1)))))"

subsection \<open>The stored carrier\<close>

text \<open>
  The context of the request as far as the saga stores it: the durable carrier the propagation library
  injects (or its error), the baggage and the span identifiers.
\<close>

record flow_context =
  fc_carrier :: "string + header_map"
  fc_baggage :: baggage_lookup
  fc_trace_id :: string
  fc_span_id :: string

definition carrier_header :: "to_str \<Rightarrow> header_map \<Rightarrow> string \<Rightarrow> api_error + string" where
  "carrier_header to_str headers name =
     ok_or (ApiError 500 ''propagation_persistence_invalid'' (''generated durable W3C carrier is missing '' @ name))
       (Option.bind (header_get headers name) to_str)"

definition stored_propagation :: "to_str \<Rightarrow> flow_context \<Rightarrow> api_error + (string \<times> string \<times> string)" where
  "stored_propagation to_str context' =
     and_then (map_err (\<lambda>error. ApiError 500 ''propagation_persistence_invalid''
        (''generated durable W3C carrier is invalid: '' @ error)) (fc_carrier context')) (\<lambda>headers.
     and_then (carrier_header to_str headers ''traceparent'') (\<lambda>traceparent.
     and_then (carrier_header to_str headers ''tracestate'') (\<lambda>tracestate.
     and_then (carrier_header to_str headers ''baggage'') (\<lambda>baggage.
     Inr (traceparent, tracestate, baggage)))))"

subsection \<open>Finalizing\<close>

definition db_error_at :: "(sql_error \<Rightarrow> string) \<Rightarrow> string \<Rightarrow> sql_error \<Rightarrow> api_error" where
  "db_error_at pg stage e = ApiError 503 ''database_unavailable'' (stage @ '': '' @ pg e)"

definition line_json :: "order_line \<Rightarrow> json" where
  "line_json line = JObj [(''sku'', JStr (ol_sku line)), (''quantity'', JNum (uint (ol_quantity line))),
     (''unit_price_minor'', JNum (ol_unit_price_minor line))]"

definition paid_event_payload :: "pending_order \<Rightarrow> string \<Rightarrow> json" where
  "paid_event_payload order payment_id =
     JObj [(''order_id'', JStr (po_id order)), (''order_number'', JStr (po_order_number order)),
           (''tenant_id'', JStr (po_tenant_id order)), (''customer_id'', JStr (po_customer_id order)),
           (''session_id'', JStr (po_session_id order)), (''currency'', JStr (po_currency order)),
           (''subtotal_minor'', JNum (po_subtotal_minor order)), (''discount_minor'', JNum (po_discount_minor order)),
           (''tax_minor'', JNum (po_tax_minor order)), (''shipping_minor'', JNum 0),
           (''total_minor'', JNum (po_total_minor order)), (''payment_id'', JStr payment_id),
           (''payment_status'', JStr ''captured''), (''items'', JArr (map line_json (po_lines order)))]"

definition exposure_context :: "flow_context \<Rightarrow> string \<Rightarrow> json" where
  "exposure_context context' feature_variant =
     JObj [(''feature_variant'', JStr feature_variant),
           (''customer_segment'', json_opt_str (fc_baggage context' ''customer.segment'')),
           (''region'', json_opt_str (fc_baggage context' ''region'')),
           (''request_priority'', json_opt_str (fc_baggage context' ''request.priority''))]"

definition paid_event_key :: "pending_order \<Rightarrow> string" where
  "paid_event_key order = po_id order @ '':paid''"

definition nullif_empty :: "string \<Rightarrow> string option" where
  "nullif_empty s = (if s = [] then None else Some s)"

text \<open>\<open>INSERT ... ON CONFLICT (key) DO NOTHING\<close> on a table whose id is a second key.\<close>

definition insert_or_skip ::
  "('r \<Rightarrow> 'k) \<Rightarrow> ('r \<Rightarrow> string) \<Rightarrow> ('r \<Rightarrow> bool) \<Rightarrow> 'r \<Rightarrow> 'r list \<Rightarrow> sql_error + 'r list" where
  "insert_or_skip key ident chk r rows =
     (if \<not> chk r then Inl Check_violation
      else if key r \<in> set (map key rows) then Inr rows
      else if ident r \<in> set (map ident rows) then Inl Unique_violation
      else Inr (rows @ [r]))"

definition promotion_redeemable :: "timestamp \<Rightarrow> string \<Rightarrow> string \<Rightarrow> promotion_row \<Rightarrow> bool" where
  "promotion_redeemable now tenant_id code p \<longleftrightarrow>
     promo_tenant p = tenant_id \<and> promo_code p = code \<and> promo_active p \<and> promo_starts_at p \<le> now
     \<and> (promo_ends_at p = None \<or> after_now now (promo_ends_at p))
     \<and> (case promo_max_redemptions p of None \<Rightarrow> True | Some m \<Rightarrow> promo_redemption_count p < m)"

definition redeem_promotion ::
  "(sql_error \<Rightarrow> string) \<Rightarrow> timestamp \<Rightarrow> pending_order \<Rightarrow> shop_db \<Rightarrow> api_error + shop_db" where
  "redeem_promotion pg now order db =
     (case po_promotion_code order of
        Some code \<Rightarrow>
          if code = [] then Inr db
          else
            and_then (map_err (db_error_at pg ''redeem promotion'') (sql_update promotion_check
               (promotion_redeemable now (po_tenant_id order) code)
               (\<lambda>p. p\<lparr>promo_redemption_count := promo_redemption_count p + 1\<rparr>) (promotions db))) (\<lambda>(redeemed, rows).
            if redeemed \<noteq> 1
              then Inl (ApiError 409 ''promotion_redemption_unavailable'' ''promotion is no longer redeemable'')
            else Inr (db\<lparr>promotions := rows\<rparr>))
      | None \<Rightarrow> Inr db)"

definition paid_order :: "timestamp \<Rightarrow> order_row \<Rightarrow> order_row" where
  "paid_order now o' = o'\<lparr>ord_status := ''paid'', ord_updated_at := now\<rparr>"

definition settle_order ::
  "(sql_error \<Rightarrow> string) \<Rightarrow> timestamp \<Rightarrow> pending_order \<Rightarrow> checkout_fence \<Rightarrow> shop_db \<Rightarrow> api_error + shop_db" where
  "settle_order pg now order fence db =
     and_then (map_err (db_error_at pg ''finalize orders'') (sql_update order_check
        (\<lambda>o'. order_is order o' \<and> ord_status o' = ''pending''
           \<and> generation_open fence [''started''] (po_tenant_id order) (core db)) (paid_order now) (orders (core db))))
        (\<lambda>(order_changed, rows).
     if order_changed \<noteq> 1
       then Inl (ApiError 409 ''finalization_state_conflict'' ''order is no longer pending'')
     else Inr (db\<lparr>core := (core db)\<lparr>orders := rows\<rparr>\<rparr>))"

definition close_cart ::
  "(sql_error \<Rightarrow> string) \<Rightarrow> timestamp \<Rightarrow> pending_order \<Rightarrow> shop_db \<Rightarrow> api_error + shop_db" where
  "close_cart pg now order db =
     and_then (map_err (db_error_at pg ''finalize cart'') (sql_update cart_check
        (\<lambda>c. crt_tenant c = po_tenant_id order \<and> crt_id c = po_cart_id order \<and> crt_status c = ''active'')
        (\<lambda>c. c\<lparr>crt_status := ''checked_out'', crt_updated_at := now\<rparr>) (carts db))) (\<lambda>(cart_changed, rows).
     if cart_changed \<noteq> 1
       then Inl (ApiError 409 ''finalization_state_conflict'' ''order cart is no longer active'')
     else Inr (db\<lparr>carts := rows\<rparr>))"

definition paid_outbox_row ::
  "timestamp \<Rightarrow> pending_order \<Rightarrow> string \<Rightarrow> string \<times> string \<times> string \<Rightarrow> outbox_row" where
  "paid_outbox_row now order payment_id carrier =
     (case carrier of (traceparent, tracestate, baggage) \<Rightarrow>
      \<lparr>ob_id = ''outbox-'' @ po_id order, ob_tenant = po_tenant_id order, ob_event_key = paid_event_key order,
       ob_aggregate_type = ''order'', ob_aggregate_id = po_id order, ob_event_type = ''order.paid'',
       ob_schema_version = 1, ob_occurred_at = now, ob_payload = paid_event_payload order payment_id,
       ob_traceparent = traceparent, ob_tracestate = tracestate, ob_baggage = baggage, ob_status = ''queued'',
       ob_attempts = 0, ob_available_at = now, ob_published_at = None, ob_failure_code = None,
       ob_failure_message = None, ob_failed_at = None, ob_claim_token = None, ob_claim_expires_at = None,
       ob_created_at = now\<rparr>)"

definition record_paid_events ::
  "(sql_error \<Rightarrow> string) \<Rightarrow> timestamp \<Rightarrow> string \<Rightarrow> string \<Rightarrow> flow_context \<Rightarrow> pending_order \<Rightarrow> string \<Rightarrow> string
     \<Rightarrow> string \<times> string \<times> string \<Rightarrow> shop_db \<Rightarrow> api_error + shop_db" where
  "record_paid_events pg now exposure_uuid analytics_uuid context' order payment_id feature_variant carrier db =
     and_then (map_err (db_error_at pg ''finalize exposure'') (insert_or_skip (\<lambda>e. (ex_tenant e, ex_key e)) ex_id (\<lambda>_. True)
        \<lparr>ex_id = ''exposure-'' @ exposure_uuid, ex_tenant = po_tenant_id order, ex_customer_id = po_customer_id order,
         ex_session_id = po_session_id order, ex_variant = feature_variant,
         ex_key = paid_event_key order @ '':checkoutFlow'', ex_context = exposure_context context' feature_variant,
         ex_exposed_at = now\<rparr> (exposures db))) (\<lambda>exposed.
     and_then (map_err (db_error_at pg ''finalize analytics'') (insert_or_skip (\<lambda>e. (an_tenant e, an_event_key e)) an_id (\<lambda>_. True)
        \<lparr>an_id = ''analytics-'' @ analytics_uuid, an_tenant = po_tenant_id order, an_event_key = paid_event_key order,
         an_customer_id = po_customer_id order, an_session_id = po_session_id order, an_entity_id = po_id order,
         an_occurred_at = now, an_trace_id = nullif_empty (fc_trace_id context'),
         an_span_id = nullif_empty (fc_span_id context'), an_properties = paid_event_payload order payment_id,
         an_context = exposure_context context' feature_variant\<rparr> (analytics db))) (\<lambda>analysed.
     and_then (map_err (db_error_at pg ''finalize outbox'') (insert_or_skip (\<lambda>e. (ob_tenant e, ob_event_key e)) ob_id outbox_check
        (paid_outbox_row now order payment_id carrier) (outbox db))) (\<lambda>queued.
     Inr (db\<lparr>exposures := exposed, analytics := analysed, outbox := queued\<rparr>))))"

text \<open>What the client learns of \<open>COMMIT\<close>: success, or an error after which it took effect or not.\<close>

datatype commit_outcome = Committed | Commit_lost string bool

definition finalize_tx ::
  "(sql_error \<Rightarrow> string) \<Rightarrow> pool_result \<Rightarrow> timestamp \<Rightarrow> string \<Rightarrow> string \<Rightarrow> to_str \<Rightarrow> flow_context \<Rightarrow> pending_order \<Rightarrow> string
     \<Rightarrow> string \<Rightarrow> checkout_fence \<Rightarrow> shop_db \<Rightarrow> api_error + shop_db" where
  "finalize_tx pg pool now exposure_uuid analytics_uuid to_str context' order payment_id feature_variant fence db =
     and_then (stored_propagation to_str context') (\<lambda>carrier.
     and_then (acquire_db pool) (\<lambda>_.
     and_then (lock_checkout_fence pg now fence (core db)) (\<lambda>_.
     and_then (settle_order pg now order fence db) (\<lambda>db1.
     and_then (close_cart pg now order db1) (\<lambda>db2.
     and_then (redeem_promotion pg now order db2) (\<lambda>db3.
     record_paid_events pg now exposure_uuid analytics_uuid context' order payment_id feature_variant carrier db3))))))"

definition finalize_order ::
  "(sql_error \<Rightarrow> string) \<Rightarrow> pool_result \<Rightarrow> commit_outcome \<Rightarrow> timestamp \<Rightarrow> string \<Rightarrow> string \<Rightarrow> to_str \<Rightarrow> flow_context
     \<Rightarrow> pending_order \<Rightarrow> string \<Rightarrow> string \<Rightarrow> checkout_fence \<Rightarrow> shop_db \<Rightarrow> (api_error + unit) \<times> shop_db" where
  "finalize_order pg pool commit now exposure_uuid analytics_uuid to_str context' order payment_id feature_variant fence db =
     (case finalize_tx pg pool now exposure_uuid analytics_uuid to_str context' order payment_id feature_variant fence db of
        Inl error \<Rightarrow> (Inl error, db)
      | Inr db1 \<Rightarrow> (case commit of
            Committed \<Rightarrow> (Inr (), db1)
          | Commit_lost error took_effect \<Rightarrow>
              (Inl (ApiError 503 ''finalization_commit_ambiguous''
                 (''finalization commit outcome is unknown: '' @ error)), if took_effect then db1 else db)))"

end
