(* ===== verification/CheckoutIntents.thy ===== *)
theory CheckoutIntents
  imports CheckoutSettle
begin

text \<open>
  The durable intents of the saga (\<open>application.rs\<close>): the reconciliation row that takes over an open payment
  and the compensation tasks that undo stock and payment. A task key carries the generation's lease token, so
  each generation has tasks of its own.
\<close>

subsection \<open>Reconciliation intents\<close>

definition new_recon ::
  "timestamp \<Rightarrow> pending_order \<Rightarrow> checkout_lease \<Rightarrow> string option \<Rightarrow> string \<Rightarrow> string \<Rightarrow> string \<times> string \<times> string \<Rightarrow> recon_row" where
  "new_recon now order lease payment_id method_type feature_variant carrier =
     (case carrier of (traceparent, tracestate, baggage) \<Rightarrow>
      \<lparr>rc_tenant = po_tenant_id order, rc_request = cl_request_id lease, rc_order_id = po_id order,
       rc_authorize_request_id = cl_request_id lease @ '':authorize'', rc_payment_id = payment_id,
       rc_merchant_reference = po_id order, rc_amount_minor = po_total_minor order, rc_currency = po_currency order,
       rc_method_type = method_type, rc_feature_variant = feature_variant, rc_status = ''awaiting_provider'',
       rc_attempts = 0, rc_available_at = now, rc_claimed_at = None, rc_lease_token = None,
       rc_lease_expires_at = None, rc_completed_at = None, rc_last_payment_status = None,
       rc_last_operation_status = None, rc_last_failure_reason = None, rc_last_error = None,
       rc_traceparent = Some traceparent, rc_tracestate = Some tracestate, rc_baggage = Some baggage,
       rc_checkout_lease_token = cl_token lease, rc_created_at = now, rc_updated_at = now\<rparr>)"

definition merged_recon :: "timestamp \<Rightarrow> recon_row \<Rightarrow> recon_row \<Rightarrow> recon_row" where
  "merged_recon now new r =
     r\<lparr>rc_payment_id := (case rc_payment_id r of None \<Rightarrow> rc_payment_id new | Some p \<Rightarrow> Some p),
       rc_checkout_lease_token := (if rc_status r = ''completed'' then rc_checkout_lease_token r
          else rc_checkout_lease_token new),
       rc_feature_variant := rc_feature_variant new, rc_traceparent := rc_traceparent new,
       rc_tracestate := rc_tracestate new, rc_baggage := rc_baggage new,
       rc_status := (if rc_status r \<in> {''awaiting_provider'', ''processing'', ''completed'', ''failed''}
          then rc_status r else ''awaiting_provider''),
       rc_available_at := (if rc_status r \<in> {''processing'', ''completed'', ''failed''}
          then rc_available_at r else now),
       rc_last_error := (if rc_status r \<in> {''processing'', ''completed'', ''failed''}
          then rc_last_error r else None),
       rc_updated_at := now\<rparr>"

text \<open>The \<open>INSERT ... SELECT ... ON CONFLICT DO UPDATE ... WHERE\<close> with the number of rows it touched.\<close>

definition put_recon ::
  "(sql_error \<Rightarrow> string) \<Rightarrow> timestamp \<Rightarrow> recon_row \<Rightarrow> commerce_db \<Rightarrow> api_error + (nat \<times> commerce_db)" where
  "put_recon pg now row db =
     (if \<not> list_ex (\<lambda>a. attempt_is (rc_tenant row) (rc_request row) (rc_checkout_lease_token row) a
           \<and> at_status a = ''started'') (attempts db) then Inr (0, db)
      else if \<not> recon_check row then Inl (db_error pg Check_violation)
      else if rc_key row \<in> set (map rc_key (recons db))
        then and_then (update_recons pg (\<lambda>r. rc_key r = rc_key row \<and> rc_order_id r = rc_order_id row
             \<and> rc_authorize_request_id r = rc_authorize_request_id row) (merged_recon now row) db) (\<lambda>(n, db1).
           if list_ex (\<lambda>r. rc_key r = rc_key row \<and> rc_order_id r = rc_order_id row
                \<and> rc_authorize_request_id r = rc_authorize_request_id row \<and> rc_payment_id r = None) (recons db)
              \<and> (case rc_payment_id row of None \<Rightarrow> False | Some p \<Rightarrow> \<not> payment_known db (rc_tenant row) p)
             then Inl (db_error pg Foreign_key_violation)
           else Inr (n, db1))
      else if list_ex (\<lambda>r. rc_tenant r = rc_tenant row
           \<and> rc_authorize_request_id r = rc_authorize_request_id row) (recons db)
        then Inl (db_error pg Unique_violation)
      else if \<not> order_known db (rc_tenant row) (Some (rc_order_id row))
           \<or> (case rc_payment_id row of None \<Rightarrow> False | Some p \<Rightarrow> \<not> payment_known db (rc_tenant row) p)
        then Inl (db_error pg Foreign_key_violation)
      else Inr (1, db\<lparr>recons := recons db @ [row]\<rparr>))"

definition register_reconciliation ::
  "(sql_error \<Rightarrow> string) \<Rightarrow> pool_result \<Rightarrow> timestamp \<Rightarrow> to_str \<Rightarrow> pending_order \<Rightarrow> checkout_lease \<Rightarrow> string option
     \<Rightarrow> string \<Rightarrow> string \<Rightarrow> flow_context \<Rightarrow> bool \<Rightarrow> commerce_db \<Rightarrow> (api_error + unit) \<times> commerce_db" where
  "register_reconciliation pg pool now to_str order lease payment_id method_type feature_variant context' allow_expired_parent =
     transact (\<lambda>db.
       if cl_tenant_id lease \<noteq> po_tenant_id order
         then Inl (lease_lost ''payment reconciliation lease tenant does not match the order'')
       else
         and_then (stored_propagation to_str context') (\<lambda>carrier.
         and_then (acquire_db pool) (\<lambda>_.
         and_then (if allow_expired_parent
            then and_then (row_found pg (filter (\<lambda>a. attempt_is (cl_tenant_id lease) (cl_request_id lease)
                     (cl_token lease) a \<and> at_status a = ''started'') (attempts db))) (\<lambda>parent_exists.
                 if parent_exists then Inr ()
                 else Inl (lease_lost ''checkout finalization recovery lost its parent generation''))
            else lock_checkout_fence pg now (Attempt lease) db) (\<lambda>_.
         and_then (put_recon pg now (new_recon now order lease (nonblank_opt payment_id)
            (stored_payment_method_type method_type) feature_variant carrier) db) (\<lambda>(changed, db1).
         if changed \<noteq> 1
           then Inl (lease_lost ''payment reconciliation intent was not created by the current checkout lease'')
         else Inr ((), db1))))))"

definition register_pending_payment_reconciliation ::
  "(sql_error \<Rightarrow> string) \<Rightarrow> pool_result \<Rightarrow> timestamp \<Rightarrow> to_str \<Rightarrow> pending_order \<Rightarrow> checkout_lease \<Rightarrow> string option
     \<Rightarrow> string \<Rightarrow> string \<Rightarrow> flow_context \<Rightarrow> commerce_db \<Rightarrow> (api_error + unit) \<times> commerce_db" where
  "register_pending_payment_reconciliation pg pool now to_str order lease payment_id method_type feature_variant context' =
     register_reconciliation pg pool now to_str order lease payment_id method_type feature_variant context' False"

definition queue_checkout_finalization_recovery ::
  "(sql_error \<Rightarrow> string) \<Rightarrow> pool_result \<Rightarrow> timestamp \<Rightarrow> to_str \<Rightarrow> pending_order \<Rightarrow> checkout_lease \<Rightarrow> string option
     \<Rightarrow> string \<Rightarrow> string \<Rightarrow> flow_context \<Rightarrow> commerce_db \<Rightarrow> (api_error + unit) \<times> commerce_db" where
  "queue_checkout_finalization_recovery pg pool now to_str order lease payment_id method_type feature_variant context' =
     register_reconciliation pg pool now to_str order lease payment_id method_type feature_variant context' True"

subsection \<open>Compensation tasks\<close>

definition payment_compensation_task_key :: "string \<Rightarrow> string" where
  "payment_compensation_task_key payment_id = ''payment-compensation:'' @ payment_id"

definition inventory_compensation_task_key :: "string \<Rightarrow> string" where
  "inventory_compensation_task_key reservation_id = ''inventory-release:'' @ reservation_id"

definition ends_with :: "string \<Rightarrow> string \<Rightarrow> bool" where
  "ends_with suf s \<longleftrightarrow> length suf \<le> length s \<and> drop (length s - length suf) s = suf"

definition generation_compensation_task_key :: "string \<Rightarrow> string \<Rightarrow> string" where
  "generation_compensation_task_key base_key parent_token =
     (let suf = '':'' @ parent_token in if ends_with suf base_key then base_key else base_key @ suf)"

record inventory_reservation =
  ir_reservation_id :: string
  ir_sku :: string
  ir_quantity :: u32
  ir_location_id :: "string option"

definition prepared_task ::
  "timestamp \<Rightarrow> string \<Rightarrow> pending_order \<Rightarrow> string \<Rightarrow> checkout_fence \<Rightarrow> string \<times> string \<times> string \<Rightarrow> compensation_row" where
  "prepared_task now uuid order task_key fence carrier =
     (case carrier of (traceparent, tracestate, baggage) \<Rightarrow>
      \<lparr>ct_id = ''compensation-'' @ uuid, ct_tenant = po_tenant_id order, ct_order_id = po_id order,
       ct_task_key = task_key, ct_kind = [], ct_reservation_id = None, ct_sku = None, ct_quantity = None,
       ct_payment_id = None, ct_request_id = None, ct_currency = None, ct_status = ''prepared'', ct_attempts = 0,
       ct_available_at = now, ct_claimed_at = None, ct_completed_at = None, ct_last_error = None,
       ct_traceparent = Some traceparent, ct_tracestate = Some tracestate, ct_baggage = Some baggage,
       ct_checkout_request_id = fence_request_id fence, ct_checkout_lease_token = fence_token fence,
       ct_claim_token = None, ct_claim_expires_at = None, ct_remote_operation_id = None,
       ct_remote_operation_started_at = None, ct_remote_operation_completed_at = None, ct_created_at = now,
       ct_updated_at = now\<rparr>)"

text \<open>\<open>ON CONFLICT (tenant_id, task_key) DO UPDATE\<close>: only a queued task is refreshed.\<close>

definition requeued_task :: "timestamp \<Rightarrow> compensation_row \<Rightarrow> compensation_row \<Rightarrow> compensation_row" where
  "requeued_task now new t =
     (if ct_status t \<in> {''completed'', ''processing'', ''prepared'', ''failed'', ''superseded''}
      then t\<lparr>ct_completed_at := (if ct_status t = ''completed'' then ct_completed_at t else None),
             ct_updated_at := now\<rparr>
      else t\<lparr>ct_status := ''queued'', ct_available_at := now, ct_claimed_at := None, ct_completed_at := None,
             ct_last_error := None, ct_checkout_request_id := ct_checkout_request_id new,
             ct_checkout_lease_token := ct_checkout_lease_token new, ct_traceparent := ct_traceparent new,
             ct_tracestate := ct_tracestate new, ct_baggage := ct_baggage new, ct_updated_at := now\<rparr>)"

definition put_task ::
  "timestamp \<Rightarrow> checkout_fence \<Rightarrow> compensation_row \<Rightarrow> commerce_db \<Rightarrow> sql_error + (nat \<times> commerce_db)" where
  "put_task now fence row db =
     (if \<not> generation_open fence [''started'', ''failed''] (ct_tenant row) db then Inr (0, db)
      else if \<not> compensation_check row then Inl Check_violation
      else if ct_key row \<in> set (map ct_key (compensations db)) then
        and_then (sql_update compensation_check (\<lambda>t. ct_key t = ct_key row) (requeued_task now row) (compensations db))
          (\<lambda>(n, rows). Inr (n, db\<lparr>compensations := rows\<rparr>))
      else if ct_id row \<in> set (map ct_id (compensations db)) then Inl Unique_violation
      else if \<not> order_known db (ct_tenant row) (Some (ct_order_id row))
           \<or> (case ct_payment_id row of None \<Rightarrow> False | Some p \<Rightarrow> \<not> payment_known db (ct_tenant row) p)
        then Inl Foreign_key_violation
      else Inr (1, db\<lparr>compensations := compensations db @ [row]\<rparr>))"

definition inventory_task_row ::
  "timestamp \<Rightarrow> string \<Rightarrow> pending_order \<Rightarrow> checkout_fence \<Rightarrow> string \<times> string \<times> string \<Rightarrow> inventory_reservation \<Rightarrow> int
     \<Rightarrow> compensation_row" where
  "inventory_task_row now uuid order fence carrier reservation quantity =
     (prepared_task now uuid order (generation_compensation_task_key
        (inventory_compensation_task_key (ir_reservation_id reservation)) (fence_token fence)) fence carrier)
       \<lparr>ct_kind := ''inventory_release'', ct_reservation_id := Some (ir_reservation_id reservation),
        ct_sku := Some (ir_sku reservation), ct_quantity := Some quantity\<rparr>"

definition enqueue_inventory_task ::
  "(sql_error \<Rightarrow> string) \<Rightarrow> timestamp \<Rightarrow> pending_order \<Rightarrow> checkout_fence \<Rightarrow> string \<times> string \<times> string \<Rightarrow> commerce_db
     \<Rightarrow> inventory_reservation \<times> string \<Rightarrow> api_error + commerce_db" where
  "enqueue_inventory_task pg now order fence carrier db reservation_uuid =
     (case reservation_uuid of (reservation, uuid) \<Rightarrow>
      and_then (ok_or (ApiError 500 ''compensation_persistence_failed'' ''inventory compensation quantity is out of range'')
         (checked_i32 (uint (ir_quantity reservation)))) (\<lambda>quantity.
      and_then (map_err (\<lambda>error. ApiError 503 ''compensation_persistence_failed''
           (''inventory compensation task: '' @ pg error))
         (put_task now fence (inventory_task_row now uuid order fence carrier reservation quantity) db)) (\<lambda>(changed, db1).
      if changed = 0
        then Inl (lease_lost ''inventory compensation intent was not created by the current checkout fence'')
      else Inr db1)))"

text \<open>The transaction of \<open>enqueue_inventory_compensation_tasks\<close>; the activations follow it one by one.\<close>

definition enqueue_inventory_tasks_tx ::
  "(sql_error \<Rightarrow> string) \<Rightarrow> pool_result \<Rightarrow> timestamp \<Rightarrow> (nat \<Rightarrow> string) \<Rightarrow> to_str \<Rightarrow> pending_order
     \<Rightarrow> inventory_reservation list \<Rightarrow> flow_context \<Rightarrow> checkout_fence \<Rightarrow> commerce_db \<Rightarrow> (api_error + unit) \<times> commerce_db" where
  "enqueue_inventory_tasks_tx pg pool now uuids to_str order holds context' fence =
     transact (\<lambda>db.
       and_then (stored_propagation to_str context') (\<lambda>carrier.
       and_then (acquire_db pool) (\<lambda>_.
       and_then (lock_checkout_fence pg now fence db) (\<lambda>_.
       and_then (try_fold (enqueue_inventory_task pg now order fence carrier) db
          (zip holds (map uuids [0..<length holds]))) (\<lambda>db1.
       Inr ((), db1))))))"

definition payment_task_row ::
  "timestamp \<Rightarrow> string \<Rightarrow> pending_order \<Rightarrow> checkout_fence \<Rightarrow> string \<times> string \<times> string \<Rightarrow> string \<Rightarrow> string \<Rightarrow> compensation_row" where
  "payment_task_row now uuid order fence carrier payment_id request_id =
     (prepared_task now uuid order (generation_compensation_task_key (payment_compensation_task_key payment_id)
        (fence_token fence)) fence carrier)
       \<lparr>ct_kind := ''payment'', ct_payment_id := Some payment_id, ct_request_id := Some request_id,
        ct_currency := Some (po_currency order)\<rparr>"

definition enqueue_payment_task_tx ::
  "(sql_error \<Rightarrow> string) \<Rightarrow> pool_result \<Rightarrow> timestamp \<Rightarrow> string \<Rightarrow> to_str \<Rightarrow> pending_order \<Rightarrow> string \<Rightarrow> string
     \<Rightarrow> flow_context \<Rightarrow> checkout_fence \<Rightarrow> commerce_db \<Rightarrow> (api_error + unit) \<times> commerce_db" where
  "enqueue_payment_task_tx pg pool now uuid to_str order payment_id request_id context' fence =
     transact (\<lambda>db.
       and_then (stored_propagation to_str context') (\<lambda>carrier.
       and_then (acquire_db pool) (\<lambda>_.
       and_then (lock_checkout_fence pg now fence db) (\<lambda>_.
       and_then (map_err (\<lambda>error. ApiError 503 ''compensation_persistence_failed''
            (''payment compensation task: '' @ pg error))
          (put_task now fence (payment_task_row now uuid order fence carrier payment_id request_id) db)) (\<lambda>(changed, db1).
       if changed = 0
         then Inl (lease_lost ''payment compensation intent was not created by the current checkout fence'')
       else Inr ((), db1))))))"

definition order_task :: "pending_order \<Rightarrow> string \<Rightarrow> compensation_row \<Rightarrow> bool" where
  "order_task order task_key t \<longleftrightarrow>
     ct_tenant t = po_tenant_id order \<and> ct_order_id t = po_id order \<and> ct_task_key t = task_key"

definition own_task :: "pending_order \<Rightarrow> string \<Rightarrow> checkout_fence \<Rightarrow> string \<Rightarrow> commerce_db \<Rightarrow> compensation_row \<Rightarrow> bool" where
  "own_task order task_key fence status db t \<longleftrightarrow>
     order_task order task_key t \<and> ct_status t = status
     \<and> ct_checkout_request_id t = fence_request_id fence \<and> ct_checkout_lease_token t = fence_token fence
     \<and> generation_open fence [''started'', ''failed''] (po_tenant_id order) db"

definition task_status ::
  "(sql_error \<Rightarrow> string) \<Rightarrow> pending_order \<Rightarrow> string \<Rightarrow> commerce_db \<Rightarrow> api_error + string option" where
  "task_status pg order task_key db =
     and_then (map_err (db_error pg) (query_opt (filter (order_task order task_key) (compensations db)))) (\<lambda>row.
     Inr (map_option ct_status row))"

definition activate_compensation_intent ::
  "(sql_error \<Rightarrow> string) \<Rightarrow> pool_result \<Rightarrow> timestamp \<Rightarrow> pending_order \<Rightarrow> string \<Rightarrow> checkout_fence \<Rightarrow> commerce_db
     \<Rightarrow> (api_error + unit) \<times> commerce_db" where
  "activate_compensation_intent pg pool now order task_key fence =
     transact (\<lambda>db. and_then (acquire_db pool) (\<lambda>_.
       and_then (lock_checkout_fence pg now fence db) (\<lambda>_.
       and_then (update_compensations pg (own_task order task_key fence ''prepared'' db)
          (\<lambda>t. t\<lparr>ct_status := ''queued'', ct_available_at := min (ct_available_at t) now, ct_updated_at := now\<rparr>) db)
          (\<lambda>(changed, db1).
       if changed = 1 then Inr ((), db1)
       else
         and_then (task_status pg order task_key db1) (\<lambda>status.
         if status \<in> {Some ''queued'', Some ''processing'', Some ''completed''} then Inr ((), db1)
         else Inl (lease_lost ''compensation intent could not be activated by the current checkout fence''))))))"

definition resolved_task :: "timestamp \<Rightarrow> compensation_row \<Rightarrow> compensation_row" where
  "resolved_task now t =
     t\<lparr>ct_status := ''completed'', ct_completed_at := Some now, ct_claimed_at := None, ct_claim_token := None,
       ct_claim_expires_at := None, ct_updated_at := now\<rparr>"

definition resolve_compensation_intent ::
  "(sql_error \<Rightarrow> string) \<Rightarrow> pool_result \<Rightarrow> timestamp \<Rightarrow> pending_order \<Rightarrow> string \<Rightarrow> checkout_fence \<Rightarrow> commerce_db
     \<Rightarrow> (api_error + unit) \<times> commerce_db" where
  "resolve_compensation_intent pg pool now order base_key fence =
     (let task_key = generation_compensation_task_key base_key (fence_token fence) in
      transact (\<lambda>db. and_then (acquire_db pool) (\<lambda>_.
       and_then (lock_checkout_fence pg now fence db) (\<lambda>_.
       and_then (update_compensations pg (own_task order task_key fence ''queued'' db) (resolved_task now) db)
          (\<lambda>(changed, db1).
       if changed > 1
         then Inl (ApiError 500 ''compensation_persistence_failed'' ''duplicate compensation intents exist'')
       else if changed = 0 then
         and_then (task_status pg order task_key db1) (\<lambda>status.
         if status \<in> {Some ''processing'', Some ''completed''} then Inr ((), db1)
         else Inl (lease_lost ''compensation intent ownership was lost before resolution''))
       else Inr ((), db1))))))"

end
