(* ===== verification/CheckoutFlow.thy ===== *)
theory CheckoutFlow
  imports CheckoutIntents
begin

text \<open>
  Programs that call other services and the database. A program maps the environment and the state to a
  result and the next state. The environment says, per step, what the other processes do to the database
  before it (the heartbeat of the own lease and the effects of the services that are called are among them),
  the time, the pool, fresh identifiers, the outcome of a commit and the answer of each service. The state is
  the database, the step counter and the trace of calls and transactions, oldest first; a transaction is
  recorded with the database it found and the one it left. \<open>Panic\<close> is not caught.
\<close>

datatype http_reply = Http_failed string | Http_reply int "string + json"

datatype quote_reply = Quote_channel_error string | Quote_error grpc_code string | Quote_reply quote_msg

datatype flow_event =
    Catalog_call json http_reply
  | Quote_call quote_request quote_reply
  | Payment_call payment_request payment_reply
  | Inventory_call string json http_reply
  | Recommend_call string http_reply
  | Tx string bool shop_db shop_db

record flow_state =
  fs_db :: shop_db
  fs_step :: nat
  fs_trace :: "flow_event list"

record flow_env =
  fe_pg :: "sql_error \<Rightarrow> string"
  fe_to_str :: to_str
  fe_tie :: "order_item_row \<Rightarrow> order_item_row \<Rightarrow> bool"
  fe_status_text :: "int \<Rightarrow> string"
  fe_pool :: "nat \<Rightarrow> pool_result"
  fe_now :: "nat \<Rightarrow> timestamp"
  fe_uuid :: "nat \<Rightarrow> nat \<Rightarrow> string"
  fe_commit :: "nat \<Rightarrow> commit_outcome"
  fe_others :: "nat \<Rightarrow> shop_db \<Rightarrow> shop_db"
  fe_catalog :: "nat \<Rightarrow> json \<Rightarrow> http_reply"
  fe_pricing :: "nat \<Rightarrow> quote_request \<Rightarrow> quote_reply"
  fe_payment :: "nat \<Rightarrow> payment_request \<Rightarrow> payment_reply"
  fe_inventory :: "nat \<Rightarrow> string \<Rightarrow> json \<Rightarrow> http_reply"
  fe_recommendation :: "nat \<Rightarrow> string \<Rightarrow> http_reply"
  fe_variant :: string
  fe_context :: "string \<Rightarrow> flow_context"
  fe_header_value :: "string \<Rightarrow> string + string"
  fe_extract :: "header_map \<Rightarrow> flow_context"
  fe_sha256_hex :: "string \<Rightarrow> string"
  fe_print :: "json \<Rightarrow> string"
  fe_request_uuid :: string
  fe_locked_recon :: "nat \<Rightarrow> recon_row \<Rightarrow> attempt_row \<Rightarrow> bool"
  fe_locked_comp :: "nat \<Rightarrow> compensation_row \<Rightarrow> attempt_row \<Rightarrow> bool"
  fe_locked_expired :: "nat \<Rightarrow> compensation_row \<Rightarrow> bool"

type_synonym 'a flow = "flow_env \<Rightarrow> flow_state \<Rightarrow> (fault + 'a) \<times> flow_state"

subsection \<open>Combinators\<close>

definition flow_lift :: "api_error + 'a \<Rightarrow> 'a flow" where
  "flow_lift r = (\<lambda>env s. (refused r, s))"

definition flow_return :: "'a \<Rightarrow> 'a flow" where
  "flow_return x = flow_lift (Inr x)"

definition flow_fail :: "api_error \<Rightarrow> 'a flow" where
  "flow_fail e = flow_lift (Inl e)"

text \<open>\<open>program.await?\<close>\<close>

definition flow_then :: "'a flow \<Rightarrow> ('a \<Rightarrow> 'b flow) \<Rightarrow> 'b flow" where
  "flow_then m f = (\<lambda>env s. case m env s of (Inl e, s1) \<Rightarrow> (Inl e, s1) | (Inr x, s1) \<Rightarrow> f x env s1)"

text \<open>\<open>match program.await\<close>\<close>

definition flow_match :: "'a flow \<Rightarrow> (api_error + 'a \<Rightarrow> 'b flow) \<Rightarrow> 'b flow" where
  "flow_match m f = (\<lambda>env s. case m env s of
       (Inl Panic, s1) \<Rightarrow> (Inl Panic, s1)
     | (Inl (Refused e), s1) \<Rightarrow> f (Inl e) env s1
     | (Inr x, s1) \<Rightarrow> f (Inr x) env s1)"

definition flow_db :: "string \<Rightarrow> (flow_env \<Rightarrow> nat \<Rightarrow> shop_db \<Rightarrow> (fault + 'a) \<times> shop_db) \<Rightarrow> 'a flow" where
  "flow_db name op = (\<lambda>env s.
     let n = fs_step s; db = fe_others env n (fs_db s) in
     case op env n db of (r, db1) \<Rightarrow>
       (r, s\<lparr>fs_db := db1, fs_step := Suc n, fs_trace := fs_trace s @ [Tx name (is_ok r) db db1]\<rparr>))"

definition flow_core :: "string \<Rightarrow> (flow_env \<Rightarrow> nat \<Rightarrow> commerce_db \<Rightarrow> (api_error + 'a) \<times> commerce_db) \<Rightarrow> 'a flow" where
  "flow_core name op = flow_db name (\<lambda>env n. lift_core (op env n))"

definition flow_read :: "string \<Rightarrow> (flow_env \<Rightarrow> nat \<Rightarrow> shop_db \<Rightarrow> api_error + 'a) \<Rightarrow> 'a flow" where
  "flow_read name f = flow_db name (\<lambda>env n db. (refused (f env n db), db))"

definition flow_call :: "(flow_env \<Rightarrow> nat \<Rightarrow> 'r) \<Rightarrow> ('r \<Rightarrow> flow_event) \<Rightarrow> 'r flow" where
  "flow_call ask event = (\<lambda>env s.
     let n = fs_step s; reply = ask env n in
     (Inr reply, s\<lparr>fs_db := fe_others env n (fs_db s), fs_step := Suc n, fs_trace := fs_trace s @ [event reply]\<rparr>))"

fun flow_each :: "('a \<Rightarrow> unit flow) \<Rightarrow> 'a list \<Rightarrow> unit flow" where
  "flow_each f [] = flow_return ()"
| "flow_each f (x # xs) = flow_then (f x) (\<lambda>_. flow_each f xs)"

subsection \<open>Fences\<close>

definition flow_assert :: "checkout_fence \<Rightarrow> unit flow" where
  "flow_assert fence = flow_read ''assert_checkout_fence'' (\<lambda>env n db.
     assert_checkout_fence (fe_pg env) (fe_pool env n) (fe_now env n) fence (core db))"

definition flow_fenced :: "checkout_fence \<Rightarrow> 'a flow \<Rightarrow> 'a flow" where
  "flow_fenced fence operation =
     flow_then (flow_assert fence) (\<lambda>_.
     flow_match operation (\<lambda>result.
     flow_match (flow_assert fence) (\<lambda>fence_result.
     case fence_result of Inl error \<Rightarrow> flow_fail error | Inr _ \<Rightarrow> flow_lift result)))"

subsection \<open>Catalog and pricing\<close>

text \<open>
  \<open>serde_json::from_value\<close> into a struct: an object, or an array with one element per field.
\<close>

definition struct_fields :: "string list \<Rightarrow> json \<Rightarrow> (string \<Rightarrow> json option) option" where
  "struct_fields names j =
     (case j of
        JObj kvs \<Rightarrow> Some (map_of kvs)
      | JArr vs \<Rightarrow> if length vs = length names then Some (map_of (zip names vs)) else None
      | _ \<Rightarrow> None)"

definition str_field :: "(string \<Rightarrow> json option) \<Rightarrow> string \<Rightarrow> string option" where
  "str_field get k = (case get k of Some (JStr s) \<Rightarrow> Some s | _ \<Rightarrow> None)"

definition num_field :: "(int \<Rightarrow> bool) \<Rightarrow> (string \<Rightarrow> json option) \<Rightarrow> string \<Rightarrow> int option" where
  "num_field in_range get k = (case get k of Some (JNum n) \<Rightarrow> if in_range n then Some n else None | _ \<Rightarrow> None)"

definition graphql_error_ok :: "json \<Rightarrow> bool" where
  "graphql_error_ok j = (case struct_fields [''message''] j of None \<Rightarrow> False | Some get \<Rightarrow> str_field get ''message'' \<noteq> None)"

text \<open>The errors of a GraphQL envelope; \<open>None\<close> when the body is not an envelope.\<close>

definition graphql_errors :: "json \<Rightarrow> json list option" where
  "graphql_errors body =
     (case struct_fields [''data'', ''errors''] body of
        None \<Rightarrow> None
      | Some get \<Rightarrow> (case get ''errors'' of
            None \<Rightarrow> Some []
          | Some JNull \<Rightarrow> Some []
          | Some (JArr es) \<Rightarrow> if list_all graphql_error_ok es then Some es else None
          | Some _ \<Rightarrow> None))"

definition is_success :: "int \<Rightarrow> bool" where
  "is_success status \<longleftrightarrow> 200 \<le> status \<and> status < 300"

definition graphql_answer :: "(int \<Rightarrow> string) \<Rightarrow> http_reply \<Rightarrow> api_error + json" where
  "graphql_answer status_text reply =
     (case reply of
        Http_failed error \<Rightarrow> Inl (ApiError 503 ''catalog_unavailable'' error)
      | Http_reply status (Inl error) \<Rightarrow> Inl (ApiError 502 ''catalog_protocol_error'' error)
      | Http_reply status (Inr body) \<Rightarrow>
          if \<not> is_success status
            then Inl (ApiError 503 ''catalog_unavailable'' (''catalog HTTP status '' @ status_text status))
          else (case graphql_errors body of
              None \<Rightarrow> Inl (ApiError 502 ''catalog_protocol_error'' ''catalog returned an invalid GraphQL envelope'')
            | Some [] \<Rightarrow> Inr body
            | Some (_ # _) \<Rightarrow> Inl (ApiError 502 ''catalog_query_failed'' ''catalog GraphQL query failed'')))"

text \<open>The variables of the \<open>CheckoutProduct\<close> query.\<close>

definition product_query :: "checkout_input \<Rightarrow> checkout_item_input \<Rightarrow> json" where
  "product_query input item = JObj [(''sku'', JStr (ci_sku item)), (''tenantId'', JStr (in_tenant_id input)),
     (''segment'', JStr (in_segment input))]"

definition post_graphql :: "json \<Rightarrow> json flow" where
  "post_graphql variables =
     flow_then (flow_call (\<lambda>env n. (fe_catalog env n variables, fe_status_text env))
        (\<lambda>(reply, _). Catalog_call variables reply)) (\<lambda>(reply, status_text).
     flow_lift (graphql_answer status_text reply))"

definition catalog_product :: "string \<Rightarrow> json \<Rightarrow> api_error + json" where
  "catalog_product sku body =
     (case Option.bind (json_get body ''data'') (\<lambda>d. json_get d ''product'') of
        None \<Rightarrow> Inl (ApiError 404 ''product_not_found'' (''unknown catalog SKU: '' @ sku))
      | Some JNull \<Rightarrow> Inl (ApiError 404 ''product_not_found'' (''unknown catalog SKU: '' @ sku))
      | Some product \<Rightarrow>
          if Option.bind (json_get product ''sku'') json_as_str \<noteq> Some sku
            then Inl (ApiError 404 ''product_not_found'' (''catalog did not return SKU: '' @ sku))
          else Inr product)"

fun catalog_products :: "checkout_input \<Rightarrow> checkout_item_input list \<Rightarrow> json list flow" where
  "catalog_products input [] = flow_return []"
| "catalog_products input (item # items) =
     flow_then (post_graphql (product_query input item)) (\<lambda>body.
     flow_then (flow_lift (catalog_product (ci_sku item) body)) (\<lambda>product.
     flow_then (catalog_products input items) (\<lambda>found.
     flow_return (product # found))))"

definition validate_catalog :: "checkout_input \<Rightarrow> json list flow" where
  "validate_catalog input = catalog_products input (in_items input)"

definition quote_answer :: "checkout_input \<Rightarrow> quote_reply \<Rightarrow> api_error + quote_msg" where
  "quote_answer input reply =
     (case reply of
        Quote_channel_error error \<Rightarrow> Inl (ApiError 503 ''pricing_unavailable'' error)
      | Quote_error code message \<Rightarrow> Inl (pricing_error code message)
      | Quote_reply quote \<Rightarrow> and_then (validate_quote_response input quote) (\<lambda>_. Inr quote))"

definition quote_once :: "checkout_input \<Rightarrow> string \<Rightarrow> string \<Rightarrow> quote_msg flow" where
  "quote_once input request_id checkout_variant =
     (let request = checkout_quote_request input request_id checkout_variant in
      flow_then (flow_call (\<lambda>env n. fe_pricing env n request) (Quote_call request)) (\<lambda>reply.
      flow_lift (quote_answer input reply)))"

definition retryable_quote_error :: "api_error \<Rightarrow> bool" where
  "retryable_quote_error e \<longleftrightarrow> ae_status e \<in> {503, 504}"

fun quote_attempts :: "nat \<Rightarrow> checkout_input \<Rightarrow> string \<Rightarrow> string \<Rightarrow> quote_msg flow" where
  "quote_attempts 0 input request_id checkout_variant =
     flow_fail (ApiError 502 ''pricing_failed'' ''pricing returned no result'')"
| "quote_attempts (Suc k) input request_id checkout_variant =
     flow_match (quote_once input request_id checkout_variant) (\<lambda>result.
     case result of
       Inr quote \<Rightarrow> flow_return quote
     | Inl error \<Rightarrow> if \<not> retryable_quote_error error \<or> k = 0 then flow_fail error
         else quote_attempts k input request_id checkout_variant)"

definition quote_with_retry :: "checkout_input \<Rightarrow> string \<Rightarrow> string \<Rightarrow> quote_msg flow" where
  "quote_with_retry input request_id checkout_variant =
     quote_attempts (nat (min (uint (in_retry input)) 3 + 1)) input request_id checkout_variant"

subsection \<open>Payment\<close>

definition payment_call :: "payment_request \<Rightarrow> payment_reply flow" where
  "payment_call request = flow_call (\<lambda>env n. fe_payment env n request) (Payment_call request)"

definition order_money :: "pending_order \<Rightarrow> int \<Rightarrow> money" where
  "order_money order amount = \<lparr>mo_currency_code = po_currency order, mo_amount_minor = amount\<rparr>"

definition authorize_payment :: "pending_order \<Rightarrow> string \<Rightarrow> string \<Rightarrow> string \<Rightarrow> payment_authorization flow" where
  "authorize_payment order request_id token method' =
     flow_then (payment_call (AuthorizeRequest (request_id @ '':authorize'') (po_id order)
        (order_money order (po_total_minor order)) (payment_method_type method') token (po_tenant_id order))) (\<lambda>reply.
     flow_lift (authorization_answer reply))"

definition get_payment_snapshot :: "pending_order \<Rightarrow> string \<Rightarrow> payment_snapshot flow" where
  "get_payment_snapshot order payment_id =
     flow_then (payment_call (GetPaymentRequest payment_id (po_tenant_id order))) (\<lambda>reply.
     flow_lift (snapshot_answer order payment_id reply))"

definition capture_payment :: "pending_order \<Rightarrow> string \<Rightarrow> string \<Rightarrow> unit flow" where
  "capture_payment order payment_id request_id =
     flow_then (payment_call (CaptureRequest (request_id @ '':capture'') payment_id
        (order_money order (po_total_minor order)) (po_tenant_id order))) (\<lambda>reply.
     flow_lift (settled_answer ''payment capture'' reply))"

definition void_payment :: "pending_order \<Rightarrow> string \<Rightarrow> string \<Rightarrow> unit flow" where
  "void_payment order payment_id request_id =
     flow_then (payment_call (VoidRequest (request_id @ '':void'') payment_id (po_tenant_id order))) (\<lambda>reply.
     flow_lift (settled_answer ''payment void'' reply))"

definition refund_payment :: "pending_order \<Rightarrow> string \<Rightarrow> string \<Rightarrow> int \<Rightarrow> unit flow" where
  "refund_payment order payment_id request_id amount_minor =
     flow_then (payment_call (RefundRequest (request_id @ '':refund:'' @ int_to_string amount_minor) payment_id
        (order_money order amount_minor) (po_tenant_id order))) (\<lambda>reply.
     flow_lift (settled_answer ''payment refund'' reply))"

text \<open>One round of \<open>compensate_payment\<close>; \<open>Some\<close> is an early return.\<close>

definition compensate_action :: "pending_order \<Rightarrow> string \<Rightarrow> string \<Rightarrow> payment_snapshot \<Rightarrow> unit flow option" where
  "compensate_action order payment_id request_id snapshot =
     (let remaining = sn_captured_minor snapshot - sn_refunded_minor snapshot in
      if remaining > 0 then Some (refund_payment order payment_id request_id remaining)
      else if sn_status snapshot = Pay_authorized then Some (void_payment order payment_id request_id)
      else None)"

definition compensate_round :: "pending_order \<Rightarrow> string \<Rightarrow> string \<Rightarrow> bool option flow" where
  "compensate_round order payment_id request_id =
     flow_match (get_payment_snapshot order payment_id) (\<lambda>before.
     case before of
       Inl _ \<Rightarrow> flow_return (Some False)
     | Inr snapshot \<Rightarrow>
         if payment_compensation_confirmed snapshot then flow_return (Some True)
         else (case compensate_action order payment_id request_id snapshot of
             None \<Rightarrow> flow_return (Some False)
           | Some action \<Rightarrow>
               flow_match action (\<lambda>_.
               flow_match (get_payment_snapshot order payment_id) (\<lambda>after.
               case after of
                 Inl _ \<Rightarrow> flow_return (Some False)
               | Inr snapshot' \<Rightarrow>
                   flow_return (if payment_compensation_confirmed snapshot' then Some True else None)))))"

fun compensate_rounds :: "nat \<Rightarrow> pending_order \<Rightarrow> string \<Rightarrow> string \<Rightarrow> bool flow" where
  "compensate_rounds 0 order payment_id request_id = flow_return False"
| "compensate_rounds (Suc k) order payment_id request_id =
     flow_then (compensate_round order payment_id request_id) (\<lambda>outcome.
     case outcome of
       Some done' \<Rightarrow> flow_return done'
     | None \<Rightarrow> compensate_rounds k order payment_id request_id)"

definition compensate_payment :: "pending_order \<Rightarrow> string \<Rightarrow> string \<Rightarrow> bool flow" where
  "compensate_payment order payment_id request_id = compensate_rounds 3 order payment_id request_id"

end
