(* ===== verification/CheckoutSaga.thy ===== *)
theory CheckoutSaga
  imports CheckoutFlow
begin

text \<open>
  The saga of a checkout (\<open>application.rs\<close>): stock, compensation, the flow of a request, the idempotent entry
  point, and the reconciliation of a payment that was left open. The URL of a service, the headers and the
  timeouts of a request are not part of the model; a timeout is a failed reply.
\<close>

subsection \<open>Transactions as programs\<close>

definition flow_begin_operation :: "pending_order \<Rightarrow> string \<Rightarrow> checkout_fence \<Rightarrow> unit flow" where
  "flow_begin_operation order task_key fence = flow_core ''begin_compensation_operation'' (\<lambda>env n.
     begin_compensation_operation (fe_pg env) (fe_pool env n) (fe_now env n) order task_key fence)"

definition flow_complete_operation :: "pending_order \<Rightarrow> string \<Rightarrow> checkout_fence \<Rightarrow> unit flow" where
  "flow_complete_operation order task_key fence = flow_core ''complete_compensation_operation'' (\<lambda>env n.
     complete_compensation_operation (fe_pg env) (fe_pool env n) (fe_now env n) order task_key fence)"

definition flow_activate :: "pending_order \<Rightarrow> checkout_fence \<Rightarrow> string \<Rightarrow> unit flow" where
  "flow_activate order fence task_key = flow_core ''activate_compensation_intent'' (\<lambda>env n.
     activate_compensation_intent (fe_pg env) (fe_pool env n) (fe_now env n) order task_key fence)"

definition flow_resolve :: "pending_order \<Rightarrow> string \<Rightarrow> checkout_fence \<Rightarrow> unit flow" where
  "flow_resolve order base_key fence = flow_core ''resolve_compensation_intent'' (\<lambda>env n.
     resolve_compensation_intent (fe_pg env) (fe_pool env n) (fe_now env n) order base_key fence)"

definition flow_cancel :: "pending_order \<Rightarrow> checkout_fence \<Rightarrow> unit flow" where
  "flow_cancel order fence = flow_core ''cancel_order_fenced'' (\<lambda>env n.
     cancel_order_fenced (fe_pg env) (fe_pool env n) (fe_now env n) order fence)"

definition flow_cancel_if_compensated :: "pending_order \<Rightarrow> checkout_fence \<Rightarrow> unit flow" where
  "flow_cancel_if_compensated order fence = flow_core ''cancel_order_if_compensated'' (\<lambda>env n.
     cancel_order_if_compensated (fe_pg env) (fe_pool env n) (fe_now env n) order fence)"

definition flow_create_order :: "checkout_input \<Rightarrow> quote_msg \<Rightarrow> checkout_lease \<Rightarrow> pending_order flow" where
  "flow_create_order input quote lease = flow_db ''create_pending_order'' (\<lambda>env n.
     create_pending_order (fe_pg env) (fe_pool env n) (fe_tie env) (fe_now env n)
       \<lparr>oi_cart = fe_uuid env n 0, oi_order = fe_uuid env n 1, oi_cart_items = (\<lambda>k. fe_uuid env n (2 + 2 * k)),
        oi_order_items = (\<lambda>k. fe_uuid env n (3 + 2 * k))\<rparr> input quote lease)"

definition flow_register ::
  "pending_order \<Rightarrow> checkout_lease \<Rightarrow> string option \<Rightarrow> string \<Rightarrow> string \<Rightarrow> flow_context \<Rightarrow> unit flow" where
  "flow_register order lease payment_id method_type feature_variant context' =
     flow_core ''register_pending_payment_reconciliation'' (\<lambda>env n.
       register_pending_payment_reconciliation (fe_pg env) (fe_pool env n) (fe_now env n) (fe_to_str env)
         order lease payment_id method_type feature_variant context')"

definition flow_queue_recovery ::
  "pending_order \<Rightarrow> checkout_lease \<Rightarrow> string option \<Rightarrow> string \<Rightarrow> string \<Rightarrow> flow_context \<Rightarrow> unit flow" where
  "flow_queue_recovery order lease payment_id method_type feature_variant context' =
     flow_core ''queue_checkout_finalization_recovery'' (\<lambda>env n.
       queue_checkout_finalization_recovery (fe_pg env) (fe_pool env n) (fe_now env n) (fe_to_str env)
         order lease payment_id method_type feature_variant context')"

definition flow_finalize ::
  "flow_context \<Rightarrow> pending_order \<Rightarrow> string \<Rightarrow> string \<Rightarrow> checkout_fence \<Rightarrow> unit flow" where
  "flow_finalize context' order payment_id feature_variant fence = flow_db ''finalize_order'' (\<lambda>env n db.
     (case finalize_order (fe_pg env) (fe_pool env n) (fe_commit env n) (fe_now env n) (fe_uuid env n 0)
        (fe_uuid env n 1) (fe_to_str env) context' order payment_id feature_variant fence db of
        (r, db1) \<Rightarrow> (refused r, db1)))"

definition flow_finalization_committed :: "pending_order \<Rightarrow> bool flow" where
  "flow_finalization_committed order = flow_read ''finalization_committed'' (\<lambda>env n.
     finalization_committed (fe_pg env) (fe_pool env n) order)"

definition enqueue_payment_compensation_task ::
  "pending_order \<Rightarrow> string \<Rightarrow> string \<Rightarrow> flow_context \<Rightarrow> checkout_fence \<Rightarrow> unit flow" where
  "enqueue_payment_compensation_task order payment_id request_id context' fence =
     flow_then (flow_core ''enqueue_payment_compensation_task'' (\<lambda>env n.
        enqueue_payment_task_tx (fe_pg env) (fe_pool env n) (fe_now env n) (fe_uuid env n 0) (fe_to_str env)
          order payment_id request_id context' fence)) (\<lambda>_.
     flow_activate order fence (generation_compensation_task_key (payment_compensation_task_key payment_id)
        (fence_token fence)))"

definition inventory_task_key :: "checkout_fence \<Rightarrow> inventory_reservation \<Rightarrow> string" where
  "inventory_task_key fence reservation =
     generation_compensation_task_key (inventory_compensation_task_key (ir_reservation_id reservation)) (fence_token fence)"

definition enqueue_inventory_compensation_tasks ::
  "pending_order \<Rightarrow> inventory_reservation list \<Rightarrow> flow_context \<Rightarrow> checkout_fence \<Rightarrow> unit flow" where
  "enqueue_inventory_compensation_tasks order holds context' fence =
     (if holds = [] then flow_return ()
      else
        flow_then (flow_core ''enqueue_inventory_compensation_tasks'' (\<lambda>env n.
           enqueue_inventory_tasks_tx (fe_pg env) (fe_pool env n) (fe_now env n) (fe_uuid env n) (fe_to_str env)
             order holds context' fence)) (\<lambda>_.
        flow_each (flow_activate order fence) (map (inventory_task_key fence) holds)))"

subsection \<open>Payment compensation under the fence\<close>

definition compensate_payment_with_fence ::
  "pending_order \<Rightarrow> string \<Rightarrow> string \<Rightarrow> checkout_fence \<Rightarrow> bool flow" where
  "compensate_payment_with_fence order payment_id request_id fence =
     (let task_key = generation_compensation_task_key (payment_compensation_task_key payment_id) (fence_token fence) in
      flow_then (flow_begin_operation order task_key fence) (\<lambda>_.
      flow_then (flow_fenced fence (compensate_payment order payment_id request_id)) (\<lambda>done'.
      flow_then (if done' then flow_complete_operation order task_key fence else flow_return ()) (\<lambda>_.
      flow_return done'))))"

datatype authorization_recovery =
    Recovered payment_authorization
  | Recovery_absent
  | Recovery_pending
  | Recovery_failed api_error

definition recovered :: "string \<Rightarrow> operation_status \<Rightarrow> payment_snapshot \<Rightarrow> authorization_recovery" where
  "recovered payment_id status snapshot =
     Recovered \<lparr>pa_payment_id = payment_id, pa_operation_status = status, pa_failure_reason = sn_failure_reason snapshot\<rparr>"

definition recovery_of_snapshot :: "string \<Rightarrow> payment_snapshot \<Rightarrow> api_error + authorization_recovery" where
  "recovery_of_snapshot payment_id snapshot =
     (case sn_status snapshot of
        Pay_pending \<Rightarrow> Inr (recovered payment_id Op_pending snapshot)
      | Pay_authorized \<Rightarrow> Inr (recovered payment_id Op_succeeded snapshot)
      | Pay_voided \<Rightarrow> Inr Recovery_absent
      | Pay_refunded \<Rightarrow> Inr Recovery_absent
      | Pay_failed \<Rightarrow> Inr (Recovery_failed (payment_operation_error ''payment authorization''
          (authorization_failure_status (sn_failure_reason snapshot)) (sn_failure_reason snapshot)))
      | Pay_captured \<Rightarrow> Inl (payment_reconciliation_error ''payment state has no compensable captured balance'')
      | Pay_partially_refunded \<Rightarrow>
          Inl (payment_reconciliation_error ''payment state has no compensable captured balance'')
      | Pay_unspecified \<Rightarrow> Inl (payment_reconciliation_error ''payment state is unspecified''))"

definition recover_authorization ::
  "flow_context \<Rightarrow> pending_order \<Rightarrow> string \<Rightarrow> string \<Rightarrow> string \<Rightarrow> checkout_fence \<Rightarrow> authorization_recovery flow" where
  "recover_authorization context' order request_id token method' fence =
     flow_match (authorize_payment order request_id token method') (\<lambda>retry.
     case retry of
       Inr authorization \<Rightarrow> flow_return (Recovered authorization)
     | Inl retry_error \<Rightarrow>
         if \<not> is_ambiguous_payment_failure retry_error then flow_return (Recovery_failed retry_error)
         else
           flow_then (flow_read ''lookup_authorization_payment_id'' (\<lambda>env n.
              lookup_authorization_payment_id (fe_pg env) (fe_pool env n) order request_id)) (\<lambda>found.
           case found of
             None \<Rightarrow> flow_return Recovery_pending
           | Some payment_id \<Rightarrow>
               flow_then (get_payment_snapshot order payment_id) (\<lambda>snapshot.
               if sn_authorized_minor snapshot \<noteq> po_total_minor order \<or> sn_currency snapshot \<noteq> po_currency order
                 then flow_fail (payment_reconciliation_error ''payment authorization does not match the order'')
               else if sn_captured_minor snapshot > sn_refunded_minor snapshot then
                 flow_then (enqueue_payment_compensation_task order payment_id request_id context' fence) (\<lambda>_.
                 flow_then (compensate_payment_with_fence order payment_id request_id fence) (\<lambda>done'.
                 if done' then
                   flow_then (flow_resolve order (payment_compensation_task_key payment_id) fence) (\<lambda>_.
                   flow_return Recovery_absent)
                 else flow_fail (payment_reconciliation_error ''captured funds remain after ambiguous authorization'')))
               else flow_lift (recovery_of_snapshot payment_id snapshot))))"

subsection \<open>Stock\<close>

definition inventory_protocol_error :: "string \<Rightarrow> api_error" where
  "inventory_protocol_error message = ApiError 502 ''inventory_protocol_error'' message"

definition inventory_call :: "string \<Rightarrow> json \<Rightarrow> (http_reply \<times> (int \<Rightarrow> string)) flow" where
  "inventory_call path payload = flow_call (\<lambda>env n. (fe_inventory env n path payload, fe_status_text env))
     (\<lambda>(reply, _). Inventory_call path payload reply)"

definition reservation_id_for :: "pending_order \<Rightarrow> order_line \<Rightarrow> string" where
  "reservation_id_for order line = ''reservation-'' @ po_id order @ ''-'' @ ol_variant_id line"

definition reserve_payload :: "pending_order \<Rightarrow> checkout_fence \<Rightarrow> order_line \<Rightarrow> json" where
  "reserve_payload order fence line =
     JObj [(''tenant_id'', JStr (po_tenant_id order)), (''reservation_id'', JStr (reservation_id_for order line)),
           (''sku'', JStr (ol_sku line)), (''quantity'', JNum (uint (ol_quantity line))),
           (''checkout_request_id'', JStr (fence_request_id fence)),
           (''checkout_lease_token'', JStr (fence_token fence))]"


definition parse_inventory_reservation ::
  "json \<Rightarrow> pending_order \<Rightarrow> string \<Rightarrow> u32 \<Rightarrow> string \<Rightarrow> api_error + inventory_reservation" where
  "parse_inventory_reservation body order sku quantity expected_reservation_id =
     (case struct_fields [''tenant_id'', ''reservation_id'', ''sku'', ''reserved'', ''location_id'', ''remaining'', ''status''] body of
        None \<Rightarrow> Inl (inventory_protocol_error ''inventory returned an incomplete reservation payload'')
      | Some get \<Rightarrow>
          (case (str_field get ''tenant_id'', str_field get ''reservation_id'', str_field get ''sku'',
                 num_field in_u32 get ''reserved'', str_field get ''location_id'', num_field in_i64 get ''remaining'',
                 str_field get ''status'') of
             (Some tenant_id, Some reservation_id, Some sku', Some reserved, Some location_id, Some remaining, Some status) \<Rightarrow>
               if tenant_id \<noteq> po_tenant_id order \<or> reservation_id \<noteq> expected_reservation_id \<or> sku' \<noteq> sku
                  \<or> reserved \<noteq> uint quantity \<or> trim location_id = [] \<or> remaining < 0
                  \<or> status \<notin> {''reserved'', ''already_reserved'', ''already_consumed''}
                 then Inl (inventory_protocol_error ''inventory reservation payload does not match the request'')
               else Inr \<lparr>ir_reservation_id = reservation_id, ir_sku = sku', ir_quantity = word_of_int reserved,
                        ir_location_id = Some location_id\<rparr>
           | _ \<Rightarrow> Inl (inventory_protocol_error ''inventory returned an incomplete reservation payload'')))"

definition validate_inventory_release_response ::
  "json \<Rightarrow> pending_order \<Rightarrow> inventory_reservation \<Rightarrow> api_error + unit" where
  "validate_inventory_release_response body order reservation =
     (let incomplete = inventory_protocol_error ''inventory returned an incomplete release payload'' in
      case struct_fields [''tenant_id'', ''reservation_id'', ''sku'', ''location_id'', ''requested'', ''released'',
             ''reserved_remaining'', ''available'', ''status''] body of
        None \<Rightarrow> Inl incomplete
      | Some get \<Rightarrow>
          (case (str_field get ''tenant_id'', str_field get ''reservation_id'', str_field get ''sku'',
                 str_field get ''location_id'', num_field in_u32 get ''requested'', num_field in_i64 get ''released'',
                 num_field in_i64 get ''reserved_remaining'', num_field in_i64 get ''available'', str_field get ''status'') of
             (Some tenant_id, Some reservation_id, Some sku, Some location_id, Some requested, Some released,
              Some reserved_remaining, Some available, Some status) \<Rightarrow>
               let release_matches = (if status = ''released'' then released = uint (ir_quantity reservation)
                     else if status = ''already_released'' then released = 0 else False) in
               if tenant_id \<noteq> po_tenant_id order \<or> reservation_id \<noteq> ir_reservation_id reservation
                  \<or> sku \<noteq> ir_sku reservation \<or> trim location_id = [] \<or> requested \<noteq> uint (ir_quantity reservation)
                  \<or> \<not> release_matches \<or> reserved_remaining < 0 \<or> available < 0
                 then Inl (inventory_protocol_error ''inventory release payload does not match the request'')
               else if (case ir_location_id reservation of None \<Rightarrow> False | Some expected \<Rightarrow> expected \<noteq> location_id)
                 then Inl (inventory_protocol_error ''inventory release location does not match the reservation'')
               else Inr ()
           | _ \<Rightarrow> Inl incomplete))"

definition release_payload :: "pending_order \<Rightarrow> checkout_fence \<Rightarrow> inventory_reservation \<Rightarrow> json" where
  "release_payload order fence reservation =
     JObj ([(''tenant_id'', JStr (po_tenant_id order)), (''reservation_id'', JStr (ir_reservation_id reservation)),
            (''sku'', JStr (ir_sku reservation)), (''quantity'', JNum (uint (ir_quantity reservation))),
            (''checkout_request_id'', JStr (fence_request_id fence)),
            (''checkout_lease_token'', JStr (fence_token fence))]
           @ (case ir_location_id reservation of None \<Rightarrow> [] | Some location \<Rightarrow> [(''location_id'', JStr location)]))"

text \<open>What one release answer adds to \<open>first_error\<close>.\<close>

definition release_answer ::
  "(int \<Rightarrow> string) \<Rightarrow> pending_order \<Rightarrow> inventory_reservation \<Rightarrow> int \<Rightarrow> string + json \<Rightarrow> api_error option" where
  "release_answer status_text order reservation status body =
     (if status = 404 then None
      else if is_success status then
        (case body of
           Inr body \<Rightarrow> (case validate_inventory_release_response body order reservation of Inl e \<Rightarrow> Some e | Inr _ \<Rightarrow> None)
         | Inl error \<Rightarrow> Some (inventory_protocol_error (''inventory release payload could not be decoded: '' @ error)))
      else Some (ApiError (if status = 409 then 409 else 503) ''inventory_release_failed''
             (''inventory release returned '' @ status_text status @ '' for '' @ ir_sku reservation)))"

definition http_sent :: "string \<Rightarrow> http_reply \<Rightarrow> api_error + (int \<times> (string + json))" where
  "http_sent code reply =
     (case reply of
        Http_failed error \<Rightarrow> Inl (ApiError 503 code error)
      | Http_reply status body \<Rightarrow> Inr (status, body))"

definition send_inventory ::
  "checkout_fence \<Rightarrow> string \<Rightarrow> string \<Rightarrow> json \<Rightarrow> (int \<times> (string + json) \<times> (int \<Rightarrow> string)) flow" where
  "send_inventory fence code path payload =
     flow_fenced fence (flow_then (inventory_call path payload) (\<lambda>(reply, status_text).
       flow_then (flow_lift (http_sent code reply)) (\<lambda>(status, body). flow_return (status, body, status_text))))"

definition first_of :: "'a option \<Rightarrow> 'a option \<Rightarrow> 'a option" where
  "first_of a b = (case a of None \<Rightarrow> b | Some x \<Rightarrow> Some x)"

fun release_each ::
  "pending_order \<Rightarrow> checkout_fence \<Rightarrow> api_error option \<Rightarrow> inventory_reservation list \<Rightarrow> unit flow" where
  "release_each order fence first_error [] =
     (case first_error of None \<Rightarrow> flow_return () | Some error \<Rightarrow> flow_fail error)"
| "release_each order fence first_error (reservation # rest) =
     flow_match (send_inventory fence ''inventory_release_unavailable'' ''release'' (release_payload order fence reservation)) (\<lambda>sent.
     case sent of
       Inl error \<Rightarrow> if ae_code error = ''checkout_lease_lost'' then flow_fail error
         else release_each order fence (first_of first_error (Some error)) rest
     | Inr (status, body, status_text) \<Rightarrow>
         flow_then (flow_assert fence) (\<lambda>_.
         release_each order fence (first_of first_error (release_answer status_text order reservation status body)) rest))"

definition release_inventory :: "pending_order \<Rightarrow> inventory_reservation list \<Rightarrow> checkout_fence \<Rightarrow> unit flow" where
  "release_inventory order holds fence = release_each order fence None holds"

definition release_inventory_with_recovery ::
  "flow_context \<Rightarrow> pending_order \<Rightarrow> inventory_reservation list \<Rightarrow> checkout_fence \<Rightarrow> unit flow" where
  "release_inventory_with_recovery context' order holds fence =
     flow_then (enqueue_inventory_compensation_tasks order holds context' fence) (\<lambda>_.
     flow_then (flow_each (\<lambda>task_key. flow_begin_operation order task_key fence) (map (inventory_task_key fence) holds)) (\<lambda>_.
     flow_then (release_inventory order holds fence) (\<lambda>_.
     flow_each (\<lambda>reservation.
        flow_then (flow_complete_operation order (inventory_task_key fence reservation) fence) (\<lambda>_.
        flow_resolve order (inventory_compensation_task_key (ir_reservation_id reservation)) fence)) holds)))"

text \<open>A reservation that failed is kept by its key, released with the others, and the error reported.\<close>

definition abandon_reservations ::
  "flow_context \<Rightarrow> pending_order \<Rightarrow> checkout_fence \<Rightarrow> inventory_reservation list \<Rightarrow> order_line \<Rightarrow> api_error
     \<Rightarrow> inventory_reservation list flow" where
  "abandon_reservations context' order fence holds line error =
     flow_then (release_inventory_with_recovery context' order
        (holds @ [\<lparr>ir_reservation_id = reservation_id_for order line, ir_sku = ol_sku line,
                  ir_quantity = ol_quantity line, ir_location_id = None\<rparr>]) fence) (\<lambda>_.
     flow_fail error)"

fun reserve_each ::
  "flow_context \<Rightarrow> pending_order \<Rightarrow> checkout_fence \<Rightarrow> inventory_reservation list \<Rightarrow> order_line list
     \<Rightarrow> inventory_reservation list flow" where
  "reserve_each context' order fence holds [] = flow_return holds"
| "reserve_each context' order fence holds (line # rest) =
     flow_match (send_inventory fence ''inventory_unavailable'' ''reserve'' (reserve_payload order fence line)) (\<lambda>sent.
     case sent of
       Inl error \<Rightarrow> abandon_reservations context' order fence holds line
           (ApiError 503 ''inventory_unavailable'' (ae_message error))
     | Inr (status, body, status_text) \<Rightarrow>
         flow_then (flow_assert fence) (\<lambda>_.
         if \<not> is_success status then abandon_reservations context' order fence holds line
             (ApiError (if status = 409 then 409 else 503) ''inventory_reservation_failed''
                (''inventory returned '' @ status_text status @ '' for '' @ ol_sku line))
         else (case body of
             Inl error \<Rightarrow> abandon_reservations context' order fence holds line (inventory_protocol_error error)
           | Inr body \<Rightarrow>
               (case parse_inventory_reservation body order (ol_sku line) (ol_quantity line)
                       (reservation_id_for order line) of
                  Inl error \<Rightarrow> abandon_reservations context' order fence holds line error
                | Inr reservation \<Rightarrow> reserve_each context' order fence (holds @ [reservation]) rest))))"

definition reserve_inventory :: "flow_context \<Rightarrow> pending_order \<Rightarrow> checkout_fence \<Rightarrow> inventory_reservation list flow" where
  "reserve_inventory context' order fence = reserve_each context' order fence [] (po_lines order)"

definition INVENTORY_CONSUME_ATTEMPTS :: nat where "INVENTORY_CONSUME_ATTEMPTS = 3"

definition consume_payload :: "pending_order \<Rightarrow> inventory_reservation list \<Rightarrow> checkout_fence \<Rightarrow> json" where
  "consume_payload order holds fence =
     JObj [(''tenant_id'', JStr (po_tenant_id order)), (''checkout_request_id'', JStr (fence_request_id fence)),
           (''checkout_lease_token'', JStr (fence_token fence)),
           (''reservations'', JArr (map (\<lambda>reservation.
              JObj [(''reservation_id'', JStr (ir_reservation_id reservation)), (''sku'', JStr (ir_sku reservation)),
                    (''quantity'', JNum (uint (ir_quantity reservation))),
                    (''location_id'', json_opt_str (ir_location_id reservation))]) holds))]"

definition consume_protocol_error :: "string \<Rightarrow> api_error" where
  "consume_protocol_error message = ApiError 502 ''inventory_commit_protocol_error'' message"

definition is_retryable_inventory_consume_error :: "api_error \<Rightarrow> bool" where
  "is_retryable_inventory_consume_error e \<longleftrightarrow>
     ae_code e \<in> {''inventory_commit_unavailable'', ''inventory_commit_protocol_error''}"

definition in_usize :: "int \<Rightarrow> bool" where
  "in_usize n \<longleftrightarrow> 0 \<le> n \<and> n < 2 ^ 64"

definition consume_answer ::
  "(int \<Rightarrow> string) \<Rightarrow> pending_order \<Rightarrow> inventory_reservation list \<Rightarrow> int \<Rightarrow> string + json \<Rightarrow> api_error + unit" where
  "consume_answer status_text order holds status body =
     (let incomplete = consume_protocol_error ''inventory returned an incomplete consume payload'' in
      if \<not> is_success status then
        Inl (if 500 \<le> status \<and> status < 600 \<or> status = 429
          then ApiError 503 ''inventory_commit_unavailable'' (''inventory consume returned '' @ status_text status)
          else ApiError 409 ''inventory_commit_failed'' (''inventory consume returned '' @ status_text status))
      else
        and_then (map_err consume_protocol_error body) (\<lambda>body.
        case struct_fields [''tenant_id'', ''consumed'', ''reservation_count'', ''status''] body of
          None \<Rightarrow> Inl incomplete
        | Some get \<Rightarrow>
            (case (str_field get ''tenant_id'', num_field in_u32 get ''consumed'',
                   num_field in_usize get ''reservation_count'', str_field get ''status'') of
               (Some tenant_id, Some consumed, Some reservation_count, Some status) \<Rightarrow>
                 and_then (try_fold (\<lambda>total reservation.
                    ok_or (consume_protocol_error ''inventory consume quantity overflowed'')
                      (checked_u32 (total + uint (ir_quantity reservation)))) 0 holds) (\<lambda>expected_quantity.
                 let quantity_matches = (if status = ''consumed'' then consumed = expected_quantity
                       else if status = ''already_consumed'' then consumed = 0 else False) in
                 if tenant_id \<noteq> po_tenant_id order \<or> reservation_count \<noteq> int (length holds) \<or> \<not> quantity_matches
                   then Inl (consume_protocol_error ''inventory consume payload does not match the request'')
                 else Inr ())
             | _ \<Rightarrow> Inl incomplete)))"

definition consume_inventory_attempt ::
  "pending_order \<Rightarrow> inventory_reservation list \<Rightarrow> checkout_fence \<Rightarrow> unit flow" where
  "consume_inventory_attempt order holds fence =
     flow_then (send_inventory fence ''inventory_commit_unavailable'' ''consume'' (consume_payload order holds fence))
       (\<lambda>(status, body, status_text).
     flow_then (flow_assert fence) (\<lambda>_.
     flow_lift (consume_answer status_text order holds status body)))"

fun consume_attempts :: "nat \<Rightarrow> pending_order \<Rightarrow> inventory_reservation list \<Rightarrow> checkout_fence \<Rightarrow> unit flow" where
  "consume_attempts 0 order holds fence = (\<lambda>env s. (Inl Panic, s))"
| "consume_attempts (Suc k) order holds fence =
     flow_match (consume_inventory_attempt order holds fence) (\<lambda>result.
     case result of
       Inr _ \<Rightarrow> flow_return ()
     | Inl error \<Rightarrow> if k > 0 \<and> is_retryable_inventory_consume_error error
         then consume_attempts k order holds fence else flow_fail error)"

definition consume_inventory :: "pending_order \<Rightarrow> inventory_reservation list \<Rightarrow> checkout_fence \<Rightarrow> unit flow" where
  "consume_inventory order holds fence = consume_attempts INVENTORY_CONSUME_ATTEMPTS order holds fence"

end
