(* ===== verification/CheckoutRun.thy ===== *)
theory CheckoutRun
  imports CheckoutSaga
begin

text \<open>
  The use cases of checkout: \<open>checkout_flow\<close> and \<open>checkout_inner\<close> (\<open>application.rs\<close>) for a request,
  \<open>reconcile_pending_payment\<close> with \<open>process_one_payment_reconciliation\<close> and \<open>process_compensation_task\<close> with
  \<open>process_one_compensation\<close> (\<open>infrastructure.rs\<close>) for the workers. \<open>fe_context env v\<close> is the request's context
  with the feature variant \<open>v\<close> in its baggage, \<open>fe_extract\<close> the propagator of the library.
\<close>

subsection \<open>Recommendation\<close>

definition recommendation_query_component :: "string \<Rightarrow> string" where
  "recommendation_query_component value' =
     concat (map (\<lambda>c. if is_ascii_alphanumeric c \<or> c \<in> {CHR ''-'', CHR ''.'', CHR ''_'', CHR ''~''} then [c]
       else [CHR ''%'', hex_char (byte c div 16), hex_char (byte c mod 16)]) value')"

definition validate_recommendation_tenant :: "json \<Rightarrow> string \<Rightarrow> api_error + unit" where
  "validate_recommendation_tenant body tenant_id =
     (if Option.bind (json_get body ''tenant_id'') json_as_str \<noteq> Some tenant_id
      then Inl (ApiError 502 ''recommendation_protocol_error'' ''recommendation response tenant does not match the order'')
      else Inr ())"

definition recommendation_answer :: "(int \<Rightarrow> string) \<Rightarrow> string \<Rightarrow> http_reply \<Rightarrow> api_error + json" where
  "recommendation_answer status_text tenant_id reply =
     (case reply of
        Http_failed error \<Rightarrow> Inl (ApiError 503 ''recommendation_unavailable'' error)
      | Http_reply status body \<Rightarrow>
          if \<not> is_success status
            then Inl (ApiError 503 ''recommendation_unavailable'' (''recommendation returned '' @ status_text status))
          else
            and_then (map_err (ApiError 502 ''recommendation_protocol_error'') body) (\<lambda>body.
            and_then (validate_recommendation_tenant body tenant_id) (\<lambda>_. Inr body)))"

definition recommendation :: "string \<Rightarrow> string \<Rightarrow> string \<Rightarrow> json flow" where
  "recommendation tenant_id segment sku =
     (let path = ''/recommend?sku='' @ recommendation_query_component sku @ ''&tenant_id=''
            @ recommendation_query_component tenant_id @ ''&segment='' @ recommendation_query_component segment in
      flow_then (flow_call (\<lambda>env n. (fe_recommendation env n path, fe_status_text env))
         (\<lambda>(reply, _). Recommend_call path reply)) (\<lambda>(reply, status_text).
      flow_lift (recommendation_answer status_text tenant_id reply)))"

definition checkout_variant_includes_recommendation :: "string \<Rightarrow> bool" where
  "checkout_variant_includes_recommendation variant \<longleftrightarrow> variant \<noteq> ''control''"

subsection \<open>Undoing\<close>

text \<open>The tail the three failure branches share: undo the payment, then cancel what is fully undone.\<close>

definition undo_payment ::
  "flow_context \<Rightarrow> pending_order \<Rightarrow> string \<Rightarrow> string \<Rightarrow> checkout_fence \<Rightarrow> bool \<Rightarrow> unit flow" where
  "undo_payment context' order payment_id request_id fence inventory_compensated =
     flow_then (enqueue_payment_compensation_task order payment_id request_id context' fence) (\<lambda>_.
     flow_then (compensate_payment_with_fence order payment_id request_id fence) (\<lambda>payment_compensated.
     flow_then (if payment_compensated then flow_resolve order (payment_compensation_task_key payment_id) fence
        else flow_return ()) (\<lambda>_.
     if inventory_compensated \<and> payment_compensated then flow_cancel_if_compensated order fence else flow_return ())))"

definition undo_all ::
  "flow_context \<Rightarrow> pending_order \<Rightarrow> inventory_reservation list \<Rightarrow> string \<Rightarrow> string \<Rightarrow> checkout_fence \<Rightarrow> unit flow" where
  "undo_all context' order holds payment_id request_id fence =
     flow_match (release_inventory_with_recovery context' order holds fence) (\<lambda>released.
     undo_payment context' order payment_id request_id fence (is_ok released))"

subsection \<open>The flow\<close>

definition lost :: "api_error \<Rightarrow> bool" where
  "lost e \<longleftrightarrow> ae_code e = ''checkout_lease_lost''"

definition post_consume_error :: "string \<Rightarrow> api_error" where
  "post_consume_error message = ApiError 503 ''checkout_post_consume_reconciliation'' message"

definition degraded_json :: "pending_order \<Rightarrow> json list \<Rightarrow> quote_msg \<Rightarrow> api_error \<Rightarrow> json" where
  "degraded_json order catalog quote error =
     JObj [(''status'', JStr ''degraded''), (''order_id'', JStr (po_id order)), (''catalog'', JArr catalog),
           (''quote'', quote_json quote),
           (''payment'', JObj [(''status'', JStr ''unavailable''), (''error'', JStr (ae_code error))]),
           (''payment_status'', JStr ''unavailable'')]"

definition order_fields :: "pending_order \<Rightarrow> (string \<times> json) list" where
  "order_fields order =
     [(''order_id'', JStr (po_id order)), (''order_number'', JStr (po_order_number order)),
      (''tenant_id'', JStr (po_tenant_id order)), (''customer_id'', JStr (po_customer_id order)),
      (''currency'', JStr (po_currency order))]"

definition unknown_payment_json :: "pending_order \<Rightarrow> string \<Rightarrow> json list \<Rightarrow> quote_msg \<Rightarrow> json" where
  "unknown_payment_json order variant catalog quote =
     JObj ([(''status'', JStr ''payment_pending''), (''order_status'', JStr ''pending'')] @ order_fields order
       @ [(''total_minor'', JNum (po_total_minor order)), (''payment_id'', JNull), (''payment_status'', JStr ''unknown''),
          (''payment_operation_status'', JStr (operation_status_name Op_unspecified)),
          (''payment_failure_reason'', JStr (failure_reason_name Reason_provider_unavailable)),
          (''payment_reconciliation'', JStr ''pending''), (''degraded'', JBool True), (''feature_variant'', JStr variant),
          (''catalog'', JArr catalog), (''quote'', quote_json quote)])"

definition pending_payment_json :: "pending_order \<Rightarrow> payment_authorization \<Rightarrow> string \<Rightarrow> json list \<Rightarrow> quote_msg \<Rightarrow> json" where
  "pending_payment_json order authorization variant catalog quote =
     JObj ([(''status'', JStr ''payment_pending''), (''order_status'', JStr ''pending'')] @ order_fields order
       @ [(''total_minor'', JNum (po_total_minor order)), (''payment_id'', JStr (pa_payment_id authorization)),
          (''payment_status'', JStr ''pending''),
          (''payment_operation_status'', JStr (operation_status_name (pa_operation_status authorization))),
          (''payment_failure_reason'', JStr (failure_reason_name (pa_failure_reason authorization))),
          (''feature_variant'', JStr variant), (''catalog'', JArr catalog), (''quote'', quote_json quote)])"

definition paid_json :: "pending_order \<Rightarrow> string \<Rightarrow> string \<Rightarrow> json list \<Rightarrow> quote_msg \<Rightarrow> json \<Rightarrow> json" where
  "paid_json order payment_id variant catalog quote recommended =
     JObj ([(''status'', JStr ''paid'')] @ order_fields order
       @ [(''subtotal_minor'', JNum (po_subtotal_minor order)), (''discount_minor'', JNum (po_discount_minor order)),
          (''total_minor'', JNum (po_total_minor order)), (''payment_id'', JStr payment_id),
          (''payment_status'', JStr ''captured''), (''event_key'', JStr (po_id order @ '':paid'')),
          (''feature_variant'', JStr variant), (''catalog'', JArr catalog), (''quote'', quote_json quote),
          (''recommendation'', recommended)])"

text \<open>The facts of one request the phases share.\<close>

record flow_request =
  fr_input :: checkout_input
  fr_lease :: checkout_lease
  fr_token :: string
  fr_method :: string
  fr_variant :: string
  fr_context :: flow_context
  fr_catalog :: "json list"
  fr_quote :: quote_msg
  fr_order :: pending_order

definition fr_fence :: "flow_request \<Rightarrow> checkout_fence" where
  "fr_fence req = Attempt (fr_lease req)"

definition fr_request_id :: "flow_request \<Rightarrow> string" where
  "fr_request_id req = cl_request_id (fr_lease req)"

definition recover_later :: "flow_request \<Rightarrow> string option \<Rightarrow> api_error \<Rightarrow> 'a flow" where
  "recover_later req payment_id error =
     flow_then (flow_queue_recovery (fr_order req) (fr_lease req) payment_id (fr_method req) (fr_variant req) (fr_context req))
       (\<lambda>_. flow_fail error)"

definition register_open :: "flow_request \<Rightarrow> string option \<Rightarrow> unit flow" where
  "register_open req payment_id =
     flow_register (fr_order req) (fr_lease req) payment_id (fr_method req) (fr_variant req) (fr_context req)"

text \<open>\<open>Inl\<close> is an early answer.\<close>

definition authorization_phase :: "flow_request \<Rightarrow> (json + payment_authorization) flow" where
  "authorization_phase req =
     flow_match (flow_fenced (fr_fence req)
        (authorize_payment (fr_order req) (fr_request_id req) (fr_token req) (fr_method req))) (\<lambda>authorized.
     case authorized of
       Inr authorization \<Rightarrow> flow_return (Inr authorization)
     | Inl error \<Rightarrow>
         if lost error then recover_later req None error
         else if \<not> is_ambiguous_payment_failure error then
           flow_then (flow_cancel (fr_order req) (fr_fence req)) (\<lambda>_. flow_fail error)
         else
           flow_match (flow_fenced (fr_fence req) (recover_authorization (fr_context req) (fr_order req)
              (fr_request_id req) (fr_token req) (fr_method req) (fr_fence req))) (\<lambda>recovery.
           case recovery of
             Inr (Recovered authorization) \<Rightarrow> flow_return (Inr authorization)
           | Inr Recovery_absent \<Rightarrow>
               flow_then (flow_cancel (fr_order req) (fr_fence req)) (\<lambda>_.
               if in_degrade (fr_input req)
                 then flow_return (Inl (degraded_json (fr_order req) (fr_catalog req) (fr_quote req) error))
               else flow_fail error)
           | Inr Recovery_pending \<Rightarrow>
               flow_then (register_open req None) (\<lambda>_.
               if in_degrade (fr_input req)
                 then flow_return (Inl (unknown_payment_json (fr_order req) (fr_variant req) (fr_catalog req) (fr_quote req)))
               else flow_fail (payment_reconciliation_error ''payment authorization outcome is not yet observable''))
           | Inr (Recovery_failed recovery_error) \<Rightarrow>
               flow_then (flow_cancel (fr_order req) (fr_fence req)) (\<lambda>_. flow_fail recovery_error)
           | Inl _ \<Rightarrow> flow_fail error))"

definition reservation_phase :: "flow_request \<Rightarrow> string \<Rightarrow> inventory_reservation list flow" where
  "reservation_phase req payment_id =
     flow_match (reserve_inventory (fr_context req) (fr_order req) (fr_fence req)) (\<lambda>reserved.
     case reserved of
       Inr holds \<Rightarrow> flow_return holds
     | Inl error \<Rightarrow>
         if lost error then recover_later req (Some payment_id) error
         else
           flow_then (undo_payment (fr_context req) (fr_order req) payment_id (fr_request_id req) (fr_fence req) True) (\<lambda>_.
           flow_fail error))"

definition capture_phase :: "flow_request \<Rightarrow> string \<Rightarrow> inventory_reservation list \<Rightarrow> unit flow" where
  "capture_phase req payment_id holds =
     flow_match (flow_fenced (fr_fence req) (capture_payment (fr_order req) payment_id (fr_request_id req))) (\<lambda>captured.
     case captured of
       Inr _ \<Rightarrow> flow_return ()
     | Inl error \<Rightarrow>
         if lost error then recover_later req (Some payment_id) error
         else
           flow_then (undo_all (fr_context req) (fr_order req) holds payment_id (fr_request_id req) (fr_fence req)) (\<lambda>_.
           flow_fail error))"

definition consume_phase :: "flow_request \<Rightarrow> string \<Rightarrow> inventory_reservation list \<Rightarrow> unit flow" where
  "consume_phase req payment_id holds =
     flow_match (consume_inventory (fr_order req) holds (fr_fence req)) (\<lambda>consumed.
     case consumed of
       Inr _ \<Rightarrow> flow_return ()
     | Inl error \<Rightarrow>
         if lost error then recover_later req (Some payment_id) error
         else if is_retryable_inventory_consume_error error then
           flow_then (register_open req (Some payment_id)) (\<lambda>_.
           flow_fail (post_consume_error
             ''inventory consume outcome is ambiguous; durable checkout reconciliation is queued''))
         else
           flow_then (undo_all (fr_context req) (fr_order req) holds payment_id (fr_request_id req) (fr_fence req)) (\<lambda>_.
           flow_fail error))"

definition finalization_known :: "pending_order \<Rightarrow> bool flow" where
  "finalization_known order =
     flow_match (flow_finalization_committed order) (\<lambda>result.
     case result of
       Inr committed \<Rightarrow> flow_return committed
     | Inl error \<Rightarrow> if ae_code error = ''finalization_reconciliation_pending'' then flow_return False else flow_fail error)"

definition finalize_phase :: "flow_request \<Rightarrow> string \<Rightarrow> unit flow" where
  "finalize_phase req payment_id =
     flow_match (flow_finalize (fr_context req) (fr_order req) payment_id (fr_variant req) (fr_fence req)) (\<lambda>finalized.
     case finalized of
       Inr _ \<Rightarrow> flow_return ()
     | Inl error \<Rightarrow>
         if lost error then recover_later req (Some payment_id) error
         else
           flow_then (finalization_known (fr_order req)) (\<lambda>committed.
           if committed then flow_return ()
           else
             flow_then (register_open req (Some payment_id)) (\<lambda>_.
             flow_fail (post_consume_error
               ''inventory is already consumed; durable order finalization reconciliation is queued''))))"

definition answer_phase :: "flow_request \<Rightarrow> string \<Rightarrow> json flow" where
  "answer_phase req payment_id =
     flow_then (if \<not> checkout_variant_includes_recommendation (fr_variant req) then flow_return JNull
        else flow_match (recommendation (po_tenant_id (fr_order req)) (in_segment (fr_input req))
               (ci_sku (hd (in_items (fr_input req))))) (\<lambda>result.
             flow_return (case result of Inr body \<Rightarrow> body | Inl error \<Rightarrow> JObj [(''error'', JStr (ae_message error))])))
       (\<lambda>recommended.
     flow_return (paid_json (fr_order req) payment_id (fr_variant req) (fr_catalog req) (fr_quote req) recommended))"

definition settle_phases :: "flow_request \<Rightarrow> string \<Rightarrow> json flow" where
  "settle_phases req payment_id =
     flow_then (reservation_phase req payment_id) (\<lambda>holds.
     flow_then (capture_phase req payment_id holds) (\<lambda>_.
     flow_then (consume_phase req payment_id holds) (\<lambda>_.
     flow_then (finalize_phase req payment_id) (\<lambda>_.
     answer_phase req payment_id))))"

definition payment_phases :: "flow_request \<Rightarrow> json flow" where
  "payment_phases req =
     flow_then (authorization_phase req) (\<lambda>outcome.
     case outcome of
       Inl answer \<Rightarrow> flow_return answer
     | Inr authorization \<Rightarrow>
         if pa_operation_status authorization = Op_pending then
           flow_then (register_open req (Some (pa_payment_id authorization))) (\<lambda>_.
           flow_return (pending_payment_json (fr_order req) authorization (fr_variant req) (fr_catalog req) (fr_quote req)))
         else settle_phases req (pa_payment_id authorization))"

text \<open>The items are not empty here (\<open>validate_input\<close>); indexing an empty vector would panic.\<close>

definition checkout_flow :: "checkout_input \<Rightarrow> checkout_lease \<Rightarrow> json flow" where
  "checkout_flow input lease =
     flow_then (flow_lift (require_payment_credentials input)) (\<lambda>(token, method').
     flow_then (flow_assert (Attempt lease)) (\<lambda>_.
     flow_then (\<lambda>env s. (Inr (fe_variant env, fe_context env (fe_variant env)), s)) (\<lambda>(variant, context').
     flow_then (validate_catalog input) (\<lambda>catalog.
     flow_then (quote_with_retry input (cl_request_id lease) variant) (\<lambda>quote.
     flow_then (flow_create_order input quote lease) (\<lambda>order.
     payment_phases \<lparr>fr_input = input, fr_lease = lease, fr_token = token, fr_method = method', fr_variant = variant,
       fr_context = context', fr_catalog = catalog, fr_quote = quote, fr_order = order\<rparr>))))))"

end
