(* ===== verification/CheckoutEntry.thy ===== *)
theory CheckoutEntry
  imports CheckoutRun
begin

text \<open>
  The entry points around the saga: \<open>checkout_inner\<close>, which claims the attempt, runs the flow and records its
  answer, and the two workers, which take up what a flow left open.
\<close>

subsection \<open>checkout_inner\<close>

definition flow_claim :: "string \<Rightarrow> string \<Rightarrow> string \<Rightarrow> checkout_attempt_claim flow" where
  "flow_claim tenant_id request_id fingerprint = flow_db ''claim_checkout_attempt'' (\<lambda>env n db.
     case claim_checkout_attempt (fe_pg env) (fe_pool env n) (fe_now env n) (fe_uuid env n 0) (fe_uuid env n 1)
            tenant_id request_id fingerprint (core db) of
       (r, c) \<Rightarrow> (r, db\<lparr>core := c\<rparr>))"

definition flow_wake :: "string \<Rightarrow> string \<Rightarrow> unit flow" where
  "flow_wake tenant_id request_id = flow_core ''wake_payment_reconciliation'' (\<lambda>env n.
     wake_payment_reconciliation (fe_pg env) (fe_pool env n) (fe_now env n) tenant_id request_id)"

definition flow_record_response :: "checkout_lease \<Rightarrow> string \<Rightarrow> string option \<Rightarrow> json \<Rightarrow> unit flow" where
  "flow_record_response lease status order_id payload = flow_core ''record_checkout_response'' (\<lambda>env n.
     record_checkout_response (fe_pg env) (fe_pool env n) (fe_now env n) (cl_tenant_id lease) (cl_request_id lease)
       (cl_token lease) status order_id payload)"

definition flow_record_failure :: "checkout_lease \<Rightarrow> api_error \<Rightarrow> unit flow" where
  "flow_record_failure lease error = flow_core ''record_checkout_failure'' (\<lambda>env n.
     record_checkout_failure (fe_pg env) (fe_pool env n) (fe_now env n) (cl_tenant_id lease) (cl_request_id lease)
       (cl_token lease) error)"

definition attempt_status_for :: "json \<Rightarrow> string" where
  "attempt_status_for payload =
     (let status = Option.bind (json_get payload ''status'') json_as_str in
      if status = Some ''payment_pending'' then ''pending'' else if status = Some ''degraded'' then ''degraded''
      else if status = Some ''paid'' then ''paid'' else ''failed'')"

definition record_answer :: "checkout_lease \<Rightarrow> api_error + json \<Rightarrow> json flow" where
  "record_answer lease result =
     (case result of
        Inr payload \<Rightarrow>
          let status = attempt_status_for payload in
          flow_then (flow_record_response lease status (Option.bind (json_get payload ''order_id'') json_as_str) payload) (\<lambda>_.
          flow_then (if status = ''pending'' then flow_wake (cl_tenant_id lease) (cl_request_id lease) else flow_return ()) (\<lambda>_.
          flow_return payload))
      | Inl error \<Rightarrow>
          flow_match (flow_record_failure lease error) (\<lambda>recorded.
          case recorded of
            Inl record_error \<Rightarrow>
              if \<not> lost record_error then flow_fail record_error
              else flow_then (if ae_code error = ''checkout_post_consume_reconciliation''
                 then flow_wake (cl_tenant_id lease) (cl_request_id lease) else flow_return ()) (\<lambda>_. flow_fail error)
          | Inr _ \<Rightarrow>
              flow_then (if ae_code error = ''checkout_post_consume_reconciliation''
                 then flow_wake (cl_tenant_id lease) (cl_request_id lease) else flow_return ()) (\<lambda>_. flow_fail error)))"

definition checkout_inner :: "baggage_lookup \<Rightarrow> checkout_input \<Rightarrow> json flow" where
  "checkout_inner baggage input = (\<lambda>env.
     let request_id = (case nonblank_opt (in_request_id input) of
           None \<Rightarrow> ''checkout-'' @ fe_request_uuid env | Some r \<Rightarrow> r) in
     flow_then (flow_lift (resolve_checkout_identity baggage (in_tenant_id input) (in_session_id input)
        (''session-'' @ request_id))) (\<lambda>(tenant_id, session_id).
     let input' = input\<lparr>in_tenant_id := tenant_id, in_session_id := Some session_id, in_request_id := Some request_id\<rparr> in
     flow_then (flow_lift (validate_input input')) (\<lambda>_.
     flow_then (flow_lift (require_payment_credentials input')) (\<lambda>_.
     flow_then (flow_claim tenant_id request_id
        (checkout_request_fingerprint (fe_sha256_hex env) (fe_print env) input')) (\<lambda>claim.
     case claim of
       New token \<Rightarrow>
         let lease = \<lparr>cl_tenant_id = tenant_id, cl_request_id = request_id, cl_token = token\<rparr> in
         flow_match (checkout_flow input' lease) (record_answer lease)
     | Pending payload \<Rightarrow> flow_then (flow_wake tenant_id request_id) (\<lambda>_. flow_return payload)
     | Replay payload \<Rightarrow> flow_return payload
     | InProgress \<Rightarrow> flow_fail (ApiError 409 ''checkout_in_progress'' ''request_id is already being processed'')
     | Failed error \<Rightarrow> flow_fail error)))) env)"

subsection \<open>Stored carriers\<close>

definition stored_invalid :: "string \<Rightarrow> api_error" where
  "stored_invalid message = ApiError 500 ''stored_propagation_invalid'' message"

definition insert_w3c_header ::
  "(string \<Rightarrow> string + string) \<Rightarrow> string \<Rightarrow> string option \<Rightarrow> header_map \<Rightarrow> api_error + header_map" where
  "insert_w3c_header from_str key value' headers =
     and_then (ok_or (stored_invalid (''stored propagation field '' @ key @ '' is missing''))
        (case value' of None \<Rightarrow> None | Some v \<Rightarrow> if v = [] then None else Some v)) (\<lambda>v.
     and_then (map_err (\<lambda>error. stored_invalid (''stored propagation field '' @ key @ '' is invalid: '' @ error))
        (from_str v)) (\<lambda>v.
     Inr (headers(key := [v]))))"

definition stored_carrier_context ::
  "flow_env \<Rightarrow> string option \<Rightarrow> string option \<Rightarrow> string option \<Rightarrow> api_error + flow_context" where
  "stored_carrier_context env traceparent tracestate baggage =
     and_then (insert_w3c_header (fe_header_value env) ''traceparent'' traceparent (\<lambda>_. [])) (\<lambda>h1.
     and_then (insert_w3c_header (fe_header_value env) ''tracestate'' tracestate h1) (\<lambda>h2.
     and_then (insert_w3c_header (fe_header_value env) ''baggage'' baggage h2) (\<lambda>h3.
     and_then (map_err stored_invalid (validate_durable_context (fe_to_str env) h3)) (\<lambda>_.
     Inr (fe_extract env h3)))))"

definition stored_reconciliation_context :: "payment_reconciliation_job \<Rightarrow> flow_context flow" where
  "stored_reconciliation_context job = (\<lambda>env.
     flow_lift (stored_carrier_context env (pj_traceparent job) (pj_tracestate job) (pj_baggage job)) env)"

definition stored_compensation_context :: "compensation_task \<Rightarrow> flow_context flow" where
  "stored_compensation_context task = (\<lambda>env.
     flow_lift (stored_carrier_context env (tk_traceparent task) (tk_tracestate task) (tk_baggage task)) env)"

subsection \<open>reconcile_pending_payment\<close>

datatype pending_payment_outcome = Outcome_retry | Outcome_completed json | Outcome_failed api_error

definition flow_observe :: "payment_reconciliation_job \<Rightarrow> payment_snapshot \<Rightarrow> unit flow" where
  "flow_observe job snapshot = flow_core ''record_payment_reconciliation_observation'' (\<lambda>env n.
     record_payment_reconciliation_observation (fe_pg env) (fe_pool env n) (fe_now env n) job
       (payment_status_name (sn_status snapshot))
       (operation_status_name (reconciliation_operation_status (sn_status snapshot)))
       (failure_reason_name (sn_failure_reason snapshot)))"

fun json_insert :: "string \<Rightarrow> json \<Rightarrow> (string \<times> json) list \<Rightarrow> (string \<times> json) list" where
  "json_insert k v [] = [(k, v)]"
| "json_insert k v ((k', v') # kvs) = (if k' = k then (k, v) # kvs else (k', v') # json_insert k v kvs)"

definition reconciled_fields :: "payment_reconciliation_job \<Rightarrow> pending_order \<Rightarrow> string \<Rightarrow> (string \<times> json) list" where
  "reconciled_fields job order payment_id =
     [(''status'', JStr ''paid''), (''order_status'', JStr ''paid''), (''payment_id'', JStr payment_id),
      (''payment_status'', JStr ''captured''),
      (''payment_operation_status'', JStr (operation_status_name Op_succeeded)),
      (''payment_failure_reason'', JStr (failure_reason_name Reason_unspecified)),
      (''feature_variant'', JStr (pj_feature_variant job)), (''event_key'', JStr (po_id order @ '':paid''))]"

definition reconciled_payload :: "payment_reconciliation_job \<Rightarrow> pending_order \<Rightarrow> string \<Rightarrow> json option \<Rightarrow> json" where
  "reconciled_payload job order payment_id stored =
     (case (case stored of
          Some payload \<Rightarrow> payload
        | None \<Rightarrow> JObj [(''order_id'', JStr (po_id order)), (''order_number'', JStr (po_order_number order)),
            (''tenant_id'', JStr (po_tenant_id order)), (''customer_id'', JStr (po_customer_id order)),
            (''session_id'', JStr (po_session_id order)), (''currency'', JStr (po_currency order)),
            (''total_minor'', JNum (po_total_minor order)), (''items'', JArr (map line_json (po_lines order)))]) of
        JObj kvs \<Rightarrow> JObj (fold (\<lambda>(k, v). json_insert k v) (reconciled_fields job order payment_id) kvs)
      | payload \<Rightarrow> payload)"

definition paid_reconciliation_payload :: "payment_reconciliation_job \<Rightarrow> pending_order \<Rightarrow> string \<Rightarrow> json flow" where
  "paid_reconciliation_payload job order payment_id =
     flow_then (flow_read ''paid_reconciliation_payload'' (\<lambda>env n db.
        and_then (acquire_db (fe_pool env n)) (\<lambda>_.
        and_then (map_err (db_error (fe_pg env)) (query_opt (filter (\<lambda>a. at_tenant a = pj_tenant_id job
           \<and> at_request a = pj_request_id job \<and> at_order_id a = Some (po_id order)) (attempts (core db))))) (\<lambda>row.
        Inr (Option.bind row at_response_payload))))) (\<lambda>stored.
     flow_return (reconciled_payload job order payment_id stored))"

definition reconcile_captured_payment_failure ::
  "flow_context \<Rightarrow> pending_order \<Rightarrow> string \<Rightarrow> string \<Rightarrow> checkout_fence \<Rightarrow> api_error \<Rightarrow> pending_payment_outcome flow" where
  "reconcile_captured_payment_failure context' order payment_id request_id fence error =
     flow_then (enqueue_payment_compensation_task order payment_id request_id context' fence) (\<lambda>_.
     flow_then (compensate_payment_with_fence order payment_id request_id fence) (\<lambda>done'.
     if \<not> done' then flow_fail (payment_reconciliation_error ''captured payment compensation is not yet confirmed'')
     else
       flow_then (flow_resolve order (payment_compensation_task_key payment_id) fence) (\<lambda>_.
       flow_then (flow_cancel_if_compensated order fence) (\<lambda>_.
       flow_return (Outcome_failed error)))))"

definition finish_captured ::
  "payment_reconciliation_job \<Rightarrow> flow_context \<Rightarrow> pending_order \<Rightarrow> string \<Rightarrow> checkout_fence \<Rightarrow> pending_payment_outcome flow" where
  "finish_captured job context' order payment_id fence =
     flow_match (reserve_inventory context' order fence) (\<lambda>reserved.
     case reserved of
       Inl error \<Rightarrow> if lost error then flow_fail error
         else reconcile_captured_payment_failure context' order payment_id (pj_request_id job) fence error
     | Inr holds \<Rightarrow>
         flow_match (consume_inventory order holds fence) (\<lambda>consumed.
         case consumed of
           Inl error \<Rightarrow>
             if lost error then flow_fail error
             else
               flow_match (release_inventory_with_recovery context' order holds fence) (\<lambda>_.
               reconcile_captured_payment_failure context' order payment_id (pj_request_id job) fence error)
         | Inr _ \<Rightarrow>
             flow_match (flow_finalize context' order payment_id (pj_feature_variant job) fence) (\<lambda>finalized.
             case finalized of
               Inl error \<Rightarrow>
                 if lost error then flow_fail error
                 else
                   flow_then (finalization_known order) (\<lambda>committed.
                   if committed then
                     flow_then (paid_reconciliation_payload job order payment_id) (\<lambda>payload.
                     flow_return (Outcome_completed payload))
                   else flow_fail error)
             | Inr _ \<Rightarrow>
                 flow_then (paid_reconciliation_payload job order payment_id) (\<lambda>payload.
                 flow_return (Outcome_completed payload)))))"

definition settle_if_captured ::
  "payment_reconciliation_job \<Rightarrow> flow_context \<Rightarrow> pending_order \<Rightarrow> string \<Rightarrow> checkout_fence \<Rightarrow> payment_snapshot
     \<Rightarrow> pending_payment_outcome flow" where
  "settle_if_captured job context' order payment_id fence snapshot =
     (if sn_status snapshot \<noteq> Pay_captured \<or> sn_captured_minor snapshot \<noteq> po_total_minor order
         \<or> sn_refunded_minor snapshot \<noteq> 0
        then flow_return (Outcome_failed (payment_reconciliation_error
               ''payment capture did not settle the exact checkout amount''))
      else finish_captured job context' order payment_id fence)"

definition reconcile_snapshot ::
  "payment_reconciliation_job \<Rightarrow> flow_context \<Rightarrow> pending_order \<Rightarrow> string \<Rightarrow> checkout_fence \<Rightarrow> payment_snapshot
     \<Rightarrow> pending_payment_outcome flow" where
  "reconcile_snapshot job context' order payment_id fence snapshot =
     (case sn_status snapshot of
        Pay_pending \<Rightarrow> flow_return Outcome_retry
      | Pay_failed \<Rightarrow> flow_return (Outcome_failed (payment_operation_error ''payment authorization''
          (authorization_failure_status (sn_failure_reason snapshot)) (sn_failure_reason snapshot)))
      | Pay_voided \<Rightarrow> flow_return (Outcome_failed (payment_reconciliation_error
          ''payment authorization was voided or refunded before checkout completed''))
      | Pay_refunded \<Rightarrow> flow_return (Outcome_failed (payment_reconciliation_error
          ''payment authorization was voided or refunded before checkout completed''))
      | Pay_partially_refunded \<Rightarrow> flow_return (Outcome_failed (payment_reconciliation_error
          ''payment authorization has a partial refund and cannot complete checkout''))
      | Pay_unspecified \<Rightarrow> flow_fail (payment_reconciliation_error
          ''payment reconciliation returned an unspecified state'')
      | Pay_captured \<Rightarrow> settle_if_captured job context' order payment_id fence snapshot
      | Pay_authorized \<Rightarrow>
          if sn_captured_minor snapshot < po_total_minor order then
            flow_then (flow_fenced fence (capture_payment order payment_id (pj_request_id job))) (\<lambda>_.
            flow_then (flow_fenced fence (get_payment_snapshot order payment_id)) (\<lambda>snapshot'.
            flow_then (flow_observe job snapshot') (\<lambda>_.
            if sn_status snapshot' \<in> {Pay_pending, Pay_authorized} then flow_return Outcome_retry
            else settle_if_captured job context' order payment_id fence snapshot')))
          else settle_if_captured job context' order payment_id fence snapshot)"

definition reconcile_payment_id ::
  "payment_reconciliation_job \<Rightarrow> flow_context \<Rightarrow> pending_order \<Rightarrow> string \<Rightarrow> pending_payment_outcome flow" where
  "reconcile_payment_id job context' order payment_id =
     flow_then (if pj_payment_id job \<noteq> Some payment_id
        then flow_core ''attach_payment_to_reconciliation'' (\<lambda>env n.
          attach_payment_to_reconciliation (fe_pg env) (fe_pool env n) (fe_now env n) job payment_id)
        else flow_return ()) (\<lambda>_.
     flow_then (flow_fenced (job_fence job) (get_payment_snapshot order payment_id)) (\<lambda>snapshot.
     flow_then (flow_observe job snapshot) (\<lambda>_.
     reconcile_snapshot job context' order payment_id (job_fence job) snapshot)))"

definition job_identity_ok :: "payment_reconciliation_job \<Rightarrow> bool" where
  "job_identity_ok job \<longleftrightarrow> pj_status job = ''processing''
     \<and> pj_authorize_request_id job = pj_request_id job @ '':authorize''
     \<and> pj_method_type job \<in> {''card'', ''bank_account'', ''wallet'', ''unspecified''}"

definition reconcile_pending_payment :: "payment_reconciliation_job \<Rightarrow> pending_payment_outcome flow" where
  "reconcile_pending_payment job =
     (if \<not> job_identity_ok job
        then flow_return (Outcome_failed (payment_reconciliation_error ''payment reconciliation job identity is invalid''))
      else
        flow_then (flow_assert (job_fence job)) (\<lambda>_.
        flow_then (flow_read ''load_pending_order'' (\<lambda>env n. load_pending_order (fe_pg env) (fe_pool env n) (fe_tie env)
           (pj_tenant_id job) (pj_order_id job))) (\<lambda>order.
        if po_currency order \<noteq> pj_currency job \<or> po_total_minor order \<noteq> pj_amount_minor job
           \<or> pj_merchant_reference job \<noteq> po_id order
          then flow_return (Outcome_failed (payment_reconciliation_error
                 ''payment reconciliation job does not match its order''))
        else
          flow_then (stored_reconciliation_context job) (\<lambda>context'.
          flow_then (case pj_payment_id job of
              Some payment_id \<Rightarrow> flow_return (Some payment_id)
            | None \<Rightarrow> flow_read ''lookup_authorization_payment_id'' (\<lambda>env n.
                lookup_authorization_payment_id (fe_pg env) (fe_pool env n) order (pj_request_id job))) (\<lambda>found.
          case found of
            None \<Rightarrow> flow_return Outcome_retry
          | Some payment_id \<Rightarrow> reconcile_payment_id job context' order payment_id)))))"

subsection \<open>The workers\<close>

definition flow_reschedule :: "payment_reconciliation_job \<Rightarrow> api_error option \<Rightarrow> unit flow" where
  "flow_reschedule job error = flow_core ''reschedule_payment_reconciliation'' (\<lambda>env n.
     reschedule_payment_reconciliation (fe_pg env) (fe_pool env n) (fe_now env n) job error)"

definition settle_reconciliation ::
  "payment_reconciliation_job \<Rightarrow> api_error + pending_payment_outcome \<Rightarrow> unit flow" where
  "settle_reconciliation job result =
     (case result of
        Inr Outcome_retry \<Rightarrow> flow_reschedule job None
      | Inr (Outcome_completed payload) \<Rightarrow> flow_core ''complete_payment_reconciliation'' (\<lambda>env n.
          complete_payment_reconciliation (fe_pg env) (fe_pool env n) (fe_now env n) job payload)
      | Inr (Outcome_failed error) \<Rightarrow> flow_core ''fail_payment_reconciliation'' (\<lambda>env n.
          fail_payment_reconciliation (fe_pg env) (fe_pool env n) (fe_now env n) job error)
      | Inl error \<Rightarrow> if lost error then flow_return () else flow_reschedule job (Some error))"

definition process_one_payment_reconciliation :: "bool flow" where
  "process_one_payment_reconciliation =
     flow_then (flow_core ''reclaim_exhausted_payment_reconciliation'' (\<lambda>env n.
        reclaim_exhausted_payment_reconciliation (fe_pg env) (fe_pool env n) (fe_now env n))) (\<lambda>reclaimed.
     if reclaimed then flow_return True
     else
       flow_then (flow_core ''claim_payment_reconciliation'' (\<lambda>env n.
          claim_payment_reconciliation (fe_pg env) (fe_pool env n) (fe_locked_recon env n) (fe_now env n) (fe_uuid env n 0))) (\<lambda>claimed.
       case claimed of
         None \<Rightarrow> flow_return False
       | Some job \<Rightarrow>
           flow_then (stored_reconciliation_context job) (\<lambda>_.
           flow_match (reconcile_pending_payment job) (\<lambda>result.
           flow_then (settle_reconciliation job result) (\<lambda>_.
           flow_return True)))))"

definition task_missing :: "string \<Rightarrow> api_error" where
  "task_missing message = ApiError 500 ''compensation_persistence_failed'' message"

definition flow_task_fence :: "compensation_task \<Rightarrow> checkout_fence flow" where
  "flow_task_fence task = flow_read ''compensation_fence'' (\<lambda>env n db.
     compensation_fence (fe_pg env) (fe_pool env n) (fe_now env n) task (core db))"

definition flow_task_order :: "compensation_task \<Rightarrow> pending_order flow" where
  "flow_task_order task = flow_read ''load_pending_order'' (\<lambda>env n. load_pending_order (fe_pg env) (fe_pool env n)
     (fe_tie env) (tk_tenant_id task) (tk_order_id task))"

definition process_inventory_task :: "compensation_task \<Rightarrow> unit flow" where
  "process_inventory_task task =
     flow_then (flow_task_fence task) (\<lambda>fence.
     flow_then (flow_task_order task) (\<lambda>order.
     flow_then (flow_lift (ok_or (task_missing ''inventory compensation task has no reservation_id'')
        (tk_reservation_id task))) (\<lambda>reservation_id.
     let task_key = generation_compensation_task_key (inventory_compensation_task_key reservation_id) (fence_token fence) in
     flow_then (flow_begin_operation order task_key fence) (\<lambda>_.
     flow_then (flow_lift (ok_or (task_missing ''inventory compensation task has no SKU'') (tk_sku task))) (\<lambda>sku.
     flow_then (flow_lift (ok_or (task_missing ''inventory compensation task has no quantity'') (tk_quantity task))) (\<lambda>quantity.
     flow_then (release_inventory order [\<lparr>ir_reservation_id = reservation_id, ir_sku = sku,
        ir_quantity = word_of_int quantity, ir_location_id = None\<rparr>] fence) (\<lambda>_.
     flow_complete_operation order task_key fence)))))))"

definition process_payment_task :: "compensation_task \<Rightarrow> unit flow" where
  "process_payment_task task =
     flow_then (flow_task_fence task) (\<lambda>fence.
     flow_then (flow_task_order task) (\<lambda>order.
     if tk_currency task \<noteq> Some (po_currency order)
       then flow_fail (task_missing ''payment compensation currency does not match the order'')
     else
       flow_then (flow_lift (ok_or (task_missing ''payment compensation task has no payment_id'') (tk_payment_id task))) (\<lambda>payment_id.
       let request_id = (case tk_request_id task of Some r \<Rightarrow> r | None \<Rightarrow> tk_id task) in
       flow_then (compensate_payment_with_fence order payment_id request_id fence) (\<lambda>done'.
       if done' then flow_return ()
       else flow_fail (payment_reconciliation_error ''durable payment compensation is not yet confirmed'')))))"

definition process_compensation_task :: "compensation_task \<Rightarrow> unit flow" where
  "process_compensation_task task =
     flow_then (stored_compensation_context task) (\<lambda>_.
     if tk_kind task = ''inventory_release'' then process_inventory_task task
     else if tk_kind task = ''payment'' then process_payment_task task
     else flow_fail (task_missing (''unknown compensation task kind: '' @ tk_kind task)))"

definition settle_compensation :: "compensation_task \<Rightarrow> api_error + unit \<Rightarrow> unit flow" where
  "settle_compensation task result =
     (case result of
        Inr _ \<Rightarrow> flow_core ''complete_compensation_task'' (\<lambda>env n.
          complete_compensation_task (fe_pg env) (fe_pool env n) (fe_now env n) task)
      | Inl error \<Rightarrow>
          if compensation_attempts_exhausted (tk_attempts task)
          then flow_core ''dead_letter_compensation_task'' (\<lambda>env n.
            dead_letter_compensation_task (fe_pg env) (fe_pool env n) (fe_now env n) task error)
          else flow_core ''reschedule_compensation_task'' (\<lambda>env n.
            reschedule_compensation_task (fe_pg env) (fe_pool env n) (fe_now env n) task error))"

definition process_one_compensation :: "bool flow" where
  "process_one_compensation =
     flow_then (flow_core ''dead_letter_expired_compensation_task'' (\<lambda>env n.
        dead_letter_expired_compensation_task (fe_pg env) (fe_pool env n) (fe_locked_expired env n) (fe_now env n))) (\<lambda>expired.
     if expired then flow_return True
     else
       flow_then (flow_core ''claim_compensation_task'' (\<lambda>env n.
          claim_compensation_task (fe_pg env) (fe_pool env n) (fe_locked_comp env n) (fe_now env n) (fe_uuid env n 0))) (\<lambda>claimed.
       case claimed of
         None \<Rightarrow> flow_return False
       | Some task \<Rightarrow>
           flow_then (stored_compensation_context task) (\<lambda>_.
           flow_match (process_compensation_task task) (\<lambda>result.
           flow_then (settle_compensation task result) (\<lambda>_.
           flow_return True)))))"

end
