(* ===== verification/CheckoutTrace.thy ===== *)
theory CheckoutTrace
  imports CheckoutEntry
begin

text \<open>
  A Hoare logic for the programs of the saga. Assertions speak of the trace: \<open>triple P m Q\<close> says that a run
  that starts with a trace in \<open>P\<close> ends with a result and a trace in \<open>Q\<close>, in every environment and database.
  \<open>emits E m\<close> says that every event of a run satisfies \<open>E\<close>.
\<close>

named_theorems emits_intros "introduction rules for emits"

definition triple :: "(flow_event list \<Rightarrow> bool) \<Rightarrow> 'a flow \<Rightarrow> (fault + 'a \<Rightarrow> flow_event list \<Rightarrow> bool) \<Rightarrow> bool" where
  "triple P m Q \<longleftrightarrow> (\<forall>env s. P (fs_trace s) \<longrightarrow> Q (fst (m env s)) (fs_trace (snd (m env s))))"

definition emits :: "(flow_event \<Rightarrow> bool) \<Rightarrow> 'a flow \<Rightarrow> bool" where
  "emits E m \<longleftrightarrow> (\<forall>env s. \<exists>ts. fs_trace (snd (m env s)) = fs_trace s @ ts \<and> list_all E ts)"

subsection \<open>Rules\<close>

lemma tripleI: "(\<And>env s. P (fs_trace s) \<Longrightarrow> Q (fst (m env s)) (fs_trace (snd (m env s)))) \<Longrightarrow> triple P m Q"
  by (simp add: triple_def)

lemma tripleD: "triple P m Q \<Longrightarrow> P (fs_trace s) \<Longrightarrow> Q (fst (m env s)) (fs_trace (snd (m env s)))"
  by (simp add: triple_def)

lemma triple_conseq: "triple P m Q \<Longrightarrow> (\<And>h. P' h \<Longrightarrow> P h) \<Longrightarrow> (\<And>r h. Q r h \<Longrightarrow> Q' r h) \<Longrightarrow> triple P' m Q'"
  by (auto simp: triple_def)

lemma triple_pre: "triple P m Q \<Longrightarrow> (\<And>h. P' h \<Longrightarrow> P h) \<Longrightarrow> triple P' m Q"
  by (auto simp: triple_def)

lemma triple_post: "triple P m Q \<Longrightarrow> (\<And>r h. Q r h \<Longrightarrow> Q' r h) \<Longrightarrow> triple P m Q'"
  by (auto simp: triple_def)

lemma triple_lift: "(\<And>h. P h \<Longrightarrow> Q (refused r) h) \<Longrightarrow> triple P (flow_lift r) Q"
  by (simp add: triple_def flow_lift_def)

lemma triple_return: "(\<And>h. P h \<Longrightarrow> Q (Inr x) h) \<Longrightarrow> triple P (flow_return x) Q"
  by (simp add: triple_def flow_lift_def flow_return_def refused_def)

lemma triple_fail: "(\<And>h. P h \<Longrightarrow> Q (Inl (Refused e)) h) \<Longrightarrow> triple P (flow_fail e) Q"
  by (simp add: triple_def flow_lift_def flow_fail_def refused_def)

lemma triple_then:
  assumes "triple P m (\<lambda>r h. case r of Inl e \<Rightarrow> Q (Inl e) h | Inr x \<Rightarrow> R x h)"
    and "\<And>x. triple (R x) (f x) Q"
  shows "triple P (flow_then m f) Q"
proof (rule tripleI)
  fix env and s :: flow_state assume "P (fs_trace s)"
  note m = tripleD [OF assms(1), of s env, OF this]
  obtain r s1 where run: "m env s = (r, s1)" by fastforce
  show "Q (fst (flow_then m f env s)) (fs_trace (snd (flow_then m f env s)))"
  proof (cases r)
    case (Inl e)
    with m run show ?thesis by (simp add: flow_then_def)
  next
    case (Inr x)
    with m run have "R x (fs_trace s1)" by simp
    from tripleD [OF assms(2) this] show ?thesis using run Inr by (simp add: flow_then_def)
  qed
qed

lemma triple_match:
  assumes "triple P m (\<lambda>r h. case r of Inl Panic \<Rightarrow> Q (Inl Panic) h | Inl (Refused e) \<Rightarrow> R (Inl e) h | Inr x \<Rightarrow> R (Inr x) h)"
    and "\<And>x. triple (R x) (f x) Q"
  shows "triple P (flow_match m f) Q"
proof (rule tripleI)
  fix env and s :: flow_state assume "P (fs_trace s)"
  note m = tripleD [OF assms(1), of s env, OF this]
  obtain r s1 where run: "m env s = (r, s1)" by fastforce
  show "Q (fst (flow_match m f env s)) (fs_trace (snd (flow_match m f env s)))"
  proof (cases r)
    case (Inr x)
    with m run have "R (Inr x) (fs_trace s1)" by simp
    from tripleD [OF assms(2) this] show ?thesis using run Inr by (simp add: flow_match_def)
  next
    case (Inl e)
    show ?thesis
    proof (cases e)
      case (Refused err)
      with m run Inl have "R (Inl err) (fs_trace s1)" by simp
      from tripleD [OF assms(2) this] show ?thesis using run Inl Refused by (simp add: flow_match_def)
    qed (use m run Inl in \<open>simp add: flow_match_def\<close>)
  qed
qed

lemma triple_db:
  "(\<And>env n db h. P h \<Longrightarrow> Q (fst (op env n db)) (h @ [Tx name (is_ok (fst (op env n db))) db (snd (op env n db))]))
    \<Longrightarrow> triple P (flow_db name op) Q"
  by (simp add: triple_def flow_db_def Let_def split: prod.splits) (metis fst_conv snd_conv)

lemma triple_call:
  "(\<And>env n h. P h \<Longrightarrow> Q (Inr (ask env n)) (h @ [event (ask env n)])) \<Longrightarrow> triple P (flow_call ask event) Q"
  by (simp add: triple_def flow_call_def Let_def)

text \<open>A call whose answer is interpreted at once.\<close>

lemma triple_call_lift:
  assumes "\<And>env n h. P h \<Longrightarrow> Q (refused (f (ask env n))) (h @ [event (ask env n)])"
  shows "triple P (flow_then (flow_call ask event) (\<lambda>r. flow_lift (f r))) Q"
  using assms by (simp add: triple_def flow_then_def flow_call_def flow_lift_def Let_def)

subsection \<open>Emitted events\<close>

lemma emits_lift [emits_intros]: "emits E (flow_lift r)"
  by (simp add: emits_def flow_lift_def)

lemma emits_ask [emits_intros]: "emits E (\<lambda>env s. (f env, s))"
  by (simp add: emits_def)

lemma emits_return [emits_intros]: "emits E (flow_return x)"
  by (simp add: flow_return_def emits_lift)

lemma emits_fail [emits_intros]: "emits E (flow_fail e)"
  by (simp add: flow_fail_def emits_lift)

lemma emits_then [emits_intros]:
  assumes "emits E m" "\<And>x. emits E (f x)"
  shows "emits E (flow_then m f)"
  unfolding emits_def
proof (intro allI)
  fix env s
  obtain r s1 where run: "m env s = (r, s1)" by fastforce
  with assms(1) obtain ts where ts: "fs_trace s1 = fs_trace s @ ts" "list_all E ts"
    unfolding emits_def by (metis snd_conv)
  show "\<exists>ts. fs_trace (snd (flow_then m f env s)) = fs_trace s @ ts \<and> list_all E ts"
  proof (cases r)
    case (Inr x)
    from assms(2) obtain us where "fs_trace (snd (f x env s1)) = fs_trace s1 @ us" "list_all E us"
      unfolding emits_def by blast
    with ts run Inr show ?thesis by (auto simp: flow_then_def)
  qed (use ts run in \<open>auto simp: flow_then_def\<close>)
qed

lemma emits_match [emits_intros]:
  assumes "emits E m" "\<And>x. emits E (f x)"
  shows "emits E (flow_match m f)"
  unfolding emits_def
proof (intro allI)
  fix env s
  obtain r s1 where run: "m env s = (r, s1)" by fastforce
  with assms(1) obtain ts where ts: "fs_trace s1 = fs_trace s @ ts" "list_all E ts"
    unfolding emits_def by (metis snd_conv)
  have f: "\<exists>us. fs_trace (snd (f x env s1)) = fs_trace s1 @ us \<and> list_all E us" for x
    using assms(2) unfolding emits_def by blast
  show "\<exists>ts. fs_trace (snd (flow_match m f env s)) = fs_trace s @ ts \<and> list_all E ts"
    using ts run f by (fastforce simp: flow_match_def split: sum.splits fault.splits)
qed

lemma emits_db: "(\<And>ok db db'. E (Tx name ok db db')) \<Longrightarrow> emits E (flow_db name op)"
  by (simp add: emits_def flow_db_def Let_def split: prod.splits)

lemma emits_core: "(\<And>ok db db'. E (Tx name ok db db')) \<Longrightarrow> emits E (flow_core name op)"
  by (simp add: flow_core_def emits_db)

lemma emits_read: "(\<And>ok db db'. E (Tx name ok db db')) \<Longrightarrow> emits E (flow_read name op)"
  by (simp add: flow_read_def emits_db)

lemma emits_call: "(\<And>r. E (event r)) \<Longrightarrow> emits E (flow_call ask event)"
  by (simp add: emits_def flow_call_def Let_def)

lemma emits_each [emits_intros]: "(\<And>x. emits E (f x)) \<Longrightarrow> emits E (flow_each f xs)"
  by (induction xs) (auto intro: emits_intros)

lemma emits_if [emits_intros]: "emits E m \<Longrightarrow> emits E m' \<Longrightarrow> emits E (if b then m else m')"
  by simp

lemma emits_weaken: "emits E m \<Longrightarrow> (\<And>e. E e \<Longrightarrow> F e) \<Longrightarrow> emits F m"
  unfolding emits_def by (metis (no_types, lifting) list.pred_mono_strong)

text \<open>An assertion that survives the events of a program is an invariant of it.\<close>

lemma emits_invariant:
  assumes "emits E m" "\<And>h e. I h \<Longrightarrow> E e \<Longrightarrow> I (h @ [e])"
  shows "triple I m (\<lambda>_. I)"
proof (rule tripleI)
  fix env and s :: flow_state assume I: "I (fs_trace s)"
  from assms(1) obtain ts where ts: "fs_trace (snd (m env s)) = fs_trace s @ ts" "list_all E ts"
    unfolding emits_def by blast
  have "I (h @ ts)" if "I h" for h
    using ts(2) that
  proof (induction ts arbitrary: h)
    case (Cons e ts)
    from Cons.IH [of "h @ [e]"] Cons.prems assms(2) show ?case by simp
  qed simp
  with I ts show "I (fs_trace (snd (m env s)))" by simp
qed

subsection \<open>Programs that cannot panic\<close>

definition steady :: "'a flow \<Rightarrow> bool" where
  "steady m \<longleftrightarrow> (\<forall>env s. fst (m env s) \<noteq> Inl Panic)"

lemma refused_steady [simp]: "refused r \<noteq> Inl Panic"
  by (cases r) (simp_all add: refused_def)

lemma steady_lift [emits_intros]: "steady (flow_lift r)"
  by (simp add: steady_def flow_lift_def)

lemma steady_return [emits_intros]: "steady (flow_return x)"
  by (simp add: flow_return_def steady_lift)

lemma steady_fail [emits_intros]: "steady (flow_fail e)"
  by (simp add: flow_fail_def steady_lift)

lemma steady_then [emits_intros]: "steady m \<Longrightarrow> (\<And>x. steady (f x)) \<Longrightarrow> steady (flow_then m f)"
  by (auto simp: steady_def flow_then_def split: prod.splits sum.splits) (metis fst_conv)

lemma steady_match [emits_intros]: "steady m \<Longrightarrow> (\<And>x. steady (f x)) \<Longrightarrow> steady (flow_match m f)"
  by (auto simp: steady_def flow_match_def split: prod.splits sum.splits fault.splits) (metis fst_conv)

lemma steady_if [emits_intros]: "steady m \<Longrightarrow> steady m' \<Longrightarrow> steady (if b then m else m')"
  by simp

lemma steady_db: "(\<And>env n db. fst (op env n db) \<noteq> Inl Panic) \<Longrightarrow> steady (flow_db name op)"
  by (simp add: steady_def flow_db_def Let_def split: prod.splits) (metis fst_conv)

lemma steady_core [emits_intros]: "steady (flow_core name op)"
  unfolding flow_core_def by (rule steady_db) (simp add: lift_core_def split: prod.splits)

lemma steady_read [emits_intros]: "steady (flow_read name op)"
  unfolding flow_read_def by (rule steady_db) simp

lemma steady_call [emits_intros]: "steady (flow_call ask event)"
  by (simp add: steady_def flow_call_def Let_def)

lemma steady_each [emits_intros]: "(\<And>x. steady (f x)) \<Longrightarrow> steady (flow_each f xs)"
  by (induction xs) (auto intro: emits_intros)

lemma triple_steady: "triple P m Q \<Longrightarrow> steady m \<Longrightarrow> triple P m (\<lambda>r h. r \<noteq> Inl Panic \<and> Q r h)"
  by (simp add: triple_def steady_def)

subsection \<open>Results\<close>

definition yields :: "('a \<Rightarrow> bool) \<Rightarrow> 'a flow \<Rightarrow> bool" where
  "yields P m \<longleftrightarrow> (\<forall>env s x. fst (m env s) = Inr x \<longrightarrow> P x)"

lemma yields_return [emits_intros]: "P x \<Longrightarrow> yields P (flow_return x)"
  by (simp add: yields_def flow_return_def flow_lift_def refused_def)

lemma yields_fail [emits_intros]: "yields P (flow_fail e)"
  by (simp add: yields_def flow_fail_def flow_lift_def refused_def)

lemma yields_then [emits_intros]: "(\<And>x. yields P (f x)) \<Longrightarrow> yields P (flow_then m f)"
  by (auto simp: yields_def flow_then_def split: prod.splits sum.splits)

lemma yields_match [emits_intros]: "(\<And>x. yields P (f x)) \<Longrightarrow> yields P (flow_match m f)"
  by (auto simp: yields_def flow_match_def split: prod.splits sum.splits fault.splits)

lemma yields_if [emits_intros]: "yields P m \<Longrightarrow> yields P m' \<Longrightarrow> yields P (if b then m else m')"
  by simp

lemma triple_yields: "triple I m Q \<Longrightarrow> yields P m \<Longrightarrow> triple I m (\<lambda>r h. Q r h \<and> (\<forall>x. r = Inr x \<longrightarrow> P x))"
  by (simp add: triple_def yields_def)

subsection \<open>Phases\<close>

text \<open>A program that never succeeds.\<close>

definition refuses :: "'a flow \<Rightarrow> bool" where
  "refuses m \<longleftrightarrow> (\<forall>env s. \<not> is_ok (fst (m env s)))"

lemma refuses_fail [emits_intros]: "refuses (flow_fail e)"
  by (simp add: refuses_def flow_fail_def flow_lift_def refused_def)

lemma refuses_then [emits_intros]: "(\<And>x. refuses (f x)) \<Longrightarrow> refuses (flow_then m f)"
  by (auto simp: refuses_def flow_then_def split: prod.splits sum.splits)

lemma refuses_if [emits_intros]: "refuses m \<Longrightarrow> refuses m' \<Longrightarrow> refuses (if b then m else m')"
  by simp

lemma triple_refuses:
  assumes "triple I m (\<lambda>_. I)" "refuses m"
  shows "triple I m (\<lambda>r h. case r of Inr _ \<Rightarrow> T r h | Inl _ \<Rightarrow> I h)"
proof (rule tripleI)
  fix env :: flow_env and s :: flow_state assume "I (fs_trace s)"
  from tripleD [OF assms(1) this] have I: "I (fs_trace (snd (m env s)))" .
  from assms(2) have "\<not> is_ok (fst (m env s))" unfolding refuses_def by blast
  with I show "case fst (m env s) of Inr _ \<Rightarrow> T (fst (m env s)) (fs_trace (snd (m env s)))
      | Inl _ \<Rightarrow> I (fs_trace (snd (m env s)))"
    by (cases "fst (m env s)") simp_all
qed

text \<open>\<open>match\<close> on a result: success continues from \<open>Q\<close>, every failure from \<open>F\<close>.\<close>

lemma triple_cases:
  assumes m: "triple P m (\<lambda>r h. case r of Inr x \<Rightarrow> Q x h | Inl e \<Rightarrow> F h \<and> (e = Panic \<longrightarrow> T (Inl Panic) h))"
    and good: "\<And>x. triple (Q x) (g x) T" and bad: "\<And>e. triple F (b e) T"
  shows "triple P (flow_match m (\<lambda>r. case r of Inr x \<Rightarrow> g x | Inl e \<Rightarrow> b e)) T"
proof (rule triple_match [where R = "\<lambda>x h. case x of Inr y \<Rightarrow> Q y h | Inl _ \<Rightarrow> F h"])
  show "triple P m (\<lambda>r h. case r of Inl Panic \<Rightarrow> T (Inl Panic) h
      | Inl (Refused e) \<Rightarrow> (case Inl e of Inr y \<Rightarrow> Q y h | Inl _ \<Rightarrow> F h)
      | Inr x \<Rightarrow> (case Inr x of Inr y \<Rightarrow> Q y h | Inl _ \<Rightarrow> F h))"
    by (rule triple_post [OF m]) (auto split: sum.splits fault.splits)
next
  fix x :: "api_error + 'a"
  show "triple (\<lambda>h. case x of Inr y \<Rightarrow> Q y h | Inl _ \<Rightarrow> F h) (case x of Inr x \<Rightarrow> g x | Inl e \<Rightarrow> b e) T"
    by (cases x) (simp_all add: good bad)
qed

lemma triple_phase:
  assumes m: "triple P m (\<lambda>r h. case r of Inr x \<Rightarrow> Q x h | Inl _ \<Rightarrow> F h)"
    and "\<And>x. triple (Q x) (g x) T" and "\<And>e. triple F (b e) T" and panic: "\<And>h. F h \<Longrightarrow> T (Inl Panic) h"
  shows "triple P (flow_match m (\<lambda>r. case r of Inr x \<Rightarrow> g x | Inl e \<Rightarrow> b e)) T"
  by (rule triple_cases [OF triple_post [OF m] assms(2,3)]) (simp add: panic split: sum.splits)

lemma triple_phase_steady:
  assumes m: "triple P m (\<lambda>r h. case r of Inr x \<Rightarrow> Q x h | Inl _ \<Rightarrow> F h)" and "steady m"
    and "\<And>x. triple (Q x) (g x) T" and "\<And>e. triple F (b e) T"
  shows "triple P (flow_match m (\<lambda>r. case r of Inr x \<Rightarrow> g x | Inl e \<Rightarrow> b e)) T"
  by (rule triple_cases [OF triple_post [OF triple_steady [OF m assms(2)]] assms(3,4)]) (auto split: sum.splits)

text \<open>\<open>?\<close> on a program whose failures end in \<open>F\<close>.\<close>

lemma triple_seq:
  assumes "triple P m (\<lambda>r h. case r of Inr x \<Rightarrow> Q x h | Inl _ \<Rightarrow> F h)"
    and "\<And>x. triple (Q x) (f x) T" and "\<And>e h. F h \<Longrightarrow> T (Inl e) h"
  shows "triple P (flow_then m f) T"
  by (rule triple_then [where R = Q, OF triple_post [OF assms(1)] assms(2)]) (auto simp: assms(3) split: sum.splits)

end
