(* ===== verification/CheckoutSafety.thy ===== *)
theory CheckoutSafety
  imports CheckoutTrace
begin

text \<open>
  The order of effects in a checkout. \<open>saga_guard\<close> is the protocol the saga follows: stock is consumed only
  after a settled capture, the order is finalized only after a confirmed consumption, and nothing is undone
  after one, unless a fence check failed in between. \<open>guarded\<close> checks it for every event of a trace.
\<close>

subsection \<open>Events\<close>

fun capture_settled :: "flow_event \<Rightarrow> bool" where
  "capture_settled (Payment_call (CaptureRequest rid pid amount tenant) reply) = is_ok (settled_answer ''payment capture'' reply)"
| "capture_settled _ = False"

fun capture_call :: "flow_event \<Rightarrow> bool" where
  "capture_call (Payment_call (CaptureRequest rid pid amount tenant) reply) = True"
| "capture_call _ = False"

fun consume_call :: "flow_event \<Rightarrow> bool" where
  "consume_call (Inventory_call path payload reply) = (path = ''consume'')"
| "consume_call _ = False"

fun undo_event :: "flow_event \<Rightarrow> bool" where
  "undo_event (Payment_call (VoidRequest rid pid tenant) reply) = True"
| "undo_event (Payment_call (RefundRequest rid pid amount tenant) reply) = True"
| "undo_event (Inventory_call path payload reply) = (path = ''release'')"
| "undo_event _ = False"

fun fence_failed :: "flow_event \<Rightarrow> bool" where
  "fence_failed (Tx name ok db db') = (name = ''assert_checkout_fence'' \<and> \<not> ok)"
| "fence_failed _ = False"

fun finalized :: "flow_event \<Rightarrow> bool" where
  "finalized (Tx name ok db db') = (name = ''finalize_order'' \<and> ok)"
| "finalized _ = False"

text \<open>A successful answer that reports exactly what the request asked to consume.\<close>

definition payload_quantity :: "json \<Rightarrow> int" where
  "payload_quantity j = (case json_get j ''quantity'' of Some (JNum n) \<Rightarrow> n | _ \<Rightarrow> 0)"

definition consume_matches :: "json \<Rightarrow> json \<Rightarrow> bool" where
  "consume_matches payload body =
     (case (struct_fields [''tenant_id'', ''consumed'', ''reservation_count'', ''status''] body,
            json_get payload ''tenant_id'', json_get payload ''reservations'') of
        (Some get, Some (JStr tenant_id), Some (JArr holds)) \<Rightarrow>
          str_field get ''tenant_id'' = Some tenant_id
          \<and> num_field in_usize get ''reservation_count'' = Some (int (length holds))
          \<and> in_u32 (sum_list (map payload_quantity holds))
          \<and> (str_field get ''status'' = Some ''consumed''
               \<and> num_field in_u32 get ''consumed'' = Some (sum_list (map payload_quantity holds))
             \<or> str_field get ''status'' = Some ''already_consumed'' \<and> num_field in_u32 get ''consumed'' = Some 0)
      | _ \<Rightarrow> False)"

fun consume_confirmed :: "flow_event \<Rightarrow> bool" where
  "consume_confirmed (Inventory_call path payload (Http_reply status (Inr body))) =
     (path = ''consume'' \<and> is_success status \<and> consume_matches payload body)"
| "consume_confirmed _ = False"

subsection \<open>The protocol\<close>

text \<open>A confirmed consumption whose fence checks have not failed.\<close>

definition open_consume :: "flow_event list \<Rightarrow> bool" where
  "open_consume h = foldl (\<lambda>b e. if consume_confirmed e then True else if fence_failed e then False else b) False h"

definition saga_guard :: "flow_event list \<Rightarrow> flow_event \<Rightarrow> bool" where
  "saga_guard h e \<longleftrightarrow>
     (undo_event e \<longrightarrow> \<not> open_consume h) \<and> (consume_call e \<longrightarrow> list_ex capture_settled h)
     \<and> (finalized e \<longrightarrow> open_consume h)"

fun guarded_from :: "flow_event list \<Rightarrow> flow_event list \<Rightarrow> bool" where
  "guarded_from h [] = True"
| "guarded_from h (e # ts) = (saga_guard h e \<and> guarded_from (h @ [e]) ts)"

definition guarded :: "flow_event list \<Rightarrow> bool" where
  "guarded ts = guarded_from [] ts"

lemma guarded_from_append: "guarded_from h (ts @ us) = (guarded_from h ts \<and> guarded_from (h @ ts) us)"
  by (induction ts arbitrary: h) simp_all

lemma guarded_snoc [simp]: "guarded (ts @ [e]) = (guarded ts \<and> saga_guard ts e)"
  by (simp add: guarded_def guarded_from_append)

lemma guarded_Nil [simp]: "guarded []"
  by (simp add: guarded_def)

lemma open_consume_Nil [simp]: "\<not> open_consume []"
  by (simp add: open_consume_def)

lemma open_consume_snoc:
  "open_consume (h @ [e]) = (if consume_confirmed e then True else if fence_failed e then False else open_consume h)"
  by (simp add: open_consume_def)

lemma settled_is_call: "capture_settled e \<Longrightarrow> capture_call e"
  by (cases e rule: capture_settled.cases) auto

lemma confirmed_is_call: "consume_confirmed e \<Longrightarrow> consume_call e"
  by (cases e rule: consume_confirmed.cases) auto

text \<open>What the guard says about a position of the trace.\<close>

lemma guarded_at: "guarded (pre @ e # post) \<Longrightarrow> saga_guard pre e"
proof -
  assume "guarded (pre @ e # post)"
  then have "guarded_from [] ((pre @ [e]) @ post)" by (simp add: guarded_def)
  then have "guarded_from [] (pre @ [e])" unfolding guarded_from_append by blast
  then show ?thesis by (simp add: guarded_from_append)
qed

subsection \<open>The answer of a consumption\<close>

lemma try_fold_checked_u32:
  assumes "in_u32 n"
  shows "try_fold (\<lambda>total hold. ok_or e (checked_u32 (total + uint (ir_quantity hold)))) n holds =
    (if in_u32 (n + sum_list (map (\<lambda>h. uint (ir_quantity h)) holds))
     then Inr (n + sum_list (map (\<lambda>h. uint (ir_quantity h)) holds)) else Inl e)"
  using assms
proof (induction holds arbitrary: n)
  case (Cons h holds)
  have nn: "0 \<le> sum_list (map (\<lambda>h. uint (ir_quantity h)) holds)"
    by (intro sum_list_nonneg) auto
  show ?case
  proof (cases "in_u32 (n + uint (ir_quantity h))")
    case True
    then show ?thesis using Cons.IH [OF True] by (simp add: checked_in_range add.assoc)
  next
    case False
    with nn Cons.prems have "\<not> in_u32 (n + (uint (ir_quantity h) + sum_list (map (\<lambda>h. uint (ir_quantity h)) holds)))"
      by (auto simp: in_u32_def)
    with False show ?thesis by (simp add: checked_u32_def)
  qed
qed simp

lemma consume_payload_fields:
  "json_get (consume_payload order holds fence) ''tenant_id'' = Some (JStr (po_tenant_id order))"
  "\<exists>rs. json_get (consume_payload order holds fence) ''reservations'' = Some (JArr rs) \<and> length rs = length holds
     \<and> map payload_quantity rs = map (\<lambda>h. uint (ir_quantity h)) holds"
  by (simp_all add: consume_payload_def json_get_def payload_quantity_def comp_def)

lemma consume_answer_confirmed:
  "consume_answer text' order holds status body = Inr () \<longleftrightarrow>
     is_success status \<and> (\<exists>b. body = Inr b \<and> consume_matches (consume_payload order holds fence) b)"
proof -
  obtain rs where rs: "json_get (consume_payload order holds fence) ''reservations'' = Some (JArr rs)"
    "length rs = length holds" "map payload_quantity rs = map (\<lambda>h. uint (ir_quantity h)) holds"
    using consume_payload_fields(2) by blast
  have zero: "in_u32 0" by (simp add: in_u32_def u32_max_def)
  show ?thesis
    unfolding consume_answer_def consume_matches_def Let_def consume_payload_fields(1) rs(1) try_fold_checked_u32 [OF zero]
    using rs(2,3)
    by (cases body) (auto split: option.splits if_splits)
qed

end
