(* ===== verification/CheckoutGuard.thy ===== *)
theory CheckoutGuard
  imports CheckoutSafety
begin

text \<open>
  Every run of \<open>checkout_flow\<close> is guarded. \<open>calm\<close> events neither capture, consume nor finalize, \<open>soft\<close> ones do
  not undo either; each part of the saga is classified by the events it emits, and the phases are composed with the
  rules of \<open>CheckoutTrace\<close>.
\<close>

definition calm :: "flow_event \<Rightarrow> bool" where
  "calm e \<longleftrightarrow> \<not> capture_call e \<and> \<not> consume_call e \<and> \<not> finalized e"

definition soft :: "flow_event \<Rightarrow> bool" where
  "soft e \<longleftrightarrow> calm e \<and> \<not> undo_event e"

lemma soft_calm: "soft e \<Longrightarrow> calm e"
  by (simp add: soft_def)

lemma calm_simps [simp]:
  "calm (Tx name ok db db') \<longleftrightarrow> name \<noteq> ''finalize_order'' \<or> \<not> ok"
  "calm (Payment_call request reply) \<longleftrightarrow> \<not> capture_call (Payment_call request reply)" "calm (Catalog_call q r)" "calm (Quote_call q' r')" "calm (Recommend_call p r)"
  "calm (Inventory_call path payload r) \<longleftrightarrow> path \<noteq> ''consume''"
  by (auto simp: calm_def)

lemma soft_simps [simp]:
  "soft (Tx name ok db db') \<longleftrightarrow> name \<noteq> ''finalize_order'' \<or> \<not> ok"
  "soft (Catalog_call q r)" "soft (Quote_call q' r')" "soft (Recommend_call p r)"
  "soft (Payment_call request reply) \<longleftrightarrow> \<not> undo_event (Payment_call request reply) \<and> \<not> capture_call (Payment_call request reply)"
  "soft (Inventory_call path payload r) \<longleftrightarrow> path \<noteq> ''consume'' \<and> path \<noteq> ''release''"
  by (auto simp: soft_def)

lemmas emits_effects = emits_db emits_core emits_read emits_call

subsection \<open>Transactions\<close>

lemma emits_tx [emits_intros]:
  "emits soft (flow_assert fence)" "emits soft (flow_begin_operation order key fence)"
  "emits soft (flow_complete_operation order key fence)" "emits soft (flow_activate order fence key)"
  "emits soft (flow_resolve order key fence)" "emits soft (flow_cancel order fence)"
  "emits soft (flow_cancel_if_compensated order fence)" "emits soft (flow_create_order input quote lease)"
  "emits soft (flow_register order lease pid method' variant context')"
  "emits soft (flow_queue_recovery order lease pid method' variant context')"
  "emits soft (flow_finalization_committed order)"
  unfolding flow_assert_def flow_begin_operation_def flow_complete_operation_def flow_activate_def flow_resolve_def
    flow_cancel_def flow_cancel_if_compensated_def flow_create_order_def flow_register_def flow_queue_recovery_def
    flow_finalization_committed_def
  by (intro emits_effects; simp)+

lemma emits_calmI: "emits soft m \<Longrightarrow> emits calm m"
  by (erule emits_weaken) (rule soft_calm)

lemmas emits_tx_calm [emits_intros] = emits_tx [THEN emits_calmI]

lemma emits_fenced [emits_intros]:
  "emits soft m \<Longrightarrow> emits soft (flow_fenced fence m)" "emits calm m \<Longrightarrow> emits calm (flow_fenced fence m)"
  unfolding flow_fenced_def by (auto intro!: emits_intros split: sum.splits)

subsection \<open>Calls\<close>

lemma emits_calls [emits_intros]:
  "emits soft (post_graphql variables)" "emits soft (quote_once input rid variant)"
  "emits soft (authorize_payment order rid token method')" "emits soft (get_payment_snapshot order pid)"
  "emits soft (recommendation tenant segment sku)"
  unfolding post_graphql_def quote_once_def authorize_payment_def get_payment_snapshot_def
    recommendation_def payment_call_def Let_def
  by (auto intro!: emits_intros emits_effects split: prod.splits)

lemmas emits_calls_calm [emits_intros] = emits_calls [THEN emits_calmI]

lemma emits_undo [emits_intros]:
  "emits calm (void_payment order pid rid)" "emits calm (refund_payment order pid rid amount)"
  unfolding void_payment_def refund_payment_def payment_call_def by (auto intro!: emits_intros emits_effects)

lemma emits_catalog [emits_intros]: "emits soft (validate_catalog input)"
proof -
  have "emits soft (catalog_products input items)" for items
    by (induction items) (auto intro!: emits_intros)
  then show ?thesis by (simp add: validate_catalog_def)
qed

lemma emits_quote [emits_intros]: "emits soft (quote_with_retry input rid variant)"
proof -
  have "emits soft (quote_attempts k input rid variant)" for k
    by (induction k) (auto intro!: emits_intros split: sum.splits)
  then show ?thesis by (simp add: quote_with_retry_def)
qed

lemmas emits_prepare_calm [emits_intros] = emits_catalog [THEN emits_calmI] emits_quote [THEN emits_calmI]

lemma emits_compensate [emits_intros]: "emits calm (compensate_payment order pid rid)"
proof -
  have round: "emits calm (compensate_round order pid rid)"
    unfolding compensate_round_def
    by (auto intro!: emits_intros simp: compensate_action_def Let_def split: sum.splits option.splits if_splits)
  have "emits calm (compensate_rounds k order pid rid)" for k
    by (induction k) (auto intro!: emits_intros round split: option.splits)
  then show ?thesis by (simp add: compensate_payment_def)
qed

lemma emits_enqueue_payment [emits_intros]: "emits soft (enqueue_payment_compensation_task order pid rid context' fence)"
  unfolding enqueue_payment_compensation_task_def by (auto intro!: emits_intros emits_effects)

lemma emits_enqueue_inventory [emits_intros]: "emits soft (enqueue_inventory_compensation_tasks order holds context' fence)"
  unfolding enqueue_inventory_compensation_tasks_def by (auto intro!: emits_intros emits_effects)

lemmas emits_enqueue_calm [emits_intros] = emits_enqueue_payment [THEN emits_calmI] emits_enqueue_inventory [THEN emits_calmI]

lemma emits_compensate_fenced [emits_intros]: "emits calm (compensate_payment_with_fence order pid rid fence)"
  unfolding compensate_payment_with_fence_def Let_def by (intro emits_intros)

lemma emits_recover [emits_intros]: "emits calm (recover_authorization context' order rid token method' fence)"
  unfolding recover_authorization_def
  by (auto intro!: emits_intros emits_effects split: sum.splits option.splits)

subsection \<open>Stock\<close>

lemma emits_send: "(\<And>r. E (Inventory_call path payload r)) \<Longrightarrow> emits E (flow_assert fence) \<Longrightarrow> emits E (send_inventory fence code path payload)"
  unfolding send_inventory_def flow_fenced_def inventory_call_def
  by (auto intro!: emits_intros emits_effects split: prod.splits sum.splits)

lemma emits_release [emits_intros]: "emits calm (release_inventory order holds fence)"
proof -
  have "emits calm (release_each order fence err holds)" for err
    by (induction holds arbitrary: err) (auto intro!: emits_intros emits_send split: sum.splits option.splits prod.splits)
  then show ?thesis by (simp add: release_inventory_def)
qed

lemma emits_release_recovery [emits_intros]: "emits calm (release_inventory_with_recovery context' order holds fence)"
  unfolding release_inventory_with_recovery_def by (intro emits_intros)

lemma emits_reserve [emits_intros]: "emits calm (reserve_inventory context' order fence)"
proof -
  have "emits calm (reserve_each context' order fence holds lines)" for holds lines
    by (induction lines arbitrary: holds)
      (auto intro!: emits_intros emits_send simp: abandon_reservations_def split: sum.splits prod.splits)
  then show ?thesis by (simp add: reserve_inventory_def)
qed

lemma emits_undo_programs [emits_intros]:
  "emits calm (undo_payment context' order pid rid fence ok)" "emits calm (undo_all context' order holds pid rid fence)"
  unfolding undo_all_def undo_payment_def by (intro emits_intros)+

lemma emits_open [emits_intros]:
  "emits soft (recover_later req pid err)" "emits soft (register_open req pid)" "emits soft (finalization_known order)"
  unfolding recover_later_def register_open_def finalization_known_def by (auto intro!: emits_intros split: sum.splits)

lemmas emits_open_calm [emits_intros] = emits_open [THEN emits_calmI]

subsection \<open>Phases\<close>

definition before_consume :: "flow_event list \<Rightarrow> bool" where
  "before_consume h \<longleftrightarrow> guarded h \<and> \<not> open_consume h"

lemma before_consume_snoc: "before_consume h \<Longrightarrow> \<not> consume_call e \<Longrightarrow> \<not> finalized e \<Longrightarrow> before_consume (h @ [e])"
  by (auto simp: before_consume_def saga_guard_def open_consume_snoc dest: confirmed_is_call)

lemma before_consume_calm: "before_consume h \<Longrightarrow> calm e \<Longrightarrow> before_consume (h @ [e])"
  by (simp add: before_consume_snoc calm_def)

lemma captured_calm:
  "before_consume h \<and> list_ex capture_settled h \<Longrightarrow> calm e \<Longrightarrow> before_consume (h @ [e]) \<and> list_ex capture_settled (h @ [e])"
  by (simp add: before_consume_calm)

lemma guarded_soft: "guarded h \<Longrightarrow> soft e \<Longrightarrow> guarded (h @ [e])"
  by (simp add: saga_guard_def soft_def calm_def)

lemmas calm_program = emits_invariant [where I = before_consume, OF _ before_consume_calm]
lemmas captured_program = emits_invariant [where I = "\<lambda>h. before_consume h \<and> list_ex capture_settled h", OF _ captured_calm]
lemmas soft_program = emits_invariant [where I = guarded, OF _ guarded_soft]

lemma emits_authorization [emits_intros]: "emits calm (authorization_phase req)"
  unfolding authorization_phase_def
  by (auto intro!: emits_intros split: sum.splits authorization_recovery.splits)

lemma emits_reservation [emits_intros]: "emits calm (reservation_phase req pid)"
  unfolding reservation_phase_def by (auto intro!: emits_intros split: sum.splits)

subsection \<open>Fenced operations\<close>

definition assert_event :: "bool \<Rightarrow> flow_event \<Rightarrow> bool" where
  "assert_event ok e \<longleftrightarrow> (\<exists>db. e = Tx ''assert_checkout_fence'' ok db db)"

lemma assert_event_simps [simp]:
  "assert_event ok e \<Longrightarrow> soft e" "assert_event ok e \<Longrightarrow> calm e" "assert_event ok e \<Longrightarrow> fence_failed e = (\<not> ok)"
  "assert_event ok e \<Longrightarrow> \<not> consume_confirmed e" "assert_event ok e \<Longrightarrow> \<not> capture_settled e"
  by (auto simp: assert_event_def)

lemma triple_assert:
  assumes "\<And>h e. P h \<Longrightarrow> assert_event True e \<Longrightarrow> Q (Inr ()) (h @ [e])"
    and "\<And>h e err. P h \<Longrightarrow> assert_event False e \<Longrightarrow> Q (Inl (Refused err)) (h @ [e])"
  shows "triple P (flow_assert fence) Q"
  unfolding flow_assert_def flow_read_def
proof (rule triple_db)
  fix env n h and db :: shop_db assume P: "P h"
  let ?r = "assert_checkout_fence (fe_pg env) (fe_pool env n) (fe_now env n) fence (core db)"
  show "Q (fst (refused ?r, db)) (h @ [Tx ''assert_checkout_fence'' (is_ok (fst (refused ?r, db))) db (snd (refused ?r, db))])"
    by (cases ?r) (auto simp: refused_def assert_event_def intro!: assms [OF P])
qed

text \<open>
  An operation between its two checks: \<open>Q\<close> of its result survives a passed check, and every failure,
  of the operation or of a check, ends in \<open>F\<close>.
\<close>

lemma triple_fenced:
  assumes op: "triple P m Q"
    and P: "\<And>h e. P h \<Longrightarrow> assert_event True e \<Longrightarrow> P (h @ [e])"
    and Q: "\<And>x h e. Q (Inr x) h \<Longrightarrow> assert_event True e \<Longrightarrow> Q (Inr x) (h @ [e])"
    and F: "\<And>h e. P h \<Longrightarrow> assert_event False e \<Longrightarrow> F (h @ [e])"
      "\<And>r h e. Q r h \<Longrightarrow> assert_event False e \<Longrightarrow> F (h @ [e])"
      "\<And>err h e. Q (Inl (Refused err)) h \<Longrightarrow> assert_event True e \<Longrightarrow> F (h @ [e])"
      "\<And>h. Q (Inl Panic) h \<Longrightarrow> F h"
  shows "triple P (flow_fenced fence m) (\<lambda>r h. case r of Inr x \<Rightarrow> Q (Inr x) h | Inl _ \<Rightarrow> F h)"
    (is "triple P _ ?Q")
  unfolding flow_fenced_def
proof (rule triple_then [where R = "\<lambda>_. P"])
  show "triple P (flow_assert fence) (\<lambda>r h. case r of Inl e \<Rightarrow> ?Q (Inl e) h | Inr x \<Rightarrow> P h)"
    by (rule triple_assert) (simp_all add: P F(1))
  let ?R = "\<lambda>x h. case x of Inl err \<Rightarrow> Q (Inl (Refused err)) h | Inr y \<Rightarrow> Q (Inr y) h"
  show "triple P (flow_match m (\<lambda>result. flow_match (flow_assert fence) (\<lambda>fence_result.
      case fence_result of Inl error \<Rightarrow> flow_fail error | Inr _ \<Rightarrow> flow_lift result))) ?Q"
  proof (rule triple_match [where R = ?R])
    show "triple P m (\<lambda>r h. case r of Inl Panic \<Rightarrow> ?Q (Inl Panic) h | Inl (Refused e) \<Rightarrow> ?R (Inl e) h | Inr x \<Rightarrow> ?R (Inr x) h)"
      by (rule triple_post [OF op]) (auto simp: F(4) split: sum.splits fault.splits)
  next
    fix x
    show "triple (?R x) (flow_match (flow_assert fence) (\<lambda>fence_result.
        case fence_result of Inl error \<Rightarrow> flow_fail error | Inr _ \<Rightarrow> flow_lift x)) ?Q"
      by (rule triple_match [where R = "\<lambda>y h. case y of Inl err \<Rightarrow> F h | Inr _ \<Rightarrow> ?Q (map_err Refused x) h"],
          rule triple_assert)
        (auto simp: refused_def intro!: triple_fail triple_lift intro: Q F split: sum.splits)
  qed
qed

subsection \<open>Capture, consumption and finalization\<close>

abbreviation captured_before :: "flow_event list \<Rightarrow> bool" where
  "captured_before h \<equiv> before_consume h \<and> list_ex capture_settled h"

definition consumed :: "flow_event list \<Rightarrow> bool" where
  "consumed h \<longleftrightarrow> guarded h \<and> list_ex capture_settled h \<and> open_consume h"

lemma capture_triple:
  "triple before_consume (capture_payment order pid rid)
     (\<lambda>r h. before_consume h \<and> (case r of Inr _ \<Rightarrow> list_ex capture_settled h | Inl _ \<Rightarrow> True))"
  unfolding capture_payment_def payment_call_def
  by (rule triple_call_lift) (auto simp: refused_def before_consume_snoc split: sum.splits)

lemma captured_assert:
  "before_consume h \<Longrightarrow> assert_event ok e \<Longrightarrow> before_consume (h @ [e])"
  by (simp add: before_consume_calm)

lemma refuses_recover_later [emits_intros]: "refuses (recover_later req pid err)"
  unfolding recover_later_def by (intro emits_intros)

lemma refuses_case: "(\<And>e. refuses (b e)) \<Longrightarrow> triple I (b e) (\<lambda>_. I) \<Longrightarrow> triple I (b e) (\<lambda>r h. case r of Inr _ \<Rightarrow> T r h | Inl _ \<Rightarrow> I h)"
  by (rule triple_refuses) auto

text \<open>What a phase promises: on success \<open>Q\<close>, on failure only the protocol.\<close>

abbreviation phase_post :: "(flow_event list \<Rightarrow> bool) \<Rightarrow> fault + 'a \<Rightarrow> flow_event list \<Rightarrow> bool" where
  "phase_post Q r h \<equiv> (case r of Inr _ \<Rightarrow> Q h | Inl _ \<Rightarrow> guarded h)"

lemma before_consume_guarded: "before_consume h \<Longrightarrow> guarded h"
  by (simp add: before_consume_def)

lemma failing_calm:
  assumes "emits calm m" "refuses m"
  shows "triple before_consume m (phase_post Q)"
  by (rule triple_post [OF triple_refuses [OF calm_program [OF assms(1)] assms(2), where T = "\<lambda>_ _. False"]])
    (auto simp: before_consume_guarded split: sum.splits)

lemma calm_phase:
  assumes "emits calm m"
  shows "triple before_consume m (phase_post before_consume)"
  by (rule triple_post [OF calm_program [OF assms]]) (auto simp: before_consume_guarded split: sum.splits)

lemma capture_phase_triple: "triple before_consume (capture_phase req pid holds) (phase_post captured_before)"
  unfolding capture_phase_def
proof (rule triple_phase [where Q = "\<lambda>_. captured_before" and F = before_consume])
  show "triple before_consume (flow_fenced (fr_fence req) (capture_payment (fr_order req) pid (fr_request_id req)))
     (\<lambda>r h. case r of Inr x \<Rightarrow> captured_before h | Inl _ \<Rightarrow> before_consume h)"
    by (rule triple_post [OF triple_fenced [OF capture_triple, where F = before_consume]])
      (auto simp: captured_assert split: sum.splits fault.splits)
  show "triple captured_before (flow_return ()) (phase_post captured_before)"
    by (rule triple_return) simp
next
  fix error
  show "triple before_consume (if lost error then recover_later req (Some pid) error
      else flow_then (undo_all (fr_context req) (fr_order req) holds pid (fr_request_id req) (fr_fence req)) (\<lambda>_. flow_fail error))
      (phase_post captured_before)"
    by (intro failing_calm emits_intros)
qed (simp add: before_consume_guarded)

subsection \<open>Consumption\<close>

lemma captured_before_assert: "captured_before h \<Longrightarrow> assert_event ok e \<Longrightarrow> captured_before (h @ [e])"
  by (simp add: before_consume_calm)

definition sent_consume ::
  "pending_order \<Rightarrow> inventory_reservation list \<Rightarrow> fault + (int \<times> (string + json) \<times> (int \<Rightarrow> string)) \<Rightarrow> flow_event list \<Rightarrow> bool" where
  "sent_consume order holds r h \<longleftrightarrow> guarded h \<and> list_ex capture_settled h
     \<and> (case r of Inl _ \<Rightarrow> \<not> open_consume h
        | Inr (status, body, text') \<Rightarrow> open_consume h = (consume_answer text' order holds status body = Inr ()))"

lemma send_consume_triple:
  "triple captured_before (flow_then (inventory_call ''consume'' (consume_payload order holds fence)) (\<lambda>(reply, text').
      flow_then (flow_lift (http_sent code reply)) (\<lambda>(status, body). flow_return (status, body, text'))))
    (sent_consume order holds)"
  unfolding inventory_call_def
proof (rule tripleI)
  fix env :: flow_env and s :: flow_state
  assume h: "captured_before (fs_trace s)"
  let ?reply = "fe_inventory env (fs_step s) ''consume'' (consume_payload order holds fence)"
  let ?e = "Inventory_call ''consume'' (consume_payload order holds fence) ?reply"
  have g: "guarded (fs_trace s @ [?e])" using h by (simp add: before_consume_def saga_guard_def)
  have o: "open_consume (fs_trace s @ [?e]) = consume_confirmed ?e"
    using h by (simp add: open_consume_snoc before_consume_def)
  show "sent_consume order holds
     (fst (flow_then (flow_call (\<lambda>env n. (fe_inventory env n ''consume'' (consume_payload order holds fence), fe_status_text env))
        (\<lambda>(reply, _). Inventory_call ''consume'' (consume_payload order holds fence) reply))
        (\<lambda>(reply, text'). flow_then (flow_lift (http_sent code reply)) (\<lambda>(status, body). flow_return (status, body, text'))) env s))
     (fs_trace (snd (flow_then (flow_call (\<lambda>env n. (fe_inventory env n ''consume'' (consume_payload order holds fence), fe_status_text env))
        (\<lambda>(reply, _). Inventory_call ''consume'' (consume_payload order holds fence) reply))
        (\<lambda>(reply, text'). flow_then (flow_lift (http_sent code reply)) (\<lambda>(status, body). flow_return (status, body, text'))) env s)))"
  proof (cases ?reply)
    case (Http_failed x1)
    with g o h show ?thesis
      by (simp add: flow_then_def flow_call_def flow_lift_def http_sent_def refused_def sent_consume_def Let_def)
  next
    case (Http_reply status body)
    with g o h show ?thesis
      by (cases body) (simp_all add: flow_then_def flow_call_def flow_lift_def flow_return_def http_sent_def refused_def Let_def
        sent_consume_def consume_answer_confirmed [where fence = fence])
  qed
qed

lemma sent_consume_assert:
  "sent_consume order holds r h \<Longrightarrow> assert_event True e \<Longrightarrow> sent_consume order holds r (h @ [e])"
  "sent_consume order holds r h \<Longrightarrow> assert_event False e \<Longrightarrow> captured_before (h @ [e])"
  "sent_consume order holds (Inl err) h \<Longrightarrow> captured_before h"
  by (auto simp: sent_consume_def open_consume_snoc before_consume_def saga_guard_def split: sum.splits)
     (auto simp: assert_event_def)

lemma consume_attempt_triple:
  "triple captured_before (consume_inventory_attempt order holds fence)
     (\<lambda>r h. case r of Inr _ \<Rightarrow> consumed h | Inl _ \<Rightarrow> captured_before h)"
  unfolding consume_inventory_attempt_def send_inventory_def
proof (rule triple_seq [where F = captured_before and Q = "\<lambda>x. sent_consume order holds (Inr x)"])
  show "triple captured_before (flow_fenced fence (flow_then (inventory_call ''consume'' (consume_payload order holds fence))
      (\<lambda>(reply, text'). flow_then (flow_lift (http_sent ''inventory_commit_unavailable'' reply))
         (\<lambda>(status, body). flow_return (status, body, text')))))
     (\<lambda>r h. case r of Inr x \<Rightarrow> sent_consume order holds (Inr x) h | Inl _ \<Rightarrow> captured_before h)"
    by (rule triple_fenced [OF send_consume_triple, where F = captured_before])
      (auto simp: captured_before_assert dest: sent_consume_assert)
next
  fix x :: "int \<times> (string + json) \<times> (int \<Rightarrow> string)"
  obtain status body text' where x: "x = (status, body, text')" by (metis prod_cases3)
  show "triple (sent_consume order holds (Inr x)) (case x of (status, body, status_text) \<Rightarrow>
      flow_then (flow_assert fence) (\<lambda>_. flow_lift (consume_answer status_text order holds status body)))
     (\<lambda>r h. case r of Inr _ \<Rightarrow> consumed h | Inl _ \<Rightarrow> captured_before h)"
    unfolding x prod.case
  proof (rule triple_seq [where F = captured_before and Q = "\<lambda>_. sent_consume order holds (Inr (status, body, text'))"])
    show "triple (sent_consume order holds (Inr (status, body, text'))) (flow_assert fence)
       (\<lambda>r h. case r of Inr x \<Rightarrow> sent_consume order holds (Inr (status, body, text')) h | Inl _ \<Rightarrow> captured_before h)"
      by (rule triple_assert) (auto dest: sent_consume_assert)
    show "triple (sent_consume order holds (Inr (status, body, text'))) (flow_lift (consume_answer text' order holds status body))
       (\<lambda>r h. case r of Inr _ \<Rightarrow> consumed h | Inl _ \<Rightarrow> captured_before h)"
      by (rule triple_lift)
        (auto simp: sent_consume_def consumed_def before_consume_def refused_def split: sum.splits)
  qed simp
qed simp

lemma consume_triple:
  "triple captured_before (consume_inventory order holds fence)
     (\<lambda>r h. case r of Inr _ \<Rightarrow> consumed h | Inl _ \<Rightarrow> captured_before h)"
proof -
  have "triple captured_before (consume_attempts k order holds fence)
     (\<lambda>r h. case r of Inr _ \<Rightarrow> consumed h | Inl _ \<Rightarrow> captured_before h)" for k
  proof (induction k)
    case (Suc k)
    show ?case
      unfolding consume_attempts.simps
      by (rule triple_phase [OF consume_attempt_triple]) (auto intro!: triple_return triple_fail Suc)
  qed (simp add: triple_def)
  then show ?thesis by (simp add: consume_inventory_def)
qed

end
