(* ===== verification/CheckoutOutcome.thy ===== *)
theory CheckoutOutcome
  imports CheckoutGuard
begin

text \<open>
  What the end of a checkout says about its trace: the whole run follows the protocol of \<open>CheckoutSafety\<close>, a
  paid answer has its capture, its consumption and its durable order behind it, and an answer that is not
  paid has no capture at all.
\<close>

subsection \<open>Durable settlement\<close>

text \<open>The order is paid and its event is in the outbox.\<close>

definition settled_in :: "pending_order \<Rightarrow> shop_db \<Rightarrow> bool" where
  "settled_in order db \<longleftrightarrow>
     list_ex (\<lambda>o'. order_is order o' \<and> ord_status o' = ''paid'') (orders (core db))
     \<and> list_ex (\<lambda>e. ob_tenant e = po_tenant_id order \<and> ob_event_key e = paid_event_key order) (outbox db)"

fun settled_event :: "pending_order \<Rightarrow> flow_event \<Rightarrow> bool" where
  "settled_event order (Tx name ok db db') = (ok \<and> settled_in order db')"
| "settled_event order _ = False"

lemma sql_update_ok:
  assumes "sql_update chk p f rows = Inr (n, rows')"
  shows "rows' = update_where p f rows" "n = count_where p rows"
  using assms by (simp_all add: sql_update_def split: if_splits)

lemma updated_row:
  assumes "sql_update chk p f rows = Inr (n, rows')" "n \<noteq> 0" "\<And>r. p r \<Longrightarrow> q (f r)"
  shows "list_ex q rows'"
proof -
  from assms(1,2) have "filter p rows \<noteq> []" by (auto simp: sql_update_def count_where_def split: if_splits)
  then obtain r where "r \<in> set rows" "p r" by (auto simp: filter_empty_conv)
  with sql_update_ok(1) [OF assms(1)] assms(3) show ?thesis by (force simp: list_ex_iff update_where_def)
qed

lemma insert_or_skip_key:
  "insert_or_skip key ident chk r rows = Inr rows' \<Longrightarrow> list_ex (\<lambda>x. key x = key r) rows'"
  by (auto simp: insert_or_skip_def list_ex_iff split: if_splits)

lemma settle_order_ok:
  assumes "settle_order pg now order fence db = Inr db1"
  shows "list_ex (\<lambda>o'. order_is order o' \<and> ord_status o' = ''paid'') (orders (core db1))"
proof -
  from assms obtain n rows where u: "sql_update order_check (\<lambda>o'. order_is order o' \<and> ord_status o' = ''pending''
      \<and> generation_open fence [''started''] (po_tenant_id order) (core db)) (paid_order now) (orders (core db)) = Inr (n, rows)"
    and n: "n = 1" and db1: "db1 = db\<lparr>core := (core db)\<lparr>orders := rows\<rparr>\<rparr>"
    by (auto simp: settle_order_def map_err_def and_then_def split: sum.splits if_splits)
  have "list_ex (\<lambda>o'. order_is order o' \<and> ord_status o' = ''paid'') rows"
    by (rule updated_row [OF u]) (simp_all add: n paid_order_def order_is_def)
  with db1 show ?thesis by simp
qed

lemma close_cart_core: "close_cart pg now order db = Inr db1 \<Longrightarrow> core db1 = core db"
  by (auto simp: close_cart_def map_err_def and_then_def split: sum.splits if_splits)

lemma redeem_promotion_core: "redeem_promotion pg now order db = Inr db1 \<Longrightarrow> core db1 = core db"
  by (auto simp: redeem_promotion_def map_err_def and_then_def split: sum.splits if_splits option.splits)

lemma record_paid_events_ok:
  assumes "record_paid_events pg now u1 u2 context' order pid variant carrier db = Inr db1"
  shows "core db1 = core db"
    "list_ex (\<lambda>e. ob_tenant e = po_tenant_id order \<and> ob_event_key e = paid_event_key order) (outbox db1)"
proof -
  from assms obtain queued where q: "insert_or_skip (\<lambda>e. (ob_tenant e, ob_event_key e)) ob_id outbox_check
      (paid_outbox_row now order pid carrier) (outbox db) = Inr queued" and "outbox db1 = queued" "core db1 = core db"
    by (auto simp: record_paid_events_def map_err_def and_then_def split: sum.splits)
  with insert_or_skip_key [OF q] show "core db1 = core db"
    "list_ex (\<lambda>e. ob_tenant e = po_tenant_id order \<and> ob_event_key e = paid_event_key order) (outbox db1)"
    by (simp_all add: paid_outbox_row_def split: prod.splits)
qed

lemma finalize_tx_settles:
  assumes "finalize_tx pg pool now u1 u2 to_str' context' order pid variant fence db = Inr db1"
  shows "settled_in order db1"
proof -
  from assms obtain carrier a b c where
    a: "settle_order pg now order fence db = Inr a" and b: "close_cart pg now order a = Inr b"
    and c: "redeem_promotion pg now order b = Inr c"
    and d: "record_paid_events pg now u1 u2 context' order pid variant carrier c = Inr db1"
    by (auto simp: finalize_tx_def and_then_def split: sum.splits)
  from settle_order_ok [OF a] close_cart_core [OF b] redeem_promotion_core [OF c] record_paid_events_ok [OF d]
  show ?thesis by (simp add: settled_in_def)
qed

lemma finalize_order_settles:
  "finalize_order pg pool commit now u1 u2 to_str' context' order pid variant fence db = (Inr (), db1) \<Longrightarrow> settled_in order db1"
  by (auto simp: finalize_order_def split: sum.splits commit_outcome.splits dest: finalize_tx_settles)

lemma finalization_committed_settled:
  assumes "finalization_committed pg pool order db = Inr True"
  shows "settled_in order db"
proof -
  from assms obtain o' where o': "query_opt (filter (\<lambda>o'. ord_tenant o' = po_tenant_id order \<and> ord_id o' = po_id order)
       (orders (core db))) = Inr (Some o')" and paid: "ord_status o' = ''paid''"
    and ev: "list_ex (\<lambda>e. ob_tenant e = ord_tenant o' \<and> ob_event_key e = po_id order @ '':paid'') (outbox db)"
    by (auto simp: finalization_committed_def and_then_def map_err_def Let_def split: sum.splits option.splits if_splits)
  from o' [unfolded query_opt_Some] have "o' \<in> set (filter (\<lambda>o'. ord_tenant o' = po_tenant_id order \<and> ord_id o' = po_id order) (orders (core db)))"
    by simp
  with paid ev show ?thesis by (auto simp: settled_in_def list_ex_iff order_is_def paid_event_key_def)
qed

subsection \<open>The settling phases\<close>

definition still :: "flow_event \<Rightarrow> bool" where
  "still e \<longleftrightarrow> soft e \<and> \<not> fence_failed e"

definition paid_trace :: "pending_order \<Rightarrow> flow_event list \<Rightarrow> bool" where
  "paid_trace order h \<longleftrightarrow> consumed h \<and> list_ex (settled_event order) h"

lemma consumed_still: "consumed h \<Longrightarrow> still e \<Longrightarrow> consumed (h @ [e])"
  using guarded_soft [of h e] by (auto simp: consumed_def still_def open_consume_snoc)

lemma paid_still: "paid_trace order h \<Longrightarrow> still e \<Longrightarrow> paid_trace order (h @ [e])"
  by (simp add: paid_trace_def consumed_still)

lemma consumed_guarded: "consumed h \<Longrightarrow> guarded h" "paid_trace order h \<Longrightarrow> guarded h"
  by (simp_all add: consumed_def paid_trace_def)

lemma failing_soft:
  assumes "emits soft m" "refuses m"
  shows "triple guarded m (phase_post Q)"
  by (rule triple_post [OF triple_refuses [OF soft_program [OF assms(1)] assms(2), where T = "\<lambda>_ _. False"]])
    (auto split: sum.splits)

lemma consume_phase_triple: "triple captured_before (consume_phase req pid holds) (phase_post consumed)"
  unfolding consume_phase_def
proof (rule triple_phase [OF consume_triple])
  show "triple consumed (flow_return ()) (phase_post consumed)"
    by (rule triple_return) simp
next
  fix error
  show "triple captured_before (if lost error then recover_later req (Some pid) error
      else if is_retryable_inventory_consume_error error then
        flow_then (register_open req (Some pid)) (\<lambda>_. flow_fail (post_consume_error
          ''inventory consume outcome is ambiguous; durable checkout reconciliation is queued''))
      else flow_then (undo_all (fr_context req) (fr_order req) holds pid (fr_request_id req) (fr_fence req)) (\<lambda>_. flow_fail error))
      (phase_post consumed)"
    by (rule triple_pre [OF failing_calm [where Q = consumed]]) (auto intro!: emits_intros)
qed (simp add: before_consume_guarded)

lemma finalize_triple:
  "triple consumed (flow_finalize context' order pid variant fence)
     (\<lambda>r h. case r of Inr _ \<Rightarrow> paid_trace order h | Inl _ \<Rightarrow> consumed h)"
  unfolding flow_finalize_def
proof (rule triple_db)
  fix env :: flow_env and n h and db :: shop_db assume h: "consumed h"
  let ?run = "finalize_order (fe_pg env) (fe_pool env n) (fe_commit env n) (fe_now env n) (fe_uuid env n 0)
     (fe_uuid env n 1) (fe_to_str env) context' order pid variant fence db"
  obtain r db1 where run: "?run = (r, db1)" by fastforce
  let ?e = "Tx ''finalize_order'' (is_ok r) db db1"
  have c: "consumed (h @ [?e])"
    using h by (simp add: consumed_def saga_guard_def open_consume_snoc)
  have p: "paid_trace order (h @ [?e])" if "r = Inr ()"
    using c that finalize_order_settles [of "fe_pg env" "fe_pool env n" "fe_commit env n" "fe_now env n" "fe_uuid env n 0"
      "fe_uuid env n 1" "fe_to_str env" context' order pid variant fence db db1] run by (simp add: paid_trace_def)
  show "case fst (case ?run of (r, db1) \<Rightarrow> (refused r, db1)) of
      Inr _ \<Rightarrow> paid_trace order (h @ [Tx ''finalize_order'' (is_ok (fst (case ?run of (r, db1) \<Rightarrow> (refused r, db1)))) db
        (snd (case ?run of (r, db1) \<Rightarrow> (refused r, db1)))])
    | Inl _ \<Rightarrow> consumed (h @ [Tx ''finalize_order'' (is_ok (fst (case ?run of (r, db1) \<Rightarrow> (refused r, db1)))) db
        (snd (case ?run of (r, db1) \<Rightarrow> (refused r, db1)))])"
    using c p unfolding run by (cases r) (simp_all add: refused_def map_err_def)
qed

lemma finalization_committed_triple:
  "triple consumed (flow_finalization_committed order)
     (\<lambda>r h. case r of Inr c \<Rightarrow> consumed h \<and> (c \<longrightarrow> paid_trace order h) | Inl _ \<Rightarrow> consumed h)"
  unfolding flow_finalization_committed_def flow_read_def
proof (rule triple_db)
  fix env :: flow_env and n h and db :: shop_db assume h: "consumed h"
  let ?r = "finalization_committed (fe_pg env) (fe_pool env n) order db"
  let ?e = "Tx ''finalization_committed'' (is_ok ?r) db db"
  have c: "consumed (h @ [?e])" using h by (simp add: consumed_still still_def)
  have "paid_trace order (h @ [?e])" if "?r = Inr True"
    using c that finalization_committed_settled [OF that] by (simp add: paid_trace_def)
  with c show "case fst (refused ?r, db) of
      Inr c \<Rightarrow> consumed (h @ [Tx ''finalization_committed'' (is_ok (fst (refused ?r, db))) db (snd (refused ?r, db))])
        \<and> (c \<longrightarrow> paid_trace order (h @ [Tx ''finalization_committed'' (is_ok (fst (refused ?r, db))) db (snd (refused ?r, db))]))
    | Inl _ \<Rightarrow> consumed (h @ [Tx ''finalization_committed'' (is_ok (fst (refused ?r, db))) db (snd (refused ?r, db))])"
    by (cases ?r) (auto simp: refused_def map_err_def)
qed

lemma finalization_known_triple:
  "triple consumed (finalization_known order)
     (\<lambda>r h. case r of Inr c \<Rightarrow> consumed h \<and> (c \<longrightarrow> paid_trace order h) | Inl _ \<Rightarrow> guarded h)"
  unfolding finalization_known_def
  by (rule triple_phase [OF finalization_committed_triple])
    (auto intro!: triple_return triple_fail simp: consumed_guarded)

lemma finalize_phase_triple: "triple consumed (finalize_phase req pid) (phase_post (paid_trace (fr_order req)))"
  unfolding finalize_phase_def
proof (rule triple_phase [OF finalize_triple])
  show "triple (paid_trace (fr_order req)) (flow_return ()) (phase_post (paid_trace (fr_order req)))"
    by (rule triple_return) simp
next
  fix error
  have later: "triple consumed (recover_later req (Some pid) error :: unit flow) (phase_post (paid_trace (fr_order req)))"
    by (rule triple_pre [OF failing_soft]) (auto intro: emits_intros simp: consumed_guarded)
  have known: "triple consumed (flow_then (finalization_known (fr_order req)) (\<lambda>committed. if committed then flow_return ()
      else flow_then (register_open req (Some pid)) (\<lambda>_. flow_fail (post_consume_error
        ''inventory is already consumed; durable order finalization reconciliation is queued''))))
      (phase_post (paid_trace (fr_order req)))"
  proof (rule triple_seq [OF finalization_known_triple])
    fix c
    show "triple (\<lambda>h. consumed h \<and> (c \<longrightarrow> paid_trace (fr_order req) h)) (if c then flow_return ()
      else flow_then (register_open req (Some pid)) (\<lambda>_. flow_fail (post_consume_error
        ''inventory is already consumed; durable order finalization reconciliation is queued'')))
      (phase_post (paid_trace (fr_order req)))"
    proof (cases c)
      case False
      show ?thesis
        unfolding if_not_P [OF False]
        by (rule triple_pre [OF failing_soft]) (auto intro!: emits_intros simp: consumed_guarded)
    qed (auto intro: triple_return)
  qed simp
  from later known show "triple consumed (if lost error then recover_later req (Some pid) error
      else flow_then (finalization_known (fr_order req)) (\<lambda>committed. if committed then flow_return ()
      else flow_then (register_open req (Some pid)) (\<lambda>_. flow_fail (post_consume_error
        ''inventory is already consumed; durable order finalization reconciliation is queued''))))
      (phase_post (paid_trace (fr_order req)))"
    by simp
qed (simp add: consumed_guarded)

lemma recommendation_triple:
  "triple (paid_trace order) (recommendation t g k) (\<lambda>r h. r \<noteq> Inl Panic \<and> paid_trace order h)"
proof (rule triple_steady)
  show "triple (paid_trace order) (recommendation t g k) (\<lambda>_. paid_trace order)"
    unfolding recommendation_def Let_def
    by (rule emits_invariant [where E = still]) (auto intro!: emits_intros emits_effects paid_still simp: still_def)
  show "steady (recommendation t g k)"
    unfolding recommendation_def Let_def by (auto intro!: emits_intros split: prod.splits)
qed

definition answer_status :: "json \<Rightarrow> string option" where
  "answer_status answer = Option.bind (json_get answer ''status'') json_as_str"

definition answer_order :: "json \<Rightarrow> string option" where
  "answer_order answer = Option.bind (json_get answer ''order_id'') json_as_str"

lemma answer_simps [simp]:
  "answer_status (paid_json order pid variant catalog quote recommended) = Some ''paid''"
  "answer_order (paid_json order pid variant catalog quote recommended) = Some (po_id order)"
  "answer_status (degraded_json order catalog quote error) = Some ''degraded''"
  "answer_status (unknown_payment_json order variant catalog quote) = Some ''payment_pending''"
  "answer_status (pending_payment_json order authorization variant catalog quote) = Some ''payment_pending''"
  by (simp_all add: answer_status_def answer_order_def paid_json_def degraded_json_def unknown_payment_json_def
      pending_payment_json_def order_fields_def json_get_def json_as_str_def)

text \<open>What an answer says of the run behind it.\<close>

definition honest :: "fault + json \<Rightarrow> flow_event list \<Rightarrow> bool" where
  "honest r h \<longleftrightarrow> (case r of
     Inl _ \<Rightarrow> True
   | Inr answer \<Rightarrow>
       if answer_status answer = Some ''paid'' then \<exists>order. answer_order answer = Some (po_id order) \<and> paid_trace order h
       else list_all calm h)"

lemma answer_phase_triple:
  "triple (paid_trace (fr_order req)) (answer_phase req pid) (\<lambda>r h. guarded h \<and> honest r h)"
  unfolding answer_phase_def
proof (rule triple_seq [where F = "\<lambda>_. False" and Q = "\<lambda>_. paid_trace (fr_order req)"])
  show "triple (paid_trace (fr_order req)) (if \<not> checkout_variant_includes_recommendation (fr_variant req) then flow_return JNull
        else flow_match (recommendation (po_tenant_id (fr_order req)) (in_segment (fr_input req))
               (ci_sku (hd (in_items (fr_input req))))) (\<lambda>result.
             flow_return (case result of Inr body \<Rightarrow> body | Inl error \<Rightarrow> JObj [(''error'', JStr (ae_message error))])))
     (\<lambda>r h. case r of Inr _ \<Rightarrow> paid_trace (fr_order req) h | Inl _ \<Rightarrow> False)"
    by (auto intro!: triple_return triple_match [where R = "\<lambda>_. paid_trace (fr_order req)"]
      triple_post [OF recommendation_triple] split: sum.splits fault.splits)
next
  fix x
  show "triple (paid_trace (fr_order req)) (flow_return (paid_json (fr_order req) pid (fr_variant req) (fr_catalog req) (fr_quote req) x))
    (\<lambda>r h. guarded h \<and> honest r h)"
    by (rule triple_return) (auto simp: honest_def consumed_guarded)
qed simp

lemma settle_phases_triple:
  "triple before_consume (settle_phases req pid) (\<lambda>r h. guarded h \<and> honest r h)"
  unfolding settle_phases_def
proof (rule triple_seq [where Q = "\<lambda>_. before_consume" and F = guarded])
  show "triple before_consume (reservation_phase req pid) (phase_post before_consume)"
    by (rule calm_phase) (intro emits_intros)
next
  fix holds
  show "triple before_consume (flow_then (capture_phase req pid holds) (\<lambda>_. flow_then (consume_phase req pid holds)
      (\<lambda>_. flow_then (finalize_phase req pid) (\<lambda>_. answer_phase req pid)))) (\<lambda>r h. guarded h \<and> honest r h)"
    by (intro triple_seq [OF capture_phase_triple] triple_seq [OF consume_phase_triple] triple_seq [OF finalize_phase_triple]
        answer_phase_triple) (simp_all add: honest_def)
qed (simp add: honest_def)

subsection \<open>The flow\<close>

definition uncharged :: "flow_event list \<Rightarrow> bool" where
  "uncharged h \<longleftrightarrow> before_consume h \<and> list_all calm h"

lemma uncharged_program: "emits calm m \<Longrightarrow> triple uncharged m (\<lambda>_. uncharged)"
  by (erule emits_invariant) (simp add: uncharged_def before_consume_calm)

lemma uncharged_phase: "emits calm m \<Longrightarrow> triple uncharged m (\<lambda>r h. case r of Inr _ \<Rightarrow> uncharged h | Inl _ \<Rightarrow> uncharged h)"
  by (rule triple_post [OF uncharged_program]) (auto split: sum.splits)

lemma uncharged_post: "uncharged h \<Longrightarrow> guarded h \<and> honest (Inl e) h"
  by (simp add: uncharged_def before_consume_guarded honest_def)

lemma authorization_answers:
  "yields (\<lambda>outcome. case outcome of Inl answer \<Rightarrow> answer_status answer \<noteq> Some ''paid'' | Inr _ \<Rightarrow> True) (authorization_phase req)"
  unfolding authorization_phase_def recover_later_def
  by (auto intro!: emits_intros split: sum.splits authorization_recovery.splits)

lemma payment_phases_triple: "triple uncharged (payment_phases req) (\<lambda>r h. guarded h \<and> honest r h)"
  unfolding payment_phases_def
proof (rule triple_seq [where F = uncharged and Q = "\<lambda>outcome h. uncharged h \<and>
      (case outcome of Inl answer \<Rightarrow> answer_status answer \<noteq> Some ''paid'' | Inr _ \<Rightarrow> True)"])
  show "triple uncharged (authorization_phase req) (\<lambda>r h. case r of Inr outcome \<Rightarrow> uncharged h \<and>
      (case outcome of Inl answer \<Rightarrow> answer_status answer \<noteq> Some ''paid'' | Inr _ \<Rightarrow> True) | Inl _ \<Rightarrow> uncharged h)"
    by (rule triple_post [OF triple_yields [OF uncharged_program authorization_answers]])
      (auto intro: emits_intros split: sum.splits)
next
  fix outcome :: "json + payment_authorization"
  let ?P = "\<lambda>h. uncharged h \<and> (case outcome of Inl answer \<Rightarrow> answer_status answer \<noteq> Some ''paid'' | Inr _ \<Rightarrow> True)"
  show "triple ?P (case outcome of Inl answer \<Rightarrow> flow_return answer
     | Inr authorization \<Rightarrow> if pa_operation_status authorization = Op_pending then
           flow_then (register_open req (Some (pa_payment_id authorization))) (\<lambda>_.
           flow_return (pending_payment_json (fr_order req) authorization (fr_variant req) (fr_catalog req) (fr_quote req)))
         else settle_phases req (pa_payment_id authorization)) (\<lambda>r h. guarded h \<and> honest r h)"
  proof (cases outcome)
    case (Inl answer)
    then show ?thesis by (auto intro!: triple_return simp: uncharged_def before_consume_guarded honest_def)
  next
    case (Inr authorization)
    have pending: "triple uncharged (flow_then (register_open req (Some (pa_payment_id authorization))) (\<lambda>_.
        flow_return (pending_payment_json (fr_order req) authorization (fr_variant req) (fr_catalog req) (fr_quote req))))
        (\<lambda>r h. guarded h \<and> honest r h)"
      by (rule triple_seq [OF uncharged_phase])
        (auto intro!: emits_intros triple_return simp: uncharged_def before_consume_guarded honest_def)
    have settle: "triple uncharged (settle_phases req (pa_payment_id authorization)) (\<lambda>r h. guarded h \<and> honest r h)"
      by (rule triple_pre [OF settle_phases_triple]) (simp add: uncharged_def)
    from pending settle show ?thesis by (simp add: Inr)
  qed
qed (rule uncharged_post)

lemma checkout_flow_triple: "triple uncharged (checkout_flow input lease) (\<lambda>r h. guarded h \<and> honest r h)"
  unfolding checkout_flow_def
  by (auto intro!: triple_seq [OF uncharged_phase] payment_phases_triple uncharged_post [THEN conjunct1]
      uncharged_post [THEN conjunct2] emits_intros split: prod.splits)

definition flow_start :: "shop_db \<Rightarrow> flow_state" where
  "flow_start db = \<lparr>fs_db = db, fs_step = 0, fs_trace = []\<rparr>"

lemma uncharged_start: "uncharged (fs_trace (flow_start db))"
  by (simp add: uncharged_def before_consume_def flow_start_def)

lemmas checkout_flow_run = tripleD [OF checkout_flow_triple uncharged_start]

end
