(* ===== verification/CheckoutCharge.thy ===== *)
theory CheckoutCharge
  imports CheckoutOutcome
begin

text \<open>
  No charge is forgotten. Once a capture was requested, a run ends in a paid answer, or it has committed a
  durable intent (a reconciliation or a payment compensation task), or its last event is a failed transaction.
\<close>

definition INTENTS :: "string list" where
  "INTENTS = [''register_pending_payment_reconciliation'', ''queue_checkout_finalization_recovery'',
     ''enqueue_payment_compensation_task'']"

fun durable_intent :: "flow_event \<Rightarrow> bool" where
  "durable_intent (Tx name ok db db') = (ok \<and> name \<in> set INTENTS)"
| "durable_intent _ = False"

fun failed_tx :: "flow_event \<Rightarrow> bool" where
  "failed_tx (Tx name ok db db') = (\<not> ok)"
| "failed_tx _ = False"

definition open_charge :: "flow_event list \<Rightarrow> bool" where
  "open_charge h = foldl (\<lambda>b e. if capture_call e then True else if durable_intent e then False else b) False h"

definition ends_failed :: "flow_event list \<Rightarrow> bool" where
  "ends_failed h \<longleftrightarrow> h \<noteq> [] \<and> failed_tx (last h)"

definition accounted :: "flow_event list \<Rightarrow> bool" where
  "accounted h \<longleftrightarrow> \<not> open_charge h \<or> ends_failed h"

lemma open_charge_Nil [simp]: "\<not> open_charge []"
  by (simp add: open_charge_def)

lemma open_charge_snoc:
  "open_charge (h @ [e]) = (if capture_call e then True else if durable_intent e then False else open_charge h)"
  by (simp add: open_charge_def)

lemma no_charge_calm: "\<not> open_charge h \<Longrightarrow> calm e \<Longrightarrow> \<not> open_charge (h @ [e])"
  by (simp add: open_charge_snoc calm_def)

lemma no_charge_program: "emits calm m \<Longrightarrow> triple (\<lambda>h. \<not> open_charge h) m (\<lambda>_ h. \<not> open_charge h)"
  by (erule emits_invariant) (rule no_charge_calm)

abbreviation closing :: "fault + 'a \<Rightarrow> flow_event list \<Rightarrow> bool" where
  "closing r h \<equiv> (case r of Inr _ \<Rightarrow> \<not> open_charge h | Inl _ \<Rightarrow> accounted h)"

lemma no_charge_phase: "emits calm m \<Longrightarrow> triple (\<lambda>h. \<not> open_charge h) m closing"
  by (rule triple_post [OF no_charge_program]) (auto simp: accounted_def split: sum.splits)

lemma intent_triple:
  assumes "name \<in> set INTENTS"
  shows "triple (\<lambda>_. True) (flow_core name op) closing"
  unfolding flow_core_def
  by (rule triple_db) (auto simp: open_charge_snoc accounted_def ends_failed_def assms split: sum.splits)

lemma closing_then:
  assumes "triple P m closing" "\<And>x. emits calm (f x)"
  shows "triple P (flow_then m f) closing"
  by (rule triple_seq [OF assms(1)]) (auto intro: no_charge_phase assms(2))

lemma intents_close:
  "triple (\<lambda>_. True) (register_open req pid) closing"
  "triple (\<lambda>_. True) (recover_later req pid error) closing"
  "triple (\<lambda>_. True) (enqueue_payment_compensation_task order pid' rid context' fence) closing"
  unfolding register_open_def recover_later_def flow_register_def flow_queue_recovery_def enqueue_payment_compensation_task_def
  by (intro closing_then intent_triple emits_intros; simp add: INTENTS_def)+

lemma undo_payment_closes: "triple (\<lambda>_. True) (undo_payment context' order pid rid fence ok) closing"
  unfolding undo_payment_def by (intro closing_then intents_close emits_intros)

subsection \<open>Programs that cannot panic\<close>

lemma steady_fenced [emits_intros]: "steady m \<Longrightarrow> steady (flow_fenced fence m)"
  unfolding flow_fenced_def flow_assert_def by (auto intro!: emits_intros split: sum.splits)

lemma steady_tx [emits_intros]:
  "steady (flow_assert fence)" "steady (flow_activate order fence key)" "steady (flow_begin_operation order key fence)"
  "steady (flow_complete_operation order key fence)" "steady (flow_resolve order key fence)"
  "steady (flow_finalization_committed order)"
  unfolding flow_assert_def flow_activate_def flow_begin_operation_def flow_complete_operation_def flow_resolve_def
    flow_finalization_committed_def
  by (intro emits_intros)+

lemma steady_send [emits_intros]: "steady (send_inventory fence code path payload)"
  unfolding send_inventory_def inventory_call_def by (auto intro!: emits_intros split: prod.splits)

lemma steady_release [emits_intros]: "steady (release_inventory_with_recovery context' order holds fence)"
proof -
  have "steady (release_each order fence err holds)" for err
    by (induction holds arbitrary: err) (auto intro!: emits_intros split: sum.splits option.splits prod.splits)
  then show ?thesis
    unfolding release_inventory_with_recovery_def release_inventory_def enqueue_inventory_compensation_tasks_def
    by (intro emits_intros)
qed

lemma steady_capture [emits_intros]: "steady (capture_payment order pid rid)"
  unfolding capture_payment_def payment_call_def by (intro emits_intros)

lemma steady_consume [emits_intros]: "steady (consume_inventory order holds fence)"
proof -
  have attempt: "steady (consume_inventory_attempt order holds fence)"
    unfolding consume_inventory_attempt_def by (auto intro!: emits_intros split: prod.splits)
  have "steady (consume_attempts (Suc k) order holds fence)" for k
    by (induction k) (auto intro!: emits_intros attempt split: sum.splits)
  from this [of 2] show ?thesis by (simp add: consume_inventory_def INVENTORY_CONSUME_ATTEMPTS_def eval_nat_numeral)
qed

lemma steady_finalize [emits_intros]: "steady (flow_finalize context' order pid variant fence)"
  unfolding flow_finalize_def by (rule steady_db) (simp split: prod.splits)

subsection \<open>Phases\<close>

lemma any_triple: "triple P m (\<lambda>r h. case r of Inr _ \<Rightarrow> True | Inl _ \<Rightarrow> True)"
  by (auto simp: triple_def split: sum.splits)

lemma undo_all_closes: "triple (\<lambda>_. True) (undo_all context' order holds pid rid fence) closing"
  unfolding undo_all_def
proof (rule triple_match [where R = "\<lambda>_ _. True"])
  show "triple (\<lambda>_. True) (release_inventory_with_recovery context' order holds fence)
     (\<lambda>r h. case r of Inl Panic \<Rightarrow> closing (Inl Panic :: fault + unit) h | Inl (Refused e) \<Rightarrow> True | Inr x \<Rightarrow> True)"
    by (rule triple_post [OF triple_steady [OF any_triple steady_release]]) (auto split: sum.splits fault.splits)
qed (rule undo_payment_closes)

text \<open>A phase that may leave a charge open only when it succeeds.\<close>

abbreviation leaves :: "fault + 'a \<Rightarrow> flow_event list \<Rightarrow> bool" where
  "leaves r h \<equiv> (case r of Inr _ \<Rightarrow> True | Inl _ \<Rightarrow> accounted h)"

lemma closing_leaves: "triple P m closing \<Longrightarrow> triple P m leaves"
  by (erule triple_post) (auto split: sum.splits)

lemmas phase_leaves = triple_phase_steady [OF any_triple, where T = leaves]

lemma capture_phase_leaves: "triple (\<lambda>_. True) (capture_phase req pid holds) leaves"
  unfolding capture_phase_def
  by (rule phase_leaves)
    (auto intro!: emits_intros closing_leaves closing_then intents_close undo_all_closes triple_return)

lemma consume_phase_leaves: "triple (\<lambda>_. True) (consume_phase req pid holds) leaves"
  unfolding consume_phase_def
  by (rule phase_leaves)
    (auto intro!: emits_intros closing_leaves closing_then intents_close undo_all_closes triple_return)

lemma finalization_known_leaves: "triple (\<lambda>_. True) (finalization_known order) leaves"
  unfolding finalization_known_def
proof (rule triple_phase_steady [where Q = "\<lambda>_ _. True" and F = ends_failed])
  show "triple (\<lambda>_. True) (flow_finalization_committed order) (\<lambda>r h. case r of Inr x \<Rightarrow> True | Inl _ \<Rightarrow> ends_failed h)"
    unfolding flow_finalization_committed_def flow_read_def
    by (rule triple_db) (auto simp: ends_failed_def split: sum.splits)
qed (auto intro!: emits_intros triple_return triple_fail simp: accounted_def)

lemma finalize_phase_leaves: "triple (\<lambda>_. True) (finalize_phase req pid) leaves"
proof -
  have open_case: "triple (\<lambda>_. True) (if c then flow_return () else flow_then (register_open req (Some pid)) (\<lambda>_. flow_fail e)) leaves"
    for c e
    by (cases c) (auto intro: triple_return closing_leaves closing_then intents_close emits_intros)
  show ?thesis
    unfolding finalize_phase_def
    by (rule phase_leaves) (auto intro!: emits_intros closing_leaves [OF intents_close(2)] triple_return
      triple_seq [OF finalization_known_leaves] open_case)
qed

definition charge_answered :: "fault + json \<Rightarrow> flow_event list \<Rightarrow> bool" where
  "charge_answered r h \<longleftrightarrow> accounted h \<or> (\<exists>answer. r = Inr answer \<and> answer_status answer = Some ''paid'')"

lemma answer_phase_paid: "triple (\<lambda>_. True) (answer_phase req pid) charge_answered"
proof -
  have st: "steady (recommendation t g k)" for t g k
    unfolding recommendation_def Let_def by (auto intro!: emits_intros split: prod.splits)
  have "triple (\<lambda>_. True) (answer_phase req pid) (\<lambda>r h. \<forall>e. r \<noteq> Inl e)"
    unfolding answer_phase_def
    by (rule triple_seq [where F = "\<lambda>_. False" and Q = "\<lambda>_ _. True"])
      (auto intro!: triple_return triple_match [where R = "\<lambda>_ _. True"] triple_post [OF triple_steady [OF any_triple st]]
        split: sum.splits fault.splits)
  moreover have "yields (\<lambda>answer. answer_status answer = Some ''paid'') (answer_phase req pid)"
    unfolding answer_phase_def by (auto intro!: emits_intros)
  ultimately show ?thesis
    unfolding triple_def yields_def charge_answered_def by (metis sum.exhaust)
qed

lemma accounted_answered: "accounted h \<Longrightarrow> charge_answered r h" "\<not> open_charge h \<Longrightarrow> charge_answered r h"
  by (simp_all add: charge_answered_def accounted_def)

lemma settle_phases_answered: "triple (\<lambda>h. \<not> open_charge h) (settle_phases req pid) charge_answered"
  unfolding settle_phases_def
proof (rule triple_seq [OF no_charge_phase])
  fix holds
  show "triple (\<lambda>h. \<not> open_charge h) (flow_then (capture_phase req pid holds) (\<lambda>_. flow_then (consume_phase req pid holds)
      (\<lambda>_. flow_then (finalize_phase req pid) (\<lambda>_. answer_phase req pid)))) charge_answered"
    by (intro triple_pre [where P = "\<lambda>_. True", OF triple_seq [OF capture_phase_leaves]] triple_seq [OF consume_phase_leaves]
        triple_seq [OF finalize_phase_leaves] answer_phase_paid TrueI accounted_answered(1))
qed (auto intro: emits_intros accounted_answered)

lemma checkout_flow_answered: "triple (\<lambda>h. \<not> open_charge h) (checkout_flow input lease) charge_answered"
proof -
  have "triple (\<lambda>h. \<not> open_charge h) (payment_phases req) charge_answered" for req
    unfolding payment_phases_def
    by (auto intro!: triple_seq [OF no_charge_phase] emits_intros triple_return settle_phases_answered
        intro: accounted_answered split: sum.splits)
  then show ?thesis
    unfolding checkout_flow_def
    by (auto intro!: triple_seq [OF no_charge_phase] emits_intros intro: accounted_answered split: prod.splits)
qed

end
