(* ===== verification/CheckoutCompensate.thy ===== *)
theory CheckoutCompensate
  imports CheckoutCharge
begin

text \<open>
  Undoing a payment, and how often the saga calls: every refund is for the balance the lookup just before it
  reported, a confirmed compensation has a lookup that confirms it, and the retries are bounded.
\<close>

subsection \<open>Counting events\<close>

definition costs :: "(flow_event \<Rightarrow> bool) \<Rightarrow> nat \<Rightarrow> 'a flow \<Rightarrow> bool" where
  "costs E k m \<longleftrightarrow> (\<forall>env s. \<exists>ts. fs_trace (snd (m env s)) = fs_trace s @ ts \<and> length (filter E ts) \<le> k)"

lemma costs_mono: "costs E k m \<Longrightarrow> k \<le> k' \<Longrightarrow> costs E k' m"
  unfolding costs_def by (meson order_trans)

lemma emits_costs: "emits F m \<Longrightarrow> (\<And>e. F e \<Longrightarrow> \<not> E e) \<Longrightarrow> costs E 0 m"
  unfolding emits_def costs_def by (metis (no_types, lifting) filter_False list_all_iff list.size(3) order_refl)

lemma costs_call: "costs E 1 (flow_call ask event)"
  by (auto simp: costs_def flow_call_def Let_def)

lemma costs_lift: "costs E 0 (flow_lift r)"
  by (simp add: costs_def flow_lift_def)

lemma costs_return: "costs E 0 (flow_return x)" and costs_fail: "costs E 0 (flow_fail e)"
  by (simp_all add: flow_return_def flow_fail_def costs_lift)

text \<open>A run of \<open>m\<close> followed by a run of \<open>n\<close>.\<close>

lemma costs_append:
  assumes "costs E k m" "costs E k' n" "snd (m env s) = s1"
  shows "\<exists>ts. fs_trace (snd (n env s1)) = fs_trace s @ ts \<and> length (filter E ts) \<le> k + k'"
proof -
  from assms(1,3) obtain ts where "fs_trace s1 = fs_trace s @ ts" "length (filter E ts) \<le> k"
    unfolding costs_def by blast
  moreover from assms(2) obtain us where "fs_trace (snd (n env s1)) = fs_trace s1 @ us" "length (filter E us) \<le> k'"
    unfolding costs_def by blast
  ultimately show ?thesis by (intro exI [of _ "ts @ us"]) simp
qed

lemma costs_stop: "costs E k m \<Longrightarrow> snd (m env s) = s1 \<Longrightarrow> \<exists>ts. fs_trace s1 = fs_trace s @ ts \<and> length (filter E ts) \<le> k + k'"
  unfolding costs_def by (metis trans_le_add1)

lemma costs_then:
  assumes m: "costs E k m" and f: "\<And>x. costs E k' (f x)"
  shows "costs E (k + k') (flow_then m f)"
  unfolding costs_def
proof (intro allI)
  fix env :: flow_env and s :: flow_state
  obtain r s1 where run: "m env s = (r, s1)" by fastforce
  then have s1: "snd (m env s) = s1" by simp
  show "\<exists>ts. fs_trace (snd (flow_then m f env s)) = fs_trace s @ ts \<and> length (filter E ts) \<le> k + k'"
    using costs_append [OF m f s1] costs_stop [OF m s1, of k'] run
    by (cases r) (auto simp: flow_then_def)
qed

lemma costs_match:
  assumes m: "costs E k m" and f: "\<And>x. costs E k' (f x)"
  shows "costs E (k + k') (flow_match m f)"
  unfolding costs_def
proof (intro allI)
  fix env :: flow_env and s :: flow_state
  obtain r s1 where run: "m env s = (r, s1)" by fastforce
  then have s1: "snd (m env s) = s1" by simp
  show "\<exists>ts. fs_trace (snd (flow_match m f env s)) = fs_trace s @ ts \<and> length (filter E ts) \<le> k + k'"
    using costs_append [OF m f s1] costs_stop [OF m s1, of k'] run
    by (auto simp: flow_match_def split: sum.splits fault.splits)
qed

lemma costs_if: "costs E k m \<Longrightarrow> costs E k m' \<Longrightarrow> costs E k (if b then m else m')"
  by simp

lemma costs_seq: "costs E k m \<Longrightarrow> (\<And>x. costs E k' (f x)) \<Longrightarrow> k + k' \<le> n \<Longrightarrow> costs E n (flow_then m f)"
  "costs E k m \<Longrightarrow> (\<And>x. costs E k' (g x)) \<Longrightarrow> k + k' \<le> n \<Longrightarrow> costs E n (flow_match m g)"
  by (blast intro: costs_mono costs_then costs_match)+

subsection \<open>Undoing a payment\<close>

fun lookup_of :: "pending_order \<Rightarrow> string \<Rightarrow> flow_event \<Rightarrow> payment_snapshot option" where
  "lookup_of order pid (Payment_call (GetPaymentRequest p tenant) reply) =
     (if p = pid \<and> tenant = po_tenant_id order
      then (case snapshot_answer order pid reply of Inr snapshot \<Rightarrow> Some snapshot | Inl _ \<Rightarrow> None) else None)"
| "lookup_of order pid _ = None"

text \<open>A refund asks for the open balance, a void is for an uncaptured authorization, both just looked up.\<close>

fun undo_follows :: "pending_order \<Rightarrow> string \<Rightarrow> flow_event \<Rightarrow> flow_event \<Rightarrow> bool" where
  "undo_follows order pid before (Payment_call (RefundRequest rid p amount tenant) reply) =
     (case lookup_of order pid before of
        None \<Rightarrow> False
      | Some snapshot \<Rightarrow> p = pid \<and> mo_amount_minor amount = sn_captured_minor snapshot - sn_refunded_minor snapshot
          \<and> 0 < mo_amount_minor amount \<and> mo_amount_minor amount \<le> po_total_minor order)"
| "undo_follows order pid before (Payment_call (VoidRequest rid p tenant) reply) =
     (case lookup_of order pid before of
        None \<Rightarrow> False
      | Some snapshot \<Rightarrow> p = pid \<and> sn_status snapshot = Pay_authorized
          \<and> sn_captured_minor snapshot = sn_refunded_minor snapshot)"
| "undo_follows order pid before _ = True"

definition undone_by_the_book :: "pending_order \<Rightarrow> string \<Rightarrow> flow_event list \<Rightarrow> bool" where
  "undone_by_the_book order pid h \<longleftrightarrow> successively (undo_follows order pid) h \<and> (h \<noteq> [] \<longrightarrow> \<not> undo_event (hd h))"

definition confirmed_last :: "pending_order \<Rightarrow> string \<Rightarrow> flow_event list \<Rightarrow> bool" where
  "confirmed_last order pid h \<longleftrightarrow> h \<noteq> [] \<and>
     (case lookup_of order pid (last h) of None \<Rightarrow> False | Some snapshot \<Rightarrow> payment_compensation_confirmed snapshot)"

lemma by_the_book_snoc:
  "undone_by_the_book order pid h \<Longrightarrow> (if h = [] then \<not> undo_event e else undo_follows order pid (last h) e)
     \<Longrightarrow> undone_by_the_book order pid (h @ [e])"
  by (auto simp: undone_by_the_book_def successively_append_iff split: if_splits)

lemma snapshot_triple:
  "triple (undone_by_the_book order pid) (get_payment_snapshot order pid)
     (\<lambda>r h. undone_by_the_book order pid h \<and> (case r of Inr snapshot \<Rightarrow> h \<noteq> [] \<and> lookup_of order pid (last h) = Some snapshot | Inl _ \<Rightarrow> True))"
  unfolding get_payment_snapshot_def payment_call_def
  by (rule triple_call_lift) (auto simp: refused_def by_the_book_snoc split: sum.splits)

lemma lookup_of_ok:
  assumes "lookup_of order pid e = Some snapshot"
  shows "0 \<le> sn_refunded_minor snapshot" "sn_refunded_minor snapshot \<le> sn_captured_minor snapshot"
    "sn_captured_minor snapshot \<le> po_total_minor order"
proof -
  from assms obtain reply where "snapshot_answer order pid reply = Inr snapshot"
    by (cases "(order, pid, e)" rule: lookup_of.cases) (auto split: if_splits sum.splits)
  from snapshot_answer_ok [OF this] show "0 \<le> sn_refunded_minor snapshot" "sn_refunded_minor snapshot \<le> sn_captured_minor snapshot"
    "sn_captured_minor snapshot \<le> po_total_minor order" by blast+
qed

lemma lookup_balance:
  assumes "lookup_of order pid e = Some snapshot"
  shows "sn_captured_minor snapshot - sn_refunded_minor snapshot \<le> po_total_minor order"
    "\<not> sn_refunded_minor snapshot < sn_captured_minor snapshot \<Longrightarrow> sn_captured_minor snapshot = sn_refunded_minor snapshot"
  using lookup_of_ok [OF assms] by linarith+

lemma action_triple:
  assumes "compensate_action order pid rid snapshot = Some action"
  shows "triple (\<lambda>h. undone_by_the_book order pid h \<and> h \<noteq> [] \<and> lookup_of order pid (last h) = Some snapshot) action
    (\<lambda>_. undone_by_the_book order pid)"
  using assms unfolding compensate_action_def refund_payment_def void_payment_def payment_call_def
  by (auto intro!: triple_call_lift by_the_book_snoc simp: Let_def order_money_def dest: lookup_balance split: if_splits)

lemma steady_payment [emits_intros]:
  "steady (get_payment_snapshot order pid)" "steady (refund_payment order pid rid amount)" "steady (void_payment order pid rid)"
  unfolding get_payment_snapshot_def refund_payment_def void_payment_def payment_call_def by (intro emits_intros)+

lemma steady_action: "compensate_action order pid rid snapshot = Some action \<Longrightarrow> steady action"
  by (auto simp: compensate_action_def Let_def intro!: emits_intros split: if_splits)

definition round_post :: "pending_order \<Rightarrow> string \<Rightarrow> fault + bool option \<Rightarrow> flow_event list \<Rightarrow> bool" where
  "round_post order pid r h \<longleftrightarrow> undone_by_the_book order pid h \<and> (r = Inr (Some True) \<longrightarrow> confirmed_last order pid h)"

lemma after_action_triple:
  "triple (undone_by_the_book order pid) (flow_match (get_payment_snapshot order pid) (\<lambda>after.
     case after of Inl _ \<Rightarrow> flow_return (Some False)
     | Inr snapshot' \<Rightarrow> flow_return (if payment_compensation_confirmed snapshot' then Some True else None))) (round_post order pid)"
  by (rule triple_phase [where F = "undone_by_the_book order pid" and
        Q = "\<lambda>snapshot h. undone_by_the_book order pid h \<and> h \<noteq> [] \<and> lookup_of order pid (last h) = Some snapshot"])
    (auto intro!: triple_return triple_post [OF snapshot_triple] simp: round_post_def confirmed_last_def split: sum.splits)

lemma round_triple: "triple (undone_by_the_book order pid) (compensate_round order pid rid) (round_post order pid)"
  unfolding compensate_round_def
proof (rule triple_phase [where F = "undone_by_the_book order pid" and
    Q = "\<lambda>snapshot h. undone_by_the_book order pid h \<and> h \<noteq> [] \<and> lookup_of order pid (last h) = Some snapshot"])
  fix snapshot
  let ?P = "\<lambda>h. undone_by_the_book order pid h \<and> h \<noteq> [] \<and> lookup_of order pid (last h) = Some snapshot"
  show "triple ?P (if payment_compensation_confirmed snapshot then flow_return (Some True)
      else (case compensate_action order pid rid snapshot of None \<Rightarrow> flow_return (Some False)
        | Some action \<Rightarrow> flow_match action (\<lambda>_. flow_match (get_payment_snapshot order pid) (\<lambda>after.
            case after of Inl _ \<Rightarrow> flow_return (Some False)
            | Inr snapshot' \<Rightarrow> flow_return (if payment_compensation_confirmed snapshot' then Some True else None)))))
      (round_post order pid)"
  proof (cases "compensate_action order pid rid snapshot")
    case None
    then show ?thesis by (auto intro!: triple_return simp: round_post_def confirmed_last_def)
  next
    case (Some action)
    have "triple ?P (flow_match action (\<lambda>_. flow_match (get_payment_snapshot order pid) (\<lambda>after.
            case after of Inl _ \<Rightarrow> flow_return (Some False)
            | Inr snapshot' \<Rightarrow> flow_return (if payment_compensation_confirmed snapshot' then Some True else None))))
      (round_post order pid)"
      by (rule triple_match [where R = "\<lambda>_. undone_by_the_book order pid", OF triple_post [OF triple_steady
            [OF action_triple [OF Some] steady_action [OF Some]]] after_action_triple])
        (auto split: sum.splits fault.splits)
    with Some show ?thesis by (auto intro!: triple_return simp: round_post_def confirmed_last_def)
  qed
qed (auto intro!: triple_return triple_post [OF snapshot_triple] simp: round_post_def split: sum.splits)

lemma compensate_payment_triple:
  "triple (undone_by_the_book order pid) (compensate_payment order pid rid)
     (\<lambda>r h. undone_by_the_book order pid h \<and> (r = Inr True \<longrightarrow> confirmed_last order pid h))"
proof -
  have "triple (undone_by_the_book order pid) (compensate_rounds k order pid rid)
     (\<lambda>r h. undone_by_the_book order pid h \<and> (r = Inr True \<longrightarrow> confirmed_last order pid h))" for k
  proof (induction k)
    case (Suc k)
    show ?case
      unfolding compensate_rounds.simps
      by (rule triple_seq [where F = "undone_by_the_book order pid" and Q = "\<lambda>x. round_post order pid (Inr x)"])
        (auto intro!: triple_post [OF round_triple] triple_return triple_pre [OF Suc] simp: round_post_def
          split: sum.splits option.splits)
  qed (auto intro!: triple_return)
  then show ?thesis by (simp add: compensate_payment_def)
qed

lemma compensate_payment_costs: "costs undo_event 3 (compensate_payment order pid rid)"
proof -
  have get: "costs undo_event 0 (get_payment_snapshot order pid)"
    by (rule emits_costs [OF emits_calls(4)]) (simp add: soft_def)
  have act: "costs undo_event 1 action" if "compensate_action order pid rid snapshot = Some action" for snapshot action
    using that unfolding compensate_action_def refund_payment_def void_payment_def payment_call_def
    by (auto simp: Let_def intro!: costs_seq(1) [OF costs_call costs_lift] split: if_splits)
  have after: "costs undo_event 0 (flow_match (get_payment_snapshot order pid) (\<lambda>after.
     case after of Inl _ \<Rightarrow> flow_return (Some False)
     | Inr snapshot' \<Rightarrow> flow_return (if payment_compensation_confirmed snapshot' then Some True else None)))"
    by (rule costs_seq(2) [OF get, where k' = 0]) (auto intro: costs_return split: sum.splits)
  have round: "costs undo_event 1 (compensate_round order pid rid)"
    unfolding compensate_round_def
    by (rule costs_seq(2) [OF get, where k' = 1])
      (auto intro: costs_mono [OF costs_return] costs_seq(2) [OF act after] split: sum.splits option.splits)
  have "costs undo_event k (compensate_rounds k order pid rid)" for k
  proof (induction k)
    case (Suc k)
    show ?case
      unfolding compensate_rounds.simps
      by (rule costs_seq(1) [OF round, where k' = k])
        (auto intro: costs_mono [OF costs_return] Suc split: option.splits)
  qed (simp add: costs_return)
  then show ?thesis by (simp add: compensate_payment_def)
qed

subsection \<open>One capture, three consumptions\<close>

lemma costs_fenced:
  assumes "costs E k m" "costs E 0 (flow_assert fence)"
  shows "costs E k (flow_fenced fence m)"
  unfolding flow_fenced_def
  by (intro costs_seq [OF assms(2)] costs_seq [OF assms(1), where k' = 0])
    (auto intro!: costs_return costs_fail costs_lift split: sum.splits)

lemma costs_case: "(\<And>e. costs E k (f e)) \<Longrightarrow> (\<And>y. costs E k (g y)) \<Longrightarrow> costs E k (case x of Inl e \<Rightarrow> f e | Inr y \<Rightarrow> g y)"
  by (cases x) simp_all

lemma quote_attempts_bounded: "costs E 4 (quote_with_retry input rid variant)"
proof -
  have once: "costs E 1 (quote_once input rid variant)"
    unfolding quote_once_def Let_def by (rule costs_seq(1) [OF costs_call costs_lift]) simp
  have loop: "costs E k (quote_attempts k input rid variant)" for k
  proof (induction k)
    case (Suc k)
    show ?case
      unfolding quote_attempts.simps
      by (rule costs_seq(2) [OF once, where k' = k], rule costs_case)
        (auto intro: costs_mono [OF costs_fail] costs_mono [OF costs_return] Suc)
  qed (simp add: costs_fail)
  have "nat (min (uint (in_retry input)) 3 + 1) \<le> 4" by (simp add: nat_le_iff)
  from costs_mono [OF loop this] show ?thesis by (simp add: quote_with_retry_def)
qed

lemma consume_inventory_costs:
  assumes calm: "\<And>e. calm e \<Longrightarrow> \<not> E e"
  shows "costs E 3 (consume_inventory order holds fence)"
proof -
  have assert0: "costs E 0 (flow_assert fence)"
    by (rule emits_costs [OF emits_tx_calm(1)]) (rule calm)
  have attempt: "costs E 1 (consume_inventory_attempt order holds fence)"
    unfolding consume_inventory_attempt_def send_inventory_def inventory_call_def
    by (rule costs_seq(1) [where k = 1 and k' = 0], rule costs_fenced [OF costs_seq(1) [OF costs_call, where k' = 0] assert0])
      (auto intro!: costs_seq(1) [OF assert0] costs_seq(1) [OF costs_lift, where k' = 0] costs_lift costs_return split: prod.splits)
  have "costs E k (consume_attempts k order holds fence)" for k
  proof (induction k)
    case (Suc k)
    show ?case
      unfolding consume_attempts.simps
      by (rule costs_seq(2) [OF attempt, where k' = k], rule costs_case)
        (auto intro: costs_mono [OF costs_fail] costs_mono [OF costs_return] Suc)
  qed (simp add: costs_def)
  then show ?thesis by (simp add: consume_inventory_def INVENTORY_CONSUME_ATTEMPTS_def)
qed

text \<open>Only capture and consumption are counted: what one checkout costs.\<close>

lemma checkout_flow_costs:
  assumes calm: "\<And>e. calm e \<Longrightarrow> \<not> E e" and tx: "\<And>name ok db db'. \<not> E (Tx name ok db db')"
    and capture: "\<And>order pid rid. costs E b (capture_payment order pid rid)"
    and consume: "\<And>order holds fence. costs E c (consume_inventory order holds fence)"
  shows "costs E (b + c) (checkout_flow input lease)"
proof -
  have z: "costs E 0 m" if "emits calm m" for m
    using emits_costs [OF that calm] .
  have fin0: "costs E 0 (flow_finalize context' order pid variant fence)" for context' order pid variant fence
    unfolding flow_finalize_def by (rule emits_costs [where F = "\<lambda>e. \<not> E e", OF emits_db]) (simp_all add: tx)
  have cap: "costs E b (capture_phase req pid holds)" for req pid holds
    unfolding capture_phase_def
    by (rule costs_seq(2) [OF costs_fenced [OF capture z], where k' = 0], rule emits_intros, rule costs_case)
      (auto intro!: z emits_intros)
  have con: "costs E c (consume_phase req pid holds)" for req pid holds
    unfolding consume_phase_def
    by (rule costs_seq(2) [OF consume, where k' = 0], rule costs_case) (auto intro!: z emits_intros)
  have fin: "costs E 0 (finalize_phase req pid)" for req pid
    unfolding finalize_phase_def
    by (rule costs_seq(2) [OF fin0, where k' = 0], rule costs_case) (auto intro!: z emits_intros)
  have ans: "emits calm (answer_phase req pid)" for req pid
    unfolding answer_phase_def by (auto intro!: emits_intros)
  have settle: "costs E (b + c) (settle_phases req pid)" for req pid
    unfolding settle_phases_def
    by (intro costs_seq(1) [where k = 0 and k' = "b + c"] costs_seq(1) [OF cap, where k' = c]
        costs_seq(1) [OF con, where k' = 0] costs_seq(1) [OF fin z [OF ans]]) (auto intro: z emits_intros)
  have pay: "costs E (b + c) (payment_phases req)" for req
    unfolding payment_phases_def
    by (rule costs_seq(1) [where k = 0 and k' = "b + c"], rule z, rule emits_intros, rule costs_case)
      (auto intro!: costs_mono [OF costs_return] costs_if settle costs_mono [OF z] emits_intros)
  show ?thesis
    unfolding checkout_flow_def
    by (auto intro!: costs_seq(1) [OF z, where k' = "b + c"] pay emits_intros split: prod.splits)
qed

end
