(* ===== verification/CheckoutQuoteFacts.thy ===== *)
theory CheckoutQuoteFacts
  imports CheckoutQuote PricingProperties
begin

text \<open>
  What an accepted quote guarantees, and that the quotes the pricing service computes for checkout's own
  requests are accepted unless an amount exceeds the 32-bit columns of the order tables.
\<close>

subsection \<open>Amounts of a message\<close>

definition line_amount :: "quote_line_msg \<Rightarrow> int" where
  "line_amount l = (case lm_unit_price l of None \<Rightarrow> 0 | Some m \<Rightarrow> mo_amount_minor m * uint (lm_quantity l))"

definition amount_of :: "money option \<Rightarrow> int" where
  "amount_of m = (case m of None \<Rightarrow> 0 | Some m \<Rightarrow> mo_amount_minor m)"

definition in_currency :: "string \<Rightarrow> money option \<Rightarrow> bool" where
  "in_currency c m = (case m of None \<Rightarrow> False | Some m \<Rightarrow> mo_currency_code m = c \<and> 0 \<le> mo_amount_minor m)"

lemma quote_money_ok:
  "quote_money m c field = Inr n \<longleftrightarrow> in_currency c m \<and> n = amount_of m"
  by (cases m) (auto simp: quote_money_def in_currency_def amount_of_def)

lemma i32_amount_ok [simp]: "i32_amount n = Inr k \<longleftrightarrow> k = n \<and> in_i32 n"
  by (auto simp: i32_amount_def)

definition line_fits :: "checkout_input \<Rightarrow> quote_line_msg \<Rightarrow> bool" where
  "line_fits input l \<longleftrightarrow>
     expected_quantities (in_items input) (lm_sku l) = Some (lm_quantity l)
     \<and> in_currency (in_currency_code input) (lm_unit_price l)
     \<and> in_currency (in_currency_code input) (lm_line_total l)
     \<and> amount_of (lm_line_total l) = line_amount l
     \<and> in_i32 (amount_of (lm_unit_price l)) \<and> in_i32 (line_amount l)"

lemma line_amount_alt: "in_currency c (lm_unit_price l) \<Longrightarrow> line_amount l = amount_of (lm_unit_price l) * uint (lm_quantity l)"
  by (auto simp: in_currency_def line_amount_def amount_of_def split: option.splits)

lemma validate_quote_line_ok:
  "validate_quote_line input (seen, n) l = Inr (seen', n') \<longleftrightarrow>
     lm_sku l \<notin> set seen \<and> line_fits input l \<and> in_i64 (line_amount l) \<and> in_i64 (n + line_amount l)
     \<and> seen' = lm_sku l # seen \<and> n' = n + line_amount l"
  by (auto simp: validate_quote_line_def line_fits_def quote_money_ok line_amount_alt split: option.splits if_splits)

lemma validate_quote_lines_ok:
  "try_fold (validate_quote_line input) (seen, n) ls = Inr (seen', n') \<Longrightarrow>
     list_all (line_fits input) ls \<and> distinct (map lm_sku ls) \<and> set (map lm_sku ls) \<inter> set seen = {}
     \<and> seen' = rev (map lm_sku ls) @ seen \<and> n' = n + sum_list (map line_amount ls)"
proof (induction ls arbitrary: seen n)
  case (Cons l ls)
  from Cons.prems obtain s1 n1 where "validate_quote_line input (seen, n) l = Inr (s1, n1)"
    and rest: "try_fold (validate_quote_line input) (s1, n1) ls = Inr (seen', n')" by auto
  then have "lm_sku l \<notin> set seen" "line_fits input l" "s1 = lm_sku l # seen" "n1 = n + line_amount l"
    by (simp_all add: validate_quote_line_ok)
  with Cons.IH [OF rest] show ?case by auto
qed simp

text \<open>With distinct SKUs the lines are exactly the requested items.\<close>

lemma expected_quantities_item:
  "expected_quantities items s = Some q \<Longrightarrow> (s, q) \<in> set (map (\<lambda>i. (ci_sku i, ci_quantity i)) items)"
  by (auto simp: expected_quantities_def dest: map_of_SomeD)

lemma quoted_lines_are_items:
  assumes "list_all (line_fits input) ls" "distinct (map lm_sku ls)" "length ls = length (in_items input)"
    "distinct (map ci_sku (in_items input))"
  shows "mset (map (\<lambda>l. (lm_sku l, lm_quantity l)) ls) = mset (map (\<lambda>i. (ci_sku i, ci_quantity i)) (in_items input))"
proof -
  let ?L = "map (\<lambda>l. (lm_sku l, lm_quantity l)) ls" and ?I = "map (\<lambda>i. (ci_sku i, ci_quantity i)) (in_items input)"
  have "distinct (map fst ?L)" "distinct (map fst ?I)" using assms(2,4) by (simp_all add: comp_def)
  then have d: "distinct ?L" "distinct ?I" using distinct_map by blast+
  have "set ?L \<subseteq> set ?I"
    using assms(1) expected_quantities_item [of "in_items input"] by (force simp: list_all_iff line_fits_def)
  moreover have "card (set ?L) = card (set ?I)"
    using distinct_card [OF d(1)] distinct_card [OF d(2)] assms(3) by simp
  ultimately have "set ?L = set ?I" by (intro card_subset_eq) auto
  with d show ?thesis by (simp only: set_eq_iff_mset_eq_distinct)
qed

lemma validate_quote_response_ok:
  assumes "validate_quote_response input q = Inr ()"
  shows "list_all (line_fits input) (qm_lines q)" "distinct (map lm_sku (qm_lines q))"
    "length (qm_lines q) = length (in_items input)"
    "in_currency (in_currency_code input) (qm_subtotal q)" "in_currency (in_currency_code input) (qm_discount_total q)"
    "in_currency (in_currency_code input) (qm_tax_total q)" "in_currency (in_currency_code input) (qm_grand_total q)"
    "amount_of (qm_subtotal q) = sum_list (map line_amount (qm_lines q))"
    "amount_of (qm_discount_total q) \<le> amount_of (qm_subtotal q)"
    "amount_of (qm_grand_total q) = amount_of (qm_subtotal q) - amount_of (qm_discount_total q) + amount_of (qm_tax_total q)"
    "in_i32 (amount_of (qm_subtotal q))" "in_i32 (amount_of (qm_discount_total q))"
    "in_i32 (amount_of (qm_tax_total q))" "in_i32 (amount_of (qm_grand_total q))"
  using assms
  by (auto simp: validate_quote_response_def quote_money_ok bind_eq_Some_conv split: if_splits
      dest!: validate_quote_lines_ok)

subsection \<open>Quotes of the pricing service\<close>

definition amount_error :: api_error where
  "amount_error = ApiError 422 ''amount_out_of_range'' ''amount exceeds PostgreSQL integer range''"

lemma i32_amount_if: "i32_amount n = (if in_i32 n then Inr n else Inl amount_error)"
  by (simp add: i32_amount_def checked_i32_def amount_error_def)

definition line_shaped :: "checkout_input \<Rightarrow> quote_line_msg \<Rightarrow> bool" where
  "line_shaped input l \<longleftrightarrow>
     expected_quantities (in_items input) (lm_sku l) = Some (lm_quantity l)
     \<and> in_currency (in_currency_code input) (lm_unit_price l)
     \<and> in_currency (in_currency_code input) (lm_line_total l)
     \<and> amount_of (lm_line_total l) = line_amount l"

lemma quote_money_in: "in_currency c m \<Longrightarrow> quote_money m c field = Inr (amount_of m)"
  by (simp add: quote_money_ok)

lemma validate_shaped_line:
  assumes "line_shaped input l" "lm_sku l \<notin> set seen" "0 \<le> n" "n \<le> i32_max * k" "k \<le> 100"
  shows "validate_quote_line input (seen, n) l = Inl amount_error
    \<or> (validate_quote_line input (seen, n) l = Inr (lm_sku l # seen, n + line_amount l)
       \<and> 0 \<le> n + line_amount l \<and> n + line_amount l \<le> i32_max * (k + 1))"
proof -
  have a: "0 \<le> line_amount l"
    using assms(1) by (auto simp: line_shaped_def in_currency_def amount_of_def split: option.splits)
  have c: "checked_i64 (line_amount l) = Some (line_amount l)" "checked_i64 (n + line_amount l) = Some (n + line_amount l)"
    "n + line_amount l \<le> i32_max * (k + 1)" if "in_i32 (line_amount l)"
  proof -
    have "line_amount l \<le> i32_max" using that by (simp add: in_i32_def)
    moreover have "n \<le> i32_max * 100" using assms(4,5) by (simp add: i32_max_def)
    ultimately show "checked_i64 (line_amount l) = Some (line_amount l)"
      "checked_i64 (n + line_amount l) = Some (n + line_amount l)" "n + line_amount l \<le> i32_max * (k + 1)"
      using a assms(3,4) by (auto simp: in_i64_def i64_max_def i32_max_def algebra_simps)
  qed
  show ?thesis
    using assms(1,2) a assms(3) c
    unfolding line_shaped_def
    by (auto simp: validate_quote_line_def quote_money_in line_amount_alt [symmetric] i32_amount_if
        simp del: i32_amount_ok)
qed

lemma validate_shaped_lines:
  assumes "list_all (line_shaped input) ls" "distinct (map lm_sku ls)" "set (map lm_sku ls) \<inter> set seen = {}"
    "0 \<le> n" "n \<le> i32_max * k" "k + int (length ls) \<le> 100"
  shows "try_fold (validate_quote_line input) (seen, n) ls = Inl amount_error
    \<or> try_fold (validate_quote_line input) (seen, n) ls = Inr (rev (map lm_sku ls) @ seen, n + sum_list (map line_amount ls))"
  using assms
proof (induction ls arbitrary: seen n k)
  case (Cons l ls)
  from Cons.prems have l: "line_shaped input l" "lm_sku l \<notin> set seen" "k \<le> 100" by auto
  consider "validate_quote_line input (seen, n) l = Inl amount_error"
    | "validate_quote_line input (seen, n) l = Inr (lm_sku l # seen, n + line_amount l)"
      "0 \<le> n + line_amount l" "n + line_amount l \<le> i32_max * (k + 1)"
    using validate_shaped_line [OF l(1,2) Cons.prems(4,5) l(3)] by blast
  then show ?case
  proof cases
    case 2
    have "try_fold (validate_quote_line input) (lm_sku l # seen, n + line_amount l) ls = Inl amount_error
      \<or> try_fold (validate_quote_line input) (lm_sku l # seen, n + line_amount l) ls
          = Inr (rev (map lm_sku ls) @ lm_sku l # seen, n + line_amount l + sum_list (map line_amount ls))"
      by (rule Cons.IH [OF _ _ _ 2(2,3)]) (use Cons.prems in auto)
    with 2 show ?thesis by (auto simp: algebra_simps)
  qed simp
qed simp

lemma map_of_rev_distinct: "distinct (map fst xs) \<Longrightarrow> map_of (rev xs) = map_of xs"
  by (rule map_of_eqI) (auto simp: map_of_eq_Some_iff rev_map [symmetric])

lemma expected_quantities_distinct:
  assumes "distinct (map ci_sku items)" "i \<in> set items"
  shows "expected_quantities items (ci_sku i) = Some (ci_quantity i)"
proof -
  have "distinct (map fst (map (\<lambda>i. (ci_sku i, ci_quantity i)) items))" using assms(1) by (simp add: comp_def)
  then show ?thesis
    using assms(2) by (simp add: expected_quantities_def map_of_rev_distinct map_of_eq_Some_iff)
qed

definition msg_line :: "string \<Rightarrow> cached_line \<Rightarrow> quote_line_msg" where
  "msg_line c l = \<lparr>lm_sku = cl_sku l, lm_quantity = cl_quantity l,
     lm_unit_price = Some \<lparr>mo_currency_code = c, mo_amount_minor = cl_unit_minor l\<rparr>,
     lm_line_total = Some \<lparr>mo_currency_code = c, mo_amount_minor = cl_line_minor l\<rparr>\<rparr>"

lemma msg_line_shaped:
  assumes "line_ok prices \<lparr>qi_sku = ci_sku i, qi_quantity = ci_quantity i\<rparr> l" "i \<in> set (in_items input)"
    "distinct (map ci_sku (in_items input))"
  shows "line_shaped input (msg_line (in_currency_code input) l)" "line_amount (msg_line (in_currency_code input) l) = cl_line_minor l"
    "lm_sku (msg_line (in_currency_code input) l) = ci_sku i"
  using assms expected_quantities_distinct [OF assms(3,2)] line_ok_nonneg [OF assms(1)]
  by (auto simp: line_shaped_def msg_line_def line_ok_def in_currency_def amount_of_def line_amount_def)

lemma msg_lines_shaped:
  assumes "list_all2 (line_ok prices) (map (\<lambda>i. \<lparr>qi_sku = ci_sku i, qi_quantity = ci_quantity i\<rparr>) items) ls"
    "set items \<subseteq> set (in_items input)" "distinct (map ci_sku (in_items input))"
  shows "list_all (line_shaped input) (map (msg_line (in_currency_code input)) ls)
    \<and> map line_amount (map (msg_line (in_currency_code input)) ls) = map cl_line_minor ls
    \<and> map lm_sku (map (msg_line (in_currency_code input)) ls) = map ci_sku items"
  using assms
proof (induction items arbitrary: ls)
  case (Cons i items)
  then obtain l ls' where "ls = l # ls'" "line_ok prices \<lparr>qi_sku = ci_sku i, qi_quantity = ci_quantity i\<rparr> l"
    "list_all2 (line_ok prices) (map (\<lambda>i. \<lparr>qi_sku = ci_sku i, qi_quantity = ci_quantity i\<rparr>) items) ls'"
    by (auto simp: list_all2_Cons1)
  with Cons msg_line_shaped [of prices i l input] show ?case by auto
qed simp

lemma pricing_quote_accepted:
  assumes ok: "quote_ok prices (checkout_quote_request input rid v\<lparr>qr_tenant_id := t\<rparr>) q"
    and proto: "to_proto_at q clock = Inr r"
    and ids: "trim rid \<noteq> []" "trim (cq_pricing_version q) \<noteq> []"
    and items: "distinct (map ci_sku (in_items input))" "length (in_items input) \<le> 50"
  shows "validate_quote_response input (wire_quote r) = Inr () \<or> validate_quote_response input (wire_quote r) = Inl amount_error"
proof -
  let ?c = "in_currency_code input"
  let ?m = "\<lambda>n. Some \<lparr>mo_currency_code = ?c, mo_amount_minor = n\<rparr>"
  from proto obtain s where r: "wire_quote r = \<lparr>qm_quote_id = cq_quote_id q, qm_status = QUOTE_STATUS_READY,
      qm_lines = map (msg_line (cq_currency q)) (cq_lines q),
      qm_subtotal = Some \<lparr>mo_currency_code = cq_currency q, mo_amount_minor = cq_subtotal_minor q\<rparr>,
      qm_discount_total = Some \<lparr>mo_currency_code = cq_currency q, mo_amount_minor = cq_discount_minor q\<rparr>,
      qm_tax_total = Some \<lparr>mo_currency_code = cq_currency q, mo_amount_minor = 0\<rparr>,
      qm_grand_total = Some \<lparr>mo_currency_code = cq_currency q, mo_amount_minor = cq_grand_total_minor q\<rparr>,
      qm_valid_for_seconds = word_of_int s, qm_pricing_version = cq_pricing_version q\<rparr>"
    and s: "consume_at q clock = Inr ()" "remaining_validity_seconds q clock = Inr s"
    by (auto simp: to_proto_at_def wire_quote_def Let_def msg_line_def)
  have q: "list_all2 (line_ok prices) (map (\<lambda>i. \<lparr>qi_sku = ci_sku i, qi_quantity = ci_quantity i\<rparr>) (in_items input)) (cq_lines q)"
    "cq_currency q = ?c" "cq_quote_id q = rid" "cq_subtotal_minor q = sum_list (map cl_line_minor (cq_lines q))"
    "0 \<le> cq_discount_minor q" "cq_discount_minor q \<le> cq_subtotal_minor q"
    "cq_grand_total_minor q = cq_subtotal_minor q - cq_discount_minor q"
    using ok ids(1) by (simp_all add: quote_ok_def checkout_quote_request_def quote_request_id_def)
  have valid: "(word_of_int s :: u32) \<noteq> 0"
  proof -
    have "0 \<le> s" "s \<le> u32_max"
      using s(2) by (auto simp: remaining_validity_seconds_def in_u32_def u32_max_def split: if_splits)
    moreover have "s \<noteq> 0" using s by (auto simp: consume_at_def)
    ultimately have "uint (word_of_int s :: u32) \<noteq> 0"
      by (simp add: uint_word_of_int u32_max_def)
    then show ?thesis by auto
  qed
  note shaped = msg_lines_shaped [OF q(1) subset_refl items(1)]
  have len: "length (cq_lines q) = length (in_items input)" using list_all2_lengthD [OF q(1)] by simp
  have fold: "try_fold (validate_quote_line input) ([], 0) (map (msg_line ?c) (cq_lines q)) = Inl amount_error
    \<or> try_fold (validate_quote_line input) ([], 0) (map (msg_line ?c) (cq_lines q))
        = Inr (rev (map ci_sku (in_items input)), cq_subtotal_minor q)"
    using validate_shaped_lines [of input "map (msg_line ?c) (cq_lines q)" "[]" 0 0] shaped items len q(4)
    by (simp add: i32_max_def del: map_map)
  show ?thesis
  proof (cases "try_fold (validate_quote_line input) ([], 0) (map (msg_line ?c) (cq_lines q)) = Inl amount_error")
    case True
    then show ?thesis
      unfolding r q(2,3) by (simp add: validate_quote_response_def ids valid len)
  next
    case False
    with fold have f: "try_fold (validate_quote_line input) ([], 0) (map (msg_line ?c) (cq_lines q))
        = Inr (rev (map ci_sku (in_items input)), cq_subtotal_minor q)" by blast
    have m: "quote_money (?m n) ?c field = Inr n" if "0 \<le> n" for n field
      using that by (simp add: quote_money_def)
    have nn: "0 \<le> cq_subtotal_minor q" "0 \<le> cq_subtotal_minor q - cq_discount_minor q" using q(5,6) by linarith+
    have "in_i64 (snd (rev (map ci_sku (in_items input)), cq_subtotal_minor q))"
      by (rule try_fold_invariant [OF f]) (auto simp: validate_quote_line_ok in_i64_def i64_max_def)
    then have small: "checked_i64 (cq_subtotal_minor q - cq_discount_minor q) = Some (cq_subtotal_minor q - cq_discount_minor q)"
      using nn q(5) by (auto simp: checked_i64_def in_i64_def i64_max_def)
    show ?thesis
      unfolding r q(2,3,7)
      using f ids valid len items(1) nn q(5,6)
      by (simp add: validate_quote_response_def m distinct_remdups_id small i32_amount_if
          del: i32_amount_ok checked_eq_Some)
  qed
qed

end
