(* ===== verification/CheckoutOrder.thy ===== *)
theory CheckoutOrder
  imports CheckoutEntry CheckoutQuoteFacts
begin

text \<open>
  The order a checkout creates: its amounts are the quote's, its lines are the requested items at the quoted
  prices, and it is the one row the transaction adds.
\<close>

lemma refused_eq_Inr [simp]: "refused r = Inr y \<longleftrightarrow> r = Inr y"
  by (simp add: refused_def)

lemma sql_refused_eq_Inr [simp]: "sql_refused pg r = Inr y \<longleftrightarrow> r = Inr y"
  by (simp add: sql_refused_def)

lemma try_map_ok: "try_map f xs = Inr ys \<Longrightarrow> list_all2 (\<lambda>x y. f x = Inr y) xs ys"
  by (induction xs arbitrary: ys) auto

subsection \<open>Lines\<close>

definition line_from :: "quote_msg \<Rightarrow> checkout_item_input \<Rightarrow> order_line \<Rightarrow> bool" where
  "line_from quote item line \<longleftrightarrow> ol_sku line = ci_sku item \<and> ol_quantity line = ci_quantity item
     \<and> list_ex (\<lambda>q. lm_sku q = ci_sku item \<and> ol_unit_price_minor line = amount_of (lm_unit_price q)) (qm_lines quote)"

lemma find_SomeD: "find P xs = Some x \<Longrightarrow> x \<in> set xs \<and> P x"
  by (auto simp: find_Some_iff)

lemma order_line_for_ok:
  assumes "order_line_for pg input quote db item = Inr line"
  shows "line_from quote item line"
proof -
  from assms obtain q m where q: "find (\<lambda>l. lm_sku l = ci_sku item) (qm_lines quote) = Some q" "lm_unit_price q = Some m"
    and line: "ol_sku line = ci_sku item" "ol_quantity line = ci_quantity item" "ol_unit_price_minor line = mo_amount_minor m"
    by (auto simp: order_line_for_def split: prod.splits)
  from find_SomeD [OF q(1)] q(2) line show ?thesis
    by (auto simp: line_from_def list_ex_iff amount_of_def intro!: bexI [of _ q])
qed

definition order_line_amount :: "order_line \<Rightarrow> int" where
  "order_line_amount line = ol_unit_price_minor line * uint (ol_quantity line)"

text \<open>The quoted amount by SKU.\<close>

definition quoted_amount :: "quote_msg \<Rightarrow> string \<Rightarrow> int" where
  "quoted_amount quote sku = (case map_of (map (\<lambda>q. (lm_sku q, line_amount q)) (qm_lines quote)) sku of None \<Rightarrow> 0 | Some n \<Rightarrow> n)"

lemma quoted_amount_line:
  assumes "distinct (map lm_sku (qm_lines quote))" "q \<in> set (qm_lines quote)"
  shows "quoted_amount quote (lm_sku q) = line_amount q"
proof -
  have "map_of (map (\<lambda>q. (lm_sku q, line_amount q)) (qm_lines quote)) (lm_sku q) = Some (line_amount q)"
    using assms by (intro map_of_is_SomeI) (auto simp: comp_def)
  then show ?thesis by (simp add: quoted_amount_def)
qed

lemma line_from_amount:
  assumes "line_from quote item line" "list_all (line_fits input) (qm_lines quote)" "distinct (map lm_sku (qm_lines quote))"
    "expected_quantities (in_items input) (ci_sku item) = Some (ci_quantity item)"
  shows "order_line_amount line = quoted_amount quote (ci_sku item)"
proof -
  from assms(1) obtain q where q: "q \<in> set (qm_lines quote)" "lm_sku q = ci_sku item"
    "ol_unit_price_minor line = amount_of (lm_unit_price q)" "ol_quantity line = ci_quantity item"
    by (auto simp: line_from_def list_ex_iff)
  with assms(2) have fits: "line_fits input q" by (auto simp: list_all_iff)
  with q(2) assms(4) have "lm_quantity q = ci_quantity item" by (simp add: line_fits_def)
  with fits q have "line_amount q = order_line_amount line"
    using line_amount_alt [of "in_currency_code input" q] by (simp add: line_fits_def order_line_amount_def)
  with quoted_amount_line [OF assms(3) q(1)] q(2) show ?thesis by simp
qed

lemma sum_list_by_key:
  assumes "mset (map g xs) = mset (map h ys)"
  shows "sum_list (map (\<lambda>x. f (g x)) xs) = (sum_list (map (\<lambda>y. f (h y)) ys) :: int)"
proof -
  have "mset (map f (map g xs)) = mset (map f (map h ys))" using assms by (simp only: mset_map)
  then have "sum_list (map f (map g xs)) = sum_list (map f (map h ys))" by (metis sum_mset_sum_list)
  then show ?thesis by (simp add: comp_def)
qed

lemma order_lines_total:
  assumes lines: "list_all2 (line_from quote) (in_items input) ls"
    and ok: "validate_quote_response input quote = Inr ()" and items: "distinct (map ci_sku (in_items input))"
  shows "sum_list (map order_line_amount ls) = amount_of (qm_subtotal quote)"
proof -
  note q = validate_quote_response_ok [OF ok]
  let ?L = "map (\<lambda>l. (lm_sku l, lm_quantity l)) (qm_lines quote)" and ?I = "map (\<lambda>i. (ci_sku i, ci_quantity i)) (in_items input)"
  have "mset (map fst ?L) = mset (map fst ?I)"
    unfolding mset_map [of fst] quoted_lines_are_items [OF q(1,2,3) items] ..
  then have skus: "mset (map ci_sku (in_items input)) = mset (map lm_sku (qm_lines quote))"
    by (simp add: comp_def)
  have "list_all2 (\<lambda>i l. order_line_amount l = quoted_amount quote (ci_sku i)) (in_items input) ls"
    using lines by (rule list.rel_mono_strong)
      (auto intro!: line_from_amount [OF _ q(1,2)] expected_quantities_distinct [OF items])
  then have "map order_line_amount ls = map (\<lambda>i. quoted_amount quote (ci_sku i)) (in_items input)"
    by (auto simp: list_eq_iff_nth_eq list_all2_conv_all_nth)
  also have "sum_list \<dots> = sum_list (map (\<lambda>q. quoted_amount quote (lm_sku q)) (qm_lines quote))"
    by (rule sum_list_by_key [OF skus])
  also have "\<dots> = sum_list (map line_amount (qm_lines quote))"
    by (intro arg_cong [where f = sum_list] map_cong refl quoted_amount_line [OF q(2)])
  finally show ?thesis using q(8) by simp
qed

subsection \<open>Rows\<close>

lemma insert_cart_core: "insert_cart pg now input session cart db = Inr db1 \<Longrightarrow> core db1 = core db"
  by (auto simp: insert_cart_def split: if_splits)

lemma put_cart_item_core: "put_cart_item pg tenant cart db x = Inr db1 \<Longrightarrow> core db1 = core db"
  by (auto simp: put_cart_item_def Let_def split: prod.splits if_splits)

lemma put_cart_items_core: "try_fold (put_cart_item pg tenant cart) db xs = Inr db1 \<Longrightarrow> core db1 = core db"
  by (rule try_fold_invariant [where I = "\<lambda>d. core d = core db"]) (auto dest: put_cart_item_core)

lemma insert_order_item_core: "insert_order_item pg now tenant oid db x = Inr db1 \<Longrightarrow> core db1 = core db"
  by (auto simp: insert_order_item_def Let_def split: prod.splits if_splits)

lemma insert_order_items_core: "try_fold (insert_order_item pg now tenant oid) db xs = Inr db1 \<Longrightarrow> core db1 = core db"
  by (rule try_fold_invariant [where I = "\<lambda>d. core d = core db"]) (auto dest: insert_order_item_core)

lemma link_attempt_orders: "link_attempt pg now tenant lease oid msg db = Inr db1 \<Longrightarrow> orders (core db1) = orders (core db)"
  by (auto simp: link_attempt_def update_core_def update_attempts_def split: prod.splits if_splits)

lemma insert_order_ok: "insert_order pg o' db = Inr db1 \<Longrightarrow> orders (core db1) = orders (core db) @ [o'] \<and> new_order_check o'"
  by (auto simp: insert_order_def split: if_splits)

lemma new_pending_order_ok:
  assumes run: "new_pending_order pg now ids input quote session lease db = Inr (order, db1)"
    and ok: "validate_quote_response input quote = Inr ()" and items: "distinct (map ci_sku (in_items input))"
  shows "list_all2 (line_from quote) (in_items input) (po_lines order)"
    "sum_list (map order_line_amount (po_lines order)) = po_subtotal_minor order"
    "po_subtotal_minor order = amount_of (qm_subtotal quote)" "po_discount_minor order = amount_of (qm_discount_total quote)"
    "po_tax_minor order = amount_of (qm_tax_total quote)" "po_total_minor order = amount_of (qm_grand_total quote)"
    "\<exists>o'. orders (core db1) = orders (core db) @ [o'] \<and> order_is order o' \<and> ord_status o' = ''pending''
       \<and> ord_total_minor o' = po_total_minor order \<and> ord_checkout_request_id o' = Some (cl_request_id lease)"
proof -
  from run obtain lines db' db2 db3 db4 cart o' where
    lines: "try_map (order_line_for pg input quote db') (in_items input) = Inr lines"
    and db': "insert_cart pg now input session cart db = Inr db'"
    and db2: "try_fold (put_cart_item pg (in_tenant_id input) cart) db' (with_ids (oi_cart_items ids) ''cart-item-'' lines) = Inr db2"
    and db3: "insert_order pg o' db2 = Inr db3"
    and db4: "try_fold (insert_order_item pg now (in_tenant_id input) (''order-'' @ oi_order ids)) db3
       (with_ids (oi_order_items ids) ''order-item-'' lines) = Inr db4"
    and db1: "link_attempt pg now (in_tenant_id input) lease (''order-'' @ oi_order ids)
          ''checkout attempt could not be linked to its durable order'' db4 = Inr db1"
    and o': "order_is order o'" "ord_status o' = ''pending''" "ord_total_minor o' = po_total_minor order"
      "ord_checkout_request_id o' = Some (cl_request_id lease)"
    and order: "po_lines order = lines" "po_subtotal_minor order = amount_of (qm_subtotal quote)"
      "po_discount_minor order = amount_of (qm_discount_total quote)"
      "po_tax_minor order = amount_of (qm_tax_total quote)" "po_total_minor order = amount_of (qm_grand_total quote)"
    by (auto simp: new_pending_order_def Let_def quote_money_ok order_is_def split: if_splits)
  from try_map_ok [OF lines] show made: "list_all2 (line_from quote) (in_items input) (po_lines order)"
    unfolding order(1) by (rule list.rel_mono_strong) (rule order_line_for_ok)
  show "sum_list (map order_line_amount (po_lines order)) = po_subtotal_minor order"
    using order_lines_total [OF made ok items] order(2) by simp
  have "orders (core db1) = orders (core db) @ [o']"
    using insert_cart_core [OF db'] put_cart_items_core [OF db2] insert_order_ok [OF db3] insert_order_items_core [OF db4]
      link_attempt_orders [OF db1] by simp
  with o' show "\<exists>o'. orders (core db1) = orders (core db) @ [o'] \<and> order_is order o' \<and> ord_status o' = ''pending''
       \<and> ord_total_minor o' = po_total_minor order \<and> ord_checkout_request_id o' = Some (cl_request_id lease)" by blast
qed (use run in \<open>auto simp: new_pending_order_def Let_def quote_money_ok split: if_splits\<close>)

end
