(* ===== verification/CheckoutSample.thy ===== *)
theory CheckoutSample
  imports CheckoutCharge
begin

text \<open>
  A shop with one product, one customer and a checkout attempt of generation \<open>''k''\<close>, and services that answer
  as the protocol expects.
\<close>

definition shop_attempt :: attempt_row where
  "shop_attempt = \<lparr>at_tenant = ''t'', at_request = ''q'', at_fingerprint = ''f'', at_status = ''started'',
     at_order_id = None, at_response_payload = None, at_error_status = None, at_error_code = None,
     at_error_message = None, at_lease_token = ''k'', at_lease_expires_at = Some 1000, at_updated_at = 0\<rparr>"

definition shop_core :: commerce_db where
  "shop_core = \<lparr>tenants = [''t''], inventory = [], reservations = [],
     variants = [\<lparr>var_id = ''v'', var_tenant = ''t'', var_product = ''p'', var_sku = ''s'', var_status = ''active''\<rparr>],
     locations = [], attempts = [shop_attempt], recons = [], compensations = [], orders = [], payments = []\<rparr>"

definition shop :: shop_db where
  "shop = \<lparr>core = shop_core,
     products = [\<lparr>spr_id = ''p'', spr_tenant = ''t'', spr_name = ''P'', spr_status = ''active''\<rparr>],
     variant_name = (\<lambda>_ _. ''V''),
     customers = [\<lparr>cust_id = ''c'', cust_tenant = ''t'', cust_status = ''active''\<rparr>],
     carts = [], cart_items = [], order_items = [], promotions = [], outbox = [], exposures = [], analytics = [],
     payment_operations = []\<rparr>"

definition shop_input :: checkout_input where
  "shop_input = \<lparr>in_tenant_id = ''t'', in_customer_id = ''c'', in_session_id = Some ''z'', in_cart_id = None,
     in_items = [\<lparr>ci_sku = ''s'', ci_quantity = 2\<rparr>], in_currency_code = ''USD'', in_promotion_code = None,
     in_segment = ''retail'', in_tier = ''gold'', in_region = ''eu'', in_priority = ''normal'',
     in_payment_method_token = Some ''tok'', in_payment_method_type = Some ''card'', in_request_id = Some ''q'',
     in_delay_ms = 0, in_slow = 0, in_retry = 0, in_timeout_ms = 100, in_degrade = False\<rparr>"

definition shop_lease :: checkout_lease where
  "shop_lease = \<lparr>cl_tenant_id = ''t'', cl_request_id = ''q'', cl_token = ''k''\<rparr>"

definition usd :: "int \<Rightarrow> money option" where
  "usd n = Some \<lparr>mo_currency_code = ''USD'', mo_amount_minor = n\<rparr>"

definition shop_quote :: quote_msg where
  "shop_quote = \<lparr>qm_quote_id = ''q'', qm_status = QUOTE_STATUS_READY,
     qm_lines = [\<lparr>lm_sku = ''s'', lm_quantity = 2, lm_unit_price = usd 500, lm_line_total = usd 1000\<rparr>],
     qm_subtotal = usd 1000, qm_discount_total = usd 100, qm_tax_total = usd 0, qm_grand_total = usd 900,
     qm_valid_for_seconds = 60, qm_pricing_version = ''1''\<rparr>"

fun shop_payment :: "nat \<Rightarrow> payment_request \<Rightarrow> payment_reply" where
  "shop_payment n (GetPaymentRequest pid tenant) = Get_reply (Some
     \<lparr>py_payment_id = pid, py_merchant_reference = ''order-u'', py_authorized_amount = usd 900,
      py_status = (if n < 30 then 3 else 6), py_captured_amount = usd 900,
      py_refunded_amount = usd (if n < 30 then 0 else 900), py_failure_reason = 0\<rparr>) (if n < 30 then 3 else 6)"
| "shop_payment n _ = Op_reply 1 (Some \<lparr>py_payment_id = ''pay'', py_merchant_reference = ''order-u'',
     py_authorized_amount = usd 900, py_status = 2, py_captured_amount = usd 0, py_refunded_amount = usd 0,
     py_failure_reason = 0\<rparr>) 0"

definition shop_inventory :: "nat \<Rightarrow> string \<Rightarrow> json \<Rightarrow> http_reply" where
  "shop_inventory n path payload =
     (if path = ''reserve'' then Http_reply 200 (Inr (JObj [(''tenant_id'', JStr ''t''),
          (''reservation_id'', JStr ''reservation-order-u-v''), (''sku'', JStr ''s''), (''reserved'', JNum 2),
          (''location_id'', JStr ''l''), (''remaining'', JNum 3), (''status'', JStr ''reserved'')]))
      else if path = ''consume'' then Http_reply 200 (Inr (JObj [(''tenant_id'', JStr ''t''), (''consumed'', JNum 2),
          (''reservation_count'', JNum 1), (''status'', JStr ''consumed'')]))
      else Http_reply 409 (Inl ''already consumed''))"

definition shop_env :: flow_env where
  "shop_env = \<lparr>fe_pg = (\<lambda>_. ''pg''), fe_to_str = Some, fe_tie = (\<lambda>_ _. True), fe_status_text = (\<lambda>_. ''status''),
     fe_pool = (\<lambda>_. Pool_ok), fe_now = (\<lambda>n. int n), fe_uuid = (\<lambda>_ _. ''u''), fe_commit = (\<lambda>_. Committed),
     fe_others = (\<lambda>_ db. db),
     fe_catalog = (\<lambda>_ _. Http_reply 200 (Inr (JObj [(''data'', JObj [(''product'', JObj [(''sku'', JStr ''s'')])])]))),
     fe_pricing = (\<lambda>_ _. Quote_reply shop_quote), fe_payment = shop_payment, fe_inventory = shop_inventory,
     fe_recommendation = (\<lambda>_ _. Http_failed ''down''), fe_variant = ''control'',
     fe_context = (\<lambda>_. \<lparr>fc_carrier = Inr (\<lambda>k. if k \<in> {''traceparent'', ''tracestate'', ''baggage''} then [''x''] else []),
        fc_baggage = (\<lambda>_. None), fc_trace_id = '''', fc_span_id = ''''\<rparr>),
     fe_header_value = Inr, fe_extract = (\<lambda>_. \<lparr>fc_carrier = Inl ''none'', fc_baggage = (\<lambda>_. None), fc_trace_id = '''',
        fc_span_id = ''''\<rparr>), fe_sha256_hex = (\<lambda>s. s), fe_print = (\<lambda>_. ''json''), fe_request_uuid = ''r'',
     fe_locked_recon = (\<lambda>_ _ _. False), fe_locked_comp = (\<lambda>_ _ _. False), fe_locked_expired = (\<lambda>_ _. False)\<rparr>"

end
