(* ===== verification/CheckoutSagaProperties.thy ===== *)
theory CheckoutSagaProperties
  imports CheckoutCompensate CheckoutOrder CheckoutSample
begin

text \<open>
  The properties of the checkout saga. Those of a whole run hold for every environment: every answer of the
  other services, every interference of other processes on the database, every clock, pool and commit outcome.
\<close>

subsection \<open>The order of effects\<close>

text \<open>
  C2. Every run of checkout_flow follows the protocol of the saga: inventory consumption is requested only after a
  settled capture, the order is finalized only on a confirmed consumption no fence check has failed since, and
  a refund, void or release is never sent while such a consumption stands.
\<close>

theorem checkout_run_is_guarded:
  "guarded (fs_trace (snd (checkout_flow input lease env (flow_start db))))"
  using checkout_flow_run by blast

text \<open>
  C4. What a checkout answers is true of its run. Behind a paid answer stand a settled capture, a consumption the
  inventory service confirmed and a transaction that left the order paid with its event in the outbox; behind
  any other answer no capture and no consumption was even requested.
\<close>

theorem checkout_answer_is_honest:
  "honest (fst (checkout_flow input lease env (flow_start db))) (fs_trace (snd (checkout_flow input lease env (flow_start db))))"
  using checkout_flow_run by blast

text \<open>
  C3. No charge is forgotten. A run in which a capture was requested answers paid, or commits a durable intent
  after it (a reconciliation or a payment compensation task), or ends with a failed transaction.
\<close>

theorem charge_is_accounted:
  "charge_answered (fst (checkout_flow input lease env (flow_start db))) (fs_trace (snd (checkout_flow input lease env (flow_start db))))"
proof (rule tripleD [OF checkout_flow_answered])
  show "\<not> open_charge (fs_trace (flow_start db))" by (simp add: flow_start_def)
qed

lemma capture_once: "costs capture_call 1 (capture_payment order pid rid)"
  unfolding capture_payment_def payment_call_def by (rule costs_seq(1) [OF costs_call costs_lift]) simp

lemma consume_no_capture: "costs capture_call 0 (consume_inventory order holds fence)"
proof -
  have a: "emits (\<lambda>e. \<not> capture_call e) (flow_assert f)" for f
    by (rule emits_weaken [OF emits_tx_calm(1)]) (simp add: calm_def)
  have "emits (\<lambda>e. \<not> capture_call e) (consume_inventory_attempt order holds fence)"
    unfolding consume_inventory_attempt_def by (auto intro!: emits_intros emits_send a split: prod.splits)
  then have "emits (\<lambda>e. \<not> capture_call e) (consume_attempts k order holds fence)" for k
    by (induction k) (auto intro!: emits_intros simp: emits_ask split: sum.splits)
  from emits_costs [OF this] show ?thesis by (simp add: consume_inventory_def)
qed

lemma capture_no_consume: "costs consume_call 0 (capture_payment order pid rid)"
  unfolding capture_payment_def payment_call_def
  by (rule emits_costs [where F = "\<lambda>e. \<not> consume_call e"]) (auto intro!: emits_intros emits_effects)

text \<open>
  One checkout requests at most one capture and at most three consumptions, whatever the services answer.
\<close>

theorem checkout_effects_bounded:
  "length (filter capture_call (fs_trace (snd (checkout_flow input lease env (flow_start db))))) \<le> 1
   \<and> length (filter consume_call (fs_trace (snd (checkout_flow input lease env (flow_start db))))) \<le> 3"
proof -
  have "costs capture_call (1 + 0) (checkout_flow input lease)"
    by (rule checkout_flow_costs) (auto simp: calm_def consume_no_capture intro: capture_once [unfolded One_nat_def])
  moreover have "costs consume_call (0 + 3) (checkout_flow input lease)"
    by (rule checkout_flow_costs) (auto simp: calm_def capture_no_consume intro: consume_inventory_costs)
  ultimately show ?thesis
    unfolding costs_def by (auto simp: flow_start_def dest!: spec [of _ env] spec [of _ "flow_start db"])
qed

subsection \<open>Undoing a payment\<close>

text \<open>
  C11. A compensation sends a refund only for the whole open balance, and a void only for an uncaptured authorization,
  that the lookup immediately before it reported; it sends at most three of them; and it reports success
  only when its last event is a lookup that confirms nothing captured is left.
\<close>

theorem payment_compensation_exact:
  "undone_by_the_book order pid (fs_trace (snd (compensate_payment order pid rid env (flow_start db))))
   \<and> length (filter undo_event (fs_trace (snd (compensate_payment order pid rid env (flow_start db))))) \<le> 3
   \<and> (case fst (compensate_payment order pid rid env (flow_start db)) of
        Inr True \<Rightarrow> confirmed_last order pid (fs_trace (snd (compensate_payment order pid rid env (flow_start db))))
      | _ \<Rightarrow> True)"
proof -
  have start: "undone_by_the_book order pid (fs_trace (flow_start db))"
    by (simp add: undone_by_the_book_def flow_start_def)
  from compensate_payment_costs [of order pid rid, unfolded costs_def] obtain ts where
    "fs_trace (snd (compensate_payment order pid rid env (flow_start db))) = fs_trace (flow_start db) @ ts"
    "length (filter undo_event ts) \<le> 3" by blast
  then have n: "length (filter undo_event (fs_trace (snd (compensate_payment order pid rid env (flow_start db))))) \<le> 3"
    by (simp add: flow_start_def)
  from tripleD [OF compensate_payment_triple start, where env = env and rid1 = rid] n show ?thesis
    by (auto split: sum.splits bool.splits)
qed

subsection \<open>The order\<close>

lemma replay_ok:
  assumes "replay_pending_order pg tie now input session lease o' db = Inr (Inr order, db1)"
  shows "po_id order = ord_id o' \<and> po_tenant_id order = in_tenant_id input \<and> po_total_minor order = ord_total_minor o'
    \<and> orders (core db1) = orders (core db)"
  using assms by (auto simp: replay_pending_order_def dest: link_attempt_orders split: if_splits)

lemma validate_input_items: "validate_input input = Inr () \<Longrightarrow> distinct (map ci_sku (in_items input)) \<and> length (in_items input) \<le> 50"
  by (auto simp: validate_input_def validate_items_ok CHECKOUT_MAX_ITEMS_def split: if_splits)

definition orders_of_request :: "checkout_input \<Rightarrow> checkout_lease \<Rightarrow> shop_db \<Rightarrow> order_row list" where
  "orders_of_request input lease db = filter (\<lambda>o'. ord_tenant o' = in_tenant_id input
     \<and> ord_checkout_request_id o' = Some (cl_request_id lease)) (orders (core db))"

text \<open>
  C10. A checkout request has one order. When create_pending_order answers an order, the database holds exactly one
  order of the request, with the answer's id and total. If the request had none before, the answer's amounts are
  the accepted quote's and balance, its lines are the requested items at the quoted prices, and they add up to
  the subtotal; otherwise no order row has changed.
\<close>

theorem checkout_has_one_order:
  assumes "create_pending_order pg pool tie now ids input quote lease db = (Inr order, db1)"
  shows "(\<exists>o'. orders_of_request input lease db1 = [o'] \<and> order_is order o' \<and> ord_total_minor o' = po_total_minor order)
    \<and> (if orders_of_request input lease db = [] then
         po_subtotal_minor order = amount_of (qm_subtotal quote) \<and> po_discount_minor order = amount_of (qm_discount_total quote)
         \<and> po_tax_minor order = amount_of (qm_tax_total quote) \<and> po_total_minor order = amount_of (qm_grand_total quote)
         \<and> po_total_minor order = po_subtotal_minor order - po_discount_minor order + po_tax_minor order
         \<and> list_all2 (line_from quote) (in_items input) (po_lines order)
         \<and> sum_list (map order_line_amount (po_lines order)) = po_subtotal_minor order
       else orders (core db1) = orders (core db))"
proof -
  from assms obtain session res where v: "validate_input input = Inr ()" "validate_quote_response input quote = Inr ()"
    and tx: "create_order_tx pg tie now ids input quote session lease db = Inr (res, db1)" and res: "res = Inr order"
    by (auto simp: create_pending_order_def transact_def refused_def split: sum.splits prod.splits)
  note q = validate_quote_response_ok [OF v(2)]
  have items: "distinct (map ci_sku (in_items input))" using validate_input_items [OF v(1)] by simp
  from tx obtain stored where stored: "query_opt (orders_of_request input lease db) = Inr stored"
    and body: "(case stored of Some o' \<Rightarrow> replay_pending_order pg tie now input session lease o' db
      | None \<Rightarrow> and_then (new_pending_order pg now ids input quote session lease db) (\<lambda>(order, db1). Inr (Inr order, db1))) = Inr (res, db1)"
    by (auto simp: create_order_tx_def orders_of_request_def)
  show ?thesis
  proof (cases stored)
    case None
    with stored have none: "orders_of_request input lease db = []" by (auto simp: query_opt_def split: list.splits)
    from body None res have new: "new_pending_order pg now ids input quote session lease db = Inr (order, db1)" by auto
    note o = new_pending_order_ok [OF new v(2) items]
    from new have tenant: "po_tenant_id order = in_tenant_id input"
      by (auto simp: new_pending_order_def Let_def split: if_splits)
    show ?thesis using none o q(10) tenant by (auto simp: orders_of_request_def order_is_def)
  next
    case (Some o')
    with stored have one: "orders_of_request input lease db = [o']" by (simp add: query_opt_Some)
    then have "ord_tenant o' = in_tenant_id input" by (auto simp: orders_of_request_def filter_eq_Cons_iff)
    with replay_ok [of pg tie now input session lease o' db order db1] body Some res one
    show ?thesis by (auto simp: orders_of_request_def order_is_def)
  qed
qed

definition shop_ids :: order_ids where
  "shop_ids = \<lparr>oi_cart = ''u'', oi_order = ''u'', oi_cart_items = (\<lambda>_. ''u''), oi_order_items = (\<lambda>_. ''u'')\<rparr>"

definition shop_created :: "(fault + pending_order) \<times> shop_db" where
  "shop_created = create_pending_order (\<lambda>_. ''pg'') Pool_ok (\<lambda>_ _. True) 3 shop_ids shop_input shop_quote shop_lease shop"

theorem checkout_has_one_order_witness:
  "\<exists>order. fst shop_created = Inr order \<and> po_total_minor order = 900
     \<and> sum_list (map order_line_amount (po_lines order)) = 1000"
proof -
  have "is_ok (fst shop_created)" by code_simp
  then obtain order where order: "fst shop_created = Inr order" by (cases "fst shop_created") auto
  then have "create_pending_order (\<lambda>_. ''pg'') Pool_ok (\<lambda>_ _. True) 3 shop_ids shop_input shop_quote shop_lease shop
      = (Inr order, snd shop_created)" by (simp add: shop_created_def prod_eq_iff)
  moreover have "orders_of_request shop_input shop_lease shop = []" by code_simp
  ultimately have "po_total_minor order = amount_of (qm_grand_total shop_quote)"
    "sum_list (map order_line_amount (po_lines order)) = amount_of (qm_subtotal shop_quote)"
    using checkout_has_one_order [of "\<lambda>_. ''pg''" Pool_ok "\<lambda>_ _. True" 3 shop_ids shop_input shop_quote shop_lease shop order
      "snd shop_created"] by auto
  with order show ?thesis by (simp add: shop_quote_def amount_of_def usd_def)
qed

subsection \<open>Finalization\<close>

definition finalized_in :: "pending_order \<Rightarrow> shop_db \<Rightarrow> bool" where
  "finalized_in order db \<longleftrightarrow> settled_in order db \<and> list_ex (\<lambda>c. crt_tenant c = po_tenant_id order
     \<and> crt_id c = po_cart_id order \<and> crt_status c = ''checked_out'') (carts db)"

lemma close_cart_ok:
  assumes "close_cart pg now order db = Inr db1"
  shows "list_ex (\<lambda>c. crt_tenant c = po_tenant_id order \<and> crt_id c = po_cart_id order \<and> crt_status c = ''checked_out'') (carts db1)"
proof -
  from assms obtain n rows where u: "sql_update cart_check (\<lambda>c. crt_tenant c = po_tenant_id order \<and> crt_id c = po_cart_id order
      \<and> crt_status c = ''active'') (\<lambda>c. c\<lparr>crt_status := ''checked_out'', crt_updated_at := now\<rparr>) (carts db) = Inr (n, rows)"
    and n: "n = 1" "db1 = db\<lparr>carts := rows\<rparr>"
    by (auto simp: close_cart_def split: if_splits)
  have "list_ex (\<lambda>c. crt_tenant c = po_tenant_id order \<and> crt_id c = po_cart_id order \<and> crt_status c = ''checked_out'') rows"
    by (rule updated_row [OF u]) (simp_all add: n)
  with n show ?thesis by simp
qed

lemma finalize_tx_finalizes:
  assumes "finalize_tx pg pool now u1 u2 to_str' context' order pid variant fence db = Inr db1"
  shows "finalized_in order db1"
proof -
  from assms obtain carrier a b c where
    b: "close_cart pg now order a = Inr b" and c: "redeem_promotion pg now order b = Inr c"
    and d: "record_paid_events pg now u1 u2 context' order pid variant carrier c = Inr db1"
    by (auto simp: finalize_tx_def)
  have "carts c = carts b" using c by (auto simp: redeem_promotion_def split: option.splits if_splits)
  moreover have "carts db1 = carts c" using d by (auto simp: record_paid_events_def)
  ultimately show ?thesis
    using close_cart_ok [OF b] finalize_tx_settles [OF assms] by (simp add: finalized_in_def)
qed

text \<open>
  C12. Finalization is all or nothing. Success leaves the order paid, its cart checked out and its event in the
  outbox; any error leaves either exactly that (a commit whose answer was lost) or the database as it was.
\<close>

theorem finalization_is_atomic:
  "case finalize_order pg pool commit now u1 u2 to_str' context' order pid variant fence db of
     (Inr _, db1) \<Rightarrow> finalized_in order db1
   | (Inl error, db1) \<Rightarrow> db1 = db \<or> finalized_in order db1 \<and> ae_code error = ''finalization_commit_ambiguous''"
  by (auto simp: finalize_order_def finalize_tx_finalizes split: sum.splits commit_outcome.splits)

subsection \<open>Pricing and checkout\<close>

text \<open>
  C40. Checkout accepts what pricing computes. For a valid checkout input, the answer of the pricing service (without
  its cache) to checkout's own request passes checkout's validation of the quote, and the only ground on which
  it can be refused is an amount beyond the 32-bit columns of the order tables.
\<close>

theorem checkout_accepts_pricing_quotes:
  assumes "validate_input input = Inr ()" and "trim request_id \<noteq> []" and "\<not> use_cache (qe_mode env)"
    and "qe_quote env = calculate_quote_pg coll pool io db now sys"
    and "rpc_quote to_str' env clock metadata (checkout_quote_request input request_id variant) = Inr response"
  shows "quote_answer input (Quote_reply (wire_quote response)) = Inr (wire_quote response)
    \<or> quote_answer input (Quote_reply (wire_quote response)) = Inl amount_error"
proof -
  let ?req = "checkout_quote_request input request_id variant"
  from assms(5) obtain t q w where run: "calculate_quote env (?req\<lparr>qr_tenant_id := t\<rparr>) = Inr (q, w)"
    and proto: "to_proto_at q clock = Inr response"
    by (auto simp: rpc_quote_def Let_def split: prod.splits)
  from run assms(3) have "qe_quote env (?req\<lparr>qr_tenant_id := t\<rparr>) = Inr q" by (auto simp: calculate_quote_def)
  then have pg: "calculate_quote_pg coll pool io db now sys (?req\<lparr>qr_tenant_id := t\<rparr>) = Inr q" by (simp add: assms(4))
  note q = calculate_quote_pg_ok [OF pg]
  have version: "trim (cq_pricing_version q) \<noteq> []" using pricing_version_nonblank q(3) by blast
  from pricing_quote_accepted [OF q(1) proto assms(2) version] validate_input_items [OF assms(1)]
  show ?thesis by (auto simp: quote_answer_def)
qed

definition market_input :: checkout_input where
  "market_input = shop_input\<lparr>in_items := [\<lparr>ci_sku = ''Aa'', ci_quantity = 3\<rparr>], in_promotion_code := Some ''P''\<rparr>"

definition market_env :: quote_env where
  "market_env = \<lparr>qe_mode = ''direct'', qe_cache = (\<lambda>_. None), qe_from_json = (\<lambda>_. None), qe_check_clock = 1000000000,
     qe_version = pricing_version Pool_ok (\<lambda>_. None) demo_pricing_db,
     qe_quote = calculate_quote_pg (\<lambda>_ _. True) Pool_ok (\<lambda>_. None) demo_pricing_db 5 1000000000\<rparr>"

definition market_response :: "status + quote_response" where
  "market_response = rpc_quote Some market_env 1000000000 (\<lambda>_. []) (checkout_quote_request market_input ''q'' ''control'')"

theorem checkout_accepts_pricing_quotes_witness:
  "\<exists>response. market_response = Inr response \<and> mo_amount_minor (qp_grand_total response) = 899
     \<and> (quote_answer market_input (Quote_reply (wire_quote response)) = Inr (wire_quote response)
        \<or> quote_answer market_input (Quote_reply (wire_quote response)) = Inl amount_error)"
proof -
  have "case market_response of Inr r \<Rightarrow> mo_amount_minor (qp_grand_total r) = 899 | Inl _ \<Rightarrow> False" by code_simp
  then obtain response where r: "market_response = Inr response" "mo_amount_minor (qp_grand_total response) = 899"
    by (auto split: sum.splits)
  have "validate_input market_input = Inr ()" "trim ''q'' \<noteq> []" by code_simp+
  moreover have "\<not> use_cache (qe_mode market_env)"
    "qe_quote market_env = calculate_quote_pg (\<lambda>_ _. True) Pool_ok (\<lambda>_. None) demo_pricing_db 5 1000000000"
    by (simp_all add: market_env_def use_cache_def)
  moreover have "rpc_quote Some market_env 1000000000 (\<lambda>_. []) (checkout_quote_request market_input ''q'' ''control'') = Inr response"
    using r(1) by (simp add: market_response_def)
  ultimately have "quote_answer market_input (Quote_reply (wire_quote response)) = Inr (wire_quote response)
     \<or> quote_answer market_input (Quote_reply (wire_quote response)) = Inl amount_error"
    by (rule checkout_accepts_pricing_quotes)
  with r show ?thesis by blast
qed

end
