(* ===== verification/CheckoutRabbit.thy ===== *)
theory CheckoutRabbit
  imports CheckoutEntry
begin

text \<open>
  The RabbitMQ connection of checkout and its polling loops (\<open>services/checkout/src/infrastructure.rs\<close>): the
  topology it declares, \<open>RabbitPublisher\<close> with its generations, the supervisor that reconnects with a doubling
  delay, and the loop the outbox, compensation and reconciliation workers share. The broker is outside the
  model: what it answers is an argument. A loop runs over the rounds it observes.
\<close>

subsection \<open>Topology\<close>

definition EXCHANGE :: string where "EXCHANGE = ''commerce.events''"

datatype rabbit_declaration =
    Declare_exchange string
  | Declare_queue string "(string \<times> string) list"
  | Bind_queue string string string
  | Enable_confirms

text \<open>Each declaration with the context an error of it is reported under.\<close>

definition configured_queue :: "string option \<Rightarrow> string \<Rightarrow> string" where
  "configured_queue variable default' =
     (case variable of None \<Rightarrow> default' | Some v \<Rightarrow> if trim v = [] then default' else v)"

definition dead_letter_queue_arguments :: "string \<Rightarrow> (string \<times> string) list" where
  "dead_letter_queue_arguments queue =
     [(''x-dead-letter-exchange'', ''commerce.dlx''), (''x-dead-letter-routing-key'', queue @ ''.dead'')]"

definition declare_fulfillment_route :: "string \<Rightarrow> (rabbit_declaration \<times> string) list" where
  "declare_fulfillment_route queue =
     [(Declare_queue queue (dead_letter_queue_arguments queue), ''declare fulfillment queue '' @ queue),
      (Declare_queue (queue @ ''.dead'') [],
         ''declare fulfillment dead-letter queue '' @ queue @ ''.dead''),
      (Bind_queue (queue @ ''.dead'') ''commerce.dlx'' (queue @ ''.dead''),
         ''bind fulfillment dead-letter queue '' @ queue @ ''.dead'')]"

definition declare_rabbit_topology :: "string option \<Rightarrow> string option \<Rightarrow> (rabbit_declaration \<times> string) list" where
  "declare_rabbit_topology fulfillment_queue analytics_variable =
     (let orders_queue = configured_queue fulfillment_queue ''fulfillment.orders'';
          analytics_queue = configured_queue analytics_variable ''fulfillment.analytics'' in
      [(Declare_exchange EXCHANGE, ''declare commerce exchange''),
       (Declare_exchange ''commerce.dlx'', ''declare commerce dead-letter exchange'')]
      @ declare_fulfillment_route orders_queue
      @ declare_fulfillment_route analytics_queue
      @ [(Bind_queue orders_queue EXCHANGE ''order.#'', ''bind checkout order outbox route''),
         (Bind_queue orders_queue EXCHANGE ''payment.#'', ''bind checkout payment outbox route''),
         (Bind_queue analytics_queue EXCHANGE ''#'', ''bind checkout analytics outbox route'')])"

text \<open>What the broker has accepted, in order, and the context of the first refusal.\<close>

fun declare_all ::
  "(rabbit_declaration \<Rightarrow> bool) \<Rightarrow> (rabbit_declaration \<times> string) list \<Rightarrow> (string + unit) \<times> rabbit_declaration list" where
  "declare_all accepts [] = (Inr (), [])"
| "declare_all accepts ((d, c) # ds) =
     (if accepts d then (case declare_all accepts ds of (r, done') \<Rightarrow> (r, d # done')) else (Inl c, []))"

record rabbit_io =
  ri_connects :: bool
  ri_opens :: bool
  ri_accepts :: "rabbit_declaration \<Rightarrow> bool"
  ri_in_time :: bool

definition connect_rabbit ::
  "string option \<Rightarrow> string option \<Rightarrow> rabbit_io \<Rightarrow> (string + unit) \<times> rabbit_declaration list" where
  "connect_rabbit fulfillment_queue analytics_variable io =
     (if \<not> ri_connects io then (Inl ''connect checkout RabbitMQ'', [])
      else if \<not> ri_opens io then (Inl ''create checkout RabbitMQ channel'', [])
      else declare_all (ri_accepts io)
        (declare_rabbit_topology fulfillment_queue analytics_variable
         @ [(Enable_confirms, ''enable checkout RabbitMQ publisher confirms'')]))"

subsection \<open>RabbitPublisher\<close>

text \<open>\<open>active\<close> is the generation of the connection that is kept; whether its channel is up is observed.\<close>

record rabbit_publisher =
  rp_active :: "u64 option"
  rp_next_generation :: u64

definition init_rabbit :: rabbit_publisher where
  "init_rabbit = \<lparr>rp_active = None, rp_next_generation = 1\<rparr>"

definition ensure_channel ::
  "string option \<Rightarrow> string option \<Rightarrow> bool \<Rightarrow> rabbit_io \<Rightarrow> rabbit_publisher \<Rightarrow> (string + u64) \<times> rabbit_publisher" where
  "ensure_channel fulfillment_queue analytics_variable is_connected io rabbit =
     (let reconnect =
        (let rabbit1 = rabbit\<lparr>rp_active := None\<rparr> in
         if \<not> ri_in_time io then (Inl ''checkout RabbitMQ connection/topology setup timed out'', rabbit1)
         else case connect_rabbit fulfillment_queue analytics_variable io of
            (Inl error, _) \<Rightarrow> (Inl error, rabbit1)
          | (Inr _, _) \<Rightarrow>
              (let generation = rp_next_generation rabbit in
               (Inr generation, \<lparr>rp_active = Some generation, rp_next_generation = generation + 1\<rparr>))) in
      case rp_active rabbit of
        Some generation \<Rightarrow> if is_connected then (Inr generation, rabbit) else reconnect
      | None \<Rightarrow> reconnect)"

definition invalidate :: "u64 \<Rightarrow> rabbit_publisher \<Rightarrow> rabbit_publisher" where
  "invalidate generation rabbit =
     (if rp_active rabbit = Some generation then rabbit\<lparr>rp_active := None\<rparr> else rabbit)"

definition is_ready :: "bool \<Rightarrow> bool \<Rightarrow> rabbit_publisher \<Rightarrow> bool" where
  "is_ready lock_free is_connected rabbit \<longleftrightarrow> lock_free \<and> rp_active rabbit \<noteq> None \<and> is_connected"

subsection \<open>Waiting and the supervisor\<close>

datatype worker_wait = Shutdown_closed | Shutdown_set bool | Delay_elapsed

definition wait_for_worker_or_shutdown :: "bool \<Rightarrow> worker_wait \<Rightarrow> bool" where
  "wait_for_worker_or_shutdown current observed =
     (if current then True
      else case observed of Shutdown_closed \<Rightarrow> True | Shutdown_set v \<Rightarrow> v | Delay_elapsed \<Rightarrow> False)"

definition RABBIT_RECONNECT_MIN_DELAY :: nat where "RABBIT_RECONNECT_MIN_DELAY = 1000"
definition RABBIT_RECONNECT_MAX_DELAY :: nat where "RABBIT_RECONNECT_MAX_DELAY = 30000"

record supervisor_round =
  sr_shutdown :: bool
  sr_interrupted :: "bool option"
  sr_connected :: bool
  sr_io :: rabbit_io
  sr_current :: bool
  sr_wait :: worker_wait

text \<open>
  \<open>None\<close> when the rounds end before the loop is told to stop; the delays (in milliseconds) it waited for, in order.
  A connection attempt the shutdown interrupts may have cleared a connection that was down and has made none.
\<close>

fun rabbit_supervisor ::
  "string option \<Rightarrow> string option \<Rightarrow> supervisor_round list \<Rightarrow> nat \<Rightarrow> rabbit_publisher
     \<Rightarrow> unit option \<times> nat list \<times> rabbit_publisher" where
  "rabbit_supervisor fq aq [] delay rabbit = (None, [], rabbit)"
| "rabbit_supervisor fq aq (r # rs) delay rabbit =
     (if sr_shutdown r then (Some (), [], rabbit)
      else case sr_interrupted r of
        Some cleared \<Rightarrow>
          (Some (), [], if cleared \<and> \<not> sr_connected r then rabbit\<lparr>rp_active := None\<rparr> else rabbit)
      | None \<Rightarrow> (case ensure_channel fq aq (sr_connected r) (sr_io r) rabbit of
        (Inr _, rabbit1) \<Rightarrow>
          if wait_for_worker_or_shutdown (sr_current r) (sr_wait r) then (Some (), [1000], rabbit1)
          else (case rabbit_supervisor fq aq rs RABBIT_RECONNECT_MIN_DELAY rabbit1 of
                  (e, waits, rabbit2) \<Rightarrow> (e, 1000 # waits, rabbit2))
      | (Inl _, rabbit1) \<Rightarrow>
          if wait_for_worker_or_shutdown (sr_current r) (sr_wait r) then (Some (), [delay], rabbit1)
          else (case rabbit_supervisor fq aq rs (min (delay + delay) RABBIT_RECONNECT_MAX_DELAY) rabbit1 of
                  (e, waits, rabbit2) \<Rightarrow> (e, delay # waits, rabbit2))))"

subsection \<open>The polling loop of the workers\<close>

record 'e poll_round =
  pr_shutdown :: bool
  pr_env :: 'e
  pr_current :: bool
  pr_wait :: worker_wait

datatype loop_end = Loop_stopped | Loop_panicked

fun poll_worker ::
  "('e \<Rightarrow> 's \<Rightarrow> (fault + bool) \<times> 's) \<Rightarrow> nat \<Rightarrow> nat \<Rightarrow> 'e poll_round list \<Rightarrow> 's \<Rightarrow> loop_end option \<times> nat list \<times> 's" where
  "poll_worker process idle failed [] s = (None, [], s)"
| "poll_worker process idle failed (r # rs) s =
     (if pr_shutdown r then (Some Loop_stopped, [], s)
      else case process (pr_env r) s of
        (Inl Panic, s1) \<Rightarrow> (Some Loop_panicked, [], s1)
      | (Inr True, s1) \<Rightarrow> poll_worker process idle failed rs s1
      | (Inr False, s1) \<Rightarrow>
          if wait_for_worker_or_shutdown (pr_current r) (pr_wait r) then (Some Loop_stopped, [idle], s1)
          else (case poll_worker process idle failed rs s1 of (e, waits, s2) \<Rightarrow> (e, idle # waits, s2))
      | (Inl (Refused error), s1) \<Rightarrow>
          if wait_for_worker_or_shutdown (pr_current r) (pr_wait r) then (Some Loop_stopped, [failed], s1)
          else (case poll_worker process idle failed rs s1 of (e, waits, s2) \<Rightarrow> (e, failed # waits, s2)))"

definition PAYMENT_RECONCILIATION_POLL_INTERVAL :: nat where "PAYMENT_RECONCILIATION_POLL_INTERVAL = 500"
definition COMPENSATION_POLL_INTERVAL :: nat where "COMPENSATION_POLL_INTERVAL = 500"

definition spawn_compensation_worker ::
  "flow_env poll_round list \<Rightarrow> flow_state \<Rightarrow> loop_end option \<times> nat list \<times> flow_state" where
  "spawn_compensation_worker = poll_worker process_one_compensation COMPENSATION_POLL_INTERVAL 1000"

definition spawn_payment_reconciliation_worker ::
  "flow_env poll_round list \<Rightarrow> flow_state \<Rightarrow> loop_end option \<times> nat list \<times> flow_state" where
  "spawn_payment_reconciliation_worker =
     poll_worker process_one_payment_reconciliation PAYMENT_RECONCILIATION_POLL_INTERVAL
       PAYMENT_RECONCILIATION_POLL_INTERVAL"

subsection \<open>Connections\<close>

lemma declare_all_Inr:
  "declare_all accepts ds = (Inr u, done') \<Longrightarrow> done' = map fst ds \<and> list_all accepts done'"
  by (induction ds arbitrary: done') (auto split: if_splits prod.splits)

lemma ensure_channel_active: "ensure_channel fq aq up io rabbit = (Inr g, rabbit1) \<Longrightarrow> rp_active rabbit1 = Some g"
  by (auto simp: ensure_channel_def Let_def split: option.splits if_splits prod.splits sum.splits)

text \<open>A new connection is kept only when the broker accepted the whole topology and publisher confirms.\<close>

lemma ensure_channel_new:
  assumes "ensure_channel fq aq up io rabbit = (Inr g, rabbit1)" "rabbit1 \<noteq> rabbit"
  shows "list_all (ri_accepts io) (map fst (declare_rabbit_topology fq aq)) \<and> ri_accepts io Enable_confirms
    \<and> g = rp_next_generation rabbit \<and> rp_next_generation rabbit1 = g + 1"
proof -
  obtain done' where c: "connect_rabbit fq aq io = (Inr (), done')" and g: "g = rp_next_generation rabbit" "rp_next_generation rabbit1 = g + 1"
    using assms by (auto simp: ensure_channel_def Let_def split: option.splits if_splits prod.splits sum.splits)
  from c have "declare_all (ri_accepts io) (declare_rabbit_topology fq aq
      @ [(Enable_confirms, ''enable checkout RabbitMQ publisher confirms'')]) = (Inr (), done')"
    by (simp add: connect_rabbit_def split: if_splits)
  from declare_all_Inr [OF this] g show ?thesis by auto
qed

text \<open>A publication that failed on an old connection leaves the one that replaced it alone.\<close>

lemma invalidate_other: "ensure_channel fq aq up io rabbit = (Inr g, rabbit1) \<Longrightarrow> old \<noteq> g \<Longrightarrow> invalidate old rabbit1 = rabbit1"
  by (auto simp: invalidate_def dest: ensure_channel_active)

lemma supervisor_waits_bounded:
  "1000 \<le> delay \<Longrightarrow> delay \<le> 30000 \<Longrightarrow>
   list_all (\<lambda>d. 1000 \<le> d \<and> d \<le> 30000) (fst (snd (rabbit_supervisor fq aq rounds delay rabbit)))"
  by (induction fq aq rounds delay rabbit rule: rabbit_supervisor.induct)
    (auto simp: RABBIT_RECONNECT_MIN_DELAY_def RABBIT_RECONNECT_MAX_DELAY_def split: option.splits prod.splits sum.splits if_splits)

subsection \<open>What a polling loop keeps\<close>

locale polled =
  fixes process :: "'e \<Rightarrow> 's \<Rightarrow> (fault + bool) \<times> 's" and inv :: "'s \<Rightarrow> bool"
  assumes process_keeps: "inv s \<Longrightarrow> inv (snd (process e s))"
begin

lemma loop_keeps: "inv s \<Longrightarrow> inv (snd (snd (poll_worker process idle failed rounds s)))"
proof (induction rounds arbitrary: s)
  case (Cons r rs)
  obtain a s1 where s1: "process (pr_env r) s = (a, s1)" by force
  with process_keeps [OF Cons.prems, of "pr_env r"] have "inv s1" by simp
  with Cons.IH [of s1] show ?case using Cons.prems s1
    by (auto split: sum.splits fault.splits bool.splits prod.splits)
qed simp

end

end
