(* ===== verification/CheckoutOutbox.thy ===== *)
theory CheckoutOutbox
  imports CheckoutRabbit
begin

text \<open>
  The transactional outbox of checkout (\<open>services/checkout/src/infrastructure.rs\<close>): \<open>claim_outbox_event\<close>,
  \<open>publish_outbox_message\<close>, \<open>publish_one_outbox\<close> and the publisher loop. The rows are those \<open>finalize_order\<close>
  inserts. The environment of one publication says what PostgreSQL, RabbitMQ, the clock and the propagator do;
  the settling update runs on the connection of the claim, whose answer may be lost like that of a commit.
\<close>

record outbox_event =
  ev_id :: string
  ev_tenant_id :: string
  ev_event_key :: string
  ev_aggregate_type :: string
  ev_aggregate_id :: string
  ev_event_type :: string
  ev_schema_version :: int
  ev_occurred_at :: string
  ev_payload :: json
  ev_traceparent :: "string option"
  ev_tracestate :: "string option"
  ev_baggage :: "string option"
  ev_attempts :: int
  ev_claim_token :: string

definition OUTBOX_MAX_ATTEMPTS :: int where "OUTBOX_MAX_ATTEMPTS = 3"
definition OUTBOX_RETRY_BASE_SECONDS :: int where "OUTBOX_RETRY_BASE_SECONDS = 2"
definition OUTBOX_ERROR_LIMIT :: nat where "OUTBOX_ERROR_LIMIT = 1000"
definition OUTBOX_LEASE_SECONDS :: int where "OUTBOX_LEASE_SECONDS = 30"

datatype broker_confirmation = Confirm_ack bool | Confirm_nack | Confirm_not_requested

datatype broker_io =
    Publish_refused string
  | Confirm_lost string
  | Confirmed broker_confirmation
  | Confirm_timeout

record outbox_message =
  om_exchange :: string
  om_routing_key :: string
  om_mandatory :: bool
  om_body :: json
  om_content_type :: string
  om_delivery_mode :: nat
  om_message_id :: string
  om_headers :: "string \<rightharpoonup> string"

record outbox_env =
  oe_flow :: flow_env
  oe_pool :: pool_result
  oe_claim_now :: timestamp
  oe_token :: string
  oe_locked :: "outbox_row \<Rightarrow> bool"
  oe_claim_commit :: commit_outcome
  oe_timestamp_text :: "timestamp \<Rightarrow> string"
  oe_parse :: "json \<Rightarrow> string + json"
  oe_inject :: "flow_context \<Rightarrow> header_map"
  oe_queues :: "string option \<times> string option"
  oe_connected :: bool
  oe_rabbit :: rabbit_io
  oe_encode :: "json \<Rightarrow> string option"
  oe_publish :: "outbox_message \<Rightarrow> broker_io"
  oe_settle_now :: timestamp
  oe_settle_answer :: commit_outcome

subsection \<open>Claiming\<close>

definition outbox_exhausted :: "timestamp \<Rightarrow> outbox_row \<Rightarrow> bool" where
  "outbox_exhausted now e \<longleftrightarrow>
     ob_attempts e \<ge> OUTBOX_MAX_ATTEMPTS
     \<and> (ob_status e = ''queued'' \<or> (ob_status e = ''processing'' \<and> not_after_now now (ob_claim_expires_at e)))"

definition exhausted_event :: "timestamp \<Rightarrow> outbox_row \<Rightarrow> outbox_row" where
  "exhausted_event now e =
     e\<lparr>ob_status := ''failed'', ob_failure_code := coalesce (ob_failure_code e) ''publish_retry_exhausted'',
       ob_failure_message := coalesce (ob_failure_message e) ''outbox publish retry budget exhausted'',
       ob_failed_at := (case ob_failed_at e of None \<Rightarrow> Some now | Some t \<Rightarrow> Some t),
       ob_claim_token := None, ob_claim_expires_at := None\<rparr>"

definition outbox_claimable :: "timestamp \<Rightarrow> outbox_row \<Rightarrow> bool" where
  "outbox_claimable now e \<longleftrightarrow>
     ob_attempts e < OUTBOX_MAX_ATTEMPTS
     \<and> ((ob_status e = ''queued'' \<and> ob_available_at e \<le> now)
        \<or> (ob_status e = ''processing'' \<and> not_after_now now (ob_claim_expires_at e)))"

definition claimed_event :: "timestamp \<Rightarrow> string \<Rightarrow> outbox_row \<Rightarrow> outbox_row" where
  "claimed_event now claim_token e =
     e\<lparr>ob_status := ''processing'', ob_attempts := ob_attempts e + 1,
       ob_available_at := now + seconds OUTBOX_LEASE_SECONDS, ob_claim_token := Some claim_token,
       ob_claim_expires_at := Some (now + seconds OUTBOX_LEASE_SECONDS)\<rparr>"

definition event_of_row :: "(timestamp \<Rightarrow> string) \<Rightarrow> string \<Rightarrow> outbox_row \<Rightarrow> outbox_event" where
  "event_of_row timestamp_text claim_token e =
     \<lparr>ev_id = ob_id e, ev_tenant_id = ob_tenant e, ev_event_key = ob_event_key e,
      ev_aggregate_type = ob_aggregate_type e, ev_aggregate_id = ob_aggregate_id e,
      ev_event_type = ob_event_type e, ev_schema_version = ob_schema_version e,
      ev_occurred_at = timestamp_text (ob_occurred_at e), ev_payload = ob_payload e,
      ev_traceparent = Some (ob_traceparent e), ev_tracestate = Some (ob_tracestate e),
      ev_baggage = Some (ob_baggage e), ev_attempts = ob_attempts e, ev_claim_token = claim_token\<rparr>"

text \<open>The two statements of the claim, before its commit.\<close>

definition claim_outbox_rows ::
  "outbox_env \<Rightarrow> outbox_row list \<Rightarrow> api_error + (outbox_event option \<times> outbox_row list)" where
  "claim_outbox_rows env rows =
     (let now = oe_claim_now env; pg = fe_pg (oe_flow env) in
      and_then (acquire_db (oe_pool env)) (\<lambda>_.
      and_then (map_err (db_error pg) (sql_update outbox_check (outbox_exhausted now) (exhausted_event now) rows)) (\<lambda>(_, rows1).
      case limit1 (order_by (\<lambda>x y. ob_created_at x \<le> ob_created_at y)
             (filter (\<lambda>e. outbox_claimable now e \<and> \<not> oe_locked env e) rows1)) of
        None \<Rightarrow> Inr (None, rows1)
      | Some n \<Rightarrow>
          and_then (map_err (db_error pg) (sql_update outbox_check (\<lambda>e. ob_id e = ob_id n)
             (claimed_event now (oe_token env)) rows1)) (\<lambda>(_, rows2).
          and_then (map_err (db_error pg) (query_opt
             (map (claimed_event now (oe_token env)) (filter (\<lambda>e. ob_id e = ob_id n) rows1)))) (\<lambda>row.
          Inr (map_option (event_of_row (oe_timestamp_text env) (oe_token env)) row, rows2))))))"

definition claim_outbox_event ::
  "outbox_env \<Rightarrow> outbox_row list \<Rightarrow> (api_error + outbox_event option) \<times> outbox_row list" where
  "claim_outbox_event env rows =
     (case claim_outbox_rows env rows of
        Inl error \<Rightarrow> (Inl error, rows)
      | Inr (event, rows1) \<Rightarrow>
          (case oe_claim_commit env of
             Committed \<Rightarrow> (Inr event, rows1)
           | Commit_lost error took_effect \<Rightarrow>
               (Inl (ApiError 503 ''database_unavailable''
                  ((if event = None then ''database'' else ''claim outbox event'') @ '': '' @ error)),
                if took_effect then rows1 else rows)))"

subsection \<open>Publishing\<close>

definition require_routed_confirmation :: "broker_confirmation \<Rightarrow> api_error + unit" where
  "require_routed_confirmation c =
     (case c of
        Confirm_ack returned \<Rightarrow>
          if returned
          then Inl (ApiError 503 ''messaging_unroutable''
                 ''RabbitMQ returned the published event because no route accepted it'')
          else Inr ()
      | Confirm_nack \<Rightarrow>
          Inl (ApiError 503 ''messaging_rejected'' ''RabbitMQ negatively acknowledged the published event'')
      | Confirm_not_requested \<Rightarrow>
          Inl (ApiError 503 ''messaging_confirm_unavailable'' ''RabbitMQ publisher confirmation was not requested''))"

definition stored_event_context :: "flow_env \<Rightarrow> outbox_event \<Rightarrow> api_error + flow_context" where
  "stored_event_context env event = stored_carrier_context env (ev_traceparent event) (ev_tracestate event) (ev_baggage event)"

definition event_envelope :: "outbox_event \<Rightarrow> json \<Rightarrow> json" where
  "event_envelope event payload =
     JObj [(''event_id'', JStr (ev_id event)), (''event_key'', JStr (ev_event_key event)),
           (''schema_version'', JNum (ev_schema_version event)), (''tenant_id'', JStr (ev_tenant_id event)),
           (''event_type'', JStr (ev_event_type event)), (''occurred_at'', JStr (ev_occurred_at event)),
           (''aggregate_type'', JStr (ev_aggregate_type event)), (''aggregate_id'', JStr (ev_aggregate_id event)),
           (''payload'', payload)]"

definition insert_amqp_header :: "string \<Rightarrow> string option \<Rightarrow> (string \<rightharpoonup> string) \<Rightarrow> (string \<rightharpoonup> string)" where
  "insert_amqp_header key value' headers =
     (case value' of None \<Rightarrow> headers | Some v \<Rightarrow> if v = [] then headers else headers(key \<mapsto> v))"

definition message_headers :: "to_str \<Rightarrow> header_map \<Rightarrow> outbox_event \<Rightarrow> (string \<rightharpoonup> string)" where
  "message_headers to_str propagation event =
     (let copied = (\<lambda>key. case header_get propagation key of None \<Rightarrow> None | Some v \<Rightarrow> to_str v) in
      insert_amqp_header ''tenant-id'' (Some (ev_tenant_id event))
        (insert_amqp_header ''event-type'' (Some (ev_event_type event))
          (insert_amqp_header ''event-key'' (Some (ev_event_key event))
            (fold (\<lambda>key. insert_amqp_header key (copied key)) [''traceparent'', ''tracestate'', ''baggage''] Map.empty))))"

definition message_of_event :: "outbox_event \<Rightarrow> json \<Rightarrow> (string \<rightharpoonup> string) \<Rightarrow> outbox_message" where
  "message_of_event event envelope headers =
     \<lparr>om_exchange = EXCHANGE, om_routing_key = ev_event_type event, om_mandatory = True, om_body = envelope,
      om_content_type = ''application/json'', om_delivery_mode = 2, om_message_id = ev_id event, om_headers = headers\<rparr>"

text \<open>
  The result, the connection afterwards and the message that was handed to the broker with the answer, if one was.
\<close>

definition publish_outbox_message ::
  "outbox_env \<Rightarrow> outbox_event \<Rightarrow> rabbit_publisher
     \<Rightarrow> (api_error + unit) \<times> rabbit_publisher \<times> (outbox_message \<times> broker_io) list" where
  "publish_outbox_message env event rabbit =
     (case stored_event_context (oe_flow env) event of
        Inl error \<Rightarrow> (Inl error, rabbit, [])
      | Inr parent \<Rightarrow>
     (case oe_parse env (ev_payload event) of
        Inl error \<Rightarrow> (Inl (ApiError 500 ''event_protocol_error'' error), rabbit, [])
      | Inr payload \<Rightarrow>
     (case ensure_channel (fst (oe_queues env)) (snd (oe_queues env)) (oe_connected env) (oe_rabbit env) rabbit of
        (Inl error, rabbit1) \<Rightarrow> (Inl (ApiError 503 ''messaging_unavailable'' error), rabbit1, [])
      | (Inr generation, rabbit1) \<Rightarrow>
     (let envelope = event_envelope event payload;
          headers = message_headers (fe_to_str (oe_flow env)) (oe_inject env parent) event;
          message = message_of_event event envelope headers in
      case oe_encode env envelope of
        Some error \<Rightarrow> (Inl (ApiError 500 ''event_encode_failed'' error), rabbit1, [])
      | None \<Rightarrow>
          (let io = oe_publish env message;
               lost = (\<lambda>error. (Inl error, invalidate generation rabbit1, [(message, io)])) in
           case io of
             Publish_refused error \<Rightarrow> lost (ApiError 503 ''messaging_unavailable'' error)
           | Confirm_lost error \<Rightarrow> lost (ApiError 503 ''messaging_rejected'' error)
           | Confirm_timeout \<Rightarrow>
               lost (ApiError 503 ''messaging_timeout'' ''RabbitMQ publish confirmation timed out'')
           | Confirmed c \<Rightarrow> (require_routed_confirmation c, rabbit1, [(message, io)]))))))"

subsection \<open>Settling\<close>

definition is_transient_outbox_error :: "string \<Rightarrow> bool" where
  "is_transient_outbox_error code \<longleftrightarrow>
     code \<in> {''messaging_unavailable'', ''messaging_timeout'', ''messaging_rejected''}"

definition outbox_failure_status :: "int \<Rightarrow> string \<Rightarrow> string" where
  "outbox_failure_status tries code =
     (if \<not> is_transient_outbox_error code \<or> tries \<ge> OUTBOX_MAX_ATTEMPTS then ''failed'' else ''queued'')"

text \<open>\<open>attempts.saturating_mul(2).clamp(1, 30)\<close> on \<open>i32\<close>\<close>

definition outbox_retry_delay :: "int \<Rightarrow> int" where
  "outbox_retry_delay tries =
     max 1 (min 30 (max (- i32_max - 1) (min i32_max (tries * OUTBOX_RETRY_BASE_SECONDS))))"

definition bounded_outbox_error :: "string \<Rightarrow> string" where
  "bounded_outbox_error message = take_chars OUTBOX_ERROR_LIMIT message"

text \<open>\<open>WHERE id=.. AND status='processing' AND claim_token=.. AND claim_expires_at > CURRENT_TIMESTAMP\<close>\<close>

definition event_held :: "timestamp \<Rightarrow> outbox_event \<Rightarrow> outbox_row \<Rightarrow> bool" where
  "event_held now event e \<longleftrightarrow>
     ob_id e = ev_id event \<and> ob_status e = ''processing'' \<and> ob_claim_token e = Some (ev_claim_token event)
     \<and> after_now now (ob_claim_expires_at e)"

definition published_event :: "timestamp \<Rightarrow> outbox_row \<Rightarrow> outbox_row" where
  "published_event now e =
     e\<lparr>ob_status := ''published'', ob_published_at := Some now, ob_failure_code := None, ob_failure_message := None,
       ob_failed_at := None, ob_claim_token := None, ob_claim_expires_at := None\<rparr>"

definition unpublished_event :: "timestamp \<Rightarrow> string \<Rightarrow> int \<Rightarrow> string \<Rightarrow> string \<Rightarrow> outbox_row \<Rightarrow> outbox_row" where
  "unpublished_event now next_status delay code message e =
     e\<lparr>ob_status := next_status,
       ob_available_at := (if next_status = ''queued'' then now + seconds delay else now),
       ob_failure_code := Some code, ob_failure_message := Some message,
       ob_failed_at := (if next_status = ''failed'' then Some now else None),
       ob_claim_token := None, ob_claim_expires_at := None\<rparr>"

text \<open>One autocommitted update on the connection of the claim, which must change one row.\<close>

definition settle_outbox ::
  "outbox_env \<Rightarrow> outbox_event \<Rightarrow> (outbox_row \<Rightarrow> outbox_row) \<Rightarrow> string \<Rightarrow> outbox_row list
     \<Rightarrow> (api_error + unit) \<times> outbox_row list" where
  "settle_outbox env event f conflict rows =
     (case sql_update outbox_check (event_held (oe_settle_now env) event) f rows of
        Inl error \<Rightarrow> (Inl (db_error (fe_pg (oe_flow env)) error), rows)
      | Inr (updated, rows1) \<Rightarrow>
          (case oe_settle_answer env of
             Commit_lost error took_effect \<Rightarrow>
               (Inl (ApiError 503 ''database_unavailable'' (''database: '' @ error)), if took_effect then rows1 else rows)
           | Committed \<Rightarrow>
               (if updated \<noteq> 1 then (Inl (ApiError 500 ''outbox_state_conflict'' conflict), rows1)
                else (Inr (), rows1))))"

definition settle_publication ::
  "outbox_env \<Rightarrow> outbox_event \<Rightarrow> api_error + unit \<Rightarrow> outbox_row list \<Rightarrow> (api_error + bool) \<times> outbox_row list" where
  "settle_publication env event result rows =
     (let now = oe_settle_now env in
      case result of
        Inr _ \<Rightarrow>
          (case settle_outbox env event (published_event now)
                  ''confirmed outbox event could not be marked published'' rows of
             (Inl error, rows1) \<Rightarrow> (Inl error, rows1)
           | (Inr _, rows1) \<Rightarrow> (Inr True, rows1))
      | Inl error \<Rightarrow>
          (case settle_outbox env event
                  (unpublished_event now (outbox_failure_status (ev_attempts event) (ae_code error))
                     (outbox_retry_delay (ev_attempts event)) (ae_code error) (bounded_outbox_error (ae_message error)))
                  ''failed outbox event could not be durably classified'' rows of
             (Inl error1, rows1) \<Rightarrow> (Inl error1, rows1)
           | (Inr _, rows1) \<Rightarrow> (Inl error, rows1)))"

record outbox_state =
  os_rows :: "outbox_row list"
  os_rabbit :: rabbit_publisher
  os_sent :: "(outbox_message \<times> broker_io) list"

definition publish_one_outbox :: "outbox_env \<Rightarrow> outbox_state \<Rightarrow> (api_error + bool) \<times> outbox_state" where
  "publish_one_outbox env s =
     (case claim_outbox_event env (os_rows s) of
        (Inl error, rows1) \<Rightarrow> (Inl error, s\<lparr>os_rows := rows1\<rparr>)
      | (Inr None, rows1) \<Rightarrow> (Inr False, s\<lparr>os_rows := rows1\<rparr>)
      | (Inr (Some event), rows1) \<Rightarrow>
          (case publish_outbox_message env event (os_rabbit s) of
             (result, rabbit1, sent) \<Rightarrow>
               (case settle_publication env event result rows1 of
                  (answer, rows2) \<Rightarrow>
                    (answer, \<lparr>os_rows = rows2, os_rabbit = rabbit1, os_sent = os_sent s @ sent\<rparr>))))"

definition spawn_outbox_publisher ::
  "outbox_env poll_round list \<Rightarrow> outbox_state \<Rightarrow> loop_end option \<times> nat list \<times> outbox_state" where
  "spawn_outbox_publisher =
     poll_worker (\<lambda>env s. case publish_one_outbox env s of (r, s1) \<Rightarrow> (refused r, s1)) 250 1000"

end
