(* ===== verification/CheckoutOutboxMachine.thy ===== *)
theory CheckoutOutboxMachine
  imports CheckoutOutbox
begin

text \<open>
  Several publishers on one outbox. Each claims, publishes and settles in separate steps, between which the clock
  moves, orders are finalized and other publishers work; a publisher may stop at any point. The invariant relates
  the rows to the messages that were handed to the broker.
\<close>

subsection \<open>The system\<close>

datatype publisher_phase = Idle | Publishing outbox_event | Settling outbox_event "api_error + unit"

fun phase_event :: "publisher_phase \<Rightarrow> outbox_event option" where
  "phase_event Idle = None"
| "phase_event (Publishing ev) = Some ev"
| "phase_event (Settling ev _) = Some ev"

record outbox_sys =
  ox_now :: timestamp
  ox_rows :: "outbox_row list"
  ox_workers :: "publisher_phase list"
  ox_sent :: "(outbox_message \<times> broker_io) list"
  ox_tokens :: "string list"

text \<open>PostgreSQL's text of a timestamp and serde's reading of a \<open>jsonb\<close> text are the same for all publishers.\<close>

definition publisher_env :: "(json \<Rightarrow> string + json) \<Rightarrow> (timestamp \<Rightarrow> string) \<Rightarrow> outbox_env \<Rightarrow> bool" where
  "publisher_env parse text' env \<longleftrightarrow> oe_parse env = parse \<and> oe_timestamp_text env = text'"

definition claimed_phase :: "api_error + outbox_event option \<Rightarrow> publisher_phase" where
  "claimed_phase r = (case r of Inr (Some ev) \<Rightarrow> Publishing ev | _ \<Rightarrow> Idle)"

inductive outbox_step ::
  "(json \<Rightarrow> string + json) \<Rightarrow> (timestamp \<Rightarrow> string) \<Rightarrow> outbox_sys \<Rightarrow> outbox_sys \<Rightarrow> bool"
  for parse :: "json \<Rightarrow> string + json" and text' :: "timestamp \<Rightarrow> string" where
  tick: "ox_now s \<le> now \<Longrightarrow> outbox_step parse text' s (s\<lparr>ox_now := now\<rparr>)"
| finalize: "insert_or_skip (\<lambda>e. (ob_tenant e, ob_event_key e)) ob_id outbox_check
      (paid_outbox_row (ox_now s) order payment_id carrier) (ox_rows s) = Inr rows \<Longrightarrow>
    outbox_step parse text' s (s\<lparr>ox_rows := rows\<rparr>)"
| claim: "\<lbrakk>i < length (ox_workers s); ox_workers s ! i = Idle; publisher_env parse text' env;
      oe_claim_now env = ox_now s; oe_token env \<notin> set (ox_tokens s);
      claim_outbox_event env (ox_rows s) = (r, rows)\<rbrakk> \<Longrightarrow>
    outbox_step parse text' s (s\<lparr>ox_rows := rows, ox_workers := (ox_workers s)[i := claimed_phase r],
      ox_tokens := oe_token env # ox_tokens s\<rparr>)"
| publish: "\<lbrakk>i < length (ox_workers s); ox_workers s ! i = Publishing ev; publisher_env parse text' env;
      publish_outbox_message env ev rabbit = (result, rabbit1, out)\<rbrakk> \<Longrightarrow>
    outbox_step parse text' s (s\<lparr>ox_workers := (ox_workers s)[i := Settling ev result], ox_sent := ox_sent s @ out\<rparr>)"
| settle: "\<lbrakk>i < length (ox_workers s); ox_workers s ! i = Settling ev result;
      oe_settle_now env = ox_now s; settle_publication env ev result (ox_rows s) = (answer, rows)\<rbrakk> \<Longrightarrow>
    outbox_step parse text' s (s\<lparr>ox_rows := rows, ox_workers := (ox_workers s)[i := Idle]\<rparr>)"
| crash: "i < length (ox_workers s) \<Longrightarrow> outbox_step parse text' s (s\<lparr>ox_workers := (ox_workers s)[i := Idle]\<rparr>)"

definition fresh_outbox :: "timestamp \<Rightarrow> nat \<Rightarrow> outbox_sys" where
  "fresh_outbox now publishers =
     \<lparr>ox_now = now, ox_rows = [], ox_workers = replicate publishers Idle, ox_sent = [], ox_tokens = []\<rparr>"

subsection \<open>Invariant\<close>

definition carries :: "(json \<Rightarrow> string + json) \<Rightarrow> (timestamp \<Rightarrow> string) \<Rightarrow> outbox_row \<Rightarrow> outbox_message \<Rightarrow> bool" where
  "carries parse text' e m \<longleftrightarrow>
     om_exchange m = EXCHANGE \<and> om_routing_key m = ob_event_type e \<and> om_mandatory m \<and> om_delivery_mode m = 2
     \<and> om_message_id m = ob_id e
     \<and> (case parse (ob_payload e) of Inl _ \<Rightarrow> False
        | Inr p \<Rightarrow> om_body m = event_envelope (event_of_row text' [] e) p)"

definition routed :: "(json \<Rightarrow> string + json) \<Rightarrow> (timestamp \<Rightarrow> string) \<Rightarrow> outbox_sys \<Rightarrow> outbox_row \<Rightarrow> bool" where
  "routed parse text' s e \<longleftrightarrow>
     list_ex (\<lambda>(m, io). carries parse text' e m \<and> io = Confirmed (Confirm_ack False)) (ox_sent s)"

definition sends :: "outbox_sys \<Rightarrow> string \<Rightarrow> nat" where
  "sends s i = length (filter (\<lambda>(m, _). om_message_id m = i) (ox_sent s))"

fun publishing :: "string \<Rightarrow> publisher_phase \<Rightarrow> nat" where
  "publishing i (Publishing ev) = (if ev_id ev = i then 1 else 0)"
| "publishing i _ = 0"

definition in_flight :: "outbox_sys \<Rightarrow> string \<Rightarrow> nat" where
  "in_flight s i = sum_list (map (publishing i) (ox_workers s))"

definition event_row_ok ::
  "(json \<Rightarrow> string + json) \<Rightarrow> (timestamp \<Rightarrow> string) \<Rightarrow> outbox_sys \<Rightarrow> outbox_row \<Rightarrow> bool" where
  "event_row_ok parse text' s e \<longleftrightarrow>
     outbox_check e \<and> ob_attempts e \<le> OUTBOX_MAX_ATTEMPTS
     \<and> int (sends s (ob_id e) + in_flight s (ob_id e)) \<le> ob_attempts e
     \<and> (ob_status e = ''published'' \<longrightarrow> routed parse text' s e)
     \<and> (ob_status e = ''failed'' \<longrightarrow> ob_attempts e = OUTBOX_MAX_ATTEMPTS
          \<or> (case ob_failure_code e of None \<Rightarrow> False | Some c \<Rightarrow> \<not> is_transient_outbox_error c))
     \<and> set_option (ob_claim_token e) \<subseteq> set (ox_tokens s)"

definition event_matches :: "(timestamp \<Rightarrow> string) \<Rightarrow> outbox_row \<Rightarrow> outbox_event \<Rightarrow> bool" where
  "event_matches text' e ev \<longleftrightarrow>
     (event_of_row text' (ev_claim_token ev) e)\<lparr>ev_attempts := ev_attempts ev\<rparr> = ev
     \<and> (ob_claim_token e = Some (ev_claim_token ev) \<longrightarrow> ob_attempts e = ev_attempts ev)"

definition publisher_ok ::
  "(json \<Rightarrow> string + json) \<Rightarrow> (timestamp \<Rightarrow> string) \<Rightarrow> outbox_sys \<Rightarrow> publisher_phase \<Rightarrow> bool" where
  "publisher_ok parse text' s p \<longleftrightarrow>
     (case phase_event p of None \<Rightarrow> True
      | Some ev \<Rightarrow> ev_claim_token ev \<in> set (ox_tokens s)
          \<and> (\<exists>e \<in> set (ox_rows s). event_matches text' e ev \<and> (\<forall>r. p = Settling ev (Inr r) \<longrightarrow> routed parse text' s e)))"

definition outbox_ok :: "(json \<Rightarrow> string + json) \<Rightarrow> (timestamp \<Rightarrow> string) \<Rightarrow> outbox_sys \<Rightarrow> bool" where
  "outbox_ok parse text' s \<longleftrightarrow>
     distinct (map ob_id (ox_rows s))
     \<and> (\<forall>e \<in> set (ox_rows s). event_row_ok parse text' s e)
     \<and> (\<forall>p \<in> set (ox_workers s). publisher_ok parse text' s p)
     \<and> (\<forall>(m, io) \<in> set (ox_sent s). om_message_id m \<in> ob_id ` set (ox_rows s))"

subsection \<open>Contents of a row\<close>

text \<open>The columns no statement of the publisher changes.\<close>

definition ob_content :: "outbox_row \<Rightarrow> string list \<times> int \<times> timestamp \<times> json" where
  "ob_content e = ([ob_id e, ob_tenant e, ob_event_key e, ob_aggregate_type e, ob_aggregate_id e, ob_event_type e,
      ob_traceparent e, ob_tracestate e, ob_baggage e], ob_schema_version e, ob_occurred_at e, ob_payload e)"

lemma ob_content_updates [simp]:
  "ob_content (exhausted_event now e) = ob_content e"
  "ob_content (claimed_event now t e) = ob_content e"
  "ob_content (published_event now e) = ob_content e"
  "ob_content (unpublished_event now st d c m e) = ob_content e"
  by (simp_all add: ob_content_def exhausted_event_def claimed_event_def published_event_def unpublished_event_def)

lemma ob_content_id: "ob_content e' = ob_content e \<Longrightarrow> ob_id e' = ob_id e"
  by (simp add: ob_content_def)

lemma event_row_ids [simp]:
  "ob_id (exhausted_event now e) = ob_id e"
  "ob_id (claimed_event now t e) = ob_id e"
  "ob_id (published_event now e) = ob_id e"
  "ob_id (unpublished_event now st d c m e) = ob_id e"
  by (rule ob_content_id, simp)+

lemma event_envelope_content:
  "ob_content e' = ob_content e \<Longrightarrow> event_envelope (event_of_row text' t e') p = event_envelope (event_of_row text' u e) p"
  by (simp add: ob_content_def event_envelope_def event_of_row_def)

lemma carries_content: "ob_content e' = ob_content e \<Longrightarrow> carries parse text' e' m = carries parse text' e m"
  using event_envelope_content [of e' e text' "[]" _ "[]"] by (simp add: carries_def ob_content_def split: sum.splits)

lemma routed_content: "ob_content e' = ob_content e \<Longrightarrow> routed parse text' s e' = routed parse text' s e"
  unfolding routed_def by (simp only: carries_content [of e' e])

lemma event_matches_content:
  assumes "ob_content e' = ob_content e" and "event_matches text' e ev"
    and "ob_claim_token e' = Some (ev_claim_token ev) \<Longrightarrow> ob_attempts e' = ev_attempts ev"
  shows "event_matches text' e' ev"
proof -
  have "(event_of_row text' (ev_claim_token ev) e')\<lparr>ev_attempts := ev_attempts ev\<rparr>
      = (event_of_row text' (ev_claim_token ev) e)\<lparr>ev_attempts := ev_attempts ev\<rparr>"
    using assms(1) by (simp add: event_of_row_def ob_content_def)
  then show ?thesis using assms(2,3) by (simp add: event_matches_def)
qed

lemma event_matches_id: "event_matches text' e ev \<Longrightarrow> ev_id ev = ob_id e"
proof -
  assume "event_matches text' e ev"
  then have "ev_id ((event_of_row text' (ev_claim_token ev) e)\<lparr>ev_attempts := ev_attempts ev\<rparr>) = ev_id ev"
    by (simp add: event_matches_def)
  then show ?thesis by (simp add: event_of_row_def)
qed

subsection \<open>Counting\<close>

lemma sum_list_update_le:
  fixes f :: "'a \<Rightarrow> nat"
  shows "i < length xs \<Longrightarrow> sum_list (map f (xs[i := x])) + f (xs ! i) = sum_list (map f xs) + f x"
proof (induction xs arbitrary: i)
  case (Cons y ys)
  then show ?case by (cases i) auto
qed simp

lemma in_flight_update:
  "i < length (ox_workers s) \<Longrightarrow>
   in_flight (s\<lparr>ox_workers := (ox_workers s)[i := p]\<rparr>) k + publishing k (ox_workers s ! i)
     = in_flight s k + publishing k p"
  unfolding in_flight_def by (simp add: sum_list_update_le)

lemma sends_append: "sends (s\<lparr>ox_sent := ox_sent s @ out\<rparr>) k = sends s k + length (filter (\<lambda>(m, _). om_message_id m = k) out)"
  by (simp add: sends_def)

lemma in_flight_simps [simp]:
  "in_flight (s\<lparr>ox_rows := rows\<rparr>) k = in_flight s k"
  "in_flight (s\<lparr>ox_now := now\<rparr>) k = in_flight s k"
  "in_flight (s\<lparr>ox_sent := out\<rparr>) k = in_flight s k"
  "in_flight (s\<lparr>ox_tokens := ts\<rparr>) k = in_flight s k"
  by (simp_all add: in_flight_def)

lemma sends_simps [simp]:
  "sends (s\<lparr>ox_rows := rows\<rparr>) k = sends s k"
  "sends (s\<lparr>ox_now := now\<rparr>) k = sends s k"
  "sends (s\<lparr>ox_workers := ws\<rparr>) k = sends s k"
  "sends (s\<lparr>ox_tokens := ts\<rparr>) k = sends s k"
  by (simp_all add: sends_def)

lemma routed_simps [simp]:
  "routed parse text' (s\<lparr>ox_rows := rows\<rparr>) e = routed parse text' s e"
  "routed parse text' (s\<lparr>ox_now := now\<rparr>) e = routed parse text' s e"
  "routed parse text' (s\<lparr>ox_workers := ws\<rparr>) e = routed parse text' s e"
  "routed parse text' (s\<lparr>ox_tokens := ts\<rparr>) e = routed parse text' s e"
  by (simp_all add: routed_def)

lemma routed_append: "routed parse text' s e \<Longrightarrow> routed parse text' (s\<lparr>ox_sent := ox_sent s @ out\<rparr>) e"
  by (simp add: routed_def)

subsection \<open>What a step keeps\<close>

lemma outbox_ok_rowD: "outbox_ok parse text' s \<Longrightarrow> e \<in> set (ox_rows s) \<Longrightarrow> event_row_ok parse text' s e"
  by (simp add: outbox_ok_def)

lemma outbox_ok_workerD: "outbox_ok parse text' s \<Longrightarrow> p \<in> set (ox_workers s) \<Longrightarrow> publisher_ok parse text' s p"
  by (simp add: outbox_ok_def)

text \<open>An update that keeps the contents, the claim or releases it, and the invariant of each changed row.\<close>

lemma outbox_ok_update:
  assumes ok: "outbox_ok parse text' s"
    and content: "\<And>e. ob_content (f e) = ob_content e"
    and rows: "\<And>e. e \<in> set (ox_rows s) \<Longrightarrow> p e \<Longrightarrow> event_row_ok parse text' s (f e)"
    and claim: "\<And>e. ob_claim_token (f e) = None"
  shows "outbox_ok parse text' (s\<lparr>ox_rows := update_where p f (ox_rows s)\<rparr>)"
proof -
  let ?s = "s\<lparr>ox_rows := update_where p f (ox_rows s)\<rparr>"
  have ids: "map ob_id (update_where p f (ox_rows s)) = map ob_id (ox_rows s)"
    by (rule map_key_update_where) (rule ob_content_id [OF content])
  then have ids': "ob_id ` set (update_where p f (ox_rows s)) = ob_id ` set (ox_rows s)" by (metis list.set_map)
  have "event_row_ok parse text' ?s e" if "e \<in> set (ox_rows ?s)" for e
  proof -
    have "event_row_ok parse text' s e"
      using that rows outbox_ok_rowD [OF ok] by (auto simp: set_update_where)
    then show ?thesis by (simp add: event_row_ok_def)
  qed
  moreover have "publisher_ok parse text' ?s q" if "q \<in> set (ox_workers ?s)" for q
  proof (cases "phase_event q")
    case (Some ev)
    with that outbox_ok_workerD [OF ok] obtain e where e: "e \<in> set (ox_rows s)" "event_matches text' e ev"
      "\<forall>r. q = Settling ev (Inr r) \<longrightarrow> routed parse text' s e" and t: "ev_claim_token ev \<in> set (ox_tokens s)"
      by (force simp: publisher_ok_def)
    let ?e = "if p e then f e else e"
    have "?e \<in> set (update_where p f (ox_rows s))" using e(1) by (auto simp: set_update_where)
    moreover have "event_matches text' ?e ev"
      using event_matches_content [OF content e(2)] claim e(2) by auto
    moreover have "routed parse text' s ?e = routed parse text' s e" by (simp add: routed_content [OF content])
    ultimately show ?thesis using Some e(3) t by (auto simp: publisher_ok_def)
  qed (simp add: publisher_ok_def)
  ultimately show ?thesis using ok ids ids' by (simp add: outbox_ok_def)
qed

lemma outbox_ok_sweep:
  assumes ok: "outbox_ok parse text' s"
    and "sql_update outbox_check (outbox_exhausted now) (exhausted_event now) (ox_rows s) = Inr (n, rows)"
  shows "outbox_ok parse text' (s\<lparr>ox_rows := rows\<rparr>)"
proof -
  have chk: "\<And>e. e \<in> set (ox_rows s) \<Longrightarrow> outbox_exhausted now e \<Longrightarrow> outbox_check (exhausted_event now e)"
    and rows: "rows = update_where (outbox_exhausted now) (exhausted_event now) (ox_rows s)"
    using assms(2) by (auto simp: sql_update_Inr)
  show ?thesis unfolding rows
  proof (rule outbox_ok_update [OF ok])
    fix e assume e: "e \<in> set (ox_rows s)" "outbox_exhausted now e"
    have r: "event_row_ok parse text' s e" using outbox_ok_rowD [OF ok e(1)] .
    have upd: "ob_attempts (exhausted_event now e) = ob_attempts e" "ob_status (exhausted_event now e) = ''failed''"
      "ob_claim_token (exhausted_event now e) = None" by (simp_all add: exhausted_event_def)
    have "ob_attempts e = OUTBOX_MAX_ATTEMPTS" using r e(2) by (simp add: event_row_ok_def outbox_exhausted_def)
    then show "event_row_ok parse text' s (exhausted_event now e)"
      using r chk [OF e] by (simp add: event_row_ok_def upd)
  qed (simp_all add: exhausted_event_def ob_content_def)
qed

lemma publisher_ok_mono:
  assumes "publisher_ok parse text' s p" "set (ox_rows s) \<subseteq> set (ox_rows s')" "set (ox_tokens s) \<subseteq> set (ox_tokens s')"
    and "\<And>e. routed parse text' s e \<Longrightarrow> routed parse text' s' e"
  shows "publisher_ok parse text' s' p"
proof (cases "phase_event p")
  case (Some ev)
  with assms(1) obtain e where "e \<in> set (ox_rows s)" "event_matches text' e ev" "ev_claim_token ev \<in> set (ox_tokens s)"
    "\<forall>r. p = Settling ev (Inr r) \<longrightarrow> routed parse text' s e" by (auto simp: publisher_ok_def)
  with assms(2-4) Some show ?thesis by (auto simp: publisher_ok_def)
qed (simp add: publisher_ok_def)

lemma outbox_ok_idle:
  assumes ok: "outbox_ok parse text' s" and i: "i < length (ox_workers s)"
  shows "outbox_ok parse text' (s\<lparr>ox_workers := (ox_workers s)[i := Idle]\<rparr>)"
proof -
  let ?s = "s\<lparr>ox_workers := (ox_workers s)[i := Idle]\<rparr>"
  have "event_row_ok parse text' ?s e" if "e \<in> set (ox_rows s)" for e
    using outbox_ok_rowD [OF ok that] in_flight_update [OF i, of Idle "ob_id e"]
    by (simp add: event_row_ok_def)
  moreover have "publisher_ok parse text' ?s p" if p: "p \<in> set (ox_workers ?s)" for p
  proof -
    have "p = Idle \<or> p \<in> set (ox_workers s)" using p set_update_subset_insert [of "ox_workers s" i Idle] by auto
    moreover have "publisher_ok parse text' s Idle" by (simp add: publisher_ok_def)
    ultimately have "publisher_ok parse text' s p" using outbox_ok_workerD [OF ok] by auto
    then show ?thesis by (rule publisher_ok_mono) simp_all
  qed
  ultimately show ?thesis using ok by (simp add: outbox_ok_def)
qed

lemma unknown_id_unused:
  assumes ok: "outbox_ok parse text' s" and k: "k \<notin> ob_id ` set (ox_rows s)"
  shows "sends s k = 0" and "in_flight s k = 0"
proof -
  have "\<And>m io. (m, io) \<in> set (ox_sent s) \<Longrightarrow> om_message_id m \<noteq> k" using ok k by (force simp: outbox_ok_def)
  then show "sends s k = 0" by (auto simp: sends_def filter_empty_conv)
  have "publishing k p = 0" if p: "p \<in> set (ox_workers s)" for p
  proof (cases p)
    case (Publishing ev)
    with p obtain e where "e \<in> set (ox_rows s)" "event_matches text' e ev"
      using outbox_ok_workerD [OF ok p] by (auto simp: publisher_ok_def)
    with k show ?thesis by (auto simp: Publishing dest: event_matches_id)
  qed simp_all
  then show "in_flight s k = 0" by (simp add: in_flight_def)
qed

lemma outbox_ok_insert:
  assumes ok: "outbox_ok parse text' s" and chk: "outbox_check e" and id: "ob_id e \<notin> ob_id ` set (ox_rows s)"
    and new: "ob_status e = ''queued''" "ob_attempts e = 0" "ob_claim_token e = None"
  shows "outbox_ok parse text' (s\<lparr>ox_rows := ox_rows s @ [e]\<rparr>)"
proof -
  let ?s = "s\<lparr>ox_rows := ox_rows s @ [e]\<rparr>"
  have same: "event_row_ok parse text' ?s x = event_row_ok parse text' s x" for x
    by (simp add: event_row_ok_def)
  have "event_row_ok parse text' s e"
    using chk new unknown_id_unused [OF ok id] by (simp add: event_row_ok_def OUTBOX_MAX_ATTEMPTS_def)
  then have rows: "\<forall>x \<in> set (ox_rows ?s). event_row_ok parse text' ?s x"
    using outbox_ok_rowD [OF ok] by (auto simp: same)
  have "publisher_ok parse text' ?s p" if "p \<in> set (ox_workers ?s)" for p
    by (rule publisher_ok_mono [of parse text' s]) (use outbox_ok_workerD [OF ok] that in auto)
  then have workers: "\<forall>p \<in> set (ox_workers ?s). publisher_ok parse text' ?s p" by blast
  have "distinct (map ob_id (ox_rows ?s))" using ok id by (auto simp: outbox_ok_def)
  with rows workers show ?thesis using ok by (auto simp: outbox_ok_def)
qed

text \<open>The claim of one row under a fresh token; the publisher may not have learnt of it.\<close>

lemma claimed_row_ok:
  assumes "event_row_ok parse text' s e" "outbox_claimable now e" "outbox_check (claimed_event now t e)"
    and i: "i < length (ox_workers s)" and p: "\<And>k. publishing k p \<le> (if k = ob_id e then 1 else 0)"
  shows "event_row_ok parse text' (s\<lparr>ox_workers := (ox_workers s)[i := p], ox_tokens := t # ox_tokens s\<rparr>) (claimed_event now t e)"
proof -
  let ?s = "s\<lparr>ox_workers := (ox_workers s)[i := p], ox_tokens := t # ox_tokens s\<rparr>"
  have n: "in_flight ?s (ob_id e) \<le> in_flight s (ob_id e) + 1"
    using in_flight_update [OF i, of p "ob_id e"] p [of "ob_id e"] by (simp add: in_flight_def)
  have upd: "ob_attempts (claimed_event now t e) = ob_attempts e + 1" "ob_status (claimed_event now t e) = ''processing''"
      "ob_claim_token (claimed_event now t e) = Some t" by (simp_all add: claimed_event_def)
  have "sends ?s (ob_id e) = sends s (ob_id e)" by (simp add: sends_def)
  then show ?thesis using n assms(1-3) by (simp add: event_row_ok_def outbox_claimable_def upd)
qed

lemma other_row_ok:
  assumes "event_row_ok parse text' s e" "i < length (ox_workers s)" "publishing (ob_id e) p = 0"
  shows "event_row_ok parse text' (s\<lparr>ox_workers := (ox_workers s)[i := p], ox_tokens := t # ox_tokens s\<rparr>) e"
proof -
  have "in_flight (s\<lparr>ox_workers := (ox_workers s)[i := p], ox_tokens := t # ox_tokens s\<rparr>) (ob_id e) \<le> in_flight s (ob_id e)"
    using in_flight_update [OF assms(2), of p "ob_id e"] assms(3) by (simp add: in_flight_def)
  moreover have "sends (s\<lparr>ox_workers := (ox_workers s)[i := p], ox_tokens := t # ox_tokens s\<rparr>) (ob_id e) = sends s (ob_id e)"
    "routed parse text' (s\<lparr>ox_workers := (ox_workers s)[i := p], ox_tokens := t # ox_tokens s\<rparr>) e = routed parse text' s e"
    by (simp_all add: sends_def routed_def)
  ultimately show ?thesis using assms(1) by (auto simp: event_row_ok_def)
qed

text \<open>The other publishers keep their events: the claim under a fresh token is not theirs.\<close>

lemma publisher_ok_take:
  assumes ok: "publisher_ok parse text' s q" and t: "t \<notin> set (ox_tokens s)"
  shows "publisher_ok parse text' (s\<lparr>ox_rows := update_where (\<lambda>e. ob_id e = ob_id n) (claimed_event now t) (ox_rows s),
     ox_workers := ws, ox_tokens := t # ox_tokens s\<rparr>) q" (is "publisher_ok parse text' ?s q")
proof (cases "phase_event q")
  case (Some ev)
  with ok obtain e where e: "e \<in> set (ox_rows s)" "event_matches text' e ev"
    "\<forall>r. q = Settling ev (Inr r) \<longrightarrow> routed parse text' s e" and tok: "ev_claim_token ev \<in> set (ox_tokens s)"
    by (auto simp: publisher_ok_def)
  let ?e = "if ob_id e = ob_id n then claimed_event now t e else e"
  have "ob_claim_token (claimed_event now t e) \<noteq> Some (ev_claim_token ev)"
    using tok t by (auto simp: claimed_event_def)
  then have "event_matches text' (claimed_event now t e) ev"
    using event_matches_content [OF ob_content_updates(2) e(2)] by blast
  then have "event_matches text' ?e ev" using e(2) by simp
  moreover have "?e \<in> set (ox_rows ?s)" using e(1) by (auto simp: set_update_where)
  moreover have "routed parse text' ?s ?e = routed parse text' s e"
    using routed_content [of "claimed_event now t e" e] by (simp add: routed_def)
  ultimately show ?thesis using Some e(3) tok by (auto simp: publisher_ok_def)
qed (simp add: publisher_ok_def)

lemma outbox_ok_take:
  assumes ok: "outbox_ok parse text' s" and n: "n \<in> set (ox_rows s)" "outbox_claimable now n"
    and chk: "outbox_check (claimed_event now t n)" and t: "t \<notin> set (ox_tokens s)" and i: "i < length (ox_workers s)"
    and p: "p = Idle \<or> p = Publishing (event_of_row text' t (claimed_event now t n))"
  shows "outbox_ok parse text' (s\<lparr>ox_rows := update_where (\<lambda>e. ob_id e = ob_id n) (claimed_event now t) (ox_rows s),
     ox_workers := (ox_workers s)[i := p], ox_tokens := t # ox_tokens s\<rparr>)" (is "outbox_ok parse text' ?s")
proof -
  let ?rows = "update_where (\<lambda>e. ob_id e = ob_id n) (claimed_event now t) (ox_rows s)"
  let ?w = "s\<lparr>ox_workers := (ox_workers s)[i := p], ox_tokens := t # ox_tokens s\<rparr>"
  have dist: "distinct (map ob_id (ox_rows s))" using ok by (simp add: outbox_ok_def)
  have only: "e = n" if "e \<in> set (ox_rows s)" "ob_id e = ob_id n" for e
    using distinct_map_inj_on [OF dist that(1) n(1) that(2)] .
  have ids: "map ob_id ?rows = map ob_id (ox_rows s)" by (rule map_key_update_where) simp
  then have ids': "ob_id ` set ?rows = ob_id ` set (ox_rows s)" by (metis list.set_map)
  have pub: "publishing k p \<le> (if k = ob_id n then 1 else 0)" for k using p by (auto simp: event_of_row_def)
  have same: "event_row_ok parse text' ?s e = event_row_ok parse text' ?w e" for e
    by (simp add: event_row_ok_def sends_def in_flight_def routed_def)
  have rows: "event_row_ok parse text' ?s e" if "e \<in> set (ox_rows ?s)" for e
    unfolding same using that
  proof (simp, elim in_set_update_whereE)
    assume e: "e \<in> set (ox_rows s)" "ob_id e \<noteq> ob_id n"
    then have "publishing (ob_id e) p = 0" using pub [of "ob_id e"] by simp
    then show "event_row_ok parse text' ?w e" by (rule other_row_ok [OF outbox_ok_rowD [OF ok e(1)] i])
  next
    fix y assume y: "y \<in> set (ox_rows s)" "ob_id y = ob_id n" "e = claimed_event now t y"
    then show "event_row_ok parse text' ?w e"
      using claimed_row_ok [OF outbox_ok_rowD [OF ok n(1)] n(2) chk i pub] only [OF y(1,2)] by simp
  qed
  have old: "publisher_ok parse text' ?s q" if q: "q \<in> set (ox_workers s)" for q
    by (rule publisher_ok_take [OF outbox_ok_workerD [OF ok q] t])
  have "claimed_event now t n \<in> set ?rows" using n(1) by (auto simp: set_update_where)
  then have new: "publisher_ok parse text' ?s p"
    using p by (auto simp: publisher_ok_def event_matches_def event_of_row_def intro!: bexI [of _ "claimed_event now t n"])
  have "publisher_ok parse text' ?s q" if "q \<in> set (ox_workers ?s)" for q
    using that set_update_subset_insert [of "ox_workers s" i p] old new by auto
  with rows show ?thesis using ok ids ids' by (simp add: outbox_ok_def)
qed

lemma publish_outbox_messageE:
  assumes "publish_outbox_message env ev rabbit = (result, rabbit1, out)"
  obtains (unsent) "out = []" "\<not> is_ok result"
  | (sent) p headers io where "oe_parse env (ev_payload ev) = Inr p"
      "out = [(message_of_event ev (event_envelope ev p) headers, io)]"
      "is_ok result \<longleftrightarrow> io = Confirmed (Confirm_ack False)"
proof -
  have "out = [] \<and> \<not> is_ok result \<or> (\<exists>p headers io. oe_parse env (ev_payload ev) = Inr p
      \<and> out = [(message_of_event ev (event_envelope ev p) headers, io)]
      \<and> (is_ok result \<longleftrightarrow> io = Confirmed (Confirm_ack False)))"
    using assms
    by (auto simp: publish_outbox_message_def Let_def is_ok_def require_routed_confirmation_def
      split: sum.splits prod.splits option.splits broker_io.splits broker_confirmation.splits if_splits)
  then show ?thesis using unsent sent by blast
qed

lemma carries_message:
  assumes "event_matches text' e ev" "parse (ev_payload ev) = Inr p"
  shows "carries parse text' e (message_of_event ev (event_envelope ev p) headers)"
proof -
  have "event_envelope ((event_of_row text' (ev_claim_token ev) e)\<lparr>ev_attempts := ev_attempts ev\<rparr>) p
      = event_envelope (event_of_row text' [] e) p" by (simp add: event_envelope_def event_of_row_def)
  moreover have ev: "(event_of_row text' (ev_claim_token ev) e)\<lparr>ev_attempts := ev_attempts ev\<rparr> = ev"
    using assms(1) by (simp add: event_matches_def)
  ultimately have "event_envelope ev p = event_envelope (event_of_row text' [] e) p" by simp
  moreover have "ev_payload ev = ob_payload e" "ev_event_type ev = ob_event_type e" "ev_id ev = ob_id e"
    using ev by (metis (no_types) event_of_row_def outbox_event.select_convs outbox_event.update_convs(13))+
  ultimately show ?thesis using assms(2) by (simp add: carries_def message_of_event_def)
qed

lemma outbox_ok_publish:
  assumes ok: "outbox_ok parse text' s" and i: "i < length (ox_workers s)" and ph: "ox_workers s ! i = Publishing ev"
    and env: "oe_parse env = parse" and pub: "publish_outbox_message env ev rabbit = (result, rabbit1, out)"
  shows "outbox_ok parse text' (s\<lparr>ox_workers := (ox_workers s)[i := Settling ev result], ox_sent := ox_sent s @ out\<rparr>)"
    (is "outbox_ok parse text' ?s")
proof -
  have "Publishing ev \<in> set (ox_workers s)" using i ph by (metis nth_mem)
  from outbox_ok_workerD [OF ok this] obtain e where e: "e \<in> set (ox_rows s)" "event_matches text' e ev"
    and tok: "ev_claim_token ev \<in> set (ox_tokens s)" by (auto simp: publisher_ok_def)
  have out: "length (filter (\<lambda>(m, _). om_message_id m = k) out) \<le> publishing k (Publishing ev)" for k
    using pub by (cases rule: publish_outbox_messageE) (auto simp: message_of_event_def)
  have ids: "om_message_id m = ob_id e" if "(m, io) \<in> set out" for m io
    using pub that event_matches_id [OF e(2)] by (cases rule: publish_outbox_messageE) (auto simp: message_of_event_def)
  have mono: "routed parse text' s x \<Longrightarrow> routed parse text' ?s x" for x by (simp add: routed_def)
  have conf: "routed parse text' ?s e" if "is_ok result"
    using pub that by (cases rule: publish_outbox_messageE) (simp_all add: routed_def carries_message [OF e(2)] env)
  have rows: "event_row_ok parse text' ?s x" if "x \<in> set (ox_rows s)" for x
  proof -
    have "in_flight ?s (ob_id x) + publishing (ob_id x) (Publishing ev) = in_flight s (ob_id x)"
      using in_flight_update [OF i, of "Settling ev result" "ob_id x"] ph by (simp add: in_flight_def)
    moreover have "sends ?s (ob_id x) = sends s (ob_id x) + length (filter (\<lambda>(m, _). om_message_id m = ob_id x) out)"
      by (simp add: sends_def)
    ultimately have "sends ?s (ob_id x) + in_flight ?s (ob_id x) \<le> sends s (ob_id x) + in_flight s (ob_id x)"
      using out [of "ob_id x"] by linarith
    then show ?thesis using outbox_ok_rowD [OF ok that] mono by (auto simp: event_row_ok_def)
  qed
  have "publisher_ok parse text' ?s q" if "q \<in> set (ox_workers ?s)" for q
  proof -
    have "q = Settling ev result \<or> q \<in> set (ox_workers s)"
      using that set_update_subset_insert [of "ox_workers s" i "Settling ev result"] by auto
    then show ?thesis
    proof
      assume "q = Settling ev result"
      then show ?thesis using e tok conf by (auto simp: publisher_ok_def is_ok_def)
    next
      assume "q \<in> set (ox_workers s)"
      from outbox_ok_workerD [OF ok this] show ?thesis by (rule publisher_ok_mono) (simp_all add: mono)
    qed
  qed
  with rows show ?thesis using ok ids e(1) by (auto simp: outbox_ok_def)
qed

lemma settle_outboxE:
  assumes "settle_outbox env ev f conflict rows = (r, rows')"
  obtains (kept) "rows' = rows" "\<not> is_ok r"
  | (changed) "rows' = update_where (event_held (oe_settle_now env) ev) f rows"
      "\<And>e. e \<in> set rows \<Longrightarrow> event_held (oe_settle_now env) ev e \<Longrightarrow> outbox_check (f e)"
      "is_ok r \<Longrightarrow> count_where (event_held (oe_settle_now env) ev) rows = 1"
  using assms by (auto simp: settle_outbox_def sql_update_Inr split: sum.splits prod.splits commit_outcome.splits if_splits)

definition settled_row :: "timestamp \<Rightarrow> outbox_event \<Rightarrow> api_error + unit \<Rightarrow> outbox_row \<Rightarrow> outbox_row" where
  "settled_row now event result =
     (case result of
        Inr _ \<Rightarrow> published_event now
      | Inl error \<Rightarrow> unpublished_event now (outbox_failure_status (ev_attempts event) (ae_code error))
          (outbox_retry_delay (ev_attempts event)) (ae_code error) (bounded_outbox_error (ae_message error)))"

lemma settle_publicationE:
  assumes "settle_publication env ev result rows = (answer, rows')"
  obtains (kept) "rows' = rows" "\<not> is_ok answer"
  | (changed) "rows' = update_where (event_held (oe_settle_now env) ev) (settled_row (oe_settle_now env) ev result) rows"
      "\<And>e. e \<in> set rows \<Longrightarrow> event_held (oe_settle_now env) ev e \<Longrightarrow> outbox_check (settled_row (oe_settle_now env) ev result e)"
proof -
  obtain r conflict where "settle_outbox env ev (settled_row (oe_settle_now env) ev result) conflict rows = (r, rows')"
    and ans: "is_ok answer \<longrightarrow> is_ok r"
    using assms by (cases result) (auto simp: settle_publication_def settled_row_def Let_def split: prod.splits sum.splits)
  then show ?thesis by (cases rule: settle_outboxE) (use kept changed in auto)
qed

lemma settled_row_simps [simp]:
  "ob_content (settled_row now ev result e) = ob_content e"
  "ob_claim_token (settled_row now ev result e) = None"
  "ob_attempts (settled_row now ev result e) = ob_attempts e"
  by (simp_all add: settled_row_def published_event_def unpublished_event_def ob_content_def split: sum.splits)

lemma outbox_ok_settle:
  assumes ok: "outbox_ok parse text' s" and w: "Settling ev result \<in> set (ox_workers s)"
    and set: "settle_publication env ev result (ox_rows s) = (answer, rows)"
  shows "outbox_ok parse text' (s\<lparr>ox_rows := rows\<rparr>)"
  using set
proof (cases rule: settle_publicationE)
  case changed
  from outbox_ok_workerD [OF ok w] obtain e0 where e0: "e0 \<in> set (ox_rows s)" "event_matches text' e0 ev"
    "is_ok result \<longrightarrow> routed parse text' s e0" by (cases result) (auto simp: publisher_ok_def)
  show ?thesis unfolding changed(1)
  proof (rule outbox_ok_update [OF ok])
    fix e assume e: "e \<in> set (ox_rows s)" "event_held (oe_settle_now env) ev e"
    have "distinct (map ob_id (ox_rows s))" using ok by (simp add: outbox_ok_def)
    moreover have "ob_id e = ob_id e0" using e(2) event_matches_id [OF e0(2)] by (simp add: event_held_def)
    ultimately have "e = e0" using e(1) e0(1) distinct_map_inj_on by metis
    with e0 e(2) have m: "ob_attempts e = ev_attempts ev" "is_ok result \<longrightarrow> routed parse text' s e"
      by (auto simp: event_matches_def event_held_def)
    let ?e = "settled_row (oe_settle_now env) ev result e"
    have r: "event_row_ok parse text' s e" using outbox_ok_rowD [OF ok e(1)] .
    have id: "ob_id ?e = ob_id e" by (rule ob_content_id) simp
    have pub: "ob_status ?e = ''published'' \<Longrightarrow> is_ok result"
      by (auto simp: settled_row_def unpublished_event_def outbox_failure_status_def split: sum.splits if_splits)
    have fail: "ob_status ?e = ''failed'' \<Longrightarrow> ob_attempts e = OUTBOX_MAX_ATTEMPTS
        \<or> (case ob_failure_code ?e of None \<Rightarrow> False | Some c \<Rightarrow> \<not> is_transient_outbox_error c)"
      using r m(1) by (auto simp: settled_row_def unpublished_event_def published_event_def outbox_failure_status_def
        event_row_ok_def split: sum.splits if_splits)
    have "routed parse text' s ?e = routed parse text' s e" by (rule routed_content) simp
    then show "event_row_ok parse text' s ?e"
      using r changed(2) [OF e] m(2) pub fail by (simp add: event_row_ok_def id)
  qed simp_all
qed (use ok in simp)

subsection \<open>The claim\<close>

lemma claim_outbox_rowsE:
  assumes "claim_outbox_rows env rows = Inr (ev, rows2)"
  obtains (none) n where
      "sql_update outbox_check (outbox_exhausted (oe_claim_now env)) (exhausted_event (oe_claim_now env)) rows = Inr (n, rows2)" "ev = None"
  | (one) n rows1 e where
      "sql_update outbox_check (outbox_exhausted (oe_claim_now env)) (exhausted_event (oe_claim_now env)) rows = Inr (n, rows1)"
      "e \<in> set rows1" "outbox_claimable (oe_claim_now env) e" "outbox_check (claimed_event (oe_claim_now env) (oe_token env) e)"
      "rows2 = update_where (\<lambda>x. ob_id x = ob_id e) (claimed_event (oe_claim_now env) (oe_token env)) rows1"
      "ev = Some (event_of_row (oe_timestamp_text env) (oe_token env) (claimed_event (oe_claim_now env) (oe_token env) e))"
proof -
  let ?now = "oe_claim_now env" and ?t = "oe_token env"
  let ?next = "\<lambda>rows1. limit1 (order_by (\<lambda>x y. ob_created_at x \<le> ob_created_at y)
      (filter (\<lambda>e. outbox_claimable ?now e \<and> \<not> oe_locked env e) rows1))"
  from assms obtain n rows1 where u: "sql_update outbox_check (outbox_exhausted ?now) (exhausted_event ?now) rows = Inr (n, rows1)"
    and rest: "case ?next rows1 of None \<Rightarrow> ev = None \<and> rows2 = rows1
      | Some e \<Rightarrow> \<exists>k row. sql_update outbox_check (\<lambda>x. ob_id x = ob_id e) (claimed_event ?now ?t) rows1 = Inr (k, rows2)
           \<and> query_opt (map (claimed_event ?now ?t) (filter (\<lambda>x. ob_id x = ob_id e) rows1)) = Inr row
           \<and> ev = map_option (event_of_row (oe_timestamp_text env) ?t) row"
    unfolding claim_outbox_rows_def Let_def by (auto split: option.splits)
  show ?thesis
  proof (cases "?next rows1")
    case None
    then show ?thesis using rest u none by auto
  next
    case (Some e)
    then have e: "e \<in> set rows1" "outbox_claimable ?now e" by (auto dest: limit1_Some)
    from Some rest obtain k row where k: "sql_update outbox_check (\<lambda>x. ob_id x = ob_id e) (claimed_event ?now ?t) rows1 = Inr (k, rows2)"
      and row: "query_opt (map (claimed_event ?now ?t) (filter (\<lambda>x. ob_id x = ob_id e) rows1)) = Inr row"
      and ev: "ev = map_option (event_of_row (oe_timestamp_text env) ?t) row" by auto
    obtain xs where xs: "xs = filter (\<lambda>x. ob_id x = ob_id e) rows1" "e \<in> set xs" using e(1) by simp
    then have "row = Some (claimed_event ?now ?t e)"
      using row unfolding xs(1) [symmetric] by (auto simp: query_opt_def split: list.splits)
    then show ?thesis using one [OF u e] k ev e(1) by (auto simp: sql_update_Inr)
  qed
qed

lemma claim_outbox_eventE:
  assumes "claim_outbox_event env rows = (r, rows')"
  obtains (kept) "rows' = rows" "claimed_phase r = Idle"
  | (swept) n where "sql_update outbox_check (outbox_exhausted (oe_claim_now env)) (exhausted_event (oe_claim_now env)) rows = Inr (n, rows')"
      "claimed_phase r = Idle"
  | (taken) n rows1 e where
      "sql_update outbox_check (outbox_exhausted (oe_claim_now env)) (exhausted_event (oe_claim_now env)) rows = Inr (n, rows1)"
      "e \<in> set rows1" "outbox_claimable (oe_claim_now env) e" "outbox_check (claimed_event (oe_claim_now env) (oe_token env) e)"
      "rows' = update_where (\<lambda>x. ob_id x = ob_id e) (claimed_event (oe_claim_now env) (oe_token env)) rows1"
      "claimed_phase r = Idle
        \<or> claimed_phase r = Publishing (event_of_row (oe_timestamp_text env) (oe_token env)
             (claimed_event (oe_claim_now env) (oe_token env) e))"
proof (cases "claim_outbox_rows env rows")
  case (Inl error)
  then show ?thesis using kept assms by (auto simp: claim_outbox_event_def claimed_phase_def)
next
  case (Inr x)
  obtain ev rows2 where x: "x = (ev, rows2)" by (cases x)
  have eff: "rows' = rows \<and> claimed_phase r = Idle \<or> rows' = rows2 \<and> (claimed_phase r = Idle \<or> r = Inr ev)"
    using assms Inr x by (auto simp: claim_outbox_event_def claimed_phase_def split: commit_outcome.splits)
  from Inr x have "claim_outbox_rows env rows = Inr (ev, rows2)" by simp
  then show ?thesis
  proof (cases rule: claim_outbox_rowsE)
    case (none n)
    then show ?thesis using eff kept swept by (auto simp: claimed_phase_def)
  next
    case (one n rows1 e)
    then show ?thesis using eff kept taken [OF one(1-4)] by (auto simp: claimed_phase_def)
  qed
qed

lemma outbox_ok_claim:
  assumes ok: "outbox_ok parse text' s" and i: "i < length (ox_workers s)" "ox_workers s ! i = Idle"
    and env: "publisher_env parse text' env" and t: "oe_token env \<notin> set (ox_tokens s)"
    and claim: "claim_outbox_event env (ox_rows s) = (r, rows)"
  shows "outbox_ok parse text' (s\<lparr>ox_rows := rows, ox_workers := (ox_workers s)[i := claimed_phase r],
      ox_tokens := oe_token env # ox_tokens s\<rparr>)"
proof -
  have same: "(ox_workers s)[i := Idle] = ox_workers s" using i by (metis list_update_id)
  have more: "outbox_ok parse text' (s'\<lparr>ox_tokens := ts\<rparr>)"
    if "outbox_ok parse text' s'" "set (ox_tokens s') \<subseteq> set ts" for s' :: outbox_sys and ts
  proof -
    have "publisher_ok parse text' (s'\<lparr>ox_tokens := ts\<rparr>) q" if "q \<in> set (ox_workers s')" for q
      using publisher_ok_mono [OF outbox_ok_workerD [OF \<open>outbox_ok parse text' s'\<close> that]] \<open>set (ox_tokens s') \<subseteq> set ts\<close> by simp
    then show ?thesis using that by (auto simp: outbox_ok_def event_row_ok_def)
  qed
  show ?thesis using claim
  proof (cases rule: claim_outbox_eventE)
    case kept
    then show ?thesis using more [OF ok, of "oe_token env # ox_tokens s"] same by (simp add: subset_insertI)
  next
    case (swept n)
    then show ?thesis using more [OF outbox_ok_sweep [OF ok swept(1)], of "oe_token env # ox_tokens s"] same
      by (simp add: subset_insertI)
  next
    case (taken n rows1 e)
    let ?s = "s\<lparr>ox_rows := rows1\<rparr>"
    have "outbox_ok parse text' ?s" by (rule outbox_ok_sweep [OF ok taken(1)])
    then have "outbox_ok parse text' (?s\<lparr>ox_rows := rows, ox_workers := (ox_workers ?s)[i := claimed_phase r],
        ox_tokens := oe_token env # ox_tokens ?s\<rparr>)"
      using outbox_ok_take [where s = ?s and n = e and now = "oe_claim_now env" and t = "oe_token env" and i = i
          and p = "claimed_phase r" and parse = parse and text' = text'] taken i t env
      by (simp add: publisher_env_def)
    then show ?thesis by simp
  qed
qed

subsection \<open>The invariant of every run\<close>

lemma outbox_ok_fresh: "outbox_ok parse text' (fresh_outbox now publishers)"
  by (auto simp: outbox_ok_def fresh_outbox_def publisher_ok_def)

lemma outbox_ok_step: "outbox_step parse text' s s' \<Longrightarrow> outbox_ok parse text' s \<Longrightarrow> outbox_ok parse text' s'"
proof (induction rule: outbox_step.induct)
  case (tick s now)
  then show ?case by (auto simp: outbox_ok_def event_row_ok_def publisher_ok_def split: option.splits)
next
  case (finalize s order payment_id carrier rows)
  let ?e = "paid_outbox_row (ox_now s) order payment_id carrier"
  have "ob_status ?e = ''queued''" "ob_attempts ?e = 0" "ob_claim_token ?e = None"
    by (simp_all add: paid_outbox_row_def split: prod.splits)
  with finalize outbox_ok_insert [OF finalize.prems, of ?e] show ?case
    by (auto simp: insert_or_skip_def image_iff split: if_splits)
next
  case (claim i s env r rows)
  then show ?case by (intro outbox_ok_claim)
next
  case (publish i s ev env rabbit result rabbit1 out)
  then show ?case unfolding publisher_env_def by (intro outbox_ok_publish) simp_all
next
  case (settle i s ev result env answer rows)
  then have "Settling ev result \<in> set (ox_workers s)" by (metis nth_mem)
  with settle have "outbox_ok parse text' (s\<lparr>ox_rows := rows\<rparr>)" by (intro outbox_ok_settle)
  from outbox_ok_idle [OF this, of i] settle show ?case by simp
next
  case (crash i s)
  then show ?case by (intro outbox_ok_idle)
qed

lemma outbox_ok_run: "(outbox_step parse text')\<^sup>*\<^sup>* s s' \<Longrightarrow> outbox_ok parse text' s \<Longrightarrow> outbox_ok parse text' s'"
  by (induction rule: rtranclp_induct) (blast intro: outbox_ok_step)+

subsection \<open>Settled rows\<close>

definition outbox_final :: "outbox_row \<Rightarrow> bool" where
  "outbox_final e \<longleftrightarrow> ob_status e \<in> {''published'', ''failed''}"

lemma final_untouched:
  "outbox_final e \<Longrightarrow> \<not> outbox_exhausted now e" "outbox_final e \<Longrightarrow> \<not> outbox_claimable now e"
  "outbox_final e \<Longrightarrow> \<not> event_held now ev e"
  by (auto simp: outbox_final_def outbox_exhausted_def outbox_claimable_def event_held_def)

lemma outbox_step_keeps_final:
  "outbox_step parse text' s s' \<Longrightarrow> outbox_ok parse text' s \<Longrightarrow> kept outbox_final (ox_rows s) (ox_rows s')"
proof (induction rule: outbox_step.induct)
  case (finalize s order payment_id carrier rows)
  then show ?case by (auto simp: insert_or_skip_def split: if_splits)
next
  case (claim i s env r rows)
  from claim.hyps(6) show ?case
  proof (cases rule: claim_outbox_eventE)
    case (swept n)
    then show ?thesis by (auto simp: sql_update_Inr intro!: kept_update_where dest: final_untouched)
  next
    case (taken n rows1 e)
    have k1: "kept outbox_final (ox_rows s) rows1"
      using taken(1) by (auto simp: sql_update_Inr intro!: kept_update_where dest: final_untouched)
    have "distinct (map ob_id rows1)"
      using outbox_ok_sweep [OF claim.prems taken(1)] by (simp add: outbox_ok_def)
    then have "kept outbox_final rows1 rows"
      unfolding taken(5) using taken(2,3) by (auto intro!: kept_update_where dest: final_untouched distinct_map_inj_on)
    with k1 show ?thesis using kept_trans by auto
  qed simp
next
  case (settle i s ev result env answer rows)
  from settle.hyps(4) show ?case
    by (cases rule: settle_publicationE) (auto intro!: kept_update_where dest: final_untouched)
qed simp_all

lemma outbox_run_keeps_final:
  "(outbox_step parse text')\<^sup>*\<^sup>* s s' \<Longrightarrow> outbox_ok parse text' s \<Longrightarrow> kept outbox_final (ox_rows s) (ox_rows s')"
proof (induction rule: rtranclp_induct)
  case (step y z)
  then show ?case using outbox_step_keeps_final outbox_ok_run kept_trans by metis
qed simp

end
