(* ===== verification/CheckoutCart.thy ===== *)
theory CheckoutCart
  imports CheckoutRabbit
begin

text \<open>
  The HTTP routes of checkout beside the saga (\<open>services/checkout/src/api.rs\<close>): the cart (\<open>get_cart\<close>,
  \<open>add_cart_item\<close>, \<open>replace_cart_item\<close>, \<open>remove_cart_item\<close>), the orders (\<open>list_orders\<close>, \<open>get_order\<close>),
  \<open>checkout_request\<close>, \<open>quote_stream\<close> and the health routes. Columns no other operation uses are functions of
  the row's id in \<open>cart_columns\<close>. \<open>parent\<close> is the baggage of the inbound context.
\<close>

record cart_query =
  cq_tenant_id :: string
  cq_customer_id :: "string option"
  cq_session_id :: "string option"

record add_cart_item_input =
  ai_tenant_id :: string
  ai_customer_id :: string
  ai_cart_id :: "string option"
  ai_session_id :: "string option"
  ai_sku :: string
  ai_quantity :: u32
  ai_currency_code :: string

record cart_columns =
  cc_prices :: "price_row list"
  cc_order_created_at :: "string \<Rightarrow> timestamp"
  cc_order_shipping_minor :: "string \<Rightarrow> int"
  cc_order_item_discount_minor :: "string \<Rightarrow> int"
  cc_cart_item_added_at :: "string \<Rightarrow> timestamp"

record cart_env =
  ce_pg :: "sql_error \<Rightarrow> string"
  ce_to_str :: to_str
  ce_pool :: pool_result
  ce_now :: timestamp
  ce_session_uuid :: string
  ce_cart_uuid :: string
  ce_retry_uuid :: string
  ce_item_uuid :: string
  ce_commit :: commit_outcome

text \<open>A transaction that ends with \<open>commit().await.map_err(db_error)\<close>.\<close>

definition commit_or :: "commit_outcome \<Rightarrow> ('d \<Rightarrow> fault + ('a \<times> 'd)) \<Rightarrow> 'd \<Rightarrow> (fault + 'a) \<times> 'd" where
  "commit_or commit body db =
     (case body db of
        Inl error \<Rightarrow> (Inl error, db)
      | Inr (x, db1) \<Rightarrow>
          (case commit of
             Committed \<Rightarrow> (Inr x, db1)
           | Commit_lost error took_effect \<Rightarrow>
               (Inl (Refused (ApiError 503 ''database_unavailable'' (''database: '' @ error))),
                if took_effect then db1 else db)))"

definition in_session :: "string option \<Rightarrow> string option \<Rightarrow> bool" where
  "in_session session_id column \<longleftrightarrow> session_id = None \<or> column = session_id"

subsection \<open>Reading orders\<close>

definition opt_json :: "('a \<Rightarrow> json) \<Rightarrow> 'a option \<Rightarrow> json" where
  "opt_json f v = (case v of None \<Rightarrow> JNull | Some x \<Rightarrow> f x)"

text \<open>\<open>duration_since(UNIX_EPOCH).ok().map(as_secs)\<close>\<close>

definition epoch_secs :: "timestamp \<Rightarrow> json" where
  "epoch_secs t = (if t < 0 then JNull else JNum (t div 1000000))"

text \<open>\<open>EXTRACT(EPOCH FROM ..)::BIGINT\<close> rounds half away from zero.\<close>

definition epoch_bigint :: "timestamp \<Rightarrow> int" where
  "epoch_bigint t = (if t \<ge> 0 then (t + 500000) div 1000000 else - ((500000 - t) div 1000000))"

definition order_of_customer :: "shop_db \<Rightarrow> string \<Rightarrow> string \<Rightarrow> string option \<Rightarrow> order_row \<Rightarrow> bool" where
  "order_of_customer db tenant_id customer_id session_id o' \<longleftrightarrow>
     ord_tenant o' = tenant_id \<and> ord_customer_id o' = Some customer_id \<and> in_session session_id (cart_session_of db o')"

definition list_orders ::
  "cart_env \<Rightarrow> header_map \<Rightarrow> baggage_lookup \<Rightarrow> cart_query \<Rightarrow> cart_columns \<Rightarrow> shop_db \<Rightarrow> api_error + json" where
  "list_orders env headers parent query cols db =
     and_then (resolve_http_tenant_id (ce_to_str env) headers (cq_tenant_id query)) (\<lambda>tenant_id.
     and_then (require_customer_id (cq_customer_id query)) (\<lambda>customer_id.
     and_then (resolve_session_id parent (cq_session_id query)) (\<lambda>session_id.
     and_then (acquire_db (ce_pool env)) (\<lambda>_.
     let rows = take 100 (order_by (\<lambda>x y. cc_order_created_at cols (ord_id x) \<ge> cc_order_created_at cols (ord_id y))
           (filter (order_of_customer db tenant_id customer_id session_id) (orders (core db)))) in
     Inr (JObj [(''orders'', JArr (map (\<lambda>o'. JObj [(''id'', JStr (ord_id o')), (''order_number'', JStr (ord_number o')),
             (''tenant_id'', JStr tenant_id), (''customer_id'', json_opt_str (ord_customer_id o')),
             (''session_id'', json_opt_str (cart_session_of db o')), (''status'', JStr (ord_status o')),
             (''currency'', JStr (ord_currency o')), (''total_minor'', JNum (ord_total_minor o')),
             (''created_at'', epoch_secs (cc_order_created_at cols (ord_id o')))]) rows)),
           (''tenant_id'', JStr tenant_id), (''customer_id'', JStr customer_id),
           (''session_id'', json_opt_str session_id)])))))"

definition order_item_json :: "cart_columns \<Rightarrow> order_item_row \<Rightarrow> json" where
  "order_item_json cols i =
     (let discount = cc_order_item_discount_minor cols (oit_id i) in
      JObj [(''sku'', JStr (oit_sku i)), (''product_name'', JStr (oit_product_name i)),
        (''quantity'', JNum (oit_quantity i)), (''unit_price_minor'', JNum (oit_unit_price_minor i)),
        (''discount_minor'', JNum discount),
        (''line_total_minor'', JNum (oit_quantity i * oit_unit_price_minor i - discount))])"

definition get_order ::
  "cart_env \<Rightarrow> (order_item_row \<Rightarrow> order_item_row \<Rightarrow> bool) \<Rightarrow> header_map \<Rightarrow> baggage_lookup \<Rightarrow> string \<Rightarrow> cart_query \<Rightarrow> cart_columns
     \<Rightarrow> shop_db \<Rightarrow> api_error + json" where
  "get_order env tie headers parent order_id query cols db =
     and_then (resolve_http_tenant_id (ce_to_str env) headers (cq_tenant_id query)) (\<lambda>tenant_id.
     and_then (require_customer_id (cq_customer_id query)) (\<lambda>customer_id.
     and_then (resolve_session_id parent (cq_session_id query)) (\<lambda>session_id.
     and_then (acquire_db (ce_pool env)) (\<lambda>_.
     and_then (map_err (db_error (ce_pg env)) (query_opt (filter (\<lambda>o'. ord_id o' = order_id
        \<and> order_of_customer db tenant_id customer_id session_id o') (orders (core db))))) (\<lambda>found.
     and_then (ok_or (ApiError 404 ''order_not_found'' ''order was not found'') found) (\<lambda>o'.
     Inr (JObj [(''id'', JStr (ord_id o')), (''order_number'', JStr (ord_number o')), (''tenant_id'', JStr tenant_id),
        (''customer_id'', json_opt_str (ord_customer_id o')), (''session_id'', json_opt_str (cart_session_of db o')),
        (''status'', JStr (ord_status o')), (''currency'', JStr (ord_currency o')),
        (''subtotal_minor'', JNum (ord_subtotal_minor o')), (''discount_minor'', JNum (ord_discount_minor o')),
        (''tax_minor'', JNum (ord_tax_minor o')), (''shipping_minor'', JNum (cc_order_shipping_minor cols (ord_id o'))),
        (''total_minor'', JNum (ord_total_minor o')),
        (''created_at'', JNum (epoch_bigint (cc_order_created_at cols (ord_id o')))),
        (''payment_id'', opt_json (\<lambda>p. JStr (pay_id p)) (latest_payment (core db) o')),
        (''payment_status'', opt_json (\<lambda>p. JStr (pay_status p)) (latest_payment (core db) o')),
        (''items'', JArr (map (order_item_json cols) (items_of_order tie tenant_id order_id db)))])))))))"

subsection \<open>Reading the cart\<close>

definition latest_cart :: "(cart_row \<Rightarrow> bool) \<Rightarrow> shop_db \<Rightarrow> cart_row option" where
  "latest_cart p db = limit1 (order_by (\<lambda>x y. crt_updated_at x \<ge> crt_updated_at y) (filter p (carts db)))"

definition line_total :: "cart_item_row \<Rightarrow> int" where
  "line_total c = cit_quantity c * cit_unit_price_minor c - cit_discount_minor c"

definition get_cart ::
  "cart_env \<Rightarrow> header_map \<Rightarrow> baggage_lookup \<Rightarrow> cart_query \<Rightarrow> cart_columns \<Rightarrow> shop_db \<Rightarrow> fault + json" where
  "get_cart env headers parent query cols db =
     and_then (refused (resolve_http_tenant_id (ce_to_str env) headers (cq_tenant_id query))) (\<lambda>tenant_id.
     and_then (refused (require_customer_id (cq_customer_id query))) (\<lambda>customer_id.
     and_then (refused (resolve_session_id parent (cq_session_id query))) (\<lambda>session_id.
     and_then (refused (acquire_db (ce_pool env))) (\<lambda>_.
     case latest_cart (\<lambda>c. crt_tenant c = tenant_id \<and> crt_customer_id c = Some customer_id \<and> crt_status c = ''active''
            \<and> in_session session_id (crt_session_id c)) db of
       None \<Rightarrow> Inr (JObj [(''cart'', JNull), (''tenant_id'', JStr tenant_id), (''session_id'', json_opt_str session_id)])
     | Some cart \<Rightarrow>
         let items = order_by (\<lambda>(x, _, _) (y, _, _). cc_cart_item_added_at cols (cit_id x) \<le> cc_cart_item_added_at cols (cit_id y))
               [(ci, pv, p). ci \<leftarrow> filter (\<lambda>ci. cit_tenant ci = tenant_id \<and> cit_cart ci = crt_id cart) (cart_items db),
                  pv \<leftarrow> filter (\<lambda>pv. var_tenant pv = cit_tenant ci \<and> var_id pv = cit_variant ci) (variants (core db)),
                  p \<leftarrow> filter (\<lambda>p. spr_tenant p = var_tenant pv \<and> spr_id p = var_product pv) (products db)] in
         and_then (ok_or Panic (crt_session_id cart)) (\<lambda>cart_session.
         Inr (JObj [(''cart'', JObj [(''id'', JStr (crt_id cart)), (''status'', JStr (crt_status cart)),
               (''currency'', JStr (crt_currency cart)),
               (''items'', JArr (map (\<lambda>(ci, pv, p). JObj [(''sku'', JStr (var_sku pv)), (''product_name'', JStr (spr_name p)),
                  (''quantity'', JNum (cit_quantity ci)), (''unit_price_minor'', JNum (cit_unit_price_minor ci)),
                  (''line_total_minor'', JNum (line_total ci))]) items))]),
            (''tenant_id'', JStr tenant_id), (''session_id'', JStr cart_session)]))))))"

subsection \<open>Changing the cart\<close>

text \<open>\<open>INSERT INTO carts ... ON CONFLICT DO NOTHING RETURNING id\<close>: whether a row was inserted.\<close>

definition cart_taken :: "string \<Rightarrow> string \<Rightarrow> string \<Rightarrow> shop_db \<Rightarrow> bool" where
  "cart_taken tenant_id session_id cart_id db \<longleftrightarrow>
     list_ex (\<lambda>c. crt_id c = cart_id \<or> (crt_tenant c = tenant_id \<and> crt_session_id c = Some session_id)) (carts db)"

definition insert_cart_row ::
  "(sql_error \<Rightarrow> string) \<Rightarrow> timestamp \<Rightarrow> add_cart_item_input \<Rightarrow> string \<Rightarrow> string \<Rightarrow> shop_db \<Rightarrow> fault + shop_db" where
  "insert_cart_row pg now input session_id cart_id db =
     (if cart_taken (ai_tenant_id input) session_id cart_id db then sql_refused pg (Inl Unique_violation)
      else if \<not> list_ex (\<lambda>c. cust_tenant c = ai_tenant_id input \<and> cust_id c = ai_customer_id input) (customers db)
           \<or> ai_tenant_id input \<notin> set (tenants (core db))
        then sql_refused pg (Inl Foreign_key_violation)
      else if \<not> currency_check (ai_currency_code input) then sql_refused pg (Inl Check_violation)
      else Inr (db\<lparr>carts := carts db @ [\<lparr>crt_id = cart_id, crt_tenant = ai_tenant_id input,
             crt_customer_id = Some (ai_customer_id input), crt_session_id = Some session_id, crt_status = ''active'',
             crt_currency = ai_currency_code input, crt_expires_at = Some (now + seconds (7 * 86400)),
             crt_updated_at = now\<rparr>]\<rparr>))"

text \<open>
  The cart an item goes to: the one that is named, else the active cart of the session, else any active cart of the
  customer in the currency, else a new one. The result says whether the cart has to be inserted.
\<close>

definition choose_cart :: "add_cart_item_input \<Rightarrow> string \<Rightarrow> string \<Rightarrow> shop_db \<Rightarrow> string \<times> bool" where
  "choose_cart input session_id new_cart_id db =
     (case ai_cart_id input of
        Some cart_id \<Rightarrow> (cart_id, True)
      | None \<Rightarrow>
          let active = (\<lambda>c. crt_tenant c = ai_tenant_id input \<and> crt_customer_id c = Some (ai_customer_id input)
                \<and> crt_currency c = ai_currency_code input \<and> crt_status c = ''active'') in
          (case or_else (latest_cart (\<lambda>c. active c \<and> crt_session_id c = Some session_id) db) (latest_cart active db) of
             Some c \<Rightarrow> (crt_id c, False)
           | None \<Rightarrow> (new_cart_id, True)))"

definition ensure_cart ::
  "cart_env \<Rightarrow> add_cart_item_input \<Rightarrow> string \<Rightarrow> string \<Rightarrow> bool \<Rightarrow> shop_db \<Rightarrow> fault + (string \<times> shop_db)" where
  "ensure_cart env input session_id cart_id insert_cart' db =
     (if \<not> insert_cart' then Inr (session_id, db)
      else if \<not> cart_taken (ai_tenant_id input) session_id cart_id db
        then and_then (insert_cart_row (ce_pg env) (ce_now env) input session_id cart_id db) (\<lambda>db1. Inr (session_id, db1))
      else if ai_cart_id input \<noteq> None then Inr (session_id, db)
      else
        let session_id1 = ''session-'' @ ce_retry_uuid env in
        and_then (insert_cart_row (ce_pg env) (ce_now env) input session_id1 cart_id db) (\<lambda>db1. Inr (session_id1, db1)))"

definition check_cart :: "cart_env \<Rightarrow> add_cart_item_input \<Rightarrow> string \<Rightarrow> string \<Rightarrow> shop_db \<Rightarrow> fault + unit" where
  "check_cart env input session_id cart_id db =
     and_then (sql_refused (ce_pg env) (query_opt (filter (\<lambda>c. crt_tenant c = ai_tenant_id input \<and> crt_id c = cart_id)
        (carts db)))) (\<lambda>row.
     and_then (refused (ok_or (ApiError 404 ''cart_not_found'' ''cart was not found for this tenant'') row)) (\<lambda>cart.
     and_then (ok_or Panic (crt_session_id cart)) (\<lambda>cart_session.
     if crt_customer_id cart \<noteq> Some (ai_customer_id input) \<or> crt_status cart \<noteq> ''active''
        \<or> crt_currency cart \<noteq> ai_currency_code input \<or> cart_session \<noteq> session_id
       then Inl (Refused (ApiError 404 ''cart_not_found'' ''cart was not found for this customer''))
     else Inr ())))"

definition current_price :: "timestamp \<Rightarrow> add_cart_item_input \<Rightarrow> cart_columns \<Rightarrow> shop_db \<Rightarrow> (variant_row \<times> price_row) option" where
  "current_price now input cols db =
     limit1 (order_by (\<lambda>(_, x) (_, y). price_valid_from x \<ge> price_valid_from y)
       [(pv, pr). pv \<leftarrow> filter (\<lambda>pv. var_tenant pv = ai_tenant_id input \<and> var_sku pv = ai_sku input
                          \<and> var_status pv = ''active'') (variants (core db)),
                  p \<leftarrow> filter (\<lambda>p. spr_tenant p = var_tenant pv \<and> spr_id p = var_product pv) (products db),
                  pr \<leftarrow> filter (\<lambda>pr. price_tenant pr = var_tenant pv \<and> price_variant pr = var_id pv
                          \<and> price_currency pr = ai_currency_code input \<and> price_is_default pr
                          \<and> price_valid_from pr \<le> now
                          \<and> (price_valid_to pr = None \<or> after_now now (price_valid_to pr))) (cc_prices cols)])"

text \<open>
  \<open>INSERT INTO cart_items ... ON CONFLICT (tenant_id, cart_id, variant_id) DO UPDATE ... WHERE quantity + EXCLUDED.quantity <= 100\<close>
\<close>

definition add_item_row :: "cart_item_row \<Rightarrow> cart_item_row list \<Rightarrow> sql_error + (nat \<times> cart_item_row list)" where
  "add_item_row row rows =
     (if \<not> cart_item_check row then Inl Check_violation
      else if cit_key row \<in> set (map cit_key rows)
        then
          if list_ex (\<lambda>c. cit_key c = cit_key row \<and> cit_quantity c + cit_quantity row > i32_max) rows then Inl Check_violation
          else sql_update cart_item_check
            (\<lambda>c. cit_key c = cit_key row \<and> cit_quantity c + cit_quantity row \<le> uint CHECKOUT_MAX_QUANTITY)
            (\<lambda>c. c\<lparr>cit_quantity := cit_quantity c + cit_quantity row, cit_unit_price_minor := cit_unit_price_minor row\<rparr>) rows
      else if cit_id row \<in> set (map cit_id rows) then Inl Unique_violation
      else Inr (1, rows @ [row]))"

definition touch_cart :: "(sql_error \<Rightarrow> string) \<Rightarrow> timestamp \<Rightarrow> string \<Rightarrow> string \<Rightarrow> shop_db \<Rightarrow> fault + shop_db" where
  "touch_cart pg now tenant_id cart_id db =
     and_then (sql_refused pg (sql_update cart_check (\<lambda>c. crt_tenant c = tenant_id \<and> crt_id c = cart_id)
        (\<lambda>c. c\<lparr>crt_updated_at := now\<rparr>) (carts db))) (\<lambda>(_, rows). Inr (db\<lparr>carts := rows\<rparr>))"

definition add_item_tx ::
  "cart_env \<Rightarrow> add_cart_item_input \<Rightarrow> string \<Rightarrow> cart_columns \<Rightarrow> shop_db \<Rightarrow> fault + (json \<times> shop_db)" where
  "add_item_tx env input requested_session cols db =
     (case choose_cart input requested_session (''cart-'' @ ce_cart_uuid env) db of (cart_id, insert_cart') \<Rightarrow>
     and_then (ensure_cart env input requested_session cart_id insert_cart' db) (\<lambda>(session_id, db1).
     and_then (check_cart env input session_id cart_id db1) (\<lambda>_.
     and_then (refused (ok_or (ApiError 404 ''product_not_found'' ''SKU has no active price'')
        (current_price (ce_now env) input cols db1))) (\<lambda>(variant, price).
     and_then (refused (ok_or (ApiError 400 ''invalid_cart_quantity'' ''quantity exceeds the database integer range'')
        (checked_i32 (uint (ai_quantity input))))) (\<lambda>quantity.
     and_then (sql_refused (ce_pg env) (add_item_row
        \<lparr>cit_id = ''cart-item-'' @ ce_item_uuid env, cit_tenant = ai_tenant_id input, cit_cart = cart_id,
         cit_variant = var_id variant, cit_quantity = quantity, cit_unit_price_minor = price_amount_minor price,
         cit_discount_minor = 0\<rparr> (cart_items db1))) (\<lambda>(changed, rows).
     if changed \<noteq> 1
       then Inl (Refused (ApiError 400 ''cart_quantity_limit'' ''cart item quantity cannot exceed 100''))
     else
       and_then (touch_cart (ce_pg env) (ce_now env) (ai_tenant_id input) cart_id (db1\<lparr>cart_items := rows\<rparr>)) (\<lambda>db2.
       Inr (JObj [(''cart_id'', JStr cart_id), (''session_id'', JStr session_id), (''sku'', JStr (ai_sku input)),
              (''quantity_added'', JNum (uint (ai_quantity input))), (''unit_price_minor'', JNum (price_amount_minor price))],
            db2))))))))"

definition add_cart_item ::
  "cart_env \<Rightarrow> header_map \<Rightarrow> baggage_lookup \<Rightarrow> add_cart_item_input \<Rightarrow> cart_columns \<Rightarrow> shop_db \<Rightarrow> (fault + json) \<times> shop_db" where
  "add_cart_item env headers parent input0 cols =
     commit_or (ce_commit env) (\<lambda>db.
     and_then (refused (resolve_http_tenant_id (ce_to_str env) headers (ai_tenant_id input0))) (\<lambda>tenant_id.
     and_then (refused (resolve_session_id parent (ai_session_id input0))) (\<lambda>resolved.
     let session_id = (case resolved of Some s \<Rightarrow> s | None \<Rightarrow> ''session-'' @ ce_session_uuid env) in
     and_then (refused (require_customer_id (Some (ai_customer_id input0)))) (\<lambda>customer_id.
     let input = input0\<lparr>ai_tenant_id := tenant_id, ai_session_id := Some session_id, ai_customer_id := customer_id\<rparr> in
     if length (ai_currency_code input) \<noteq> 3 \<or> ai_currency_code input \<noteq> to_ascii_uppercase (ai_currency_code input)
       then Inl (Refused (ApiError 400 ''invalid_currency'' ''currency_code must be three uppercase letters''))
     else if ai_quantity input = 0 \<or> ai_quantity input > CHECKOUT_MAX_QUANTITY \<or> trim (ai_sku input) = []
       then Inl (Refused (ApiError 400 ''invalid_cart_item'' ''sku and quantity are required''))
     else
       and_then (refused (acquire_db (ce_pool env))) (\<lambda>_. add_item_tx env input session_id cols db)))))"

text \<open>The cart a change of an item is for.\<close>

definition scoped_cart ::
  "cart_env \<Rightarrow> string \<Rightarrow> cart_item_scope \<Rightarrow> string option \<Rightarrow> shop_db \<Rightarrow> fault + cart_row" where
  "scoped_cart env tenant_id scope session_id db =
     and_then (sql_refused (ce_pg env) (query_opt (filter (\<lambda>c. crt_tenant c = tenant_id \<and> crt_id c = cs_cart_id scope
        \<and> crt_customer_id c = Some (cs_customer_id scope) \<and> crt_status c = ''active''
        \<and> in_session session_id (crt_session_id c)) (carts db)))) (\<lambda>found.
     refused (ok_or (ApiError 404 ''cart_not_found'' ''active cart was not found'') found))"

text \<open>\<open>WHERE ci.tenant_id=$1 AND ci.cart_id=$2 AND ci.variant_id=pv.id AND pv.tenant_id=$1 AND pv.sku=$3\<close>\<close>

definition item_of_sku :: "string \<Rightarrow> string \<Rightarrow> string \<Rightarrow> shop_db \<Rightarrow> cart_item_row \<Rightarrow> bool" where
  "item_of_sku tenant_id cart_id sku db ci \<longleftrightarrow>
     cit_tenant ci = tenant_id \<and> cit_cart ci = cart_id
     \<and> list_ex (\<lambda>pv. var_id pv = cit_variant ci \<and> var_tenant pv = tenant_id \<and> var_sku pv = sku) (variants (core db))"

definition ITEM_NOT_FOUND :: api_error where
  "ITEM_NOT_FOUND = ApiError 404 ''cart_item_not_found'' ''cart item was not found''"

definition replace_cart_item ::
  "cart_env \<Rightarrow> header_map \<Rightarrow> baggage_lookup \<Rightarrow> string \<Rightarrow> replace_cart_item_input \<Rightarrow> shop_db \<Rightarrow> (fault + json) \<times> shop_db" where
  "replace_cart_item env headers parent sku input0 =
     commit_or (ce_commit env) (\<lambda>db.
     and_then (refused (resolve_http_tenant_id (ce_to_str env) headers (cs_tenant_id (rp_scope input0)))) (\<lambda>tenant_id.
     let input = input0\<lparr>rp_scope := (rp_scope input0)\<lparr>cs_tenant_id := tenant_id\<rparr>\<rparr>; cart_id = cs_cart_id (rp_scope input) in
     and_then (refused (resolve_session_id parent None)) (\<lambda>session_id.
     and_then (refused (validate_replace_cart_item input sku)) (\<lambda>valid.
     and_then (refused (ok_or (ApiError 400 ''invalid_cart_quantity'' ''quantity must be between 1 and 100'')
        (checked_i32 (uint valid)))) (\<lambda>quantity.
     and_then (refused (acquire_db (ce_pool env))) (\<lambda>_.
     and_then (scoped_cart env tenant_id (rp_scope input) session_id db) (\<lambda>_.
     let p = item_of_sku tenant_id cart_id sku db; f = (\<lambda>c. c\<lparr>cit_quantity := quantity\<rparr>) in
     and_then (sql_refused (ce_pg env) (sql_update cart_item_check p f (cart_items db))) (\<lambda>(_, rows).
     and_then (sql_refused (ce_pg env) (query_opt (map f (filter p (cart_items db))))) (\<lambda>found.
     and_then (refused (ok_or ITEM_NOT_FOUND found)) (\<lambda>row.
     and_then (touch_cart (ce_pg env) (ce_now env) tenant_id cart_id (db\<lparr>cart_items := rows\<rparr>)) (\<lambda>db1.
     Inr (JObj [(''cart_id'', JStr cart_id), (''sku'', JStr sku), (''quantity'', JNum (cit_quantity row)),
            (''unit_price_minor'', JNum (cit_unit_price_minor row)), (''line_total_minor'', JNum (line_total row))],
          db1))))))))))))"

definition remove_cart_item ::
  "cart_env \<Rightarrow> header_map \<Rightarrow> baggage_lookup \<Rightarrow> string \<Rightarrow> cart_item_scope \<Rightarrow> shop_db \<Rightarrow> (fault + json) \<times> shop_db" where
  "remove_cart_item env headers parent sku scope0 =
     commit_or (ce_commit env) (\<lambda>db.
     and_then (refused (resolve_http_tenant_id (ce_to_str env) headers (cs_tenant_id scope0))) (\<lambda>tenant_id.
     let scope = scope0\<lparr>cs_tenant_id := tenant_id\<rparr>; cart_id = cs_cart_id scope in
     and_then (refused (resolve_session_id parent None)) (\<lambda>session_id.
     and_then (refused (validate_cart_scope scope)) (\<lambda>_.
     and_then (refused (validate_cart_sku sku)) (\<lambda>_.
     and_then (refused (acquire_db (ce_pool env))) (\<lambda>_.
     and_then (scoped_cart env tenant_id scope session_id db) (\<lambda>_.
     let p = item_of_sku tenant_id cart_id sku db in
     and_then (sql_refused (ce_pg env) (query_opt (filter p (cart_items db)))) (\<lambda>found.
     and_then (refused (ok_or ITEM_NOT_FOUND found)) (\<lambda>row.
     and_then (touch_cart (ce_pg env) (ce_now env) tenant_id cart_id
        (db\<lparr>cart_items := filter (\<lambda>c. \<not> p c) (cart_items db)\<rparr>)) (\<lambda>db1.
     Inr (JObj [(''cart_id'', JStr cart_id), (''sku'', JStr sku), (''removed'', JBool True),
            (''quantity_removed'', JNum (cit_quantity row)), (''unit_price_minor'', JNum (cit_unit_price_minor row)),
            (''line_total_minor'', JNum (line_total row))], db1)))))))))))"

subsection \<open>The other routes\<close>

definition checkout_request :: "string \<Rightarrow> to_str \<Rightarrow> header_map \<Rightarrow> baggage_lookup \<Rightarrow> (checkout_input \<Rightarrow> baggage_lookup) \<Rightarrow> checkout_input \<Rightarrow> json flow" where
  "checkout_request uuid to_str headers parent context' input =
     flow_then (flow_lift (normalize_checkout_input uuid to_str headers parent input ''checkout'')) (\<lambda>input'.
     checkout_inner (context' input') input')"

definition stream_quote_request :: "string \<Rightarrow> checkout_input \<Rightarrow> quote_request" where
  "stream_quote_request uuid input =
     \<lparr>qr_request_id = (case in_request_id input of Some r \<Rightarrow> r | None \<Rightarrow> ''stream-'' @ uuid),
      qr_customer_id = in_customer_id input,
      qr_items = map (\<lambda>i. \<lparr>qi_sku = ci_sku i, qi_quantity = ci_quantity i\<rparr>) (in_items input),
      qr_currency_code = in_currency_code input,
      qr_context = [''customer_segment'' \<mapsto> in_segment input, ''customer_tier'' \<mapsto> in_tier input, ''region'' \<mapsto> in_region input,
         ''request_priority'' \<mapsto> in_priority input, ''pricing_strategy'' \<mapsto> ''standard''],
      qr_tenant_id = in_tenant_id input\<rparr>"

text \<open>A streamed quote with the milliseconds since the start, or the error that ended the stream.\<close>

datatype stream_event = Streamed nat | Stream_failed grpc_code string

fun count_quotes :: "u64 \<Rightarrow> stream_event list \<Rightarrow> u32 \<Rightarrow> api_error + (u32 \<times> bool)" where
  "count_quotes cancel_after [] n = Inr (n, False)"
| "count_quotes cancel_after (Stream_failed code message # es) n = Inl (pricing_error code message)"
| "count_quotes cancel_after (Streamed elapsed # es) n =
     (if 0 < cancel_after \<and> unat cancel_after \<le> elapsed then Inr (n + 1, True)
      else count_quotes cancel_after es (n + 1))"

datatype stream_answer = Stream_channel_error string | Stream_refused grpc_code string | Stream_open "stream_event list"

definition quote_stream ::
  "string \<Rightarrow> to_str \<Rightarrow> header_map \<Rightarrow> baggage_lookup \<Rightarrow> (quote_request \<Rightarrow> u64 \<Rightarrow> stream_answer) \<Rightarrow> quote_stream_query \<Rightarrow> api_error + json" where
  "quote_stream uuid to_str headers parent pricing query =
     and_then (normalize_checkout_input uuid to_str headers parent (checkout_input_from query) ''stream'') (\<lambda>input.
     case pricing (stream_quote_request uuid input) (max 1 (min 30000 (in_timeout_ms input))) of
       Stream_channel_error error \<Rightarrow> Inl (ApiError 503 ''pricing_unavailable'' error)
     | Stream_refused code message \<Rightarrow> Inl (pricing_error code message)
     | Stream_open events \<Rightarrow>
         and_then (count_quotes (in_delay_ms input) events 0) (\<lambda>(n, cancelled).
         Inr (JObj [(''streamed_quotes'', JNum (uint n)), (''cancelled'', JBool cancelled)])))"

record health_snapshot =
  hs_database :: bool
  hs_rabbit :: bool
  hs_catalog :: bool
  hs_pricing :: bool
  hs_payment :: bool
  hs_inventory :: bool
  hs_recommendation :: bool

definition up_down :: "bool \<Rightarrow> json" where
  "up_down b = JStr (if b then ''UP'' else ''DOWN'')"

definition health_response :: "health_snapshot \<Rightarrow> bool \<Rightarrow> int \<times> json" where
  "health_response snapshot require_messaging =
     (let status = (hs_database snapshot \<and> hs_catalog snapshot \<and> hs_pricing snapshot \<and> hs_payment snapshot
            \<and> hs_inventory snapshot \<and> hs_recommendation snapshot \<and> (\<not> require_messaging \<or> hs_rabbit snapshot)) in
      (if status then 200 else 503,
       JObj [(''status'', up_down status), (''database'', up_down (hs_database snapshot)),
         (''messaging'', up_down (hs_rabbit snapshot)), (''catalog'', up_down (hs_catalog snapshot)),
         (''pricing'', up_down (hs_pricing snapshot)), (''payment'', up_down (hs_payment snapshot)),
         (''inventory'', up_down (hs_inventory snapshot)), (''recommendation'', up_down (hs_recommendation snapshot))]))"

datatype http_probe = Probe_timeout | Probe_error | Probe_status int
datatype grpc_probe = Grpc_no_channel | Grpc_timeout | Grpc_error | Grpc_serving_status int

definition http_dependency_ready :: "http_probe \<Rightarrow> bool" where
  "http_dependency_ready probe = (case probe of Probe_status status \<Rightarrow> is_success status | _ \<Rightarrow> False)"

text \<open>\<open>ServingStatus::Serving\<close> is 1.\<close>

definition grpc_dependency_ready :: "grpc_probe \<Rightarrow> bool" where
  "grpc_dependency_ready probe = (case probe of Grpc_serving_status status \<Rightarrow> status = 1 | _ \<Rightarrow> False)"

definition health_snapshot_of ::
  "pool_result \<Rightarrow> bool \<Rightarrow> bool \<Rightarrow> bool \<Rightarrow> rabbit_publisher \<Rightarrow> http_probe \<Rightarrow> grpc_probe \<Rightarrow> grpc_probe \<Rightarrow> http_probe \<Rightarrow> http_probe
     \<Rightarrow> health_snapshot" where
  "health_snapshot_of pool query_ok lock_free is_connected rabbit catalog pricing payment stock related =
     \<lparr>hs_database = (pool = Pool_ok \<and> query_ok), hs_rabbit = is_ready lock_free is_connected rabbit,
      hs_catalog = http_dependency_ready catalog, hs_pricing = grpc_dependency_ready pricing,
      hs_payment = grpc_dependency_ready payment, hs_inventory = http_dependency_ready stock,
      hs_recommendation = http_dependency_ready related\<rparr>"

end
