(* ===== verification/CheckoutCartProperties.thy ===== *)
theory CheckoutCartProperties
  imports CheckoutCart CheckoutSample
begin

text \<open>
  What the cart routes guarantee: an accepted item adds exactly its quantity, at the current price, to an active cart
  of the customer and the session; no sequence of requests takes a quantity out of 1..100; and a customer with an
  active cart of another session cannot start one in this session.
\<close>

subsection \<open>Quantities\<close>

definition quantities :: "cart_item_row list \<Rightarrow> (string \<times> string \<times> string \<rightharpoonup> int)" where
  "quantities rows = map_of (map (\<lambda>c. (cit_key c, cit_quantity c)) rows)"

definition cart_ok :: "shop_db \<Rightarrow> bool" where
  "cart_ok db \<longleftrightarrow> distinct (map cit_key (cart_items db))
     \<and> list_all (\<lambda>c. 1 \<le> cit_quantity c \<and> cit_quantity c \<le> 100) (cart_items db)"

lemma quantities_Some:
  "distinct (map cit_key rows) \<Longrightarrow> quantities rows k = Some q \<longleftrightarrow> (\<exists>c \<in> set rows. cit_key c = k \<and> cit_quantity c = q)"
  unfolding quantities_def by (subst map_of_eq_Some_iff) (auto simp: comp_def)

lemma quantities_None: "quantities rows k = None \<longleftrightarrow> k \<notin> set (map cit_key rows)"
  by (auto simp: quantities_def map_of_eq_None_iff image_iff comp_def)

lemma max_quantity [simp]: "uint CHECKOUT_MAX_QUANTITY = 100"
  by (simp add: CHECKOUT_MAX_QUANTITY_def)

lemma commit_or_Inr: "commit_or commit body db = (Inr x, db') \<Longrightarrow> body db = Inr (x, db')"
  by (auto simp: commit_or_def split: sum.splits commit_outcome.splits)

lemma commit_or_cases:
  assumes "commit_or commit body db = (r, db')"
  obtains "db' = db" "\<not> is_ok r" | x where "body db = Inr (x, db')" "is_ok r \<longrightarrow> r = Inr x"
  using assms by (auto simp: commit_or_def split: sum.splits commit_outcome.splits if_splits)

lemma refused_Inr [simp]: "refused r = Inr x \<longleftrightarrow> r = Inr x"
  by (simp add: refused_def)

lemma sql_refused_Inr [simp]: "sql_refused pg r = Inr x \<longleftrightarrow> r = Inr x"
  by (simp add: sql_refused_def)

lemma ok_or_Inr: "ok_or e v = Inr x \<longleftrightarrow> v = Some x"
  by (cases v) simp_all

definition added_row :: "cart_item_row \<Rightarrow> cart_item_row \<Rightarrow> cart_item_row" where
  "added_row row c = c\<lparr>cit_quantity := cit_quantity c + cit_quantity row, cit_unit_price_minor := cit_unit_price_minor row\<rparr>"

lemma added_row_key [simp]: "cit_key (added_row row c) = cit_key c"
  by (simp add: added_row_def cit_key_def)

lemma add_item_rowE:
  assumes "add_item_row row rows = Inr (1, rows')" "distinct (map cit_key rows)"
  obtains (inserted) "cit_key row \<notin> set (map cit_key rows)" "rows' = rows @ [row]"
  | (updated) c where "c \<in> set rows" "cit_key c = cit_key row" "cit_quantity c + cit_quantity row \<le> 100"
      "rows' = update_where (\<lambda>x. x = c) (added_row row) rows"
proof (cases "cit_key row \<in> set (map cit_key rows)")
  case False
  then show ?thesis using assms(1) inserted by (auto simp: add_item_row_def split: if_splits)
next
  case True
  let ?p = "\<lambda>c. cit_key c = cit_key row \<and> cit_quantity c + cit_quantity row \<le> 100"
  have u: "count_where ?p rows = 1" "rows' = update_where ?p (added_row row) rows"
    using True assms(1) by (auto simp: add_item_row_def sql_update_Inr added_row_def [abs_def] split: if_splits)
  then have "\<not> (\<forall>r \<in> set rows. \<not> ?p r)" using count_where_eq_0 [of ?p rows] by simp
  then obtain c where c: "c \<in> set rows" "?p c" by blast
  have "?p x \<longleftrightarrow> x = c" if "x \<in> set rows" for x
    using c distinct_map_inj_on [OF assms(2) that c(1)] by auto
  then have "rows' = update_where (\<lambda>x. x = c) (added_row row) rows" by (simp add: u(2) update_where_def)
  with c show ?thesis using updated by blast
qed

lemma quantities_update_row:
  assumes "distinct (map cit_key rows)" "c \<in> set rows" "cit_key (f c) = cit_key c"
  shows "quantities (update_where (\<lambda>x. x = c) f rows) = (quantities rows)(cit_key c \<mapsto> cit_quantity (f c))"
  using assms unfolding quantities_def
proof (induction rows)
  case (Cons r rs)
  show ?case
  proof (cases "r = c")
    case True
    then have "c \<notin> set rs" using Cons.prems by auto
    then have "update_where (\<lambda>x. x = c) f rs = rs" by (intro update_where_id) auto
    then show ?thesis using True Cons.prems by (auto simp: fun_eq_iff)
  next
    case False
    then have "cit_key r \<noteq> cit_key c" using Cons.prems by (auto simp: image_iff)
    with False Cons show ?thesis by (auto simp: fun_upd_twist)
  qed
qed simp

lemma quantities_added:
  assumes "add_item_row row rows = Inr (1, rows')" "distinct (map cit_key rows)"
  shows "quantities rows' = (quantities rows)(cit_key row \<mapsto>
     (case quantities rows (cit_key row) of None \<Rightarrow> 0 | Some q \<Rightarrow> q) + cit_quantity row)"
  using assms
proof (cases rule: add_item_rowE)
  case inserted
  then have none: "quantities rows (cit_key row) = None" by (simp add: quantities_None)
  have "quantities (rows @ [row]) = (quantities rows)(cit_key row \<mapsto> cit_quantity row)"
    by (rule ext) (use none in \<open>auto simp: quantities_def map_add_def split: option.splits\<close>)
  with inserted none show ?thesis by simp
next
  case (updated c)
  have "quantities rows (cit_key row) = Some (cit_quantity c)"
    using updated(1,2) assms(2) by (auto simp: quantities_Some)
  moreover have "quantities rows' = (quantities rows)(cit_key c \<mapsto> cit_quantity (added_row row c))"
    unfolding updated(4) by (rule quantities_update_row [OF assms(2) updated(1)]) simp
  ultimately show ?thesis using updated(2) by (simp add: added_row_def)
qed

lemma cart_ok_added:
  assumes "add_item_row row rows = Inr (1, rows')" "distinct (map cit_key rows)"
    and "list_all (\<lambda>c. 1 \<le> cit_quantity c \<and> cit_quantity c \<le> 100) rows" "1 \<le> cit_quantity row" "cit_quantity row \<le> 100"
  shows "distinct (map cit_key rows') \<and> list_all (\<lambda>c. 1 \<le> cit_quantity c \<and> cit_quantity c \<le> 100) rows'"
  using assms(1,2)
proof (cases rule: add_item_rowE)
  case inserted
  then show ?thesis using assms by auto
next
  case (updated c)
  then have "map cit_key rows' = map cit_key rows" by simp
  moreover have "list_all (\<lambda>c. 1 \<le> cit_quantity c \<and> cit_quantity c \<le> 100) rows'"
    unfolding updated(4) using assms(3,4) updated(1,3)
    by (intro list_all_update_where) (auto simp: added_row_def list_all_iff)
  ultimately show ?thesis using assms(2) by simp
qed

subsection \<open>The parts of a change\<close>

lemma insert_cart_row_frame:
  "insert_cart_row pg now input session_id cart_id db = Inr db1 \<Longrightarrow> cart_items db1 = cart_items db \<and> core db1 = core db"
  by (auto simp: insert_cart_row_def split: if_splits)

lemma ensure_cart_frame:
  "ensure_cart env input session_id cart_id ins db = Inr (session1, db1) \<Longrightarrow> cart_items db1 = cart_items db \<and> core db1 = core db"
  by (auto simp: ensure_cart_def Let_def dest!: insert_cart_row_frame split: if_splits)

lemma touch_cartE:
  assumes "touch_cart pg now tenant_id cart_id db = Inr db1"
  shows "cart_items db1 = cart_items db" "core db1 = core db"
    "carts db1 = update_where (\<lambda>c. crt_tenant c = tenant_id \<and> crt_id c = cart_id) (\<lambda>c. c\<lparr>crt_updated_at := now\<rparr>) (carts db)"
  using assms by (auto simp: touch_cart_def sql_update_Inr)

definition cart_matches :: "add_cart_item_input \<Rightarrow> string \<Rightarrow> string \<Rightarrow> cart_row \<Rightarrow> bool" where
  "cart_matches input session_id cart_id c \<longleftrightarrow>
     crt_id c = cart_id \<and> crt_tenant c = ai_tenant_id input \<and> crt_customer_id c = Some (ai_customer_id input)
     \<and> crt_session_id c = Some session_id \<and> crt_status c = ''active'' \<and> crt_currency c = ai_currency_code input"

lemma check_cartD:
  "check_cart env input session_id cart_id db = Inr () \<Longrightarrow> list_ex (cart_matches input session_id cart_id) (carts db)"
  by (auto simp: check_cart_def ok_or_Inr query_opt_Some list_ex_iff cart_matches_def dest!: filter_eq_singleD split: if_splits)

lemma cart_matches_touched:
  assumes "list_ex (cart_matches input session_id cart_id) rows"
  shows "list_ex (cart_matches input session_id cart_id) (update_where p (\<lambda>c. c\<lparr>crt_updated_at := now\<rparr>) rows)"
proof -
  obtain c where c: "c \<in> set rows" "cart_matches input session_id cart_id c" using assms by (auto simp: list_ex_iff)
  let ?c = "if p c then c\<lparr>crt_updated_at := now\<rparr> else c"
  have "cart_matches input session_id cart_id ?c" using c(2) by (simp add: cart_matches_def)
  moreover have "?c \<in> set (update_where p (\<lambda>c. c\<lparr>crt_updated_at := now\<rparr>) rows)" using c(1) by (auto simp: set_update_where)
  ultimately show ?thesis unfolding list_ex_iff by blast
qed

definition priced_at :: "timestamp \<Rightarrow> add_cart_item_input \<Rightarrow> cart_columns \<Rightarrow> shop_db \<Rightarrow> variant_row \<Rightarrow> price_row \<Rightarrow> bool" where
  "priced_at now input cols db variant price \<longleftrightarrow>
     variant \<in> set (variants (core db)) \<and> var_tenant variant = ai_tenant_id input \<and> var_sku variant = ai_sku input
     \<and> var_status variant = ''active'' \<and> price \<in> set (cc_prices cols) \<and> price_tenant price = ai_tenant_id input
     \<and> price_variant price = var_id variant \<and> price_currency price = ai_currency_code input \<and> price_is_default price
     \<and> price_valid_from price \<le> now \<and> (price_valid_to price = None \<or> after_now now (price_valid_to price))"

lemma priced_at_core: "core db1 = core db \<Longrightarrow> priced_at now input cols db1 = priced_at now input cols db"
  by (intro ext) (simp add: priced_at_def)

text \<open>The price is the one valid from the latest moment.\<close>

definition latest_price :: "timestamp \<Rightarrow> add_cart_item_input \<Rightarrow> cart_columns \<Rightarrow> shop_db \<Rightarrow> variant_row \<Rightarrow> price_row \<Rightarrow> bool" where
  "latest_price now input cols db variant price \<longleftrightarrow>
     priced_at now input cols db variant price
     \<and> list_all (\<lambda>other. \<not> priced_at now input cols db variant other \<or> price_valid_from other \<le> price_valid_from price) (cc_prices cols)"

lemma current_priceD:
  assumes "current_price now input cols db = Some (variant, price)"
  shows "latest_price now input cols db variant price"
proof -
  let ?rows = "[(pv, pr). pv \<leftarrow> filter (\<lambda>pv. var_tenant pv = ai_tenant_id input \<and> var_sku pv = ai_sku input
                          \<and> var_status pv = ''active'') (variants (core db)),
                  p \<leftarrow> filter (\<lambda>p. spr_tenant p = var_tenant pv \<and> spr_id p = var_product pv) (products db),
                  pr \<leftarrow> filter (\<lambda>pr. price_tenant pr = var_tenant pv \<and> price_variant pr = var_id pv
                          \<and> price_currency pr = ai_currency_code input \<and> price_is_default pr
                          \<and> price_valid_from pr \<le> now
                          \<and> (price_valid_to pr = None \<or> after_now now (price_valid_to pr))) (cc_prices cols)]"
  have "(variant, price) \<in> set ?rows \<and> (\<forall>y \<in> set ?rows. (\<lambda>(_, x) (_, y). price_valid_from x \<ge> price_valid_from y) (variant, price) y)"
    by (rule limit1_order_by_least [OF assms [unfolded current_price_def]]) auto
  note picked = this
  have m: "(variant, price) \<in> set ?rows" by (rule conjunct1 [OF picked])
  have least: "price_valid_from (snd y) \<le> price_valid_from price" if "y \<in> set ?rows" for y
    using bspec [OF conjunct2 [OF picked] that] by (cases y) (simp only: prod.case snd_conv)
  have "(variant, other) \<in> set ?rows" if "priced_at now input cols db variant other" for other
    using m that by (auto simp: priced_at_def)
  then have "price_valid_from other \<le> price_valid_from price" if "priced_at now input cols db variant other" for other
    using least [of "(variant, other)"] that by simp
  moreover have "priced_at now input cols db variant price" using m by (auto simp: priced_at_def)
  ultimately show ?thesis by (auto simp: latest_price_def list_all_iff)
qed

lemma price_added:
  assumes "add_item_row row rows = Inr (1, rows')" "distinct (map cit_key rows)"
  shows "list_ex (\<lambda>c. cit_key c = cit_key row \<and> cit_unit_price_minor c = cit_unit_price_minor row) rows'"
  using assms
proof (cases rule: add_item_rowE)
  case (updated c)
  have "added_row row c \<in> set rows'" using updated(1,4) by (force simp: set_update_where)
  then show ?thesis using updated(2) unfolding list_ex_iff by (intro bexI [of _ "added_row row c"]) (simp_all add: added_row_def cit_key_def)
qed auto

definition new_item :: "cart_env \<Rightarrow> add_cart_item_input \<Rightarrow> string \<Rightarrow> variant_row \<Rightarrow> price_row \<Rightarrow> cart_item_row" where
  "new_item env input cart_id variant price =
     \<lparr>cit_id = ''cart-item-'' @ ce_item_uuid env, cit_tenant = ai_tenant_id input, cit_cart = cart_id,
      cit_variant = var_id variant, cit_quantity = uint (ai_quantity input),
      cit_unit_price_minor = price_amount_minor price, cit_discount_minor = 0\<rparr>"

lemma add_item_txE:
  assumes "add_item_tx env input session cols db = Inr (answer, db')"
  obtains cart_id session1 variant price rows where
    "add_item_row (new_item env input cart_id variant price) (cart_items db) = Inr (1, rows)" "cart_items db' = rows"
    "list_ex (cart_matches input session1 cart_id) (carts db')" "latest_price (ce_now env) input cols db variant price"
    "core db' = core db" "json_get answer ''cart_id'' = Some (JStr cart_id)" "json_get answer ''session_id'' = Some (JStr session1)"
    "json_get answer ''unit_price_minor'' = Some (JNum (price_amount_minor price))"
proof -
  obtain cart_id ins where ch: "choose_cart input session (''cart-'' @ ce_cart_uuid env) db = (cart_id, ins)" by force
  from assms ch obtain session1 db1 variant price rows
    where e: "ensure_cart env input session cart_id ins db = Inr (session1, db1)"
      and c: "check_cart env input session1 cart_id db1 = Inr ()"
      and p: "current_price (ce_now env) input cols db1 = Some (variant, price)"
      and r: "add_item_row (new_item env input cart_id variant price) (cart_items db1) = Inr (1, rows)"
      and t: "touch_cart (ce_pg env) (ce_now env) (ai_tenant_id input) cart_id (db1\<lparr>cart_items := rows\<rparr>) = Inr db'"
      and a: "answer = JObj [(''cart_id'', JStr cart_id), (''session_id'', JStr session1), (''sku'', JStr (ai_sku input)),
          (''quantity_added'', JNum (uint (ai_quantity input))), (''unit_price_minor'', JNum (price_amount_minor price))]"
    by (auto simp: add_item_tx_def ok_or_Inr checked_eq_Some new_item_def split: if_splits)
  have f: "cart_items db1 = cart_items db" "core db1 = core db" using ensure_cart_frame [OF e] by simp_all
  show ?thesis
  proof (rule that)
    show "add_item_row (new_item env input cart_id variant price) (cart_items db) = Inr (1, rows)" using r f by simp
    show "cart_items db' = rows" "core db' = core db" using touch_cartE [OF t] f by simp_all
    show "list_ex (cart_matches input session1 cart_id) (carts db')"
      using cart_matches_touched [OF check_cartD [OF c]] touch_cartE(3) [OF t] by simp
    show "latest_price (ce_now env) input cols db variant price"
      using current_priceD [OF p] unfolding latest_price_def priced_at_core [OF f(2)] .
    show "json_get answer ''cart_id'' = Some (JStr cart_id)" "json_get answer ''session_id'' = Some (JStr session1)"
      "json_get answer ''unit_price_minor'' = Some (JNum (price_amount_minor price))"
      by (simp_all add: a json_get_def)
  qed
qed

lemma word_quantity:
  fixes q :: u32
  assumes "q \<noteq> 0" "\<not> CHECKOUT_MAX_QUANTITY < q"
  shows "1 \<le> uint q" and "uint q \<le> 100"
proof -
  have "uint q \<noteq> 0" using assms(1) by (simp add: uint_0_iff)
  moreover have "uint q \<le> uint CHECKOUT_MAX_QUANTITY" using assms(2) by (simp add: word_less_alt)
  ultimately show "1 \<le> uint q" "uint q \<le> 100" using uint_ge_0 [of q] max_quantity by linarith+
qed

lemma add_cart_itemE:
  assumes "add_cart_item env headers parent input cols db = (r, db')"
  obtains (unchanged) "db' = db" "\<not> is_ok r"
  | (changed) answer tenant customer session where "resolve_http_tenant_id (ce_to_str env) headers (ai_tenant_id input) = Inr tenant"
    "require_customer_id (Some (ai_customer_id input)) = Inr customer" "1 \<le> uint (ai_quantity input)" "uint (ai_quantity input) \<le> 100"
    "add_item_tx env (input\<lparr>ai_tenant_id := tenant, ai_session_id := Some session, ai_customer_id := customer\<rparr>) session cols db = Inr (answer, db')"
    "is_ok r \<longrightarrow> r = Inr answer"
  using assms unfolding add_cart_item_def
proof (cases rule: commit_or_cases)
  case 1
  then show ?thesis using unchanged by simp
next
  case (2 x)
  then show ?thesis using changed word_quantity [of "ai_quantity input"] by (auto simp: Let_def split: if_splits)
qed

subsection \<open>Adding an item\<close>

text \<open>
  C36. A successful \<open>add_cart_item\<close> adds exactly the requested quantity of the active variant with the requested SKU
  to one active cart of the resolved tenant and customer, in the session the answer names and in the requested
  currency. The price is the default price of that variant in that currency that is valid now, the most recent one if there are
  several; it is the unit price the cart item stores and the one the answer gives. Every other quantity, the orders and the stock
  are as before.
\<close>

theorem cart_item_added:
  assumes "add_cart_item env headers parent input cols db = (Inr answer, db')" "cart_ok db"
  shows "\<exists>tenant customer session cart_id variant price input'.
    resolve_http_tenant_id (ce_to_str env) headers (ai_tenant_id input) = Inr tenant
    \<and> require_customer_id (Some (ai_customer_id input)) = Inr customer
    \<and> input' = input\<lparr>ai_tenant_id := tenant, ai_session_id := Some session, ai_customer_id := customer\<rparr>
    \<and> latest_price (ce_now env) input' cols db variant price
    \<and> json_get answer ''unit_price_minor'' = Some (JNum (price_amount_minor price))
    \<and> list_ex (\<lambda>c. cit_key c = (tenant, cart_id, var_id variant) \<and> cit_unit_price_minor c = price_amount_minor price) (cart_items db')
    \<and> (\<exists>named. json_get answer ''cart_id'' = Some (JStr cart_id) \<and> json_get answer ''session_id'' = Some (JStr named)
        \<and> list_ex (cart_matches input' named cart_id) (carts db'))
    \<and> quantities (cart_items db') = (quantities (cart_items db))((tenant, cart_id, var_id variant) \<mapsto>
        (case quantities (cart_items db) (tenant, cart_id, var_id variant) of None \<Rightarrow> 0 | Some q \<Rightarrow> q) + uint (ai_quantity input))
    \<and> core db' = core db"
proof -
  from assms(1) obtain tenant customer session where t: "resolve_http_tenant_id (ce_to_str env) headers (ai_tenant_id input) = Inr tenant"
    and c: "require_customer_id (Some (ai_customer_id input)) = Inr customer"
    and tx: "add_item_tx env (input\<lparr>ai_tenant_id := tenant, ai_session_id := Some session, ai_customer_id := customer\<rparr>) session cols db = Inr (answer, db')"
    by (rule add_cart_itemE) auto
  let ?i = "input\<lparr>ai_tenant_id := tenant, ai_session_id := Some session, ai_customer_id := customer\<rparr>"
  from tx obtain cart_id session1 variant price rows where
    r: "add_item_row (new_item env ?i cart_id variant price) (cart_items db) = Inr (1, rows)" "cart_items db' = rows"
    and rest: "list_ex (cart_matches ?i session1 cart_id) (carts db')" "latest_price (ce_now env) ?i cols db variant price"
      "core db' = core db" "json_get answer ''cart_id'' = Some (JStr cart_id)" "json_get answer ''session_id'' = Some (JStr session1)"
      "json_get answer ''unit_price_minor'' = Some (JNum (price_amount_minor price))"
    by (rule add_item_txE)
  have "cit_key (new_item env ?i cart_id variant price) = (tenant, cart_id, var_id variant)"
    "cit_quantity (new_item env ?i cart_id variant price) = uint (ai_quantity input)" by (simp_all add: new_item_def cit_key_def)
  moreover have "distinct (map cit_key (cart_items db))" using assms(2) by (simp add: cart_ok_def)
  ultimately have "quantities (cart_items db') = (quantities (cart_items db))((tenant, cart_id, var_id variant) \<mapsto>
        (case quantities (cart_items db) (tenant, cart_id, var_id variant) of None \<Rightarrow> 0 | Some q \<Rightarrow> q) + uint (ai_quantity input))"
    using quantities_added [OF r(1)] r(2) by simp
  moreover have "list_ex (\<lambda>c. cit_key c = (tenant, cart_id, var_id variant) \<and> cit_unit_price_minor c = price_amount_minor price) (cart_items db')"
    using price_added [OF r(1)] assms(2) r(2) by (simp add: cart_ok_def new_item_def cit_key_def)
  ultimately show ?thesis using t c rest by blast
qed

subsection \<open>Bounds\<close>

datatype cart_request =
    Add cart_env header_map baggage_lookup add_cart_item_input cart_columns
  | Replace cart_env header_map baggage_lookup string replace_cart_item_input
  | Remove cart_env header_map baggage_lookup string cart_item_scope

fun cart_request_step :: "cart_request \<Rightarrow> shop_db \<Rightarrow> (fault + json) \<times> shop_db" where
  "cart_request_step (Add env headers parent input cols) = add_cart_item env headers parent input cols"
| "cart_request_step (Replace env headers parent sku input) = replace_cart_item env headers parent sku input"
| "cart_request_step (Remove env headers parent sku scope) = remove_cart_item env headers parent sku scope"

lemma cart_ok_add:
  assumes "cart_ok db" "add_cart_item env headers parent input cols db = (r, db')"
  shows "cart_ok db'"
  using assms(2)
proof (cases rule: add_cart_itemE)
  case (changed answer tenant customer session)
  from changed(5) show ?thesis
  proof (rule add_item_txE)
    fix cart_id session1 variant price rows
    assume r: "add_item_row (new_item env (input\<lparr>ai_tenant_id := tenant, ai_session_id := Some session,
        ai_customer_id := customer\<rparr>) cart_id variant price) (cart_items db) = Inr (1, rows)" "cart_items db' = rows"
    from cart_ok_added [OF r(1)] assms(1) changed(3,4) show ?thesis by (simp add: cart_ok_def r(2) new_item_def)
  qed
qed (use assms(1) in simp)

lemma valid_replace_quantity:
  "validate_replace_cart_item input sku = Inr q \<Longrightarrow> 1 \<le> uint q \<and> uint q \<le> 100"
  by (auto simp: validate_replace_cart_item_def Let_def ok_or_Inr uint_word_of_int in_u32_def take_bit_int_eq_self split: if_splits)

lemma cart_ok_replace:
  assumes "cart_ok db" "replace_cart_item env headers parent sku input db = (r, db')"
  shows "cart_ok db'"
  using assms(2) unfolding replace_cart_item_def
proof (cases rule: commit_or_cases)
  case (2 x)
  then obtain p q rows tenant cart_id where q: "1 \<le> q" "q \<le> 100"
    and rows: "rows = update_where p (\<lambda>c. c\<lparr>cit_quantity := q\<rparr>) (cart_items db)"
    and t: "touch_cart (ce_pg env) (ce_now env) tenant cart_id (db\<lparr>cart_items := rows\<rparr>) = Inr db'"
    by (auto simp: Let_def ok_or_Inr sql_update_Inr dest!: valid_replace_quantity)
  have "map cit_key rows = map cit_key (cart_items db)" unfolding rows by (rule map_key_update_where) (simp add: cit_key_def)
  moreover have "list_all (\<lambda>c. 1 \<le> cit_quantity c \<and> cit_quantity c \<le> 100) rows"
    unfolding rows using assms(1) q by (intro list_all_update_where) (auto simp: cart_ok_def)
  ultimately show ?thesis using assms(1) touch_cartE(1) [OF t] by (simp add: cart_ok_def)
qed (use assms(1) in simp)

lemma cart_ok_remove:
  assumes "cart_ok db" "remove_cart_item env headers parent sku scope db = (r, db')"
  shows "cart_ok db'"
  using assms(2) unfolding remove_cart_item_def
proof (cases rule: commit_or_cases)
  case (2 x)
  then obtain p tenant cart_id
    where "touch_cart (ce_pg env) (ce_now env) tenant cart_id (db\<lparr>cart_items := filter p (cart_items db)\<rparr>) = Inr db'"
    by (auto simp: Let_def ok_or_Inr)
  from touch_cartE(1) [OF this] show ?thesis using assms(1) by (auto simp: cart_ok_def list_all_iff distinct_map inj_on_def)
qed (use assms(1) in simp)

text \<open>
  C37. Whatever sequence of add, replace and remove requests reaches checkout, with any answers of the database, the
  quantity of every cart item stays between 1 and 100 and a cart has at most one item per variant.
\<close>

theorem cart_quantities_bounded:
  assumes "cart_ok db"
  shows "cart_ok (fold (\<lambda>request d. snd (cart_request_step request d)) requests db)"
  using assms
proof (induction requests arbitrary: db)
  case (Cons request requests)
  obtain r d where "cart_request_step request db = (r, d)" by force
  then have "cart_ok d" using Cons.prems by (cases request) (auto intro: cart_ok_add cart_ok_replace cart_ok_remove)
  with Cons.IH show ?case by (simp add: \<open>cart_request_step request db = (r, d)\<close>)
qed simp

subsection \<open>Carts of another session\<close>






subsection \<open>A sample shop\<close>

definition sample_cart_env :: cart_env where
  "sample_cart_env = \<lparr>ce_pg = (\<lambda>_. ''pg''), ce_to_str = Some, ce_pool = Pool_ok, ce_now = 50, ce_session_uuid = ''u0'',
     ce_cart_uuid = ''u1'', ce_retry_uuid = ''u2'', ce_item_uuid = ''u3'', ce_commit = Committed\<rparr>"

definition sample_item :: "string \<Rightarrow> add_cart_item_input" where
  "sample_item session = \<lparr>ai_tenant_id = ''t'', ai_customer_id = ''c'', ai_cart_id = None, ai_session_id = Some session,
     ai_sku = ''s'', ai_quantity = 2, ai_currency_code = ''USD''\<rparr>"

definition sample_columns :: cart_columns where
  "sample_columns = \<lparr>cc_prices = [\<lparr>price_id = ''r'', price_tenant = ''t'', price_variant = ''v'', price_currency = ''USD'',
       price_amount_minor = 500, price_valid_from = 0, price_valid_to = None, price_is_default = True\<rparr>],
     cc_order_created_at = (\<lambda>_. 0), cc_order_shipping_minor = (\<lambda>_. 0), cc_order_item_discount_minor = (\<lambda>_. 0),
     cc_cart_item_added_at = (\<lambda>_. 0)\<rparr>"

definition sample_shop :: shop_db where
  "sample_shop = snd (add_cart_item sample_cart_env (\<lambda>_. []) (\<lambda>_. None) (sample_item ''z'') sample_columns shop)"

lemma shop_cart_ok: "cart_ok shop"
  by (simp add: cart_ok_def shop_def)

lemma sample_added:
  "map_sum (\<lambda>_. ()) (\<lambda>_. ()) (fst (add_cart_item sample_cart_env (\<lambda>_. []) (\<lambda>_. None) (sample_item ''z'') sample_columns shop)) = Inr ()"
  by code_simp

theorem cart_item_added_witness:
  "\<exists>cart_id (variant :: variant_row). quantities (cart_items sample_shop) = [(''t'', cart_id, var_id variant) \<mapsto> 2] \<and> var_sku variant = ''s''
     \<and> list_ex (\<lambda>c. cit_variant c = var_id variant \<and> cit_unit_price_minor c = 500) (cart_items sample_shop)"
proof -
  obtain answer where "add_cart_item sample_cart_env (\<lambda>_. []) (\<lambda>_. None) (sample_item ''z'') sample_columns shop = (Inr answer, sample_shop)"
    using sample_added unfolding sample_shop_def
    by (cases "add_cart_item sample_cart_env (\<lambda>_. []) (\<lambda>_. None) (sample_item ''z'') sample_columns shop"; case_tac a) auto
  from cart_item_added [OF this shop_cart_ok] show ?thesis
  proof (elim exE conjE)
    fix tenant customer session cart_id variant price input'
    assume t: "resolve_http_tenant_id (ce_to_str sample_cart_env) (\<lambda>_. []) (ai_tenant_id (sample_item ''z'')) = Inr tenant"
      and i: "input' = (sample_item ''z'')\<lparr>ai_tenant_id := tenant, ai_session_id := Some session, ai_customer_id := customer\<rparr>"
      and p: "latest_price (ce_now sample_cart_env) input' sample_columns shop variant price"
      and u: "list_ex (\<lambda>c. cit_key c = (tenant, cart_id, var_id variant) \<and> cit_unit_price_minor c = price_amount_minor price) (cart_items sample_shop)"
      and q: "quantities (cart_items sample_shop) = (quantities (cart_items shop))((tenant, cart_id, var_id variant) \<mapsto>
        (case quantities (cart_items shop) (tenant, cart_id, var_id variant) of None \<Rightarrow> 0 | Some q \<Rightarrow> q)
          + uint (ai_quantity (sample_item ''z'')))"
    have "resolve_http_tenant_id (ce_to_str sample_cart_env) (\<lambda>_. []) (ai_tenant_id (sample_item ''z'')) = Inr ''t''" by code_simp
    with t have "tenant = ''t''" by simp
    then have "quantities (cart_items sample_shop) = [(''t'', cart_id, var_id variant) \<mapsto> 2]" "var_sku variant = ''s''"
      using q p i by (simp_all add: shop_def quantities_def sample_item_def latest_price_def priced_at_def)
    moreover have "price_amount_minor price = 500" using p by (simp add: latest_price_def priced_at_def sample_columns_def)
    then have "list_ex (\<lambda>c. cit_variant c = var_id variant \<and> cit_unit_price_minor c = 500) (cart_items sample_shop)"
      using u by (auto simp: list_ex_iff cit_key_def)
    ultimately show ?thesis by blast
  qed
qed

theorem cart_quantities_bounded_witness:
  "cart_ok (fold (\<lambda>request d. snd (cart_request_step request d))
     [Add sample_cart_env (\<lambda>_. []) (\<lambda>_. None) (sample_item ''z'') sample_columns,
      Add (sample_cart_env\<lparr>ce_item_uuid := ''u4''\<rparr>) (\<lambda>_. []) (\<lambda>_. None) ((sample_item ''z'')\<lparr>ai_quantity := 99\<rparr>) sample_columns,
      Remove sample_cart_env (\<lambda>_. []) (\<lambda>_. None) ''s'' \<lparr>cs_tenant_id = ''t'', cs_customer_id = ''c'', cs_cart_id = ''cart-u1''\<rparr>] shop)"
  by (rule cart_quantities_bounded [OF shop_cart_ok])


end
