(* ===== verification/NotificationStore.thy ===== *)
theory NotificationStore
  imports CommerceDb Propagation
begin

text \<open>
  The delivery ledger of the notification service (\<open>services/notifications/src/store.rs\<close> and
  \<open>domain.rs\<close>): the request, the channel endpoints, the three tables with their constraints, and the
  statements of the delivery worker. An \<open>anyhow::Error\<close> is its display text, which is that of the
  outermost context. \<open>io\<close> says which statements the driver fails; a failed statement of a transaction,
  its commit included, rolls it back. \<open>hv_ok\<close> is \<open>HeaderValue::try_from\<close> of the \<open>http\<close> crate, \<open>coll\<close> the
  collation of the database, \<open>locked\<close> the rows other transactions hold.
\<close>

definition NOTIFY_MAX_ATTEMPTS :: int where "NOTIFY_MAX_ATTEMPTS = 4"
definition MAX_ERROR_LENGTH :: nat where "MAX_ERROR_LENGTH = 512"

record notification_request =
  nr_tenant_id :: "string option"
  nr_event_key :: string
  nr_order_id :: string
  nr_channel :: string
  nr_payload :: json

definition default_channel :: string where "default_channel = ''webhook''"

subsection \<open>Tables\<close>

record delivery_row =
  nd_id :: string
  nd_tenant :: string
  nd_event_key :: string
  nd_order_id :: string
  nd_channel :: string
  nd_status :: string
  nd_payload :: json
  nd_attempts :: int
  nd_next_attempt_at :: timestamp
  nd_lease_until :: "timestamp option"
  nd_lease_token :: "string option"
  nd_last_error :: "string option"
  nd_delivered_at :: "timestamp option"
  nd_acknowledged_at :: "timestamp option"
  nd_dead_lettered_at :: "timestamp option"
  nd_created_at :: timestamp
  nd_updated_at :: timestamp
  nd_traceparent :: "string option"
  nd_tracestate :: "string option"
  nd_baggage :: "string option"

record delivery_attempt_row =
  na_delivery :: string
  na_tenant :: string
  na_attempt :: int
  na_outcome :: string
  na_error :: "string option"
  na_started_at :: timestamp
  na_completed_at :: "timestamp option"

record channel_message_row =
  nm_delivery :: string
  nm_tenant :: string
  nm_order_id :: string
  nm_channel :: string
  nm_payload :: json
  nm_dispatched_at :: timestamp
  nm_acknowledged_at :: timestamp
  nm_reference :: string

record notification_db =
  deliveries :: "delivery_row list"
  delivery_attempts :: "delivery_attempt_row list"
  channel_messages :: "channel_message_row list"
  nt_tenants :: "string list"
  nt_orders :: "(string \<times> string) list"

definition CHANNELS :: "string list" where "CHANNELS = [''email'', ''webhook'', ''in_app'']"

definition json_is_object :: "json \<Rightarrow> bool" where
  "json_is_object j = (case j of JObj _ \<Rightarrow> True | _ \<Rightarrow> False)"

definition delivery_check :: "delivery_row \<Rightarrow> bool" where
  "delivery_check d \<longleftrightarrow>
     nd_channel d \<in> set CHANNELS
     \<and> nd_status d \<in> {''accepted'', ''queued'', ''processing'', ''delivered'', ''failed'', ''dead_lettered''}
     \<and> json_is_object (nd_payload d) \<and> 0 \<le> nd_attempts d \<and> in_i32 (nd_attempts d)
     \<and> (nd_status d = ''delivered'' \<longrightarrow> nd_delivered_at d \<noteq> None)
     \<and> (nd_status d = ''dead_lettered'' \<longrightarrow> nd_dead_lettered_at d \<noteq> None)
     \<and> (nd_status d = ''processing'' \<longrightarrow> nd_lease_until d \<noteq> None \<and> nd_lease_token d \<noteq> None)"

definition delivery_attempt_check :: "delivery_attempt_row \<Rightarrow> bool" where
  "delivery_attempt_check a \<longleftrightarrow>
     0 < na_attempt a \<and> na_outcome a \<in> {''processing'', ''delivered'', ''retry'', ''dead_lettered''}
     \<and> (na_outcome a = ''processing'' \<or> na_completed_at a \<noteq> None)"

definition channel_message_check :: "channel_message_row \<Rightarrow> bool" where
  "channel_message_check m \<longleftrightarrow> nm_channel m \<in> set CHANNELS \<and> json_is_object (nm_payload m)"

definition event_of :: "delivery_row \<Rightarrow> string \<times> string" where
  "event_of d = (nd_tenant d, nd_event_key d)"

definition attempt_no :: "delivery_attempt_row \<Rightarrow> string \<times> int" where
  "attempt_no a = (na_delivery a, na_attempt a)"

subsection \<open>Statements\<close>

datatype notify_stmt =
    Insert_delivery | Claim_delivery | Record_claim | Reclaim_deliveries | Record_exhausted string
  | Persist_message | Mark_delivered | Dead_letter | Schedule_retry | Quarantine | Record_outcome

type_synonym notify_io = "notify_stmt \<Rightarrow> bool"

text \<open>A statement with its \<open>.context(..)\<close>: a driver or database error shows the context's text.\<close>

definition statement :: "notify_io \<Rightarrow> notify_stmt \<Rightarrow> string \<Rightarrow> sql_error + 'a \<Rightarrow> string + 'a" where
  "statement io s ctx r = (if io s then Inl ctx else map_err (\<lambda>_. ctx) r)"

definition db_client :: "pool_result \<Rightarrow> string + unit" where
  "db_client pool =
     (case pool of
        Pool_ok \<Rightarrow> Inr ()
      | Pool_timeout \<Rightarrow> Inl ''notifications postgres pool timeout''
      | Pool_error _ \<Rightarrow> Inl ''notifications postgres pool unavailable'')"

definition update_deliveries ::
  "(delivery_row \<Rightarrow> bool) \<Rightarrow> (delivery_row \<Rightarrow> delivery_row) \<Rightarrow> notification_db
     \<Rightarrow> sql_error + (nat \<times> notification_db)" where
  "update_deliveries p f db =
     and_then (sql_update delivery_check p f (deliveries db)) (\<lambda>(n, rows). Inr (n, db\<lparr>deliveries := rows\<rparr>))"

definition update_delivery_attempts ::
  "(delivery_attempt_row \<Rightarrow> bool) \<Rightarrow> (delivery_attempt_row \<Rightarrow> delivery_attempt_row) \<Rightarrow> notification_db
     \<Rightarrow> sql_error + notification_db" where
  "update_delivery_attempts p f db =
     and_then (sql_update delivery_attempt_check p f (delivery_attempts db)) (\<lambda>(n, rows).
       Inr (db\<lparr>delivery_attempts := rows\<rparr>))"

definition delivery_known :: "notification_db \<Rightarrow> string \<Rightarrow> string \<Rightarrow> bool" where
  "delivery_known db tenant_id id' = list_ex (\<lambda>d. nd_tenant d = tenant_id \<and> nd_id d = id') (deliveries db)"

text \<open>\<open>INSERT INTO notification_delivery_attempts ... ON CONFLICT (delivery_id, attempt) DO UPDATE\<close>.\<close>

definition upsert_delivery_attempt ::
  "delivery_attempt_row \<Rightarrow> (delivery_attempt_row \<Rightarrow> delivery_attempt_row) \<Rightarrow> notification_db
     \<Rightarrow> sql_error + notification_db" where
  "upsert_delivery_attempt a f db =
     and_then (sql_upsert attempt_no delivery_attempt_check a f (delivery_attempts db)) (\<lambda>rows.
     if delivery_known db (na_tenant a) (na_delivery a) \<or> attempt_no a \<in> set (map attempt_no (delivery_attempts db))
     then Inr (db\<lparr>delivery_attempts := rows\<rparr>) else Inl Foreign_key_violation)"

subsection \<open>Headers\<close>

definition header_value :: "to_str \<Rightarrow> header_map \<Rightarrow> string \<Rightarrow> string option" where
  "header_value to_str headers name = Option.bind (header_get headers name) to_str"

definition header_values :: "to_str \<Rightarrow> header_map \<Rightarrow> string \<Rightarrow> string option" where
  "header_values to_str headers name =
     (let values = List.map_filter to_str (headers name) in
      if values = [] then None else Some (join_with CHR '','' values))"

definition insert_header ::
  "(string \<Rightarrow> bool) \<Rightarrow> string \<Rightarrow> string option \<Rightarrow> header_map \<Rightarrow> string + header_map" where
  "insert_header hv_ok name v headers =
     (case v of
        None \<Rightarrow> Inl (''durable W3C '' @ name @ '' header is missing'')
      | Some x \<Rightarrow> if hv_ok x then Inr (headers(name := [x]))
                  else Inl (''durable W3C '' @ name @ '' header is invalid''))"

subsection \<open>Accepting a notification\<close>

record delivery_record =
  dr_id :: string
  dr_attempts :: int
  dr_status :: string
  dr_channel :: string
  dr_provider :: string

datatype store_error = Store_timeout | Store_invalid string | Store_conflict | Store_database

record channel_endpoint =
  ce_url :: string
  ce_provider :: string

definition resolve_channel_endpoint ::
  "string \<Rightarrow> json \<Rightarrow> string option \<Rightarrow> string option \<Rightarrow> channel_endpoint option" where
  "resolve_channel_endpoint channel payload webhook_url email_url =
     (let field = (case json_get payload ''url'' of
                     Some v \<Rightarrow> Some v | None \<Rightarrow> json_get payload ''endpoint'');
          request_url = (case Option.bind field json_as_str of
                           None \<Rightarrow> None
                         | Some s \<Rightarrow> if trim s = [] then None else Some (trim s)) in
      case request_url of
        Some url \<Rightarrow> Some \<lparr>ce_url = url, ce_provider = ''request_endpoint''\<rparr>
      | None \<Rightarrow>
          if channel = ''webhook'' then
            (case webhook_url of
               None \<Rightarrow> None
             | Some url \<Rightarrow> if blank url then None
                 else Some \<lparr>ce_url = trim url, ce_provider = ''NOTIFICATIONS_WEBHOOK_URL''\<rparr>)
          else if channel = ''email'' then
            (case email_url of
               None \<Rightarrow> None
             | Some url \<Rightarrow> if blank url then None
                 else Some \<lparr>ce_url = trim url, ce_provider = ''NOTIFICATIONS_EMAIL_URL''\<rparr>)
          else None)"

definition require_channel_endpoint ::
  "string \<Rightarrow> json \<Rightarrow> string option \<Rightarrow> string option \<Rightarrow> string + channel_endpoint" where
  "require_channel_endpoint channel payload webhook_url email_url =
     ok_or (''notification channel '' @ channel @ '' has no configured real provider'')
       (resolve_channel_endpoint channel payload webhook_url email_url)"

definition channel_provider :: "string \<Rightarrow> json \<Rightarrow> string option \<Rightarrow> string option \<Rightarrow> string" where
  "channel_provider channel payload webhook_url email_url =
     (if channel = ''in_app'' then ''in_app_durable_sink''
      else case resolve_channel_endpoint channel payload webhook_url email_url of
             Some endpoint \<Rightarrow> ce_provider endpoint | None \<Rightarrow> ''unconfigured'')"

text \<open>
  \<open>INSERT INTO notification_deliveries ... ON CONFLICT (tenant_id, event_key) DO UPDATE SET updated_at\<close>:
  a repeated event only touches its row. A new row needs a fresh id, a known tenant and a known order.
\<close>

definition insert_delivery ::
  "timestamp \<Rightarrow> delivery_row \<Rightarrow> notification_db \<Rightarrow> sql_error + (delivery_row \<times> notification_db)" where
  "insert_delivery now d db =
     and_then (sql_upsert event_of delivery_check d (\<lambda>x. x\<lparr>nd_updated_at := now\<rparr>) (deliveries db)) (\<lambda>rows.
     if event_of d \<notin> set (map event_of (deliveries db)) \<and> nd_id d \<in> set (map nd_id (deliveries db))
       then Inl Unique_violation
     else if event_of d \<notin> set (map event_of (deliveries db))
         \<and> (nd_tenant d \<notin> set (nt_tenants db) \<or> (nd_tenant d, nd_order_id d) \<notin> set (nt_orders db))
       then Inl Foreign_key_violation
     else and_then (query_one (filter (\<lambda>x. event_of x = event_of d) rows)) (\<lambda>row.
       Inr (row, db\<lparr>deliveries := rows\<rparr>)))"

definition new_delivery ::
  "timestamp \<Rightarrow> string \<Rightarrow> string \<Rightarrow> string \<Rightarrow> notification_request \<Rightarrow> json \<Rightarrow> to_str \<Rightarrow> header_map \<Rightarrow> delivery_row" where
  "new_delivery now uuid tenant_id event_key request payload to_str headers =
     \<lparr>nd_id = ''notification-'' @ uuid, nd_tenant = tenant_id, nd_event_key = event_key,
      nd_order_id = nr_order_id request, nd_channel = nr_channel request, nd_status = ''queued'',
      nd_payload = payload, nd_attempts = 0, nd_next_attempt_at = now, nd_lease_until = None,
      nd_lease_token = None, nd_last_error = None, nd_delivered_at = None, nd_acknowledged_at = None,
      nd_dead_lettered_at = None, nd_created_at = now, nd_updated_at = now,
      nd_traceparent = header_value to_str headers ''traceparent'',
      nd_tracestate = header_value to_str headers ''tracestate'',
      nd_baggage = header_values to_str headers ''baggage''\<rparr>"

definition record_delivery ::
  "notify_io \<Rightarrow> to_str \<Rightarrow> pool_result \<Rightarrow> timestamp \<Rightarrow> string \<Rightarrow> string option \<Rightarrow> string option
     \<Rightarrow> notification_request \<Rightarrow> string \<Rightarrow> json \<Rightarrow> header_map \<Rightarrow> notification_db
     \<Rightarrow> (store_error + delivery_record) \<times> notification_db" where
  "record_delivery io to_str pool now uuid webhook_url email_url request event_key payload headers db =
     (case validate_durable_context to_str headers of
        Inl error \<Rightarrow> (Inl (Store_invalid (''invalid W3C propagation: '' @ error)), db)
      | Inr _ \<Rightarrow>
      case nr_tenant_id request of
        None \<Rightarrow> (Inl (Store_invalid ''tenant identity is required''), db)
      | Some tenant_id \<Rightarrow>
      case pool of
        Pool_error _ \<Rightarrow> (Inl Store_database, db)
      | Pool_timeout \<Rightarrow> (Inl Store_timeout, db)
      | Pool_ok \<Rightarrow>
      case statement io Insert_delivery [] (insert_delivery now
          (new_delivery now uuid tenant_id event_key request payload to_str headers) db) of
        Inl _ \<Rightarrow> (Inl Store_database, db)
      | Inr (row, db') \<Rightarrow>
          (if nd_order_id row \<noteq> nr_order_id request \<or> nd_channel row \<noteq> nr_channel request
           then Inl Store_conflict
           else Inr \<lparr>dr_id = nd_id row, dr_attempts = nd_attempts row, dr_status = nd_status row,
                     dr_channel = nd_channel row,
                     dr_provider = channel_provider (nr_channel request) payload webhook_url email_url\<rparr>, db'))"

end
