(* ===== verification/NotificationWorker.thy ===== *)
theory NotificationWorker
  imports NotificationStore
begin

text \<open>
  The delivery worker of \<open>services/notifications/src/store.rs\<close>: claiming, dispatching, marking and the
  loop. The channel's HTTP endpoint is a parameter that answers a request; the requests sent are part of
  the result. \<open>status_text\<close> is the display text of a status code.
\<close>

record delivery_job =
  dj_id :: string
  dj_tenant :: string
  dj_event_key :: string
  dj_order_id :: string
  dj_channel :: string
  dj_payload :: json
  dj_attempt :: int
  dj_lease_token :: string
  dj_traceparent :: "string option"
  dj_tracestate :: "string option"
  dj_baggage :: "string option"

subsection \<open>Claiming\<close>

definition delivery_claimable :: "timestamp \<Rightarrow> delivery_row \<Rightarrow> bool" where
  "delivery_claimable now d \<longleftrightarrow>
     nd_attempts d < NOTIFY_MAX_ATTEMPTS
     \<and> ((nd_status d \<in> {''accepted'', ''queued''} \<and> nd_next_attempt_at d \<le> now)
        \<or> (nd_status d = ''processing'' \<and> not_after_now now (nd_lease_until d)))"

definition delivery_before :: "(string \<Rightarrow> string \<Rightarrow> bool) \<Rightarrow> delivery_row \<Rightarrow> delivery_row \<Rightarrow> bool" where
  "delivery_before coll a b \<longleftrightarrow>
     nd_next_attempt_at a < nd_next_attempt_at b
     \<or> (nd_next_attempt_at a = nd_next_attempt_at b
        \<and> (nd_created_at a < nd_created_at b
           \<or> (nd_created_at a = nd_created_at b \<and> coll (nd_id a) (nd_id b))))"

definition next_delivery ::
  "(string \<Rightarrow> string \<Rightarrow> bool) \<Rightarrow> (delivery_row \<Rightarrow> bool) \<Rightarrow> timestamp \<Rightarrow> notification_db \<Rightarrow> delivery_row option" where
  "next_delivery coll locked now db =
     limit1 (filter (\<lambda>d. \<not> locked d) (order_by (delivery_before coll)
       (filter (delivery_claimable now) (deliveries db))))"

definition claimed_delivery :: "timestamp \<Rightarrow> string \<Rightarrow> delivery_row \<Rightarrow> delivery_row" where
  "claimed_delivery now token d =
     d\<lparr>nd_status := ''processing'', nd_attempts := nd_attempts d + 1,
       nd_lease_until := Some (now + seconds 30), nd_lease_token := Some token, nd_updated_at := now\<rparr>"

definition job_of_delivery :: "string \<Rightarrow> delivery_row \<Rightarrow> delivery_job" where
  "job_of_delivery token d =
     \<lparr>dj_id = nd_id d, dj_tenant = nd_tenant d, dj_event_key = nd_event_key d, dj_order_id = nd_order_id d,
      dj_channel = nd_channel d, dj_payload = nd_payload d, dj_attempt = nd_attempts d,
      dj_lease_token = token, dj_traceparent = nd_traceparent d, dj_tracestate = nd_tracestate d,
      dj_baggage = nd_baggage d\<rparr>"

definition started_attempt :: "timestamp \<Rightarrow> delivery_job \<Rightarrow> delivery_attempt_row" where
  "started_attempt now job =
     \<lparr>na_delivery = dj_id job, na_tenant = dj_tenant job, na_attempt = dj_attempt job,
      na_outcome = ''processing'', na_error = None, na_started_at = now, na_completed_at = None\<rparr>"

definition claim_next ::
  "notify_io \<Rightarrow> pool_result \<Rightarrow> (string \<Rightarrow> string \<Rightarrow> bool) \<Rightarrow> (delivery_row \<Rightarrow> bool) \<Rightarrow> timestamp \<Rightarrow> string
     \<Rightarrow> notification_db \<Rightarrow> (string + delivery_job option) \<times> notification_db" where
  "claim_next io pool coll locked now token =
     transact (\<lambda>db. and_then (db_client pool) (\<lambda>_.
       case next_delivery coll locked now db of
         None \<Rightarrow> statement io Claim_delivery ''claim notification delivery'' (Inr (None, db))
       | Some c \<Rightarrow>
           and_then (statement io Claim_delivery ''claim notification delivery''
             (and_then (update_deliveries (\<lambda>d. nd_id d = nd_id c) (claimed_delivery now token) db) (\<lambda>(_, db1).
              and_then (query_opt (filter (\<lambda>d. nd_id d = nd_id c) (deliveries db1))) (\<lambda>row. Inr (row, db1)))))
             (\<lambda>(row, db1). case row of
                None \<Rightarrow> Inr (None, db1)
              | Some d \<Rightarrow>
                  (let job = job_of_delivery token d in
                   and_then (statement io Record_claim ''record notification delivery attempt''
                     (upsert_delivery_attempt (started_attempt now job)
                        (\<lambda>a. a\<lparr>na_outcome := ''processing'', na_error := None, na_started_at := now,
                               na_completed_at := None\<rparr>) db1)) (\<lambda>db2.
                   Inr (Some job, db2))))))"

subsection \<open>Giving up\<close>

definition delivery_exhausted :: "timestamp \<Rightarrow> delivery_row \<Rightarrow> bool" where
  "delivery_exhausted now d \<longleftrightarrow>
     NOTIFY_MAX_ATTEMPTS \<le> nd_attempts d
     \<and> (nd_status d \<in> {''accepted'', ''queued''}
        \<or> (nd_status d = ''processing'' \<and> not_after_now now (nd_lease_until d)))"

definition BUDGET_EXHAUSTED :: string where "BUDGET_EXHAUSTED = ''delivery retry budget exhausted''"

definition exhausted_delivery :: "timestamp \<Rightarrow> delivery_row \<Rightarrow> delivery_row" where
  "exhausted_delivery now d =
     d\<lparr>nd_status := ''dead_lettered'',
       nd_dead_lettered_at := Some (case nd_dead_lettered_at d of None \<Rightarrow> now | Some t \<Rightarrow> t),
       nd_last_error := Some (case nd_last_error d of None \<Rightarrow> BUDGET_EXHAUSTED | Some e \<Rightarrow> e),
       nd_lease_until := None, nd_lease_token := None, nd_updated_at := now\<rparr>"

definition reclaim_update ::
  "notify_io \<Rightarrow> timestamp \<Rightarrow> notification_db \<Rightarrow> string + ((string \<times> string \<times> int) list \<times> notification_db)" where
  "reclaim_update io now db =
     statement io Reclaim_deliveries ''dead-letter exhausted notification deliveries''
       (and_then (update_deliveries (delivery_exhausted now) (exhausted_delivery now) db) (\<lambda>(_, db1).
        Inr (map (\<lambda>d. (nd_id d, nd_tenant d, nd_attempts d)) (filter (delivery_exhausted now) (deliveries db)), db1)))"

definition exhausted_attempt :: "timestamp \<Rightarrow> string \<times> string \<times> int \<Rightarrow> delivery_attempt_row" where
  "exhausted_attempt now row =
     (case row of (id', tenant_id, attempt) \<Rightarrow>
       \<lparr>na_delivery = id', na_tenant = tenant_id, na_attempt = attempt, na_outcome = ''dead_lettered'',
        na_error = Some BUDGET_EXHAUSTED, na_started_at = now, na_completed_at = Some now\<rparr>)"

definition reclaim_record ::
  "notify_io \<Rightarrow> timestamp \<Rightarrow> notification_db \<Rightarrow> string \<times> string \<times> int \<Rightarrow> string + notification_db" where
  "reclaim_record io now db row =
     statement io (Record_exhausted (fst row)) ''record exhausted notification delivery''
       (upsert_delivery_attempt (exhausted_attempt now row)
          (\<lambda>a. a\<lparr>na_outcome := ''dead_lettered'', na_error := Some BUDGET_EXHAUSTED,
                 na_completed_at := Some now\<rparr>) db)"

text \<open>
  The statements are not in a transaction: those before a failing one stay, and each has its own time.
\<close>

fun reclaim_records ::
  "notify_io \<Rightarrow> (string \<Rightarrow> timestamp) \<Rightarrow> (string \<times> string \<times> int) list \<Rightarrow> notification_db \<Rightarrow> (string + unit) \<times> notification_db" where
  "reclaim_records io clock [] db = (Inr (), db)"
| "reclaim_records io clock (row # rows) db =
     (case reclaim_record io (clock (fst row)) db row of
        Inl e \<Rightarrow> (Inl e, db) | Inr db1 \<Rightarrow> reclaim_records io clock rows db1)"

definition reclaim_exhausted ::
  "notify_io \<Rightarrow> pool_result \<Rightarrow> timestamp \<Rightarrow> (string \<Rightarrow> timestamp) \<Rightarrow> notification_db
     \<Rightarrow> (string + unit) \<times> notification_db" where
  "reclaim_exhausted io pool now clock db =
     (case and_then (db_client pool) (\<lambda>_. reclaim_update io now db) of
        Inl e \<Rightarrow> (Inl e, db) | Inr (rows, db1) \<Rightarrow> reclaim_records io clock rows db1)"

subsection \<open>Marking\<close>

definition delivery_held :: "delivery_job \<Rightarrow> delivery_row \<Rightarrow> bool" where
  "delivery_held job d \<longleftrightarrow>
     nd_id d = dj_id job \<and> nd_tenant d = dj_tenant job \<and> nd_status d = ''processing''
     \<and> nd_lease_token d = Some (dj_lease_token job)"

definition attempt_of_job :: "delivery_job \<Rightarrow> delivery_attempt_row \<Rightarrow> bool" where
  "attempt_of_job job a \<longleftrightarrow>
     na_delivery a = dj_id job \<and> na_tenant a = dj_tenant job \<and> na_attempt a = dj_attempt job"

text \<open>
  The transaction the three marking functions share: the row is rewritten if the job still holds its
  lease, then the outcome of the attempt is recorded.
\<close>

definition mark_delivery ::
  "notify_io \<Rightarrow> pool_result \<Rightarrow> notify_stmt \<Rightarrow> string \<Rightarrow> string \<Rightarrow> string \<Rightarrow> delivery_job
     \<Rightarrow> (delivery_row \<Rightarrow> delivery_row) \<Rightarrow> (delivery_attempt_row \<Rightarrow> delivery_attempt_row)
     \<Rightarrow> notification_db \<Rightarrow> (string + unit) \<times> notification_db" where
  "mark_delivery io pool stmt ctx lost outcome_ctx job f g =
     transact (\<lambda>db. and_then (db_client pool) (\<lambda>_.
       and_then (statement io stmt ctx (update_deliveries (delivery_held job) f db)) (\<lambda>(updated, db1).
       if updated \<noteq> 1 then Inl lost
       else and_then (statement io Record_outcome outcome_ctx
              (update_delivery_attempts (attempt_of_job job) g db1)) (\<lambda>db2.
            Inr ((), db2)))))"

definition delivered_row :: "timestamp \<Rightarrow> delivery_row \<Rightarrow> delivery_row" where
  "delivered_row now d =
     d\<lparr>nd_status := ''delivered'', nd_delivered_at := Some now, nd_acknowledged_at := Some now,
       nd_lease_until := None, nd_lease_token := None, nd_last_error := None, nd_updated_at := now\<rparr>"

definition mark_delivered ::
  "notify_io \<Rightarrow> pool_result \<Rightarrow> timestamp \<Rightarrow> delivery_job \<Rightarrow> notification_db \<Rightarrow> (string + unit) \<times> notification_db" where
  "mark_delivered io pool now job =
     mark_delivery io pool Mark_delivered ''mark notification delivered''
       ''notification delivery lease was lost before acknowledgement''
       ''mark notification attempt delivered'' job (delivered_row now)
       (\<lambda>a. a\<lparr>na_outcome := ''delivered'', na_completed_at := Some now, na_error := None\<rparr>)"

text \<open>\<open>2_i32.saturating_pow(attempt.saturating_sub(1).clamp(0, 4) as u32).min(30)\<close>\<close>

definition backoff :: "int \<Rightarrow> int" where
  "backoff attempt = min (2 ^ nat (max 0 (min 4 (attempt - 1)))) 30"

definition truncate_error :: "string \<Rightarrow> string" where
  "truncate_error error = take_chars MAX_ERROR_LENGTH error"

definition dead_row :: "timestamp \<Rightarrow> string \<Rightarrow> delivery_row \<Rightarrow> delivery_row" where
  "dead_row now error d =
     d\<lparr>nd_status := ''dead_lettered'', nd_dead_lettered_at := Some now, nd_lease_until := None,
       nd_lease_token := None, nd_last_error := Some error, nd_updated_at := now\<rparr>"

definition retry_row :: "timestamp \<Rightarrow> int \<Rightarrow> string \<Rightarrow> delivery_row \<Rightarrow> delivery_row" where
  "retry_row now next_attempt error d =
     d\<lparr>nd_status := ''queued'', nd_next_attempt_at := now + seconds next_attempt, nd_lease_until := None,
       nd_lease_token := None, nd_last_error := Some error, nd_updated_at := now\<rparr>"

definition failed_outcome :: "timestamp \<Rightarrow> string \<Rightarrow> string \<Rightarrow> delivery_attempt_row \<Rightarrow> delivery_attempt_row" where
  "failed_outcome now outcome error a =
     a\<lparr>na_outcome := outcome, na_error := Some error, na_completed_at := Some now\<rparr>"

definition mark_failed_or_dead_letter ::
  "notify_io \<Rightarrow> pool_result \<Rightarrow> timestamp \<Rightarrow> delivery_job \<Rightarrow> string \<Rightarrow> notification_db
     \<Rightarrow> (string + unit) \<times> notification_db" where
  "mark_failed_or_dead_letter io pool now job error =
     (let terminal = NOTIFY_MAX_ATTEMPTS \<le> dj_attempt job;
          stored_error = truncate_error error;
          next_attempt = backoff (dj_attempt job);
          outcome = (if terminal then ''dead_lettered'' else ''retry'') in
      mark_delivery io pool (if terminal then Dead_letter else Schedule_retry)
        (if terminal then ''dead-letter notification delivery'' else ''schedule notification retry'')
        ''notification delivery lease was lost before retry state update''
        ''record notification retry outcome'' job
        (if terminal then dead_row now stored_error else retry_row now next_attempt stored_error)
        (failed_outcome now outcome stored_error))"

definition dead_letter_invalid_propagation ::
  "notify_io \<Rightarrow> pool_result \<Rightarrow> timestamp \<Rightarrow> delivery_job \<Rightarrow> string \<Rightarrow> notification_db
     \<Rightarrow> (string + unit) \<times> notification_db" where
  "dead_letter_invalid_propagation io pool now job error =
     (let stored_error = truncate_error (''invalid W3C propagation: '' @ error) in
      mark_delivery io pool Quarantine ''quarantine invalid notification propagation''
        ''notification delivery lease was lost before propagation quarantine''
        ''record invalid notification propagation'' job (dead_row now stored_error)
        (failed_outcome now ''dead_lettered'' stored_error))"

subsection \<open>Dispatching\<close>

definition job_context_headers ::
  "to_str \<Rightarrow> (string \<Rightarrow> bool) \<Rightarrow> delivery_job \<Rightarrow> string + header_map" where
  "job_context_headers to_str hv_ok job =
     and_then (insert_header hv_ok ''traceparent'' (dj_traceparent job) (\<lambda>_. [])) (\<lambda>h1.
     and_then (insert_header hv_ok ''tracestate'' (dj_tracestate job) h1) (\<lambda>h2.
     and_then (insert_header hv_ok ''baggage'' (dj_baggage job) h2) (\<lambda>h3.
     and_then (validate_durable_context to_str h3) (\<lambda>_. Inr h3))))"

record dispatch_receipt =
  rcpt_channel :: string
  rcpt_provider :: string
  rcpt_reference :: string

record channel_request =
  cq_url :: string
  cq_tenant :: string
  cq_idempotency_key :: string
  cq_body :: json

datatype channel_reply = No_reply | Reply int "string option"

definition channel_body :: "delivery_job \<Rightarrow> json" where
  "channel_body job =
     JObj [(''delivery_id'', JStr (dj_id job)), (''event_key'', JStr (dj_event_key job)),
           (''tenant_id'', JStr (dj_tenant job)), (''order_id'', JStr (dj_order_id job)),
           (''channel'', JStr (dj_channel job)), (''payload'', dj_payload job)]"

text \<open>
  \<open>INSERT INTO notification_channel_messages ... ON CONFLICT (delivery_id) DO UPDATE\<close>: the first
  acknowledgement stays.
\<close>

definition acknowledged :: "notification_db \<Rightarrow> string \<Rightarrow> bool" where
  "acknowledged db id' \<longleftrightarrow> id' \<in> set (map nm_delivery (channel_messages db))"

definition message_row :: "timestamp \<Rightarrow> string \<Rightarrow> delivery_job \<Rightarrow> channel_message_row" where
  "message_row now ref job =
     \<lparr>nm_delivery = dj_id job, nm_tenant = dj_tenant job, nm_order_id = dj_order_id job,
      nm_channel = dj_channel job, nm_payload = dj_payload job, nm_dispatched_at = now,
      nm_acknowledged_at = now, nm_reference = ref\<rparr>"

definition insert_message ::
  "timestamp \<Rightarrow> string \<Rightarrow> delivery_job \<Rightarrow> notification_db \<Rightarrow> sql_error + notification_db" where
  "insert_message now acknowledgement job db =
     and_then (sql_upsert nm_delivery channel_message_check (message_row now acknowledgement job) id
       (channel_messages db)) (\<lambda>rows.
     if \<not> acknowledged db (dj_id job)
        \<and> (\<not> delivery_known db (dj_tenant job) (dj_id job) \<or> (dj_tenant job, dj_order_id job) \<notin> set (nt_orders db))
     then Inl Foreign_key_violation else Inr (db\<lparr>channel_messages := rows\<rparr>))"

definition persist_channel_message ::
  "notify_io \<Rightarrow> pool_result \<Rightarrow> timestamp \<Rightarrow> delivery_job \<Rightarrow> string \<Rightarrow> notification_db
     \<Rightarrow> (string + unit) \<times> notification_db" where
  "persist_channel_message io pool now job acknowledgement =
     transact (\<lambda>db. and_then (db_client pool) (\<lambda>_.
       and_then (statement io Persist_message ''persist notification channel message''
         (insert_message now acknowledgement job db)) (\<lambda>db1.
       Inr ((), db1))))"

definition is_success :: "int \<Rightarrow> bool" where
  "is_success status \<longleftrightarrow> 200 \<le> status \<and> status < 300"

definition channel_acknowledgement :: "to_str \<Rightarrow> (int \<Rightarrow> string) \<Rightarrow> int \<Rightarrow> string option \<Rightarrow> string" where
  "channel_acknowledgement to_str status_text status ack =
     (case Option.bind ack to_str of
        None \<Rightarrow> ''http-'' @ status_text status
      | Some a \<Rightarrow> if blank a then ''http-'' @ status_text status else a)"

text \<open>The result, the database and the requests that were sent.\<close>

definition dispatch_notification ::
  "notify_io \<Rightarrow> to_str \<Rightarrow> (string \<Rightarrow> bool) \<Rightarrow> (int \<Rightarrow> string) \<Rightarrow> pool_result \<Rightarrow> timestamp
     \<Rightarrow> string option \<Rightarrow> string option \<Rightarrow> (channel_request \<Rightarrow> channel_reply) \<Rightarrow> delivery_job \<Rightarrow> notification_db
     \<Rightarrow> (string + dispatch_receipt) \<times> notification_db \<times> channel_request list" where
  "dispatch_notification io to_str hv_ok status_text pool now webhook_url email_url send job db =
     (if dj_channel job = ''in_app'' then
        (case persist_channel_message io pool now job ''in-app'' db of
           (Inl _, db1) \<Rightarrow> (Inl ''acknowledge in-app channel'', db1, [])
         | (Inr _, db1) \<Rightarrow> (Inr \<lparr>rcpt_channel = dj_channel job, rcpt_provider = ''in_app_durable_sink'',
                               rcpt_reference = ''in-app''\<rparr>, db1, []))
      else if dj_channel job \<in> {''webhook'', ''email''} then
        (case require_channel_endpoint (dj_channel job) (dj_payload job) webhook_url email_url of
           Inl e \<Rightarrow> (Inl e, db, [])
         | Inr endpoint \<Rightarrow>
         if \<not> hv_ok (dj_tenant job) then (Inl ''encode notification tenant header'', db, [])
         else if \<not> hv_ok (dj_id job) then (Inl ''encode notification idempotency header'', db, [])
         else
           (let rq = \<lparr>cq_url = ce_url endpoint, cq_tenant = dj_tenant job, cq_idempotency_key = dj_id job,
                      cq_body = channel_body job\<rparr> in
            case send rq of
              No_reply \<Rightarrow> (Inl ''dispatch notification channel request'', db, [rq])
            | Reply status ack \<Rightarrow>
                if \<not> is_success status
                  then (Inl (''notification channel returned HTTP '' @ status_text status), db, [rq])
                else
                  (let reference = channel_acknowledgement to_str status_text status ack in
                   case persist_channel_message io pool now job reference db of
                     (Inl _, db1) \<Rightarrow> (Inl ''persist external notification acknowledgement'', db1, [rq])
                   | (Inr _, db1) \<Rightarrow> (Inr \<lparr>rcpt_channel = dj_channel job, rcpt_provider = ce_provider endpoint,
                                         rcpt_reference = reference\<rparr>, db1, [rq]))))
      else (Inl (''unsupported notification channel '' @ dj_channel job), db, []))"

text \<open>One job: the times of the dispatch and of the marking differ.\<close>

definition process_job ::
  "notify_io \<Rightarrow> to_str \<Rightarrow> (string \<Rightarrow> bool) \<Rightarrow> (int \<Rightarrow> string) \<Rightarrow> pool_result \<Rightarrow> pool_result \<Rightarrow> timestamp \<Rightarrow> timestamp
     \<Rightarrow> string option \<Rightarrow> string option \<Rightarrow> (channel_request \<Rightarrow> channel_reply) \<Rightarrow> delivery_job \<Rightarrow> notification_db
     \<Rightarrow> notification_db \<times> channel_request list" where
  "process_job io to_str hv_ok status_text pool1 pool2 now1 now2 webhook_url email_url send job db =
     (case job_context_headers to_str hv_ok job of
        Inl error \<Rightarrow> (snd (dead_letter_invalid_propagation io pool1 now1 job error db), [])
      | Inr headers \<Rightarrow>
          (case dispatch_notification io to_str hv_ok status_text pool1 now1 webhook_url email_url send job db of
             (Inr receipt, db1, sent) \<Rightarrow> (snd (mark_delivered io pool2 now2 job db1), sent)
           | (Inl error, db1, sent) \<Rightarrow> (snd (mark_failed_or_dead_letter io pool2 now2 job error db1), sent)))"

subsection \<open>The worker loop\<close>

datatype shutdown_wait = Sender_dropped | Changed_to bool | Slept

definition wait_or_shutdown :: "bool \<Rightarrow> shutdown_wait \<Rightarrow> bool" where
  "wait_or_shutdown current ev =
     (if current then True
      else case ev of Sender_dropped \<Rightarrow> True | Changed_to v \<Rightarrow> v | Slept \<Rightarrow> False)"

text \<open>What one iteration observes of its environment.\<close>

record worker_round =
  wr_io :: notify_io
  wr_shutdown :: bool
  wr_reclaim_pool :: pool_result
  wr_reclaim_now :: timestamp
  wr_record_now :: "string \<Rightarrow> timestamp"
  wr_reclaim_wait :: "bool \<times> shutdown_wait"
  wr_claim_pool :: pool_result
  wr_claim_now :: timestamp
  wr_token :: string
  wr_locked :: "delivery_row \<Rightarrow> bool"
  wr_claim_wait :: "bool \<times> shutdown_wait"
  wr_pool1 :: pool_result
  wr_pool2 :: pool_result
  wr_now1 :: timestamp
  wr_now2 :: timestamp
  wr_send :: "channel_request \<Rightarrow> channel_reply"

record worker_state =
  ws_db :: notification_db
  ws_ready :: bool
  ws_sent :: "channel_request list"

definition worker_round_claim ::
  "to_str \<Rightarrow> (string \<Rightarrow> bool) \<Rightarrow> (int \<Rightarrow> string) \<Rightarrow> (string \<Rightarrow> string \<Rightarrow> bool) \<Rightarrow> string option \<Rightarrow> string option
     \<Rightarrow> worker_round \<Rightarrow> worker_state \<Rightarrow> bool \<times> worker_state" where
  "worker_round_claim to_str hv_ok status_text coll webhook_url email_url r s =
     (case claim_next (wr_io r) (wr_claim_pool r) coll (wr_locked r) (wr_claim_now r) (wr_token r) (ws_db s) of
        (Inr (Some job), db1) \<Rightarrow>
          (case process_job (wr_io r) to_str hv_ok status_text (wr_pool1 r) (wr_pool2 r) (wr_now1 r) (wr_now2 r)
                  webhook_url email_url (wr_send r) job db1 of
             (db2, sent) \<Rightarrow> (False, \<lparr>ws_db = db2, ws_ready = True, ws_sent = ws_sent s @ sent\<rparr>))
      | (Inr None, db1) \<Rightarrow>
          (wait_or_shutdown (fst (wr_claim_wait r)) (snd (wr_claim_wait r)), s\<lparr>ws_db := db1\<rparr>)
      | (Inl _, db1) \<Rightarrow>
          (wait_or_shutdown (fst (wr_claim_wait r)) (snd (wr_claim_wait r)),
           s\<lparr>ws_db := db1, ws_ready := False\<rparr>))"

text \<open>The first component says that the loop was left.\<close>

definition worker_round_step ::
  "to_str \<Rightarrow> (string \<Rightarrow> bool) \<Rightarrow> (int \<Rightarrow> string) \<Rightarrow> (string \<Rightarrow> string \<Rightarrow> bool) \<Rightarrow> string option \<Rightarrow> string option
     \<Rightarrow> worker_round \<Rightarrow> worker_state \<Rightarrow> bool \<times> worker_state" where
  "worker_round_step to_str hv_ok status_text coll webhook_url email_url r s =
     (if wr_shutdown r then (True, s)
      else case reclaim_exhausted (wr_io r) (wr_reclaim_pool r) (wr_reclaim_now r) (wr_record_now r) (ws_db s) of
        (Inr _, db1) \<Rightarrow>
          worker_round_claim to_str hv_ok status_text coll webhook_url email_url r (s\<lparr>ws_db := db1, ws_ready := True\<rparr>)
      | (Inl _, db1) \<Rightarrow>
          (let s1 = s\<lparr>ws_db := db1, ws_ready := False\<rparr> in
           if wait_or_shutdown (fst (wr_reclaim_wait r)) (snd (wr_reclaim_wait r)) then (True, s1)
           else worker_round_claim to_str hv_ok status_text coll webhook_url email_url r s1))"

text \<open>
  The loop over the observed rounds; \<open>None\<close> when the rounds end before the worker was told to stop.
\<close>

fun run_delivery_worker ::
  "to_str \<Rightarrow> (string \<Rightarrow> bool) \<Rightarrow> (int \<Rightarrow> string) \<Rightarrow> (string \<Rightarrow> string \<Rightarrow> bool) \<Rightarrow> string option \<Rightarrow> string option
     \<Rightarrow> worker_round list \<Rightarrow> worker_state \<Rightarrow> worker_state option" where
  "run_delivery_worker to_str hv_ok status_text coll webhook_url email_url [] s = None"
| "run_delivery_worker to_str hv_ok status_text coll webhook_url email_url (r # rs) s =
     (case worker_round_step to_str hv_ok status_text coll webhook_url email_url r s of
        (True, s1) \<Rightarrow> Some (s1\<lparr>ws_ready := False\<rparr>)
      | (False, s1) \<Rightarrow> run_delivery_worker to_str hv_ok status_text coll webhook_url email_url rs s1)"

end
