(* ===== verification/NotificationApi.thy ===== *)
theory NotificationApi
  imports NotificationStore
begin

text \<open>
  The HTTP handlers of the notification service (\<open>services/notifications/src/api.rs\<close>). A response is
  the status code and the JSON body. \<open>identity_text\<close> is the display text of a tenant identity error.
\<close>

definition notify_tenant_identity_error ::
  "(tenant_identity_error \<Rightarrow> string) \<Rightarrow> tenant_identity_error \<Rightarrow> int \<times> json" where
  "notify_tenant_identity_error identity_text error =
     (case (case error of
              Missing \<Rightarrow> (400, ''tenant_required'')
            | Invalid \<Rightarrow> (400, ''invalid_tenant'')
            | Conflicting \<Rightarrow> (409, ''identity_conflict'')) of
        (status, code) \<Rightarrow> (status, JObj [(''error'', JStr code), (''message'', JStr (identity_text error))]))"

definition notify_event_key :: "notification_request \<Rightarrow> string" where
  "notify_event_key request =
     (if blank (nr_event_key request)
      then ''notification:'' @ nr_order_id request @ '':'' @ nr_channel request
      else nr_event_key request)"

definition notify_payload :: "notification_request \<Rightarrow> json" where
  "notify_payload request =
     (if json_is_object (nr_payload request) then nr_payload request
      else JObj [(''value'', nr_payload request)])"

definition notify_store_error :: "store_error \<Rightarrow> int \<times> json" where
  "notify_store_error e =
     (case e of
        Store_timeout \<Rightarrow> (503, JObj [(''error'', JStr ''database_timeout'')])
      | Store_invalid error \<Rightarrow> (400, JObj [(''error'', JStr error)])
      | Store_conflict \<Rightarrow> (409, JObj [(''error'', JStr ''notification_identity_conflict'')])
      | Store_database \<Rightarrow> (503, JObj [(''error'', JStr ''notification_store_unavailable'')]))"

definition notify_inner ::
  "(tenant_identity_error \<Rightarrow> string) \<Rightarrow> notify_io \<Rightarrow> to_str \<Rightarrow> pool_result \<Rightarrow> timestamp \<Rightarrow> string
     \<Rightarrow> string option \<Rightarrow> string option \<Rightarrow> notification_request \<Rightarrow> header_map \<Rightarrow> notification_db
     \<Rightarrow> (int \<times> json) \<times> notification_db" where
  "notify_inner identity_text io to_str pool now uuid webhook_url email_url request headers db =
     (case resolve_http_tenant_identity to_str headers (nr_tenant_id request) of
        Inl error \<Rightarrow> (notify_tenant_identity_error identity_text error, db)
      | Inr tenant_id \<Rightarrow>
      let request = request\<lparr>nr_tenant_id := Some tenant_id\<rparr> in
      if blank (nr_order_id request) \<or> nr_channel request \<notin> {''email'', ''webhook'', ''in_app''}
        then ((400, JObj [(''error'', JStr ''invalid_notification'')]), db)
      else
        (let event_key = notify_event_key request in
         case record_delivery io to_str pool now uuid webhook_url email_url request event_key
                (notify_payload request) headers db of
           (Inl e, db') \<Rightarrow> (notify_store_error e, db')
         | (Inr record, db') \<Rightarrow>
             ((202, JObj [(''delivery_id'', JStr (dr_id record)), (''event_key'', JStr event_key),
                (''status'', JStr (dr_status record)), (''attempts'', JNum (dr_attempts record)),
                (''channel'', JStr (dr_channel record)), (''provider'', JStr (dr_provider record))]), db')))"

text \<open>\<open>GET /healthz\<close>: \<open>ping\<close> is the result of \<open>SELECT 1\<close>.\<close>

definition notify_health :: "pool_result \<Rightarrow> string + unit \<Rightarrow> bool \<Rightarrow> int \<times> json" where
  "notify_health pool ping worker_ready =
     (case pool of
        Pool_ok \<Rightarrow>
          (case ping of
             Inr _ \<Rightarrow>
               if worker_ready
               then (200, JObj [(''status'', JStr ''UP''), (''database'', JStr ''UP''), (''worker'', JStr ''ready'')])
               else (503, JObj [(''status'', JStr ''DOWN''), (''database'', JStr ''UP''), (''worker'', JStr ''starting'')])
           | Inl e \<Rightarrow> (503, JObj [(''status'', JStr ''DOWN''), (''error'', JStr e)]))
      | Pool_error e \<Rightarrow> (503, JObj [(''status'', JStr ''DOWN''), (''error'', JStr e)])
      | Pool_timeout \<Rightarrow> (503, JObj [(''status'', JStr ''DOWN''), (''error'', JStr ''database pool timeout'')]))"

end
