(* ===== verification/NotificationMachine.thy ===== *)
theory NotificationMachine
  imports NotificationWorker NotificationApi
begin

text \<open>
  What every statement of the notification ledger keeps. \<open>wf_notify\<close> is the schema with the bound on the
  attempts, the audit trail (one row per attempt made) and the acknowledgements: a channel message names an
  existing delivery, and a delivered row has one. \<open>nprogress\<close> says that no delivery loses its identity, the
  attempts only grow, settled rows stay and acknowledgements are never changed.
\<close>

definition settled :: "delivery_row \<Rightarrow> bool" where
  "settled d \<longleftrightarrow> nd_status d \<in> {''delivered'', ''dead_lettered''}"

definition nd_ident :: "delivery_row \<Rightarrow> string \<times> string \<times> string \<times> string \<times> string \<times> json" where
  "nd_ident d = (nd_id d, nd_tenant d, nd_event_key d, nd_order_id d, nd_channel d, nd_payload d)"

definition untouched :: "delivery_row \<Rightarrow> delivery_row" where
  "untouched d = d\<lparr>nd_updated_at := 0\<rparr>"

definition trail_of :: "notification_db \<Rightarrow> delivery_attempt_row \<Rightarrow> bool" where
  "trail_of db a \<longleftrightarrow>
     list_ex (\<lambda>d. nd_id d = na_delivery a \<and> nd_tenant d = na_tenant a \<and> na_attempt a \<le> nd_attempts d) (deliveries db)"

definition trail_complete :: "notification_db \<Rightarrow> delivery_row \<Rightarrow> bool" where
  "trail_complete db d \<longleftrightarrow>
     (\<forall>k \<in> {1..nd_attempts d}. (nd_id d, k) \<in> set (map attempt_no (delivery_attempts db)))"

definition message_of :: "notification_db \<Rightarrow> channel_message_row \<Rightarrow> bool" where
  "message_of db m \<longleftrightarrow>
     list_ex (\<lambda>d. nd_id d = nm_delivery m \<and> nd_tenant d = nm_tenant m \<and> nd_order_id d = nm_order_id m
       \<and> nd_channel d = nm_channel m \<and> nd_payload d = nm_payload m) (deliveries db)"

definition wf_notify :: "notification_db \<Rightarrow> bool" where
  "wf_notify db \<longleftrightarrow>
     distinct (map nd_id (deliveries db)) \<and> distinct (map event_of (deliveries db))
     \<and> distinct (map attempt_no (delivery_attempts db)) \<and> distinct (map nm_delivery (channel_messages db))
     \<and> list_all delivery_check (deliveries db) \<and> list_all delivery_attempt_check (delivery_attempts db)
     \<and> list_all (\<lambda>d. nd_attempts d \<le> NOTIFY_MAX_ATTEMPTS) (deliveries db)
     \<and> list_all (trail_of db) (delivery_attempts db) \<and> list_all (trail_complete db) (deliveries db)
     \<and> list_all (message_of db) (channel_messages db)
     \<and> list_all (\<lambda>d. nd_status d = ''delivered'' \<longrightarrow> acknowledged db (nd_id d)) (deliveries db)"

text \<open>How one row may change.\<close>

definition row_step :: "delivery_row \<Rightarrow> delivery_row \<Rightarrow> bool" where
  "row_step d d' \<longleftrightarrow>
     nd_ident d' = nd_ident d \<and> nd_attempts d \<le> nd_attempts d' \<and> (settled d \<longrightarrow> untouched d' = untouched d)"

definition nprogress :: "notification_db \<Rightarrow> notification_db \<Rightarrow> bool" where
  "nprogress db db' \<longleftrightarrow>
     (\<forall>d \<in> set (deliveries db). \<exists>d' \<in> set (deliveries db'). row_step d d')
     \<and> set (channel_messages db) \<subseteq> set (channel_messages db')"

definition notify_sound :: "notification_db \<Rightarrow> notification_db \<Rightarrow> bool" where
  "notify_sound db db' \<longleftrightarrow> (wf_notify db \<longrightarrow> wf_notify db' \<and> nprogress db db')"

lemma untouched_eqD:
  "untouched d' = untouched d \<Longrightarrow> nd_status d' = nd_status d \<and> nd_attempts d' = nd_attempts d \<and> nd_ident d' = nd_ident d"
  by (cases d, cases d') (simp add: untouched_def nd_ident_def)

lemma row_step_refl [simp]: "row_step d d"
  by (simp add: row_step_def)

lemma row_step_trans: "row_step a b \<Longrightarrow> row_step b c \<Longrightarrow> row_step a c"
  using untouched_eqD [of b a] by (auto simp: row_step_def settled_def)

lemma row_steps_refl: "\<forall>d \<in> S. \<exists>d' \<in> S. row_step d d'"
  using row_step_refl by blast

lemma nprogress_refl [simp]: "nprogress db db"
  by (simp add: nprogress_def row_steps_refl)

lemma nprogress_trans: "nprogress a b \<Longrightarrow> nprogress b c \<Longrightarrow> nprogress a c"
  unfolding nprogress_def by (meson row_step_trans order_trans)

lemma notify_sound_refl [simp]: "notify_sound db db"
  by (simp add: notify_sound_def)

lemma notify_sound_trans [trans]: "notify_sound a b \<Longrightarrow> notify_sound b c \<Longrightarrow> notify_sound a c"
  by (auto simp: notify_sound_def intro: nprogress_trans)

lemma event_of_ident: "nd_ident a = nd_ident b \<Longrightarrow> event_of a = event_of b"
  by (simp add: nd_ident_def event_of_def)

subsection \<open>Rewriting deliveries\<close>

lemma trail_of_mono:
  assumes "trail_of db a" "\<forall>d \<in> set (deliveries db). \<exists>d' \<in> set (deliveries db'). row_step d d'"
  shows "trail_of db' a"
  using assms unfolding trail_of_def list_ex_iff row_step_def nd_ident_def
  by (metis (no_types, lifting) Pair_inject order_trans)

lemma message_of_mono:
  assumes "message_of db m" "\<forall>d \<in> set (deliveries db). \<exists>d' \<in> set (deliveries db'). row_step d d'"
  shows "message_of db' m"
  using assms unfolding message_of_def list_ex_iff row_step_def nd_ident_def
  by (metis (no_types, lifting) Pair_inject)

lemma update_rows_step:
  assumes "\<And>d. d \<in> set rows \<Longrightarrow> p d \<Longrightarrow> row_step d (f d)"
  shows "\<forall>d \<in> set rows. \<exists>d' \<in> set (update_where p f rows). row_step d d'"
proof
  fix d assume d: "d \<in> set rows"
  have "row_step d (if p d then f d else d)" using assms d by simp
  with d show "\<exists>d' \<in> set (update_where p f rows). row_step d d'"
    unfolding set_update_where by blast
qed

lemma update_deliveries_sound:
  assumes upd: "update_deliveries p f db = Inr (n, db')"
    and step: "\<And>d. d \<in> set (deliveries db) \<Longrightarrow> p d \<Longrightarrow> wf_notify db
      \<Longrightarrow> (settled d \<longrightarrow> untouched (f d) = untouched d) \<and> nd_ident (f d) = nd_ident d \<and> nd_attempts (f d) = nd_attempts d
        \<and> (nd_status (f d) = ''delivered'' \<longrightarrow> acknowledged db (nd_id d))"
  shows "notify_sound db db'"
  unfolding notify_sound_def
proof
  assume wf: "wf_notify db"
  let ?q = "\<lambda>d. d \<in> set (deliveries db) \<and> p d"
  have db': "db' = db\<lparr>deliveries := update_where ?q f (deliveries db)\<rparr>"
    and chk: "\<forall>d \<in> set (deliveries db). p d \<longrightarrow> delivery_check (f d)"
    using upd by (auto simp: update_deliveries_def sql_update_Inr update_where_def)
  let ?g = "\<lambda>d. if ?q d then f d else d"
  have same: "nd_ident (?g d) = nd_ident d" "nd_attempts (?g d) = nd_attempts d" if "d \<in> set (deliveries db)" for d
    using step wf that by auto
  have rows: "\<forall>d \<in> set (deliveries db). \<exists>d' \<in> set (deliveries db'). row_step d d'"
    using update_rows_step [of "deliveries db" ?q f] step wf by (simp add: db' row_step_def)
  have keys: "map nd_id (deliveries db') = map nd_id (deliveries db)" "map event_of (deliveries db') = map event_of (deliveries db)"
    using same(1) by (auto simp: db' update_where_def nd_ident_def event_of_def)
  have rest: "delivery_attempts db' = delivery_attempts db" "channel_messages db' = channel_messages db"
    by (simp_all add: db')
  have img: "deliveries db' = map ?g (deliveries db)" by (simp add: db' update_where_def)
  have each: "list_all P (deliveries db')" if "\<And>d. d \<in> set (deliveries db) \<Longrightarrow> P (?g d)" for P
    using that unfolding img list_all_iff set_map by blast
  have "list_all delivery_check (deliveries db')" "list_all (\<lambda>d. nd_attempts d \<le> NOTIFY_MAX_ATTEMPTS) (deliveries db')"
    using wf chk same(2) by (intro each; force simp: wf_notify_def list_all_iff)+
  moreover have "list_all (trail_complete db') (deliveries db')"
    using wf same by (intro each) (auto simp: wf_notify_def list_all_iff trail_complete_def rest nd_ident_def)
  moreover have "list_all (\<lambda>d. nd_status d = ''delivered'' \<longrightarrow> acknowledged db' (nd_id d)) (deliveries db')"
    using wf step by (intro each) (auto simp: wf_notify_def list_all_iff acknowledged_def rest nd_ident_def)
  moreover have "list_all (trail_of db') (delivery_attempts db')" "list_all (message_of db') (channel_messages db')"
    using wf trail_of_mono [OF _ rows] message_of_mono [OF _ rows] by (auto simp: wf_notify_def list_all_iff rest)
  ultimately show "wf_notify db' \<and> nprogress db db'"
    using wf rows unfolding wf_notify_def nprogress_def by (simp add: keys rest)
qed

subsection \<open>Rewriting the trail\<close>

lemma trail_rows_sound:
  assumes "db' = db\<lparr>delivery_attempts := rows\<rparr>"
    and "wf_notify db \<Longrightarrow> distinct (map attempt_no rows) \<and> list_all delivery_attempt_check rows \<and> list_all (trail_of db) rows
      \<and> set (map attempt_no (delivery_attempts db)) \<subseteq> set (map attempt_no rows)"
  shows "notify_sound db db'"
  unfolding notify_sound_def
proof
  assume wf: "wf_notify db"
  note rows = assms(2) [OF wf]
  have same: "trail_of db' = trail_of db" "message_of db' = message_of db" "acknowledged db' = acknowledged db"
    by (simp_all add: assms(1) trail_of_def message_of_def acknowledged_def fun_eq_iff)
  have "trail_complete db' d" if "trail_complete db d" for d
    using that rows unfolding trail_complete_def assms(1) by (simp del: set_map) blast
  then have "list_all (trail_complete db') (deliveries db)"
    using wf unfolding wf_notify_def list_all_iff by blast
  moreover have "nprogress db db'"
    using nprogress_refl [of db] unfolding nprogress_def assms(1) by simp
  ultimately show "wf_notify db' \<and> nprogress db db'"
    using wf rows unfolding wf_notify_def same by (simp add: assms(1))
qed

lemma update_delivery_attempts_sound:
  assumes "update_delivery_attempts p g db = Inr db'"
    and "\<And>a. attempt_no (g a) = attempt_no a \<and> na_tenant (g a) = na_tenant a"
  shows "notify_sound db db'"
proof -
  let ?rows = "update_where p g (delivery_attempts db)"
  have db': "db' = db\<lparr>delivery_attempts := ?rows\<rparr>" and chk: "\<forall>a \<in> set (delivery_attempts db). p a \<longrightarrow> delivery_attempt_check (g a)"
    using assms(1) by (auto simp: update_delivery_attempts_def sql_update_Inr)
  have key: "map attempt_no ?rows = map attempt_no (delivery_attempts db)"
    using assms(2) by (intro map_key_update_where) blast
  have "trail_of db (g a) \<longleftrightarrow> trail_of db a" for a
    using assms(2) [of a] by (simp add: trail_of_def attempt_no_def)
  then have "list_all (trail_of db) ?rows" "list_all delivery_attempt_check ?rows" if "wf_notify db"
    using that chk by (auto intro!: list_all_update_where simp: wf_notify_def)
  then show ?thesis
    using key by (intro trail_rows_sound [OF db']) (simp add: wf_notify_def del: set_map)
qed

lemma upsert_attempt_rows:
  assumes "upsert_delivery_attempt a g db = Inr db'"
  obtains rows where "sql_upsert attempt_no delivery_attempt_check a g (delivery_attempts db) = Inr rows"
    "db' = db\<lparr>delivery_attempts := rows\<rparr>"
  using assms by (auto simp: upsert_delivery_attempt_def split: if_splits)

lemma upsert_trail:
  assumes "sql_upsert attempt_no delivery_attempt_check a g rows = Inr rows'"
    and "\<And>x. attempt_no (g x) = attempt_no x \<and> na_tenant (g x) = na_tenant x"
    and "list_all delivery_attempt_check rows" "distinct (map attempt_no rows)"
  shows "distinct (map attempt_no rows')" "list_all delivery_attempt_check rows'"
    "set (map attempt_no rows') = insert (attempt_no a) (set (map attempt_no rows))"
    "trail_of db a \<Longrightarrow> list_all (trail_of db) rows \<Longrightarrow> list_all (trail_of db) rows'"
proof -
  have key: "map attempt_no (update_where p g rows) = map attempt_no rows" for p
    using assms(2) by (intro map_key_update_where) blast
  have tr: "trail_of db (g x) \<longleftrightarrow> trail_of db x" for x
    using assms(2) [of x] by (simp add: trail_of_def attempt_no_def)
  from assms(1) show "distinct (map attempt_no rows')" "list_all delivery_attempt_check rows'"
    "set (map attempt_no rows') = insert (attempt_no a) (set (map attempt_no rows))"
    "trail_of db a \<Longrightarrow> list_all (trail_of db) rows \<Longrightarrow> list_all (trail_of db) rows'"
    using assms(3,4)
    by (cases rule: sql_upsertE; simp add: key insert_absorb list_all_update_where tr del: set_map; simp add: list_all_update_where)+
qed

lemma upsert_attempt_sound:
  assumes "upsert_delivery_attempt a g db = Inr db'"
    and "\<And>x. attempt_no (g x) = attempt_no x \<and> na_tenant (g x) = na_tenant x"
    and "wf_notify db \<Longrightarrow> trail_of db a"
  shows "notify_sound db db'"
proof -
  from assms(1) obtain rows where rows: "sql_upsert attempt_no delivery_attempt_check a g (delivery_attempts db) = Inr rows"
    and db': "db' = db\<lparr>delivery_attempts := rows\<rparr>" by (rule upsert_attempt_rows)
  show ?thesis
  proof (rule trail_rows_sound [OF db'])
    assume wf: "wf_notify db"
    then have old: "list_all delivery_attempt_check (delivery_attempts db)" "distinct (map attempt_no (delivery_attempts db))"
      "list_all (trail_of db) (delivery_attempts db)" by (simp_all add: wf_notify_def)
    note up = upsert_trail [OF rows assms(2) old(1,2)]
    show "distinct (map attempt_no rows) \<and> list_all delivery_attempt_check rows \<and> list_all (trail_of db) rows
      \<and> set (map attempt_no (delivery_attempts db)) \<subseteq> set (map attempt_no rows)"
      using up(1,2) up(4) [OF assms(3) [OF wf] old(3)] unfolding up(3) by blast
  qed
qed

end
