(* ===== verification/NotificationSteps.thy ===== *)
theory NotificationSteps
  imports NotificationMachine
begin

text \<open>
  Every operation of the ledger keeps \<open>wf_notify\<close> and makes progress: the contract \<open>notify_op\<close>, its
  interpretations, and the interleaving of HTTP requests and any number of workers. A worker's position in
  \<open>process_job\<close> is its phase; it may crash in every phase.
\<close>

locale notify_op =
  fixes op :: "notification_db \<Rightarrow> 'r \<times> notification_db"
  assumes sound: "notify_sound db (snd (op db))"
begin

lemma keeps_wf: "wf_notify db \<Longrightarrow> wf_notify (snd (op db))"
  using sound [of db] by (simp add: notify_sound_def)

lemma keeps_settled:
  assumes "wf_notify db" "d \<in> set (deliveries db)" "settled d"
  obtains d' where "d' \<in> set (deliveries (snd (op db)))" "untouched d' = untouched d"
  using sound [of db] assms by (auto simp: notify_sound_def nprogress_def row_step_def)

lemma keeps_messages: "wf_notify db \<Longrightarrow> set (channel_messages db) \<subseteq> set (channel_messages (snd (op db)))"
  using sound [of db] by (simp add: notify_sound_def nprogress_def)

end

lemma transact_notify_sound:
  "(\<And>x db'. body db = Inr (x, db') \<Longrightarrow> notify_sound db db') \<Longrightarrow> notify_sound db (snd (transact body db))"
  by (auto simp: transact_def split: sum.splits)

lemma statement_Inr [simp]: "statement io s ctx r = Inr x \<longleftrightarrow> \<not> io s \<and> r = Inr x"
  by (simp add: statement_def)

lemmas delivery_row_defs = claimed_delivery_def exhausted_delivery_def delivered_row_def dead_row_def
  retry_row_def nd_ident_def settled_def

subsection \<open>Marking and giving up\<close>

lemma mark_delivery_sound:
  assumes "\<And>d. nd_ident (f d) = nd_ident d \<and> nd_attempts (f d) = nd_attempts d"
    and "\<And>a. attempt_no (g a) = attempt_no a \<and> na_tenant (g a) = na_tenant a"
    and "\<And>d. nd_status (f d) = ''delivered'' \<Longrightarrow> acknowledged db (dj_id job)"
  shows "notify_sound db (snd (mark_delivery io pool stmt ctx lost octx job f g db))"
  unfolding mark_delivery_def
proof (rule transact_notify_sound)
  fix x db'
  assume "and_then (db_client pool) (\<lambda>_.
       and_then (statement io stmt ctx (update_deliveries (delivery_held job) f db)) (\<lambda>(updated, db1).
       if updated \<noteq> 1 then Inl lost
       else and_then (statement io Record_outcome octx (update_delivery_attempts (attempt_of_job job) g db1)) (\<lambda>db2.
            Inr ((), db2)))) = Inr (x, db')"
  then obtain db1 where u: "update_deliveries (delivery_held job) f db = Inr (1, db1)"
    and v: "update_delivery_attempts (attempt_of_job job) g db1 = Inr db'"
    by (auto split: if_splits)
  have "notify_sound db db1"
    by (rule update_deliveries_sound [OF u])
      (use assms(1,3) in \<open>auto simp: delivery_held_def settled_def\<close>)
  also have "notify_sound db1 db'" by (rule update_delivery_attempts_sound [OF v assms(2)])
  finally show "notify_sound db db'" .
qed

lemma mark_delivered_sound:
  "acknowledged db (dj_id job) \<Longrightarrow> notify_sound db (snd (mark_delivered io pool now job db))"
  unfolding mark_delivered_def by (rule mark_delivery_sound) (simp_all add: delivery_row_defs attempt_no_def)

interpretation mark_failed: notify_op "mark_failed_or_dead_letter io pool now job error"
  for io pool now job error
  unfolding mark_failed_or_dead_letter_def Let_def
  by unfold_locales (rule mark_delivery_sound; simp add: delivery_row_defs failed_outcome_def attempt_no_def split: if_splits)

interpretation quarantine: notify_op "dead_letter_invalid_propagation io pool now job error"
  for io pool now job error
  unfolding dead_letter_invalid_propagation_def Let_def
  by unfold_locales (rule mark_delivery_sound; simp add: delivery_row_defs failed_outcome_def attempt_no_def)

lemma reclaim_update_sound:
  assumes "reclaim_update io now db = Inr (rows, db')"
  shows "notify_sound db db'"
    and "rows = map (\<lambda>d. (nd_id d, nd_tenant d, nd_attempts d)) (filter (delivery_exhausted now) (deliveries db))"
proof -
  from assms obtain n where u: "update_deliveries (delivery_exhausted now) (exhausted_delivery now) db = Inr (n, db')"
    by (auto simp: reclaim_update_def)
  show "notify_sound db db'"
    by (rule update_deliveries_sound [OF u]) (auto simp: delivery_row_defs delivery_exhausted_def)
  show "rows = map (\<lambda>d. (nd_id d, nd_tenant d, nd_attempts d)) (filter (delivery_exhausted now) (deliveries db))"
    using assms by (auto simp: reclaim_update_def)
qed

text \<open>A row reported by the cleanup stays a fact about its delivery.\<close>

definition known_attempt :: "notification_db \<Rightarrow> string \<times> string \<times> int \<Rightarrow> bool" where
  "known_attempt db row = trail_of db (exhausted_attempt 0 row)"

lemma known_attempt_mono: "known_attempt db row \<Longrightarrow> nprogress db db' \<Longrightarrow> known_attempt db' row"
  unfolding known_attempt_def nprogress_def by (blast intro: trail_of_mono)

lemma reclaim_record_sound:
  assumes "reclaim_record io now db row = Inr db'" "known_attempt db row"
  shows "notify_sound db db'"
proof -
  from assms(1) have u: "upsert_delivery_attempt (exhausted_attempt now row) (\<lambda>a. a\<lparr>na_outcome := ''dead_lettered'',
      na_error := Some BUDGET_EXHAUSTED, na_completed_at := Some now\<rparr>) db = Inr db'"
    by (simp add: reclaim_record_def)
  show ?thesis
    by (rule upsert_attempt_sound [OF u])
      (use assms(2) in \<open>simp_all add: attempt_no_def known_attempt_def trail_of_def exhausted_attempt_def split: prod.splits\<close>)
qed

lemma reclaim_records_sound:
  "wf_notify db \<Longrightarrow> list_all (known_attempt db) rows
     \<Longrightarrow> wf_notify (snd (reclaim_records io clock rows db)) \<and> nprogress db (snd (reclaim_records io clock rows db))"
proof (induction rows arbitrary: db)
  case (Cons row rows)
  show ?case
  proof (cases "reclaim_record io (clock (fst row)) db row")
    case (Inr db1)
    with Cons.prems have s: "wf_notify db1" "nprogress db db1"
      using reclaim_record_sound by (auto simp: notify_sound_def)
    moreover have "list_all (known_attempt db1) rows"
      using Cons.prems(2) known_attempt_mono [OF _ s(2)] by (auto simp: list_all_iff)
    ultimately show ?thesis using Cons.IH [of db1] Inr nprogress_trans [OF s(2)] by simp
  qed (simp add: Cons.prems)
qed simp

lemma reclaim_rows_known:
  assumes "reclaim_update io now db = Inr (rows, db')" "wf_notify db"
  shows "list_all (known_attempt db') rows"
proof -
  have "known_attempt db row" if "row \<in> set rows" for row
    using that by (auto simp: reclaim_update_sound(2) [OF assms(1)] known_attempt_def trail_of_def exhausted_attempt_def list_ex_iff)
  moreover have "nprogress db db'" using reclaim_update_sound(1) [OF assms(1)] assms(2) by (simp add: notify_sound_def)
  ultimately show ?thesis unfolding list_all_iff by (blast intro: known_attempt_mono)
qed

interpretation reclaim: notify_op "reclaim_exhausted io pool now clock" for io pool now clock
proof unfold_locales
  fix db
  show "notify_sound db (snd (reclaim_exhausted io pool now clock db))"
  proof (cases "and_then (db_client pool) (\<lambda>_. reclaim_update io now db)")
    case (Inr p)
    then obtain rows db1 where u: "reclaim_update io now db = Inr (rows, db1)" and p: "p = (rows, db1)"
      by (cases p) auto
    show ?thesis
      using reclaim_update_sound(1) [OF u] reclaim_records_sound [OF _ reclaim_rows_known [OF u], of io clock]
      by (auto simp: notify_sound_def reclaim_exhausted_def Inr p dest: nprogress_trans)
  qed (simp add: reclaim_exhausted_def)
qed

subsection \<open>Acknowledgements\<close>

definition job_matches :: "notification_db \<Rightarrow> delivery_job \<Rightarrow> bool" where
  "job_matches db job \<longleftrightarrow>
     list_ex (\<lambda>d. nd_ident d = (dj_id job, dj_tenant job, dj_event_key job, dj_order_id job, dj_channel job, dj_payload job)
       \<and> dj_attempt job \<le> nd_attempts d) (deliveries db)"

lemma job_matches_mono: "job_matches db job \<Longrightarrow> nprogress db db' \<Longrightarrow> job_matches db' job"
  unfolding job_matches_def nprogress_def row_step_def list_ex_iff by (metis order_trans)

lemma update_where_same [simp]: "update_where p id rows = rows"
  by (simp add: update_where_def map_idI)

lemma persist_rows:
  assumes "persist_channel_message io pool now job ref db = (Inr u, db')"
  shows "acknowledged db' (dj_id job)"
    and "db' = db \<or> (dj_id job \<notin> set (map nm_delivery (channel_messages db))
      \<and> db' = db\<lparr>channel_messages := channel_messages db @ [message_row now ref job]\<rparr>)"
proof -
  from transact_eq_InrD [OF assms [unfolded persist_channel_message_def]]
  have "insert_message now ref job db = Inr db'" by simp
  then obtain rows where
    up: "sql_upsert nm_delivery channel_message_check (message_row now ref job) id (channel_messages db) = Inr rows"
    and db': "db' = db\<lparr>channel_messages := rows\<rparr>"
    unfolding insert_message_def by (rule and_thenE) (simp split: if_splits)
  have key: "nm_delivery (message_row now ref job) = dj_id job" by (simp add: message_row_def)
  from up have "(dj_id job \<notin> set (map nm_delivery (channel_messages db)) \<and> rows = channel_messages db @ [message_row now ref job])
    \<or> (dj_id job \<in> set (map nm_delivery (channel_messages db)) \<and> rows = channel_messages db)"
    by (cases rule: sql_upsertE) (simp_all add: key del: set_map)
  then show "acknowledged db' (dj_id job)"
    and "db' = db \<or> (dj_id job \<notin> set (map nm_delivery (channel_messages db))
      \<and> db' = db\<lparr>channel_messages := channel_messages db @ [message_row now ref job]\<rparr>)"
    by (auto simp: acknowledged_def db' key)
qed

lemma persist_sound:
  assumes "job_matches db job"
  shows "notify_sound db (snd (persist_channel_message io pool now job ref db))"
proof (cases "persist_channel_message io pool now job ref db")
  case (Pair r db')
  show ?thesis
  proof (cases r)
    case (Inl e)
    have "db' = db" using transact_eq_InlD [OF Pair [unfolded persist_channel_message_def Inl]] ..
    with Pair show ?thesis by simp
  next
    case (Inr u)
    note rows = persist_rows(2) [OF Pair [unfolded Inr]]
    have "notify_sound db db'" if new: "dj_id job \<notin> set (map nm_delivery (channel_messages db))"
      and db': "db' = db\<lparr>channel_messages := channel_messages db @ [m]\<rparr>"
      and m: "nm_delivery m = dj_id job" "nm_tenant m = dj_tenant job" "nm_order_id m = dj_order_id job"
        "nm_channel m = dj_channel job" "nm_payload m = dj_payload job" for m
    proof -
      have "message_of db m" using assms m by (auto simp: job_matches_def message_of_def list_ex_iff nd_ident_def)
      moreover have "trail_of db' = trail_of db" "message_of db' = message_of db" "trail_complete db' = trail_complete db"
        by (simp_all add: db' trail_of_def message_of_def trail_complete_def fun_eq_iff)
      moreover have "acknowledged db i \<Longrightarrow> acknowledged db' i" for i by (auto simp: acknowledged_def db')
      moreover have "nprogress db db'" by (simp add: nprogress_def db' row_steps_refl subset_insertI)
      ultimately show ?thesis
        using new m(1) by (auto simp: notify_sound_def wf_notify_def db' list_all_iff)
    qed
    from this [of "message_row now ref job"] rows have "notify_sound db db'"
      by (elim disjE) (simp_all add: message_row_def)
    with Pair show ?thesis by simp
  qed
qed

subsection \<open>Claiming\<close>

lemma next_deliveryD:
  assumes "next_delivery coll locked now db = Some c"
  shows "c \<in> set (deliveries db)" "delivery_claimable now c" "\<not> locked c"
  using limit1_Some [OF assms [unfolded next_delivery_def]] by auto

text \<open>What a claim that found a delivery did.\<close>

lemma claim_next_Some:
  assumes "claim_next io pool coll locked now token db = (Inr (Some job), db')" "distinct (map nd_id (deliveries db))"
  obtains c rows where "next_delivery coll locked now db = Some c" "job = job_of_delivery token (claimed_delivery now token c)"
    "sql_upsert attempt_no delivery_attempt_check (started_attempt now job)
       (\<lambda>a. a\<lparr>na_outcome := ''processing'', na_error := None, na_started_at := now, na_completed_at := None\<rparr>)
       (delivery_attempts db) = Inr rows"
    "\<forall>d \<in> set (deliveries db). nd_id d = nd_id c \<longrightarrow> delivery_check (claimed_delivery now token d)"
    "db' = db\<lparr>deliveries := update_where (\<lambda>d. nd_id d = nd_id c) (claimed_delivery now token) (deliveries db),
       delivery_attempts := rows\<rparr>"
proof -
  note body = transact_eq_InrD [OF assms(1) [unfolded claim_next_def]]
  from body obtain c where c: "next_delivery coll locked now db = Some c"
    by (auto split: option.splits)
  let ?p = "\<lambda>d. nd_id d = nd_id c"
  from body c obtain n db1 d where u: "update_deliveries ?p (claimed_delivery now token) db = Inr (n, db1)"
    and q: "query_opt (filter ?p (deliveries db1)) = Inr (Some d)"
    and job: "job = job_of_delivery token d"
    and up: "upsert_delivery_attempt (started_attempt now job)
       (\<lambda>a. a\<lparr>na_outcome := ''processing'', na_error := None, na_started_at := now, na_completed_at := None\<rparr>) db1 = Inr db'"
    by (auto simp: Let_def split: option.splits)
  have db1: "db1 = db\<lparr>deliveries := update_where ?p (claimed_delivery now token) (deliveries db)\<rparr>"
    and chk: "\<forall>d \<in> set (deliveries db). nd_id d = nd_id c \<longrightarrow> delivery_check (claimed_delivery now token d)"
    using u by (auto simp: update_deliveries_def sql_update_Inr)
  have "filter ?p (deliveries db) = [c]"
    using assms(2) next_deliveryD(1) [OF c] by (intro filter_unique [where key = nd_id]) auto
  moreover have "filter ?p (update_where ?p (claimed_delivery now token) rows) = map (claimed_delivery now token) (filter ?p rows)" for rows
    by (intro filter_update_where_self) (simp add: claimed_delivery_def)
  ultimately have "d = claimed_delivery now token c"
    using q by (simp add: db1)
  with up obtain rows where "sql_upsert attempt_no delivery_attempt_check (started_attempt now job)
       (\<lambda>a. a\<lparr>na_outcome := ''processing'', na_error := None, na_started_at := now, na_completed_at := None\<rparr>)
       (delivery_attempts db) = Inr rows" "db' = db1\<lparr>delivery_attempts := rows\<rparr>"
    by (auto simp: db1 elim!: upsert_attempt_rows)
  with c job \<open>d = _\<close> chk show ?thesis by (intro that [of c rows]) (simp_all add: db1)
qed

lemma claim_next_noop:
  assumes "claim_next io pool coll locked now token db = (r, db')" "\<And>job. r \<noteq> Inr (Some job)"
    and "distinct (map nd_id (deliveries db))"
  shows "db' = db"
proof (cases r)
  case (Inl e)
  show ?thesis using transact_eq_InlD [OF assms(1) [unfolded claim_next_def Inl]] ..
next
  case (Inr o')
  with assms(2) have r: "r = Inr None" by (cases o') auto
  note body = transact_eq_InrD [OF assms(1) [unfolded claim_next_def r]]
  show ?thesis
  proof (cases "next_delivery coll locked now db")
    case (Some c)
    have "filter (\<lambda>d. nd_id d = nd_id c) (update_where (\<lambda>d. nd_id d = nd_id c) (claimed_delivery now token) rows) \<noteq> []"
      if "c \<in> set rows" for rows
      using that by (subst filter_update_where_self) (auto simp: filter_empty_conv claimed_delivery_def)
    with next_deliveryD(1) [OF Some] have False
      using body Some by (auto simp: Let_def update_deliveries_def sql_update_Inr query_opt_None split: option.splits)
    then show ?thesis ..
  qed (use body in simp)
qed

text \<open>The rows after a claim, under the unique id.\<close>

definition claimed_rows :: "timestamp \<Rightarrow> string \<Rightarrow> delivery_row \<Rightarrow> delivery_row list \<Rightarrow> delivery_row list" where
  "claimed_rows now token c rows = map (\<lambda>d. if d = c then claimed_delivery now token d else d) rows"

lemma claimed_rows_update:
  assumes "distinct (map nd_id rows)" "c \<in> set rows"
  shows "update_where (\<lambda>d. nd_id d = nd_id c) (claimed_delivery now token) rows = claimed_rows now token c rows"
  using distinct_map_inj_on [OF assms(1) _ assms(2)] by (auto simp: update_where_def claimed_rows_def)

lemma claimed_rows_all:
  "P (claimed_delivery now token c) \<Longrightarrow> (\<And>d. d \<in> set rows \<Longrightarrow> P d) \<Longrightarrow> list_all P (claimed_rows now token c rows)"
  by (auto simp: claimed_rows_def list_all_iff)

lemma claimed_rows_keys:
  "map nd_id (claimed_rows now token c rows) = map nd_id rows"
  "map event_of (claimed_rows now token c rows) = map event_of rows"
  by (auto simp: claimed_rows_def claimed_delivery_def event_of_def)

lemma claimed_rows_step:
  assumes "\<not> settled c" "d \<in> set rows"
  shows "\<exists>d' \<in> set (claimed_rows now token c rows). row_step d d'"
proof
  let ?d = "if d = c then claimed_delivery now token d else d"
  show "row_step d ?d" using assms(1) by (simp add: row_step_def claimed_delivery_def nd_ident_def)
  show "?d \<in> set (claimed_rows now token c rows)" using assms(2) by (auto simp: claimed_rows_def)
qed

lemma claimed_trail:
  assumes wf: "wf_notify db" and c: "c \<in> set (deliveries db)" "\<not> settled c"
    and job: "job = job_of_delivery token (claimed_delivery now token c)"
    and up: "sql_upsert attempt_no delivery_attempt_check (started_attempt now job)
       (\<lambda>a. a\<lparr>na_outcome := ''processing'', na_error := None, na_started_at := now, na_completed_at := None\<rparr>)
       (delivery_attempts db) = Inr rows"
    and db': "db' = db\<lparr>deliveries := claimed_rows now token c (deliveries db), delivery_attempts := rows\<rparr>"
  shows "distinct (map attempt_no rows)" "list_all delivery_attempt_check rows" "list_all (trail_of db') rows"
    "list_all (trail_complete db') (deliveries db')"
proof -
  have old: "list_all delivery_attempt_check (delivery_attempts db)" "distinct (map attempt_no (delivery_attempts db))"
    using wf by (simp_all add: wf_notify_def)
  have touch: "attempt_no (x\<lparr>na_outcome := ''processing'', na_error := None, na_started_at := now, na_completed_at := None\<rparr>)
      = attempt_no x \<and> na_tenant (x\<lparr>na_outcome := ''processing'', na_error := None, na_started_at := now,
        na_completed_at := None\<rparr>) = na_tenant x" for x
    by (simp add: attempt_no_def)
  note ups = upsert_trail [OF up touch old]
  have no: "attempt_no (started_attempt now job) = (nd_id c, nd_attempts c + 1)"
    by (simp add: attempt_no_def started_attempt_def job job_of_delivery_def claimed_delivery_def)
  show "distinct (map attempt_no rows)" "list_all delivery_attempt_check rows" by (fact ups(1), fact ups(2))
  have "claimed_delivery now token c \<in> set (deliveries db')"
    using c(1) by (auto simp: db' claimed_rows_def)
  then have "trail_of db' (started_attempt now job)" unfolding trail_of_def list_ex_iff
    by (rule bexI [rotated]) (simp add: started_attempt_def job job_of_delivery_def claimed_delivery_def)
  moreover have "list_all (trail_of db') (delivery_attempts db)"
    using wf trail_of_mono [of db _ db'] claimed_rows_step [OF c(2)] by (auto simp: wf_notify_def list_all_iff db')
  ultimately show "list_all (trail_of db') rows" by (rule ups(4))
  have "trail_complete db' d" if "d \<in> set (deliveries db)" for d
    using wf that ups(3) by (auto simp: wf_notify_def list_all_iff trail_complete_def db' simp del: set_map)
  moreover from this [OF c(1)] have "trail_complete db' (claimed_delivery now token c)"
    using ups(3) unfolding trail_complete_def db' no by (auto simp: claimed_delivery_def simp del: set_map)
  ultimately show "list_all (trail_complete db') (deliveries db')"
    unfolding db' by (simp add: claimed_rows_all)
qed

lemma claim_next_sound: "notify_sound db (snd (claim_next io pool coll locked now token db))"
  unfolding notify_sound_def
proof
  assume wf: "wf_notify db"
  then have ids: "distinct (map nd_id (deliveries db))" by (simp add: wf_notify_def)
  obtain r db' where op: "claim_next io pool coll locked now token db = (r, db')" by fastforce
  show "wf_notify (snd (claim_next io pool coll locked now token db))
    \<and> nprogress db (snd (claim_next io pool coll locked now token db))"
  proof (cases "\<exists>job. r = Inr (Some job)")
    case False
    then have "db' = db" using claim_next_noop [OF op _ ids] by auto
    then show ?thesis using op wf by simp
  next
    case True
    then obtain job where r: "r = Inr (Some job)" ..
    from op [unfolded r] ids obtain c rows where c: "next_delivery coll locked now db = Some c"
      and job: "job = job_of_delivery token (claimed_delivery now token c)"
      and up: "sql_upsert attempt_no delivery_attempt_check (started_attempt now job)
       (\<lambda>a. a\<lparr>na_outcome := ''processing'', na_error := None, na_started_at := now, na_completed_at := None\<rparr>)
       (delivery_attempts db) = Inr rows"
      and chk: "\<forall>d \<in> set (deliveries db). nd_id d = nd_id c \<longrightarrow> delivery_check (claimed_delivery now token d)"
      and db: "db' = db\<lparr>deliveries := update_where (\<lambda>d. nd_id d = nd_id c) (claimed_delivery now token) (deliveries db),
       delivery_attempts := rows\<rparr>" by (rule claim_next_Some)
    note row = next_deliveryD [OF c]
    have db': "db' = db\<lparr>deliveries := claimed_rows now token c (deliveries db), delivery_attempts := rows\<rparr>"
      using claimed_rows_update [OF ids row(1)] by (simp add: db)
    have claimable: "\<not> settled c" "nd_attempts c < NOTIFY_MAX_ATTEMPTS" "delivery_check (claimed_delivery now token c)"
      using row chk by (auto simp: delivery_claimable_def settled_def)
    have steps: "\<forall>d \<in> set (deliveries db). \<exists>d' \<in> set (deliveries db'). row_step d d'"
      using claimed_rows_step [OF claimable(1)] by (simp add: db')
    have "list_all delivery_check (deliveries db')"
      "list_all (\<lambda>d. nd_attempts d \<le> NOTIFY_MAX_ATTEMPTS) (deliveries db')"
      "list_all (\<lambda>d. nd_status d = ''delivered'' \<longrightarrow> acknowledged db' (nd_id d)) (deliveries db')"
      using wf claimable unfolding db' wf_notify_def list_all_iff [of _ "deliveries db"]
      by (auto intro!: claimed_rows_all simp: acknowledged_def claimed_delivery_def)
    moreover have "list_all (message_of db') (channel_messages db)"
      using wf message_of_mono [OF _ steps] by (auto simp: wf_notify_def list_all_iff)
    ultimately show ?thesis
      using wf claimed_trail [OF wf row(1) claimable(1) job up db'] steps op
      by (simp add: wf_notify_def nprogress_def db' claimed_rows_keys)
  qed
qed

interpretation claim: notify_op "claim_next io pool coll locked now token"
  for io pool coll locked now token
  by unfold_locales (rule claim_next_sound)

subsection \<open>Accepting requests\<close>

lemma insert_deliveryE:
  assumes "insert_delivery now d db = Inr (row, db')"
  obtains (fresh) "event_of d \<notin> set (map event_of (deliveries db))" "nd_id d \<notin> set (map nd_id (deliveries db))"
      "delivery_check d" "row = d" "db' = db\<lparr>deliveries := deliveries db @ [d]\<rparr>"
  | (again) n where "update_deliveries (\<lambda>x. event_of x = event_of d) (\<lambda>x. x\<lparr>nd_updated_at := now\<rparr>) db = Inr (n, db')"
      "event_of d \<in> set (map event_of (deliveries db))"
      "filter (\<lambda>x. event_of x = event_of d) (deliveries db') = [row]"
proof -
  from assms obtain rows where up: "sql_upsert event_of delivery_check d (\<lambda>x. x\<lparr>nd_updated_at := now\<rparr>) (deliveries db) = Inr rows"
    and rest: "(if event_of d \<notin> set (map event_of (deliveries db)) \<and> nd_id d \<in> set (map nd_id (deliveries db))
       then Inl Unique_violation
     else if event_of d \<notin> set (map event_of (deliveries db))
         \<and> (nd_tenant d \<notin> set (nt_tenants db) \<or> (nd_tenant d, nd_order_id d) \<notin> set (nt_orders db))
       then Inl Foreign_key_violation
     else and_then (query_one (filter (\<lambda>x. event_of x = event_of d) rows)) (\<lambda>row.
       Inr (row, db\<lparr>deliveries := rows\<rparr>))) = Inr (row, db')"
    unfolding insert_delivery_def by (rule and_thenE)
  have one: "filter (\<lambda>x. event_of x = event_of d) rows = [row]" and db': "db' = db\<lparr>deliveries := rows\<rparr>"
    using rest by (auto simp: query_one_Inr simp del: set_map split: if_splits)
  from up show ?thesis
  proof (cases rule: sql_upsertE)
    case insert
    have "nd_id d \<notin> set (map nd_id (deliveries db))" using rest insert(2) by (simp del: set_map split: if_splits)
    moreover have "row = d" using one insert by (auto simp: filter_empty_conv image_iff)
    ultimately show ?thesis using insert db' by (intro fresh) simp_all
  next
    case update
    show ?thesis by (rule again [of "count_where (\<lambda>x. event_of x = event_of d) (deliveries db)"])
      (use update one db' in \<open>auto simp: update_deliveries_def sql_update_Inr simp del: set_map\<close>)
  qed
qed

lemma insert_delivery_sound:
  assumes "insert_delivery now d db = Inr (row, db')" "nd_attempts d = 0" "nd_status d = ''queued''"
  shows "notify_sound db db'"
  using assms(1)
proof (cases rule: insert_deliveryE)
  case fresh
  have "trail_of db a \<Longrightarrow> trail_of db' a" "message_of db m \<Longrightarrow> message_of db' m" for a m
    by (simp_all add: fresh(5) trail_of_def message_of_def)
  moreover have "trail_complete db' = trail_complete db" "acknowledged db' = acknowledged db"
    by (simp_all add: fresh(5) trail_complete_def acknowledged_def fun_eq_iff)
  moreover have "trail_complete db d" by (simp add: trail_complete_def assms(2))
  moreover have "nprogress db db'" by (auto simp: nprogress_def fresh(5) intro: row_step_refl)
  ultimately show ?thesis
    using fresh assms(2,3) by (auto simp: notify_sound_def wf_notify_def list_all_iff NOTIFY_MAX_ATTEMPTS_def)
next
  case again
  show ?thesis
    by (rule update_deliveries_sound [OF again(1)]) (auto simp: untouched_def nd_ident_def wf_notify_def list_all_iff)
qed

interpretation record_delivery: notify_op
    "record_delivery io to_str pool now uuid webhook_url email_url request event_key payload headers"
  for io to_str pool now uuid webhook_url email_url request event_key payload headers
  unfolding record_delivery_def
  by unfold_locales (auto intro!: insert_delivery_sound simp: new_delivery_def split: sum.splits option.splits pool_result.splits)

lemma record_delivery_sound:
  assumes "record_delivery io to_str pool now uuid webhook_url email_url request event_key payload headers db = (r, db')"
  shows "notify_sound db db'"
  using record_delivery.sound [where db = db] assms by (metis snd_conv)

interpretation notify: notify_op
    "notify_inner identity_text io to_str pool now uuid webhook_url email_url request headers"
  for identity_text io to_str pool now uuid webhook_url email_url request headers
  unfolding notify_inner_def Let_def
  by unfold_locales (auto dest: record_delivery_sound split: sum.splits prod.splits)

end
