(* ===== verification/NotificationRuns.thy ===== *)
theory NotificationRuns
  imports NotificationSteps
begin

text \<open>
  Requests and any number of workers interleaved. The phase of a worker is the point between two database
  statements it has reached in \<open>process_job\<close> or \<open>reclaim_exhausted\<close>; it can crash at each of them. A claim
  draws a lease token no other worker has (a random UUID in the code).
\<close>

datatype phase =
    Waiting
  | Recording "(string \<times> string \<times> int) list"
  | Dispatching delivery_job
  | Acked delivery_job
  | Undeliverable delivery_job string
  | Bad_context delivery_job string

fun phase_job :: "phase \<Rightarrow> delivery_job option" where
  "phase_job (Dispatching job) = Some job"
| "phase_job (Acked job) = Some job"
| "phase_job (Undeliverable job e) = Some job"
| "phase_job (Bad_context job e) = Some job"
| "phase_job _ = None"

record notify_sys =
  ns_db :: notification_db
  ns_workers :: "phase list"

datatype event = Request | Claim string | Work

definition fresh_token :: "phase list \<Rightarrow> string \<Rightarrow> bool" where
  "fresh_token ws token \<longleftrightarrow> list_all (\<lambda>w. map_option dj_lease_token (phase_job w) \<noteq> Some token) ws"

inductive notify_step :: "event \<Rightarrow> notify_sys \<Rightarrow> notify_sys \<Rightarrow> bool" where
  request: "snd (notify_inner txt io to_str pool now uuid wh em rq headers (ns_db s)) = db'
    \<Longrightarrow> notify_step Request s (s\<lparr>ns_db := db'\<rparr>)"
| exhaust: "i < length (ns_workers s) \<Longrightarrow> ns_workers s ! i = Waiting \<Longrightarrow> reclaim_update io now (ns_db s) = Inr (rows, db')
    \<Longrightarrow> notify_step Work s (s\<lparr>ns_db := db', ns_workers := (ns_workers s)[i := Recording rows]\<rparr>)"
| record_row: "i < length (ns_workers s) \<Longrightarrow> ns_workers s ! i = Recording (row # rows)
    \<Longrightarrow> reclaim_record io now (ns_db s) row = Inr db'
    \<Longrightarrow> notify_step Work s (s\<lparr>ns_db := db', ns_workers := (ns_workers s)[i := Recording rows]\<rparr>)"
| claim_job: "i < length (ns_workers s) \<Longrightarrow> ns_workers s ! i = Waiting \<Longrightarrow> fresh_token (ns_workers s) token
    \<Longrightarrow> claim_next io pool coll locked now token (ns_db s) = (Inr (Some job), db')
    \<Longrightarrow> notify_step (Claim (dj_id job)) s (s\<lparr>ns_db := db', ns_workers := (ns_workers s)[i := Dispatching job]\<rparr>)"
| bad_context: "i < length (ns_workers s) \<Longrightarrow> ns_workers s ! i = Dispatching job
    \<Longrightarrow> job_context_headers to_str hv_ok job = Inl e
    \<Longrightarrow> notify_step Work s (s\<lparr>ns_workers := (ns_workers s)[i := Bad_context job e]\<rparr>)"
| dispatch_ok: "i < length (ns_workers s) \<Longrightarrow> ns_workers s ! i = Dispatching job
    \<Longrightarrow> dispatch_notification io to_str hv_ok txt pool now wh em send job (ns_db s) = (Inr rcpt, db', sent)
    \<Longrightarrow> notify_step Work s (s\<lparr>ns_db := db', ns_workers := (ns_workers s)[i := Acked job]\<rparr>)"
| dispatch_failed: "i < length (ns_workers s) \<Longrightarrow> ns_workers s ! i = Dispatching job
    \<Longrightarrow> dispatch_notification io to_str hv_ok txt pool now wh em send job (ns_db s) = (Inl e, db', sent)
    \<Longrightarrow> notify_step Work s (s\<lparr>ns_db := db', ns_workers := (ns_workers s)[i := Undeliverable job e]\<rparr>)"
| acknowledge: "i < length (ns_workers s) \<Longrightarrow> ns_workers s ! i = Acked job
    \<Longrightarrow> snd (mark_delivered io pool now job (ns_db s)) = db'
    \<Longrightarrow> notify_step Work s (s\<lparr>ns_db := db', ns_workers := (ns_workers s)[i := Waiting]\<rparr>)"
| fail: "i < length (ns_workers s) \<Longrightarrow> ns_workers s ! i = Undeliverable job e
    \<Longrightarrow> snd (mark_failed_or_dead_letter io pool now job e (ns_db s)) = db'
    \<Longrightarrow> notify_step Work s (s\<lparr>ns_db := db', ns_workers := (ns_workers s)[i := Waiting]\<rparr>)"
| quarantine: "i < length (ns_workers s) \<Longrightarrow> ns_workers s ! i = Bad_context job e
    \<Longrightarrow> snd (dead_letter_invalid_propagation io pool now job e (ns_db s)) = db'
    \<Longrightarrow> notify_step Work s (s\<lparr>ns_db := db', ns_workers := (ns_workers s)[i := Waiting]\<rparr>)"
| crash: "i < length (ns_workers s)
    \<Longrightarrow> notify_step Work s (s\<lparr>ns_workers := (ns_workers s)[i := Waiting]\<rparr>)"

inductive notify_run :: "event list \<Rightarrow> notify_sys \<Rightarrow> notify_sys \<Rightarrow> bool" where
  empty: "notify_run [] s s"
| step: "notify_step e s t \<Longrightarrow> notify_run es t u \<Longrightarrow> notify_run (e # es) s u"

subsection \<open>The invariant\<close>

fun phase_ok :: "notification_db \<Rightarrow> phase \<Rightarrow> bool" where
  "phase_ok db Waiting = True"
| "phase_ok db (Recording rows) = list_all (known_attempt db) rows"
| "phase_ok db (Acked job) = (job_matches db job \<and> acknowledged db (dj_id job))"
| "phase_ok db (Dispatching job) = job_matches db job"
| "phase_ok db (Undeliverable job e) = job_matches db job"
| "phase_ok db (Bad_context job e) = job_matches db job"

definition tokens_apart :: "phase list \<Rightarrow> bool" where
  "tokens_apart ws \<longleftrightarrow> (\<forall>i < length ws. \<forall>j < length ws. \<forall>a b. phase_job (ws ! i) = Some a \<longrightarrow> phase_job (ws ! j) = Some b
     \<longrightarrow> dj_lease_token a = dj_lease_token b \<longrightarrow> i = j)"

definition sys_ok :: "notify_sys \<Rightarrow> bool" where
  "sys_ok s \<longleftrightarrow> wf_notify (ns_db s) \<and> list_all (phase_ok (ns_db s)) (ns_workers s) \<and> tokens_apart (ns_workers s)"

lemma acknowledged_mono: "acknowledged db i \<Longrightarrow> nprogress db db' \<Longrightarrow> acknowledged db' i"
  by (auto simp: acknowledged_def nprogress_def)

lemma phase_ok_mono:
  assumes "phase_ok db w" "nprogress db db'"
  shows "phase_ok db' w"
  using assms(1) job_matches_mono [OF _ assms(2)] acknowledged_mono [OF _ assms(2)] known_attempt_mono [OF _ assms(2)]
  by (cases w) (auto simp: list_all_iff)

lemma tokens_apartD:
  "tokens_apart ws \<Longrightarrow> i < length ws \<Longrightarrow> j < length ws \<Longrightarrow> phase_job (ws ! i) = Some a \<Longrightarrow> phase_job (ws ! j) = Some b
     \<Longrightarrow> dj_lease_token a = dj_lease_token b \<Longrightarrow> i = j"
  unfolding tokens_apart_def by blast

lemma tokens_apart_update:
  assumes "tokens_apart ws" "phase_job w = None \<or> phase_job w = phase_job (ws ! i)" "i < length ws"
  shows "tokens_apart (ws[i := w])"
proof -
  have "phase_job (ws ! j) = Some a" if "phase_job (ws[i := w] ! j) = Some a" for j a
    using that assms(2,3) by (auto simp: nth_list_update split: if_splits)
  then show ?thesis unfolding tokens_apart_def [of "ws[i := w]"] by (auto dest: tokens_apartD [OF assms(1)])
qed

lemma tokens_apart_claim:
  assumes "tokens_apart ws" "fresh_token ws (dj_lease_token job)" "phase_job w = Some job" "i < length ws"
  shows "tokens_apart (ws[i := w])"
proof -
  have fresh: "dj_lease_token x \<noteq> dj_lease_token job" if "phase_job (ws ! n) = Some x" "n < length ws" for n x
    using that assms(2) by (auto simp: fresh_token_def list_all_length)
  have at: "(j = i \<and> a = job) \<or> (j \<noteq> i \<and> phase_job (ws ! j) = Some a)" if "phase_job (ws[i := w] ! j) = Some a" for j a
    using that assms(3,4) by (auto simp: nth_list_update split: if_splits)
  show ?thesis unfolding tokens_apart_def [of "ws[i := w]"] length_list_update
  proof (intro allI impI)
    fix j k a b
    assume "j < length ws" "k < length ws" "dj_lease_token a = dj_lease_token b"
      and "phase_job (ws[i := w] ! j) = Some a" "phase_job (ws[i := w] ! k) = Some b"
    with at [of j a] at [of k b] fresh [of j a] fresh [of k b] tokens_apartD [OF assms(1), of j k a b]
    show "j = k" by auto
  qed
qed

text \<open>A step of one worker.\<close>

lemma sys_ok_worker:
  assumes "sys_ok s" "nprogress (ns_db s) db'" "wf_notify db'" "phase_ok db' w" "tokens_apart ((ns_workers s)[i := w])"
  shows "sys_ok (s\<lparr>ns_db := db', ns_workers := (ns_workers s)[i := w]\<rparr>)"
proof -
  have "list_all (phase_ok db') (ns_workers s)"
    using assms(1) phase_ok_mono [OF _ assms(2)] by (auto simp: sys_ok_def list_all_iff)
  then have "list_all (phase_ok db') ((ns_workers s)[i := w])"
    using assms(4) by (auto simp: list_all_iff dest!: subsetD [OF set_update_subset_insert])
  with assms(3,5) show ?thesis by (simp add: sys_ok_def)
qed

lemma dispatch_db:
  assumes "dispatch_notification io to_str hv_ok txt pool now wh em send job db = (r, db', sent)"
  shows "db' = db \<and> \<not> is_ok r \<or> (\<exists>ref. snd (persist_channel_message io pool now job ref db) = db'
    \<and> is_ok r = is_ok (fst (persist_channel_message io pool now job ref db)))"
  using assms by (auto simp: dispatch_notification_def Let_def split: if_splits sum.splits prod.splits channel_reply.splits)
    (metis fst_conv snd_conv is_ok_simps)+

lemma dispatch_sound:
  assumes "dispatch_notification io to_str hv_ok txt pool now wh em send job db = (r, db', sent)" "job_matches db job"
  shows "notify_sound db db'" and "is_ok r \<Longrightarrow> acknowledged db' (dj_id job)"
proof -
  show "notify_sound db db'"
    using dispatch_db [OF assms(1)] persist_sound [OF assms(2)] by auto
  assume "is_ok r"
  then obtain ref where "snd (persist_channel_message io pool now job ref db) = db'"
    "is_ok (fst (persist_channel_message io pool now job ref db))"
    using dispatch_db [OF assms(1)] by auto
  then obtain u where "persist_channel_message io pool now job ref db = (Inr u, db')"
    by (cases "persist_channel_message io pool now job ref db"; cases "fst (persist_channel_message io pool now job ref db)") auto
  then show "acknowledged db' (dj_id job)" by (rule persist_rows(1))
qed

lemma claimed_job_matches:
  assumes "claim_next io pool coll locked now token db = (Inr (Some job), db')" "wf_notify db"
  shows "job_matches db' job" and "dj_lease_token job = token"
proof -
  have ids: "distinct (map nd_id (deliveries db))" using assms(2) by (simp add: wf_notify_def)
  from assms(1) ids obtain c rows where c: "next_delivery coll locked now db = Some c"
    and job: "job = job_of_delivery token (claimed_delivery now token c)"
    and db': "db' = db\<lparr>deliveries := update_where (\<lambda>d. nd_id d = nd_id c) (claimed_delivery now token) (deliveries db),
       delivery_attempts := rows\<rparr>" by (rule claim_next_Some)
  have "claimed_delivery now token c \<in> set (deliveries db')"
    using next_deliveryD(1) [OF c] unfolding db' by (simp add: claimed_rows_update [OF ids] claimed_rows_def)
  then show "job_matches db' job" unfolding job_matches_def list_ex_iff
    by (rule bexI [rotated]) (simp add: job job_of_delivery_def nd_ident_def)
  show "dj_lease_token job = token" by (simp add: job job_of_delivery_def)
qed

lemma phase_okI: "phase_ok db w \<Longrightarrow> phase_job w = Some job \<Longrightarrow> job_matches db job"
  by (cases w) auto

lemma sys_ok_phase: "sys_ok s \<Longrightarrow> i < length (ns_workers s) \<Longrightarrow> phase_ok (ns_db s) (ns_workers s ! i)"
  by (simp add: sys_ok_def list_all_length)

lemma sys_ok_sound:
  "sys_ok s \<Longrightarrow> notify_sound (ns_db s) db' \<Longrightarrow> nprogress (ns_db s) db' \<and> wf_notify db'"
  by (simp add: sys_ok_def notify_sound_def)

lemma notify_step_sound: "notify_step e s t \<Longrightarrow> sys_ok s \<Longrightarrow> notify_sound (ns_db s) (ns_db t)"
proof (induction rule: notify_step.induct)
  case request
  then show ?case using notify.sound by auto
next
  case (exhaust i s io now rows db')
  then show ?case using reclaim_update_sound(1) by auto
next
  case (record_row i s row rows io now db')
  then show ?case using reclaim_record_sound sys_ok_phase [OF record_row(4,1)] by auto
next
  case (claim_job i s token io pool coll locked now job db')
  then show ?case using claim_next_sound [of "ns_db s" io pool coll locked now token] by simp
next
  case (dispatch_ok i s job)
  then show ?case using dispatch_sound(1) sys_ok_phase [OF dispatch_ok(4,1)] by auto
next
  case (dispatch_failed i s job)
  then show ?case using dispatch_sound(1) sys_ok_phase [OF dispatch_failed(4,1)] by auto
next
  case (acknowledge i s job)
  then show ?case using mark_delivered_sound sys_ok_phase [OF acknowledge(4,1)] by auto
next
  case fail
  then show ?case using mark_failed.sound by auto
next
  case quarantine
  then show ?case using quarantine.sound by auto
qed auto

lemma notify_step_ok: "notify_step e s t \<Longrightarrow> sys_ok s \<Longrightarrow> sys_ok t"
proof -
  assume st: "notify_step e s t" and ok: "sys_ok s"
  have *: "nprogress (ns_db s) (ns_db t)" "wf_notify (ns_db t)"
    using sys_ok_sound [OF ok notify_step_sound [OF st ok]] by auto
  have apart: "tokens_apart (ns_workers s)" using ok by (simp add: sys_ok_def)
  have advance: "sys_ok (s\<lparr>ns_db := db', ns_workers := (ns_workers s)[i := w]\<rparr>)"
    if "i < length (ns_workers s)" "nprogress (ns_db s) db'" "wf_notify db'"
      "phase_ok db' w" "phase_job w = None \<or> phase_job w = phase_job (ns_workers s ! i)" for i w db'
    using that tokens_apart_update [OF apart that(5,1)] by (intro sys_ok_worker [OF ok])
  from st show "sys_ok t"
  proof cases
    case (request tx io to_str pool now uuid wh em rq headers db')
    have "list_all (phase_ok db') (ns_workers s)"
      using ok phase_ok_mono *(1) by (auto simp: sys_ok_def list_all_iff request)
    with * apart show ?thesis by (simp add: request sys_ok_def)
  next
    case (exhaust i io now rows db')
    have "list_all (known_attempt db') rows" using reclaim_rows_known exhaust ok by (auto simp: sys_ok_def)
    with exhaust * show ?thesis by (auto intro!: advance)
  next
    case (record_row i row rows io now db')
    have "list_all (known_attempt (ns_db s)) rows" using sys_ok_phase [OF ok record_row(3)] by (simp add: record_row(4))
    then have "list_all (known_attempt db') rows" using known_attempt_mono *(1) by (auto simp: list_all_iff record_row)
    with record_row * show ?thesis by (auto intro!: advance)
  next
    case (claim_job i token io pool coll locked now job db')
    note m = claimed_job_matches [OF claim_job(6)]
    have wf: "wf_notify (ns_db s)" using ok by (simp add: sys_ok_def)
    have "tokens_apart ((ns_workers s)[i := Dispatching job])"
      using tokens_apart_claim [OF apart, of job "Dispatching job" i] m(2) [OF wf] claim_job by simp
    with claim_job * m(1) [OF wf] show ?thesis by (auto intro!: sys_ok_worker [OF ok])
  next
    case (bad_context i job to_str hv_ok e)
    then have "sys_ok (s\<lparr>ns_db := ns_db s, ns_workers := (ns_workers s)[i := Bad_context job e]\<rparr>)"
      using sys_ok_phase [OF ok bad_context(3)] ok by (intro advance) (auto simp: sys_ok_def)
    then show ?thesis by (simp add: bad_context)
  next
    case (dispatch_ok i job io to_str hv_ok tx pool now wh em send rcpt db' sent)
    have j: "job_matches (ns_db s) job" using sys_ok_phase [OF ok dispatch_ok(3)] dispatch_ok(4) by simp
    have "acknowledged db' (dj_id job)" using dispatch_sound(2) [OF dispatch_ok(5) j] by simp
    with dispatch_ok * j job_matches_mono show ?thesis by (auto intro!: advance)
  next
    case (dispatch_failed i job io to_str hv_ok tx pool now wh em send e db' sent)
    have "job_matches (ns_db s) job" using sys_ok_phase [OF ok dispatch_failed(3)] dispatch_failed(4) by simp
    with dispatch_failed * job_matches_mono show ?thesis by (auto intro!: advance)
  next
    case (crash i)
    then have "sys_ok (s\<lparr>ns_db := ns_db s, ns_workers := (ns_workers s)[i := Waiting]\<rparr>)"
      using ok by (intro advance) (auto simp: sys_ok_def)
    then show ?thesis by (simp add: crash)
  qed (use * in \<open>auto intro!: advance\<close>)
qed

lemma notify_run_ok:
  "notify_run es s t \<Longrightarrow> sys_ok s \<Longrightarrow> sys_ok t \<and> nprogress (ns_db s) (ns_db t)"
proof (induction rule: notify_run.induct)
  case (step e s t es u)
  then show ?case
    using notify_step_ok [OF step(1,4)] sys_ok_sound [OF step(4) notify_step_sound [OF step(1,4)]]
    by (auto intro: nprogress_trans)
qed simp

text \<open>A run that starts from an empty ledger, with idle workers.\<close>

definition fresh_sys :: "string list \<Rightarrow> (string \<times> string) list \<Rightarrow> nat \<Rightarrow> notify_sys" where
  "fresh_sys tenants' orders' n =
     \<lparr>ns_db = \<lparr>deliveries = [], delivery_attempts = [], channel_messages = [], nt_tenants = tenants', nt_orders = orders'\<rparr>,
      ns_workers = replicate n Waiting\<rparr>"

lemma fresh_sys_ok [simp]: "sys_ok (fresh_sys tenants' orders' n)"
  by (simp add: fresh_sys_def sys_ok_def wf_notify_def tokens_apart_def list_all_iff)

lemma fresh_run_wf: "notify_run es (fresh_sys tenants' orders' n) t \<Longrightarrow> wf_notify (ns_db t)"
  using notify_run_ok [OF _ fresh_sys_ok] by (simp add: sys_ok_def)

end
