(* ===== verification/NotificationFacts.thy ===== *)
theory NotificationFacts
  imports NotificationRuns
begin

text \<open>
  Facts behind the properties of the notification service: how often a delivery can be claimed, that the
  worker loop is a run of the step relation, what a repeated request finds, and what the two queue
  operations do when the database is available.
\<close>

subsection \<open>Counting claims\<close>

definition attempts_of :: "notification_db \<Rightarrow> string \<Rightarrow> int" where
  "attempts_of db id' = (\<Sum>d\<leftarrow>filter (\<lambda>d. nd_id d = id') (deliveries db). nd_attempts d)"

lemma attempts_of_row:
  assumes "wf_notify db" "d \<in> set (deliveries db)"
  shows "attempts_of db (nd_id d) = nd_attempts d"
proof -
  have "filter (\<lambda>x. nd_id x = nd_id d) (deliveries db) = [d]"
    using assms by (intro filter_unique [where key = nd_id]) (auto simp: wf_notify_def)
  then show ?thesis by (simp add: attempts_of_def)
qed

lemma attempts_of_absent: "id' \<notin> set (map nd_id (deliveries db)) \<Longrightarrow> attempts_of db id' = 0"
proof -
  assume "id' \<notin> set (map nd_id (deliveries db))"
  then have "filter (\<lambda>d. nd_id d = id') (deliveries db) = []" by (auto simp: filter_empty_conv)
  then show ?thesis by (simp add: attempts_of_def)
qed

lemma attempts_of_bounds:
  assumes "wf_notify db"
  shows "0 \<le> attempts_of db id'" and "attempts_of db id' \<le> NOTIFY_MAX_ATTEMPTS"
proof (atomize (full), cases "id' \<in> set (map nd_id (deliveries db))")
  case True
  then obtain d where "d \<in> set (deliveries db)" "id' = nd_id d" by auto
  then show "0 \<le> attempts_of db id' \<and> attempts_of db id' \<le> NOTIFY_MAX_ATTEMPTS"
    using assms attempts_of_row [OF assms] by (auto simp: wf_notify_def list_all_iff delivery_check_def)
qed (simp add: attempts_of_absent NOTIFY_MAX_ATTEMPTS_def)

lemma attempts_of_mono:
  assumes "wf_notify db" "wf_notify db'" "nprogress db db'"
  shows "attempts_of db id' \<le> attempts_of db' id'"
proof (cases "id' \<in> set (map nd_id (deliveries db))")
  case True
  then obtain d where d: "d \<in> set (deliveries db)" "id' = nd_id d" by auto
  with assms(3) obtain d' where "d' \<in> set (deliveries db')" "row_step d d'" by (auto simp: nprogress_def)
  then show ?thesis
    using d attempts_of_row [OF assms(1), of d] attempts_of_row [OF assms(2), of d']
    by (auto simp: row_step_def nd_ident_def)
qed (simp add: attempts_of_absent attempts_of_bounds [OF assms(2)])

lemma claim_counts:
  assumes "claim_next io pool coll locked now token db = (Inr (Some job), db')" "wf_notify db"
  shows "attempts_of db' (dj_id job) = attempts_of db (dj_id job) + 1"
proof -
  have ids: "distinct (map nd_id (deliveries db))" using assms(2) by (simp add: wf_notify_def)
  from assms(1) ids obtain c rows where c: "next_delivery coll locked now db = Some c"
    and job: "job = job_of_delivery token (claimed_delivery now token c)"
    and db': "db' = db\<lparr>deliveries := update_where (\<lambda>d. nd_id d = nd_id c) (claimed_delivery now token) (deliveries db),
       delivery_attempts := rows\<rparr>" by (rule claim_next_Some)
  note row = next_deliveryD(1) [OF c]
  have "wf_notify db'" using claim.keeps_wf [OF assms(2), of io pool coll locked now token] assms(1) by simp
  moreover have "claimed_delivery now token c \<in> set (deliveries db')"
    using row unfolding db' by (simp add: claimed_rows_update [OF ids] claimed_rows_def)
  ultimately have "attempts_of db' (nd_id c) = nd_attempts c + 1"
    using attempts_of_row [of db' "claimed_delivery now token c"] by (simp add: claimed_delivery_def)
  then show ?thesis
    using attempts_of_row [OF assms(2) row] by (simp add: job job_of_delivery_def claimed_delivery_def)
qed

definition claims_of :: "string \<Rightarrow> event list \<Rightarrow> nat" where
  "claims_of id' es = length (filter (\<lambda>e. e = Claim id') es)"

lemma claims_accounted:
  assumes "notify_run es s t" "sys_ok s"
  shows "attempts_of (ns_db s) id' + int (claims_of id' es) \<le> attempts_of (ns_db t) id'"
  using assms
proof (induction rule: notify_run.induct)
  case (step e s t es u)
  have ok: "sys_ok t" using notify_step_ok [OF step(1,4)] .
  have wf: "wf_notify (ns_db s)" "wf_notify (ns_db t)" using step(4) ok by (simp_all add: sys_ok_def)
  have "attempts_of (ns_db s) id' \<le> attempts_of (ns_db t) id'"
    using wf sys_ok_sound [OF step(4) notify_step_sound [OF step(1,4)]] by (intro attempts_of_mono) auto
  moreover have "attempts_of (ns_db t) id' = attempts_of (ns_db s) id' + 1" if "e = Claim id'"
    using step(1) that claim_counts [OF _ wf(1)] by cases auto
  ultimately show ?case using step.IH [OF ok] by (auto simp: claims_of_def)
qed (simp add: claims_of_def)

lemma trail_bounds:
  assumes "wf_notify db" "d \<in> set (deliveries db)" "(nd_id d, k) \<in> set (map attempt_no (delivery_attempts db))"
  shows "1 \<le> k \<and> k \<le> nd_attempts d"
proof -
  from assms(3) obtain a where a: "a \<in> set (delivery_attempts db)" "na_delivery a = nd_id d" "na_attempt a = k"
    by (auto simp: attempt_no_def)
  with assms(1) obtain d' where d': "d' \<in> set (deliveries db)" "nd_id d' = nd_id d" "k \<le> nd_attempts d'"
    by (auto simp: wf_notify_def list_all_iff trail_of_def list_ex_iff)
  have "d' = d" using assms(1) distinct_map_inj_on [OF _ d'(1) assms(2) d'(2)] by (simp add: wf_notify_def)
  with a d' assms(1) show ?thesis by (auto simp: wf_notify_def list_all_iff delivery_attempt_check_def)
qed

subsection \<open>The loop is a run\<close>

lemma notify_run_append: "notify_run es s t \<Longrightarrow> notify_run fs t u \<Longrightarrow> notify_run (es @ fs) s u"
  by (induction rule: notify_run.induct) (auto intro: notify_run.intros)

lemma notify_run_one: "notify_step e s t \<Longrightarrow> notify_run [e] s t"
  by (auto intro: notify_run.intros)

definition at_phase :: "notify_sys \<Rightarrow> nat \<Rightarrow> notification_db \<Rightarrow> phase \<Rightarrow> notify_sys" where
  "at_phase s i db w = s\<lparr>ns_db := db, ns_workers := (ns_workers s)[i := w]\<rparr>"

definition reaches :: "notify_sys \<Rightarrow> notify_sys \<Rightarrow> bool" where
  "reaches s t \<longleftrightarrow> (\<exists>es. notify_run es s t)"

lemma reaches_refl [simp]: "reaches s s"
  using notify_run.empty unfolding reaches_def by blast

lemma reaches_step: "notify_step e s t \<Longrightarrow> reaches s t"
  using notify_run_one unfolding reaches_def by blast

lemma reaches_trans [trans]: "reaches s t \<Longrightarrow> reaches t u \<Longrightarrow> reaches s u"
  using notify_run_append unfolding reaches_def by blast

lemma at_phase_simps [simp]:
  "ns_db (at_phase s i db w) = db"
  "length (ns_workers (at_phase s i db w)) = length (ns_workers s)"
  "i < length (ns_workers s) \<Longrightarrow> ns_workers (at_phase s i db w) ! i = w"
  "at_phase (at_phase s i db w) i db2 w2 = at_phase s i db2 w2"
  by (simp_all add: at_phase_def)

text \<open>Each rule of the step relation, for worker \<open>i\<close>.\<close>

lemma phase_steps:
  assumes "i < length (ns_workers s)"
  shows "reclaim_update io now db = Inr (rows, db') \<Longrightarrow> reaches (at_phase s i db Waiting) (at_phase s i db' (Recording rows))"
    and "reclaim_record io now db row = Inr db' \<Longrightarrow> reaches (at_phase s i db (Recording (row # rest))) (at_phase s i db' (Recording rest))"
    and "job_context_headers to_str hv_ok job = Inl e \<Longrightarrow> reaches (at_phase s i db (Dispatching job)) (at_phase s i db (Bad_context job e))"
    and "dispatch_notification io to_str hv_ok tx pool now wh em send job db = (Inr rcpt, db', sent)
      \<Longrightarrow> reaches (at_phase s i db (Dispatching job)) (at_phase s i db' (Acked job))"
    and "dispatch_notification io to_str hv_ok tx pool now wh em send job db = (Inl e, db', sent)
      \<Longrightarrow> reaches (at_phase s i db (Dispatching job)) (at_phase s i db' (Undeliverable job e))"
    and "reaches (at_phase s i db (Acked job)) (at_phase s i (snd (mark_delivered io pool now job db)) Waiting)"
    and "reaches (at_phase s i db (Undeliverable job e)) (at_phase s i (snd (mark_failed_or_dead_letter io pool now job e db)) Waiting)"
    and "reaches (at_phase s i db (Bad_context job e)) (at_phase s i (snd (dead_letter_invalid_propagation io pool now job e db)) Waiting)"
    and "reaches (at_phase s i db w) (at_phase s i db Waiting)"
  using assms
    notify_step.exhaust [of i "at_phase s i db Waiting" io now rows db']
    notify_step.record_row [of i "at_phase s i db (Recording (row # rest))" row rest io now db']
    notify_step.bad_context [of i "at_phase s i db (Dispatching job)" job to_str hv_ok e]
    notify_step.dispatch_ok [of i "at_phase s i db (Dispatching job)" job io to_str hv_ok tx pool now wh em send rcpt db' sent]
    notify_step.dispatch_failed [of i "at_phase s i db (Dispatching job)" job io to_str hv_ok tx pool now wh em send e db' sent]
    notify_step.acknowledge [of i "at_phase s i db (Acked job)" job io pool now]
    notify_step.fail [of i "at_phase s i db (Undeliverable job e)" job e io pool now]
    notify_step.quarantine [of i "at_phase s i db (Bad_context job e)" job e io pool now]
    notify_step.crash [of i "at_phase s i db w"]
  by (simp_all add: at_phase_def reaches_step)

lemma process_job_reaches:
  assumes "i < length (ns_workers s)"
    and "process_job io to_str hv_ok tx pool1 pool2 now1 now2 wh em send job db = (db', sent)"
  shows "reaches (at_phase s i db (Dispatching job)) (at_phase s i db' Waiting)"
proof (cases "job_context_headers to_str hv_ok job")
  case (Inl e)
  with assms(2) have "db' = snd (dead_letter_invalid_propagation io pool1 now1 job e db)" by (simp add: process_job_def)
  with reaches_trans [OF phase_steps(3) [OF assms(1) Inl] phase_steps(8) [OF assms(1)]] show ?thesis by simp
next
  case (Inr h)
  obtain r db1 sent1 where d: "dispatch_notification io to_str hv_ok tx pool1 now1 wh em send job db = (r, db1, sent1)"
    by (metis prod_cases3)
  show ?thesis
  proof (cases r)
    case (Inl e)
    with assms(2) d Inr have "db' = snd (mark_failed_or_dead_letter io pool2 now2 job e db1)" by (simp add: process_job_def)
    with reaches_trans [OF phase_steps(5) [OF assms(1) d [unfolded Inl]] phase_steps(7) [OF assms(1)]] show ?thesis by simp
  next
    case (Inr rcpt)
    with assms(2) d \<open>job_context_headers to_str hv_ok job = Inr h\<close>
    have "db' = snd (mark_delivered io pool2 now2 job db1)" by (simp add: process_job_def)
    with reaches_trans [OF phase_steps(4) [OF assms(1) d [unfolded Inr]] phase_steps(6) [OF assms(1)]] show ?thesis by simp
  qed
qed

lemma reclaim_records_reaches:
  assumes "i < length (ns_workers s)"
  shows "reaches (at_phase s i db (Recording rows)) (at_phase s i (snd (reclaim_records io clock rows db)) Waiting)"
proof (induction rows arbitrary: db)
  case (Cons row rows)
  show ?case
  proof (cases "reclaim_record io (clock (fst row)) db row")
    case (Inr db1)
    with reaches_trans [OF phase_steps(2) [OF assms Inr] Cons.IH] show ?thesis by simp
  qed (simp add: phase_steps(9) [OF assms])
qed (simp add: phase_steps(9) [OF assms])

lemma reclaim_exhausted_reaches:
  assumes "i < length (ns_workers s)"
  shows "reaches (at_phase s i db Waiting) (at_phase s i (snd (reclaim_exhausted io pool now clock db)) Waiting)"
proof (cases "and_then (db_client pool) (\<lambda>_. reclaim_update io now db)")
  case (Inr p)
  then obtain rows db1 where u: "reclaim_update io now db = Inr (rows, db1)" and p: "p = (rows, db1)"
    by (cases p) auto
  from reaches_trans [OF phase_steps(1) [OF assms u] reclaim_records_reaches [OF assms]]
  show ?thesis by (simp add: reclaim_exhausted_def Inr p)
qed (simp add: reclaim_exhausted_def)

text \<open>A claim of the loop draws a token no other worker has.\<close>

lemma claim_reaches:
  assumes "i < length (ns_workers s)" "fresh_token ((ns_workers s)[i := Waiting]) token"
    and "claim_next io pool coll locked now token db = (Inr (Some job), db')"
  shows "reaches (at_phase s i db Waiting) (at_phase s i db' (Dispatching job))"
  using notify_step.claim_job [of i "at_phase s i db Waiting" token io pool coll locked now job db'] assms
  by (simp add: at_phase_def reaches_step)

lemma round_claim_reaches:
  assumes i: "i < length (ns_workers s)" and fresh: "fresh_token ((ns_workers s)[i := Waiting]) (wr_token r)"
    and ids: "distinct (map nd_id (deliveries (ws_db st)))"
    and step: "worker_round_claim to_str hv_ok tx coll wh em r st = (stop, st')"
  shows "reaches (at_phase s i (ws_db st) Waiting) (at_phase s i (ws_db st') Waiting)"
proof -
  obtain res db1 where c: "claim_next (wr_io r) (wr_claim_pool r) coll (wr_locked r) (wr_claim_now r) (wr_token r) (ws_db st) = (res, db1)"
    by fastforce
  show ?thesis
  proof (cases "\<exists>job. res = Inr (Some job)")
    case True
    then obtain job where res: "res = Inr (Some job)" ..
    obtain db2 sent where p: "process_job (wr_io r) to_str hv_ok tx (wr_pool1 r) (wr_pool2 r) (wr_now1 r) (wr_now2 r)
        wh em (wr_send r) job db1 = (db2, sent)" by fastforce
    have "ws_db st' = db2" using step c res p by (auto simp: worker_round_claim_def)
    with reaches_trans [OF claim_reaches [OF i fresh c [unfolded res]] process_job_reaches [OF i p]]
    show ?thesis by simp
  next
    case False
    then have "db1 = ws_db st" using claim_next_noop [OF c _ ids] by auto
    then have "ws_db st' = ws_db st"
      using step c False by (auto simp: worker_round_claim_def split: sum.splits option.splits)
    then show ?thesis by simp
  qed
qed

lemma round_reaches:
  assumes i: "i < length (ns_workers s)" and fresh: "fresh_token ((ns_workers s)[i := Waiting]) (wr_token r)"
    and wf: "wf_notify (ws_db st)"
    and step: "worker_round_step to_str hv_ok tx coll wh em r st = (stop, st')"
  shows "reaches (at_phase s i (ws_db st) Waiting) (at_phase s i (ws_db st') Waiting)"
proof (cases "wr_shutdown r")
  case False
  let ?op = "reclaim_exhausted (wr_io r) (wr_reclaim_pool r) (wr_reclaim_now r) (wr_record_now r)"
  obtain res db1 where c: "?op (ws_db st) = (res, db1)" by fastforce
  then have r1: "reaches (at_phase s i (ws_db st) Waiting) (at_phase s i db1 Waiting)"
    using reclaim_exhausted_reaches [OF i, of "ws_db st"] by (metis snd_conv)
  have "wf_notify (snd (?op (ws_db st)))" by (rule reclaim.keeps_wf [OF wf])
  with c have ids: "distinct (map nd_id (deliveries db1))" by (simp add: wf_notify_def)
  have "reaches (at_phase s i db1 Waiting) (at_phase s i (ws_db st') Waiting)"
    using step c False round_claim_reaches [OF i fresh]
    by (auto simp: worker_round_step_def Let_def ids split: sum.splits if_splits)
       (metis ids worker_state.select_convs(1) worker_state.surjective worker_state.update_convs)+
  with r1 show ?thesis by (rule reaches_trans)
qed (use step in \<open>simp add: worker_round_step_def\<close>)

lemma process_job_wf:
  assumes "wf_notify db" "job_matches db job"
    and "process_job io to_str hv_ok tx pool1 pool2 now1 now2 wh em send job db = (db', sent)"
  shows "wf_notify db'"
proof (cases "job_context_headers to_str hv_ok job")
  case (Inl e)
  then show ?thesis using assms(1,3) quarantine.keeps_wf by (auto simp: process_job_def)
next
  case (Inr h)
  obtain r db1 sent1 where d: "dispatch_notification io to_str hv_ok tx pool1 now1 wh em send job db = (r, db1, sent1)"
    by (metis prod_cases3)
  note snd' = dispatch_sound [OF d assms(2)]
  have wf1: "wf_notify db1" using snd'(1) assms(1) by (simp add: notify_sound_def)
  show ?thesis
  proof (cases r)
    case (Inl e)
    then show ?thesis using assms(3) d Inr wf1 mark_failed.keeps_wf by (auto simp: process_job_def)
  next
    case (Inr rcpt)
    then have "acknowledged db1 (dj_id job)" using snd'(2) by simp
    then show ?thesis
      using assms(3) d Inr wf1 mark_delivered_sound \<open>job_context_headers to_str hv_ok job = Inr h\<close>
      by (auto simp: process_job_def notify_sound_def)
  qed
qed

lemma round_claim_wf:
  assumes "wf_notify (ws_db st)" "worker_round_claim to_str hv_ok tx coll wh em r st = (stop, st')"
  shows "wf_notify (ws_db st')"
proof -
  obtain res db1 where c: "claim_next (wr_io r) (wr_claim_pool r) coll (wr_locked r) (wr_claim_now r) (wr_token r) (ws_db st) = (res, db1)"
    by fastforce
  have wf1: "wf_notify db1" using claim_next_sound [of "ws_db st"] assms(1) c by (metis notify_sound_def snd_conv)
  show ?thesis
  proof (cases "\<exists>job. res = Inr (Some job)")
    case True
    then obtain job where res: "res = Inr (Some job)" ..
    obtain db2 sent where p: "process_job (wr_io r) to_str hv_ok tx (wr_pool1 r) (wr_pool2 r) (wr_now1 r) (wr_now2 r)
        wh em (wr_send r) job db1 = (db2, sent)" by fastforce
    have "ws_db st' = db2" using assms(2) c res p by (auto simp: worker_round_claim_def)
    with process_job_wf [OF wf1 claimed_job_matches(1) [OF c [unfolded res] assms(1)] p] show ?thesis by simp
  next
    case False
    then have "ws_db st' = db1" using assms(2) c by (auto simp: worker_round_claim_def split: sum.splits option.splits)
    then show ?thesis using wf1 by simp
  qed
qed

lemma round_wf:
  assumes "wf_notify (ws_db st)" "worker_round_step to_str hv_ok tx coll wh em r st = (stop, st')"
  shows "wf_notify (ws_db st')"
proof (cases "wr_shutdown r")
  case False
  let ?op = "reclaim_exhausted (wr_io r) (wr_reclaim_pool r) (wr_reclaim_now r) (wr_record_now r)"
  obtain res db1 where c: "?op (ws_db st) = (res, db1)" by fastforce
  have "wf_notify (snd (?op (ws_db st)))" by (rule reclaim.keeps_wf [OF assms(1)])
  with c have wf1: "wf_notify db1" by simp
  show ?thesis
  proof (cases res)
    case (Inl e)
    then show ?thesis
      using assms(2) False c wf1 round_claim_wf [of "st\<lparr>ws_db := db1, ws_ready := False\<rparr>" to_str hv_ok tx coll wh em r]
      by (auto simp: worker_round_step_def Let_def split: if_splits)
  next
    case (Inr u)
    then show ?thesis
      using assms(2) False c wf1 round_claim_wf [of "st\<lparr>ws_db := db1, ws_ready := True\<rparr>" to_str hv_ok tx coll wh em r]
      by (simp add: worker_round_step_def)
  qed
qed (use assms in \<open>simp add: worker_round_step_def\<close>)

subsection \<open>Repeating a request\<close>

lemma record_delivery_Inr:
  assumes "record_delivery io to_str pool now uuid wh em rq key payload headers db = (Inr rec, db')"
  obtains tenant row where "nr_tenant_id rq = Some tenant" "row \<in> set (deliveries db')" "event_of row = (tenant, key)"
    "nd_id row = dr_id rec" "nd_order_id row = nr_order_id rq" "nd_channel row = nr_channel rq" "nd_status row = dr_status rec"
proof -
  from assms obtain tenant where t: "nr_tenant_id rq = Some tenant"
    by (auto simp: record_delivery_def split: sum.splits option.splits)
  from assms t obtain d row where ins: "insert_delivery now d db = Inr (row, db')" and d: "event_of d = (tenant, key)"
    and row: "nd_id row = dr_id rec" "nd_order_id row = nr_order_id rq" "nd_channel row = nr_channel rq" "nd_status row = dr_status rec"
    by (auto simp: record_delivery_def new_delivery_def event_of_def split: sum.splits pool_result.splits if_splits)
  from ins have "row \<in> set (deliveries db') \<and> event_of row = event_of d"
  proof (cases rule: insert_deliveryE)
    case again
    show ?thesis using filter_eq_singleD [OF again(3)] .
  qed simp
  with d t row that show ?thesis by auto
qed

text \<open>An event that is already recorded is found again, whatever else the request says.\<close>

lemma insert_again:
  assumes "wf_notify db" "x \<in> set (deliveries db)" "event_of x = event_of d" "delivery_check d"
  shows "insert_delivery now d db = Inr (x\<lparr>nd_updated_at := now\<rparr>,
    db\<lparr>deliveries := update_where (\<lambda>y. event_of y = event_of d) (\<lambda>y. y\<lparr>nd_updated_at := now\<rparr>) (deliveries db)\<rparr>)"
proof -
  let ?p = "\<lambda>y. event_of y = event_of d" and ?f = "\<lambda>y. y\<lparr>nd_updated_at := now\<rparr>"
  have "filter ?p (deliveries db) = [x]"
    using assms(1-3) by (intro filter_unique [where key = event_of]) (auto simp: wf_notify_def)
  then have one: "filter ?p (update_where ?p ?f (deliveries db)) = [x\<lparr>nd_updated_at := now\<rparr>]"
    by (subst filter_update_where_self) (simp_all add: event_of_def)
  have known: "event_of d \<in> set (map event_of (deliveries db))"
    unfolding assms(3) [symmetric] set_map using assms(2) by (rule imageI)
  have "list_all (\<lambda>y. ?p y \<longrightarrow> delivery_check (?f y)) (deliveries db)"
    using assms(1) by (simp add: wf_notify_def list_all_iff delivery_check_def)
  with known assms(4) have "sql_upsert event_of delivery_check d ?f (deliveries db) = Inr (update_where ?p ?f (deliveries db))"
    by (simp add: sql_upsert_def sql_update_def del: set_map)
  with known one show ?thesis by (simp add: insert_delivery_def query_one_def del: set_map)
qed

subsection \<open>The queue when the database is available\<close>

abbreviation all_well :: notify_io where "all_well \<equiv> (\<lambda>_. False)"

lemma statement_well [simp]: "statement all_well s ctx r = map_err (\<lambda>_. ctx) r"
  by (simp add: statement_def)

lemma claimed_check:
  "delivery_check d \<Longrightarrow> nd_attempts d < NOTIFY_MAX_ATTEMPTS \<Longrightarrow> delivery_check (claimed_delivery now token d)"
  by (auto simp: delivery_check_def claimed_delivery_def NOTIFY_MAX_ATTEMPTS_def int_range_defs)

lemma claim_next_finds:
  assumes wf: "wf_notify db" and c: "next_delivery coll locked now db = Some c"
  shows "\<exists>db'. claim_next all_well Pool_ok coll locked now token db
    = (Inr (Some (job_of_delivery token (claimed_delivery now token c))), db')"
proof -
  note row = next_deliveryD [OF c]
  have ids: "distinct (map nd_id (deliveries db))" using wf by (simp add: wf_notify_def)
  let ?p = "\<lambda>d. nd_id d = nd_id c" and ?f = "claimed_delivery now token"
  let ?db1 = "db\<lparr>deliveries := update_where ?p ?f (deliveries db)\<rparr>"
  have one: "filter ?p (deliveries db) = [c]"
    using ids row(1) by (intro filter_unique [where key = nd_id]) auto
  have "delivery_check (?f d)" if "d \<in> set (deliveries db)" "?p d" for d
  proof -
    have "d = c" using distinct_map_inj_on [OF ids that(1) row(1) that(2)] .
    then show ?thesis using row wf claimed_check by (auto simp: wf_notify_def list_all_iff delivery_claimable_def)
  qed
  then have u: "update_deliveries ?p ?f db = Inr (count_where ?p (deliveries db), ?db1)"
    by (simp add: update_deliveries_def sql_update_def list_all_iff)
  have q: "filter ?p (update_where ?p ?f (deliveries db)) = [?f c]"
    using one by (subst filter_update_where_self) (simp_all add: claimed_delivery_def)
  have known: "delivery_known ?db1 (nd_tenant c) (nd_id c)"
  proof -
    have "?f c \<in> set (deliveries ?db1)" using filter_eq_singleD [OF q] by simp
    then show ?thesis unfolding delivery_known_def list_ex_iff by (rule bexI [rotated]) (simp add: claimed_delivery_def)
  qed
  let ?a = "started_attempt now (job_of_delivery token (?f c))"
  let ?g = "\<lambda>a. a\<lparr>na_outcome := ''processing'', na_error := None, na_started_at := now, na_completed_at := None\<rparr>"
  have pos: "0 \<le> nd_attempts c" using wf row(1) by (auto simp: wf_notify_def list_all_iff delivery_check_def)
  have fields: "na_tenant ?a = nd_tenant c" "na_delivery ?a = nd_id c" "delivery_attempt_check ?a"
    using pos by (simp_all add: started_attempt_def job_of_delivery_def claimed_delivery_def delivery_attempt_check_def)
  have "list_all (\<lambda>a. delivery_attempt_check (?g a)) (delivery_attempts db)"
    using wf by (simp add: wf_notify_def list_all_iff delivery_attempt_check_def)
  then obtain rows where "sql_upsert attempt_no delivery_attempt_check ?a ?g (delivery_attempts db) = Inr rows"
    using sql_upsert_ok [of delivery_attempt_check ?a ?g, OF fields(3)] by blast
  then have "upsert_delivery_attempt ?a ?g ?db1 = Inr (?db1\<lparr>delivery_attempts := rows\<rparr>)"
    using known fields by (simp add: upsert_delivery_attempt_def)
  then show ?thesis
    unfolding claim_next_def transact_def by (simp add: db_client_def c u q Let_def)
qed

lemma next_delivery_exists:
  "d \<in> set (deliveries db) \<Longrightarrow> delivery_claimable now d \<Longrightarrow> \<not> locked d
     \<Longrightarrow> \<exists>c. next_delivery coll locked now db = Some c"
  by (cases "next_delivery coll locked now db") (auto simp: next_delivery_def limit1_None filter_empty_conv)

lemma exhausted_check:
  "delivery_check d \<Longrightarrow> delivery_check (exhausted_delivery now d)"
  by (auto simp: delivery_check_def exhausted_delivery_def)

lemma reclaim_update_well:
  assumes "wf_notify db"
  shows "reclaim_update all_well now db =
    Inr (map (\<lambda>d. (nd_id d, nd_tenant d, nd_attempts d)) (filter (delivery_exhausted now) (deliveries db)),
      db\<lparr>deliveries := update_where (delivery_exhausted now) (exhausted_delivery now) (deliveries db)\<rparr>)"
  using assms exhausted_check by (simp add: reclaim_update_def update_deliveries_def sql_update_def wf_notify_def list_all_iff)

lemma run_rounds_reaches:
  assumes "run_delivery_worker to_str hv_ok tx coll wh em rs st = Some st'"
    and "i < length (ns_workers s)" "wf_notify (ws_db st)"
    and "list_all (\<lambda>r. fresh_token ((ns_workers s)[i := Waiting]) (wr_token r)) rs"
  shows "reaches (at_phase s i (ws_db st) Waiting) (at_phase s i (ws_db st') Waiting)"
  using assms(1,3,4)
proof (induction rs arbitrary: st)
  case (Cons r rs)
  obtain stop st1 where step: "worker_round_step to_str hv_ok tx coll wh em r st = (stop, st1)" by fastforce
  have r1: "reaches (at_phase s i (ws_db st) Waiting) (at_phase s i (ws_db st1) Waiting)"
    using round_reaches [OF assms(2) _ Cons.prems(2) step] Cons.prems(3) by simp
  show ?case
  proof (cases stop)
    case True
    then show ?thesis using Cons.prems(1) step r1 by auto
  next
    case False
    moreover have "wf_notify (ws_db st1)" by (rule round_wf [OF Cons.prems(2) step])
    ultimately show ?thesis using reaches_trans [OF r1 Cons.IH] Cons.prems step by simp
  qed
qed simp

end
