(* ===== verification/NotificationProperties.thy ===== *)
theory NotificationProperties
  imports NotificationFacts
begin

text \<open>
  The properties of the notification service, with a sample run of one request and one worker.
\<close>

subsection \<open>A sample\<close>

definition note_headers :: header_map where
  "note_headers h =
     (if h = ''traceparent'' then [''00-0af7651916cd43dd8448eb211c80319c-b7ad6b7169203331-01'']
      else if h = ''tracestate'' then [''playground=commerce'']
      else if h = ''baggage'' then [''tenant.id=acme'']
      else [])"

definition note_request :: notification_request where
  "note_request = \<lparr>nr_tenant_id = Some ''acme'', nr_event_key = ''paid-1'', nr_order_id = ''o1'',
     nr_channel = ''in_app'', nr_payload = JObj []\<rparr>"

definition note_empty :: notification_db where
  "note_empty = \<lparr>deliveries = [], delivery_attempts = [], channel_messages = [], nt_tenants = [''acme''],
     nt_orders = [(''acme'', ''o1'')]\<rparr>"

definition note_row :: delivery_row where
  "note_row = \<lparr>nd_id = ''notification-u1'', nd_tenant = ''acme'', nd_event_key = ''paid-1'', nd_order_id = ''o1'',
     nd_channel = ''in_app'', nd_status = ''queued'', nd_payload = JObj [], nd_attempts = 0, nd_next_attempt_at = 100,
     nd_lease_until = None, nd_lease_token = None, nd_last_error = None, nd_delivered_at = None,
     nd_acknowledged_at = None, nd_dead_lettered_at = None, nd_created_at = 100, nd_updated_at = 100,
     nd_traceparent = Some ''00-0af7651916cd43dd8448eb211c80319c-b7ad6b7169203331-01'',
     nd_tracestate = Some ''playground=commerce'', nd_baggage = Some ''tenant.id=acme''\<rparr>"

definition note_queued :: notification_db where
  "note_queued = note_empty\<lparr>deliveries := [note_row]\<rparr>"

definition note_job :: delivery_job where
  "note_job = job_of_delivery ''lease-1'' (claimed_delivery 200 ''lease-1'' note_row)"

definition note_claimed :: notification_db where
  "note_claimed = note_queued\<lparr>deliveries := [claimed_delivery 200 ''lease-1'' note_row],
     delivery_attempts := [started_attempt 200 note_job]\<rparr>"

definition note_acked :: notification_db where
  "note_acked = note_claimed\<lparr>channel_messages := [message_row 300 ''in-app'' note_job]\<rparr>"

definition note_done :: notification_db where
  "note_done = snd (mark_delivered all_well Pool_ok 400 note_job note_acked)"

lemma note_request_step:
  "snd (notify_inner (\<lambda>_. []) all_well Some Pool_ok 100 ''u1'' None None note_request note_headers note_empty) = note_queued"
  by code_simp

lemma note_claim_step:
  "claim_next all_well Pool_ok (\<le>) (\<lambda>_. False) 200 ''lease-1'' note_queued = (Inr (Some note_job), note_claimed)"
  by code_simp

lemma note_dispatch_step:
  "dispatch_notification all_well Some (\<lambda>_. True) (\<lambda>_. []) Pool_ok 300 None None (\<lambda>_. No_reply) note_job note_claimed
     = (Inr \<lparr>rcpt_channel = ''in_app'', rcpt_provider = ''in_app_durable_sink'', rcpt_reference = ''in-app''\<rparr>, note_acked, [])"
  by code_simp

definition note_sys :: "notification_db \<Rightarrow> phase \<Rightarrow> notify_sys" where
  "note_sys db w = \<lparr>ns_db = db, ns_workers = [w]\<rparr>"

lemma note_fresh: "note_sys note_empty Waiting = fresh_sys [''acme''] [(''acme'', ''o1'')] 1"
  by code_simp

lemma note_run_head: "notify_step Request (note_sys note_empty Waiting) (note_sys note_queued Waiting)"
  using notify_step.request [of "\<lambda>_. []" all_well Some Pool_ok 100 "''u1''" None None note_request note_headers
      "note_sys note_empty Waiting" note_queued] note_request_step by (simp add: note_sys_def)

lemma note_run_tail:
  "notify_run [Claim ''notification-u1'', Work, Work] (note_sys note_queued Waiting) (note_sys note_done Waiting)"
proof -
  have "dj_id note_job = ''notification-u1''" by code_simp
  then have "notify_step (Claim ''notification-u1'') (note_sys note_queued Waiting) (note_sys note_claimed (Dispatching note_job))"
    using notify_step.claim_job [of 0 "note_sys note_queued Waiting" "''lease-1''" all_well Pool_ok "(\<le>)" "\<lambda>_. False" 200
        note_job note_claimed] note_claim_step by (simp add: note_sys_def fresh_token_def)
  moreover have "notify_step Work (note_sys note_claimed (Dispatching note_job)) (note_sys note_acked (Acked note_job))"
    using notify_step.dispatch_ok [of 0 "note_sys note_claimed (Dispatching note_job)" note_job all_well Some "\<lambda>_. True"
        "\<lambda>_. []" Pool_ok 300 None None "\<lambda>_. No_reply" _ note_acked "[]"] note_dispatch_step by (simp add: note_sys_def)
  moreover have "notify_step Work (note_sys note_acked (Acked note_job)) (note_sys note_done Waiting)"
    using notify_step.acknowledge [of 0 "note_sys note_acked (Acked note_job)" note_job all_well Pool_ok 400 note_done]
    by (simp add: note_sys_def note_done_def)
  ultimately show ?thesis by (blast intro: notify_run.intros)
qed

lemma note_run:
  "notify_run [Request, Claim ''notification-u1'', Work, Work] (note_sys note_empty Waiting) (note_sys note_done Waiting)"
  by (rule notify_run.step [OF note_run_head note_run_tail])

lemma note_sys_ok: "sys_ok (note_sys note_empty Waiting)"
  by (simp add: note_fresh)

subsection \<open>Properties\<close>

text \<open>
  C30. The ledger is always well formed: in every interleaving of requests and workers, crashes included, that
  starts from an empty ledger, the schema's constraints hold, no delivery is attempted more than four times, every
  attempt made is in the audit trail exactly once, and each trail entry and channel message belongs to a delivery.
\<close>

theorem notification_ledger_wf:
  assumes "notify_run es (fresh_sys tenants' orders' n) t"
  shows "list_all delivery_check (deliveries (ns_db t)) \<and> distinct (map nd_id (deliveries (ns_db t)))
    \<and> distinct (map event_of (deliveries (ns_db t)))
    \<and> distinct (map attempt_no (delivery_attempts (ns_db t)))
    \<and> (\<forall>d \<in> set (deliveries (ns_db t)). 0 \<le> nd_attempts d \<and> nd_attempts d \<le> NOTIFY_MAX_ATTEMPTS
        \<and> (\<forall>k. (nd_id d, k) \<in> set (map attempt_no (delivery_attempts (ns_db t))) \<longleftrightarrow> 1 \<le> k \<and> k \<le> nd_attempts d))
    \<and> list_all (message_of (ns_db t)) (channel_messages (ns_db t))"
proof -
  have wf: "wf_notify (ns_db t)" by (rule fresh_run_wf [OF assms])
  have "1 \<le> k \<and> k \<le> nd_attempts d" if "d \<in> set (deliveries (ns_db t))" "(nd_id d, k) \<in> set (map attempt_no (delivery_attempts (ns_db t)))"
    for d k using trail_bounds [OF wf that] .
  moreover have "(nd_id d, k) \<in> set (map attempt_no (delivery_attempts (ns_db t)))"
    if "d \<in> set (deliveries (ns_db t))" "1 \<le> k" "k \<le> nd_attempts d" for d k
    using wf that by (auto simp: wf_notify_def list_all_iff trail_complete_def)
  ultimately show ?thesis
    using wf unfolding wf_notify_def list_all_iff by (simp add: delivery_check_def) blast
qed

theorem notification_ledger_wf_witness:
  "list_all delivery_check (deliveries note_done) \<and> list_all (message_of note_done) (channel_messages note_done)"
  using notification_ledger_wf [OF note_run [unfolded note_fresh]] by (simp add: note_sys_def)

text \<open>
  C17. Delivered means acknowledged: a delivery is marked delivered only after its channel acknowledged it, and
  the acknowledgement row names the same tenant, order, channel and payload.
\<close>

theorem delivered_means_acknowledged:
  assumes "notify_run es (fresh_sys tenants' orders' n) t"
    and "d \<in> set (deliveries (ns_db t))" "nd_status d = ''delivered''"
  shows "\<exists>m \<in> set (channel_messages (ns_db t)). nm_delivery m = nd_id d \<and> nm_tenant m = nd_tenant d
    \<and> nm_order_id m = nd_order_id d \<and> nm_channel m = nd_channel d \<and> nm_payload m = nd_payload d"
proof -
  have wf: "wf_notify (ns_db t)" by (rule fresh_run_wf [OF assms(1)])
  then have "acknowledged (ns_db t) (nd_id d)" using assms(2,3) by (simp add: wf_notify_def list_all_iff)
  then obtain m where m: "m \<in> set (channel_messages (ns_db t))" "nm_delivery m = nd_id d"
    by (auto simp: acknowledged_def)
  with wf obtain d' where "d' \<in> set (deliveries (ns_db t))" "nd_id d' = nd_id d" "nd_tenant d' = nm_tenant m"
      "nd_order_id d' = nm_order_id m" "nd_channel d' = nm_channel m" "nd_payload d' = nm_payload m"
    by (auto simp: wf_notify_def list_all_iff message_of_def list_ex_iff)
  moreover from this assms(2) wf have "d' = d"
    by (auto simp: wf_notify_def intro: distinct_map_inj_on)
  ultimately show ?thesis using m by auto
qed

theorem delivered_means_acknowledged_witness:
  "\<exists>m \<in> set (channel_messages note_done). nm_delivery m = ''notification-u1'' \<and> nm_order_id m = ''o1''"
proof -
  have d: "deliveries note_done = [delivered_row 400 (claimed_delivery 200 ''lease-1'' note_row)]" by code_simp
  show ?thesis
    using delivered_means_acknowledged [OF note_run [unfolded note_fresh], of "delivered_row 400 (claimed_delivery 200 ''lease-1'' note_row)"]
    by (auto simp: note_sys_def d delivered_row_def claimed_delivery_def note_row_def)
qed

text \<open>
  C18. At most four dispatches: in every run from an empty ledger a delivery is claimed at most
  \<open>NOTIFY_MAX_ATTEMPTS\<close> times, however many workers there are and however often they crash, so that the work a
  request causes always ends.
\<close>

theorem dispatches_bounded:
  assumes "notify_run es (fresh_sys tenants' orders' n) t"
  shows "claims_of id' es \<le> 4"
proof -
  have "attempts_of (ns_db t) id' \<le> 4"
    using attempts_of_bounds(2) [OF fresh_run_wf [OF assms], of id'] by (simp add: NOTIFY_MAX_ATTEMPTS_def)
  moreover have "attempts_of (ns_db (fresh_sys tenants' orders' n)) id' = 0" by (simp add: fresh_sys_def attempts_of_def)
  ultimately show ?thesis using claims_accounted [OF assms fresh_sys_ok, of id'] by linarith
qed

theorem dispatches_bounded_witness: "claims_of ''notification-u1'' [Request, Claim ''notification-u1'', Work, Work] \<le> 4"
  using dispatches_bounded [OF note_run [unfolded note_fresh]] .



















text \<open>
  The worker loop implements the step relation: whatever the environment shows it, round after round, the
  loop moves the database as some run of worker \<open>i\<close> does, ends back in the waiting phase and clears the readiness
  flag; the tokens it draws are those no other worker has.
\<close>

theorem worker_loop_refines_steps:
  assumes "run_delivery_worker to_str hv_ok tx coll wh em rounds st = Some st'"
    and "i < length (ns_workers s)" "ns_workers s ! i = Waiting" "ns_db s = ws_db st" "wf_notify (ws_db st)"
    and "list_all (\<lambda>r. fresh_token (ns_workers s) (wr_token r)) rounds"
  shows "(\<exists>es. notify_run es s (s\<lparr>ns_db := ws_db st'\<rparr>)) \<and> \<not> ws_ready st'"
proof
  have same: "(ns_workers s)[i := Waiting] = ns_workers s" using assms(3) by (metis list_update_id)
  have "at_phase s i (ws_db st) Waiting = s" "at_phase s i (ws_db st') Waiting = s\<lparr>ns_db := ws_db st'\<rparr>"
    using assms(4) by (simp_all add: at_phase_def same)
  then show "\<exists>es. notify_run es s (s\<lparr>ns_db := ws_db st'\<rparr>)"
    using run_rounds_reaches [OF assms(1,2,5)] assms(6) by (simp add: same reaches_def)
  show "\<not> ws_ready st'"
    using assms(1) by (induction rounds arbitrary: st) (auto split: prod.splits bool.splits)
qed

definition note_round :: "bool \<Rightarrow> worker_round" where
  "note_round stop = \<lparr>wr_io = all_well, wr_shutdown = stop, wr_reclaim_pool = Pool_ok, wr_reclaim_now = 200,
     wr_record_now = (\<lambda>_. 200), wr_reclaim_wait = (False, Slept), wr_claim_pool = Pool_ok, wr_claim_now = 200,
     wr_token = ''lease-1'', wr_locked = (\<lambda>_. False), wr_claim_wait = (False, Slept), wr_pool1 = Pool_ok, wr_pool2 = Pool_ok,
     wr_now1 = 300, wr_now2 = 400, wr_send = (\<lambda>_. No_reply)\<rparr>"

definition note_worker :: "notification_db \<Rightarrow> bool \<Rightarrow> worker_state" where
  "note_worker db ready = \<lparr>ws_db = db, ws_ready = ready, ws_sent = []\<rparr>"

lemma note_queued_wf: "wf_notify note_queued"
  using notify_step_ok [OF note_run_head note_sys_ok] by (simp add: sys_ok_def note_sys_def)

theorem worker_loop_refines_steps_witness:
  "\<exists>es. notify_run es (note_sys note_queued Waiting) (note_sys note_done Waiting)"
proof -
  have "run_delivery_worker Some (\<lambda>_. True) (\<lambda>_. []) (\<le>) None None [note_round False, note_round True]
      (note_worker note_queued False) = Some (note_worker note_done False)" by code_simp
  from worker_loop_refines_steps [OF this, of 0 "note_sys note_queued Waiting"] note_queued_wf show ?thesis
    by (simp add: note_sys_def note_worker_def note_round_def fresh_token_def)
qed

text \<open>
  The worker stops: as soon as one round sees the shutdown flag, the loop has ended, with the readiness flag
  cleared.
\<close>

theorem worker_stops_on_shutdown:
  assumes "list_ex wr_shutdown rounds"
  shows "\<exists>st'. run_delivery_worker to_str hv_ok tx coll wh em rounds st = Some st' \<and> \<not> ws_ready st'"
  using assms
proof (induction rounds arbitrary: st)
  case (Cons r rounds)
  obtain stop st1 where step: "worker_round_step to_str hv_ok tx coll wh em r st = (stop, st1)" by fastforce
  show ?case
  proof (cases stop)
    case False
    with step have "\<not> wr_shutdown r" by (auto simp: worker_round_step_def)
    with Cons step False show ?thesis by simp
  qed (use step in simp)
qed simp

theorem worker_stops_on_shutdown_witness:
  "\<exists>st'. run_delivery_worker Some (\<lambda>_. True) (\<lambda>_. []) (\<le>) None None [note_round False, note_round True]
      (note_worker note_queued False) = Some st' \<and> \<not> ws_ready st'"
  using worker_stops_on_shutdown [of "[note_round False, note_round True]"] by (simp add: note_round_def)

text \<open>
  The queue makes progress: with the database available, a due delivery that no transaction holds makes
  the next claim succeed, and the cleanup leaves no delivery whose attempts are used up and whose lease ended:
  each of them is dead-lettered with an error text.
\<close>

theorem notification_queue_progress:
  assumes "wf_notify db" "d \<in> set (deliveries db)"
  shows "(delivery_claimable now d \<and> \<not> locked d
      \<longrightarrow> (\<exists>job db'. claim_next all_well Pool_ok coll locked now token db = (Inr (Some job), db') \<and> dj_lease_token job = token))
    \<and> (delivery_exhausted now d
      \<longrightarrow> (\<exists>d' \<in> set (deliveries (snd (reclaim_exhausted all_well Pool_ok now clock db))).
           nd_ident d' = nd_ident d \<and> nd_status d' = ''dead_lettered'' \<and> nd_last_error d' \<noteq> None))"
proof (intro conjI impI)
  assume "delivery_claimable now d \<and> \<not> locked d"
  then obtain c where "next_delivery coll locked now db = Some c" using next_delivery_exists [OF assms(2)] by blast
  from claim_next_finds [OF assms(1) this, of token] show
    "\<exists>job db'. claim_next all_well Pool_ok coll locked now token db = (Inr (Some job), db') \<and> dj_lease_token job = token"
    by (auto simp: job_of_delivery_def)
next
  assume ex: "delivery_exhausted now d"
  let ?db1 = "db\<lparr>deliveries := update_where (delivery_exhausted now) (exhausted_delivery now) (deliveries db)\<rparr>"
  note up = reclaim_update_well [OF assms(1), of now]
  have wf1: "wf_notify ?db1" using reclaim_update_sound(1) [OF up] assms(1) by (simp add: notify_sound_def)
  let ?d = "exhausted_delivery now d"
  have "?d \<in> set (deliveries ?db1)" using assms(2) ex by (auto simp: set_update_where)
  moreover have "settled ?d" "nd_ident ?d = nd_ident d" "nd_last_error ?d \<noteq> None" by (simp_all add: delivery_row_defs)
  moreover have "nprogress ?db1 (snd (reclaim_records all_well clock rows ?db1))" if "list_all (known_attempt ?db1) rows" for rows
    using reclaim_records_sound [OF wf1 that] by simp
  ultimately obtain d' where "d' \<in> set (deliveries (snd (reclaim_exhausted all_well Pool_ok now clock db)))"
      "row_step ?d d'"
    using reclaim_rows_known [OF up assms(1)] unfolding reclaim_exhausted_def nprogress_def
    by (simp add: db_client_def up) blast
  moreover from this have "untouched d' = untouched ?d" using \<open>settled ?d\<close> by (simp add: row_step_def)
  moreover from untouched_eqD [OF this] have "nd_status d' = ''dead_lettered''" by (simp add: exhausted_delivery_def)
  moreover from \<open>untouched d' = untouched ?d\<close> have "nd_last_error d' = nd_last_error ?d"
    by (metis untouched_def delivery_row.select_convs(12) delivery_row.update_convs(17) delivery_row.surjective)
  ultimately show "\<exists>d' \<in> set (deliveries (snd (reclaim_exhausted all_well Pool_ok now clock db))).
           nd_ident d' = nd_ident d \<and> nd_status d' = ''dead_lettered'' \<and> nd_last_error d' \<noteq> None"
    using \<open>nd_last_error ?d \<noteq> None\<close> \<open>nd_ident ?d = nd_ident d\<close> by (intro bexI [of _ d']) (simp_all add: row_step_def)
qed

theorem notification_queue_progress_witness:
  "\<exists>job db'. claim_next all_well Pool_ok (\<le>) (\<lambda>_. False) 200 ''lease-1'' note_queued = (Inr (Some job), db')
     \<and> dj_lease_token job = ''lease-1''"
proof -
  have "note_row \<in> set (deliveries note_queued)" by (simp add: note_queued_def)
  moreover have "delivery_claimable 200 note_row" by code_simp
  ultimately show ?thesis using notification_queue_progress [OF note_queued_wf, of note_row 200 "\<lambda>_. False"] by blast
qed

text \<open>
  A repeated notification is the same delivery: when a request was accepted, then after any further run of
  the service the same event of the same order and channel, sent again with a valid context, is accepted with the
  same delivery id, and no delivery is added.
\<close>

theorem repeated_notification_is_same_delivery:
  assumes "sys_ok s"
    and "record_delivery io to_str pool now uuid wh em rq key payload headers (ns_db s) = (Inr rec, db1)"
    and "notify_run es (s\<lparr>ns_db := db1\<rparr>) t"
    and "validate_durable_context to_str2 headers2 = Inr ()" "json_is_object payload2" "nr_channel rq \<in> set CHANNELS"
  shows "\<exists>rec2 db2. record_delivery all_well to_str2 Pool_ok now2 uuid2 wh em rq key payload2 headers2 (ns_db t) = (Inr rec2, db2)
    \<and> dr_id rec2 = dr_id rec \<and> map nd_id (deliveries db2) = map nd_id (deliveries (ns_db t))"
proof -
  from assms(2) obtain tenant row where row: "nr_tenant_id rq = Some tenant" "row \<in> set (deliveries db1)"
    "event_of row = (tenant, key)" "nd_id row = dr_id rec" "nd_order_id row = nr_order_id rq" "nd_channel row = nr_channel rq"
    by (rule record_delivery_Inr) blast
  have "notify_sound (ns_db s) db1" by (rule record_delivery_sound [OF assms(2)])
  then have "sys_ok (s\<lparr>ns_db := db1\<rparr>)"
    using assms(1) phase_ok_mono by (auto simp: sys_ok_def notify_sound_def list_all_iff)
  from notify_run_ok [OF assms(3) this] have wf: "wf_notify (ns_db t)" and pr: "nprogress db1 (ns_db t)"
    by (simp_all add: sys_ok_def)
  from pr row(2) obtain x where x: "x \<in> set (deliveries (ns_db t))" "nd_ident x = nd_ident row"
    unfolding nprogress_def row_step_def by blast
  let ?d = "new_delivery now2 uuid2 tenant key rq payload2 to_str2 headers2"
  have "delivery_check ?d" using assms(5,6) by (simp add: new_delivery_def delivery_check_def int_range_defs)
  moreover have "event_of x = event_of ?d" using row(3) x(2) by (simp add: new_delivery_def event_of_def nd_ident_def)
  ultimately have ins: "insert_delivery now2 ?d (ns_db t) = Inr (x\<lparr>nd_updated_at := now2\<rparr>,
      (ns_db t)\<lparr>deliveries := update_where (\<lambda>y. event_of y = event_of ?d) (\<lambda>y. y\<lparr>nd_updated_at := now2\<rparr>) (deliveries (ns_db t))\<rparr>)"
    using insert_again [OF wf x(1)] by blast
  have ids: "map nd_id (update_where p (\<lambda>y. y\<lparr>nd_updated_at := now2\<rparr>) rows) = map nd_id rows" for p rows
    by (rule map_key_update_where) simp
  have "nd_id x = dr_id rec" "nd_order_id x = nr_order_id rq" "nd_channel x = nr_channel rq"
    using row x(2) by (simp_all add: nd_ident_def)
  then show ?thesis
    using assms(4) row(1) by (simp add: record_delivery_def ins ids)
qed

theorem repeated_notification_is_same_delivery_witness:
  "\<exists>rec2 db2. record_delivery all_well Some Pool_ok 500 ''u2'' None None note_request ''paid-1'' (JObj []) note_headers note_done = (Inr rec2, db2)
    \<and> dr_id rec2 = ''notification-u1'' \<and> map nd_id (deliveries db2) = map nd_id (deliveries note_done)"
proof -
  have first: "record_delivery all_well Some Pool_ok 100 ''u1'' None None note_request ''paid-1'' (JObj []) note_headers note_empty
      = (Inr \<lparr>dr_id = ''notification-u1'', dr_attempts = 0, dr_status = ''queued'', dr_channel = ''in_app'',
           dr_provider = ''in_app_durable_sink''\<rparr>, note_queued)" by code_simp
  have run: "notify_run [Claim ''notification-u1'', Work, Work] (note_sys note_queued Waiting) (note_sys note_done Waiting)"
    by (rule note_run_tail)
  have ok: "validate_durable_context Some note_headers = Inr ()" by code_simp
  show ?thesis
    using repeated_notification_is_same_delivery [OF note_sys_ok, of all_well Some Pool_ok 100 "''u1''" None None note_request
        "''paid-1''" "JObj []" note_headers _ note_queued "[Claim ''notification-u1'', Work, Work]" "note_sys note_done Waiting"
        Some note_headers "JObj []" 500 "''u2''"] first run ok
    by (simp add: note_sys_def note_request_def CHANNELS_def json_is_object_def)
qed

end
