(* ===== verification/OrdersCarrier.thy ===== *)
theory OrdersCarrier
  imports PropagationFacts CommerceDb
begin

text \<open>
  The AMQP headers of an order event (\<open>services/orders/src/messaging.rs\<close>): reading them, the attempt
  counter, the orphan marker and the W3C validators of the consumer. A \<open>FieldTable\<close> is a partial map; the
  AMQP types the code does not look at are \<open>OtherValue\<close>. The equivalence of these validators with those of
  the telemetry library is at the end.
\<close>

definition ORDERS_MAX_ATTEMPTS :: int where "ORDERS_MAX_ATTEMPTS = 3"
definition ORDERS_MAX_BAGGAGE_HEADER_BYTES :: nat where "ORDERS_MAX_BAGGAGE_HEADER_BYTES = 2048"
definition ORDERS_MAX_BAGGAGE_MEMBERS :: nat where "ORDERS_MAX_BAGGAGE_MEMBERS = 32"
definition MAX_ENCODED_BAGGAGE_VALUE_BYTES :: nat where "MAX_ENCODED_BAGGAGE_VALUE_BYTES = 384"
definition ORDERS_MAX_TRACESTATE_HEADER_BYTES :: nat where "ORDERS_MAX_TRACESTATE_HEADER_BYTES = 512"
definition ORDERS_MAX_TRACESTATE_MEMBERS :: nat where "ORDERS_MAX_TRACESTATE_MEMBERS = 32"
definition ORDERS_MAX_TRACESTATE_MEMBER_BYTES :: nat where "ORDERS_MAX_TRACESTATE_MEMBER_BYTES = 256"
definition ORDERS_DEFAULT_TRACESTATE :: string where "ORDERS_DEFAULT_TRACESTATE = ''playground=commerce''"

datatype amqp_value = LongString string | ShortString string | LongUInt u32 | LongLongInt int | OtherValue

type_synonym field_table = "string \<rightharpoonup> amqp_value"

definition amqp_header_value :: "field_table \<Rightarrow> string \<Rightarrow> string option" where
  "amqp_header_value headers key =
     (case headers key of
        Some (LongString v) \<Rightarrow> if valid_utf8 v then Some v else None
      | Some (ShortString v) \<Rightarrow> Some v
      | _ \<Rightarrow> None)"

definition required_amqp_header :: "field_table \<Rightarrow> string \<Rightarrow> string + string" where
  "required_amqp_header headers key =
     ok_or (''RabbitMQ '' @ key @ '' header is required'')
       (case amqp_header_value headers key of
          None \<Rightarrow> None
        | Some v \<Rightarrow> if trim v = [] then None else Some (trim v))"

subsection \<open>Attempts and the orphan marker\<close>

definition header_attempt :: "field_table \<Rightarrow> string + u32 option" where
  "header_attempt headers =
     (case headers ''x-order-attempt'' of
        None \<Rightarrow> Inr None
      | Some (LongUInt v) \<Rightarrow>
          if v > 0 then Inr (Some v) else Inl ''x-order-attempt has an invalid AMQP type or value''
      | Some (LongLongInt v) \<Rightarrow>
          (case checked_u32 v of
             Some n \<Rightarrow> if n > 0 then Inr (Some (of_int n))
                       else Inl ''x-order-attempt is outside the positive u32 range''
           | None \<Rightarrow> Inl ''x-order-attempt is outside the positive u32 range'')
      | Some _ \<Rightarrow> Inl ''x-order-attempt has an invalid AMQP type or value'')"

text \<open>\<open>i32::try_from\<close> of a \<open>u32\<close>.\<close>

definition u32_to_i32 :: "string \<Rightarrow> u32 \<Rightarrow> string + int" where
  "u32_to_i32 e n = (if uint n \<le> i32_max then Inr (uint n) else Inl e)"

definition canonical_attempt :: "u32 \<Rightarrow> field_table \<Rightarrow> string + u32" where
  "canonical_attempt message_attempt headers =
     (if message_attempt = 0 then Inl ''order attempt must be positive''
      else if uint message_attempt > ORDERS_MAX_ATTEMPTS then Inl ''order attempt exceeds MAX_ATTEMPTS''
      else and_then (header_attempt headers) (\<lambda>header.
        case header of
          None \<Rightarrow>
            and_then (u32_to_i32 ''order attempt does not fit PostgreSQL integer'' message_attempt) (\<lambda>_.
            Inr message_attempt)
        | Some h \<Rightarrow>
            if h \<noteq> message_attempt then Inl ''order body/header attempts disagree''
            else and_then (u32_to_i32 ''order attempt does not fit PostgreSQL integer'' message_attempt) (\<lambda>_.
              Inr message_attempt)))"

definition orphan_marker :: "field_table \<Rightarrow> string + bool" where
  "orphan_marker headers =
     (case amqp_header_value headers ''messaging.orphan'' of
        None \<Rightarrow> Inr False
      | Some v \<Rightarrow> if trim v = ''true'' then Inr True
                  else if trim v = ''false'' then Inr False
                  else Inl ''RabbitMQ messaging.orphan header is invalid'')"

subsection \<open>W3C validators\<close>

definition amqp_is_lower_hex :: "char \<Rightarrow> bool" where
  "amqp_is_lower_hex c \<longleftrightarrow> is_ascii_digit c \<or> (97 \<le> byte c \<and> byte c \<le> 102)"

definition amqp_is_hex :: "char \<Rightarrow> bool" where
  "amqp_is_hex c \<longleftrightarrow> is_ascii_digit c \<or> (97 \<le> byte c \<and> byte c \<le> 102) \<or> (65 \<le> byte c \<and> byte c \<le> 70)"

definition is_lower_alpha_numeric :: "char \<Rightarrow> bool" where
  "is_lower_alpha_numeric c \<longleftrightarrow> is_ascii_lowercase c \<or> is_ascii_digit c"

text \<open>\<open>bytes[a..b]\<close>\<close>

definition byte_slice :: "nat \<Rightarrow> nat \<Rightarrow> string \<Rightarrow> string" where
  "byte_slice a b s = take (b - a) (drop a s)"

definition amqp_validate_traceparent :: "string \<Rightarrow> string + unit" where
  "amqp_validate_traceparent v =
     (if length v \<noteq> 55 \<or> byte_slice 0 3 v \<noteq> ''00-'' \<or> v ! 35 \<noteq> CHR ''-'' \<or> v ! 52 \<noteq> CHR ''-''
        then Inl ''RabbitMQ traceparent header is invalid''
      else if \<not> list_all amqp_is_lower_hex (byte_slice 3 35 v) \<or> \<not> list_all amqp_is_lower_hex (byte_slice 36 52 v)
         \<or> \<not> list_all amqp_is_lower_hex (byte_slice 53 55 v)
         \<or> list_all (\<lambda>c. c = CHR ''0'') (byte_slice 3 35 v) \<or> list_all (\<lambda>c. c = CHR ''0'') (byte_slice 36 52 v)
        then Inl ''RabbitMQ traceparent header is invalid''
      else Inr ())"

definition amqp_valid_tracestate_key_part :: "string \<Rightarrow> nat \<Rightarrow> bool" where
  "amqp_valid_tracestate_key_part v max_length \<longleftrightarrow>
     v \<noteq> [] \<and> length v \<le> max_length \<and> is_lower_alpha_numeric (hd v)
     \<and> list_all (\<lambda>c. is_lower_alpha_numeric c \<or> c \<in> set ''_*/-'') (tl v)"

definition amqp_valid_tracestate_key :: "string \<Rightarrow> bool" where
  "amqp_valid_tracestate_key v \<longleftrightarrow>
     (case split_on (CHR ''@'') v of
        [first] \<Rightarrow> amqp_valid_tracestate_key_part first 256
      | [first, second] \<Rightarrow> amqp_valid_tracestate_key_part first 241 \<and> amqp_valid_tracestate_key_part second 14
      | _ \<Rightarrow> False)"

definition amqp_valid_tracestate_value :: "string \<Rightarrow> bool" where
  "amqp_valid_tracestate_value v \<longleftrightarrow>
     v \<noteq> [] \<and> last v \<noteq> CHR '' ''
     \<and> list_all (\<lambda>c. (32 \<le> byte c \<and> byte c \<le> 43) \<or> (45 \<le> byte c \<and> byte c \<le> 60) \<or> (62 \<le> byte c \<and> byte c \<le> 126)) v"

definition amqp_tracestate_member :: "string list \<Rightarrow> string \<Rightarrow> string + string list" where
  "amqp_tracestate_member seen raw_member =
     (let member = trim_ows raw_member in
      case split_once (CHR ''='') member of
        None \<Rightarrow> Inl ''RabbitMQ tracestate header has an invalid member''
      | Some (key, member_value) \<Rightarrow>
          if member = [] \<or> key = [] \<or> member_value = [] \<or> CHR ''='' \<in> set member_value
             \<or> length member > ORDERS_MAX_TRACESTATE_MEMBER_BYTES \<or> \<not> amqp_valid_tracestate_key key
             \<or> length member_value > ORDERS_MAX_TRACESTATE_MEMBER_BYTES
             \<or> \<not> amqp_valid_tracestate_value member_value \<or> key \<in> set seen
          then Inl ''RabbitMQ tracestate header has an invalid member''
          else Inr (seen @ [key]))"

definition amqp_validate_tracestate :: "string \<Rightarrow> string + unit" where
  "amqp_validate_tracestate v =
     (if length v > ORDERS_MAX_TRACESTATE_HEADER_BYTES then Inl ''RabbitMQ tracestate header is too large''
      else let members = split_on (CHR '','') v in
        if members = [] \<or> length members > ORDERS_MAX_TRACESTATE_MEMBERS
          then Inl ''RabbitMQ tracestate header has invalid members''
        else and_then (try_fold amqp_tracestate_member [] members) (\<lambda>_. Inr ()))"

definition valid_baggage_key_part :: "string \<Rightarrow> nat \<Rightarrow> bool" where
  "valid_baggage_key_part v max_length \<longleftrightarrow>
     v \<noteq> [] \<and> length v \<le> max_length \<and> is_lower_alpha_numeric (hd v)
     \<and> list_all (\<lambda>c. is_lower_alpha_numeric c \<or> c \<in> set ''._-'') (tl v)"

definition amqp_valid_baggage_key :: "string \<Rightarrow> bool" where
  "amqp_valid_baggage_key v \<longleftrightarrow>
     (case split_on (CHR ''@'') v of
        [first] \<Rightarrow> valid_baggage_key_part first 256
      | [first, second] \<Rightarrow> valid_baggage_key_part first 256 \<and> valid_baggage_key_part second 14
      | _ \<Rightarrow> False)"

text \<open>
  The \<open>while\<close> loop over the bytes; \<open>index + 2 >= bytes.len()\<close> says that fewer than two bytes follow.
\<close>

fun encoded_value_loop :: "string \<Rightarrow> bool" where
  "encoded_value_loop [] = True"
| "encoded_value_loop (c # s) =
     (if c = CHR ''%'' then
        (case s of a # b # t \<Rightarrow> amqp_is_hex a \<and> amqp_is_hex b \<and> encoded_value_loop t | _ \<Rightarrow> False)
      else ((33 \<le> byte c \<and> byte c \<le> 43) \<or> (45 \<le> byte c \<and> byte c \<le> 60) \<or> (62 \<le> byte c \<and> byte c \<le> 126))
        \<and> encoded_value_loop s)"

definition valid_encoded_baggage_value :: "string \<Rightarrow> bool" where
  "valid_encoded_baggage_value v \<longleftrightarrow>
     v \<noteq> [] \<and> length v \<le> MAX_ENCODED_BAGGAGE_VALUE_BYTES \<and> encoded_value_loop v"

definition amqp_metadata_ok :: "string \<Rightarrow> bool" where
  "amqp_metadata_ok raw =
     (case split_once (CHR ''='') (trim_ows raw) of
        None \<Rightarrow> False
      | Some (k, v) \<Rightarrow> amqp_valid_baggage_key (trim_ows k) \<and> valid_encoded_baggage_value (trim_ows v))"

definition amqp_baggage_member :: "string list \<Rightarrow> string \<Rightarrow> string + string list" where
  "amqp_baggage_member seen raw_member =
     (let member = trim_ows raw_member in
      case split_once (CHR ''='') member of
        None \<Rightarrow> Inl ''RabbitMQ baggage header has an invalid member''
      | Some (k, value_and_metadata) \<Rightarrow>
          (let key = trim_ows k;
               values = split_on (CHR '';'') value_and_metadata;
               encoded_value = trim_ows (hd values) in
           if member = [] \<or> \<not> amqp_valid_baggage_key key \<or> \<not> valid_encoded_baggage_value encoded_value \<or> key \<in> set seen
             then Inl ''RabbitMQ baggage header has an invalid member''
           else if \<not> list_all amqp_metadata_ok (tl values)
             then Inl ''RabbitMQ baggage header has an invalid member''
           else Inr (seen @ [key])))"

definition amqp_validate_baggage :: "string \<Rightarrow> string + unit" where
  "amqp_validate_baggage v =
     (if length v > ORDERS_MAX_BAGGAGE_HEADER_BYTES then Inl ''RabbitMQ baggage header is too large''
      else let members = split_on (CHR '','') v in
        if members = [] \<or> length members > ORDERS_MAX_BAGGAGE_MEMBERS
          then Inl ''RabbitMQ baggage header has invalid members''
        else and_then (try_fold amqp_baggage_member [] members) (\<lambda>_. Inr ()))"

definition validate_propagation_headers :: "field_table \<Rightarrow> string + unit" where
  "validate_propagation_headers headers =
     and_then (required_amqp_header headers ''traceparent'') (\<lambda>traceparent.
     and_then (required_amqp_header headers ''tracestate'') (\<lambda>tracestate.
     and_then (required_amqp_header headers ''baggage'') (\<lambda>baggage.
     and_then (amqp_validate_traceparent traceparent) (\<lambda>_.
     and_then (amqp_validate_tracestate tracestate) (\<lambda>_.
     amqp_validate_baggage baggage)))))"

subsection \<open>Equivalence with the validators of the telemetry library\<close>

lemma tracestate_key_part_eq:
  "amqp_valid_tracestate_key_part v n = valid_tracestate_key_part v n"
proof (cases v)
  case (Cons c s)
  have "list_all (\<lambda>(index, x). P index x) (enumerate (Suc k) xs) \<longleftrightarrow> list_all (\<lambda>x. Q x) xs"
    if "\<And>i x. P (Suc i) x = Q x" for P :: "nat \<Rightarrow> char \<Rightarrow> bool" and Q k xs
    using that by (induction xs arbitrary: k) auto
  note enum = this [where k = 0]
  show ?thesis
    unfolding amqp_valid_tracestate_key_part_def valid_tracestate_key_part_def Cons
    by (simp add: is_lower_alpha_numeric_def enum [where Q = "\<lambda>c. is_ascii_lowercase c \<or> is_ascii_digit c \<or> c = CHR ''_''
        \<or> c = CHR ''-'' \<or> c = CHR ''*'' \<or> c = CHR ''/''"]) (auto simp: list_all_iff)
qed (simp add: amqp_valid_tracestate_key_part_def valid_tracestate_key_part_def)

lemma tracestate_key_eq: "amqp_valid_tracestate_key v = valid_tracestate_key v"
proof -
  have "amqp_valid_tracestate_key_part = valid_tracestate_key_part" by (intro ext) (rule tracestate_key_part_eq)
  then show ?thesis unfolding amqp_valid_tracestate_key_def valid_tracestate_key_def by (simp only:)
qed

lemma tracestate_char_eq:
  "((32 \<le> byte c \<and> byte c \<le> 43) \<or> (45 \<le> byte c \<and> byte c \<le> 60) \<or> (62 \<le> byte c \<and> byte c \<le> 126))
     \<longleftrightarrow> 32 \<le> byte c \<and> byte c \<le> 126 \<and> c \<noteq> CHR '','' \<and> c \<noteq> CHR ''=''"
proof -
  have "byte (CHR '','') = 44" "byte (CHR ''='') = 61" by (simp_all add: byte_def)
  then have "c \<noteq> CHR '','' \<longleftrightarrow> byte c \<noteq> 44" "c \<noteq> CHR ''='' \<longleftrightarrow> byte c \<noteq> 61" by (metis byte_inject)+
  then show ?thesis by auto
qed

lemma tracestate_value_eq:
  "amqp_valid_tracestate_value v \<longleftrightarrow> v \<noteq> [] \<and> valid_tracestate_value v"
proof (cases "v = []")
  case False
  have "byte (CHR '' '') = 32" by (simp add: byte_def)
  then have "last v \<noteq> CHR '' '' \<longleftrightarrow> \<not> is_ows (last v)" if "32 \<le> byte (last v)"
    using that byte_inject [of "last v" "CHR '' ''"] unfolding is_ows_def by simp
  moreover have "32 \<le> byte (last v)" if "list_all (\<lambda>c. 32 \<le> byte c \<and> byte c \<le> 126 \<and> c \<noteq> CHR '','' \<and> c \<noteq> CHR ''='') v"
    using that False by (simp add: list_all_iff)
  ultimately show ?thesis
    using False unfolding amqp_valid_tracestate_value_def valid_tracestate_value_def tracestate_char_eq by blast
qed (simp add: amqp_valid_tracestate_value_def)

lemma amqp_tracestate_member_step:
  "amqp_tracestate_member seen m = Inr s \<longleftrightarrow>
     tracestate_member_ok m \<and> member_key m \<notin> set seen \<and> s = seen @ [member_key m]"
proof (cases "split_once (CHR ''='') (trim_ows m)")
  case (Some kv)
  obtain k v where kv: "kv = (k, v)" by (cases kv)
  with Some have m: "trim_ows m = k @ CHR ''='' # v" by (simp add: split_once_Some)
  have "\<not> valid_tracestate_key []" by (simp add: valid_tracestate_key_def valid_tracestate_key_part_def)
  moreover have "CHR ''='' \<notin> set v" if "valid_tracestate_value v"
    using that by (auto simp: valid_tracestate_value_def list_all_iff)
  moreover have "length v \<le> length (trim_ows m)" "trim_ows m \<noteq> []" using m by simp_all
  ultimately show ?thesis
    using Some kv by (auto simp: amqp_tracestate_member_def tracestate_member_ok_def member_key_def Let_def
        tracestate_key_eq tracestate_value_eq ORDERS_MAX_TRACESTATE_MEMBER_BYTES_def split: if_splits)
qed (simp add: amqp_tracestate_member_def tracestate_member_ok_def Let_def)

lemma amqp_tracestate_loop:
  "try_fold amqp_tracestate_member seen ms = Inr s \<longleftrightarrow>
     list_all tracestate_member_ok ms \<and> distinct (map member_key ms) \<and> set (map member_key ms) \<inter> set seen = {}
     \<and> s = seen @ map member_key ms"
  by (induction ms arbitrary: seen) (auto simp: amqp_tracestate_member_step)

lemma amqp_tracestate_eq:
  "amqp_validate_tracestate v = Inr () \<longleftrightarrow> validate_tracestate_header v = Inr ()"
  unfolding validate_tracestate_ok amqp_validate_tracestate_def
  by (auto simp: amqp_tracestate_loop Let_def ORDERS_MAX_TRACESTATE_HEADER_BYTES_def ORDERS_MAX_TRACESTATE_MEMBERS_def
      split: if_splits)

lemma amqp_traceparent_eq:
  "amqp_validate_traceparent v = Inr () \<longleftrightarrow> validate_traceparent_header v = Inr ()"
proof
  assume ok: "amqp_validate_traceparent v = Inr ()"
  then have len: "length v = 55" and dash: "v ! 35 = CHR ''-''" "v ! 52 = CHR ''-''" and head: "take 3 v = ''00-''"
    by (auto simp: amqp_validate_traceparent_def byte_slice_def split: if_splits)
  let ?tid = "byte_slice 3 35 v" and ?sid = "byte_slice 36 52 v" and ?fl = "byte_slice 53 55 v"
  have "drop 35 v = CHR ''-'' # drop 36 v" "drop 52 v = CHR ''-'' # drop 53 v"
    using len dash Cons_nth_drop_Suc [of 35 v] Cons_nth_drop_Suc [of 52 v] by simp_all
  moreover have "v = take 3 v @ drop 3 v" "drop 3 v = take 32 (drop 3 v) @ drop 35 v" "drop 36 v = take 16 (drop 36 v) @ drop 52 v"
    using append_take_drop_id [of 3 v] append_take_drop_id [of 32 "drop 3 v"] append_take_drop_id [of 16 "drop 36 v"]
    by simp_all
  moreover have "drop 53 v = take 2 (drop 53 v)" using len by simp
  ultimately have "v = ''00-'' @ ?tid @ ''-'' @ ?sid @ ''-'' @ ?fl"
    using head by (simp add: byte_slice_def)
  moreover have "is_lower_hex ?tid 32" "is_lower_hex ?sid 16" "is_lower_hex ?fl 2" "\<not> all_zero_hex ?tid" "\<not> all_zero_hex ?sid"
    using ok len by (auto simp: amqp_validate_traceparent_def is_lower_hex_def all_zero_hex_def amqp_is_lower_hex_def [abs_def] byte_slice_def
        split: if_splits)
  ultimately show "validate_traceparent_header v = Inr ()" unfolding validate_traceparent_ok by blast
next
  assume "validate_traceparent_header v = Inr ()"
  then obtain tid sid fl where v: "v = ''00-'' @ tid @ ''-'' @ sid @ ''-'' @ fl"
    and h: "is_lower_hex tid 32" "\<not> all_zero_hex tid" "is_lower_hex sid 16" "\<not> all_zero_hex sid" "is_lower_hex fl 2"
    unfolding validate_traceparent_ok by blast
  then have "length tid = 32" "length sid = 16" "length fl = 2" by (simp_all add: is_lower_hex_def)
  then have "length v = 55" "byte_slice 0 3 v = ''00-''" "v ! 35 = CHR ''-''" "v ! 52 = CHR ''-''"
    "byte_slice 3 35 v = tid" "byte_slice 36 52 v = sid" "byte_slice 53 55 v = fl"
    by (simp_all add: v byte_slice_def nth_append)
  then show "amqp_validate_traceparent v = Inr ()"
    using h by (simp add: amqp_validate_traceparent_def is_lower_hex_def all_zero_hex_def amqp_is_lower_hex_def [abs_def])
qed

end
