(* ===== verification/OrdersInbox.thy ===== *)
theory OrdersInbox
  imports CommerceDb
begin

text \<open>
  The durable consumer inbox of the orders service (\<open>InboxStore\<close> in \<open>services/orders/src/messaging.rs\<close>): one row per
  event, claimed by the number of the attempt. A consumer that claims again with a higher number takes the row over;
  every later statement of the old claim then affects no row. \<open>pg\<close> is the display text of a driver error, and
  \<open>fault\<close> says that the driver failed the statement.
\<close>

record inbox_row =
  ib_tenant :: string
  ib_event :: string
  ib_status :: string
  ib_attempts :: int
  ib_lease_until :: timestamp
  ib_traceparent :: "string option"
  ib_tracestate :: "string option"
  ib_baggage :: "string option"
  ib_last_error :: "string option"
  ib_completed_at :: "timestamp option"
  ib_updated_at :: timestamp

record inbox_db =
  inbox :: "inbox_row list"
  ib_tenants :: "string list"

definition ib_key :: "inbox_row \<Rightarrow> string \<times> string" where
  "ib_key r = (ib_tenant r, ib_event r)"

definition inbox_check :: "inbox_row \<Rightarrow> bool" where
  "inbox_check r \<longleftrightarrow>
     ib_status r \<in> {''processing'', ''retry_scheduled'', ''completed'', ''dead_lettered''}
     \<and> 0 < ib_attempts r \<and> in_i32 (ib_attempts r)
     \<and> (ib_status r = ''completed'' \<longrightarrow> ib_completed_at r \<noteq> None)"

record inbox_claim =
  ic_tenant_id :: string
  ic_event_id :: string
  ic_attempts :: u32

datatype claim_outcome = Claimed inbox_claim | AlreadyHandled | InFlight

definition inbox_acquire :: "pool_result \<Rightarrow> string + unit" where
  "inbox_acquire pool =
     (case pool of
        Pool_ok \<Rightarrow> Inr ()
      | Pool_timeout \<Rightarrow> Inl ''orders durable inbox database pool wait timed out''
      | Pool_error _ \<Rightarrow> Inl ''acquire orders durable inbox database connection'')"

definition inbox_stmt :: "string \<Rightarrow> bool \<Rightarrow> sql_error + 'a \<Rightarrow> string + 'a" where
  "inbox_stmt pg fault r = (if fault then Inl pg else map_err (\<lambda>_. pg) r)"

subsection \<open>Claiming\<close>

definition inbox_claimable :: "timestamp \<Rightarrow> int \<Rightarrow> inbox_row \<Rightarrow> bool" where
  "inbox_claimable now incoming r \<longleftrightarrow>
     ib_status r \<notin> {''completed'', ''dead_lettered''}
     \<and> ((ib_status r = ''retry_scheduled'' \<and> incoming > ib_attempts r)
        \<or> (ib_status r = ''processing'' \<and> ib_lease_until r \<le> now)
        \<or> (ib_status r = ''processing'' \<and> incoming > ib_attempts r))"

definition claimed_inbox_row ::
  "timestamp \<Rightarrow> int \<Rightarrow> string option \<times> string option \<times> string option \<Rightarrow> inbox_row \<Rightarrow> inbox_row" where
  "claimed_inbox_row now incoming carrier r =
     (case carrier of (traceparent, tracestate, baggage) \<Rightarrow>
      r\<lparr>ib_status := ''processing'',
        ib_attempts := (if incoming > ib_attempts r then incoming else ib_attempts r + 1),
        ib_lease_until := now + seconds 30,
        ib_traceparent := (case traceparent of None \<Rightarrow> ib_traceparent r | Some t \<Rightarrow> Some t),
        ib_tracestate := (case tracestate of None \<Rightarrow> ib_tracestate r | Some t \<Rightarrow> Some t),
        ib_baggage := (case baggage of None \<Rightarrow> ib_baggage r | Some t \<Rightarrow> Some t),
        ib_last_error := None, ib_updated_at := now\<rparr>)"

definition new_inbox_row ::
  "timestamp \<Rightarrow> string \<Rightarrow> string \<Rightarrow> int \<Rightarrow> string option \<times> string option \<times> string option \<Rightarrow> inbox_row" where
  "new_inbox_row now tenant_id event_id incoming carrier =
     (case carrier of (traceparent, tracestate, baggage) \<Rightarrow>
      \<lparr>ib_tenant = tenant_id, ib_event = event_id, ib_status = ''processing'', ib_attempts = incoming,
       ib_lease_until = now + seconds 30, ib_traceparent = traceparent, ib_tracestate = tracestate,
       ib_baggage = baggage, ib_last_error = None, ib_completed_at = None, ib_updated_at = now\<rparr>)"

text \<open>
  \<open>INSERT ... ON CONFLICT (tenant_id, event_id) DO UPDATE ... WHERE ... RETURNING attempts\<close>: the row written, if
  one was written.
\<close>

definition upsert_inbox ::
  "timestamp \<Rightarrow> string \<Rightarrow> string \<Rightarrow> int \<Rightarrow> string option \<times> string option \<times> string option \<Rightarrow> inbox_db
     \<Rightarrow> sql_error + (inbox_row option \<times> inbox_db)" where
  "upsert_inbox now tenant_id event_id incoming carrier db =
     (let new = new_inbox_row now tenant_id event_id incoming carrier in
      if \<not> inbox_check new then Inl Check_violation
      else case List.find (\<lambda>r. ib_key r = (tenant_id, event_id)) (inbox db) of
        None \<Rightarrow>
          if tenant_id \<notin> set (ib_tenants db) then Inl Foreign_key_violation
          else Inr (Some new, db\<lparr>inbox := inbox db @ [new]\<rparr>)
      | Some r \<Rightarrow>
          if \<not> inbox_claimable now incoming r then Inr (None, db)
          else
            and_then (sql_update inbox_check (\<lambda>x. ib_key x = (tenant_id, event_id))
              (claimed_inbox_row now incoming carrier) (inbox db)) (\<lambda>(_, rows).
            Inr (Some (claimed_inbox_row now incoming carrier r), db\<lparr>inbox := rows\<rparr>)))"

definition inbox_claim_op ::
  "string \<Rightarrow> bool \<Rightarrow> bool \<Rightarrow> pool_result \<Rightarrow> timestamp \<Rightarrow> string \<Rightarrow> string \<Rightarrow> u32
     \<Rightarrow> string option \<times> string option \<times> string option \<Rightarrow> inbox_db \<Rightarrow> (string + claim_outcome) \<times> inbox_db" where
  "inbox_claim_op pg fault1 fault2 pool now tenant_id event_id incoming_attempt carrier =
     transact (\<lambda>db.
       and_then (if uint incoming_attempt \<le> i32_max then Inr (uint incoming_attempt)
                 else Inl ''order attempt does not fit PostgreSQL integer'') (\<lambda>incoming.
       and_then (inbox_acquire pool) (\<lambda>_.
       and_then (inbox_stmt pg fault1 (upsert_inbox now tenant_id event_id incoming carrier db)) (\<lambda>(row, db1).
       case row of
         Some r \<Rightarrow>
           if ib_attempts r < 0 then Inl ''durable order attempt is negative''
           else Inr (Claimed \<lparr>ic_tenant_id = tenant_id, ic_event_id = event_id, ic_attempts = of_int (ib_attempts r)\<rparr>, db1)
       | None \<Rightarrow>
           and_then (inbox_stmt pg fault2
             (query_opt (filter (\<lambda>r. ib_key r = (tenant_id, event_id)) (inbox db1)))) (\<lambda>found.
           case found of
             None \<Rightarrow> Inl ''durable inbox claim disappeared''
           | Some r \<Rightarrow>
               if ib_status r \<in> {''completed'', ''dead_lettered'', ''retry_scheduled''} then Inr (AlreadyHandled, db1)
               else if ib_status r = ''processing'' then Inr (InFlight, db1)
               else Inl (''durable inbox has unknown status '' @ ib_status r))))))"

subsection \<open>Settling\<close>

definition attempts_as_i32 :: "inbox_claim \<Rightarrow> string + int" where
  "attempts_as_i32 claim =
     (if uint (ic_attempts claim) \<le> i32_max then Inr (uint (ic_attempts claim))
      else Inl ''durable order attempt overflow'')"

definition claim_holds :: "inbox_claim \<Rightarrow> int \<Rightarrow> inbox_row \<Rightarrow> bool" where
  "claim_holds claim k r \<longleftrightarrow>
     ib_tenant r = ic_tenant_id claim \<and> ib_event r = ic_event_id claim \<and> ib_attempts r = k
     \<and> ib_status r = ''processing''"

definition require_one_row :: "nat \<Rightarrow> string \<Rightarrow> string + unit" where
  "require_one_row affected operation =
     (if affected = 1 then Inr ()
      else Inl (operation @ '' affected '' @ digits affected @ '' rows''))"

definition bounded_text :: "string \<Rightarrow> string" where
  "bounded_text v = take_chars 1024 v"

text \<open>The \<open>UPDATE\<close> statements run outside a transaction: a statement that affected no row changed nothing.\<close>

definition settle_claim ::
  "string \<Rightarrow> bool \<Rightarrow> pool_result \<Rightarrow> inbox_claim \<Rightarrow> (inbox_row \<Rightarrow> inbox_row) \<Rightarrow> inbox_db
     \<Rightarrow> (string + nat) \<times> inbox_db" where
  "settle_claim pg fault pool claim f =
     transact (\<lambda>db.
       and_then (inbox_acquire pool) (\<lambda>_.
       and_then (attempts_as_i32 claim) (\<lambda>k.
       inbox_stmt pg fault (and_then (sql_update inbox_check (claim_holds claim k) f (inbox db)) (\<lambda>(n, rows).
         Inr (n, db\<lparr>inbox := rows\<rparr>))))))"

definition completed_inbox_row :: "timestamp \<Rightarrow> inbox_row \<Rightarrow> inbox_row" where
  "completed_inbox_row now r =
     r\<lparr>ib_status := ''completed'', ib_completed_at := Some now, ib_lease_until := now, ib_last_error := None,
       ib_updated_at := now\<rparr>"

definition settled_inbox_row :: "timestamp \<Rightarrow> string \<Rightarrow> string \<Rightarrow> inbox_row \<Rightarrow> inbox_row" where
  "settled_inbox_row now status reason r =
     r\<lparr>ib_status := status, ib_lease_until := now, ib_last_error := Some reason, ib_updated_at := now\<rparr>"

definition released_inbox_row :: "timestamp \<Rightarrow> string \<Rightarrow> inbox_row \<Rightarrow> inbox_row" where
  "released_inbox_row now error r =
     r\<lparr>ib_lease_until := now, ib_last_error := Some error, ib_updated_at := now\<rparr>"

definition settle_one ::
  "string \<Rightarrow> (string + nat) \<times> inbox_db \<Rightarrow> (string + unit) \<times> inbox_db" where
  "settle_one operation s =
     (case s of (Inl e, db) \<Rightarrow> (Inl e, db) | (Inr n, db) \<Rightarrow> (require_one_row n operation, db))"

definition mark_completed ::
  "string \<Rightarrow> bool \<Rightarrow> pool_result \<Rightarrow> timestamp \<Rightarrow> inbox_claim \<Rightarrow> inbox_db \<Rightarrow> (string + unit) \<times> inbox_db" where
  "mark_completed pg fault pool now claim db =
     settle_one ''complete durable order inbox claim'' (settle_claim pg fault pool claim (completed_inbox_row now) db)"

definition mark_retry_scheduled ::
  "string \<Rightarrow> bool \<Rightarrow> pool_result \<Rightarrow> timestamp \<Rightarrow> inbox_claim \<Rightarrow> string \<Rightarrow> inbox_db \<Rightarrow> (string + unit) \<times> inbox_db" where
  "mark_retry_scheduled pg fault pool now claim reason db =
     settle_one ''schedule durable order inbox retry''
       (settle_claim pg fault pool claim (settled_inbox_row now ''retry_scheduled'' (bounded_text reason)) db)"

definition mark_dead_lettered ::
  "string \<Rightarrow> bool \<Rightarrow> pool_result \<Rightarrow> timestamp \<Rightarrow> inbox_claim \<Rightarrow> string \<Rightarrow> inbox_db \<Rightarrow> (string + unit) \<times> inbox_db" where
  "mark_dead_lettered pg fault pool now claim reason db =
     settle_one ''mark durable order inbox dead-lettered''
       (settle_claim pg fault pool claim (settled_inbox_row now ''dead_lettered'' (bounded_text reason)) db)"

definition release_claim ::
  "string \<Rightarrow> bool \<Rightarrow> pool_result \<Rightarrow> timestamp \<Rightarrow> inbox_claim \<Rightarrow> string \<Rightarrow> inbox_db \<Rightarrow> (string + unit) \<times> inbox_db" where
  "release_claim pg fault pool now claim error db =
     (case settle_claim pg fault pool claim (released_inbox_row now (bounded_text error)) db of
        (Inl e, db') \<Rightarrow> (Inl e, db') | (Inr _, db') \<Rightarrow> (Inr (), db'))"

definition inbox_health :: "pool_result \<Rightarrow> bool \<Rightarrow> bool" where
  "inbox_health pool ping = (case pool of Pool_ok \<Rightarrow> ping | _ \<Rightarrow> False)"

end
