(* ===== verification/OrdersConsumer.thy ===== *)
theory OrdersConsumer
  imports OrdersCarrier OrdersInbox
begin

text \<open>
  The consumer of order events (\<open>services/orders/src/messaging.rs\<close>): publishing with confirms, processing a delivery
  under an inbox claim, recovering a failed one, and the loops around it.

  What RabbitMQ, PostgreSQL and the clock do during one delivery is the record \<open>delivery_env\<close>; the messages sent and
  the acknowledgements are the list of effects. \<open>codec\<close> is serde's encoding of an \<open>OrderMessage\<close>; \<open>otel\<close> is the
  OpenTelemetry propagator, whose contexts are pairs of a span and baggage as in \<open>Propagation\<close>.
\<close>

definition SYNTHETIC_EXCHANGE :: string where "SYNTHETIC_EXCHANGE = ''orders.synthetic''"
definition DEAD_LETTER_EXCHANGE :: string where "DEAD_LETTER_EXCHANGE = ''commerce.dlx''"
definition ROUTING_KEY :: string where "ROUTING_KEY = ''order.requested''"
definition DEAD_LETTER_ROUTING_KEY :: string where "DEAD_LETTER_ROUTING_KEY = ''order.dead''"

record order_message =
  om_event_id :: string
  om_order_id :: string
  om_tenant_id :: string
  om_customer_id :: string
  om_event_type :: string
  om_poison :: bool
  om_lag_ms :: u64
  om_attempt :: u32

record 'p codec =
  encode :: "order_message \<Rightarrow> 'p"
  decode :: "'p \<Rightarrow> string + order_message"

record 'p amqp_delivery =
  dl_data :: 'p
  dl_headers :: "field_table option"
  dl_message_id :: "string option"
  dl_tag :: nat

record ('c, 'b, 'm) order_otel =
  oo_api :: "('b, 'm) baggage_api"
  oo_extract :: "field_table \<Rightarrow> ('c, 'b) otel_context"
  oo_valid :: "'c \<Rightarrow> bool"
  oo_inject :: "('c, 'b) otel_context \<Rightarrow> field_table"
  oo_current :: "('c, 'b) otel_context"

subsection \<open>Contexts\<close>

definition inject_context :: "('c, 'b, 'm) order_otel \<Rightarrow> ('c, 'b) otel_context \<Rightarrow> field_table" where
  "inject_context otel ctx =
     (let headers = oo_inject otel (with_safe_baggage (oo_api otel) ctx) in
      case amqp_header_value headers ''traceparent'' of
        None \<Rightarrow> headers
      | Some traceparent \<Rightarrow>
          if \<not> blank traceparent
             \<and> (case amqp_header_value headers ''tracestate'' of None \<Rightarrow> True | Some v \<Rightarrow> blank v)
          then headers(''tracestate'' \<mapsto> LongString ORDERS_DEFAULT_TRACESTATE)
          else headers)"

definition extract_context :: "('c, 'b, 'm) order_otel \<Rightarrow> field_table \<Rightarrow> string + ('c, 'b) otel_context" where
  "extract_context otel headers =
     and_then (validate_propagation_headers headers) (\<lambda>_.
     let ctx = with_safe_baggage (oo_api otel) (oo_extract otel headers) in
     if \<not> oo_valid otel (fst ctx) then Inl ''RabbitMQ traceparent could not be extracted'' else Inr ctx)"

definition context_carrier ::
  "('c, 'b, 'm) order_otel \<Rightarrow> ('c, 'b) otel_context \<Rightarrow> string option \<times> string option \<times> string option" where
  "context_carrier otel ctx =
     (let headers = inject_context otel ctx in
      (amqp_header_value headers ''traceparent'', amqp_header_value headers ''tracestate'',
       amqp_header_value headers ''baggage''))"

definition context_with_inbound_baggage ::
  "('b, 'm) baggage_api \<Rightarrow> ('c, 'b) otel_context \<Rightarrow> ('d, 'b) otel_context \<Rightarrow> ('c, 'b) otel_context" where
  "context_with_inbound_baggage api ctx inbound = (fst ctx, bg_collect api (bg_iter api (snd inbound)))"

definition republish_headers ::
  "('c, 'b, 'm) order_otel \<Rightarrow> ('c, 'b) otel_context \<Rightarrow> u32 \<Rightarrow> string + field_table" where
  "republish_headers otel ctx attempt =
     (let headers = inject_context otel ctx in
      and_then (validate_propagation_headers headers) (\<lambda>_.
      Inr (headers(''x-order-attempt'' \<mapsto> LongUInt attempt))))"

subsection \<open>Publishing\<close>

datatype confirmation = Ack_routed | Ack_returned string | Nacked string | Not_requested

datatype publish_io =
    Publish_timed_out | Publish_failed string | Confirm_timed_out | Confirm_failed string | Confirmation confirmation

record publish_error =
  pe_error :: string
  pe_outcome_unknown :: bool

record 'p published =
  pm_exchange :: string
  pm_routing_key :: string
  pm_payload :: 'p
  pm_headers :: field_table
  pm_message_id :: string

text \<open>
  \<open>Sent m True\<close> is a publication the broker confirmed as routed; \<open>Sent m False\<close> one whose outcome is not known or
  that was refused.
\<close>

datatype 'p effect = Sent "'p published" bool | Acked | Nacked_requeue bool | Order_consumed string string

definition require_routed_ack :: "confirmation \<Rightarrow> string + unit" where
  "require_routed_ack c =
     (case c of
        Ack_routed \<Rightarrow> Inr ()
      | Ack_returned r \<Rightarrow> Inl (''RabbitMQ returned a mandatory publication: '' @ r)
      | Nacked r \<Rightarrow> Inl (''RabbitMQ negatively acknowledged publication: returned='' @ r)
      | Not_requested \<Rightarrow> Inl ''RabbitMQ publisher confirms are not enabled'')"

definition publish_confirm_with_outcome ::
  "publish_io \<Rightarrow> string \<Rightarrow> 'p \<Rightarrow> field_table \<Rightarrow> string \<Rightarrow> string \<Rightarrow> (publish_error + unit) \<times> 'p effect list" where
  "publish_confirm_with_outcome io routing_key payload headers message_id exchange =
     (case validate_propagation_headers headers of
        Inl _ \<Rightarrow> (Inl \<lparr>pe_error = ''invalid RabbitMQ propagation headers'', pe_outcome_unknown = False\<rparr>, [])
      | Inr _ \<Rightarrow>
          (let m = \<lparr>pm_exchange = exchange, pm_routing_key = routing_key, pm_payload = payload,
                    pm_headers = headers, pm_message_id = message_id\<rparr>;
               unknown = (\<lambda>e. (Inl \<lparr>pe_error = e, pe_outcome_unknown = True\<rparr>, [Sent m False])) in
           case io of
             Publish_timed_out \<Rightarrow> unknown ''RabbitMQ publish timed out''
           | Publish_failed e \<Rightarrow> unknown e
           | Confirm_timed_out \<Rightarrow> unknown ''RabbitMQ publisher confirmation timed out''
           | Confirm_failed e \<Rightarrow> unknown e
           | Confirmation c \<Rightarrow>
               (case require_routed_ack c of
                  Inl e \<Rightarrow> (Inl \<lparr>pe_error = e, pe_outcome_unknown = False\<rparr>, [Sent m False])
                | Inr _ \<Rightarrow> (Inr (), [Sent m True]))))"

definition publish_confirm ::
  "publish_io \<Rightarrow> string \<Rightarrow> 'p \<Rightarrow> field_table \<Rightarrow> string \<Rightarrow> string \<Rightarrow> (string + unit) \<times> 'p effect list" where
  "publish_confirm io routing_key payload headers message_id exchange =
     (case publish_confirm_with_outcome io routing_key payload headers message_id exchange of
        (r, es) \<Rightarrow> (map_err pe_error r, es))"

record republish_destination =
  rd_exchange :: string
  rd_routing_key :: string
  rd_kind :: string

definition republish ::
  "('c, 'b, 'm) order_otel \<Rightarrow> publish_io \<Rightarrow> 'p \<Rightarrow> field_table \<Rightarrow> string \<Rightarrow> u32 \<Rightarrow> republish_destination
     \<Rightarrow> (publish_error + unit) \<times> 'p effect list" where
  "republish otel io payload inbound_headers message_id attempt destination =
     (case extract_context otel inbound_headers of
        Inl _ \<Rightarrow> (Inl \<lparr>pe_error = ''invalid RabbitMQ propagation headers'', pe_outcome_unknown = False\<rparr>, [])
      | Inr inbound \<Rightarrow>
      case republish_headers otel (context_with_inbound_baggage (oo_api otel) (oo_current otel) inbound) attempt of
        Inl e \<Rightarrow> (Inl \<lparr>pe_error = e, pe_outcome_unknown = False\<rparr>, [])
      | Inr headers \<Rightarrow>
          publish_confirm_with_outcome io (rd_routing_key destination) payload
            (case amqp_header_value inbound_headers ''messaging.orphan'' of
               None \<Rightarrow> headers
             | Some marker \<Rightarrow> headers(''messaging.orphan'' \<mapsto> LongString (trim marker)))
            message_id (rd_exchange destination))"

subsection \<open>Failures\<close>

record delivery_failure =
  df_error :: string
  df_malformed :: bool
  df_dead_letter_without_republish :: bool
  df_message :: "order_message option"
  df_claim :: "inbox_claim option"
  df_ack_outcome_unknown :: bool
  df_publication_outcome_unknown :: bool

definition failure_malformed :: "string \<Rightarrow> order_message option \<Rightarrow> delivery_failure" where
  "failure_malformed error message =
     \<lparr>df_error = error, df_malformed = True, df_dead_letter_without_republish = False, df_message = message,
      df_claim = None, df_ack_outcome_unknown = False, df_publication_outcome_unknown = False\<rparr>"

definition failure_retryable ::
  "string \<Rightarrow> order_message option \<Rightarrow> inbox_claim option \<Rightarrow> bool \<Rightarrow> delivery_failure" where
  "failure_retryable error message claim publication_outcome_unknown =
     \<lparr>df_error = error, df_malformed = False, df_dead_letter_without_republish = False, df_message = message,
      df_claim = claim, df_ack_outcome_unknown = False, df_publication_outcome_unknown = publication_outcome_unknown\<rparr>"

definition failure_ack_unknown ::
  "string \<Rightarrow> order_message option \<Rightarrow> inbox_claim option \<Rightarrow> bool \<Rightarrow> delivery_failure" where
  "failure_ack_unknown error message claim publication_outcome_unknown =
     \<lparr>df_error = error, df_malformed = False, df_dead_letter_without_republish = False, df_message = message,
      df_claim = claim, df_ack_outcome_unknown = True, df_publication_outcome_unknown = publication_outcome_unknown\<rparr>"

definition failure_invalid_context :: "string \<Rightarrow> delivery_failure" where
  "failure_invalid_context error =
     \<lparr>df_error = error, df_malformed = True, df_dead_letter_without_republish = True, df_message = None,
      df_claim = None, df_ack_outcome_unknown = False, df_publication_outcome_unknown = False\<rparr>"

definition failure_requires_reconnect :: "delivery_failure \<Rightarrow> bool" where
  "failure_requires_reconnect failure \<longleftrightarrow> df_ack_outcome_unknown failure \<or> df_publication_outcome_unknown failure"

subsection \<open>One delivery\<close>

text \<open>
  What the environment does while one delivery is handled: \<open>de_ack\<close> and \<open>de_nack\<close> are \<open>None\<close> when the broker took
  the acknowledgement, and the text of the error otherwise.
\<close>

record delivery_env =
  de_pg :: string
  de_claim_pool :: pool_result
  de_claim_now :: timestamp
  de_claim_faults :: "bool \<times> bool"
  de_mark_pool :: pool_result
  de_mark_now :: timestamp
  de_mark_fault :: bool
  de_release_pool :: pool_result
  de_release_now :: timestamp
  de_release_fault :: bool
  de_publish :: publish_io
  de_ack :: "string option"
  de_nack :: "string option"

text \<open>Actions thread the inbox and collect the effects; the first error ends them.\<close>

type_synonym ('p, 'e, 'a) action = "inbox_db \<Rightarrow> ('e + 'a) \<times> inbox_db \<times> 'p effect list"

definition act_then :: "('p, 'e, 'a) action \<Rightarrow> ('a \<Rightarrow> ('p, 'e, 'b) action) \<Rightarrow> ('p, 'e, 'b) action" where
  "act_then m f db =
     (case m db of
        (Inl e, db1, es) \<Rightarrow> (Inl e, db1, es)
      | (Inr x, db1, es) \<Rightarrow> (case f x db1 of (r, db2, es2) \<Rightarrow> (r, db2, es @ es2)))"

definition act_result :: "'e + 'a \<Rightarrow> ('p, 'e, 'a) action" where
  "act_result r db = (r, db, [])"

definition act_inbox :: "(string \<Rightarrow> 'e) \<Rightarrow> (inbox_db \<Rightarrow> (string + 'a) \<times> inbox_db) \<Rightarrow> ('p, 'e, 'a) action" where
  "act_inbox g op db = (case op db of (r, db') \<Rightarrow> (map_err g r, db', []))"

definition act_publish :: "(publish_error \<Rightarrow> 'e) \<Rightarrow> (publish_error + unit) \<times> 'p effect list \<Rightarrow> ('p, 'e, unit) action" where
  "act_publish g p db = (case p of (r, es) \<Rightarrow> (map_err g r, db, es))"

definition act_emit :: "'p effect \<Rightarrow> ('p, 'e, unit) action" where
  "act_emit e db = (Inr (), db, [e])"

definition ack_delivery :: "(string \<Rightarrow> 'e) \<Rightarrow> delivery_env \<Rightarrow> ('p, 'e, unit) action" where
  "ack_delivery g env db =
     (case de_ack env of None \<Rightarrow> (Inr (), db, [Acked]) | Some e \<Rightarrow> (Inl (g e), db, []))"

definition nack_delivery :: "bool \<Rightarrow> delivery_env \<Rightarrow> ('p, string, unit) action" where
  "nack_delivery requeue env db =
     (case de_nack env of None \<Rightarrow> (Inr (), db, [Nacked_requeue requeue]) | Some e \<Rightarrow> (Inl e, db, []))"

definition delivery_headers :: "'p amqp_delivery \<Rightarrow> field_table" where
  "delivery_headers delivery = (case dl_headers delivery of None \<Rightarrow> Map.empty | Some h \<Rightarrow> h)"

definition delivery_message_id :: "'p amqp_delivery \<Rightarrow> string" where
  "delivery_message_id delivery =
     (case dl_message_id delivery of Some i \<Rightarrow> i | None \<Rightarrow> ''delivery-'' @ digits (dl_tag delivery))"

definition validate_message :: "order_message \<Rightarrow> 'p amqp_delivery \<Rightarrow> string + unit" where
  "validate_message message delivery =
     (if blank (om_event_id message) then Inl ''order event_id is empty''
      else if blank (om_order_id message) then Inl ''order order_id is empty''
      else if blank (om_tenant_id message) then Inl ''order tenant_id is empty''
      else if blank (om_customer_id message) then Inl ''order customer_id is empty''
      else case dl_message_id delivery of
        Some message_id \<Rightarrow>
          if message_id \<noteq> om_event_id message then Inl ''RabbitMQ message_id does not match order event_id'' else Inr ()
      | None \<Rightarrow> Inr ())"

definition publish_or_fail ::
  "('c, 'b, 'm) order_otel \<Rightarrow> publish_io \<Rightarrow> 'p \<Rightarrow> field_table \<Rightarrow> u32 \<Rightarrow> republish_destination \<Rightarrow> order_message \<Rightarrow> inbox_claim
     \<Rightarrow> ('p, delivery_failure, unit) action" where
  "publish_or_fail otel io payload headers attempt destination message claim =
     act_publish (\<lambda>e. failure_retryable (pe_error e) (Some message) (Some claim) (pe_outcome_unknown e))
       (republish otel io payload headers (om_event_id message) attempt destination)"

definition DEAD_LETTER :: "string \<Rightarrow> republish_destination" where
  "DEAD_LETTER kind = \<lparr>rd_exchange = DEAD_LETTER_EXCHANGE, rd_routing_key = DEAD_LETTER_ROUTING_KEY, rd_kind = kind\<rparr>"

definition RETRY :: republish_destination where
  "RETRY = \<lparr>rd_exchange = SYNTHETIC_EXCHANGE, rd_routing_key = ROUTING_KEY, rd_kind = ''retry''\<rparr>"

text \<open>Publish a copy with a new attempt number, record the outcome in the inbox, acknowledge: the shape of three branches.\<close>

definition hand_over ::
  "'p codec \<Rightarrow> ('c, 'b, 'm) order_otel \<Rightarrow> delivery_env \<Rightarrow> field_table \<Rightarrow> order_message \<Rightarrow> inbox_claim \<Rightarrow> u32 \<Rightarrow> republish_destination
     \<Rightarrow> (inbox_db \<Rightarrow> (string + unit) \<times> inbox_db) \<Rightarrow> ('p, delivery_failure, unit) action" where
  "hand_over codec otel env headers message claim attempt destination mark =
     act_then (publish_or_fail otel (de_publish env) (encode codec (message\<lparr>om_attempt := attempt\<rparr>)) headers attempt
       destination message claim) (\<lambda>_.
     act_then (act_inbox (\<lambda>e. failure_retryable e (Some message) (Some claim) True) mark) (\<lambda>_.
     ack_delivery (\<lambda>e. failure_ack_unknown e (Some message) (Some claim) True) env))"

definition process_claimed ::
  "'p codec \<Rightarrow> ('c, 'b, 'm) order_otel \<Rightarrow> delivery_env \<Rightarrow> field_table \<Rightarrow> order_message \<Rightarrow> inbox_claim
     \<Rightarrow> ('p, delivery_failure, unit) action" where
  "process_claimed codec otel env headers message claim =
     (if uint (ic_attempts claim) > ORDERS_MAX_ATTEMPTS then
        hand_over codec otel env headers message claim (of_int ORDERS_MAX_ATTEMPTS)
          (DEAD_LETTER ''dead-letter-after-redelivery-budget'')
          (mark_dead_lettered (de_pg env) (de_mark_fault env) (de_mark_pool env) (de_mark_now env) claim
             ''durable redelivery budget exhausted'')
      else if om_poison message then
        act_then (act_result (ok_or (failure_retryable ''durable order attempt overflow'' (Some message) (Some claim) False)
          (checked_u32 (uint (ic_attempts claim) + 1)))) (\<lambda>next_attempt.
        if next_attempt > ORDERS_MAX_ATTEMPTS then
          hand_over codec otel env headers message claim (of_int ORDERS_MAX_ATTEMPTS) (DEAD_LETTER ''dead-letter'')
            (mark_dead_lettered (de_pg env) (de_mark_fault env) (de_mark_pool env) (de_mark_now env) claim
               ''poison event exhausted durable attempts'')
        else
          hand_over codec otel env headers message claim (of_int next_attempt) RETRY
            (mark_retry_scheduled (de_pg env) (de_mark_fault env) (de_mark_pool env) (de_mark_now env) claim
               ''poison event retry confirmed''))
      else
        act_then (act_emit (Order_consumed (om_order_id message) (om_tenant_id message))) (\<lambda>_.
        act_then (act_inbox (\<lambda>e. failure_retryable e (Some message) (Some claim) False)
          (mark_completed (de_pg env) (de_mark_fault env) (de_mark_pool env) (de_mark_now env) claim)) (\<lambda>_.
        ack_delivery (\<lambda>e. failure_ack_unknown e (Some message) (Some claim) False) env)))"

definition process_delivery ::
  "'p codec \<Rightarrow> ('c, 'b, 'm) order_otel \<Rightarrow> delivery_env \<Rightarrow> 'p amqp_delivery \<Rightarrow> field_table \<Rightarrow> ('c, 'b) otel_context
     \<Rightarrow> ('p, delivery_failure, unit) action" where
  "process_delivery codec otel env delivery headers inbound =
     act_then (act_result (map_err (\<lambda>e. failure_malformed e None) (decode codec (dl_data delivery)))) (\<lambda>message.
     act_then (act_result (map_err (\<lambda>e. failure_malformed e (Some message)) (canonical_attempt (om_attempt message) headers))) (\<lambda>attempt.
     act_then (act_result (map_err (\<lambda>e. failure_malformed e (Some message)) (validate_message message delivery))) (\<lambda>_.
     act_then (act_inbox (\<lambda>e. failure_retryable e (Some message) None False)
       (inbox_claim_op (de_pg env) (fst (de_claim_faults env)) (snd (de_claim_faults env)) (de_claim_pool env)
          (de_claim_now env) (om_tenant_id message) (om_event_id message) attempt (context_carrier otel inbound))) (\<lambda>outcome.
     case outcome of
       Claimed claim \<Rightarrow> process_claimed codec otel env headers message claim
     | AlreadyHandled \<Rightarrow> ack_delivery (\<lambda>e. failure_ack_unknown e (Some message) None False) env
     | InFlight \<Rightarrow>
         act_result (Inl (failure_retryable ''order event is currently owned by another consumer lease'' (Some message) None False))))))"

subsection \<open>Recovery\<close>

definition recover_failed_delivery :: "delivery_env \<Rightarrow> delivery_failure \<Rightarrow> ('p, string, unit) action" where
  "recover_failed_delivery env failure =
     (if failure_requires_reconnect failure
        then act_result (Inl (''delivery outcome is unknown; reconnecting without republishing: '' @ df_error failure))
      else case df_claim failure of
        None \<Rightarrow>
          act_result (Inl (''durable inbox claim did not complete; reconnecting without settling: '' @ df_error failure))
      | Some claim \<Rightarrow>
          act_then (act_inbox id (release_claim (de_pg env) (de_release_fault env) (de_release_pool env) (de_release_now env)
            claim (df_error failure))) (\<lambda>_.
          nack_delivery True env))"

definition recover_malformed_delivery ::
  "('c, 'b, 'm) order_otel \<Rightarrow> delivery_env \<Rightarrow> 'p amqp_delivery \<Rightarrow> field_table \<Rightarrow> ('p, string, unit) action" where
  "recover_malformed_delivery otel env delivery headers =
     act_then (act_publish pe_error (republish otel (de_publish env) (dl_data delivery) headers (delivery_message_id delivery)
       (of_int ORDERS_MAX_ATTEMPTS) (DEAD_LETTER ''malformed-dead-letter''))) (\<lambda>_.
     ack_delivery id env)"

definition recover_invalid_context :: "delivery_env \<Rightarrow> ('p, string, unit) action" where
  "recover_invalid_context env = nack_delivery False env"

text \<open>The body of the loop of \<open>consume_once\<close>: context, processing and, after a failure, recovery.\<close>

definition delivery_context ::
  "('c, 'b, 'm) order_otel \<Rightarrow> field_table \<Rightarrow> string + ('c, 'b) otel_context" where
  "delivery_context otel headers =
     and_then (extract_context otel headers) (\<lambda>ctx. and_then (orphan_marker headers) (\<lambda>_. Inr ctx))"

definition recover ::
  "('c, 'b, 'm) order_otel \<Rightarrow> delivery_env \<Rightarrow> 'p amqp_delivery \<Rightarrow> delivery_failure \<Rightarrow> ('p, string, unit) action" where
  "recover otel env delivery failure =
     (if df_malformed failure then
        if df_dead_letter_without_republish failure then recover_invalid_context env
        else recover_malformed_delivery otel env delivery (delivery_headers delivery)
      else recover_failed_delivery env failure)"

definition handle_delivery ::
  "'p codec \<Rightarrow> ('c, 'b, 'm) order_otel \<Rightarrow> delivery_env \<Rightarrow> 'p amqp_delivery \<Rightarrow> ('p, string, unit) action" where
  "handle_delivery codec otel env delivery db =
     (case (case delivery_context otel (delivery_headers delivery) of
              Inl e \<Rightarrow> act_result (Inl (failure_invalid_context e)) db
            | Inr ctx \<Rightarrow> process_delivery codec otel env delivery (delivery_headers delivery) ctx db) of
        (Inr _, db1, es) \<Rightarrow> (Inr (), db1, es)
      | (Inl failure, db1, es) \<Rightarrow>
          (case recover otel env delivery failure db1 of
             (r, db2, es2) \<Rightarrow>
               (map_err (\<lambda>e. ''orders consumer failed to settle delivery'') r, db2, es @ es2)))"

subsection \<open>The loops\<close>

datatype 'p consume_event =
    Shutdown_seen
  | Stream_closed
  | Stream_failed
  | Delivered delivery_env "'p amqp_delivery"

text \<open>
  \<open>consume_once\<close> after the subscription: \<open>Some (Inr True)\<close> is a shutdown, \<open>None\<close> says that the observed events end
  while it still consumes.
\<close>

fun consume_events ::
  "'p codec \<Rightarrow> ('c, 'b, 'm) order_otel \<Rightarrow> 'p consume_event list \<Rightarrow> inbox_db
     \<Rightarrow> (string + bool) option \<times> inbox_db \<times> 'p effect list" where
  "consume_events codec otel [] db = (None, db, [])"
| "consume_events codec otel (ev # evs) db =
     (case ev of
        Shutdown_seen \<Rightarrow> (Some (Inr True), db, [])
      | Stream_closed \<Rightarrow> (Some (Inl ''RabbitMQ consumer was canceled''), db, [])
      | Stream_failed \<Rightarrow> (Some (Inl ''RabbitMQ delivery stream failed''), db, [])
      | Delivered env delivery \<Rightarrow>
          (case handle_delivery codec otel env delivery db of
             (Inl e, db1, es) \<Rightarrow> (Some (Inl e), db1, es)
           | (Inr _, db1, es) \<Rightarrow>
               (case consume_events codec otel evs db1 of (r, db2, es2) \<Rightarrow> (r, db2, es @ es2))))"

definition RECONNECT_DELAY_INITIAL :: int where "RECONNECT_DELAY_INITIAL = 1"
definition RECONNECT_DELAY_MAX :: int where "RECONNECT_DELAY_MAX = 30"
definition MAX_RECONNECT_FAILURES :: nat where "MAX_RECONNECT_FAILURES = 10"

definition next_reconnect_delay :: "int \<Rightarrow> int" where
  "next_reconnect_delay current =
     (if current \<ge> RECONNECT_DELAY_MAX div 2 then RECONNECT_DELAY_MAX else current + current)"

datatype reconnect_io = Reconnected | Reconnect_failed | Reconnect_timed_out | Reconnect_shutdown

text \<open>
  One round of \<open>consume_loop\<close>: whether the shutdown flag is up, how \<open>consume_once\<close> ended (\<open>Inr True\<close> is a
  shutdown), whether the wait saw the shutdown, and how the reconnection went.
\<close>

record consume_round =
  cn_shutdown :: bool
  cn_consume :: "string + bool"
  cn_wait_shutdown :: bool
  cn_reconnect :: reconnect_io

text \<open>The result and the delays waited for; \<open>None\<close> says that the rounds end while the loop still runs.\<close>

fun consume_loop :: "consume_round list \<Rightarrow> int \<Rightarrow> nat \<Rightarrow> (string + unit) option \<times> int list" where
  "consume_loop [] delay failures = (None, [])"
| "consume_loop (r # rs) delay failures =
     (if cn_shutdown r \<or> cn_consume r = Inr True then (Some (Inr ()), [])
      else if failures + 1 \<ge> MAX_RECONNECT_FAILURES
        then (Some (Inl ''orders consumer exceeded RabbitMQ reconnect budget''), [])
      else if cn_wait_shutdown r then (Some (Inr ()), [delay])
      else (case cn_reconnect r of
              Reconnect_shutdown \<Rightarrow> (Some (Inr ()), [delay])
            | Reconnected \<Rightarrow>
                (case consume_loop rs RECONNECT_DELAY_INITIAL 0 of (res, ds) \<Rightarrow> (res, delay # ds))
            | _ \<Rightarrow>
                (case consume_loop rs (next_reconnect_delay delay) (failures + 1) of (res, ds) \<Rightarrow> (res, delay # ds))))"

end
