(* ===== verification/OrdersMachine.thy ===== *)
theory OrdersMachine
  imports OrdersConsumer
begin

text \<open>
  The invariant of the consumer inbox and how its rows may change: attempts never fall, a row that is not being
  processed changes only by a claim that raises its attempts, and a completed or dead-lettered row never changes.
  The contract \<open>inbox_op\<close> is interpreted for every statement of the inbox and for the handling of a delivery.
\<close>

definition wf_inbox :: "inbox_db \<Rightarrow> bool" where
  "wf_inbox db \<longleftrightarrow>
     distinct (map ib_key (inbox db)) \<and> list_all inbox_check (inbox db)
     \<and> list_all (\<lambda>r. ib_tenant r \<in> set (ib_tenants db)) (inbox db)"

definition inbox_final :: "inbox_row \<Rightarrow> bool" where
  "inbox_final r \<longleftrightarrow> ib_status r \<in> {''completed'', ''dead_lettered''}"

definition inbox_row_step :: "inbox_row \<Rightarrow> inbox_row \<Rightarrow> bool" where
  "inbox_row_step r r' \<longleftrightarrow>
     ib_key r' = ib_key r \<and> (inbox_final r \<longrightarrow> r' = r)
     \<and> (ib_attempts r < ib_attempts r'
        \<or> ib_attempts r' = ib_attempts r \<and> (ib_status r \<noteq> ''processing'' \<longrightarrow> r' = r))"

definition inbox_progress :: "inbox_db \<Rightarrow> inbox_db \<Rightarrow> bool" where
  "inbox_progress db db' \<longleftrightarrow>
     ib_tenants db' = ib_tenants db
     \<and> (\<forall>r \<in> set (inbox db). \<exists>r' \<in> set (inbox db'). inbox_row_step r r')"

definition inbox_sound :: "inbox_db \<Rightarrow> inbox_db \<Rightarrow> bool" where
  "inbox_sound db db' \<longleftrightarrow> (wf_inbox db \<longrightarrow> wf_inbox db' \<and> inbox_progress db db')"

lemma inbox_row_step_refl [simp]: "inbox_row_step r r"
  by (simp add: inbox_row_step_def)

lemma inbox_row_step_trans: "inbox_row_step a b \<Longrightarrow> inbox_row_step b c \<Longrightarrow> inbox_row_step a c"
  unfolding inbox_row_step_def by (elim conjE disjE) auto

lemma inbox_progress_refl [simp]: "inbox_progress db db"
  unfolding inbox_progress_def by (blast intro: inbox_row_step_refl)

lemma inbox_progress_trans: "inbox_progress a b \<Longrightarrow> inbox_progress b c \<Longrightarrow> inbox_progress a c"
  unfolding inbox_progress_def by (metis inbox_row_step_trans)

lemma inbox_sound_refl [simp]: "inbox_sound db db"
  by (simp add: inbox_sound_def)

lemma inbox_sound_trans [trans]: "inbox_sound a b \<Longrightarrow> inbox_sound b c \<Longrightarrow> inbox_sound a c"
  unfolding inbox_sound_def by (blast intro: inbox_progress_trans)

lemma transact_inbox_sound:
  "(\<And>x db'. body db = Inr (x, db') \<Longrightarrow> inbox_sound db db') \<Longrightarrow> inbox_sound db (snd (transact body db))"
  by (auto simp: transact_def split: sum.splits)

lemma inbox_stmt_Inr [simp]: "inbox_stmt pg fault r = Inr x \<longleftrightarrow> \<not> fault \<and> r = Inr x"
  by (simp add: inbox_stmt_def)

lemma update_inbox_sound:
  assumes "\<forall>r \<in> set (inbox db). p r \<longrightarrow> inbox_check (f r)"
    and "\<And>r. r \<in> set (inbox db) \<Longrightarrow> p r \<Longrightarrow> inbox_row_step r (f r)"
    and keys: "\<And>r. ib_key (f r) = ib_key r"
  shows "inbox_sound db (db\<lparr>inbox := update_where p f (inbox db)\<rparr>)"
proof -
  have t: "ib_tenant (f r) = ib_tenant r" for r using keys [of r] by (simp add: ib_key_def)
  have "\<exists>r' \<in> set (update_where p f (inbox db)). inbox_row_step r r'" if "r \<in> set (inbox db)" for r
  proof (rule bexI)
    show "inbox_row_step r (if p r then f r else r)" using assms(2) [OF that] by simp
    show "(if p r then f r else r) \<in> set (update_where p f (inbox db))" using that by (auto simp: set_update_where)
  qed
  moreover have "list_all (\<lambda>r. ib_tenant r \<in> set (ib_tenants db)) (update_where p f (inbox db))"
    if "wf_inbox db"
    using that by (intro list_all_update_where) (simp_all add: wf_inbox_def t)
  moreover have "list_all inbox_check (update_where p f (inbox db))" if "wf_inbox db"
    using that assms(1) by (intro list_all_update_where) (simp_all add: wf_inbox_def)
  ultimately show ?thesis
    using keys by (simp add: inbox_sound_def wf_inbox_def inbox_progress_def)
qed

subsection \<open>The statements\<close>

lemma inbox_key_row_unique:
  assumes "wf_inbox db" "List.find (\<lambda>r. ib_key r = k) (inbox db) = Some r" "x \<in> set (inbox db)" "ib_key x = k"
  shows "x = r"
proof -
  from assms(2) have "r \<in> set (inbox db)" "ib_key r = k" by (auto simp: find_Some_iff)
  with assms show ?thesis unfolding wf_inbox_def by (metis distinct_map_inj_on)
qed

lemma claimed_row_key [simp]: "ib_key (claimed_inbox_row now n carrier r) = ib_key r"
  by (simp add: claimed_inbox_row_def ib_key_def split: prod.splits)

lemma claimed_row_fields [simp]:
  "ib_status (claimed_inbox_row now n carrier r) = ''processing''"
  "ib_attempts (claimed_inbox_row now n carrier r) = (if n > ib_attempts r then n else ib_attempts r + 1)"
  by (simp_all add: claimed_inbox_row_def split: prod.splits)

lemma new_row_fields [simp]:
  "ib_key (new_inbox_row now t e n carrier) = (t, e)"
  "ib_tenant (new_inbox_row now t e n carrier) = t"
  "ib_status (new_inbox_row now t e n carrier) = ''processing''"
  "ib_attempts (new_inbox_row now t e n carrier) = n"
  by (simp_all add: new_inbox_row_def ib_key_def split: prod.splits)

lemma upsert_inboxE:
  assumes "upsert_inbox now t e n carrier db = Inr (row, db')"
  obtains (inserted) "List.find (\<lambda>r. ib_key r = (t, e)) (inbox db) = None" "inbox_check (new_inbox_row now t e n carrier)"
      "t \<in> set (ib_tenants db)" "row = Some (new_inbox_row now t e n carrier)"
      "db' = db\<lparr>inbox := inbox db @ [new_inbox_row now t e n carrier]\<rparr>"
  | (refused) r where "List.find (\<lambda>r. ib_key r = (t, e)) (inbox db) = Some r" "\<not> inbox_claimable now n r"
      "row = None" "db' = db"
  | (taken) r where "List.find (\<lambda>r. ib_key r = (t, e)) (inbox db) = Some r" "inbox_claimable now n r"
      "\<forall>x \<in> set (inbox db). ib_key x = (t, e) \<longrightarrow> inbox_check (claimed_inbox_row now n carrier x)"
      "row = Some (claimed_inbox_row now n carrier r)"
      "db' = db\<lparr>inbox := update_where (\<lambda>x. ib_key x = (t, e)) (claimed_inbox_row now n carrier) (inbox db)\<rparr>"
  using assms by (auto simp: upsert_inbox_def Let_def sql_update_Inr split: if_splits option.splits)

lemma upsert_inbox_sound:
  assumes "upsert_inbox now t e n carrier db = Inr (row, db')"
  shows "inbox_sound db db'"
  using assms
proof (cases rule: upsert_inboxE)
  case inserted
  have "(t, e) \<notin> set (map ib_key (inbox db))" using inserted(1) by (auto simp: find_None_iff)
  with inserted show ?thesis
    by (auto simp: inbox_sound_def wf_inbox_def inbox_progress_def distinct_map_snoc intro: inbox_row_step_refl)
next
  case (taken r)
  show ?thesis
  proof (cases "wf_inbox db")
    case True
    have "inbox_row_step x (claimed_inbox_row now n carrier x)" if "x \<in> set (inbox db)" "ib_key x = (t, e)" for x
    proof -
      have "x = r" using True taken(1) that by (rule inbox_key_row_unique)
      with taken(2) show ?thesis by (auto simp: inbox_row_step_def inbox_claimable_def inbox_final_def)
    qed
    with taken show ?thesis by (auto intro!: update_inbox_sound)
  qed (simp add: inbox_sound_def)
qed simp

locale inbox_op =
  fixes op :: "inbox_db \<Rightarrow> 'r \<times> inbox_db"
  assumes sound: "inbox_sound db (snd (op db))"
begin

lemma keeps_wf: "wf_inbox db \<Longrightarrow> wf_inbox (snd (op db))"
  using sound [of db] by (simp add: inbox_sound_def)

lemma advances: "wf_inbox db \<Longrightarrow> inbox_progress db (snd (op db))"
  using sound [of db] by (simp add: inbox_sound_def)

lemma keeps_final: "wf_inbox db \<Longrightarrow> r \<in> set (inbox db) \<Longrightarrow> inbox_final r \<Longrightarrow> r \<in> set (inbox (snd (op db)))"
  using advances [of db] unfolding inbox_progress_def inbox_row_step_def by metis

end

lemma inbox_claim_opE:
  assumes "inbox_claim_op pg fault1 fault2 pool now t e n carrier db = (Inr out, db')"
  obtains (claimed) r where "upsert_inbox now t e (uint n) carrier db = Inr (Some r, db')" "0 \<le> ib_attempts r"
      "out = Claimed \<lparr>ic_tenant_id = t, ic_event_id = e, ic_attempts = of_int (ib_attempts r)\<rparr>"
  | (handled) r where "upsert_inbox now t e (uint n) carrier db = Inr (None, db')"
      "filter (\<lambda>r. ib_key r = (t, e)) (inbox db') = [r]"
      "ib_status r \<in> {''completed'', ''dead_lettered'', ''retry_scheduled''}" "out = AlreadyHandled"
  | (in_flight) r where "upsert_inbox now t e (uint n) carrier db = Inr (None, db')"
      "filter (\<lambda>r. ib_key r = (t, e)) (inbox db') = [r]" "ib_status r = ''processing''" "out = InFlight"
proof -
  from assms obtain row db1 where u: "upsert_inbox now t e (uint n) carrier db = Inr (row, db1)"
    by (auto simp: inbox_claim_op_def dest!: transact_eq_InrD split: if_splits)
  note body = transact_eq_InrD [OF assms [unfolded inbox_claim_op_def]]
  show ?thesis
  proof (cases row)
    case (Some r)
    with body u show ?thesis by (intro claimed) (auto split: if_splits)
  next
    case None
    with body u obtain found where q: "query_opt (filter (\<lambda>r. ib_key r = (t, e)) (inbox db1)) = Inr found"
      by (auto split: if_splits)
    with None body u obtain r where r: "found = Some r" by (cases found) (auto split: if_splits)
    then have f: "filter (\<lambda>r. ib_key r = (t, e)) (inbox db1) = [r]" using q by (simp add: query_opt_Some)
    from None body u f show ?thesis
      by (cases "ib_status r = ''processing''") (auto split: if_splits intro: handled in_flight)
  qed
qed

lemma inbox_claim_sound: "inbox_sound db (snd (inbox_claim_op pg fault1 fault2 pool now t e n carrier db))"
proof -
  obtain r db' where o: "inbox_claim_op pg fault1 fault2 pool now t e n carrier db = (r, db')" by fastforce
  show ?thesis
  proof (cases r)
    case (Inl err)
    with o have "db' = db" using transact_eq_InlD [OF o [unfolded inbox_claim_op_def Inl]] by simp
    with o show ?thesis by simp
  next
    case (Inr out)
    from o [unfolded Inr] have "inbox_sound db db'"
      by (cases rule: inbox_claim_opE) (auto dest: upsert_inbox_sound)
    with o show ?thesis by simp
  qed
qed

interpretation claim_op: inbox_op "inbox_claim_op pg fault1 fault2 pool now t e n carrier"
  for pg fault1 fault2 pool now t e n carrier
  by unfold_locales (rule inbox_claim_sound)

lemma settle_claim_sound:
  assumes "\<And>r. ib_key (f r) = ib_key r \<and> ib_attempts (f r) = ib_attempts r"
  shows "inbox_sound db (snd (settle_claim pg fault pool claim f db))"
  unfolding settle_claim_def
  by (rule transact_inbox_sound)
    (auto simp: sql_update_Inr assms inbox_row_step_def inbox_final_def claim_holds_def intro!: update_inbox_sound)

lemmas settled_row_defs = completed_inbox_row_def settled_inbox_row_def released_inbox_row_def ib_key_def

lemma settle_one_db [simp]: "snd (settle_one operation s) = snd s"
  by (auto simp: settle_one_def split: prod.splits sum.splits)

interpretation complete_op: inbox_op "mark_completed pg fault pool now claim"
  for pg fault pool now claim
  by unfold_locales (simp add: mark_completed_def settle_claim_sound settled_row_defs)

interpretation retry_op: inbox_op "mark_retry_scheduled pg fault pool now claim reason"
  for pg fault pool now claim reason
  by unfold_locales (simp add: mark_retry_scheduled_def settle_claim_sound settled_row_defs)

interpretation dead_op: inbox_op "mark_dead_lettered pg fault pool now claim reason"
  for pg fault pool now claim reason
  by unfold_locales (simp add: mark_dead_lettered_def settle_claim_sound settled_row_defs)

lemma release_claim_db:
  "snd (release_claim pg fault pool now claim err db) = snd (settle_claim pg fault pool claim (released_inbox_row now (bounded_text err)) db)"
  by (auto simp: release_claim_def split: prod.splits sum.splits)

interpretation release_op: inbox_op "release_claim pg fault pool now claim err"
  for pg fault pool now claim err
  by unfold_locales (simp add: release_claim_db settle_claim_sound settled_row_defs)

subsection \<open>Actions\<close>

definition act_sound :: "('p, 'e, 'a) action \<Rightarrow> bool" where
  "act_sound m \<longleftrightarrow> (\<forall>db. inbox_sound db (fst (snd (m db))))"

lemma act_soundD: "act_sound m \<Longrightarrow> m db = (r, db', es) \<Longrightarrow> inbox_sound db db'"
  unfolding act_sound_def by (metis fst_conv snd_conv)

lemma act_then_sound [intro]:
  assumes "act_sound m" "\<And>x. act_sound (f x)"
  shows "act_sound (act_then m f)"
  unfolding act_sound_def
proof
  fix db
  obtain r db1 es where m: "m db = (r, db1, es)" by (cases "m db")
  note s = act_soundD [OF assms(1) m]
  show "inbox_sound db (fst (snd (act_then m f db)))"
  proof (cases r)
    case (Inr x)
    obtain r2 db2 es2 where f: "f x db1 = (r2, db2, es2)" by (cases "f x db1")
    from inbox_sound_trans [OF s act_soundD [OF assms(2) f]] show ?thesis
      using m f Inr by (simp add: act_then_def)
  qed (use m s in \<open>simp add: act_then_def\<close>)
qed

lemma act_sound_simps [simp]:
  "act_sound (act_result r)" "act_sound (act_publish g p)" "act_sound (act_emit e)"
  "act_sound (ack_delivery h env)" "act_sound (nack_delivery q env)"
  by (auto simp: act_sound_def act_result_def act_publish_def act_emit_def ack_delivery_def nack_delivery_def
      split: prod.splits option.splits)

lemma act_inbox_sound: "(\<And>db. inbox_sound db (snd (op db))) \<Longrightarrow> act_sound (act_inbox g op)"
  by (auto simp: act_sound_def act_inbox_def split: prod.splits) (metis snd_conv)

lemmas act_inbox_sounds [simp] =
  act_inbox_sound [OF claim_op.sound] act_inbox_sound [OF complete_op.sound] act_inbox_sound [OF retry_op.sound]
  act_inbox_sound [OF dead_op.sound] act_inbox_sound [OF release_op.sound]

lemma hand_over_sound:
  "(\<And>g. act_sound (act_inbox g mark :: ('p, delivery_failure, unit) action))
     \<Longrightarrow> act_sound (hand_over codec otel env headers message claim attempt destination mark :: ('p, delivery_failure, unit) action)"
  unfolding hand_over_def publish_or_fail_def by (intro act_then_sound) simp_all

lemma process_claimed_sound: "act_sound (process_claimed codec otel env headers message claim)"
  unfolding process_claimed_def by (auto intro!: act_then_sound hand_over_sound)

lemma process_delivery_sound: "act_sound (process_delivery codec otel env delivery headers inbound)"
  unfolding process_delivery_def
  by (auto intro!: act_then_sound simp: process_claimed_sound split: claim_outcome.splits)

lemma recover_sound: "act_sound (recover otel env delivery failure)"
  unfolding recover_def recover_invalid_context_def recover_malformed_delivery_def recover_failed_delivery_def
  by (auto intro!: act_then_sound split: option.splits)

lemma handle_delivery_sound: "act_sound (handle_delivery codec otel env delivery)"
  unfolding act_sound_def
proof
  fix db
  let ?m = "\<lambda>db. case delivery_context otel (delivery_headers delivery) of
              Inl e \<Rightarrow> act_result (Inl (failure_invalid_context e)) db
            | Inr ctx \<Rightarrow> process_delivery codec otel env delivery (delivery_headers delivery) ctx db"
  have m: "act_sound ?m"
    by (cases "delivery_context otel (delivery_headers delivery)") (simp_all add: process_delivery_sound)
  obtain r db1 es where d: "?m db = (r, db1, es)" by (cases "?m db")
  show "inbox_sound db (fst (snd (handle_delivery codec otel env delivery db)))"
  proof (cases r)
    case (Inl failure)
    obtain r2 db2 es2 where f: "recover otel env delivery failure db1 = (r2, db2, es2)"
      by (cases "recover otel env delivery failure db1")
    from inbox_sound_trans [OF act_soundD [OF m d] act_soundD [OF recover_sound f]] show ?thesis
      using d f Inl by (simp add: handle_delivery_def)
  qed (use d act_soundD [OF m d] in \<open>simp add: handle_delivery_def\<close>)
qed

lemma consume_events_sound: "inbox_sound db (fst (snd (consume_events codec otel evs db)))"
proof (induction evs arbitrary: db)
  case (Cons ev evs)
  show ?case
  proof (cases ev)
    case (Delivered env delivery)
    obtain r db1 es where h: "handle_delivery codec otel env delivery db = (r, db1, es)"
      by (cases "handle_delivery codec otel env delivery db")
    note s = act_soundD [OF handle_delivery_sound h]
    show ?thesis
    proof (cases r)
      case (Inr u)
      with inbox_sound_trans [OF s Cons.IH [of db1]] h Delivered show ?thesis by (auto split: prod.splits)
    qed (use h s Delivered in simp)
  qed simp_all
qed simp

interpretation consumer: inbox_op "\<lambda>db. (fst (consume_events codec otel evs db), fst (snd (consume_events codec otel evs db)))"
  for codec :: "'p codec" and otel :: "('c, 'b, 'm) order_otel" and evs
  by unfold_locales (simp add: consume_events_sound)

end
