(* ===== verification/OrdersFacts.thy ===== *)
theory OrdersFacts
  imports OrdersMachine
begin

text \<open>
  What each way through the consumer does: the effects of a publication, of handing an event over, of processing and
  of recovery, and when a statement of the inbox succeeds.
\<close>

fun settles :: "'p effect \<Rightarrow> bool" where
  "settles Acked = True"
| "settles (Nacked_requeue _) = True"
| "settles (Sent _ _) = False"
| "settles (Order_consumed _ _) = False"

definition inbox_has :: "inbox_db \<Rightarrow> string \<times> string \<Rightarrow> string \<Rightarrow> bool" where
  "inbox_has db k status \<longleftrightarrow> list_ex (\<lambda>r. ib_key r = k \<and> ib_status r = status) (inbox db)"

definition event_key :: "order_message \<Rightarrow> string \<times> string" where
  "event_key m = (om_tenant_id m, om_event_id m)"

definition copy_of :: "string \<Rightarrow> string \<Rightarrow> 'p \<Rightarrow> string \<Rightarrow> u32 \<Rightarrow> 'p published \<Rightarrow> bool" where
  "copy_of exchange routing_key payload message_id attempt p \<longleftrightarrow>
     pm_exchange p = exchange \<and> pm_routing_key p = routing_key \<and> pm_payload p = payload
     \<and> pm_message_id p = message_id \<and> pm_headers p ''x-order-attempt'' = Some (LongUInt attempt)"

abbreviation retry_copy :: "'p codec \<Rightarrow> order_message \<Rightarrow> u32 \<Rightarrow> 'p published \<Rightarrow> bool" where
  "retry_copy codec m k \<equiv> copy_of SYNTHETIC_EXCHANGE ROUTING_KEY (encode codec (m\<lparr>om_attempt := k\<rparr>)) (om_event_id m) k"

abbreviation dead_copy :: "'p \<Rightarrow> string \<Rightarrow> 'p published \<Rightarrow> bool" where
  "dead_copy payload i \<equiv> copy_of DEAD_LETTER_EXCHANGE DEAD_LETTER_ROUTING_KEY payload i 3"

subsection \<open>Statements of the inbox\<close>

lemma settle_one_InrE:
  assumes "settle_one operation (settle_claim pg fault pool claim f db) = (Inr u, db')"
  obtains r where "r \<in> set (inbox db)" "claim_holds claim (uint (ic_attempts claim)) r"
    "db' = db\<lparr>inbox := update_where (claim_holds claim (uint (ic_attempts claim))) f (inbox db)\<rparr>"
proof -
  let ?p = "claim_holds claim (uint (ic_attempts claim))"
  from assms obtain n where s: "settle_claim pg fault pool claim f db = (Inr n, db')" and n: "n = 1"
    by (auto simp: settle_one_def require_one_row_def split: prod.splits sum.splits if_splits)
  from transact_eq_InrD [OF s [unfolded settle_claim_def]] n
  have c: "count_where ?p (inbox db) = 1" and d: "db' = db\<lparr>inbox := update_where ?p f (inbox db)\<rparr>"
    by (auto simp: attempts_as_i32_def sql_update_Inr split: if_splits)
  from c have "count_where ?p (inbox db) \<noteq> 0" by simp
  then obtain r where "r \<in> set (inbox db)" "?p r" by (auto simp: count_where_eq_0)
  then show thesis using d by (rule that)
qed

lemma settle_one_has:
  assumes "settle_one operation (settle_claim pg fault pool claim f db) = (Inr u, db')"
    and "\<And>r. ib_key (f r) = ib_key r \<and> ib_status (f r) = status"
  shows "inbox_has db' (ic_tenant_id claim, ic_event_id claim) status"
  using assms(1)
proof (cases rule: settle_one_InrE)
  case (1 r)
  then have "f r \<in> set (inbox db')" by (force simp: set_update_where)
  moreover have "ib_key r = (ic_tenant_id claim, ic_event_id claim)" using 1 by (simp add: claim_holds_def ib_key_def)
  ultimately show ?thesis
    using assms(2) [of r] unfolding inbox_has_def list_ex_iff by (metis (no_types, lifting))
qed

lemma settle_one_refused:
  assumes "\<And>r. r \<in> set (inbox db) \<Longrightarrow> \<not> claim_holds claim (uint (ic_attempts claim)) r"
  shows "snd (settle_claim pg fault pool claim f db) = db"
    and "\<exists>err. settle_one operation (settle_claim pg fault pool claim f db) = (Inl err, db)"
proof -
  let ?p = "claim_holds claim (uint (ic_attempts claim))"
  obtain r db' where s: "settle_claim pg fault pool claim f db = (r, db')" by fastforce
  show "snd (settle_claim pg fault pool claim f db) = db"
    and "\<exists>err. settle_one operation (settle_claim pg fault pool claim f db) = (Inl err, db)"
  proof (atomize(full), cases r)
    case (Inl err)
    with transact_eq_InlD [OF s [unfolded settle_claim_def Inl]] s
    show "snd (settle_claim pg fault pool claim f db) = db
      \<and> (\<exists>err. settle_one operation (settle_claim pg fault pool claim f db) = (Inl err, db))"
      by (simp add: settle_one_def)
  next
    case (Inr n)
    have "count_where ?p (inbox db) = 0" using assms by (simp add: count_where_eq_0)
    moreover have "n = count_where ?p (inbox db)" "db' = db\<lparr>inbox := update_where ?p f (inbox db)\<rparr>"
      using transact_eq_InrD [OF s [unfolded settle_claim_def Inr]]
      by (auto simp: attempts_as_i32_def sql_update_Inr split: if_splits)
    ultimately show "snd (settle_claim pg fault pool claim f db) = db
      \<and> (\<exists>err. settle_one operation (settle_claim pg fault pool claim f db) = (Inl err, db))"
      using s Inr assms by (simp add: settle_one_def require_one_row_def)
  qed
qed

lemma mark_has:
  "mark_completed pg fault pool now claim db = (Inr u, db')
     \<Longrightarrow> inbox_has db' (ic_tenant_id claim, ic_event_id claim) ''completed''"
  "mark_retry_scheduled pg fault pool now claim reason db = (Inr u, db')
     \<Longrightarrow> inbox_has db' (ic_tenant_id claim, ic_event_id claim) ''retry_scheduled''"
  "mark_dead_lettered pg fault pool now claim reason db = (Inr u, db')
     \<Longrightarrow> inbox_has db' (ic_tenant_id claim, ic_event_id claim) ''dead_lettered''"
  unfolding mark_completed_def mark_retry_scheduled_def mark_dead_lettered_def
  by (erule settle_one_has, simp add: settled_row_defs)+

subsection \<open>Sequencing\<close>

lemma act_thenE:
  assumes "act_then m f db = (r, db', es)"
  obtains (failed) e where "m db = (Inl e, db', es)" "r = Inl e"
  | (went_on) x db1 es1 es2 where "m db = (Inr x, db1, es1)" "f x db1 = (r, db', es2)" "es = es1 @ es2"
  using assms by (auto simp: act_then_def split: prod.splits sum.splits)

lemma act_then_Inr:
  "act_then m f db = (Inr y, db', es) \<longleftrightarrow>
     (\<exists>x db1 es1 es2. m db = (Inr x, db1, es1) \<and> f x db1 = (Inr y, db', es2) \<and> es = es1 @ es2)"
  by (auto simp: act_then_def split: prod.splits sum.splits)

lemma act_inbox_eq: "act_inbox g op db = (r, db', es) \<longleftrightarrow> es = [] \<and> (\<exists>s. op db = (s, db') \<and> r = map_err g s)"
  by (auto simp: act_inbox_def split: prod.splits)

lemma act_result_eq: "act_result x db = (r, db', es) \<longleftrightarrow> x = r \<and> db' = db \<and> es = []"
  by (auto simp: act_result_def)

lemma act_publish_eq: "act_publish g p db = (r, db', es) \<longleftrightarrow> db' = db \<and> r = map_err g (fst p) \<and> es = snd p"
  by (auto simp: act_publish_def split: prod.splits)

lemma act_Inr:
  "act_inbox g op db = (Inr x, db', es) \<longleftrightarrow> es = [] \<and> op db = (Inr x, db')"
  "act_publish g2 p db = (Inr u, db', es) \<longleftrightarrow> db' = db \<and> p = (Inr u, es)"
  "act_emit e db = (Inr u, db', es) \<longleftrightarrow> db' = db \<and> es = [e]"
  "act_result y db = (Inr x, db', es) \<longleftrightarrow> y = Inr x \<and> db' = db \<and> es = []"
  "ack_delivery h env db = (Inr u, db', es) \<longleftrightarrow> de_ack env = None \<and> db' = db \<and> es = [Acked]"
  by (auto simp: act_inbox_def act_publish_def act_emit_def act_result_def ack_delivery_def split: prod.splits option.splits)

lemma ack_delivery_eq:
  "ack_delivery g env db = (r, db', es) \<longleftrightarrow>
     db' = db \<and> (case de_ack env of None \<Rightarrow> r = Inr () \<and> es = [Acked] | Some e \<Rightarrow> r = Inl (g e) \<and> es = [])"
  by (auto simp: ack_delivery_def split: option.splits)

lemma nack_delivery_eq:
  "nack_delivery q env db = (r, db', es) \<longleftrightarrow>
     db' = db \<and> (case de_nack env of None \<Rightarrow> r = Inr () \<and> es = [Nacked_requeue q] | Some e \<Rightarrow> r = Inl e \<and> es = [])"
  by (auto simp: nack_delivery_def split: option.splits)

lemmas act_eqs = act_inbox_eq act_result_eq act_publish_eq ack_delivery_eq nack_delivery_eq

subsection \<open>Publications\<close>

lemma publish_outcome:
  "case publish_confirm_with_outcome io rk payload headers mid ex of
     (Inr _, es) \<Rightarrow> es = [Sent \<lparr>pm_exchange = ex, pm_routing_key = rk, pm_payload = payload, pm_headers = headers,
                              pm_message_id = mid\<rparr> True]
   | (Inl e, es) \<Rightarrow> \<forall>x \<in> set es. \<exists>p. x = Sent p False"
  by (auto simp: publish_confirm_with_outcome_def Let_def split: sum.splits publish_io.splits prod.splits)

lemma republish_headers_attempt:
  "republish_headers otel ctx k = Inr h \<Longrightarrow> h ''x-order-attempt'' = Some (LongUInt k)"
  by (auto simp: republish_headers_def Let_def)

lemma republish_outcome:
  "case republish otel io payload headers mid k dest of
     (Inr _, es) \<Rightarrow> (\<exists>p. es = [Sent p True] \<and> copy_of (rd_exchange dest) (rd_routing_key dest) payload mid k p)
   | (Inl e, es) \<Rightarrow> \<forall>x \<in> set es. \<exists>p. x = Sent p False"
proof (cases "extract_context otel headers")
  case (Inr inbound)
  let ?ctx = "context_with_inbound_baggage (oo_api otel) (oo_current otel) inbound"
  show ?thesis
  proof (cases "republish_headers otel ?ctx k")
    case (Inr h)
    let ?h = "case amqp_header_value headers ''messaging.orphan'' of None \<Rightarrow> h
      | Some marker \<Rightarrow> h(''messaging.orphan'' \<mapsto> LongString (trim marker))"
    have "?h ''x-order-attempt'' = Some (LongUInt k)"
      using republish_headers_attempt [OF Inr] by (simp split: option.split)
    with publish_outcome [where io = io and rk = "rd_routing_key dest" and payload = payload and headers = ?h
        and mid = mid and ex = "rd_exchange dest"] Inr \<open>extract_context otel headers = Inr inbound\<close>
    show ?thesis by (auto simp: republish_def copy_of_def split: prod.splits sum.splits)
  qed (use Inr in \<open>simp add: republish_def\<close>)
qed (simp add: republish_def)

lemma republish_Inr:
  "republish otel io payload headers mid k dest = (Inr u, es)
     \<Longrightarrow> \<exists>p. es = [Sent p True] \<and> copy_of (rd_exchange dest) (rd_routing_key dest) payload mid k p"
  using republish_outcome [where otel = otel and io = io and payload = payload and headers = headers and mid = mid
    and k = k and dest = dest] by simp

lemma republish_Inl:
  "republish otel io payload headers mid k dest = (Inl e, es) \<Longrightarrow> \<forall>x \<in> set es. \<exists>p. x = Sent p False"
  using republish_outcome [where otel = otel and io = io and payload = payload and headers = headers and mid = mid
    and k = k and dest = dest] by simp

lemma unconfirmed_settle_nothing: "\<forall>x \<in> set es. \<exists>p. x = Sent p False \<Longrightarrow> filter settles es = []"
  by (auto simp: filter_empty_conv)

subsection \<open>Processing\<close>

lemma hand_over_Inr:
  assumes "hand_over codec otel env headers m claim k dest mark db = (Inr u, db', es)"
  shows "(\<exists>p. es = [Sent p True, Acked] \<and> copy_of (rd_exchange dest) (rd_routing_key dest)
      (encode codec (m\<lparr>om_attempt := k\<rparr>)) (om_event_id m) k p) \<and> mark db = (Inr (), db')"
proof -
  from assms obtain es1 where
    r: "republish otel (de_publish env) (encode codec (m\<lparr>om_attempt := k\<rparr>)) headers (om_event_id m) k dest = (Inr (), es1)"
    and m: "mark db = (Inr (), db')" and es: "es = es1 @ [Acked]"
    unfolding hand_over_def publish_or_fail_def by (auto simp: act_then_Inr act_Inr)
  from republish_Inr [OF r] m es show ?thesis by auto
qed

text \<open>Actions that settle nothing, actions that settle the delivery exactly when they succeed.\<close>

definition quiet :: "('p, 'e, 'a) action \<Rightarrow> bool" where
  "quiet m \<longleftrightarrow> (\<forall>db. filter settles (snd (snd (m db))) = [])"

definition settles_last :: "('p, 'e, 'a) action \<Rightarrow> bool" where
  "settles_last m \<longleftrightarrow> (\<forall>db. length (filter settles (snd (snd (m db)))) = (case fst (m db) of Inl _ \<Rightarrow> 0 | Inr _ \<Rightarrow> 1))"

lemma quietD: "quiet m \<Longrightarrow> m db = (r, db', es) \<Longrightarrow> filter settles es = []"
  unfolding quiet_def by (metis snd_conv)

lemma settles_lastD:
  "settles_last m \<Longrightarrow> m db = (r, db', es) \<Longrightarrow> length (filter settles es) = (case r of Inl _ \<Rightarrow> 0 | Inr _ \<Rightarrow> 1)"
  unfolding settles_last_def by (metis fst_conv snd_conv)

lemma quiet_simps [simp]:
  "quiet (act_result r)" "quiet (act_inbox g op)" "quiet (act_emit (Order_consumed a b))"
  by (auto simp: quiet_def act_result_def act_inbox_def act_emit_def split: prod.splits)

lemma quiet_publish [simp]: "quiet (act_publish g (republish otel io payload headers mid k dest))"
proof -
  obtain r es where p: "republish otel io payload headers mid k dest = (r, es)" by fastforce
  have "filter settles es = []"
  proof (cases r)
    case (Inl e)
    with p show ?thesis by (intro unconfirmed_settle_nothing republish_Inl) simp
  next
    case (Inr u)
    from republish_Inr [OF p [unfolded Inr]] show ?thesis by auto
  qed
  with p show ?thesis by (simp add: quiet_def act_publish_def)
qed

lemma settles_last_simps [simp]:
  "settles_last (act_result (Inl e))" "settles_last (ack_delivery h env)" "settles_last (nack_delivery q env)"
  by (auto simp: settles_last_def act_result_def ack_delivery_def nack_delivery_def split: option.splits)

lemma settles_last_then [intro]:
  assumes "quiet m" "\<And>x. settles_last (f x)"
  shows "settles_last (act_then m f)"
  unfolding settles_last_def
proof
  fix db
  obtain r db1 es where m: "m db = (r, db1, es)" by (cases "m db")
  note q = quietD [OF assms(1) m]
  show "length (filter settles (snd (snd (act_then m f db)))) = (case fst (act_then m f db) of Inl _ \<Rightarrow> 0 | Inr _ \<Rightarrow> 1)"
  proof (cases r)
    case (Inr x)
    obtain r2 db2 es2 where f: "f x db1 = (r2, db2, es2)" by (cases "f x db1")
    from q settles_lastD [OF assms(2) f] m f Inr show ?thesis by (simp add: act_then_def)
  qed (use q m in \<open>simp add: act_then_def\<close>)
qed

lemma hand_over_settles: "settles_last (hand_over codec otel env headers m claim k dest mark)"
  unfolding hand_over_def publish_or_fail_def by (intro settles_last_then) simp_all

lemma process_settles: "settles_last (process_delivery codec otel env delivery headers inbound)"
  unfolding process_delivery_def process_claimed_def
  by (auto intro!: settles_last_then hand_over_settles split: claim_outcome.splits)

lemma recover_settles: "settles_last (recover otel env delivery failure)"
  unfolding recover_def recover_invalid_context_def recover_malformed_delivery_def recover_failed_delivery_def
  by (auto intro!: settles_last_then split: option.splits)

text \<open>A delivery is malformed before anything was done.\<close>

definition malformed_early :: "('p, delivery_failure, 'a) action \<Rightarrow> bool" where
  "malformed_early m \<longleftrightarrow> (\<forall>db e db' es. m db = (Inl e, db', es) \<longrightarrow> df_malformed e \<longrightarrow> db' = db \<and> es = [] \<and> \<not> df_dead_letter_without_republish e)"

definition never_malformed :: "('p, delivery_failure, 'a) action \<Rightarrow> bool" where
  "never_malformed m \<longleftrightarrow> (\<forall>db e db' es. m db = (Inl e, db', es) \<longrightarrow> \<not> df_malformed e)"

lemma act_then_Inl:
  "act_then m f db = (Inl e, db', es) \<longleftrightarrow>
     m db = (Inl e, db', es)
     \<or> (\<exists>x db1 es1 es2. m db = (Inr x, db1, es1) \<and> f x db1 = (Inl e, db', es2) \<and> es = es1 @ es2)"
  by (auto simp: act_then_def split: prod.splits sum.splits)

lemma act_then_result: "act_then (act_result (Inr x)) f = f x"
  by (rule ext) (simp add: act_then_def act_result_def split: prod.split)

lemma never_malformed_then [intro]:
  "never_malformed m \<Longrightarrow> (\<And>x. never_malformed (f x)) \<Longrightarrow> never_malformed (act_then m f)"
  unfolding never_malformed_def act_then_Inl by blast

lemma malformed_early_then:
  "(\<And>x. malformed_early (f x)) \<Longrightarrow> malformed_early (act_then (act_result (map_err (\<lambda>e. failure_malformed e m) r)) f)"
  unfolding malformed_early_def
  by (cases r) (auto simp: act_then_Inl act_result_eq failure_malformed_def)

lemma never_malformed_early: "never_malformed m \<Longrightarrow> malformed_early m"
  by (auto simp: never_malformed_def malformed_early_def)

lemma failure_flags [simp]:
  "\<not> df_malformed (failure_retryable e m c p)" "\<not> df_malformed (failure_ack_unknown e m c p)"
  by (simp_all add: failure_retryable_def failure_ack_unknown_def)

lemma never_malformed_simps [simp]:
  "never_malformed (act_result (Inl (failure_retryable a m c p)))"
  "never_malformed (act_result (ok_or (failure_retryable a m c p) z))"
  "never_malformed (act_emit e)"
  "never_malformed (act_inbox (\<lambda>e. failure_retryable e m c p) op)"
  "never_malformed (ack_delivery (\<lambda>e. failure_ack_unknown e m c p) env)"
  "never_malformed (publish_or_fail otel io payload headers k dest msg claim)"
  by (auto simp: never_malformed_def act_result_eq act_emit_def act_inbox_def ack_delivery_def publish_or_fail_def
      act_publish_def map_err_def split: option.splits prod.splits sum.splits)

lemma process_malformed_early: "malformed_early (process_delivery codec otel env delivery headers inbound)"
  unfolding process_delivery_def process_claimed_def hand_over_def
  by (intro malformed_early_then never_malformed_early never_malformed_then)
    (auto intro!: never_malformed_then split: claim_outcome.splits)

text \<open>
  When a delivery is malformed, by its own contents: the body does not decode; or its attempt number is not one of 1, 2, 3,
  or the header gives no such number or another one; or one of the four identifiers is blank; or the message id names another event.
\<close>

definition malformed_delivery :: "'p codec \<Rightarrow> 'p amqp_delivery \<Rightarrow> bool" where
  "malformed_delivery codec delivery \<longleftrightarrow>
     (case decode codec (dl_data delivery) of
        Inl _ \<Rightarrow> True
      | Inr m \<Rightarrow>
          om_attempt m \<notin> {1, 2, 3} \<or> header_attempt (delivery_headers delivery) \<notin> {Inr None, Inr (Some (om_attempt m))}
          \<or> blank (om_event_id m) \<or> blank (om_order_id m) \<or> blank (om_tenant_id m) \<or> blank (om_customer_id m)
          \<or> dl_message_id delivery \<notin> {None, Some (om_event_id m)})"

lemma uint_le_3: "uint (w :: u32) \<le> 3 \<Longrightarrow> w \<in> {0, 1, 2, 3}"
proof -
  assume "uint w \<le> 3"
  then have "uint w = uint (0::u32) \<or> uint w = uint (1::u32) \<or> uint w = uint (2::u32) \<or> uint w = uint (3::u32)"
    using uint_ge_0 [of w] by (simp add: le_less) presburger
  then show ?thesis by (simp only: insert_iff word_uint_eq_iff) blast
qed

lemma canonical_attempt_ok:
  "is_ok (canonical_attempt a h) \<longleftrightarrow> a \<in> {1, 2, 3} \<and> header_attempt h \<in> {Inr None, Inr (Some a)}"
proof (cases "a = 0 \<or> uint a > 3")
  case True
  then show ?thesis by (auto simp: canonical_attempt_def ORDERS_MAX_ATTEMPTS_def is_ok_def)
next
  case False
  then have "a \<in> {1, 2, 3}" using uint_le_3 [of a] by auto
  with False show ?thesis
    by (cases "header_attempt h")
      (auto simp: canonical_attempt_def ORDERS_MAX_ATTEMPTS_def is_ok_def u32_to_i32_def i32_max_def split: option.splits)
qed

lemma validate_message_ok:
  "is_ok (validate_message m d) \<longleftrightarrow> \<not> blank (om_event_id m) \<and> \<not> blank (om_order_id m) \<and> \<not> blank (om_tenant_id m)
     \<and> \<not> blank (om_customer_id m) \<and> dl_message_id d \<in> {None, Some (om_event_id m)}"
  by (auto simp: validate_message_def is_ok_def split: option.splits)

lemma process_malformed_only:
  assumes "process_delivery codec otel env d (delivery_headers d) inbound db = (Inl failure, db', es)" "df_malformed failure"
  shows "malformed_delivery codec d"
proof (rule ccontr)
  assume "\<not> malformed_delivery codec d"
  then obtain m where m: "decode codec (dl_data d) = Inr m" "is_ok (canonical_attempt (om_attempt m) (delivery_headers d))"
    "is_ok (validate_message m d)"
    unfolding canonical_attempt_ok validate_message_ok malformed_delivery_def by (cases "decode codec (dl_data d)") auto
  then obtain a u where "canonical_attempt (om_attempt m) (delivery_headers d) = Inr a" "validate_message m d = Inr u"
    unfolding is_ok_def by (auto split: sum.splits)
  with m(1) have "never_malformed (process_delivery codec otel env d (delivery_headers d) inbound)"
    unfolding process_delivery_def process_claimed_def hand_over_def
    by (auto simp: act_then_result intro!: never_malformed_then split: claim_outcome.splits)
  with assms show False by (auto simp: never_malformed_def)
qed

lemma recover_malformed_acked:
  assumes "recover_malformed_delivery otel env delivery headers db = (r, db', es)" "Acked \<in> set es"
  obtains p where "r = Inr ()" "db' = db" "es = [Sent p True, Acked]"
    "dead_copy (dl_data delivery) (delivery_message_id delivery) p"
proof -
  let ?p = "republish otel (de_publish env) (dl_data delivery) headers (delivery_message_id delivery)
      (of_int ORDERS_MAX_ATTEMPTS) (DEAD_LETTER ''malformed-dead-letter'')"
  obtain r1 es1 where p: "?p = (r1, es1)" by fastforce
  show thesis
  proof (cases r1)
    case (Inl e)
    with assms p republish_Inl [OF p [unfolded Inl]] show thesis
      by (auto simp: recover_malformed_delivery_def act_then_def act_publish_def)
  next
    case (Inr u)
    from republish_Inr [OF p [unfolded Inr]] obtain q where
      q: "es1 = [Sent q True]" "dead_copy (dl_data delivery) (delivery_message_id delivery) q"
      by (auto simp: DEAD_LETTER_def ORDERS_MAX_ATTEMPTS_def)
    with assms p Inr show thesis
      by (intro that [of q]) (auto simp: recover_malformed_delivery_def act_then_def act_publish_def ack_delivery_def split: option.splits)
  qed
qed

lemma handle_deliveryE:
  assumes "handle_delivery codec otel env delivery db = (r, db', es)"
  obtains (handled) ctx where "r = Inr ()" "delivery_context otel (delivery_headers delivery) = Inr ctx"
      "process_delivery codec otel env delivery (delivery_headers delivery) ctx db = (Inr (), db', es)"
  | (invalid) e r2 where "delivery_context otel (delivery_headers delivery) = Inl e"
      "nack_delivery False env db = (r2, db', es)" "r = map_err (\<lambda>e. ''orders consumer failed to settle delivery'') r2"
  | (failed) ctx failure db1 es1 es2 r2 where "delivery_context otel (delivery_headers delivery) = Inr ctx"
      "process_delivery codec otel env delivery (delivery_headers delivery) ctx db = (Inl failure, db1, es1)"
      "recover otel env delivery failure db1 = (r2, db', es2)" "es = es1 @ es2"
      "r = map_err (\<lambda>e. ''orders consumer failed to settle delivery'') r2"
proof (cases "delivery_context otel (delivery_headers delivery)")
  case (Inl e)
  obtain r2 db2 es2 where n: "nack_delivery False env db = (r2, db2, es2 :: 'a effect list)" by (metis prod_cases3)
  with Inl assms show thesis
    by (intro invalid [of e r2]) (auto simp: handle_delivery_def act_result_def recover_def failure_invalid_context_def
        recover_invalid_context_def)
next
  case (Inr ctx)
  obtain r1 db1 es1 where p: "process_delivery codec otel env delivery (delivery_headers delivery) ctx db = (r1, db1, es1)"
    by (cases "process_delivery codec otel env delivery (delivery_headers delivery) ctx db")
  show thesis
  proof (cases r1)
    case (Inl failure)
    obtain r2 db2 es2 where "recover otel env delivery failure db1 = (r2, db2, es2)"
      by (cases "recover otel env delivery failure db1")
    with Inl Inr p assms show thesis by (intro failed) (auto simp: handle_delivery_def)
  next
    case (Inr u)
    with p assms \<open>delivery_context otel (delivery_headers delivery) = Inr ctx\<close> show thesis
      by (intro handled) (auto simp: handle_delivery_def)
  qed
qed

end
