(* ===== verification/OrdersPropagator.thy ===== *)
theory OrdersPropagator
  imports OrdersConsumer
begin

text \<open>
  What the orders service relies on in the OpenTelemetry propagators, as the W3C documents describe them, and what follows for the
  headers it writes and reads. A context is \<open>portable\<close> when its baggage is not empty and every entry has an
  allow-listed name, a value of letters, digits and \<open>- . _ ~\<close> (which no percent-encoding changes) and no properties; the
  headers of such a context are proved to pass the validation of the consumer and to carry the entries over.
\<close>

definition is_unreserved :: "char \<Rightarrow> bool" where
  "is_unreserved c \<longleftrightarrow> is_ascii_alphanumeric c \<or> c \<in> set ''-._~''"

text \<open>\<open>bare\<close> is the metadata of an entry without properties.\<close>

definition plain_entry :: "'m \<Rightarrow> string \<times> string \<times> 'm \<Rightarrow> bool" where
  "plain_entry bare = (\<lambda>(k, v, m). is_safe_baggage_entry k v \<and> v \<noteq> [] \<and> list_all is_unreserved v \<and> m = bare)"

definition entry_member :: "string \<times> string \<times> 'm \<Rightarrow> string" where
  "entry_member = (\<lambda>(k, v, m). k @ ''='' @ v)"

definition baggage_text :: "(string \<times> string \<times> 'm) list \<Rightarrow> string" where
  "baggage_text es = join_with (CHR '','') (map entry_member es)"

definition w3c_traceparent :: "string \<Rightarrow> bool" where
  "w3c_traceparent tp \<longleftrightarrow>
     (\<exists>tid sid fl. tp = ''00-'' @ tid @ ''-'' @ sid @ ''-'' @ fl \<and> is_lower_hex tid 32 \<and> \<not> all_zero_hex tid
        \<and> is_lower_hex sid 16 \<and> \<not> all_zero_hex sid \<and> fl \<in> {''00'', ''01''})"

text \<open>
  Trace context: injection sets no field but the three of the carrier, writes the traceparent of a valid span and none for another;
  extraction from a carrier whose fields are well formed finds a valid span in such a traceparent.
\<close>

definition trace_laws :: "('c, 'b, 'm) order_otel \<Rightarrow> bool" where
  "trace_laws otel \<longleftrightarrow>
     (\<forall>ctx k. k \<notin> {''traceparent'', ''tracestate'', ''baggage''} \<longrightarrow> oo_inject otel ctx k = None)
     \<and> (\<forall>ctx. if oo_valid otel (fst ctx)
          then \<exists>tp. w3c_traceparent tp \<and> oo_inject otel ctx ''traceparent'' = Some (LongString tp)
          else oo_inject otel ctx ''traceparent'' = None)
     \<and> (\<forall>h tp. validate_propagation_headers h = Inr () \<longrightarrow> w3c_traceparent tp \<longrightarrow> h ''traceparent'' = Some (LongString tp)
          \<longrightarrow> oo_valid otel (fst (oo_extract otel h)))"

text \<open>
  Baggage: one entry per name; collecting plain entries keeps them; empty baggage is not written, plain entries are written as
  a comma-separated list of \<open>name=value\<close>, and reading such a list gives the entries back.
\<close>

definition carrier_laws :: "'m \<Rightarrow> ('c, 'b, 'm) order_otel \<Rightarrow> bool" where
  "carrier_laws bare otel \<longleftrightarrow>
     (\<forall>b. distinct (map fst (bg_iter (oo_api otel) b)))
     \<and> (\<forall>es. list_all (plain_entry bare) es \<longrightarrow> distinct (map fst es)
          \<longrightarrow> set (bg_iter (oo_api otel) (bg_collect (oo_api otel) es)) = set es)
     \<and> (\<forall>c b. bg_iter (oo_api otel) b = [] \<longrightarrow> oo_inject otel (c, b) ''baggage'' = None)
     \<and> (\<forall>c b. bg_iter (oo_api otel) b \<noteq> [] \<longrightarrow> list_all (plain_entry bare) (bg_iter (oo_api otel) b)
          \<longrightarrow> oo_inject otel (c, b) ''baggage'' = Some (LongString (baggage_text (bg_iter (oo_api otel) b))))
     \<and> (\<forall>h es. es \<noteq> [] \<longrightarrow> list_all (plain_entry bare) es \<longrightarrow> distinct (map fst es)
          \<longrightarrow> h ''baggage'' = Some (LongString (baggage_text es))
          \<longrightarrow> set (bg_iter (oo_api otel) (snd (oo_extract otel h))) = set es)"

text \<open>The trace state of a span fits the limits of the consumer, or is empty and will be replaced.\<close>

definition tracestate_fits :: "('c, 'b, 'm) order_otel \<Rightarrow> 'c \<Rightarrow> bool" where
  "tracestate_fits otel sp \<longleftrightarrow>
     (\<forall>b. case amqp_header_value (oo_inject otel (sp, b)) ''tracestate'' of
        None \<Rightarrow> True
      | Some v \<Rightarrow> blank v \<or> amqp_validate_tracestate (trim v) = Inr ())"

definition portable :: "'m \<Rightarrow> ('c, 'b, 'm) order_otel \<Rightarrow> ('c, 'b) otel_context \<Rightarrow> bool" where
  "portable bare otel ctx \<longleftrightarrow>
     bg_iter (oo_api otel) (snd ctx) \<noteq> [] \<and> list_all (plain_entry bare) (bg_iter (oo_api otel) (snd ctx))"

subsection \<open>The laws one by one\<close>

lemma trace_fields:
  assumes "trace_laws otel"
  shows "oo_inject otel ctx ''messaging.orphan'' = None"
proof -
  from assms have "\<forall>ctx k. k \<notin> {''traceparent'', ''tracestate'', ''baggage''} \<longrightarrow> oo_inject otel ctx k = None"
    unfolding trace_laws_def by (elim conjE)
  from this [rule_format, of "''messaging.orphan''" ctx] show ?thesis by simp
qed

lemma trace_inject:
  assumes "trace_laws otel"
  shows "oo_valid otel (fst ctx) \<Longrightarrow> \<exists>tp. w3c_traceparent tp \<and> oo_inject otel ctx ''traceparent'' = Some (LongString tp)"
    and "\<not> oo_valid otel (fst ctx) \<Longrightarrow> oo_inject otel ctx ''traceparent'' = None"
proof -
  from assms have "\<forall>ctx. if oo_valid otel (fst ctx)
      then \<exists>tp. w3c_traceparent tp \<and> oo_inject otel ctx ''traceparent'' = Some (LongString tp)
      else oo_inject otel ctx ''traceparent'' = None"
    unfolding trace_laws_def by (elim conjE)
  note law = this [rule_format, of ctx]
  show "oo_valid otel (fst ctx) \<Longrightarrow> \<exists>tp. w3c_traceparent tp \<and> oo_inject otel ctx ''traceparent'' = Some (LongString tp)"
    using law by (simp only: if_True)
  show "\<not> oo_valid otel (fst ctx) \<Longrightarrow> oo_inject otel ctx ''traceparent'' = None"
    using law by (simp only: if_False)
qed

lemma trace_extract:
  assumes "trace_laws otel" "validate_propagation_headers h = Inr ()" "w3c_traceparent tp" "h ''traceparent'' = Some (LongString tp)"
  shows "oo_valid otel (fst (oo_extract otel h))"
proof -
  from assms(1) have "\<forall>h tp. validate_propagation_headers h = Inr () \<longrightarrow> w3c_traceparent tp
      \<longrightarrow> h ''traceparent'' = Some (LongString tp) \<longrightarrow> oo_valid otel (fst (oo_extract otel h))"
    unfolding trace_laws_def by (elim conjE)
  from this [rule_format, OF assms(2-4)] show ?thesis .
qed

lemma carrier_distinct: "carrier_laws bare otel \<Longrightarrow> distinct (map fst (bg_iter (oo_api otel) b))"
  by (simp only: carrier_laws_def)

lemma carrier_collect:
  assumes "carrier_laws bare otel" "list_all (plain_entry bare) es" "distinct (map fst es)"
  shows "set (bg_iter (oo_api otel) (bg_collect (oo_api otel) es)) = set es"
proof -
  from assms(1) have "\<forall>es. list_all (plain_entry bare) es \<longrightarrow> distinct (map fst es)
      \<longrightarrow> set (bg_iter (oo_api otel) (bg_collect (oo_api otel) es)) = set es"
    unfolding carrier_laws_def by (elim conjE)
  from this [rule_format, OF assms(2,3)] show ?thesis .
qed

lemma carrier_inject:
  assumes "carrier_laws bare otel"
  shows "bg_iter (oo_api otel) b = [] \<Longrightarrow> oo_inject otel (c, b) ''baggage'' = None"
    and "bg_iter (oo_api otel) b \<noteq> [] \<Longrightarrow> list_all (plain_entry bare) (bg_iter (oo_api otel) b)
      \<Longrightarrow> oo_inject otel (c, b) ''baggage'' = Some (LongString (baggage_text (bg_iter (oo_api otel) b)))"
proof -
  from assms have "\<forall>c b. bg_iter (oo_api otel) b = [] \<longrightarrow> oo_inject otel (c, b) ''baggage'' = None"
    and "\<forall>c b. bg_iter (oo_api otel) b \<noteq> [] \<longrightarrow> list_all (plain_entry bare) (bg_iter (oo_api otel) b)
      \<longrightarrow> oo_inject otel (c, b) ''baggage'' = Some (LongString (baggage_text (bg_iter (oo_api otel) b)))"
    unfolding carrier_laws_def by blast+
  then show "bg_iter (oo_api otel) b = [] \<Longrightarrow> oo_inject otel (c, b) ''baggage'' = None"
    and "bg_iter (oo_api otel) b \<noteq> [] \<Longrightarrow> list_all (plain_entry bare) (bg_iter (oo_api otel) b)
      \<Longrightarrow> oo_inject otel (c, b) ''baggage'' = Some (LongString (baggage_text (bg_iter (oo_api otel) b)))"
    by (simp_all only: simp_thms)
qed

lemma carrier_extract:
  assumes "carrier_laws bare otel" "es \<noteq> []" "list_all (plain_entry bare) es" "distinct (map fst es)"
    and "h ''baggage'' = Some (LongString (baggage_text es))"
  shows "set (bg_iter (oo_api otel) (snd (oo_extract otel h))) = set es"
proof -
  from assms(1) have "\<forall>h es. es \<noteq> [] \<longrightarrow> list_all (plain_entry bare) es \<longrightarrow> distinct (map fst es)
      \<longrightarrow> h ''baggage'' = Some (LongString (baggage_text es))
      \<longrightarrow> set (bg_iter (oo_api otel) (snd (oo_extract otel h))) = set es"
    unfolding carrier_laws_def by (elim conjE)
  from this [rule_format, of es h, OF assms(2-5)] show ?thesis .
qed

subsection \<open>A plain list passes the validation\<close>

lemma safe_keys_plain:
  "k \<in> set SAFE_BUSINESS_BAGGAGE_KEYS \<Longrightarrow> k \<noteq> [] \<and> length k \<le> 20 \<and> list_all is_unreserved k \<and> amqp_valid_baggage_key k"
proof -
  have "list_all (\<lambda>k. k \<noteq> [] \<and> length k \<le> 20 \<and> list_all is_unreserved k \<and> amqp_valid_baggage_key k) SAFE_BUSINESS_BAGGAGE_KEYS"
    by code_simp
  then show "k \<in> set SAFE_BUSINESS_BAGGAGE_KEYS \<Longrightarrow> k \<noteq> [] \<and> length k \<le> 20 \<and> list_all is_unreserved k \<and> amqp_valid_baggage_key k"
    unfolding list_all_iff [of _ SAFE_BUSINESS_BAGGAGE_KEYS] by blast
qed

lemma unreserved_byte:
  "is_unreserved c \<Longrightarrow> 45 \<le> byte c \<and> byte c \<le> 126 \<and> byte c \<noteq> 59 \<and> byte c \<noteq> 61 \<and> c \<noteq> CHR '';'' \<and> c \<noteq> CHR ''='' \<and> c \<noteq> CHR '','' \<and> c \<noteq> CHR ''%''"
  by (auto simp: is_unreserved_def ascii_defs)

lemma encoded_plain: "list_all is_unreserved v \<Longrightarrow> encoded_value_loop v"
proof (induction v rule: encoded_value_loop.induct)
  case (2 c s)
  then show ?case using unreserved_byte [of c] by auto
qed simp

lemma trim_ows_plain: "m \<noteq> [] \<Longrightarrow> \<not> is_ows (hd m) \<Longrightarrow> \<not> is_ows (last m) \<Longrightarrow> trim_ows m = m"
proof -
  assume m: "m \<noteq> []" "\<not> is_ows (hd m)" "\<not> is_ows (last m)"
  have "dropWhile is_ows m = m" "dropWhile is_ows (rev m) = rev m"
    using m by (simp_all only: dropWhile_eq_self_iff hd_rev simp_thms rev_is_Nil_conv)
  then show ?thesis by (simp only: trim_ows_def rev_rev_ident)
qed

lemma plain_member:
  assumes "plain_entry bare (k, v, m)" "k \<notin> set seen"
  shows "amqp_baggage_member seen (entry_member (k, v, m)) = Inr (seen @ [k])"
    and "CHR '','' \<notin> set (entry_member (k, v, m))" and "length (entry_member (k, v, m)) \<le> 149"
    and "\<forall>c \<in> set (entry_member (k, v, m)). 33 \<le> byte c \<and> byte c \<le> 126" and "entry_member (k, v, m) \<noteq> []"
proof -
  have v: "v \<noteq> []" "list_all is_unreserved v" "length v \<le> 128" and k: "k \<in> set SAFE_BUSINESS_BAGGAGE_KEYS"
    using assms(1) by (simp_all add: plain_entry_def is_safe_baggage_entry_def MAX_BUSINESS_BAGGAGE_VALUE_LENGTH_def)
  note kp = safe_keys_plain [OF k]
  have ch: "45 \<le> byte c \<and> byte c \<le> 126 \<and> c \<noteq> CHR '';'' \<and> c \<noteq> CHR ''='' \<and> c \<noteq> CHR '',''" if "c \<in> set k \<union> set v" for c
    using that v(2) kp unreserved_byte [of c] by (auto simp: list_all_iff)
  have ows: "\<not> is_ows c" if "c \<in> set k \<union> set v" for c using ch [OF that] by (auto simp: is_ows_def byte_def)
  have eq: "byte (CHR ''='') = 61" by (simp add: byte_def)
  have m: "entry_member (k, v, m) = k @ CHR ''='' # v" by (simp add: entry_member_def)
  have tm: "trim_ows (k @ CHR ''='' # v) = k @ CHR ''='' # v" "trim_ows k = k" "trim_ows v = v"
    using ows kp v(1) by (auto intro!: trim_ows_plain simp: hd_append last_append)
  have "split_once (CHR ''='') (k @ CHR ''='' # v) = Some (k, v)" using ch [of "CHR ''=''"] by (intro split_once_append) auto
  moreover have "split_on (CHR '';'') v = [v]" using ch [of "CHR '';''"] by (intro split_on_no_sep) auto
  moreover have "valid_encoded_baggage_value v"
    using v encoded_plain by (simp add: valid_encoded_baggage_value_def MAX_ENCODED_BAGGAGE_VALUE_BYTES_def)
  ultimately show "amqp_baggage_member seen (entry_member (k, v, m)) = Inr (seen @ [k])"
    using assms(2) kp by (simp add: amqp_baggage_member_def Let_def m tm)
  show "CHR '','' \<notin> set (entry_member (k, v, m))" using ch [of "CHR '',''"] by (auto simp: m)
  show "length (entry_member (k, v, m)) \<le> 149" using kp v(3) by (simp add: m)
  show "\<forall>c \<in> set (entry_member (k, v, m)). 33 \<le> byte c \<and> byte c \<le> 126" using ch eq by (force simp: m)
  show "entry_member (k, v, m) \<noteq> []" by (simp add: m)
qed

lemma plain_members_fold:
  "list_all (plain_entry bare) es \<Longrightarrow> distinct (map fst es) \<Longrightarrow> set (map fst es) \<inter> set seen = {}
     \<Longrightarrow> try_fold amqp_baggage_member seen (map entry_member es) = Inr (seen @ map fst es)"
proof (induction es arbitrary: seen)
  case (Cons e es)
  obtain k v m where e: "e = (k, v, m)" by (cases e)
  with Cons.prems have "plain_entry bare (k, v, m)" "k \<notin> set seen" by auto
  from plain_member(1) [OF this] Cons show ?case by (auto simp: e)
qed simp

lemma length_join_with: "list_all (\<lambda>m. length m \<le> n) ms \<Longrightarrow> length (join_with c ms) \<le> length ms * (n + 1)"
  by (induction c ms rule: join_with.induct) auto

lemma set_join_with: "set (join_with c ms) \<subseteq> insert c (\<Union> (set ` set ms))"
  by (induction c ms rule: join_with.induct) auto

lemma split_plain_text:
  assumes "list_all (plain_entry bare) es" "es \<noteq> []"
  shows "split_on (CHR '','') (baggage_text es) = map entry_member es"
proof -
  have "CHR '','' \<notin> set (entry_member e)" if "e \<in> set es" for e
    using plain_member(2) [of bare "fst e" "fst (snd e)" "snd (snd e)" "[]"] assms(1) that by (auto simp: list_all_iff)
  then show ?thesis unfolding baggage_text_def using assms(2) by (intro split_join_with) auto
qed

lemma plain_text:
  assumes "list_all (plain_entry bare) es" "distinct (map fst es)" "es \<noteq> []"
  shows "amqp_validate_baggage (baggage_text es) = Inr ()"
    and "\<forall>c \<in> set (baggage_text es). 33 \<le> byte c \<and> byte c \<le> 126" and "baggage_text es \<noteq> []"
proof -
  have pl: "CHR '','' \<notin> set (entry_member e) \<and> length (entry_member e) \<le> 149 \<and> entry_member e \<noteq> []
      \<and> (\<forall>c \<in> set (entry_member e). 33 \<le> byte c \<and> byte c \<le> 126)" if "e \<in> set es" for e
    using plain_member(2-5) [of bare "fst e" "fst (snd e)" "snd (snd e)" "[]"] assms(1) that by (auto simp: list_all_iff)
  have "set (map fst es) \<subseteq> set SAFE_BUSINESS_BAGGAGE_KEYS"
    using assms(1) by (auto simp: list_all_iff plain_entry_def is_safe_baggage_entry_def)
  from card_mono [OF finite_set this] have len: "length es \<le> 8"
    using distinct_card [OF assms(2)] card_length [of SAFE_BUSINESS_BAGGAGE_KEYS] by (simp add: SAFE_BUSINESS_BAGGAGE_KEYS_def)
  have "length (baggage_text es) \<le> length (map entry_member es) * (149 + 1)"
    unfolding baggage_text_def by (rule length_join_with) (simp add: list_all_iff pl)
  with len have l: "length (baggage_text es) \<le> 2048" by simp
  have sp: "split_on (CHR '','') (baggage_text es) = map entry_member es"
    by (rule split_plain_text [OF assms(1,3)])
  show "amqp_validate_baggage (baggage_text es) = Inr ()"
    using l len assms(3) plain_members_fold [OF assms(1,2), of "[]"]
    by (simp add: amqp_validate_baggage_def Let_def sp ORDERS_MAX_BAGGAGE_HEADER_BYTES_def ORDERS_MAX_BAGGAGE_MEMBERS_def)
  have "byte (CHR '','') = 44" by (simp add: byte_def)
  then show "\<forall>c \<in> set (baggage_text es). 33 \<le> byte c \<and> byte c \<le> 126"
    using set_join_with [of "CHR '',''" "map entry_member es"] pl unfolding baggage_text_def by (auto dest!: subsetD)
  show "baggage_text es \<noteq> []"
  proof
    assume "baggage_text es = []"
    then have "[[]] = map entry_member es" using sp by simp
    then show False using pl by (cases es) auto
  qed
qed

lemma required_visible:
  assumes "h k = Some (LongString v)" "\<forall>c \<in> set v. 33 \<le> byte c \<and> byte c \<le> 126" "v \<noteq> []"
  shows "amqp_header_value h k = Some v" "required_amqp_header h k = Inr v" "\<not> blank v"
proof -
  have "\<forall>c \<in> set v. byte c < 128" using assms(2) by auto
  then show "amqp_header_value h k = Some v" using assms(1) by (simp add: amqp_header_value_def valid_utf8_ascii)
  then show "required_amqp_header h k = Inr v" using assms(2,3) by (simp add: required_amqp_header_def trim_visible)
  show "\<not> blank v" using assms(2,3) by (simp add: blank_def trim_visible)
qed

lemma w3c_traceparent_ok:
  assumes "w3c_traceparent tp"
  shows "amqp_validate_traceparent tp = Inr ()" "\<forall>c \<in> set tp. 33 \<le> byte c \<and> byte c \<le> 126" "tp \<noteq> []"
proof -
  from assms obtain tid sid fl where tp: "tp = ''00-'' @ tid @ ''-'' @ sid @ ''-'' @ fl"
    and h: "is_lower_hex tid 32" "\<not> all_zero_hex tid" "is_lower_hex sid 16" "\<not> all_zero_hex sid" "fl \<in> {''00'', ''01''}"
    unfolding w3c_traceparent_def by (elim exE conjE)
  have "is_lower_hex ''00'' 2" "is_lower_hex ''01'' 2" by code_simp+
  then have "is_lower_hex fl 2" using h(5) by auto
  with tp h show "amqp_validate_traceparent tp = Inr ()"
    unfolding amqp_traceparent_eq validate_traceparent_ok by (intro exI conjI)
  have "33 \<le> byte c \<and> byte c \<le> 126" if "c \<in> set s" "is_lower_hex s n" for c s n
    using that by (auto simp: is_lower_hex_def list_all_iff is_ascii_digit_def)
  with h \<open>is_lower_hex fl 2\<close> show "\<forall>c \<in> set tp. 33 \<le> byte c \<and> byte c \<le> 126" unfolding tp by (auto simp: byte_def)
  show "tp \<noteq> []" by (simp add: tp)
qed

subsection \<open>The headers of a portable context\<close>

lemma validate_headers_cong:
  assumes "\<And>k. k \<in> {''traceparent'', ''tracestate'', ''baggage''} \<Longrightarrow> h k = h' k"
  shows "validate_propagation_headers h = validate_propagation_headers h'"
proof -
  have "required_amqp_header h k = required_amqp_header h' k" if "k \<in> {''traceparent'', ''tracestate'', ''baggage''}" for k
    using assms [OF that] by (simp add: required_amqp_header_def amqp_header_value_def)
  then show ?thesis by (simp add: validate_propagation_headers_def)
qed

lemma safe_filter_plain: "list_all (plain_entry bare) es \<Longrightarrow> filter (\<lambda>(k, v, m). is_safe_baggage_entry k v) es = es"
  by (auto simp: list_all_iff plain_entry_def intro!: filter_True)

lemma portable_collect:
  assumes "carrier_laws bare otel" "list_all (plain_entry bare) es" "distinct (map fst es)" "es \<noteq> []"
  shows "portable bare otel (c, bg_collect (oo_api otel) es)"
  using carrier_collect [OF assms(1-3)] assms(2,4)
  by (cases "bg_iter (oo_api otel) (bg_collect (oo_api otel) es)") (auto simp: portable_def list_all_iff)

lemma portable_safe:
  assumes "carrier_laws bare otel" "portable bare otel ctx"
  shows "portable bare otel (with_safe_baggage (oo_api otel) ctx)"
proof -
  have es: "bg_iter (oo_api otel) (snd ctx) \<noteq> []" "list_all (plain_entry bare) (bg_iter (oo_api otel) (snd ctx))"
    using assms(2) by (simp_all add: portable_def)
  show ?thesis
    unfolding with_safe_baggage_def clone_baggage_def safe_filter_plain [OF es(2)]
    by (rule portable_collect [OF assms(1) es(2) carrier_distinct [OF assms(1)] es(1)])
qed

lemma portable_inbound:
  assumes "carrier_laws bare otel" "portable bare otel inbound"
  shows "portable bare otel (context_with_inbound_baggage (oo_api otel) ctx inbound)"
  unfolding context_with_inbound_baggage_def
  by (rule portable_collect [OF assms(1) _ carrier_distinct [OF assms(1)]]) (use assms(2) in \<open>simp_all add: portable_def\<close>)

lemma inject_context_other:
  "k \<noteq> ''tracestate'' \<Longrightarrow> inject_context otel ctx k = oo_inject otel (with_safe_baggage (oo_api otel) ctx) k"
  by (simp add: inject_context_def Let_def split: option.split)

lemma default_tracestate_ok: "required_amqp_header (h(''tracestate'' \<mapsto> LongString ORDERS_DEFAULT_TRACESTATE)) ''tracestate'' = Inr ORDERS_DEFAULT_TRACESTATE"
  "amqp_validate_tracestate ORDERS_DEFAULT_TRACESTATE = Inr ()"
proof -
  have "\<forall>c \<in> set ORDERS_DEFAULT_TRACESTATE. 33 \<le> byte c \<and> byte c \<le> 126" "ORDERS_DEFAULT_TRACESTATE \<noteq> []"
    by (simp_all add: ORDERS_DEFAULT_TRACESTATE_def byte_def)
  then show "required_amqp_header (h(''tracestate'' \<mapsto> LongString ORDERS_DEFAULT_TRACESTATE)) ''tracestate'' = Inr ORDERS_DEFAULT_TRACESTATE"
    by (intro required_visible(2)) simp_all
  show "amqp_validate_tracestate ORDERS_DEFAULT_TRACESTATE = Inr ()" by code_simp
qed

lemma portable_headers:
  assumes laws: "trace_laws otel" "carrier_laws bare otel" and span: "oo_valid otel (fst ctx)" "tracestate_fits otel (fst ctx)"
    and p: "portable bare otel ctx"
  obtains tp es where "validate_propagation_headers (inject_context otel ctx) = Inr ()"
    "inject_context otel ctx ''traceparent'' = Some (LongString tp)" "w3c_traceparent tp"
    "inject_context otel ctx ''baggage'' = Some (LongString (baggage_text es))"
    "es \<noteq> []" "list_all (plain_entry bare) es" "distinct (map fst es)"
proof -
  let ?ctx = "with_safe_baggage (oo_api otel) ctx" and ?h = "inject_context otel ctx"
  have f: "fst ?ctx = fst ctx" by (simp add: with_safe_baggage_def)
  from trace_inject(1) [OF laws(1), of ?ctx] span(1) f obtain tp where
    tp: "w3c_traceparent tp" "oo_inject otel ?ctx ''traceparent'' = Some (LongString tp)" by metis
  let ?es = "bg_iter (oo_api otel) (snd ?ctx)"
  have es: "?es \<noteq> []" "list_all (plain_entry bare) ?es" using portable_safe [OF laws(2) p] by (simp_all add: portable_def)
  have dist: "distinct (map fst ?es)" by (rule carrier_distinct [OF laws(2)])
  have b: "oo_inject otel ?ctx ''baggage'' = Some (LongString (baggage_text ?es))"
    using carrier_inject(2) [OF laws(2) es, of "fst ?ctx"] by simp
  have htp: "?h ''traceparent'' = Some (LongString tp)" using tp(2) by (simp add: inject_context_other)
  have hb: "?h ''baggage'' = Some (LongString (baggage_text ?es))" using b by (simp add: inject_context_other)
  note vtp = required_visible [where h = "oo_inject otel ?ctx" and k = "''traceparent''", OF tp(2) w3c_traceparent_ok(2,3) [OF tp(1)]]
  have "\<exists>ts. required_amqp_header ?h ''tracestate'' = Inr ts \<and> amqp_validate_tracestate ts = Inr ()"
  proof (cases "case amqp_header_value (oo_inject otel ?ctx) ''tracestate'' of None \<Rightarrow> True | Some v \<Rightarrow> blank v")
    case True
    then have "?h = (oo_inject otel ?ctx)(''tracestate'' \<mapsto> LongString ORDERS_DEFAULT_TRACESTATE)"
      using vtp by (simp add: inject_context_def Let_def)
    with default_tracestate_ok show ?thesis by metis
  next
    case False
    then obtain v where v: "amqp_header_value (oo_inject otel ?ctx) ''tracestate'' = Some v" "\<not> blank v" by (auto split: option.splits)
    then have "?h = oo_inject otel ?ctx" using vtp by (simp add: inject_context_def Let_def)
    moreover have "amqp_validate_tracestate (trim v) = Inr ()"
      using span(2) [unfolded tracestate_fits_def, rule_format, of "snd ?ctx"] v by (simp add: f [symmetric])
    ultimately show ?thesis using v by (simp add: required_amqp_header_def blank_def)
  qed
  then have "validate_propagation_headers ?h = Inr ()"
    using required_visible(2) [where h = ?h and k = "''traceparent''", OF htp w3c_traceparent_ok(2,3) [OF tp(1)]] w3c_traceparent_ok(1) [OF tp(1)]
      required_visible(2) [where h = ?h and k = "''baggage''", OF hb plain_text(2,3) [OF es(2) dist es(1)]] plain_text(1) [OF es(2) dist es(1)]
    by (auto simp: validate_propagation_headers_def)
  then show thesis using htp tp(1) hb es dist by (rule that)
qed

lemma portable_extract:
  assumes laws: "trace_laws otel" "carrier_laws bare otel" and span: "oo_valid otel (fst ctx)" "tracestate_fits otel (fst ctx)"
    and p: "portable bare otel ctx"
    and h: "\<And>k. k \<in> {''traceparent'', ''tracestate'', ''baggage''} \<Longrightarrow> h k = inject_context otel ctx k"
  obtains ctx' where "validate_propagation_headers h = Inr ()" "extract_context otel h = Inr ctx'" "portable bare otel ctx'"
proof -
  from portable_headers [OF laws span p] obtain tp es where
    v: "validate_propagation_headers (inject_context otel ctx) = Inr ()" and tp: "inject_context otel ctx ''traceparent'' = Some (LongString tp)"
    "w3c_traceparent tp" and b: "inject_context otel ctx ''baggage'' = Some (LongString (baggage_text es))"
    and es: "es \<noteq> []" "list_all (plain_entry bare) es" "distinct (map fst es)" .
  have val: "validate_propagation_headers h = Inr ()" using v validate_headers_cong [OF h] by simp
  have "h ''traceparent'' = Some (LongString tp)" "h ''baggage'' = Some (LongString (baggage_text es))" using h tp(1) b by simp_all
  with trace_extract [OF laws(1) val tp(2)] carrier_extract [OF laws(2) es]
  have ok: "oo_valid otel (fst (oo_extract otel h))" and s: "set (bg_iter (oo_api otel) (snd (oo_extract otel h))) = set es" by simp_all
  have "portable bare otel (oo_extract otel h)" using s es unfolding portable_def list_all_iff by (metis set_empty2)
  from portable_safe [OF laws(2) this] ok val show thesis
    by (intro that) (simp_all add: extract_context_def with_safe_baggage_def)
qed

end
