(* ===== verification/OrdersPoison.thy ===== *)
theory OrdersPoison
  imports OrdersFacts OrdersPropagator
begin

text \<open>
  The life of a poison event when neither the broker nor the database fails: the queue bound to the exchange of the
  retries is a list of deliveries, a negatively acknowledged delivery returns to it, and \<open>drain\<close> handles one delivery
  per unit of fuel. What the OpenTelemetry propagator promises is \<open>trace_laws\<close> and \<open>carrier_laws\<close>.
\<close>

definition calm_env :: "timestamp \<Rightarrow> delivery_env" where
  "calm_env now =
     \<lparr>de_pg = [], de_claim_pool = Pool_ok, de_claim_now = now, de_claim_faults = (False, False),
      de_mark_pool = Pool_ok, de_mark_now = now, de_mark_fault = False,
      de_release_pool = Pool_ok, de_release_now = now, de_release_fault = False,
      de_publish = Confirmation Ack_routed, de_ack = None, de_nack = None\<rparr>"

definition delivered_again :: "'p published \<Rightarrow> 'p amqp_delivery" where
  "delivered_again p =
     \<lparr>dl_data = pm_payload p, dl_headers = Some (pm_headers p), dl_message_id = Some (pm_message_id p), dl_tag = 0\<rparr>"

fun queued_by :: "'p amqp_delivery \<Rightarrow> 'p effect \<Rightarrow> 'p amqp_delivery list" where
  "queued_by d (Sent p confirmed) = (if confirmed \<and> pm_exchange p = SYNTHETIC_EXCHANGE then [delivered_again p] else [])"
| "queued_by d (Nacked_requeue requeue) = (if requeue then [d] else [])"
| "queued_by d _ = []"

fun drain ::
  "'p codec \<Rightarrow> ('c, 'b, 'm) order_otel \<Rightarrow> timestamp \<Rightarrow> nat \<Rightarrow> 'p amqp_delivery list \<Rightarrow> inbox_db
     \<Rightarrow> 'p amqp_delivery list \<times> inbox_db \<times> 'p effect list" where
  "drain codec otel now 0 q db = (q, db, [])"
| "drain codec otel now (Suc n) [] db = ([], db, [])"
| "drain codec otel now (Suc n) (d # q) db =
     (case handle_delivery codec otel (calm_env now) d db of
        (r, db1, es) \<Rightarrow>
          (case drain codec otel now n (q @ concat (map (queued_by d) es)) db1 of
             (q', db2, es2) \<Rightarrow> (q', db2, es @ es2)))"

subsection \<open>Copies\<close>

text \<open>
  The propagator of a consumer: it keeps the laws, and the span a delivery is handled in is valid and has a trace state that fits.
\<close>

definition working_propagator :: "'m \<Rightarrow> ('c, 'b, 'm) order_otel \<Rightarrow> bool" where
  "working_propagator bare otel \<longleftrightarrow>
     trace_laws otel \<and> carrier_laws bare otel \<and> oo_valid otel (fst (oo_current otel)) \<and> tracestate_fits otel (fst (oo_current otel))"

text \<open>The headers of a copy, and what the consumer of the copy makes of them.\<close>

definition copy_headers :: "('c, 'b, 'm) order_otel \<Rightarrow> field_table \<Rightarrow> ('c, 'b) otel_context \<Rightarrow> u32 \<Rightarrow> field_table" where
  "copy_headers otel inbound_headers inbound k =
     (let headers = (inject_context otel (context_with_inbound_baggage (oo_api otel) (oo_current otel) inbound))(''x-order-attempt'' \<mapsto> LongUInt k) in
      case amqp_header_value inbound_headers ''messaging.orphan'' of
        None \<Rightarrow> headers
      | Some marker \<Rightarrow> headers(''messaging.orphan'' \<mapsto> LongString (trim marker)))"

lemma copy_headers_carrier:
  "k' \<in> {''traceparent'', ''tracestate'', ''baggage''} \<Longrightarrow>
     copy_headers otel h inbound k k' = inject_context otel (context_with_inbound_baggage (oo_api otel) (oo_current otel) inbound) k'"
  by (auto simp: copy_headers_def Let_def split: option.splits)

lemma copy_headers_attempt [simp]: "copy_headers otel h inbound k ''x-order-attempt'' = Some (LongUInt k)"
  by (simp add: copy_headers_def Let_def split: option.split)

lemma copy_extract:
  assumes laws: "working_propagator bare otel" and t: "portable bare otel inbound"
  obtains ctx where "extract_context otel (copy_headers otel h inbound k) = Inr ctx" "portable bare otel ctx"
    "validate_propagation_headers (copy_headers otel h inbound k) = Inr ()"
    "validate_propagation_headers (inject_context otel (context_with_inbound_baggage (oo_api otel) (oo_current otel) inbound)) = Inr ()"
proof -
  let ?ctx = "context_with_inbound_baggage (oo_api otel) (oo_current otel) inbound" and ?h = "copy_headers otel h inbound k"
  have l: "trace_laws otel" "carrier_laws bare otel" and v: "oo_valid otel (fst ?ctx)" "tracestate_fits otel (fst ?ctx)"
    using laws by (simp_all add: working_propagator_def context_with_inbound_baggage_def)
  have t': "portable bare otel ?ctx" by (rule portable_inbound [OF l(2) t])
  from portable_extract [OF l v t' copy_headers_carrier] obtain ctx where
    "validate_propagation_headers ?h = Inr ()" "extract_context otel ?h = Inr ctx" "portable bare otel ctx" .
  moreover have "validate_propagation_headers (inject_context otel ?ctx) = Inr ()"
    by (rule portable_headers [OF l v t'])
  ultimately show thesis by (intro that)
qed

lemma republish_calm:
  assumes "working_propagator bare otel" "extract_context otel h = Inr inbound" "portable bare otel inbound"
  shows "republish otel (Confirmation Ack_routed) payload h mid k dest
    = (Inr (), [Sent \<lparr>pm_exchange = rd_exchange dest, pm_routing_key = rd_routing_key dest, pm_payload = payload,
                      pm_headers = copy_headers otel h inbound k, pm_message_id = mid\<rparr> True])"
proof -
  from copy_extract [OF assms(1,3), where h = h and k = k] obtain ctx where
    val: "validate_propagation_headers (copy_headers otel h inbound k) = Inr ()"
    "validate_propagation_headers (inject_context otel (context_with_inbound_baggage (oo_api otel) (oo_current otel) inbound)) = Inr ()"
    by blast
  then show ?thesis
    using assms(2) by (simp add: republish_def republish_headers_def Let_def publish_confirm_with_outcome_def
        require_routed_ack_def copy_headers_def split: option.splits)
qed

lemma copy_orphan:
  assumes laws: "trace_laws otel" and o: "orphan_marker h = Inr x"
  shows "\<exists>y. orphan_marker (copy_headers otel h inbound k) = Inr y"
proof (cases "amqp_header_value h ''messaging.orphan''")
  case None
  have "inject_context otel ctx ''messaging.orphan'' = None" for ctx
    by (simp add: inject_context_other trace_fields [OF laws])
  with None have "copy_headers otel h inbound k ''messaging.orphan'' = None" by (simp add: copy_headers_def Let_def)
  then have "orphan_marker (copy_headers otel h inbound k) = Inr False" by (simp add: orphan_marker_def amqp_header_value_def)
  then show ?thesis ..
next
  case (Some marker)
  with o obtain y where y: "trim marker = (if y then ''true'' else ''false'')"
    by (auto simp: orphan_marker_def split: if_splits)
  have "orphan_marker [''messaging.orphan'' \<mapsto> LongString (if y then ''true'' else ''false'')] = Inr y"
    by (cases y; simp only: if_True if_False; code_simp)
  moreover have "copy_headers otel h inbound k ''messaging.orphan'' = Some (LongString (trim marker))"
    using Some by (simp add: copy_headers_def Let_def)
  ultimately have "orphan_marker (copy_headers otel h inbound k) = Inr y"
    by (simp add: y orphan_marker_def amqp_header_value_def)
  then show ?thesis ..
qed

subsection \<open>One round\<close>

definition awaits :: "inbox_db \<Rightarrow> string \<times> string \<Rightarrow> int \<Rightarrow> bool" where
  "awaits db key k \<longleftrightarrow>
     (if k = 0 then key \<notin> ib_key ` set (inbox db) \<and> fst key \<in> set (ib_tenants db)
      else \<exists>r \<in> set (inbox db). ib_key r = key \<and> ib_status r = ''retry_scheduled'' \<and> ib_attempts r = k)"

definition held_at :: "inbox_db \<Rightarrow> string \<times> string \<Rightarrow> int \<Rightarrow> bool" where
  "held_at db key k \<longleftrightarrow>
     (\<exists>r \<in> set (inbox db). ib_key r = key \<and> ib_status r = ''processing'' \<and> ib_attempts r = k)"

lemma find_key:
  assumes "wf_inbox db" "r \<in> set (inbox db)" "ib_key r = key"
  shows "List.find (\<lambda>r. ib_key r = key) (inbox db) = Some r"
proof -
  have "List.find (\<lambda>r. ib_key r = key) (inbox db) \<noteq> None" using assms by (auto simp: find_None_iff)
  then obtain x where "List.find (\<lambda>r. ib_key r = key) (inbox db) = Some x" by blast
  with inbox_key_row_unique [OF assms(1) this assms(2,3)] show ?thesis by simp
qed

lemma claimed_row_check:
  assumes "inbox_check r" "0 < n" "in_i32 n" "in_i32 (ib_attempts r + 1)"
  shows "inbox_check (claimed_inbox_row now n carrier r)"
  using assms by (auto simp: inbox_check_def claimed_inbox_row_def split: prod.splits)

lemma upsert_taken:
  assumes wf: "wf_inbox db" and r: "r \<in> set (inbox db)" "ib_key r = (t, e)" and c: "inbox_claimable now n r"
    and n: "0 < n" "in_i32 n" "in_i32 (ib_attempts r + 1)"
  shows "upsert_inbox now t e n carrier db = Inr (Some (claimed_inbox_row now n carrier r),
    db\<lparr>inbox := update_where (\<lambda>x. ib_key x = (t, e)) (claimed_inbox_row now n carrier) (inbox db)\<rparr>)"
proof -
  have "inbox_check r" using wf r by (simp add: wf_inbox_def list_all_iff)
  then have "inbox_check (claimed_inbox_row now n carrier r)" using n by (intro claimed_row_check)
  then have "\<forall>x \<in> set (inbox db). ib_key x = (t, e) \<longrightarrow> inbox_check (claimed_inbox_row now n carrier x)"
    using inbox_key_row_unique [OF wf find_key [OF wf r]] by auto
  moreover have "inbox_check (new_inbox_row now t e n carrier)"
    using n by (auto simp: inbox_check_def new_inbox_row_def split: prod.splits)
  ultimately show ?thesis
    using c find_key [OF wf r] by (simp add: upsert_inbox_def Let_def sql_update_def list_all_iff)
qed

lemma claim_awaiting:
  assumes wf: "wf_inbox db" and w: "awaits db (t, e) (uint a - 1)" and a: "a \<in> {1, 2, 3}"
  obtains db1 where "inbox_claim_op [] False False Pool_ok now t e a carrier db
      = (Inr (Claimed \<lparr>ic_tenant_id = t, ic_event_id = e, ic_attempts = a\<rparr>), db1)"
    "held_at db1 (t, e) (uint a)"
proof -
  have ua: "0 < uint a" "uint a \<le> 3" "uint a \<le> i32_max" "in_i32 (uint a)" using a by (auto simp: int_range_defs)
  have "\<exists>row db1. upsert_inbox now t e (uint a) carrier db = Inr (Some row, db1) \<and> ib_attempts row = uint a
      \<and> held_at db1 (t, e) (uint a)"
  proof (cases "uint a - 1 = 0")
    case True
    then have "List.find (\<lambda>r. ib_key r = (t, e)) (inbox db) = None" "t \<in> set (ib_tenants db)"
      using w by (force simp: awaits_def find_None_iff image_iff)+
    moreover have "inbox_check (new_inbox_row now t e (uint a) carrier)"
      using ua by (auto simp: inbox_check_def new_inbox_row_def split: prod.splits)
    ultimately show ?thesis by (simp add: upsert_inbox_def Let_def held_at_def)
  next
    case False
    then obtain r where r: "r \<in> set (inbox db)" "ib_key r = (t, e)" and s: "ib_status r = ''retry_scheduled''" "ib_attempts r = uint a - 1"
      using w by (auto simp: awaits_def)
    have "inbox_claimable now (uint a) r" using s by (simp add: inbox_claimable_def)
    from upsert_taken [OF wf r this] ua s have u:
      "upsert_inbox now t e (uint a) carrier db = Inr (Some (claimed_inbox_row now (uint a) carrier r),
        db\<lparr>inbox := update_where (\<lambda>x. ib_key x = (t, e)) (claimed_inbox_row now (uint a) carrier) (inbox db)\<rparr>)"
      by simp
    moreover have "claimed_inbox_row now (uint a) carrier r \<in> set (update_where (\<lambda>x. ib_key x = (t, e)) (claimed_inbox_row now (uint a) carrier) (inbox db))"
      using r by (force simp: set_update_where)
    moreover have "ib_key (claimed_inbox_row now (uint a) carrier r) = (t, e)"
      "ib_attempts (claimed_inbox_row now (uint a) carrier r) = uint a" using r s by simp_all
    ultimately have "held_at (db\<lparr>inbox := update_where (\<lambda>x. ib_key x = (t, e)) (claimed_inbox_row now (uint a) carrier) (inbox db)\<rparr>)
        (t, e) (uint a)"
      unfolding held_at_def by (intro bexI [of _ "claimed_inbox_row now (uint a) carrier r"]) simp_all
    with u s show ?thesis by (intro exI conjI) (assumption | simp)+
  qed
  then obtain row db1 where u: "upsert_inbox now t e (uint a) carrier db = Inr (Some row, db1)" "ib_attempts row = uint a"
    "held_at db1 (t, e) (uint a)" by blast
  then have "inbox_claim_op [] False False Pool_ok now t e a carrier db
      = (Inr (Claimed \<lparr>ic_tenant_id = t, ic_event_id = e, ic_attempts = a\<rparr>), db1)"
    using ua by (simp add: inbox_claim_op_def transact_def inbox_acquire_def inbox_stmt_def)
  then show thesis using u(3) by (rule that)
qed

lemma settle_held:
  assumes wf: "wf_inbox db" and h: "held_at db (ic_tenant_id claim, ic_event_id claim) (uint (ic_attempts claim))"
    and f: "\<And>r. inbox_check r \<Longrightarrow> inbox_check (f r)" "\<And>r. ib_key (f r) = ib_key r \<and> ib_attempts (f r) = ib_attempts r \<and> ib_status (f r) = status"
  obtains db' where "settle_one operation (settle_claim [] False Pool_ok claim f db) = (Inr (), db')"
    "\<exists>r \<in> set (inbox db'). ib_key r = (ic_tenant_id claim, ic_event_id claim) \<and> ib_status r = status
       \<and> ib_attempts r = uint (ic_attempts claim)"
proof -
  let ?p = "claim_holds claim (uint (ic_attempts claim))"
  from h obtain r where r: "r \<in> set (inbox db)" "?p r" by (auto simp: held_at_def claim_holds_def ib_key_def)
  have "count_where ?p (inbox db) = 1"
  proof (rule count_where_eq_1 [where key = ib_key and r = r and p = ?p])
    show "distinct (map ib_key (inbox db))" using wf by (simp add: wf_inbox_def)
    show "ib_key x = ib_key r" if "?p x" for x using that r(2) by (simp add: claim_holds_def ib_key_def)
  qed (rule r)+
  moreover have chk: "\<forall>x \<in> set (inbox db). inbox_check x" using wf by (simp add: wf_inbox_def list_all_iff)
  moreover have "in_i32 (uint (ic_attempts claim))" using chk r by (auto simp: inbox_check_def claim_holds_def)
  ultimately have "settle_one operation (settle_claim [] False Pool_ok claim f db) = (Inr (), db\<lparr>inbox := update_where ?p f (inbox db)\<rparr>)"
    using f(1) by (simp add: settle_claim_def settle_one_def transact_def inbox_acquire_def inbox_stmt_def attempts_as_i32_def
        sql_update_def list_all_iff require_one_row_def in_i32_def)
  moreover have "f r \<in> set (update_where ?p f (inbox db))" using r by (force simp: set_update_where)
  moreover have "ib_key r = (ic_tenant_id claim, ic_event_id claim)" "ib_attempts r = uint (ic_attempts claim)"
    using r(2) by (simp_all add: claim_holds_def ib_key_def)
  ultimately show thesis using f(2) [of r] by (intro that) (auto intro!: bexI [of _ "f r"])
qed

definition good_delivery ::
  "'p codec \<Rightarrow> ('c, 'b, 'm) order_otel \<Rightarrow> order_message \<Rightarrow> u32 \<Rightarrow> 'p amqp_delivery \<Rightarrow> bool" where
  "good_delivery codec otel m a d \<longleftrightarrow>
     decode codec (dl_data d) = Inr (m\<lparr>om_attempt := a\<rparr>)
     \<and> is_ok (extract_context otel (delivery_headers d))
     \<and> is_ok (orphan_marker (delivery_headers d))
     \<and> canonical_attempt a (delivery_headers d) = Inr a
     \<and> validate_message (m\<lparr>om_attempt := a\<rparr>) d = Inr ()"

text \<open>The baggage the consumer keeps of a delivery is portable.\<close>

definition portable_delivery :: "'m \<Rightarrow> ('c, 'b, 'm) order_otel \<Rightarrow> 'p amqp_delivery \<Rightarrow> bool" where
  "portable_delivery bare otel d \<longleftrightarrow>
     (case extract_context otel (delivery_headers d) of Inl _ \<Rightarrow> False | Inr ctx \<Rightarrow> portable bare otel ctx)"

definition copy_sent ::
  "'p codec \<Rightarrow> ('c, 'b, 'm) order_otel \<Rightarrow> field_table \<Rightarrow> ('c, 'b) otel_context \<Rightarrow> order_message \<Rightarrow> u32 \<Rightarrow> republish_destination \<Rightarrow> 'p published" where
  "copy_sent codec otel h inbound m k dest =
     \<lparr>pm_exchange = rd_exchange dest, pm_routing_key = rd_routing_key dest,
      pm_payload = encode codec (m\<lparr>om_attempt := k\<rparr>), pm_headers = copy_headers otel h inbound k,
      pm_message_id = om_event_id m\<rparr>"

lemma hand_over_calm:
  assumes "working_propagator bare otel" "extract_context otel h = Inr inbound" "portable bare otel inbound"
    and "mark db = (Inr (), db')"
  shows "hand_over codec otel (calm_env now) h m claim k dest mark db
    = (Inr (), db', [Sent (copy_sent codec otel h inbound m k dest) True, Acked])"
  by (simp add: hand_over_def publish_or_fail_def act_then_def act_publish_def act_inbox_def ack_delivery_def
      calm_env_def copy_sent_def republish_calm [OF assms(1-3)] assms(4))

lemma canonical_small:
  "a \<in> {1, 2, 3} \<Longrightarrow> h ''x-order-attempt'' = Some (LongUInt a) \<Longrightarrow> canonical_attempt a h = Inr a"
  by (auto simp: canonical_attempt_def header_attempt_def u32_to_i32_def ORDERS_MAX_ATTEMPTS_def i32_max_def)

lemma copy_good:
  assumes laws: "working_propagator bare otel" and codec: "\<And>m. decode codec (encode codec m) = Inr m"
    and g: "good_delivery codec otel m a d" and x: "extract_context otel (delivery_headers d) = Inr inbound"
    and t: "portable bare otel inbound" and k: "k \<in> {1, 2, 3}"
  shows "good_delivery codec otel m k (delivered_again (copy_sent codec otel (delivery_headers d) inbound m k RETRY))"
    and "portable_delivery bare otel (delivered_again (copy_sent codec otel (delivery_headers d) inbound m k RETRY))"
proof -
  let ?h = "copy_headers otel (delivery_headers d) inbound k"
  from copy_extract [OF laws t] obtain ctx where c: "extract_context otel ?h = Inr ctx" "portable bare otel ctx" .
  have "is_ok (orphan_marker ?h)"
  proof -
    from g obtain y where "orphan_marker (delivery_headers d) = Inr y"
      unfolding good_delivery_def is_ok_def by (cases "orphan_marker (delivery_headers d)") auto
    moreover have "trace_laws otel" using laws by (simp add: working_propagator_def)
    ultimately obtain z where "orphan_marker ?h = Inr z" using copy_orphan by blast
    then show ?thesis by (simp add: is_ok_def)
  qed
  moreover have "canonical_attempt k ?h = Inr k" using k by (intro canonical_small) simp_all
  moreover have "\<not> blank (om_event_id m)" "\<not> blank (om_order_id m)" "\<not> blank (om_tenant_id m)" "\<not> blank (om_customer_id m)"
    using g by (auto simp: good_delivery_def validate_message_def split: if_splits)
  ultimately show "good_delivery codec otel m k (delivered_again (copy_sent codec otel (delivery_headers d) inbound m k RETRY))"
    using c(1) by (simp add: good_delivery_def delivered_again_def copy_sent_def delivery_headers_def validate_message_def codec)
  show "portable_delivery bare otel (delivered_again (copy_sent codec otel (delivery_headers d) inbound m k RETRY))"
    using c by (simp add: portable_delivery_def delivered_again_def copy_sent_def delivery_headers_def)
qed

lemma process_to_claim:
  assumes g: "good_delivery codec otel m a d" and x: "extract_context otel (delivery_headers d) = Inr inbound"
    and c: "inbox_claim_op [] False False Pool_ok now (om_tenant_id m) (om_event_id m) a (context_carrier otel inbound) db
      = (Inr (Claimed claim), db1)"
    and p: "process_claimed codec otel (calm_env now) (delivery_headers d) (m\<lparr>om_attempt := a\<rparr>) claim db1 = (Inr (), db', es)"
  shows "handle_delivery codec otel (calm_env now) d db = (Inr (), db', es)"
proof -
  from g obtain y where "orphan_marker (delivery_headers d) = Inr y"
    unfolding good_delivery_def is_ok_def by (cases "orphan_marker (delivery_headers d)") auto
  then have "delivery_context otel (delivery_headers d) = Inr inbound" using x by (simp add: delivery_context_def)
  moreover have "process_delivery codec otel (calm_env now) d (delivery_headers d) inbound db = (Inr (), db', es)"
    using g c p by (simp add: good_delivery_def process_delivery_def act_then_def act_result_def act_inbox_def calm_env_def)
  ultimately show ?thesis by (simp add: handle_delivery_def)
qed

lemma poison_round:
  assumes laws: "working_propagator bare otel" and codec: "\<And>m. decode codec (encode codec m) = Inr m"
    and wf: "wf_inbox db" and g: "good_delivery codec otel m a d" "portable_delivery bare otel d" and poison: "om_poison m"
    and w: "awaits db (event_key m) (uint a - 1)" and a: "a \<in> {1, 2, 3}"
  obtains (retried) db' p where "a \<in> {1, 2}"
      "handle_delivery codec otel (calm_env now) d db = (Inr (), db', [Sent p True, Acked])"
      "retry_copy codec m (a + 1) p" "awaits db' (event_key m) (uint (a + 1) - 1)"
      "good_delivery codec otel m (a + 1) (delivered_again p)" "portable_delivery bare otel (delivered_again p)"
  | (dead) db' p where "a = 3"
      "handle_delivery codec otel (calm_env now) d db = (Inr (), db', [Sent p True, Acked])"
      "dead_copy (encode codec (m\<lparr>om_attempt := 3\<rparr>)) (om_event_id m) p" "inbox_has db' (event_key m) ''dead_lettered''"
proof -
  let ?claim = "\<lparr>ic_tenant_id = om_tenant_id m, ic_event_id = om_event_id m, ic_attempts = a\<rparr>"
  let ?h = "delivery_headers d" and ?m = "m\<lparr>om_attempt := a\<rparr>"
  from g(2) obtain inbound where x: "extract_context otel ?h = Inr inbound" and t: "portable bare otel inbound"
    by (auto simp: portable_delivery_def split: sum.splits)
  from claim_awaiting [OF wf w [unfolded event_key_def] a] obtain db1 where
    c: "inbox_claim_op [] False False Pool_ok now (om_tenant_id m) (om_event_id m) a (context_carrier otel inbound) db
      = (Inr (Claimed ?claim), db1)" and h: "held_at db1 (om_tenant_id m, om_event_id m) (uint a)" .
  have wf1: "wf_inbox db1" using claim_op.keeps_wf [OF wf] c by (metis snd_conv)
  have ua: "a = 1 \<or> a = 2 \<or> a = 3" using a by simp
  show thesis
  proof (cases "a = 3")
    case True
    from settle_held [OF wf1, of ?claim "settled_inbox_row now ''dead_lettered'' (bounded_text ''poison event exhausted durable attempts'')" "''dead_lettered''"
        "''mark durable order inbox dead-lettered''"] h
    obtain db' where mk: "mark_dead_lettered [] False Pool_ok now ?claim ''poison event exhausted durable attempts'' db1 = (Inr (), db')"
      by (auto simp: mark_dead_lettered_def settled_row_defs inbox_check_def)
    have "process_claimed codec otel (calm_env now) ?h ?m ?claim db1 = (Inr (), db',
        [Sent (copy_sent codec otel ?h inbound ?m 3 (DEAD_LETTER ''dead-letter'')) True, Acked])"
      using poison True hand_over_calm [OF laws x t, where mark = "mark_dead_lettered [] False Pool_ok now ?claim
        ''poison event exhausted durable attempts''", OF mk]
      by (simp add: process_claimed_def act_then_def act_result_def ORDERS_MAX_ATTEMPTS_def checked_u32_def int_range_defs calm_env_def)
    from dead [OF True process_to_claim [OF g(1) x c this]] mark_has(3) [OF mk] show thesis
      by (simp add: copy_of_def copy_sent_def DEAD_LETTER_def event_key_def)
  next
    case False
    from settle_held [OF wf1, of ?claim "settled_inbox_row now ''retry_scheduled'' (bounded_text ''poison event retry confirmed'')" "''retry_scheduled''"
        "''schedule durable order inbox retry''"] h
    obtain db' where mk: "mark_retry_scheduled [] False Pool_ok now ?claim ''poison event retry confirmed'' db1 = (Inr (), db')"
      and r: "\<exists>r \<in> set (inbox db'). ib_key r = event_key m \<and> ib_status r = ''retry_scheduled'' \<and> ib_attempts r = uint a"
      by (auto simp: mark_retry_scheduled_def settled_row_defs inbox_check_def event_key_def)
    have a2: "a \<in> {1, 2}" "of_int (uint a + 1) = a + 1" "uint (a + 1) - 1 = uint a" "uint a \<noteq> 0" "a + 1 \<in> {1, 2, 3}"
      using ua False by auto
    have "process_claimed codec otel (calm_env now) ?h ?m ?claim db1 = (Inr (), db',
        [Sent (copy_sent codec otel ?h inbound ?m (a + 1) RETRY) True, Acked])"
      using poison a2 hand_over_calm [OF laws x t, where mark = "mark_retry_scheduled [] False Pool_ok now ?claim
        ''poison event retry confirmed''", OF mk]
      by (auto simp: process_claimed_def act_then_def act_result_def ORDERS_MAX_ATTEMPTS_def checked_u32_def int_range_defs calm_env_def)
    from retried [OF a2(1) process_to_claim [OF g(1) x c this]] copy_good [OF laws codec g(1) x t a2(5)] r a2 show thesis
      by (simp add: copy_of_def copy_sent_def RETRY_def awaits_def)
  qed
qed

subsection \<open>An event that cannot be published again\<close>

text \<open>
  The carrier is accepted, but the filter leaves nothing of its baggage, so that the copy has no baggage header and fails the
  validation: it is refused before it is sent, the claim is released and the delivery returned to the queue.
\<close>

definition unpublishable :: "('c, 'b, 'm) order_otel \<Rightarrow> 'p amqp_delivery \<Rightarrow> bool" where
  "unpublishable otel d \<longleftrightarrow>
     (case extract_context otel (delivery_headers d) of
        Inl _ \<Rightarrow> False
      | Inr inbound \<Rightarrow>
          \<not> is_ok (validate_propagation_headers (inject_context otel
            (context_with_inbound_baggage (oo_api otel) (oo_current otel) inbound))))"

text \<open>The headers are well formed and name a valid span, and no entry of the baggage passes the filter.\<close>

definition stripped_delivery :: "('c, 'b, 'm) order_otel \<Rightarrow> 'p amqp_delivery \<Rightarrow> bool" where
  "stripped_delivery otel d \<longleftrightarrow>
     validate_propagation_headers (delivery_headers d) = Inr ()
     \<and> oo_valid otel (fst (oo_extract otel (delivery_headers d)))
     \<and> list_all (\<lambda>(k, v, m). \<not> is_safe_baggage_entry k v) (bg_iter (oo_api otel) (snd (oo_extract otel (delivery_headers d))))"

lemma collect_nothing: "carrier_laws bare otel \<Longrightarrow> bg_iter (oo_api otel) (bg_collect (oo_api otel) []) = []"
  using carrier_collect [of bare otel "[]"] by simp

lemma stripped_unpublishable:
  assumes laws: "carrier_laws bare otel" and s: "stripped_delivery otel d"
  shows "unpublishable otel d"
proof -
  let ?api = "oo_api otel" and ?h = "delivery_headers d"
  have "filter (\<lambda>(k, v, m). is_safe_baggage_entry k v) (bg_iter ?api (snd (oo_extract otel ?h))) = []"
    using s by (auto simp: stripped_delivery_def list_all_iff filter_empty_conv)
  then have e: "with_safe_baggage ?api (oo_extract otel ?h) = (fst (oo_extract otel ?h), bg_collect ?api [])"
    by (simp add: with_safe_baggage_def clone_baggage_def)
  have "extract_context otel ?h = Inr (fst (oo_extract otel ?h), bg_collect ?api [])"
    using s by (simp add: stripped_delivery_def extract_context_def e)
  moreover have "inject_context otel (c, bg_collect ?api []) ''baggage'' = None" for c
    by (simp add: inject_context_other with_safe_baggage_def clone_baggage_def collect_nothing [OF laws] carrier_inject(1) [OF laws])
  then have "required_amqp_header (inject_context otel (c, bg_collect ?api [])) ''baggage'' = Inl ''RabbitMQ baggage header is required''" for c
    by (simp add: required_amqp_header_def amqp_header_value_def)
  then have "\<not> is_ok (validate_propagation_headers (inject_context otel (c, bg_collect ?api [])))" for c
    by (auto simp: validate_propagation_headers_def and_then_def is_ok_def split: sum.splits)
  ultimately show ?thesis
    by (simp add: unpublishable_def context_with_inbound_baggage_def collect_nothing [OF laws])
qed

definition returned_at :: "timestamp \<Rightarrow> inbox_db \<Rightarrow> string \<times> string \<Rightarrow> int \<Rightarrow> bool" where
  "returned_at now db key k \<longleftrightarrow>
     (if k = 0 then key \<notin> ib_key ` set (inbox db) \<and> fst key \<in> set (ib_tenants db)
      else \<exists>r \<in> set (inbox db). ib_key r = key \<and> ib_status r = ''processing'' \<and> ib_attempts r = k \<and> ib_lease_until r \<le> now)"

lemma claim_returned:
  assumes wf: "wf_inbox db" and w: "returned_at now db (t, e) k" and k: "0 \<le> k" "k < i32_max"
  obtains db1 where "inbox_claim_op [] False False Pool_ok now t e 1 carrier db
      = (Inr (Claimed \<lparr>ic_tenant_id = t, ic_event_id = e, ic_attempts = of_int (k + 1)\<rparr>), db1)"
    "held_at db1 (t, e) (k + 1)"
proof (cases "k = 0")
  case True
  then have "awaits db (t, e) (uint (1::u32) - 1)" using w by (simp add: returned_at_def awaits_def)
  from claim_awaiting [OF wf this, where now = now and carrier = carrier] obtain db1 where
    "inbox_claim_op [] False False Pool_ok now t e 1 carrier db
       = (Inr (Claimed \<lparr>ic_tenant_id = t, ic_event_id = e, ic_attempts = 1\<rparr>), db1)" "held_at db1 (t, e) (uint (1::u32))"
    by blast
  with True show thesis by (intro that [of db1]) simp_all
next
  case False
  then obtain r where r: "r \<in> set (inbox db)" "ib_key r = (t, e)"
    and s: "ib_status r = ''processing''" "ib_attempts r = k" "ib_lease_until r \<le> now"
    using w by (auto simp: returned_at_def)
  let ?rows = "update_where (\<lambda>x. ib_key x = (t, e)) (claimed_inbox_row now 1 carrier) (inbox db)"
  have "inbox_claimable now 1 r" using s by (simp add: inbox_claimable_def)
  from upsert_taken [OF wf r this] s k have
    u: "upsert_inbox now t e 1 carrier db = Inr (Some (claimed_inbox_row now 1 carrier r), db\<lparr>inbox := ?rows\<rparr>)"
    by (simp add: int_range_defs)
  have f: "ib_attempts (claimed_inbox_row now 1 carrier r) = k + 1" using False k s by simp
  with u k have "inbox_claim_op [] False False Pool_ok now t e 1 carrier db
      = (Inr (Claimed \<lparr>ic_tenant_id = t, ic_event_id = e, ic_attempts = of_int (k + 1)\<rparr>), db\<lparr>inbox := ?rows\<rparr>)"
    by (simp add: inbox_claim_op_def transact_def inbox_acquire_def inbox_stmt_def i32_max_def)
  moreover have "claimed_inbox_row now 1 carrier r \<in> set ?rows" using r by (force simp: set_update_where)
  then have "held_at (db\<lparr>inbox := ?rows\<rparr>) (t, e) (k + 1)"
    unfolding held_at_def using r f by (intro bexI [of _ "claimed_inbox_row now 1 carrier r"]) simp_all
  ultimately show thesis by (rule that)
qed

lemma republish_refused:
  assumes "unpublishable otel d"
  obtains err where "republish otel io payload (delivery_headers d) mid k dest
    = (Inl \<lparr>pe_error = err, pe_outcome_unknown = False\<rparr>, [])"
  using assms
  by (auto simp: unpublishable_def republish_def republish_headers_def Let_def is_ok_def split: sum.splits)

lemma hand_over_refused:
  assumes "unpublishable otel d"
  obtains err where "hand_over codec otel env (delivery_headers d) m claim k dest mark db
    = (Inl (failure_retryable err (Some m) (Some claim) False), db, [])"
proof -
  obtain err where "republish otel (de_publish env) (encode codec (m\<lparr>om_attempt := k\<rparr>)) (delivery_headers d) (om_event_id m) k dest
    = (Inl \<lparr>pe_error = err, pe_outcome_unknown = False\<rparr>, [])"
    by (rule republish_refused [OF assms])
  then show thesis by (intro that [of err]) (simp add: hand_over_def publish_or_fail_def act_then_def act_publish_def)
qed

lemma process_refused:
  assumes "unpublishable otel d" "om_poison m" "uint (ic_attempts claim) \<le> i32_max"
  obtains err where "process_claimed codec otel env (delivery_headers d) m claim db
    = (Inl (failure_retryable err (Some m) (Some claim) False), db, [])"
proof -
  have c: "checked_u32 (uint (ic_attempts claim) + 1) = Some (uint (ic_attempts claim) + 1)"
    using assms(3) by (simp add: int_range_defs)
  have skip: "act_then (act_result (Inr x)) f db = f x db" for x and f :: "int \<Rightarrow> ('p, delivery_failure, unit) action"
    by (simp add: act_then_def act_result_def split: prod.split)
  have "\<exists>err. hand_over codec otel env (delivery_headers d) m claim k dest mark db
      = (Inl (failure_retryable err (Some m) (Some claim) False), db, [])" for k dest mark
    by (rule hand_over_refused [OF assms(1)]) blast
  then have "\<exists>err. process_claimed codec otel env (delivery_headers d) m claim db
      = (Inl (failure_retryable err (Some m) (Some claim) False), db, [])"
    using assms(2) by (simp add: process_claimed_def c skip)
  then show thesis using that by blast
qed

lemma release_held:
  assumes wf: "wf_inbox db" and h: "held_at db (ic_tenant_id claim, ic_event_id claim) (uint (ic_attempts claim))"
  obtains db' where "release_claim [] False Pool_ok now claim err db = (Inr (), db')"
    "\<exists>r \<in> set (inbox db'). ib_key r = (ic_tenant_id claim, ic_event_id claim) \<and> ib_status r = ''processing''
       \<and> ib_attempts r = uint (ic_attempts claim) \<and> ib_lease_until r \<le> now"
proof -
  let ?p = "claim_holds claim (uint (ic_attempts claim))" and ?f = "released_inbox_row now (bounded_text err)"
  from h obtain r where r: "r \<in> set (inbox db)" "?p r" by (auto simp: held_at_def claim_holds_def ib_key_def)
  have chk: "\<forall>x \<in> set (inbox db). inbox_check x" using wf by (simp add: wf_inbox_def list_all_iff)
  then have "uint (ic_attempts claim) \<le> i32_max" using r by (auto simp: inbox_check_def claim_holds_def in_i32_def)
  moreover have "\<forall>x \<in> set (inbox db). inbox_check (?f x)" using chk by (simp add: released_inbox_row_def inbox_check_def)
  ultimately have "release_claim [] False Pool_ok now claim err db = (Inr (), db\<lparr>inbox := update_where ?p ?f (inbox db)\<rparr>)"
    by (simp add: release_claim_def settle_claim_def transact_def inbox_acquire_def inbox_stmt_def attempts_as_i32_def
        sql_update_def list_all_iff)
  moreover have "?f r \<in> set (update_where ?p ?f (inbox db))" using r by (force simp: set_update_where)
  moreover have "ib_key (?f r) = (ic_tenant_id claim, ic_event_id claim)" "ib_attempts (?f r) = uint (ic_attempts claim)"
    "ib_status (?f r) = ''processing''" "ib_lease_until (?f r) \<le> now"
    using r(2) by (simp_all add: claim_holds_def settled_row_defs)
  ultimately show thesis by (intro that) (auto intro!: bexI [of _ "?f r"])
qed

lemma refused_round:
  assumes wf: "wf_inbox db" and u: "unpublishable otel d" and poison: "om_poison m"
    and dec: "decode codec (dl_data d) = Inr m" "is_ok (orphan_marker (delivery_headers d))"
      "canonical_attempt (om_attempt m) (delivery_headers d) = Inr 1" "validate_message m d = Inr ()"
    and w: "returned_at now db (event_key m) k" and k: "0 \<le> k" "k < i32_max"
  obtains db' where "handle_delivery codec otel (calm_env now) d db = (Inr (), db', [Nacked_requeue True])"
    "returned_at now db' (event_key m) (k + 1)"
proof -
  let ?claim = "\<lparr>ic_tenant_id = om_tenant_id m, ic_event_id = om_event_id m, ic_attempts = of_int (k + 1)\<rparr>"
  from u obtain inbound where x: "extract_context otel (delivery_headers d) = Inr inbound"
    by (auto simp: unpublishable_def split: sum.splits)
  from claim_returned [OF wf w [unfolded event_key_def] k] obtain db1 where
    c: "inbox_claim_op [] False False Pool_ok now (om_tenant_id m) (om_event_id m) 1 (context_carrier otel inbound) db
      = (Inr (Claimed ?claim), db1)" and h: "held_at db1 (om_tenant_id m, om_event_id m) (k + 1)" .
  have wf1: "wf_inbox db1" using claim_op.keeps_wf [OF wf] c by (metis snd_conv)
  have uk: "uint (of_int (k + 1) :: u32) = k + 1"
    unfolding uint_word_of_int_eq by (rule take_bit_int_eq_self) (use k in \<open>simp_all add: i32_max_def\<close>)
  from dec(2) obtain y where "orphan_marker (delivery_headers d) = Inr y"
    unfolding is_ok_def by (cases "orphan_marker (delivery_headers d)") auto
  then have ctx: "delivery_context otel (delivery_headers d) = Inr inbound" using x by (simp add: delivery_context_def)
  obtain err where p: "process_claimed codec otel (calm_env now) (delivery_headers d) m ?claim db1
      = (Inl (failure_retryable err (Some m) (Some ?claim) False), db1, [])"
    by (rule process_refused [OF u poison, where claim = ?claim]) (use uk k in auto)
  have hc: "held_at db1 (ic_tenant_id ?claim, ic_event_id ?claim) (uint (ic_attempts ?claim))" using h uk by simp
  obtain db' where
    r: "release_claim [] False Pool_ok now ?claim err db1 = (Inr (), db')"
    and s: "\<exists>r \<in> set (inbox db'). ib_key r = event_key m \<and> ib_status r = ''processing'' \<and> ib_attempts r = k + 1 \<and> ib_lease_until r \<le> now"
    by (rule release_held [OF wf1 hc, where now = now and err = err]) (use uk that in \<open>simp add: event_key_def\<close>)
  have "process_delivery codec otel (calm_env now) d (delivery_headers d) inbound db
      = (Inl (failure_retryable err (Some m) (Some ?claim) False), db1, [])"
    using dec c p by (simp add: process_delivery_def act_then_def act_result_def act_inbox_def calm_env_def)
  moreover have "recover otel (calm_env now) d (failure_retryable err (Some m) (Some ?claim) False) db1
      = (Inr (), db', [Nacked_requeue True])"
    using r by (simp add: recover_def recover_failed_delivery_def failure_retryable_def failure_requires_reconnect_def
        act_then_def act_inbox_def nack_delivery_def calm_env_def)
  ultimately have "handle_delivery codec otel (calm_env now) d db = (Inr (), db', [Nacked_requeue True])"
    using ctx by (simp add: handle_delivery_def)
  moreover have "returned_at now db' (event_key m) (k + 1)" using s k by (simp add: returned_at_def)
  ultimately show thesis by (rule that)
qed

lemma refused_forever:
  assumes u: "unpublishable otel d" and poison: "om_poison m"
    and dec: "decode codec (dl_data d) = Inr m" "is_ok (orphan_marker (delivery_headers d))"
      "canonical_attempt (om_attempt m) (delivery_headers d) = Inr 1" "validate_message m d = Inr ()"
  shows "wf_inbox db \<Longrightarrow> returned_at now db (event_key m) k \<Longrightarrow> 0 \<le> k \<Longrightarrow> k + int n \<le> i32_max
    \<Longrightarrow> \<exists>db'. drain codec otel now n [d] db = ([d], db', replicate n (Nacked_requeue True))"
proof (induction n arbitrary: db k)
  case (Suc n)
  obtain db1 where h: "handle_delivery codec otel (calm_env now) d db = (Inr (), db1, [Nacked_requeue True])"
    and r: "returned_at now db1 (event_key m) (k + 1)"
    by (rule refused_round [OF Suc.prems(1) u poison dec Suc.prems(2,3)]) (use Suc.prems(4) in auto)
  have wf: "wf_inbox db1"
    using act_soundD [OF handle_delivery_sound h] Suc.prems(1) by (simp add: inbox_sound_def)
  from Suc.IH [OF wf r] Suc.prems(3,4) obtain db' where
    "drain codec otel now n [d] db1 = ([d], db', replicate n (Nacked_requeue True))" by auto
  with h show ?case by simp
qed simp

end
