(* ===== verification/OrdersApi.thy ===== *)
theory OrdersApi
  imports OrdersPoison NotificationApi
begin

text \<open>
  The HTTP handlers of the orders service (\<open>services/orders/src/api.rs\<close>). \<open>parent\<close> is the context extracted from the
  request, \<open>current\<close> the one of the producer span, \<open>flag\<close> the value of the feature flag and \<open>uuid\<close> the fresh identifier.
  A response is the status code and the JSON body; the second component is what was sent to the broker.
\<close>

record publish_query =
  pq_poison :: bool
  pq_orphan :: bool
  pq_lag_ms :: u64
  pq_tenant_id :: "string option"
  pq_customer_id :: string

definition default_customer :: string where "default_customer = ''customer-acme-ava''"

definition orders_de_flag :: "string \<Rightarrow> bool" where
  "orders_de_flag v \<longleftrightarrow> v \<in> {''1'', ''true'', ''yes'', ''on''}"

definition orders_tenant_identity_error ::
  "(tenant_identity_error \<Rightarrow> string) \<Rightarrow> tenant_identity_error \<Rightarrow> int \<times> json" where
  "orders_tenant_identity_error identity_text error =
     (case (case error of
              Missing \<Rightarrow> (400, ''tenant_required'')
            | Invalid \<Rightarrow> (400, ''invalid_tenant'')
            | Conflicting \<Rightarrow> (409, ''identity_conflict'')) of
        (status, code) \<Rightarrow> (status, JObj [(''error'', JStr code), (''message'', JStr (identity_text error))]))"

definition orders_internal_error :: "int \<times> json" where
  "orders_internal_error = (503, JObj [(''error'', JStr ''messaging_unavailable'')])"

definition order_context ::
  "('b, 'm) baggage_api \<Rightarrow> bool \<Rightarrow> ('c, 'b) otel_context \<Rightarrow> ('d, 'b) otel_context \<Rightarrow> string \<Rightarrow> ('c, 'b) otel_context" where
  "order_context api orphan current parent tenant_id =
     (if orphan then with_business_context api current tenant_id ''standard'' ''standard'' ''us-east-1'' ''normal''
      else with_business_context_from_parent api current parent tenant_id ''standard'' ''standard'' ''us-east-1'' ''normal'')"

definition order_event :: "publish_query \<Rightarrow> bool \<Rightarrow> string \<Rightarrow> string \<Rightarrow> order_message" where
  "order_event query flag message_id tenant_id =
     \<lparr>om_event_id = message_id, om_order_id = message_id, om_tenant_id = tenant_id, om_customer_id = pq_customer_id query,
      om_event_type = ''order.requested'', om_poison = (pq_poison query \<or> flag),
      om_lag_ms = min (pq_lag_ms query) 30000, om_attempt = 1\<rparr>"

definition order_carrier :: "('c, 'b, 'm) order_otel \<Rightarrow> bool \<Rightarrow> ('c, 'b) otel_context \<Rightarrow> field_table" where
  "order_carrier otel orphan ctx =
     (let carrier = (inject_context otel ctx)(''x-order-attempt'' \<mapsto> LongUInt 1) in
      if orphan then carrier(''messaging.orphan'' \<mapsto> LongString ''true'') else carrier)"

definition publish ::
  "(tenant_identity_error \<Rightarrow> string) \<Rightarrow> to_str \<Rightarrow> 'p codec \<Rightarrow> ('c, 'b, 'm) order_otel \<Rightarrow> publish_io \<Rightarrow> string \<Rightarrow> bool
     \<Rightarrow> ('c, 'b) otel_context \<Rightarrow> ('d, 'b) otel_context \<Rightarrow> header_map \<Rightarrow> publish_query \<Rightarrow> (int \<times> json) \<times> 'p effect list" where
  "publish identity_text to_str codec otel io uuid flag current parent headers query =
     (case resolve_http_tenant_identity to_str headers (pq_tenant_id query) of
        Inl error \<Rightarrow> (orders_tenant_identity_error identity_text error, [])
      | Inr tenant_id \<Rightarrow>
          (let ctx = order_context (oo_api otel) (pq_orphan query) current parent tenant_id;
               message = order_event query flag uuid tenant_id in
           case publish_confirm io ROUTING_KEY (encode codec message) (order_carrier otel (pq_orphan query) ctx)
                  (om_order_id message) SYNTHETIC_EXCHANGE of
             (Inl _, es) \<Rightarrow> (orders_internal_error, es)
           | (Inr _, es) \<Rightarrow>
               ((200, JObj [(''order_id'', JStr (om_order_id message)), (''status'', JStr ''published''),
                  (''messaging_system'', JStr ''rabbitmq'')]), es)))"

definition orders_health :: "bool \<Rightarrow> bool \<Rightarrow> pool_result \<Rightarrow> bool \<Rightarrow> int \<times> json" where
  "orders_health rabbitmq consumer pool ping =
     (let durable_inbox = inbox_health pool ping in
      if rabbitmq \<and> consumer \<and> durable_inbox
      then (200, JObj [(''status'', JStr ''UP''), (''messaging'', JStr ''rabbitmq''), (''consumer'', JStr ''ready''),
             (''durable_inbox'', JStr ''ready'')])
      else (503, JObj [(''status'', JStr ''DOWN''),
             (''messaging'', JStr (if rabbitmq then ''rabbitmq'' else ''unavailable'')),
             (''consumer'', JStr (if consumer then ''ready'' else ''stopped'')),
             (''durable_inbox'', JStr (if durable_inbox then ''ready'' else ''unavailable''))]))"

subsection \<open>From the request to the consumer\<close>

lemma order_carrier_fields:
  "k \<in> {''traceparent'', ''tracestate'', ''baggage''} \<Longrightarrow> order_carrier otel orphan ctx k = inject_context otel ctx k"
  "order_carrier otel orphan ctx ''x-order-attempt'' = Some (LongUInt 1)"
  by (auto simp: order_carrier_def Let_def)

lemma order_carrier_orphan:
  assumes "trace_laws otel"
  shows "is_ok (orphan_marker (order_carrier otel orphan ctx))"
proof (cases orphan)
  case True
  have "orphan_marker [''messaging.orphan'' \<mapsto> LongString ''true''] = Inr True" by code_simp
  with True show ?thesis by (simp add: order_carrier_def Let_def orphan_marker_def amqp_header_value_def)
next
  case False
  have "inject_context otel ctx ''messaging.orphan'' = None"
    by (simp add: inject_context_other trace_fields [OF assms])
  with False show ?thesis by (simp add: order_carrier_def Let_def orphan_marker_def amqp_header_value_def)
qed

text \<open>What the publisher's own validation lets out, the consumer can extract.\<close>

lemma order_carrier_accepted:
  assumes laws: "trace_laws otel" and val: "validate_propagation_headers (order_carrier otel orphan ctx) = Inr ()"
  shows "is_ok (extract_context otel (order_carrier otel orphan ctx))"
proof -
  let ?h = "order_carrier otel orphan ctx" and ?c = "with_safe_baggage (oo_api otel) ctx"
  have tp: "?h ''traceparent'' = oo_inject otel ?c ''traceparent''" by (simp add: order_carrier_fields inject_context_other)
  have "oo_valid otel (fst ?c)"
  proof (rule ccontr)
    assume "\<not> oo_valid otel (fst ?c)"
    then have "?h ''traceparent'' = None" using trace_inject(2) [OF laws] tp by simp
    then have "required_amqp_header ?h ''traceparent'' = Inl ''RabbitMQ traceparent header is required''"
      by (simp add: required_amqp_header_def amqp_header_value_def)
    with val show False by (simp add: validate_propagation_headers_def)
  qed
  from trace_inject(1) [OF laws this] tp obtain t where "w3c_traceparent t" "?h ''traceparent'' = Some (LongString t)" by auto
  from trace_extract [OF laws val this] val show ?thesis
    by (simp add: extract_context_def with_safe_baggage_def is_ok_def)
qed

lemma publish_confirm_Inr:
  "publish_confirm io rk payload headers mid ex = (Inr u, es) \<Longrightarrow>
     es = [Sent \<lparr>pm_exchange = ex, pm_routing_key = rk, pm_payload = payload, pm_headers = headers, pm_message_id = mid\<rparr> True]
     \<and> validate_propagation_headers headers = Inr ()"
  using publish_outcome [where io = io and rk = rk and payload = payload and headers = headers and mid = mid and ex = ex]
  by (cases "validate_propagation_headers headers")
    (auto simp: publish_confirm_def publish_confirm_with_outcome_def split: prod.splits)

lemma published_good:
  assumes laws: "trace_laws otel" and codec: "\<And>m. decode codec (encode codec m) = Inr m"
    and val: "validate_propagation_headers (order_carrier otel orphan ctx) = Inr ()"
    and full: "\<not> blank uuid" "\<not> blank tenant_id" "\<not> blank (pq_customer_id query)"
  shows "good_delivery codec otel (order_event query flag uuid tenant_id) 1
    (delivered_again \<lparr>pm_exchange = SYNTHETIC_EXCHANGE, pm_routing_key = ROUTING_KEY,
       pm_payload = encode codec (order_event query flag uuid tenant_id),
       pm_headers = order_carrier otel orphan ctx, pm_message_id = uuid\<rparr>)"
proof -
  have "canonical_attempt 1 (order_carrier otel orphan ctx) = Inr 1"
    by (rule canonical_small) (simp_all add: order_carrier_fields)
  then show ?thesis
    using full order_carrier_accepted [OF laws val]
    by (simp add: good_delivery_def delivered_again_def delivery_headers_def codec order_event_def
        order_carrier_orphan [OF laws] validate_message_def)
qed

lemma good_order_is_completed:
  assumes wf: "wf_inbox db" and g: "good_delivery codec otel m 1 d" and calm: "\<not> om_poison m" and w: "awaits db (event_key m) 0"
  obtains db' where "handle_delivery codec otel (calm_env now) d db
      = (Inr (), db', [Order_consumed (om_order_id m) (om_tenant_id m), Acked])"
    "inbox_has db' (event_key m) ''completed''"
proof -
  let ?claim = "\<lparr>ic_tenant_id = om_tenant_id m, ic_event_id = om_event_id m, ic_attempts = (1::u32)\<rparr>"
  from g obtain inbound where x: "extract_context otel (delivery_headers d) = Inr inbound"
    by (auto simp: good_delivery_def is_ok_def split: sum.splits)
  have w1: "awaits db (om_tenant_id m, om_event_id m) (uint (1::u32) - 1)" using w by (simp add: event_key_def)
  obtain db1 where
    c: "inbox_claim_op [] False False Pool_ok now (om_tenant_id m) (om_event_id m) 1 (context_carrier otel inbound) db
      = (Inr (Claimed ?claim), db1)" and h: "held_at db1 (om_tenant_id m, om_event_id m) (uint (1::u32))"
    by (rule claim_awaiting [OF wf w1]) auto
  have wf1: "wf_inbox db1" using claim_op.keeps_wf [OF wf] c by (metis snd_conv)
  have hc: "held_at db1 (ic_tenant_id ?claim, ic_event_id ?claim) (uint (ic_attempts ?claim))" using h by simp
  obtain db' where mk: "mark_completed [] False Pool_ok now ?claim db1 = (Inr (), db')"
    by (rule settle_held [OF wf1 hc, where f = "completed_inbox_row now" and status = "''completed''"
        and operation = "''complete durable order inbox claim''"])
      (auto simp: mark_completed_def settled_row_defs inbox_check_def)
  have "process_claimed codec otel (calm_env now) (delivery_headers d) (m\<lparr>om_attempt := 1\<rparr>) ?claim db1
      = (Inr (), db', [Order_consumed (om_order_id m) (om_tenant_id m), Acked])"
    using calm mk by (simp add: process_claimed_def ORDERS_MAX_ATTEMPTS_def act_then_def act_emit_def act_inbox_def
        ack_delivery_def calm_env_def)
  from that [OF process_to_claim [OF g x c this]] mark_has(1) [OF mk] show thesis by (simp add: event_key_def)
qed

end
