(* ===== verification/OrdersProperties.thy ===== *)
theory OrdersProperties
  imports OrdersApi "HOL-Library.AList"
begin

text \<open>
  The properties of the orders service, with a sample broker, codec and propagator.
\<close>

subsection \<open>A sample\<close>

definition order_headers :: field_table where
  "order_headers =
     [''traceparent'' \<mapsto> LongString ''00-0af7651916cd43dd8448eb211c80319c-b7ad6b7169203331-01'',
      ''tracestate'' \<mapsto> LongString ''playground=commerce'', ''baggage'' \<mapsto> LongString ''tenant.id=acme'']"

definition order_api :: "((string \<times> string \<times> unit) list, unit) baggage_api" where
  "order_api = \<lparr>bg_iter = AList.clearjunk, bg_get = (\<lambda>b k. map_option fst (map_of b k)), bg_collect = (\<lambda>es. es),
     bg_insert_with_metadata = (\<lambda>k v m b. (k, v, m) # b), bg_insert = (\<lambda>k v b. (k, v, ()) # b)\<rparr>"

text \<open>
  A propagator over header texts: a span is its traceparent, baggage is written as a list of \<open>name=value\<close> and read back.
\<close>

definition sample_valid :: "string \<Rightarrow> bool" where
  "sample_valid tp \<longleftrightarrow> amqp_validate_traceparent tp = Inr () \<and> drop 53 tp \<in> {''00'', ''01''}"

definition read_members :: "string \<Rightarrow> (string \<times> string \<times> unit) list" where
  "read_members b =
     List.map_filter (\<lambda>m. map_option (\<lambda>(k, v). (k, v, ())) (split_once (CHR ''='') m)) (split_on (CHR '','') b)"

definition sample_inject :: "(string, (string \<times> string \<times> unit) list) otel_context \<Rightarrow> field_table" where
  "sample_inject ctx =
     (\<lambda>k. if k = ''traceparent'' \<and> sample_valid (fst ctx) then Some (LongString (fst ctx))
          else if k = ''baggage'' \<and> AList.clearjunk (snd ctx) \<noteq> [] then Some (LongString (baggage_text (AList.clearjunk (snd ctx))))
          else None)"

definition sample_extract :: "field_table \<Rightarrow> (string, (string \<times> string \<times> unit) list) otel_context" where
  "sample_extract h =
     (case amqp_header_value h ''traceparent'' of None \<Rightarrow> [] | Some tp \<Rightarrow> tp,
      case amqp_header_value h ''baggage'' of None \<Rightarrow> [] | Some b \<Rightarrow> read_members b)"

definition sample_span :: string where
  "sample_span = ''00-0af7651916cd43dd8448eb211c80319c-00f067aa0ba902b7-01''"

definition sample_otel :: "(string, (string \<times> string \<times> unit) list, unit) order_otel" where
  "sample_otel = \<lparr>oo_api = order_api, oo_extract = sample_extract, oo_valid = sample_valid, oo_inject = sample_inject,
     oo_current = (sample_span, [])\<rparr>"

definition sample_codec :: "order_message codec" where
  "sample_codec = \<lparr>encode = id, decode = Inr\<rparr>"

definition sample_order :: "bool \<Rightarrow> order_message" where
  "sample_order poison = \<lparr>om_event_id = ''e1'', om_order_id = ''o1'', om_tenant_id = ''acme'', om_customer_id = ''c1'',
     om_event_type = ''order.requested'', om_poison = poison, om_lag_ms = 0, om_attempt = 1\<rparr>"

definition sample_delivery :: "bool \<Rightarrow> order_message amqp_delivery" where
  "sample_delivery poison = \<lparr>dl_data = sample_order poison, dl_headers = Some (order_headers(''x-order-attempt'' \<mapsto> LongUInt 1)),
     dl_message_id = Some ''e1'', dl_tag = 7\<rparr>"

definition sample_inbox :: inbox_db where
  "sample_inbox = \<lparr>inbox = [], ib_tenants = [''acme'']\<rparr>"

definition sample_completed :: inbox_db where
  "sample_completed = fst (snd (handle_delivery sample_codec sample_otel (calm_env 10) (sample_delivery False) sample_inbox))"

fun consumed_then_acked :: "'p effect list \<Rightarrow> string \<Rightarrow> string \<Rightarrow> bool" where
  "consumed_then_acked [Order_consumed a b, Acked] order tenant = (a = order \<and> b = tenant)"
| "consumed_then_acked _ _ _ = False"

lemma consumed_then_ackedD: "consumed_then_acked es order tenant \<Longrightarrow> es = [Order_consumed order tenant, Acked]"
  by (cases "(es, order, tenant)" rule: consumed_then_acked.cases) simp_all

lemma sample_handled:
  "handle_delivery sample_codec sample_otel (calm_env 10) (sample_delivery False) sample_inbox
     = (Inr (), sample_completed, [Order_consumed ''o1'' ''acme'', Acked])"
proof -
  have "case handle_delivery sample_codec sample_otel (calm_env 10) (sample_delivery False) sample_inbox of
      (r, db, es) \<Rightarrow> r = Inr () \<and> consumed_then_acked es ''o1'' ''acme''"
    by code_simp
  then show ?thesis
    by (simp add: sample_completed_def prod_eq_iff split_beta consumed_then_ackedD)
qed

lemma sample_wf: "wf_inbox sample_inbox" "wf_inbox sample_completed"
  by code_simp+


lemma read_members_text:
  assumes "list_all (plain_entry ()) es" "es \<noteq> []"
  shows "read_members (baggage_text es) = es"
proof -
  have m: "split_once (CHR ''='') (entry_member e) = Some (fst e, fst (snd e))" if "e \<in> set es" for e
  proof -
    have "is_safe_baggage_entry (fst e) (fst (snd e))" using assms(1) that by (auto simp: list_all_iff plain_entry_def)
    then have "list_all is_unreserved (fst e)" using safe_keys_plain unfolding is_safe_baggage_entry_def by blast
    then have "CHR ''='' \<notin> set (fst e)" using unreserved_byte [of "CHR ''=''"] by (auto simp: list_all_iff)
    then show ?thesis by (cases e) (simp add: entry_member_def)
  qed
  have "List.map_filter (\<lambda>m. map_option (\<lambda>(k, v). (k, v, ())) (split_once (CHR ''='') m)) (map entry_member es) = es"
    using m by (induction es) (auto simp: map_filter_simps)
  then show ?thesis by (simp add: read_members_def split_plain_text [OF assms])
qed


lemma sample_carrier_laws: "carrier_laws () sample_otel"
proof -
  have ext: "snd (sample_extract h) = es"
    if "es \<noteq> []" "list_all (plain_entry ()) es" "distinct (map fst es)" "h ''baggage'' = Some (LongString (baggage_text es))" for h es
    using required_visible(1) [where h = h and k = "''baggage''", OF that(4) plain_text(2,3) [OF that(2,3,1)]]
    by (simp add: sample_extract_def read_members_text [OF that(2,1)])
  show ?thesis
    unfolding carrier_laws_def sample_otel_def
    by (auto simp: order_api_def sample_inject_def ext)
qed


lemma poison_sample_context: "\<exists>ctx. delivery_context sample_otel (delivery_headers (sample_delivery poison)) = Inr ctx"
proof -
  have "is_ok (delivery_context sample_otel (delivery_headers (sample_delivery True)))" by code_simp
  then show ?thesis
    by (cases "delivery_context sample_otel (delivery_headers (sample_delivery True))")
      (auto simp: is_ok_def delivery_headers_def sample_delivery_def)
qed

subsection \<open>Acknowledgement\<close>

lemma claimed_key:
  assumes "inbox_claim_op pg f1 f2 pool now t e n carrier db = (Inr (Claimed claim), db')"
  shows "ic_tenant_id claim = t \<and> ic_event_id claim = e"
  using assms by (cases rule: inbox_claim_opE) auto

lemma process_claimed_Inr:
  assumes "process_claimed codec otel env headers m claim db = (Inr u, db', es)"
  shows "(es = [Order_consumed (om_order_id m) (om_tenant_id m), Acked]
      \<and> inbox_has db' (ic_tenant_id claim, ic_event_id claim) ''completed'')
    \<or> (\<exists>p k. es = [Sent p True, Acked] \<and> retry_copy codec m k p \<and> k = ic_attempts claim + 1 \<and> uint k \<le> 3
      \<and> inbox_has db' (ic_tenant_id claim, ic_event_id claim) ''retry_scheduled'')
    \<or> (\<exists>p. es = [Sent p True, Acked] \<and> dead_copy (encode codec (m\<lparr>om_attempt := 3\<rparr>)) (om_event_id m) p
      \<and> inbox_has db' (ic_tenant_id claim, ic_event_id claim) ''dead_lettered'')"
proof -
  let ?dead = "\<lambda>kind reason. hand_over codec otel env headers m claim (of_int ORDERS_MAX_ATTEMPTS) (DEAD_LETTER kind)
      (mark_dead_lettered (de_pg env) (de_mark_fault env) (de_mark_pool env) (de_mark_now env) claim reason) db"
  let ?retry = "hand_over codec otel env headers m claim (of_int (uint (ic_attempts claim) + 1)) RETRY
      (mark_retry_scheduled (de_pg env) (de_mark_fault env) (de_mark_pool env) (de_mark_now env) claim
         ''poison event retry confirmed'') db"
  consider (dead) kind reason where "?dead kind reason = (Inr u, db', es)"
    | (retry) "uint (ic_attempts claim) + 1 \<le> 3" "?retry = (Inr u, db', es)"
    | (consumed) "es = [Order_consumed (om_order_id m) (om_tenant_id m), Acked]"
        "mark_completed (de_pg env) (de_mark_fault env) (de_mark_pool env) (de_mark_now env) claim db = (Inr (), db')"
    using assms unfolding process_claimed_def
    by (auto simp: act_then_Inr act_Inr ORDERS_MAX_ATTEMPTS_def split: if_splits)
  then show ?thesis
  proof cases
    case dead
    from hand_over_Inr [OF dead] show ?thesis
      by (auto simp: DEAD_LETTER_def ORDERS_MAX_ATTEMPTS_def dest: mark_has(3))
  next
    case retry
    have k: "of_int (uint (ic_attempts claim) + 1) = ic_attempts claim + 1" by simp
    have "uint (of_int (uint (ic_attempts claim) + 1) :: u32) = uint (ic_attempts claim) + 1"
      unfolding uint_word_of_int_eq by (rule take_bit_int_eq_self) (use retry(1) in simp_all)
    then have "uint (ic_attempts claim + 1) \<le> 3" using retry(1) k by simp
    with hand_over_Inr [OF retry(2)] show ?thesis by (auto simp: RETRY_def dest: mark_has(2))
  next
    case consumed
    then show ?thesis by (auto dest: mark_has(1))
  qed
qed

lemma process_delivery_Inr:
  assumes "process_delivery codec otel env delivery headers ctx db = (Inr u, db', es)"
  obtains m where "decode codec (dl_data delivery) = Inr m"
    "(es = [Order_consumed (om_order_id m) (om_tenant_id m), Acked] \<and> inbox_has db' (event_key m) ''completed'')
    \<or> (\<exists>p k. es = [Sent p True, Acked] \<and> retry_copy codec m k p \<and> uint k \<le> 3 \<and> inbox_has db' (event_key m) ''retry_scheduled'')
    \<or> (\<exists>p. es = [Sent p True, Acked] \<and> dead_copy (encode codec (m\<lparr>om_attempt := 3\<rparr>)) (om_event_id m) p
      \<and> inbox_has db' (event_key m) ''dead_lettered'')
    \<or> (es = [Acked] \<and> db' = db \<and> (inbox_has db (event_key m) ''completed''
      \<or> inbox_has db (event_key m) ''retry_scheduled'' \<or> inbox_has db (event_key m) ''dead_lettered''))"
proof -
  from assms obtain m attempt out db1 es1 where m: "decode codec (dl_data delivery) = Inr m"
    and c: "inbox_claim_op (de_pg env) (fst (de_claim_faults env)) (snd (de_claim_faults env)) (de_claim_pool env)
      (de_claim_now env) (om_tenant_id m) (om_event_id m) attempt (context_carrier otel ctx) db = (Inr out, db1)"
    and k: "(case out of
        Claimed claim \<Rightarrow> process_claimed codec otel env headers m claim
      | AlreadyHandled \<Rightarrow> ack_delivery (\<lambda>e. failure_ack_unknown e (Some m) None False) env
      | InFlight \<Rightarrow> act_result (Inl (failure_retryable ''order event is currently owned by another consumer lease'' (Some m) None False))) db1
        = (Inr u, db', es)"
    unfolding process_delivery_def by (auto simp: act_then_Inr act_Inr)
  show thesis
  proof (cases out)
    case (Claimed claim)
    with c have "event_key m = (ic_tenant_id claim, ic_event_id claim)" using claimed_key by (simp add: event_key_def)
    with process_claimed_Inr [of codec otel env headers m claim db1 u db' es] k Claimed m show thesis
      by (intro that [OF m]) auto
  next
    case AlreadyHandled
    from c [unfolded AlreadyHandled] obtain r where
      u: "upsert_inbox (de_claim_now env) (om_tenant_id m) (om_event_id m) (uint attempt) (context_carrier otel ctx) db = Inr (None, db1)"
      and f: "filter (\<lambda>r. ib_key r = (om_tenant_id m, om_event_id m)) (inbox db1) = [r]"
      and s: "ib_status r \<in> {''completed'', ''dead_lettered'', ''retry_scheduled''}"
      by (cases rule: inbox_claim_opE) auto
    from u have "db1 = db" by (cases rule: upsert_inboxE) auto
    moreover have "db' = db1" "es = [Acked]" using k AlreadyHandled by (simp_all add: act_Inr)
    moreover have "inbox_has db1 (event_key m) (ib_status r)"
      using filter_eq_singleD [OF f] by (auto simp: inbox_has_def list_ex_iff event_key_def)
    ultimately show thesis using s by (intro that [OF m]) auto
  next
    case InFlight
    with k show thesis by (simp add: act_result_def)
  qed
qed

text \<open>
  C20. An acknowledged order event is never lost: when the consumer acknowledges a delivery, the handling succeeded and
  one of five things holds. The order was consumed and its inbox row is completed; or a copy with an attempt number of at
  most three was confirmed by the broker on the retry exchange and the row is retry_scheduled; or a copy was confirmed on
  the dead-letter exchange and the row is dead_lettered; or the row was already completed, retry_scheduled or dead_lettered
  and nothing changed; or the delivery was malformed (its body does not decode, its attempt number is not one to three or differs
  from the header, an identifier is blank, or the message id names another event), it was confirmed on the dead-letter
  exchange as it came and nothing changed.
\<close>

theorem acknowledged_means_settled:
  assumes "handle_delivery codec otel env delivery db = (r, db', es)" "Acked \<in> set es"
  shows "r = Inr () \<and>
    ((\<exists>m. decode codec (dl_data delivery) = Inr m \<and>
        (es = [Order_consumed (om_order_id m) (om_tenant_id m), Acked] \<and> inbox_has db' (event_key m) ''completed''
        \<or> (\<exists>p k. es = [Sent p True, Acked] \<and> retry_copy codec m k p \<and> uint k \<le> 3 \<and> inbox_has db' (event_key m) ''retry_scheduled'')
        \<or> (\<exists>p. es = [Sent p True, Acked] \<and> dead_copy (encode codec (m\<lparr>om_attempt := 3\<rparr>)) (om_event_id m) p
            \<and> inbox_has db' (event_key m) ''dead_lettered'')
        \<or> es = [Acked] \<and> db' = db \<and> (inbox_has db (event_key m) ''completed''
            \<or> inbox_has db (event_key m) ''retry_scheduled'' \<or> inbox_has db (event_key m) ''dead_lettered'')))
     \<or> (malformed_delivery codec delivery
        \<and> (\<exists>p. es = [Sent p True, Acked] \<and> db' = db \<and> dead_copy (dl_data delivery) (delivery_message_id delivery) p)))"
  using assms(1)
proof (cases rule: handle_deliveryE)
  case (handled ctx)
  from handled(3) show ?thesis by (rule process_delivery_Inr) (use handled(1) in blast)
next
  case (invalid e r2)
  with assms(2) show ?thesis by (auto simp: nack_delivery_def split: option.splits)
next
  case (failed ctx failure db1 es1 es2 r2)
  have "filter settles es1 = []" using settles_lastD [OF process_settles failed(2)] by simp
  then have acked: "Acked \<in> set es2" using assms(2) failed(4) by (force simp: filter_empty_conv)
  then have m: "df_malformed failure"
    using failed(3) unfolding recover_def recover_failed_delivery_def
    by (auto simp: act_then_def act_result_def act_inbox_def nack_delivery_def split: if_splits option.splits prod.splits sum.splits)
  from process_malformed_early [unfolded malformed_early_def] failed(2) m
  have early: "db1 = db" "es1 = []" "\<not> df_dead_letter_without_republish failure" by blast+
  from recover_malformed_acked [of otel env delivery "delivery_headers delivery" db1 r2 db' es2] failed(3) m early acked
  obtain p where "r2 = Inr ()" "db' = db1" "es2 = [Sent p True, Acked]"
    "dead_copy (dl_data delivery) (delivery_message_id delivery) p"
    by (auto simp: recover_def)
  with failed early process_malformed_only [OF failed(2) m] show ?thesis by simp
qed

theorem acknowledged_means_settled_witness:
  "handle_delivery sample_codec sample_otel (calm_env 10) (sample_delivery False) sample_inbox
     = (Inr (), sample_completed, [Order_consumed ''o1'' ''acme'', Acked])
   \<and> (\<exists>m. decode sample_codec (dl_data (sample_delivery False)) = Inr m)"
  using acknowledged_means_settled [OF sample_handled] sample_handled by auto

text \<open>
  A delivery is settled exactly once: whatever the broker and the database do, handling a delivery sends one
  acknowledgement or negative acknowledgement when it succeeds, and none when it fails, so that a failed delivery stays
  with the broker until the connection is given up and is delivered again.
\<close>

theorem delivery_settled_once:
  "length (filter settles (snd (snd (handle_delivery codec otel env delivery db))))
     = (if fst (handle_delivery codec otel env delivery db) = Inr () then 1 else 0)"
proof -
  obtain r db' es where h: "handle_delivery codec otel env delivery db = (r, db', es)"
    by (cases "handle_delivery codec otel env delivery db")
  from h have "length (filter settles es) = (case r of Inl _ \<Rightarrow> 0 | Inr _ \<Rightarrow> 1)"
  proof (cases rule: handle_deliveryE)
    case (handled ctx)
    with settles_lastD [OF process_settles handled(3)] show ?thesis by simp
  next
    case (invalid e r2)
    with settles_lastD [OF settles_last_simps(3) invalid(2)] show ?thesis by (simp add: map_err_def split: sum.splits)
  next
    case (failed ctx failure db1 es1 es2 r2)
    with settles_lastD [OF process_settles failed(2)] settles_lastD [OF recover_settles failed(3)] show ?thesis
      by (simp add: map_err_def split: sum.splits)
  qed
  with h show ?thesis by (auto split: sum.splits)
qed

subsection \<open>The inbox\<close>

lemma refused_claim:
  assumes wf: "wf_inbox db" and r: "r \<in> set (inbox db)" "ib_key r = (t, e)" and f: "inbox_final r"
    and c: "inbox_claim_op pg f1 f2 pool now t e n carrier db = (Inr out, db')"
  shows "out = AlreadyHandled \<and> db' = db"
proof -
  note find = find_key [OF wf r]
  have n: "\<not> inbox_claimable now k r" for k using f by (auto simp: inbox_claimable_def inbox_final_def)
  have none: "row = None \<and> db1 = db" if "upsert_inbox now t e (uint n) carrier db = Inr (row, db1)" for row db1
    using that by (cases rule: upsert_inboxE) (use find n in auto)
  have "filter (\<lambda>r. ib_key r = (t, e)) (inbox db) = [r]"
    by (rule filter_unique [where key = ib_key]) (use wf r in \<open>auto simp: wf_inbox_def\<close>)
  with c f none show ?thesis
    by (cases rule: inbox_claim_opE) (force simp: inbox_final_def)+
qed

text \<open>
  C21. A completed or dead-lettered event stays so: from any well-formed inbox, after any sequence of deliveries with any
  faults, the inbox is well formed and the row of the event is unchanged; a further delivery of the event publishes
  nothing, consumes nothing and leaves the inbox as it is: it is acknowledged, or left with the broker.
\<close>

theorem finished_event_stays_finished:
  assumes wf: "wf_inbox db" and r: "r \<in> set (inbox db)" "inbox_final r"
    and run: "consume_events codec otel evs db = (res, db1, es1)"
    and m: "decode codec (dl_data delivery) = Inr m" "event_key m = ib_key r"
      "canonical_attempt (om_attempt m) (delivery_headers delivery) = Inr attempt" "validate_message m delivery = Inr ()"
    and ctx: "delivery_context otel (delivery_headers delivery) = Inr ctx"
    and h: "handle_delivery codec otel env delivery db1 = (out, db2, es2)"
  shows "wf_inbox db1 \<and> r \<in> set (inbox db1) \<and> db2 = db1 \<and> es2 \<in> {[Acked], []}"
proof -
  have wf1: "wf_inbox db1" using consumer.keeps_wf [OF wf, of codec otel evs] run by simp
  have r1: "r \<in> set (inbox db1)" using consumer.keeps_final [OF wf r, of codec otel evs] run by simp
  let ?claim = "inbox_claim_op (de_pg env) (fst (de_claim_faults env)) (snd (de_claim_faults env)) (de_claim_pool env)
      (de_claim_now env) (om_tenant_id m) (om_event_id m) attempt (context_carrier otel ctx) db1"
  obtain o1 d1 where c: "?claim = (o1, d1)" by fastforce
  have key: "ib_key r = (om_tenant_id m, om_event_id m)" using m(2) by (simp add: event_key_def)
  have d1: "d1 = db1 \<and> (\<forall>x. o1 = Inr x \<longrightarrow> x = AlreadyHandled)"
  proof (cases o1)
    case (Inl err)
    with transact_eq_InlD [OF c [unfolded inbox_claim_op_def Inl]] show ?thesis by simp
  next
    case (Inr x)
    with refused_claim [OF wf1 r1 key r(2) c [unfolded Inr]] show ?thesis by simp
  qed
  have p: "process_delivery codec otel env delivery (delivery_headers delivery) ctx db1
      = (case o1 of Inl err \<Rightarrow> (Inl (failure_retryable err (Some m) None False), db1, [])
         | Inr _ \<Rightarrow> ack_delivery (\<lambda>e. failure_ack_unknown e (Some m) None False) env db1)"
    using m c d1 by (cases o1) (simp_all add: process_delivery_def act_then_def act_result_def act_inbox_def ack_delivery_def split: option.split)
  have rec: "\<exists>e. recover otel env delivery failure d = (Inl e, d, [])"
    if "\<not> df_malformed failure" "df_claim failure = None" for failure d
    using that by (auto simp: recover_def recover_failed_delivery_def act_result_def)
  have "db2 = db1 \<and> es2 \<in> {[Acked], []}"
    using h
  proof (cases rule: handle_deliveryE)
    case (handled c')
    with ctx p show ?thesis by (auto simp: ack_delivery_def split: sum.splits option.splits)
  next
    case (failed c' failure d es1' es2' r2)
    from failed(1,2) ctx p have "\<not> df_malformed failure" "df_claim failure = None" "d = db1" "es1' = []"
      by (auto simp: ack_delivery_def failure_retryable_def failure_ack_unknown_def split: sum.splits option.splits)
    with failed(3) rec [of failure db1] failed(4) show ?thesis by auto
  qed (use ctx in simp)
  with wf1 r1 show ?thesis by simp
qed

lemma sample_final_row:
  "\<exists>r. inbox sample_completed = [r] \<and> ib_key r = (''acme'', ''e1'') \<and> inbox_final r"
proof -
  have "case inbox sample_completed of [r] \<Rightarrow> ib_key r = (''acme'', ''e1'') \<and> inbox_final r | _ \<Rightarrow> False" by code_simp
  then show ?thesis by (auto split: list.splits)
qed

theorem finished_event_stays_finished_witness:
  "wf_inbox sample_completed
   \<and> fst (snd (handle_delivery sample_codec sample_otel (calm_env 99) (sample_delivery False) sample_completed)) = sample_completed"
proof -
  obtain r where r: "inbox sample_completed = [r]" "ib_key r = (''acme'', ''e1'')" "inbox_final r" using sample_final_row by blast
  obtain ctx where ctx: "delivery_context sample_otel (delivery_headers (sample_delivery False)) = Inr ctx"
    using poison_sample_context by blast
  obtain o2 d2 e2 where h: "handle_delivery sample_codec sample_otel (calm_env 99) (sample_delivery False) sample_completed = (o2, d2, e2)"
    by (metis prod_cases3)
  have "canonical_attempt (om_attempt (sample_order False)) (delivery_headers (sample_delivery False)) = Inr 1"
    "validate_message (sample_order False) (sample_delivery False) = Inr ()" by code_simp+
  from finished_event_stays_finished [OF sample_wf(2) _ r(3) consume_events.simps(1) _ _ this ctx h] r
  have "d2 = sample_completed" by (simp add: sample_codec_def sample_delivery_def sample_order_def event_key_def)
  with h sample_wf(2) show ?thesis by simp
qed

text \<open>
  C22. A superseded claim is powerless: once a later claim has raised the attempts of a row, no statement of the older claim
  changes the inbox, however many deliveries were handled in between, and each of the three marks reports an error, so
  the older consumer never acknowledges.
\<close>

theorem superseded_claim_is_powerless:
  assumes wf: "wf_inbox db"
    and r: "r \<in> set (inbox db)" "ib_key r = (ic_tenant_id claim, ic_event_id claim)" "uint (ic_attempts claim) < ib_attempts r"
    and run: "consume_events codec otel evs db = (res, db1, es)"
  shows "(\<exists>e. mark_completed pg fault pool now claim db1 = (Inl e, db1))
    \<and> (\<exists>e. mark_retry_scheduled pg fault pool now claim reason db1 = (Inl e, db1))
    \<and> (\<exists>e. mark_dead_lettered pg fault pool now claim reason db1 = (Inl e, db1))
    \<and> snd (release_claim pg fault pool now claim reason db1) = db1"
proof -
  have wf1: "wf_inbox db1" using consumer.keeps_wf [OF wf, of codec otel evs] run by simp
  from consumer.advances [OF wf, of codec otel evs] run r(1) obtain r1 where
    r1: "r1 \<in> set (inbox db1)" "inbox_row_step r r1" by (auto simp: inbox_progress_def)
  have lost: "\<not> claim_holds claim (uint (ic_attempts claim)) x" if "x \<in> set (inbox db1)" for x
  proof
    assume c: "claim_holds claim (uint (ic_attempts claim)) x"
    then have "ib_key x = ib_key r1" using r1(2) r(2) by (simp add: inbox_row_step_def claim_holds_def ib_key_def)
    then have "x = r1" using wf1 that r1(1) unfolding wf_inbox_def by (metis distinct_map_inj_on)
    with c r(3) r1(2) show False by (auto simp: claim_holds_def inbox_row_step_def)
  qed
  show ?thesis
    unfolding mark_completed_def mark_retry_scheduled_def mark_dead_lettered_def release_claim_db
    by (intro conjI settle_one_refused lost)
qed

definition sample_old_claim :: inbox_claim where
  "sample_old_claim = \<lparr>ic_tenant_id = ''acme'', ic_event_id = ''e1'', ic_attempts = 1\<rparr>"

definition sample_taken_over :: inbox_db where
  "sample_taken_over = \<lparr>inbox = [new_inbox_row 5 ''acme'' ''e1'' 2 (None, None, None)], ib_tenants = [''acme'']\<rparr>"

theorem superseded_claim_is_powerless_witness:
  "\<exists>e. mark_completed [] False Pool_ok 20 sample_old_claim sample_taken_over = (Inl e, sample_taken_over)"
proof -
  have "wf_inbox sample_taken_over" by code_simp
  from superseded_claim_is_powerless [OF this, of "new_inbox_row 5 ''acme'' ''e1'' 2 (None, None, None)" sample_old_claim,
      OF _ _ _ consume_events.simps(1), where pg = "[]" and fault = False and pool = Pool_ok and now = 20]
  show ?thesis by (simp add: sample_taken_over_def sample_old_claim_def)
qed

subsection \<open>Poison events\<close>


text \<open>
  C25. A poison event of whose baggage nothing passes the allow list is never dead-lettered, although broker and database
  work. The delivery is otherwise well formed: its carrier validates and names a valid span, it decodes, its first attempt agrees with
  the header, no identifier is blank, the tenant is known and the event new. But the copy the consumer would send has no baggage header
  and fails its own validation. However often the event is delivered, and however far its attempts exceed the budget of three, the
  delivery is returned to the queue, and nothing is sent or acknowledged.
\<close>

theorem unpublishable_event_returns_forever:
  assumes laws: "carrier_laws bare otel" and stripped: "stripped_delivery otel d"
    and d: "decode codec (dl_data d) = Inr m" "om_poison m" "is_ok (orphan_marker (delivery_headers d))"
      "canonical_attempt (om_attempt m) (delivery_headers d) = Inr 1" "validate_message m d = Inr ()"
    and db: "wf_inbox db" "event_key m \<notin> ib_key ` set (inbox db)" "om_tenant_id m \<in> set (ib_tenants db)" and n: "int n \<le> i32_max"
  shows "\<exists>db'. drain codec otel now n [d] db = ([d], db', replicate n (Nacked_requeue True))"
  by (rule refused_forever [OF stripped_unpublishable [OF laws stripped] d(2,1,3-5) db(1), where k = 0])
    (use db(2,3) n in \<open>simp_all add: returned_at_def event_key_def\<close>)



text \<open>An event whose only baggage entry is not allow-listed.\<close>

definition stripped_sample :: "order_message amqp_delivery" where
  "stripped_sample = (sample_delivery True)\<lparr>dl_headers :=
     Some (order_headers(''x-order-attempt'' \<mapsto> LongUInt 1, ''baggage'' \<mapsto> LongString ''team=x''))\<rparr>"

theorem unpublishable_event_returns_forever_witness:
  "\<exists>db'. drain sample_codec sample_otel 10 1000000 [stripped_sample] sample_inbox
     = ([stripped_sample], db', replicate 1000000 (Nacked_requeue True))"
proof -
  have "stripped_delivery sample_otel stripped_sample" "is_ok (orphan_marker (delivery_headers stripped_sample))"
    "canonical_attempt (om_attempt (sample_order True)) (delivery_headers stripped_sample) = Inr 1"
    "validate_message (sample_order True) stripped_sample = Inr ()" "om_poison (sample_order True)"
    "event_key (sample_order True) \<notin> ib_key ` set (inbox sample_inbox)"
    "om_tenant_id (sample_order True) \<in> set (ib_tenants sample_inbox)"
    by code_simp+
  moreover have "decode sample_codec (dl_data stripped_sample) = Inr (sample_order True)"
    by (simp add: sample_codec_def sample_delivery_def stripped_sample_def)
  ultimately show ?thesis
    using sample_wf(1) sample_carrier_laws by (intro unpublishable_event_returns_forever) (simp_all add: i32_max_def)
qed

subsection \<open>From the HTTP request to the consumed order\<close>






subsection \<open>Reconnection\<close>

definition round_fails :: "consume_round \<Rightarrow> bool" where
  "round_fails r \<longleftrightarrow> \<not> cn_shutdown r \<and> cn_consume r \<noteq> Inr True \<and> \<not> cn_wait_shutdown r
     \<and> cn_reconnect r \<in> {Reconnect_failed, Reconnect_timed_out}"

lemma next_delay_range: "1 \<le> d \<and> d \<le> 30 \<Longrightarrow> 1 \<le> next_reconnect_delay d \<and> next_reconnect_delay d \<le> 30"
  by (simp add: next_reconnect_delay_def RECONNECT_DELAY_MAX_def)

lemma consume_loop_delays:
  "1 \<le> d \<and> d \<le> 30 \<Longrightarrow> list_all (\<lambda>x. 1 \<le> x \<and> x \<le> 30) (snd (consume_loop rs d k))"
proof (induction rs d k rule: consume_loop.induct)
  case (2 r rs d k)
  have i: "1 \<le> RECONNECT_DELAY_INITIAL \<and> RECONNECT_DELAY_INITIAL \<le> 30" by (simp add: RECONNECT_DELAY_INITIAL_def)
  from 2 next_delay_range [OF 2(4)] i show ?case by (auto split: reconnect_io.splits prod.splits)
qed simp

lemma consume_loop_budget:
  "consume_loop rs d k = (Some (Inl e), ds) \<Longrightarrow> k \<le> 9 \<Longrightarrow> 9 - k \<le> length ds"
proof (induction rs d k arbitrary: ds rule: consume_loop.induct)
  case (2 r rs d k)
  then show ?case
    by (cases "cn_reconnect r") (fastforce simp: MAX_RECONNECT_FAILURES_def split: if_splits prod.splits)+
qed simp

text \<open>
  Reconnection is bounded: every wait is between one and thirty seconds; ten rounds in a row that lose the subscription
  and do not reconnect end the consumer with the budget error after waits of 1, 2, 4, 8, 16 and four times 30 seconds;
  and the consumer never gives up after fewer than nine waits.
\<close>

theorem reconnect_budget:
  "list_all (\<lambda>d. 1 \<le> d \<and> d \<le> 30) (snd (consume_loop rs RECONNECT_DELAY_INITIAL 0))
   \<and> (10 \<le> length rs \<and> list_all round_fails (take 10 rs) \<longrightarrow>
       consume_loop rs RECONNECT_DELAY_INITIAL 0
         = (Some (Inl ''orders consumer exceeded RabbitMQ reconnect budget''), [1, 2, 4, 8, 16, 30, 30, 30, 30]))
   \<and> (\<forall>e. fst (consume_loop rs RECONNECT_DELAY_INITIAL 0) = Some (Inl e) \<longrightarrow>
       9 \<le> length (snd (consume_loop rs RECONNECT_DELAY_INITIAL 0)))"
proof (intro conjI)
  show "list_all (\<lambda>d. 1 \<le> d \<and> d \<le> 30) (snd (consume_loop rs RECONNECT_DELAY_INITIAL 0))"
    by (rule consume_loop_delays) (simp add: RECONNECT_DELAY_INITIAL_def)
  show "\<forall>e. fst (consume_loop rs RECONNECT_DELAY_INITIAL 0) = Some (Inl e) \<longrightarrow>
       9 \<le> length (snd (consume_loop rs RECONNECT_DELAY_INITIAL 0))"
    using consume_loop_budget [of rs RECONNECT_DELAY_INITIAL 0] by (metis diff_zero prod.collapse zero_le)
  show "10 \<le> length rs \<and> list_all round_fails (take 10 rs) \<longrightarrow>
       consume_loop rs RECONNECT_DELAY_INITIAL 0
         = (Some (Inl ''orders consumer exceeded RabbitMQ reconnect budget''), [1, 2, 4, 8, 16, 30, 30, 30, 30])"
  proof
    assume a: "10 \<le> length rs \<and> list_all round_fails (take 10 rs)"
    then obtain r0 r1 r2 r3 r4 r5 r6 r7 r8 r9 rest where rs: "rs = [r0, r1, r2, r3, r4, r5, r6, r7, r8, r9] @ rest"
      by (auto simp: numeral_eq_Suc Suc_le_length_iff)
    have step: "round_fails r \<Longrightarrow> k < 9 \<Longrightarrow> consume_loop (r # rs) d k
        = (case consume_loop rs (next_reconnect_delay d) (k + 1) of (res, ds) \<Rightarrow> (res, d # ds))" for r rs d k
      by (auto simp: round_fails_def MAX_RECONNECT_FAILURES_def)
    have stop: "round_fails r \<Longrightarrow> 9 \<le> k \<Longrightarrow> consume_loop (r # rs) d k
        = (Some (Inl ''orders consumer exceeded RabbitMQ reconnect budget''), [])" for r rs d k
      by (auto simp: round_fails_def MAX_RECONNECT_FAILURES_def)
    show "consume_loop rs RECONNECT_DELAY_INITIAL 0
        = (Some (Inl ''orders consumer exceeded RabbitMQ reconnect budget''), [1, 2, 4, 8, 16, 30, 30, 30, 30])"
      using a by (simp add: rs step stop RECONNECT_DELAY_INITIAL_def next_reconnect_delay_def RECONNECT_DELAY_MAX_def del: consume_loop.simps)
  qed
qed

theorem reconnect_budget_witness:
  "fst (consume_loop (replicate 10 \<lparr>cn_shutdown = False, cn_consume = Inl [], cn_wait_shutdown = False,
      cn_reconnect = Reconnect_failed\<rparr>) RECONNECT_DELAY_INITIAL 0)
     = Some (Inl ''orders consumer exceeded RabbitMQ reconnect budget'')"
  using reconnect_budget [of "replicate 10 \<lparr>cn_shutdown = False, cn_consume = Inl [], cn_wait_shutdown = False,
      cn_reconnect = Reconnect_failed\<rparr>"] by (simp add: round_fails_def list_all_iff)

text \<open>
  The consumer's own W3C checks agree with those of the telemetry library: for every header text the traceparent and
  the tracestate validators of the orders service accept exactly what the shared validators accept.
\<close>

theorem order_carrier_validation_agrees:
  "(amqp_validate_traceparent v = Inr () \<longleftrightarrow> validate_traceparent_header v = Inr ())
   \<and> (amqp_validate_tracestate v = Inr () \<longleftrightarrow> validate_tracestate_header v = Inr ())"
  by (simp add: amqp_traceparent_eq amqp_tracestate_eq)

end
