(* ===== verification/Spec2Isabelle.thy ===== *)
theory Spec2Isabelle
  imports InventoryProperties PropagationProperties PricingProperties CheckoutProperties CheckoutSagaProperties CheckoutFindings CheckoutOutboxProperties CheckoutCartProperties NotificationProperties OrdersProperties
begin

text \<open>
  A verification development for the Rust services of the commerce telemetry playground.

  \<^bold>\<open>The program.\<close> Six Rust services share one PostgreSQL database and a telemetry library. Checkout
  (\<open>services/checkout\<close>) accepts an order request once per tenant and request id, asks catalog and pricing for a quote,
  reserves the stock, captures the payment, consumes the stock and finalizes the order; what a crash leaves open is taken up by its reconciliation and
  compensation workers. Inventory (\<open>services/inventory\<close>) keeps the stock ledger. Pricing (\<open>services/pricing\<close>)
  computes quotes and caches them in Redis. Notifications (\<open>services/notifications\<close>) keeps a ledger of messages to
  be delivered and a worker that delivers them. Orders (\<open>services/orders\<close>) publishes order events to RabbitMQ and
  consumes them under a durable inbox. All of them use the identity and trace propagation of
  \<open>libs/playground-telemetry/src/propagation.rs\<close>. Checkout and inventory meet in the table of checkout attempts: every
  stock operation of a checkout carries a fence (generation and lease token) that inventory checks against it.

  \<^bold>\<open>Conventions.\<close> A table is a list of records and the database a record of tables; a statement is a function that
  returns \<open>Inl\<close> for a violated constraint. \<open>transact\<close> keeps the database of a body that fails, which is the
  rollback; a commit that fails is taken to have been rolled back. Strings are lists of bytes, and the operations of
  \<open>str\<close> the code uses are defined on their UTF-8 encoding. \<open>u32\<close> and \<open>u64\<close> are words; the checked and saturating
  operations on signed integers are written out on \<open>int\<close>. Errors are the left side of a sum. What is not in the
  repository is a parameter: the time of each statement, the outcome of acquiring a connection (\<open>pool_result\<close>) and of
  a statement (a fault flag or \<open>io\<close> function), the text of driver errors, the collation, the rows another transaction
  has locked, fresh identifiers and lease tokens, the SHA-256 and JSON printers, the \<open>to_str\<close> of HTTP headers, the
  baggage and propagator of OpenTelemetry, Redis, the channel endpoints and the broker. Where a theorem needs such a
  parameter to behave, the hypothesis names it (\<open>baggage_laws\<close>, \<open>propagator_laws\<close>, a codec whose decoder inverts its
  encoder), and its witness instantiates it.

  \<^bold>\<open>Shared theories.\<close> \<open>Prelude\<close> has the result combinators, transactions and integer ranges; \<open>RustStr\<close> the
  strings; \<open>Tables\<close> the statements (\<open>sql_update\<close>, \<open>sql_insert\<close>, \<open>sql_upsert\<close>, \<open>query_opt\<close>) and what they keep;
  \<open>CommerceDb\<close> the schema with its \<open>CHECK\<close> constraints; \<open>Float64\<close> the binary64 rounding the discount uses.

  \<^bold>\<open>Propagation.\<close> \<open>Propagation\<close> models tenant resolution, the W3C validators, the environment carrier and the
  baggage filters; \<open>PropagationFacts\<close> and \<open>PropagationProperties\<close> characterise the validators, the resolved tenant,
  and show that only allow-listed baggage leaves a process.

  \<^bold>\<open>Inventory.\<close> \<open>InventoryDomain\<close> (\<open>domain.rs\<close>), \<open>InventoryStore\<close> (\<open>infrastructure.rs\<close>) and
  \<open>InventoryService\<close> (\<open>application.rs\<close>, \<open>api.rs\<close>) are the model. \<open>InventoryLedger\<close> states the invariant: every
  stock row has reserved units equal to the sum of its open holds and at most its stock. \<open>InventoryOps\<close> has the contract
  of an operation as a locale and its interpretation for reserve, release, consume and the reaper; \<open>InventoryHistory\<close>
  the step relation over them; \<open>InventoryEffects\<close> and \<open>InventoryRefine\<close> the refinement of an abstract ledger;
  \<open>InventoryReplay\<close> the repeated requests; \<open>InventoryMachine\<close> the interleaving; \<open>InventoryProperties\<close> the theorems.

  \<^bold>\<open>Pricing.\<close> \<open>PricingDomain\<close>, \<open>PricingStore\<close> and \<open>PricingService\<close> model \<open>domain.rs\<close>, \<open>infrastructure.rs\<close>,
  \<open>application.rs\<close> and \<open>api.rs\<close>; \<open>PricingProperties\<close> has the amounts of a quote, their ranges, where a quote may come
  from, and the collision of cache keys.

  \<^bold>\<open>Checkout.\<close> \<open>CheckoutDomain\<close>, \<open>CheckoutInput\<close>, \<open>CheckoutLease\<close>, \<open>CheckoutAttempt\<close> and \<open>CheckoutWorkers\<close>
  model identity, input normalisation, the fences, the idempotency record and the two workers. \<open>CheckoutMachine\<close> and
  \<open>CheckoutSteps\<close> have the invariant, the contract of a transaction and the interleaving of all of them;
  \<open>CheckoutFacts\<close> and \<open>CheckoutProperties\<close> the theorems: a recorded answer is final, a reclaimed generation is fenced
  out (also in inventory, whose fence check is the same row), workers stay within their budgets.

  \<^bold>\<open>Notifications.\<close> \<open>NotificationStore\<close>, \<open>NotificationWorker\<close> and \<open>NotificationApi\<close> model the service;
  \<open>NotificationMachine\<close>, \<open>NotificationSteps\<close> and \<open>NotificationRuns\<close> the invariant, the contract and the interleaving
  of requests and any number of workers that may crash between any two statements; \<open>NotificationFacts\<close> and
  \<open>NotificationProperties\<close> the theorems.

  \<^bold>\<open>Orders.\<close> \<open>OrdersCarrier\<close> models the AMQP headers and their validators, and proves them equivalent to the shared
  ones; \<open>OrdersInbox\<close> the inbox statements; \<open>OrdersConsumer\<close> publication, processing, recovery and the loops of
  \<open>messaging.rs\<close>; \<open>OrdersApi\<close> the handlers. The effects on the broker (messages with their confirmation,
  acknowledgements) are a list each operation returns. \<open>OrdersMachine\<close> has the invariant of the inbox and the contract
  \<open>inbox_op\<close> with its interpretations, \<open>OrdersFacts\<close> what each path does, \<open>OrdersPoison\<close> the queue under a working broker
  (\<open>drain\<close>, whose fuel is the number of deliveries), \<open>OrdersProperties\<close> the theorems.

  \<^bold>\<open>The checkout saga.\<close> \<open>application.rs\<close> from the quote to the paid order. \<open>CheckoutQuote\<close> has the request to pricing and
  the validation of its answer, \<open>CheckoutPayment\<close> the payment messages and their errors, \<open>CheckoutShop\<close> the order tables
  and \<open>create_pending_order\<close>, \<open>CheckoutSettle\<close> loading, cancelling and finalizing an order, \<open>CheckoutIntents\<close> the
  reconciliation row and the compensation tasks. \<open>CheckoutFlow\<close> has the type of a program: a function of an environment
  and a state, where the environment gives, per step, the answer of each service, what other processes do to the
  database, the time, the pool and the outcome of a commit, and the state carries the trace of calls and transactions.
  \<open>CheckoutSaga\<close> (stock and compensation), \<open>CheckoutRun\<close> (\<open>checkout_flow\<close> with its phases in the order of the code)
  and \<open>CheckoutEntry\<close> (\<open>checkout_inner\<close>, \<open>reconcile_pending_payment\<close> and the two worker rounds) are such programs.
  \<open>CheckoutTrace\<close> is a Hoare logic over traces; \<open>CheckoutSafety\<close> states the protocol, \<open>CheckoutGuard\<close> and
  \<open>CheckoutOutcome\<close> prove that every run follows it and that an answer is true of its run, \<open>CheckoutCharge\<close> that no
  capture is left without a durable intent, \<open>CheckoutCompensate\<close> what a compensation sends and how often,
  \<open>CheckoutOrder\<close> and \<open>CheckoutQuoteFacts\<close> the amounts. \<open>CheckoutSagaProperties\<close> has the theorems, \<open>CheckoutSample\<close> a
  concrete shop, \<open>CheckoutFindings\<close> the runs behind two findings.

  \<^bold>\<open>The outbox and the routes of checkout.\<close> \<open>CheckoutRabbit\<close> has the RabbitMQ connection (topology, generations, the
  supervisor) and the polling loop of the workers, with the locale \<open>polled\<close> for what such a loop keeps;
  \<open>CheckoutOutbox\<close> the claim, publication and settlement of the events that \<open>finalize_order\<close> writes (\<open>publish_one_outbox\<close>);
  \<open>CheckoutOutboxMachine\<close> several publishers as a step relation with crashes and lost answers, and the invariant that
  relates rows and messages; \<open>CheckoutOutboxProperties\<close> its theorems and the interpretation of \<open>polled\<close>. \<open>CheckoutCart\<close>
  has the HTTP routes of \<open>api.rs\<close>, \<open>CheckoutCartProperties\<close> the cart's theorems. A loop runs over the list of rounds it
  observes, so it needs no fuel; \<open>None\<close> is a loop that was not told to stop.

  \<^bold>\<open>Fuel and bounds.\<close> Loops over a finite input are recursive functions. The worker and consumer loops take the list
  of what they observe and say when it ends while they still run; \<open>drain\<close> takes the number of deliveries, and the theorems
  about it say how many are enough. Budgets (eight reconciliation attempts, three compensation attempts, four dispatches
  of a notification, three attempts of an order event, ten reconnections) are the constants of the code.

  \<^bold>\<open>Not modelled.\<close> The storefront; the
  recommendation service; the command line tools that drive and inspect a running system. The URL, headers and timeout of
  a call (a timeout is a failed reply), process start-up, signal handling, connection set-up, exporters, spans, metrics
  and log records have no effect on the states modelled here. The Java services, the web and macOS clients and the load
  generator are in other languages.
\<close>

end
